(* ===== verification/Prelude.thy ===== *)
theory Prelude
  imports Main "HOL-Library.Word" "HOL-Library.Multiset"
begin

text \<open>
  Shared vocabulary of the development: the machine-integer types of the sources, the
  conversions between them that C++ writes as casts, the lemma collections the component
  theories extend, and generic facts on words, lists and iteration that several components use.
\<close>

unbundle bit_operations_syntax

subsection \<open>Types and collections\<close>

type_synonym u8 = "8 word"
type_synonym u16 = "16 word"
type_synonym u32 = "32 word"
type_synonym u64 = "64 word"
type_synonym i32 = "32 word"
type_synonym i64 = "64 word"

named_theorems unat_simps \<open>reading machine words as natural numbers\<close>
named_theorems rng_simps \<open>unfolding of the random number generators\<close>
named_theorems step_intros \<open>introduction rules of the step relations\<close>

text \<open>
  Signed 32-bit values are kept as 32-bit words and read with \<open>sint\<close>; C's signed division
  and remainder truncate towards zero.
\<close>

definition c_div :: "int \<Rightarrow> int \<Rightarrow> int" where
  "c_div a b = sgn a * sgn b * (\<bar>a\<bar> div \<bar>b\<bar>)"

definition c_mod :: "int \<Rightarrow> int \<Rightarrow> int" where
  "c_mod a b = a - b * c_div a b"

text \<open>Two's complement wrap-around of an unbounded integer to a signed 32-bit value.\<close>

definition wrap32 :: "int \<Rightarrow> int" where
  "wrap32 x = (x + 2147483648) mod 4294967296 - 2147483648"

lemma wrap32_id [simp]: "- 2147483648 \<le> x \<Longrightarrow> x < 2147483648 \<Longrightarrow> wrap32 x = x"
  by (simp add: wrap32_def)

lemma wrap32_range: "- 2147483648 \<le> wrap32 x \<and> wrap32 x < 2147483648"
proof -
  have "0 \<le> (x + 2147483648) mod 4294967296" "(x + 2147483648) mod 4294967296 < 4294967296"
    by simp_all
  then show ?thesis unfolding wrap32_def by linarith
qed

lemma c_div_nonneg [simp]: "0 \<le> a \<Longrightarrow> 0 < b \<Longrightarrow> c_div a b = a div b"
  by (cases "a = 0") (simp_all add: c_div_def)

lemma c_mod_nonneg [simp]: "0 \<le> a \<Longrightarrow> 0 < b \<Longrightarrow> c_mod a b = a mod b"
  by (simp add: c_mod_def minus_mult_div_eq_mod)

subsection \<open>Words\<close>

lemma unat_take_bit [unat_simps]: "unat (take_bit n w) = unat w mod 2 ^ n"
  for w :: "'a::len word"
  by (subst unsigned_take_bit_eq) (rule take_bit_eq_mod)

lemma unat_drop_bit [unat_simps]: "unat (drop_bit n w) = unat w div 2 ^ n"
  for w :: "'a::len word"
  by (subst unat_drop_bit_eq) (rule drop_bit_eq_div)

lemma mod_pow_mod_pow: "k \<le> n \<Longrightarrow> (x mod 2 ^ n) mod 2 ^ k = (x::nat) mod 2 ^ k"
  by (simp add: le_imp_power_dvd mod_mod_cancel)

lemma unat_u64_add [unat_simps]: "unat (x + y :: u64) = (unat x + unat y) mod 2 ^ 64"
  by (simp add: unat_word_ariths)

lemma unat_u64_mult [unat_simps]: "unat (x * y :: u64) = (unat x * unat y) mod 2 ^ 64"
  by (simp add: unat_word_ariths)

subsection \<open>Iteration\<close>

lemma funpow_add_apply: "(f ^^ (m + n)) x = (f ^^ m) ((f ^^ n) x)"
  by (simp add: funpow_add)

lemma funpow_range: "(\<And>x. f x < (M::nat)) \<Longrightarrow> x < M \<Longrightarrow> (f ^^ n) x < M"
  by (cases n) auto

subsection \<open>Swapping two entries of a list\<close>

text \<open>The three-assignment exchange that the shuffles of the sources write out.\<close>

definition exchange :: "'a list \<Rightarrow> nat \<Rightarrow> nat \<Rightarrow> 'a list" where
  "exchange xs i j = (let b = xs ! i; ys = xs[i := xs ! j] in ys[j := b])"

lemma length_exchange [simp]: "length (exchange xs i j) = length xs"
  by (simp add: exchange_def Let_def)

lemma mset_exchange: "i < length xs \<Longrightarrow> j < length xs \<Longrightarrow> mset (exchange xs i j) = mset xs"
  unfolding exchange_def Let_def by (cases "i = j") (auto simp: mset_swap)

subsection \<open>Arithmetic of the generators\<close>

lemma mod_affine: "(x * (p mod M) + q mod M) mod M = (x * p + q) mod (M::nat)"
  by (metis mod_add_eq mod_add_left_eq mod_mult_right_eq)

lemma mod_affine_arg: "((x mod M) * p + q) mod M = (x * p + q) mod (M::nat)"
  by (metis mod_add_left_eq mod_mult_left_eq)

lemma mod_affine_pow:
  assumes "k \<le> n"
  shows "((x * m) mod 2 ^ n + a) mod 2 ^ n mod 2 ^ k = (x * m + a :: nat) mod 2 ^ k"
proof -
  have "((x * m) mod 2 ^ n + a) mod 2 ^ n = (x * m + a) mod 2 ^ n" by (simp add: mod_simps)
  then show ?thesis by (simp only: mod_pow_mod_pow [OF assms])
qed

lemma and_push_bit_1: "n AND push_bit i 1 = 0 \<longleftrightarrow> \<not> bit n i" for n :: u64
  using and_exp_eq_0_iff_not_bit [of n i] by (simp add: push_bit_eq_mult)

lemma bit_unat [simp]: "bit (unat w) i = bit w i" for w :: "'a::len word"
  by (simp add: bit_unsigned_iff)

lemma mod_pow_Suc: "n mod 2 ^ Suc i = (if bit n i then 2 ^ i else 0) + (n mod 2 ^ i :: nat)"
  using take_bit_Suc_from_most [of i n] by (simp add: take_bit_eq_mod)

lemma pow2_odd_decomp: "0 < (n::nat) \<Longrightarrow> \<exists>j k. n = 2 ^ j * k \<and> odd k"
proof (induction n rule: less_induct)
  case (less n)
  show ?case
  proof (cases "odd n")
    case True
    then show ?thesis by (intro exI [of _ 0] exI [of _ n]) simp
  next
    case False
    then obtain m where m: "n = 2 * m" by blast
    then have "m < n" "0 < m" using less.prems by simp_all
    then obtain j k where "m = 2 ^ j * k" "odd k" using less.IH by blast
    then show ?thesis using m by (intro exI [of _ "Suc j"] exI [of _ k]) simp
  qed
qed

lemma funpow_fixed: "f x = x \<Longrightarrow> (f ^^ n) x = x"
  by (induction n) simp_all

lemma unat_less: "unat w < 2 ^ LENGTH('a)" for w :: "'a::len word"
  by (rule unsigned_less)

lemma unat_ucast_u64 [simp]: "unat (ucast w :: u64) = unat w" for w :: u32
proof -
  have "unat w < 2 ^ 64" using unat_less [of w] by simp
  then show ?thesis by (simp add: unsigned_ucast_eq take_bit_nat_eq_self)
qed

lemma div_two_cases:
  assumes "0 \<le> x" and "x < 2 * c"
  shows "x div c = (if c \<le> x then 1 else (0::int))"
proof (cases "c \<le> x")
  case True
  then have "x div c = 1" using assms int_div_pos_eq [of x c 1 "x - c"] by simp
  with True show ?thesis by simp
qed (use assms in simp)

lemma sint_neg_iff: "sint w < 0 \<longleftrightarrow> 2147483648 \<le> unat w" for w :: u32
proof -
  have u: "uint w < 2 * 2147483648" using uint_bounded [of w] by simp
  have "sint w < 0 \<longleftrightarrow> bit (uint w) 31"
    by (simp add: sint_uint)
  also have "\<dots> \<longleftrightarrow> 2147483648 \<le> uint w"
    using div_two_cases [OF uint_ge_0 u] by (simp add: bit_iff_odd)
  finally show ?thesis unfolding uint_nat by linarith
qed

lemma pow2_branch_bound:
  fixes bound r :: u32
  assumes "unat r < 2 ^ 31" and "bound \<noteq> 0"
  shows "unat (ucast (drop_bit 31 (ucast bound * ucast r :: u64)) :: u32) < unat bound"
proof -
  have b: "unat bound < 4294967296" using unat_less [of bound] by simp
  have "unat bound * unat r \<le> 4294967296 * 2147483648"
    using b assms(1) by (intro mult_mono) simp_all
  then have small: "unat (ucast bound * ucast r :: u64) = unat bound * unat r"
    by (simp add: unat_u64_mult)
  have "unat bound * unat r < unat bound * 2147483648"
    using assms by (simp add: unat_gt_0)
  then have lt: "unat bound * unat r div 2147483648 < unat bound"
    by (simp add: less_mult_imp_div_less)
  then show ?thesis using b
    by (simp add: unsigned_ucast_eq unat_drop_bit small take_bit_nat_eq_self)
qed

lemma unat_and_1: "k AND 1 \<noteq> 0 \<longleftrightarrow> odd (unat k)" for k :: u64
  using and_exp_eq_0_iff_not_bit [of k 0] bit_unat [of k 0]
  by (auto simp add: bit_0)

lemma half_step: "(if odd n then j + i else j) + 2 * i * (n div 2) = j + i * (n::nat)"
  by (cases "even n") (auto elim!: evenE oddE simp: algebra_simps)

lemma sint_small: "unat w < 2147483648 \<Longrightarrow> sint w = int (unat w)" for w :: u32
proof -
  assume "unat w < 2147483648"
  then have a: "uint w < 2147483648" unfolding uint_nat by linarith
  have "sint w = signed_take_bit 31 (uint w)" by (simp add: sint_uint)
  also have "\<dots> = uint w"
  proof (rule signed_take_bit_int_eq_self)
    have "- (2 ^ 31) \<le> (0::int)" by simp
    then show "- (2 ^ 31) \<le> uint w" using uint_ge_0 by (rule order_trans)
    show "uint w < 2 ^ 31" using a by simp
  qed
  finally show ?thesis by (simp only: uint_nat)
qed

lemma sint_small64: "unat w < 9223372036854775808 \<Longrightarrow> sint w = int (unat w)" for w :: u64
proof -
  assume "unat w < 9223372036854775808"
  then have a: "uint w < 9223372036854775808" unfolding uint_nat by linarith
  have "sint w = signed_take_bit 63 (uint w)" by (simp add: sint_uint)
  also have "\<dots> = uint w"
  proof (rule signed_take_bit_int_eq_self)
    have "- (2 ^ 63) \<le> (0::int)" by simp
    then show "- (2 ^ 63) \<le> uint w" using uint_ge_0 by (rule order_trans)
    show "uint w < 2 ^ 63" using a by simp
  qed
  finally show ?thesis by (simp only: uint_nat)
qed

lemma signed_drop_bit_small:
  "unat w < 9223372036854775808 \<Longrightarrow> signed_drop_bit n w = drop_bit n w" for w :: u64
proof -
  assume a: "unat w < 9223372036854775808"
  have "unat w div 2 ^ n \<le> unat w" by (rule div_le_dividend)
  then have d: "sint (drop_bit n w) = int (unat w div 2 ^ n)"
    using a by (simp only: sint_small64 unat_drop_bit order.strict_trans1)
  have "sint (signed_drop_bit n w) = drop_bit n (int (unat w))"
    using a by (simp add: sint_signed_drop_bit_eq sint_small64)
  also have "\<dots> = int (unat w div 2 ^ n)"
    by (simp add: drop_bit_eq_div of_nat_div)
  finally have "sint (signed_drop_bit n w) = sint (drop_bit n w)" by (simp only: d)
  then show ?thesis by (rule signed_word_eqI)
qed

lemma unat_of_int_u32: "0 \<le> n \<Longrightarrow> n < 4294967296 \<Longrightarrow> unat (of_int n :: u32) = nat n"
  by (simp add: unat_eq_nat_uint uint_word_of_int_eq take_bit_int_eq_self)

lemma unat_of_int_u64: "0 \<le> n \<Longrightarrow> n < 18446744073709551616 \<Longrightarrow> unat (of_int n :: u64) = nat n"
  by (simp add: unat_eq_nat_uint uint_word_of_int_eq take_bit_int_eq_self)

lemma or_eq_0: "a OR b = 0 \<longleftrightarrow> a = 0 \<and> b = (0::u64)"
  by (auto simp: bit_eq_iff bit_or_iff)

lemma xor_eq_0: "a XOR b = 0 \<longleftrightarrow> a = (b::u64)"
proof
  assume "a XOR b = 0"
  then have "(a XOR b) XOR b = 0 XOR b" by (rule arg_cong)
  then show "a = b" by (simp add: xor.assoc)
qed simp

lemma push_bit_xor64: "push_bit k (a XOR b) = push_bit k a XOR (push_bit k b :: u64)"
  by (rule bit_word_eqI) (auto simp: bit_simps)

lemma and_low32: "w AND 0xFFFFFFFF = take_bit 32 (w :: u64)"
  by (simp add: take_bit_eq_mask mask_eq_exp_minus_1)

lemma unat_prod_u32: "unat (ucast (x::u32) * ucast (b::u32) :: u64) = unat x * unat b"
proof -
  have "unat x * unat b < 4294967296 * 4294967296"
    using unat_less [of x] unat_less [of b] by (intro mult_strict_mono) simp_all
  then show ?thesis by (simp add: unat_u64_mult)
qed

lemma unat_neg_u32: "b \<noteq> 0 \<Longrightarrow> unat (- b) = 2 ^ 32 - unat b" for b :: u32
proof -
  assume b: "b \<noteq> 0"
  have "(unat (- b) + unat b) mod 2 ^ 32 = 0"
    using unat_word_ariths(1) [of "- b" b] by simp
  then obtain c where c: "unat (- b) + unat b = 2 ^ 32 * c" by (metis dvdE mod_eq_0_iff_dvd)
  have "0 < unat (- b) + unat b" "unat (- b) + unat b < 2 ^ 32 * 2"
    using b unat_less [of b] unat_less [of "- b"] by (simp_all add: unat_gt_0)
  then have "c = 1" unfolding c by simp
  with c show ?thesis by simp
qed

lemma orbit_step:
  assumes "P x \<or> (\<exists>k. P ((f ^^ k) (f x)))"
  shows "\<exists>k. P ((f ^^ k) x)"
proof -
  from assms consider "P ((f ^^ 0) x)" | k where "P ((f ^^ Suc k) x)" by (auto simp: funpow_swap1)
  then show ?thesis by blast
qed

lemma card_multiples:
  assumes b: "0 < (b::nat)"
  shows "card {x. A \<le> x * b \<and> x * b < A + b * q} = q"
proof -
  define c where "c = (A + b - 1) div b"
  have ge: "A + b * k \<le> x * b \<longleftrightarrow> c + k \<le> x" for x k
  proof -
    have "c + k \<le> x \<longleftrightarrow> (A + b * k + (b - 1)) div b < Suc x"
    proof -
      have "A + b * k + (b - 1) = (A + b - 1) + b * k" using b by simp
      then have "(A + b * k + (b - 1)) div b = k + c" using b by (simp only: div_mult_self2 c_def)
      then show ?thesis by auto
    qed
    also have "\<dots> \<longleftrightarrow> A + b * k + (b - 1) < Suc x * b"
      using b by (simp add: div_less_iff_less_mult)
    also have "\<dots> \<longleftrightarrow> A + b * k \<le> x * b"
      using b by auto
    finally show ?thesis by simp
  qed
  have "{x. A \<le> x * b \<and> x * b < A + b * q} = {c ..< c + q}"
    using ge [of 0] ge [of q] by (auto simp: not_le [symmetric])
  then show ?thesis by simp
qed

lemma ucast_low32: "(x AND 0xFFFFFFFF) = (ucast (ucast x :: u32) :: u64)" for x :: u64
  by (rule bit_word_eqI) (simp add: bit_simps and_low32)

lemma less_low32: "(ucast r :: u32) < t \<longleftrightarrow> r AND 0xFFFFFFFF < ucast t" for r :: u64
  by (simp only: ucast_low32 word_less_nat_alt unat_ucast_u64)

end
