(* ===== verification/Java_Random.thy ===== *)
theory Java_Random
  imports Prelude
begin

text \<open>
  The 48-bit linear congruential generator of Java, twice: the struct \<open>JavaRandom\<close> with its
  compile-time skips \<open>JavaRandomSkip\<close> (src/src/Random.h) and the C functions of
  src/cubiomes/rng.h that work on a bare \<open>uint64_t\<close> seed. The generator's mathematics is
  stated once on natural numbers (\<open>lcg\<close>); both implementations are shown to compute it.
\<close>

subsection \<open>JavaRandomSkip and JavaRandom (src/src/Random.h)\<close>

record JavaRandomSkip =
  multiplier :: u64
  addend :: u64

definition MULTIPLIER :: u64 where "MULTIPLIER = 0x5DEECE66D"
definition ADDEND :: u64 where "ADDEND = 0xB"
definition MASK :: u64 where "MASK = 0xFFFFFFFFFFFF"

definition combine :: "JavaRandomSkip \<Rightarrow> JavaRandomSkip \<Rightarrow> JavaRandomSkip" where
  "combine this other =
     (let combined_multiplier = (multiplier this * multiplier other) AND MASK;
          combined_addend = (addend this * multiplier other + addend other) AND MASK
      in \<lparr>multiplier = combined_multiplier, addend = combined_addend\<rparr>)"

fun make_skip_loop :: "nat \<Rightarrow> nat \<Rightarrow> u64 \<Rightarrow> JavaRandomSkip \<Rightarrow> JavaRandomSkip \<Rightarrow> JavaRandomSkip" where
  "make_skip_loop 0 i n_mod skip skip_pow = skip"
| "make_skip_loop (Suc left) i n_mod skip skip_pow =
     make_skip_loop left (Suc i) n_mod
       (if n_mod AND push_bit i 1 \<noteq> 0 then combine skip skip_pow else skip)
       (combine skip_pow skip_pow)"

text \<open>\<open>make\<close> (\<open>make_skip\<close> here) takes an \<open>int64_t\<close>; its 64 bits are the argument here.\<close>

definition make_skip :: "i64 \<Rightarrow> JavaRandomSkip" where
  "make_skip n =
     (let n_mod = n AND MASK
      in make_skip_loop 48 0 n_mod \<lparr>multiplier = 1, addend = 0\<rparr>
           \<lparr>multiplier = MULTIPLIER, addend = ADDEND\<rparr>)"

record JavaRandom =
  seed :: u64

definition setSeed :: "u64 \<Rightarrow> JavaRandom" where
  "setSeed s = \<lparr>seed = (s XOR MULTIPLIER) AND MASK\<rparr>"

definition skip :: "i64 \<Rightarrow> JavaRandom \<Rightarrow> JavaRandom" where
  "skip N r =
     (let k = make_skip N in r\<lparr>seed := (seed r * multiplier k + addend k) AND MASK\<rparr>)"

definition nextBits :: "i64 \<Rightarrow> nat \<Rightarrow> JavaRandom \<Rightarrow> u32 \<times> JavaRandom" where
  "nextBits N bits r = (let r' = skip N r in (ucast (drop_bit (48 - bits) (seed r')), r'))"

text \<open>
  The rejection loop of \<open>nextInt\<close>: \<open>u\<close> is the last 31-bit draw; the loop repeats while
  \<open>(int32_t)(u - u % bound + m) < 0\<close>. It may run forever, which is \<open>None\<close>.
\<close>

partial_function (option) nextInt_loop ::
    "u32 \<Rightarrow> u32 \<Rightarrow> JavaRandom \<Rightarrow> (u32 \<times> JavaRandom) option" where
  "nextInt_loop bound u g =
     (let r = u mod bound; m = bound - 1
      in if sint (u - r + m) < 0
         then (let (u', g') = nextBits 1 31 g in nextInt_loop bound u' g')
         else Some (r, g))"

definition nextInt_bound :: "i64 \<Rightarrow> u32 \<Rightarrow> JavaRandom \<Rightarrow> (u32 \<times> JavaRandom) option" where
  "nextInt_bound N bound g =
     (let (r, g') = nextBits N 31 g; m = bound - 1
      in if bound AND m = 0
         then Some (ucast (drop_bit 31 (ucast bound * ucast r :: u64)), g')
         else nextInt_loop bound r g')"

definition nextIntFast :: "i64 \<Rightarrow> u32 \<Rightarrow> JavaRandom \<Rightarrow> u32 \<times> JavaRandom" where
  "nextIntFast N bound g =
     (let (r, g') = nextBits N 31 g; m = bound - 1
      in (if bound AND m = 0
          then ucast (drop_bit 31 (ucast bound * ucast r :: u64)) else r mod bound, g'))"

definition nextInt :: "i64 \<Rightarrow> JavaRandom \<Rightarrow> u32 \<times> JavaRandom" where
  "nextInt N g = nextBits N 32 g"

definition nextLong :: "i64 \<Rightarrow> JavaRandom \<Rightarrow> u64 \<times> JavaRandom" where
  "nextLong N g =
     (let (a, g1) = nextBits N 32 g; (b, g2) = nextBits 1 32 g1
      in (push_bit 32 (ucast a) + scast b, g2))"

definition nextBoolean :: "i64 \<Rightarrow> JavaRandom \<Rightarrow> bool \<times> JavaRandom" where
  "nextBoolean N g = (let (b, g') = nextBits N 1 g in (b \<noteq> 0, g'))"

subsection \<open>The C functions of src/cubiomes/rng.h\<close>

definition c_setSeed :: "u64 \<Rightarrow> u64" where
  "c_setSeed value = (value XOR 0x5deece66d) AND (push_bit 48 1 - 1)"

text \<open>\<open>next\<close>: the new seed and the top \<open>bits\<close> bits, cast to \<open>int\<close>.\<close>

definition c_next :: "nat \<Rightarrow> u64 \<Rightarrow> int \<times> u64" where
  "c_next bits s =
     (let s' = (s * 0x5deece66d + 0xb) AND (push_bit 48 1 - 1)
      in (sint (ucast (signed_drop_bit (48 - bits) s') :: i32), s'))"

partial_function (option) c_nextInt_loop :: "int \<Rightarrow> u64 \<Rightarrow> (int \<times> u64) option" where
  "c_nextInt_loop n s =
     (let (bits, s') = c_next 31 s; val = c_mod bits n
      in if sint (of_int bits - of_int val + of_int (n - 1) :: i32) < 0
         then c_nextInt_loop n s'
         else Some (val, s'))"

definition c_nextInt :: "int \<Rightarrow> u64 \<Rightarrow> (int \<times> u64) option" where
  "c_nextInt n s =
     (let m = n - 1
      in if (of_int m AND of_int n :: i32) = 0
         then (let (b, s') = c_next 31 s; x = of_int n * of_int b :: u64
               in Some (sint (ucast (signed_drop_bit 31 x) :: i32), s'))
         else c_nextInt_loop n s)"

definition c_nextLong :: "u64 \<Rightarrow> u64 \<times> u64" where
  "c_nextLong s =
     (let (a, s1) = c_next 32 s; (b, s2) = c_next 32 s1
      in (push_bit 32 (of_int a) + of_int b, s2))"

function skipNextN_loop ::
    "u64 \<Rightarrow> u64 \<Rightarrow> u64 \<Rightarrow> u64 \<Rightarrow> u64 \<Rightarrow> u64 \<times> u64" where
  "skipNextN_loop k m a im ia =
     (if k = 0 then (m, a)
      else (let m' = (if k AND 1 \<noteq> 0 then m * im else m);
                a' = (if k AND 1 \<noteq> 0 then im * a + ia else a)
            in skipNextN_loop (drop_bit 1 k) m' a' (im * im) ((im + 1) * ia)))"
  by pat_completeness auto
termination
proof (relation "measure (\<lambda>(k, m, a, im, ia). unat k)", simp_all)
  fix k :: u64
  assume "k \<noteq> 0"
  then have "unat k \<noteq> 0" by (simp add: unat_eq_zero)
  then show "unat (drop_bit (Suc 0) k) < unat k"
    using unat_drop_bit [of "Suc 0" k] by simp
qed

definition skipNextN :: "u64 \<Rightarrow> u64 \<Rightarrow> u64" where
  "skipNextN s n =
     (let (m, a) = skipNextN_loop n 1 0 0x5deece66d 0xb
      in (s * m + a) AND 0xffffffffffff)"

declare skipNextN_loop.simps [simp del]

subsection \<open>The generator as a function on natural numbers\<close>

definition lcg :: "nat \<Rightarrow> nat" where
  "lcg x = (x * 25214903917 + 11) mod 2 ^ 48"

lemma lcg_less [simp]: "lcg x < 281474976710656"
  by (simp add: lcg_def)

lemma lcg_funpow_less: "x < 2 ^ 48 \<Longrightarrow> (lcg ^^ n) x < 2 ^ 48"
  by (rule funpow_range) simp_all

lemma and_MASK: "w AND MASK = take_bit 48 w"
  unfolding MASK_def by (simp add: take_bit_eq_mask mask_eq_exp_minus_1)

lemma unat_and_MASK [unat_simps]: "unat (w AND MASK) = unat w mod 2 ^ 48"
  by (simp only: and_MASK unat_take_bit)

lemma unat_affine: "unat ((x * m + a) AND MASK) = (unat x * unat m + unat a) mod 2 ^ 48"
proof -
  have "unat ((x * m + a) AND MASK) =
      ((unat x * unat m) mod 2 ^ 64 + unat a) mod 2 ^ 64 mod 2 ^ 48"
    by (simp only: unat_simps)
  also have "\<dots> = (unat x * unat m + unat a) mod 2 ^ 48"
    by (rule mod_affine_pow) simp
  finally show ?thesis .
qed

text \<open>A skip acts as \<open>k\<close> steps of the generator.\<close>

definition acts :: "JavaRandomSkip \<Rightarrow> nat \<Rightarrow> bool" where
  "acts s k \<longleftrightarrow>
     (\<forall>x < 2 ^ 48. (x * unat (multiplier s) + unat (addend s)) mod 2 ^ 48 = (lcg ^^ k) x)"

lemma acts_compose:
  assumes s: "acts s j" and t: "acts t k"
    and m: "unat (multiplier u) mod 2 ^ 48 = (unat (multiplier s) * unat (multiplier t)) mod 2 ^ 48"
    and a: "unat (addend u) mod 2 ^ 48
      = (unat (addend s) * unat (multiplier t) + unat (addend t)) mod 2 ^ 48"
  shows "acts u (j + k)"
  unfolding acts_def
proof (intro allI impI)
  fix x :: nat assume x: "x < 2 ^ 48"
  let ?M = "2 ^ 48 :: nat"
  let ?m = "unat (multiplier s)" and ?a = "unat (addend s)"
  let ?m' = "unat (multiplier t)" and ?a' = "unat (addend t)"
  have "(x * unat (multiplier u) + unat (addend u)) mod ?M
      = (x * (unat (multiplier u) mod ?M) + unat (addend u) mod ?M) mod ?M"
    by (rule mod_affine [symmetric])
  also have "\<dots> = (x * (?m * ?m') + (?a * ?m' + ?a')) mod ?M"
    unfolding m a by (rule mod_affine)
  also have "\<dots> = ((x * ?m + ?a) * ?m' + ?a') mod ?M"
    by (simp add: algebra_simps)
  also have "\<dots> = (((x * ?m + ?a) mod ?M) * ?m' + ?a') mod ?M"
    by (rule mod_affine_arg [symmetric])
  also have "\<dots> = (lcg ^^ k) ((x * ?m + ?a) mod ?M)"
    using t by (simp add: acts_def)
  also have "\<dots> = (lcg ^^ k) ((lcg ^^ j) x)"
    using s x by (simp add: acts_def)
  finally show "(x * unat (multiplier u) + unat (addend u)) mod ?M = (lcg ^^ (j + k)) x"
    by (simp only: add.commute [of j k] funpow_add_apply)
qed

lemma unat_u64_affine_mod: "unat (x * m + a :: u64) mod 2 ^ 48 = (unat x * unat m + unat a) mod 2 ^ 48"
  using unat_affine [of x m a] by (simp only: unat_and_MASK)

lemma acts_combine: "acts s j \<Longrightarrow> acts t k \<Longrightarrow> acts (combine s t) (j + k)"
  using unat_u64_affine_mod [of "multiplier s" "multiplier t" 0]
    unat_u64_affine_mod [of "addend s" "multiplier t" "addend t"]
  by (intro acts_compose [of s j t k]) (simp_all add: combine_def unat_and_MASK)

lemma acts_unit: "acts \<lparr>multiplier = 1, addend = 0\<rparr> 0"
  by (simp add: acts_def)

lemma acts_base: "acts \<lparr>multiplier = MULTIPLIER, addend = ADDEND\<rparr> 1"
  by (simp add: acts_def lcg_def MULTIPLIER_def ADDEND_def)

lemma acts_make_skip_loop:
  "acts s (unat n mod 2 ^ i) \<Longrightarrow> acts p (2 ^ i) \<Longrightarrow>
   acts (make_skip_loop left i n s p) (unat n mod 2 ^ (i + left))"
proof (induction left arbitrary: i s p)
  case 0
  then show ?case by simp
next
  case (Suc left)
  have "acts (combine p p) (2 ^ Suc i)"
    using acts_combine [OF Suc.prems(2) Suc.prems(2)] by (simp add: mult_2)
  moreover have "acts (if n AND push_bit i 1 \<noteq> 0 then combine s p else s) (unat n mod 2 ^ Suc i)"
    using acts_combine [OF Suc.prems] Suc.prems(1)
    by (simp only: mod_pow_Suc and_push_bit_1 bit_unat add.commute split: if_split) simp
  ultimately show ?case using Suc.IH [of _ "Suc i"] by simp
qed

lemma acts_make_skip: "acts (make_skip n) (unat n mod 2 ^ 48)"
proof -
  have "acts (make_skip n) (unat (n AND MASK) mod 2 ^ (0 + 48))"
    unfolding make_skip_def Let_def
    by (rule acts_make_skip_loop) (simp_all add: acts_unit acts_base [unfolded One_nat_def])
  then show ?thesis by (simp add: unat_and_MASK)
qed


subsection \<open>Full period\<close>

text \<open>The affine coefficients of \<open>2 ^ j\<close> steps, unreduced.\<close>

fun lcg_coeff :: "nat \<Rightarrow> nat \<times> nat" where
  "lcg_coeff 0 = (25214903917, 11)"
| "lcg_coeff (Suc j) = (let (A, C) = lcg_coeff j in (A * A, A * C + C))"

lemma lcg_coeff_acts:
  "x < 2 ^ 48 \<Longrightarrow> (lcg ^^ (2 ^ j)) x = (x * fst (lcg_coeff j) + snd (lcg_coeff j)) mod 2 ^ 48"
proof (induction j arbitrary: x)
  case 0
  then show ?case by (simp add: lcg_def)
next
  case (Suc j)
  obtain A C where AC: "lcg_coeff j = (A, C)" by force
  let ?M = "2 ^ 48 :: nat"
  have "(lcg ^^ (2 ^ Suc j)) x = (lcg ^^ (2 ^ j)) ((lcg ^^ (2 ^ j)) x)"
    by (simp add: mult_2 funpow_add_apply)
  also have "\<dots> = ((x * A + C) mod ?M * A + C) mod ?M"
    using Suc.IH [OF Suc.prems] Suc.IH [OF lcg_funpow_less [OF Suc.prems], of "2 ^ j"]
    by (simp only: AC fst_conv snd_conv)
  also have "\<dots> = ((x * A + C) * A + C) mod ?M"
    by (rule mod_affine_arg)
  also have "(x * A + C) * A + C = x * (A * A) + (A * C + C)"
    by (simp add: algebra_simps)
  finally show ?case by (simp only: lcg_coeff.simps AC Let_def prod.case fst_conv snd_conv)
qed

lemma lcg_coeff_shape:
  "\<exists>p q. lcg_coeff j = (2 ^ (j + 2) * p + 1, 2 ^ j * (2 * q + 1))"
proof (induction j)
  case 0
  show ?case by (rule exI [of _ 6303725979], rule exI [of _ 5]) simp
next
  case (Suc j)
  then obtain p q where pq: "lcg_coeff j = (2 ^ (j + 2) * p + 1, 2 ^ j * (2 * q + 1))" by blast
  define P where "P = (2::nat) ^ j"
  have "lcg_coeff (Suc j) =
      ((4 * P * p + 1) * (4 * P * p + 1), (4 * P * p + 1) * (P * (2 * q + 1)) + P * (2 * q + 1))"
    by (simp add: pq P_def)
  also have "(4 * P * p + 1) * (4 * P * p + 1) = 2 ^ (Suc j + 2) * (2 * P * p * p + p) + 1"
    by (simp add: P_def algebra_simps)
  also have "(4 * P * p + 1) * (P * (2 * q + 1)) + P * (2 * q + 1)
      = 2 ^ Suc j * (2 * (P * p * (2 * q + 1) + q) + 1)"
    by (simp add: P_def algebra_simps)
  finally show ?case by blast
qed

lemma lcg_pow2_step:
  assumes "x < 2 ^ 48" and "j < 48"
  shows "(lcg ^^ (2 ^ j)) x mod 2 ^ Suc j = (x + 2 ^ j) mod 2 ^ Suc j"
proof -
  obtain p q where pq: "lcg_coeff j = (2 ^ (j + 2) * p + 1, 2 ^ j * (2 * q + 1))"
    using lcg_coeff_shape by blast
  define P where "P = (2::nat) ^ j"
  have "(lcg ^^ (2 ^ j)) x mod 2 ^ Suc j
      = (x * (2 ^ (j + 2) * p + 1) + 2 ^ j * (2 * q + 1)) mod 2 ^ Suc j"
    using assms mod_pow_mod_pow [of "Suc j" 48]
    by (simp only: lcg_coeff_acts pq fst_conv snd_conv Suc_le_eq)
  also have "x * (2 ^ (j + 2) * p + 1) + 2 ^ j * (2 * q + 1)
      = (x + 2 ^ j) + 2 ^ Suc j * (2 * x * p + q)"
    by (simp add: algebra_simps)
  finally show ?thesis by (simp only: mod_mult_self2)
qed

lemma lcg_pow2_steps:
  assumes "x < 2 ^ 48" and "j < 48"
  shows "((lcg ^^ (2 ^ j)) ^^ k) x mod 2 ^ Suc j = (x + k * 2 ^ j) mod 2 ^ Suc j"
proof (induction k)
  case 0
  show ?case by simp
next
  case (Suc k)
  let ?y = "((lcg ^^ (2 ^ j)) ^^ k) x"
  have "?y < 2 ^ 48"
    using assms(1) by (simp only: funpow_mult lcg_funpow_less)
  then have "((lcg ^^ (2 ^ j)) ^^ Suc k) x mod 2 ^ Suc j = (?y + 2 ^ j) mod 2 ^ Suc j"
    using lcg_pow2_step assms(2) by simp
  also have "\<dots> = (?y mod 2 ^ Suc j + 2 ^ j) mod 2 ^ Suc j"
    by (simp only: mod_add_left_eq)
  also have "\<dots> = (x + Suc k * 2 ^ j) mod 2 ^ Suc j"
    by (simp only: Suc.IH mod_add_left_eq) (simp add: algebra_simps)
  finally show ?case .
qed

lemma lcg_fixed_dvd:
  assumes x: "x < 2 ^ 48" and fx: "(lcg ^^ n) x = x" and n: "0 < n"
  shows "2 ^ 48 dvd n"
proof (rule ccontr)
  assume nd: "\<not> 2 ^ 48 dvd n"
  obtain j k where njk: "n = 2 ^ j * k" and odd: "odd k"
    using pow2_odd_decomp [OF n] by blast
  have j: "j < 48"
  proof (rule ccontr)
    assume "\<not> j < 48"
    then have "(2::nat) ^ 48 dvd 2 ^ j" by (intro le_imp_power_dvd) simp
    then have "2 ^ 48 dvd 2 ^ j * k" by (rule dvd_mult2)
    with nd show False unfolding njk by (rule notE)
  qed
  have "(lcg ^^ n) x = ((lcg ^^ (2 ^ j)) ^^ k) x"
    by (simp only: njk funpow_mult)
  then have "x mod 2 ^ Suc j = (x + k * 2 ^ j) mod 2 ^ Suc j"
    using lcg_pow2_steps [OF x j, of k] fx by simp
  then have "2 ^ Suc j dvd k * 2 ^ j"
    by (metis add_diff_cancel_left' le_add1 mod_eq_dvd_iff_nat)
  then have "2 dvd k" by simp
  with odd show False by simp
qed

lemma lcg_orbit:
  assumes x: "x < 2 ^ 48" and y: "y < 2 ^ 48"
  shows "\<exists>k. (lcg ^^ k) x = y"
proof -
  let ?f = "\<lambda>k. (lcg ^^ k) x" and ?S = "{..< 2 ^ 48 :: nat}"
  have inj: "inj_on ?f ?S"
  proof (rule linorder_inj_onI)
    fix a b :: nat assume ab: "a < b" "b \<in> ?S"
    show "?f a \<noteq> ?f b"
    proof
      assume eq: "?f a = ?f b"
      have "(lcg ^^ (b - a)) (?f a) = ?f b"
        using ab by (simp flip: funpow_add_apply)
      then have "2 ^ 48 dvd b - a"
        using lcg_fixed_dvd [of "?f a" "b - a"] ab eq lcg_funpow_less [OF x] by simp
      then show False using ab by (auto dest: dvd_imp_le)
    qed
  qed auto
  have "?f ` ?S \<subseteq> ?S" using lcg_funpow_less [OF x] by auto
  then have "?f ` ?S = ?S"
    using inj by (intro card_subset_eq) (auto simp: card_image)
  then show ?thesis using y by (metis imageE lessThan_iff)
qed

lemma seed_skip:
  "seed (skip N g) = (seed g * multiplier (make_skip N) + addend (make_skip N)) AND MASK"
  by (simp add: skip_def Let_def)

lemma unat_seed_skip:
  assumes "unat (seed g) < 2 ^ 48"
  shows "unat (seed (skip N g)) = (lcg ^^ (unat N mod 2 ^ 48)) (unat (seed g))"
proof -
  have "unat (seed (skip N g)) = (unat (seed g) * unat (multiplier (make_skip N)) + unat (addend (make_skip N))) mod 2 ^ 48"
    by (simp only: seed_skip unat_affine)
  also have "\<dots> = (lcg ^^ (unat N mod 2 ^ 48)) (unat (seed g))"
    using acts_make_skip [of N] assms by (simp only: acts_def)
  finally show ?thesis .
qed

lemma lcg_period: "x < 2 ^ 48 \<Longrightarrow> (lcg ^^ (2 ^ 48)) x = x"
proof -
  assume x: "x < 2 ^ 48"
  have "(lcg ^^ (2 ^ 48)) x = (x * fst (lcg_coeff 48) + snd (lcg_coeff 48)) mod 2 ^ 48"
    using x by (rule lcg_coeff_acts)
  obtain p q where "lcg_coeff 48 = (2 ^ (48 + 2) * p + 1, 2 ^ 48 * (2 * q + 1))"
    using lcg_coeff_shape by blast
  then have "x * fst (lcg_coeff 48) + snd (lcg_coeff 48) = x + 2 ^ 48 * (x * 4 * p + (2 * q + 1))"
    by (simp add: algebra_simps)
  with \<open>_ = (x * fst _ + _) mod _\<close> show "(lcg ^^ (2 ^ 48)) x = x"
    using x by (simp only: mod_mult_self2 mod_less)
qed

text \<open>Skipping backwards undoes skipping forwards.\<close>

lemma skip_inverse:
  assumes "unat (seed g) < 2 ^ 48"
  shows "skip (- N) (skip N g) = g"
proof -
  let ?n = "unat N mod 2 ^ 48" and ?k = "unat (- N) mod 2 ^ 48"
  have less: "unat (seed (skip N g)) < 2 ^ 48"
    using assms by (simp only: unat_seed_skip lcg_funpow_less)
  have "(?k + ?n) mod 2 ^ 48 = (unat (- N) + unat N) mod 2 ^ 64 mod 2 ^ 48"
    by (simp only: mod_pow_mod_pow mod_add_eq) 
  also have "\<dots> = unat (- N + N) mod 2 ^ 48"
    by (simp only: unat_u64_add)
  finally have "2 ^ 48 dvd ?k + ?n" by (simp add: mod_eq_0_iff_dvd)
  then obtain c where c: "?k + ?n = 2 ^ 48 * c" by (rule dvdE)
  have per: "((lcg ^^ (2 ^ 48)) ^^ c) x = x" if "x < 2 ^ 48" for x
    using lcg_period [OF that] by (rule funpow_fixed)
  have "unat (seed (skip (- N) (skip N g))) = (lcg ^^ (?k + ?n)) (unat (seed g))"
    using assms less by (simp only: unat_seed_skip funpow_add_apply)
  also have "\<dots> = unat (seed g)"
    using per [OF assms] by (simp only: c funpow_mult)
  finally have "seed (skip (- N) (skip N g)) = seed g" by (simp only: word_unat_eq_iff)
  then show ?thesis by (simp add: skip_def Let_def)
qed

subsection \<open>Draws\<close>

lemma skip_range: "unat (seed (skip N g)) < 2 ^ 48"
  by (simp add: seed_skip unat_affine)

lemma nextBits_fst_unat:
  assumes "bits \<le> 32"
  shows "unat (fst (nextBits N bits g)) = unat (seed (skip N g)) div 2 ^ (48 - bits)"
proof -
  have "unat (seed (skip N g)) div 2 ^ (48 - bits) < 2 ^ 32"
  proof (rule less_mult_imp_div_less)
    have "(2::nat) ^ 48 \<le> 2 ^ 32 * 2 ^ (48 - bits)"
      using assms by (simp only: power_increasing flip: power_add)
    then show "unat (seed (skip N g)) < 2 ^ 32 * 2 ^ (48 - bits)"
      using skip_range [of N g] by linarith
  qed
  then show ?thesis
    by (simp add: nextBits_def Let_def unsigned_ucast_eq unat_drop_bit take_bit_nat_eq_self)
qed

lemma nextBits_bound: "bits \<le> 32 \<Longrightarrow> unat (fst (nextBits N bits g)) < 2 ^ bits"
proof -
  assume b: "bits \<le> 32"
  then have "(2::nat) ^ bits * 2 ^ (48 - bits) = 2 ^ 48" by (simp flip: power_add)
  then have "unat (seed (skip N g)) < 2 ^ bits * 2 ^ (48 - bits)"
    using skip_range [of N g] by simp
  then show ?thesis using b by (simp add: nextBits_fst_unat less_mult_imp_div_less)
qed

lemma snd_nextBits [simp]: "snd (nextBits N bits g) = skip N g"
  by (simp add: nextBits_def Let_def)

lemma nextInt_loop_returns:
  assumes "(lcg ^^ k) (unat (seed g)) = 0" and "unat (seed g) < 2 ^ 48"
    and "unat u = unat (seed g) div 2 ^ 17" and "bound \<noteq> 0" and "unat bound \<le> 2 ^ 31"
  shows "\<exists>r g'. nextInt_loop bound u g = Some (r, g') \<and> unat r < unat bound"
  using assms
proof (induction k arbitrary: g u)
  case 0
  then have "u = 0" by (simp add: unat_eq_zero)
  moreover have "unat (bound - 1) < 2147483648"
    using 0 unat_minus_one [of bound] by simp
  ultimately show ?case
    using 0 by (subst nextInt_loop.simps) (simp add: sint_neg_iff unat_gt_0)
next
  case (Suc k)
  let ?r = "u mod bound"
  have r: "unat ?r < unat bound"
    using Suc.prems(4) by (simp add: unat_mod unat_gt_0)
  show ?case
  proof (cases "sint (u - ?r + (bound - 1)) < 0")
    case False
    then show ?thesis using r by (subst nextInt_loop.simps) simp
  next
    case True
    let ?g = "skip 1 g"
    have one: "unat (1::i64) mod 2 ^ 48 = 1" by simp
    have s: "unat (seed ?g) = lcg (unat (seed g))"
      using unat_seed_skip [OF Suc.prems(2), of 1] by (simp only: one) simp
    then have "(lcg ^^ k) (unat (seed ?g)) = 0"
      using Suc.prems(1) by (simp add: funpow_swap1)
    moreover have "unat (fst (nextBits 1 31 g)) = unat (seed ?g) div 2 ^ 17"
      by (simp add: nextBits_fst_unat)
    ultimately have "\<exists>r g'. nextInt_loop bound (fst (nextBits 1 31 g)) ?g = Some (r, g') \<and> unat r < unat bound"
      using Suc.prems(4,5) by (intro Suc.IH) (simp_all add: skip_range [simplified])
    then show ?thesis using True
      by (subst nextInt_loop.simps) (simp add: split_beta)
  qed
qed

lemma nextInt_bound_total:
  assumes "bound \<noteq> 0" and "unat bound \<le> 2 ^ 31"
  shows "\<exists>r g'. nextInt_bound N bound g = Some (r, g') \<and> unat r < unat bound"
proof -
  let ?g = "skip N g"
  obtain k where k: "(lcg ^^ k) (unat (seed ?g)) = 0"
    using lcg_orbit [OF skip_range [of N g], of 0] by auto
  have u: "unat (fst (nextBits N 31 g)) = unat (seed ?g) div 2 ^ 17"
    by (simp add: nextBits_fst_unat)
  have le31: "31 \<le> (32::nat)" by simp
  show ?thesis
    using nextInt_loop_returns [OF k skip_range u assms]
      pow2_branch_bound [OF nextBits_bound [of 31 N g, OF le31] assms(1)]
    by (simp add: nextInt_bound_def split_beta Let_def)
qed

lemma acts_square:
  assumes "acts \<lparr>multiplier = im, addend = ia\<rparr> i"
  shows "acts \<lparr>multiplier = im * im, addend = (im + 1) * ia\<rparr> (2 * i)"
proof -
  have "(im + 1) * ia = ia * im + ia" by (simp add: algebra_simps)
  then have "acts \<lparr>multiplier = im * im, addend = (im + 1) * ia\<rparr> (i + i)"
    using unat_u64_affine_mod [of im im 0] unat_u64_affine_mod [of ia im ia]
    by (intro acts_compose [OF assms assms]) simp_all
  then show ?thesis by (simp add: mult_2)
qed

lemma acts_mult_step:
  assumes "acts \<lparr>multiplier = m, addend = a\<rparr> j" and "acts \<lparr>multiplier = im, addend = ia\<rparr> i"
  shows "acts \<lparr>multiplier = m * im, addend = im * a + ia\<rparr> (j + i)"
  using unat_u64_affine_mod [of m im 0] unat_u64_affine_mod [of im a ia]
  by (intro acts_compose [OF assms]) (simp_all add: mult.commute)

lemma acts_skipNextN_loop:
  assumes "acts \<lparr>multiplier = m, addend = a\<rparr> j" and "acts \<lparr>multiplier = im, addend = ia\<rparr> i"
    and "skipNextN_loop k m a im ia = (m', a')"
  shows "acts \<lparr>multiplier = m', addend = a'\<rparr> (j + i * unat k)"
  using assms
proof (induction k m a im ia arbitrary: j i rule: skipNextN_loop.induct)
  case (1 k m a im ia)
  show ?case
  proof (cases "k = 0")
    case True
    with 1 show ?thesis by (simp add: skipNextN_loop.simps)
  next
    case False
    let ?m = "if k AND 1 \<noteq> 0 then m * im else m" and ?a = "if k AND 1 \<noteq> 0 then im * a + ia else a"
    let ?j = "if odd (unat k) then j + i else j"
    have "acts \<lparr>multiplier = ?m, addend = ?a\<rparr> ?j"
      using "1.prems"(1) acts_mult_step [OF "1.prems"(1,2)] by (auto simp: unat_and_1)
    moreover have "skipNextN_loop (drop_bit 1 k) ?m ?a (im * im) ((im + 1) * ia) = (m', a')"
      using "1.prems"(3) False by (subst (asm) skipNextN_loop.simps) (simp add: Let_def)
    ultimately have "acts \<lparr>multiplier = m', addend = a'\<rparr> (?j + 2 * i * unat (drop_bit 1 k))"
      using False acts_square [OF "1.prems"(2)] by (intro "1.IH") auto
    also have "?j + 2 * i * unat (drop_bit 1 k) = j + i * unat k"
      using half_step [of "unat k" j i] by (simp add: unat_drop_bit)
    finally show ?thesis .
  qed
qed

lemma unat_skipNextN:
  assumes "unat s < 2 ^ 48"
  shows "unat (skipNextN s n) = (lcg ^^ unat n) (unat s)"
proof -
  obtain m a where ma: "skipNextN_loop n 1 0 0x5deece66d 0xb = (m, a)" by force
  have "acts \<lparr>multiplier = m, addend = a\<rparr> (0 + 1 * unat n)"
    using acts_unit acts_base ma
    by (intro acts_skipNextN_loop [of _ _ _ "0x5deece66d" "0xb"]) (simp_all add: MULTIPLIER_def ADDEND_def)
  moreover have "skipNextN s n = (s * m + a) AND MASK"
    by (simp add: skipNextN_def ma MASK_def)
  ultimately show ?thesis
    using assms by (simp add: unat_affine acts_def)
qed

subsection \<open>The C functions agree with the struct\<close>

lemma c_mask: "(push_bit 48 1 - 1 :: u64) = MASK"
  by (simp add: MASK_def push_bit_eq_mult)

lemma snd_c_next: "snd (c_next b s) = (s * MULTIPLIER + ADDEND) AND MASK"
  unfolding c_next_def Let_def c_mask MULTIPLIER_def ADDEND_def by simp

lemma unat_snd_c_next: "unat s < 2 ^ 48 \<Longrightarrow> unat (snd (c_next b s)) = lcg (unat s)"
  by (simp only: snd_c_next unat_affine) (simp add: lcg_def MULTIPLIER_def ADDEND_def)

lemma unat_seed_skip1: "unat (seed g) < 2 ^ 48 \<Longrightarrow> unat (seed (skip 1 g)) = lcg (unat (seed g))"
proof -
  assume a: "unat (seed g) < 2 ^ 48"
  have one: "unat (1::i64) mod 2 ^ 48 = 1" by simp
  show ?thesis using unat_seed_skip [OF a, of 1] by (simp only: one) simp
qed

lemma c_next_skip: "unat (seed g) < 2 ^ 48 \<Longrightarrow> snd (c_next b (seed g)) = seed (skip 1 g)"
  by (simp only: word_unat_eq_iff unat_snd_c_next unat_seed_skip1)

lemma c_next_draw:
  assumes "unat (seed g) < 2 ^ 48" and "bits \<le> 32"
  shows "fst (c_next bits (seed g)) = sint (fst (nextBits 1 bits g))"
proof -
  let ?s = "snd (c_next bits (seed g))"
  have "unat ?s < 9223372036854775808"
    using assms(1) lcg_less [of "unat (seed g)"] by (simp only: unat_snd_c_next) 
  then have "fst (c_next bits (seed g)) = sint (ucast (drop_bit (48 - bits) ?s) :: i32)"
    by (simp add: c_next_def Let_def signed_drop_bit_small)
  then show ?thesis
    using assms(1) by (simp only: c_next_skip) (simp add: nextBits_def Let_def)
qed

definition to_c :: "u32 \<times> JavaRandom \<Rightarrow> int \<times> u64" where
  "to_c = (\<lambda>(r, g). (sint r, seed g))"

lemma c_nextInt_loop_step:
  fixes n :: int and g :: JavaRandom
  defines "b \<equiv> of_int n :: u32" and "u \<equiv> fst (nextBits 1 31 g)"
  assumes g: "unat (seed g) < 2 ^ 48" and n: "0 < n" "n < 2147483648"
  shows "fst (c_next 31 (seed g)) = sint u"
    and "c_mod (sint u) n = sint (u mod b)"
    and "(of_int (sint u) - of_int (c_mod (sint u) n) + of_int (n - 1) :: i32) = u - u mod b + (b - 1)"
proof -
  show "fst (c_next 31 (seed g)) = sint u"
    unfolding u_def by (rule c_next_draw [OF g]) simp
  have b: "unat b = nat n"
    unfolding b_def using n by (intro unat_of_int_u32) simp_all
  have u31: "unat u < 2147483648"
    using nextBits_bound [of 31 1 g] by (simp add: u_def)
  have "unat (u mod b) < unat b" using n b by (simp add: unat_mod)
  then have r31: "unat (u mod b) < 2147483648" using n b by linarith
  have "c_mod (sint u) n = int (unat u) mod n"
    using n u31 by (simp add: sint_small)
  also have "\<dots> = int (unat (u mod b))"
    using n b by (simp add: unat_mod zmod_int)
  finally show m: "c_mod (sint u) n = sint (u mod b)" by (simp only: sint_small [OF r31])
  show "(of_int (sint u) - of_int (c_mod (sint u) n) + of_int (n - 1) :: i32) = u - u mod b + (b - 1)"
    unfolding m b_def by simp
qed

lemma c_nextInt_loop_eq:
  assumes "(lcg ^^ k) (unat (seed (skip 1 g))) = 0" and "unat (seed g) < 2 ^ 48"
    and "0 < n" and "n < 2147483648"
  shows "c_nextInt_loop n (seed g) =
    map_option to_c (nextInt_loop (of_int n) (fst (nextBits 1 31 g)) (skip 1 g))"
  using assms(1,2)
proof (induction k arbitrary: g)
  case 0
  have "seed (skip 1 g) = 0" using 0 by (simp add: unat_eq_zero)
  then have u: "fst (nextBits 1 31 g) = 0" by (simp add: nextBits_def Let_def)
  have m: "\<not> sint (of_int n - 1 :: u32) < 0"
  proof -
    have "unat (of_int (n - 1) :: u32) = nat (n - 1)"
      using assms(3,4) by (intro unat_of_int_u32) simp_all
    then have "unat (of_int n - 1 :: u32) = nat (n - 1)" by simp
    then show ?thesis unfolding sint_neg_iff using assms(4) by linarith
  qed
  show ?case
    using c_nextInt_loop_step [OF 0(2) assms(3,4)] m u c_next_skip [OF 0(2)]
    by (subst c_nextInt_loop.simps, subst nextInt_loop.simps) (simp add: split_beta Let_def to_c_def)
next
  case (Suc k)
  note st = c_nextInt_loop_step [OF Suc.prems(2) assms(3,4)]
  let ?g = "skip 1 g"
  have "(lcg ^^ k) (unat (seed (skip 1 ?g))) = 0"
    using Suc.prems(1) by (simp add: unat_seed_skip1 [OF skip_range] funpow_swap1)
  then have "c_nextInt_loop n (seed ?g) =
      map_option to_c (nextInt_loop (of_int n) (fst (nextBits 1 31 ?g)) (skip 1 ?g))"
    by (rule Suc.IH [OF _ skip_range])
  then show ?case
    using st c_next_skip [OF Suc.prems(2)]
    by (subst c_nextInt_loop.simps, subst nextInt_loop.simps)
      (simp add: split_beta Let_def to_c_def)
qed

lemma c_nextInt_eq:
  assumes g: "unat (seed g) < 2 ^ 48" and n: "0 < n" "n < 2147483648"
  shows "c_nextInt n (seed g) = map_option to_c (nextInt_bound 1 (of_int n) g)"
proof -
  obtain k where k: "(lcg ^^ k) (unat (seed (skip 1 g))) = 0"
    using lcg_orbit [OF skip_range [of 1 g], of 0] by auto
  define u where "u = fst (nextBits 1 31 g)"
  have u: "unat u < 2147483648" using nextBits_bound [of 31 1 g] by (simp add: u_def)
  have b: "unat (of_int n :: u32) = nat n"
    using n by (intro unat_of_int_u32) simp_all
  have b64: "unat (of_int n :: u64) = nat n"
    using n by (intro unat_of_int_u64) simp_all
  have cond: "(of_int (n - 1) AND of_int n :: i32) = 0 \<longleftrightarrow> (of_int n AND (of_int n - 1) :: u32) = 0"
    by (simp add: and.commute)
  have "of_int n = (ucast (of_int n :: u32) :: u64)"
    by (simp only: word_unat_eq_iff [where ?'a = 64] b64 unat_ucast_u64 b)
  moreover have "of_int (sint u) = (ucast u :: u64)"
    using u unat_of_int_u64 [of "int (unat u)"]
    by (simp only: word_unat_eq_iff [where ?'a = 64] sint_small unat_ucast_u64)
  moreover have "nat n * unat u < 9223372036854775808"
  proof -
    have "nat n * unat u \<le> 2147483648 * 2147483647" using n u by (intro mult_mono) simp_all
    then show ?thesis by simp
  qed
  ultimately have "signed_drop_bit 31 (of_int n * of_int (sint u) :: u64)
      = drop_bit 31 (ucast (of_int n :: u32) * ucast u)"
    using b by (simp add: signed_drop_bit_small unat_u64_mult)
  then show ?thesis
    using c_nextInt_loop_eq [OF k g n] c_nextInt_loop_step(1) [OF g n] c_next_skip [OF g] cond
    unfolding c_nextInt_def nextInt_bound_def Let_def
    by (auto simp: split_beta to_c_def u_def)
qed

subsection \<open>Properties\<close>

text \<open>
  C32. Skipping: \<open>JavaRandom::skip<N>\<close>, which multiplies by constants computed at compile time,
  advances the seed by exactly \<open>N mod 2^48\<close> steps of Java's linear congruential generator, for
  every 64-bit \<open>N\<close>, negative ones included.
\<close>

theorem java_skip_advances:
  assumes "unat (seed g) < 2 ^ 48"
  shows "unat (seed (skip N g)) = (lcg ^^ (unat N mod 2 ^ 48)) (unat (seed g))"
  using assms by (rule unat_seed_skip)

theorem java_skip_advances_witness:
  "unat (seed \<lparr>seed = 42\<rparr>) < 2 ^ 48 \<and>
   unat (seed (skip 5 \<lparr>seed = 42\<rparr>)) = (lcg ^^ (unat (5::i64) mod 2 ^ 48)) (unat (seed \<lparr>seed = 42\<rparr>))"
proof
  show s: "unat (seed \<lparr>seed = 42\<rparr>) < 2 ^ 48" by simp
  show "unat (seed (skip 5 \<lparr>seed = 42\<rparr>)) = (lcg ^^ (unat (5::i64) mod 2 ^ 48)) (unat (seed \<lparr>seed = 42\<rparr>))"
    by (rule java_skip_advances [OF s])
qed

text \<open>Skipping by \<open>N\<close> and then by \<open>-N\<close> restores the generator.\<close>

lemma java_skip_roundtrip:
  assumes "unat (seed g) < 2 ^ 48"
  shows "skip (- N) (skip N g) = g"
  using assms by (rule skip_inverse)

lemma java_skip_roundtrip_witness:
  "skip (- 7) (skip 7 \<lparr>seed = 1234\<rparr>) = \<lparr>seed = 1234\<rparr>"
  by (rule java_skip_roundtrip) simp

text \<open>
  C33. \<open>JavaRandom::nextInt(bound)\<close> returns, for every bound from 1 to \<open>2^31\<close> and every state, a
  value below the bound: the rejection loop ends because the generator has full period.
\<close>

theorem java_nextInt_returns:
  assumes "bound \<noteq> 0" and "unat bound \<le> 2 ^ 31"
  shows "\<exists>r g'. nextInt_bound N bound g = Some (r, g') \<and> unat r < unat bound"
  using assms by (rule nextInt_bound_total)

theorem java_nextInt_returns_witness:
  "\<exists>r g'. nextInt_bound 1 10 \<lparr>seed = 0\<rparr> = Some (r, g') \<and> unat r < unat (10::u32)"
  by (rule java_nextInt_returns) simp_all

text \<open>
  The C function \<open>nextInt(seed, n)\<close> of cubiomes and the struct \<open>JavaRandom\<close> of this program
  draw the same integers from the same seed and leave the same seed behind.
\<close>

lemma c_nextInt_agrees:
  assumes "unat (seed g) < 2 ^ 48" and "0 < n" "n < 2147483648"
  shows "c_nextInt n (seed g) = map_option to_c (nextInt_bound 1 (of_int n) g)"
  using assms by (rule c_nextInt_eq)

text \<open>\<open>skipNextN(seed, n)\<close> of cubiomes is \<open>n\<close> calls of the generator, for every 64-bit \<open>n\<close>.\<close>

lemma skipNextN_is_iteration:
  assumes "unat s < 2 ^ 48"
  shows "unat (skipNextN s n) = (lcg ^^ unat n) (unat s)"
  using assms by (rule unat_skipNextN)

end
