(* ===== verification/Xrsr_Random.thy ===== *)
theory Xrsr_Random
  imports Prelude
begin

text \<open>
  The xoroshiro128++ generator: the struct \<open>XrsrRandom\<close> of src/src/Random.h with its forks, the
  straight-line variants \<open>XrsrRandom_seed_fork\<close>, \<open>XrsrRandom_double_fork\<close>, \<open>noise_yo_fork\<close> and
  \<open>octave_yo_fork_hash\<close> that the kernels of src/src/gpu.cu use in its place, and the C functions
  of src/cubiomes/rng.h.
\<close>

subsection \<open>XrsrRandom (src/src/Random.h)\<close>

record XrsrForkHash =
  hash_lo :: u64
  hash_hi :: u64

record XrsrRandomFork =
  fork_lo :: u64
  fork_hi :: u64

record XrsrRandom =
  lo :: u64
  hi :: u64

definition XRSR_MIX1 :: u64 where "XRSR_MIX1 = 0xbf58476d1ce4e5b9"
definition XRSR_MIX2 :: u64 where "XRSR_MIX2 = 0x94d049bb133111eb"
definition XRSR_MIX1_INVERSE :: u64 where "XRSR_MIX1_INVERSE = 0x96de1b173f119089"
definition XRSR_MIX2_INVERSE :: u64 where "XRSR_MIX2_INVERSE = 0x319642b2d24d8ec3"
definition XRSR_SILVER_RATIO :: u64 where "XRSR_SILVER_RATIO = 0x6a09e667f3bcc909"
definition XRSR_GOLDEN_RATIO :: u64 where "XRSR_GOLDEN_RATIO = 0x9e3779b97f4a7c15"

definition mix64 :: "u64 \<Rightarrow> u64" where
  "mix64 a =
     (let a = (a XOR drop_bit 30 a) * XRSR_MIX1;
          a = (a XOR drop_bit 27 a) * XRSR_MIX2
      in a XOR drop_bit 31 a)"

definition fix64 :: "u64 \<Rightarrow> u64" where
  "fix64 a =
     (let a = (a XOR drop_bit 31 a XOR drop_bit 62 a) * XRSR_MIX2_INVERSE;
          a = (a XOR drop_bit 27 a XOR drop_bit 54 a) * XRSR_MIX1_INVERSE
      in a XOR drop_bit 30 a XOR drop_bit 60 a)"

definition rol64 :: "u64 \<Rightarrow> nat \<Rightarrow> u64" where
  "rol64 a bits = push_bit bits a OR drop_bit (64 - bits) a"

text \<open>The check both constructors and \<open>setSeed\<close> end with: the all-zero state is replaced.\<close>

definition fix_zero :: "XrsrRandom \<Rightarrow> XrsrRandom" where
  "fix_zero r =
     (if lo r OR hi r = 0
      then r\<lparr>lo := - 7046029254386353131, hi := 7640891576956012809\<rparr>
      else r)"

definition XrsrRandom_make :: "u64 \<Rightarrow> u64 \<Rightarrow> XrsrRandom" where
  "XrsrRandom_make l h = fix_zero \<lparr>lo = l, hi = h\<rparr>"

definition setSeed :: "u64 \<Rightarrow> XrsrRandom" where
  "setSeed s =
     (let s = s XOR XRSR_SILVER_RATIO
      in fix_zero \<lparr>lo = mix64 s, hi = mix64 (s + XRSR_GOLDEN_RATIO)\<rparr>)"

definition nextInternal :: "XrsrRandom \<Rightarrow> u64 \<times> XrsrRandom" where
  "nextInternal rng =
     (let l = lo rng; h = hi rng;
          r = rol64 (l + h) 17 + l;
          h = h XOR l
      in (r, rng\<lparr>lo := rol64 l 49 XOR h XOR push_bit 21 h, hi := rol64 h 28\<rparr>))"

definition nextBits :: "nat \<Rightarrow> XrsrRandom \<Rightarrow> u64 \<times> XrsrRandom" where
  "nextBits bits g = (let (r, g') = nextInternal g in (drop_bit (64 - bits) r, g'))"

definition nextInt :: "XrsrRandom \<Rightarrow> u32 \<times> XrsrRandom" where
  "nextInt g = (let (r, g') = nextInternal g in (ucast r, g'))"

text \<open>
  \<open>nextInt(bound)\<close>: the multiply-and-shift draw with rejection. \<open>n\<close> is the low half of the
  product \<open>m\<close>; the loop repeats while \<open>n < j\<close>. A loop that never accepts is \<open>None\<close>.
\<close>

partial_function (option) nextInt_loop ::
    "u32 \<Rightarrow> u32 \<Rightarrow> u64 \<Rightarrow> XrsrRandom \<Rightarrow> (u64 \<times> XrsrRandom) option" where
  "nextInt_loop bound j m g =
     (if m AND 0xFFFFFFFF < ucast j
      then (let (l, g') = nextInt g in nextInt_loop bound j (ucast l * ucast bound) g')
      else Some (m, g))"

definition nextInt_bound :: "u32 \<Rightarrow> XrsrRandom \<Rightarrow> (u32 \<times> XrsrRandom) option" where
  "nextInt_bound bound g =
     (let (l, g') = nextInt g;
          m = ucast l * ucast bound :: u64;
          n = m AND 0xFFFFFFFF
      in map_option (\<lambda>(m, g). (ucast (drop_bit 32 m), g))
           (if n < ucast bound
            then nextInt_loop bound ((NOT bound + 1) mod bound) m g'
            else Some (m, g')))"

definition nextIntFast :: "u32 \<Rightarrow> XrsrRandom \<Rightarrow> u32 \<times> XrsrRandom" where
  "nextIntFast bound g =
     (let (l, g') = nextInt g; m = ucast l * ucast bound :: u64
      in (ucast (drop_bit 32 m), g'))"

definition nextLong :: "XrsrRandom \<Rightarrow> u64 \<times> XrsrRandom" where
  "nextLong g = nextInternal g"

definition nextBoolean :: "XrsrRandom \<Rightarrow> bool \<times> XrsrRandom" where
  "nextBoolean g = (let (r, g') = nextInternal g in (r AND 1 \<noteq> 0, g'))"

definition fork :: "XrsrRandom \<Rightarrow> XrsrRandomFork \<times> XrsrRandom" where
  "fork g =
     (let (l, g1) = nextLong g; (h, g2) = nextLong g1
      in (\<lparr>fork_lo = l, fork_hi = h\<rparr>, g2))"

definition fork_from :: "XrsrRandomFork \<Rightarrow> XrsrForkHash \<Rightarrow> XrsrRandom" where
  "fork_from f hash = XrsrRandom_make (fork_lo f XOR hash_lo hash) (fork_hi f XOR hash_hi hash)"

subsection \<open>The straight-line variants of src/src/gpu.cu\<close>

definition XrsrRandom_seed_fork :: "u64 \<Rightarrow> XrsrRandomFork" where
  "XrsrRandom_seed_fork s =
     (let s = s XOR XRSR_SILVER_RATIO;
          l = mix64 s;
          h = mix64 (s + XRSR_GOLDEN_RATIO);
          r1 = rol64 (l + h) 17 + l;
          h = h XOR l;
          l2 = rol64 l 49 XOR h XOR push_bit 21 h;
          h2 = rol64 h 28;
          r2 = rol64 (l2 + h2) 17 + l2
      in \<lparr>fork_lo = r1, fork_hi = r2\<rparr>)"

definition XrsrRandom_double_fork :: "XrsrRandom \<Rightarrow> XrsrRandomFork \<times> XrsrRandomFork" where
  "XrsrRandom_double_fork rng =
     (let l = lo rng; h = hi rng;
          r1 = rol64 (l + h) 17 + l;
          h = h XOR l;
          l2 = rol64 l 49 XOR h XOR push_bit 21 h;
          h2 = rol64 h 28;
          r2 = rol64 (l2 + h2) 17 + l2;
          h2 = h2 XOR l2;
          l3 = rol64 l2 49 XOR h2 XOR push_bit 21 h2;
          h3 = rol64 h2 28;
          r3 = rol64 (l3 + h3) 17 + l3;
          h3 = h3 XOR l3;
          l4 = rol64 l3 49 XOR h3 XOR push_bit 21 h3;
          h4 = rol64 h3 28;
          r4 = rol64 (l4 + h4) 17 + l4
      in (\<lparr>fork_lo = r1, fork_hi = r2\<rparr>, \<lparr>fork_lo = r3, fork_hi = r4\<rparr>))"

definition noise_yo_fork :: "XrsrRandomFork \<Rightarrow> XrsrRandomFork" where
  "noise_yo_fork noise_fork =
     (let l = fork_lo noise_fork; h = fork_hi noise_fork; h = h XOR l
      in \<lparr>fork_lo = rol64 l 49 XOR h XOR push_bit 21 h, fork_hi = rol64 h 28\<rparr>)"

definition octave_yo_fork_hash :: "XrsrForkHash \<Rightarrow> XrsrForkHash" where
  "octave_yo_fork_hash hash =
     (let rng = snd (nextInternal (XrsrRandom_make (hash_lo hash) (hash_hi hash)))
      in \<lparr>hash_lo = lo rng, hash_hi = hi rng\<rparr>)"

text \<open>
  The integer part of \<open>octave_yo_mod1\<close>: the 24 bits that the kernel multiplies by
  \<open>5.9604645E-8f\<close> (the multiplication is in the theory of the kernels).
\<close>

definition octave_yo_bits :: "XrsrForkHash \<Rightarrow> XrsrRandomFork \<Rightarrow> u64" where
  "octave_yo_bits octave_hash yo_fork =
     (let fork_hash = octave_yo_fork_hash octave_hash;
          l = fork_lo yo_fork XOR hash_lo fork_hash;
          h = fork_hi yo_fork XOR hash_hi fork_hash;
          r = rol64 (l + h) 17 + l
      in drop_bit 32 r AND 0xFFFFFF)"

subsection \<open>The C functions of src/cubiomes/rng.h\<close>

definition rotl64 :: "u64 \<Rightarrow> nat \<Rightarrow> u64" where
  "rotl64 x b = push_bit b x OR drop_bit (64 - b) x"

definition xSetSeed :: "u64 \<Rightarrow> XrsrRandom" where
  "xSetSeed value =
     (let XL = 0x9e3779b97f4a7c15; XH = 0x6a09e667f3bcc909;
          A = 0xbf58476d1ce4e5b9; B = 0x94d049bb133111eb;
          l = value XOR XH;
          h = l + XL;
          l = (l XOR drop_bit 30 l) * A;
          h = (h XOR drop_bit 30 h) * A;
          l = (l XOR drop_bit 27 l) * B;
          h = (h XOR drop_bit 27 h) * B;
          l = l XOR drop_bit 31 l;
          h = h XOR drop_bit 31 h
      in \<lparr>lo = l, hi = h\<rparr>)"

definition xNextLong :: "XrsrRandom \<Rightarrow> u64 \<times> XrsrRandom" where
  "xNextLong xr =
     (let l = lo xr; h = hi xr;
          n = rotl64 (l + h) 17 + l;
          h = h XOR l
      in (n, xr\<lparr>lo := rotl64 l 49 XOR h XOR push_bit 21 h, hi := rotl64 h 28\<rparr>))"

partial_function (option) xNextInt_loop ::
    "u32 \<Rightarrow> u64 \<Rightarrow> XrsrRandom \<Rightarrow> (u64 \<times> XrsrRandom) option" where
  "xNextInt_loop n r xr =
     (if (ucast r :: u32) < (NOT n + 1) mod n
      then (let (x, xr') = xNextLong xr in xNextInt_loop n ((x AND 0xFFFFFFFF) * ucast n) xr')
      else Some (r, xr))"

text \<open>\<open>xNextInt\<close> returns \<open>r >> 32\<close> as an \<open>int\<close>, which is non-negative for bounds below \<open>2^31\<close>.\<close>

definition xNextInt :: "u32 \<Rightarrow> XrsrRandom \<Rightarrow> (i32 \<times> XrsrRandom) option" where
  "xNextInt n xr =
     (let (x, xr') = xNextLong xr; r = (x AND 0xFFFFFFFF) * ucast n
      in map_option (\<lambda>(r, xr). (ucast (drop_bit 32 r), xr))
           (if (ucast r :: u32) < n then xNextInt_loop n r xr' else Some (r, xr')))"

fun xSkipN :: "nat \<Rightarrow> XrsrRandom \<Rightarrow> XrsrRandom" where
  "xSkipN 0 xr = xr"
| "xSkipN (Suc n) xr = xSkipN n (snd (xNextLong xr))"

definition xNextLongJ :: "XrsrRandom \<Rightarrow> u64 \<times> XrsrRandom" where
  "xNextLongJ xr =
     (let (x, xr1) = xNextLong xr; (y, xr2) = xNextLong xr1;
          a = ucast (drop_bit 32 x) :: i32; b = ucast (drop_bit 32 y) :: i32
      in (push_bit 32 (scast a) + scast b, xr2))"

subsection \<open>The mixer and its inverse\<close>

lemma xorshift_inverse:
  fixes a :: u64
  assumes "64 \<le> 3 * k"
  shows "(let b = a XOR drop_bit k a in b XOR drop_bit k b XOR drop_bit (k + k) b) = a"
  using assms by (auto intro!: bit_word_eqI simp: Let_def bit_simps ac_simps dest: bit_imp_le_length)

lemma xorshift_inverse':
  fixes b :: u64
  assumes "64 \<le> 3 * k"
  shows "(let a = b XOR drop_bit k b XOR drop_bit (k + k) b in a XOR drop_bit k a) = b"
  using assms by (auto intro!: bit_word_eqI simp: Let_def bit_simps ac_simps dest: bit_imp_le_length)

lemma mix_units:
  "XRSR_MIX1 * XRSR_MIX1_INVERSE = 1" "XRSR_MIX2 * XRSR_MIX2_INVERSE = 1"
  by (simp_all add: XRSR_MIX1_def XRSR_MIX2_def XRSR_MIX1_INVERSE_def XRSR_MIX2_INVERSE_def)

lemma mix_inverses [simp]:
  "a * XRSR_MIX1 * XRSR_MIX1_INVERSE = a" "a * XRSR_MIX1_INVERSE * XRSR_MIX1 = a"
  "a * XRSR_MIX2 * XRSR_MIX2_INVERSE = a" "a * XRSR_MIX2_INVERSE * XRSR_MIX2 = a"
  by (simp_all add: mult.assoc mix_units mult.commute [of XRSR_MIX1_INVERSE]
      mult.commute [of XRSR_MIX2_INVERSE])

lemma fix64_mix64: "fix64 (mix64 a) = a"
  using xorshift_inverse [of 30] xorshift_inverse [of 27] xorshift_inverse [of 31]
  by (simp add: fix64_def mix64_def Let_def)

lemma mix64_fix64: "mix64 (fix64 a) = a"
  using xorshift_inverse' [of 30] xorshift_inverse' [of 27] xorshift_inverse' [of 31]
  by (simp add: fix64_def mix64_def Let_def)

lemma mix64_eq_0: "mix64 a = 0 \<longleftrightarrow> a = 0"
proof -
  have "fix64 0 = 0" by (simp add: fix64_def)
  then show ?thesis using fix64_mix64 [of a] by (auto simp: mix64_def)
qed

text \<open>The seeding never produces the all-zero state, so the check in \<open>setSeed\<close> never fires.\<close>

lemma setSeed_mix:
  "setSeed s = \<lparr>lo = mix64 (s XOR XRSR_SILVER_RATIO),
     hi = mix64 ((s XOR XRSR_SILVER_RATIO) + XRSR_GOLDEN_RATIO)\<rparr>"
  by (auto simp: setSeed_def fix_zero_def Let_def or_eq_0 mix64_eq_0 XRSR_GOLDEN_RATIO_def)

lemma seed_fork_eq: "XrsrRandom_seed_fork s = fst (fork (setSeed s))"
  by (simp add: XrsrRandom_seed_fork_def fork_def nextLong_def nextInternal_def setSeed_mix Let_def)

lemma double_fork_eq:
  "XrsrRandom_double_fork g = (let (a, g1) = fork g; (b, g2) = fork g1 in (a, b))"
  by (simp add: XrsrRandom_double_fork_def fork_def nextLong_def nextInternal_def Let_def)

subsection \<open>The state update\<close>

lemma bit_rol64:
  "k \<le> 64 \<Longrightarrow> bit (rol64 a k) i \<longleftrightarrow>
     i < 64 \<and> (if k \<le> i then bit a (i - k) else bit a (64 - k + i))"
  by (auto simp: rol64_def bit_simps dest: bit_imp_le_length)

lemma rol64_inverse: "k \<le> 64 \<Longrightarrow> rol64 (rol64 a k) (64 - k) = a"
  by (rule bit_word_eqI) (auto simp: bit_rol64)

lemma rol64_0 [simp]: "rol64 0 k = 0"
  by (simp add: rol64_def)

lemma rol64_eq_0: "k \<le> 64 \<Longrightarrow> rol64 a k = 0 \<longleftrightarrow> a = 0"
  using rol64_inverse [of k a] by (metis rol64_0)

lemma rol64_xor: "rol64 (a XOR b) k = rol64 a k XOR rol64 b k" if "k \<le> 64"
  using that by (auto intro!: bit_word_eqI simp: bit_rol64 bit_xor_iff)

definition xrsr_step :: "XrsrRandom \<Rightarrow> XrsrRandom" where
  "xrsr_step g = snd (nextInternal g)"

lemma lo_xrsr_step: "lo (xrsr_step g) = rol64 (lo g) 49 XOR (hi g XOR lo g) XOR push_bit 21 (hi g XOR lo g)"
  and hi_xrsr_step: "hi (xrsr_step g) = rol64 (hi g XOR lo g) 28"
  by (simp_all add: xrsr_step_def nextInternal_def Let_def)

text \<open>The update is a bijection on the 128-bit states.\<close>

definition xrsr_unstep :: "XrsrRandom \<Rightarrow> XrsrRandom" where
  "xrsr_unstep g =
     (let h' = rol64 (hi g) 36; l = rol64 (lo g XOR h' XOR push_bit 21 h') 15
      in g\<lparr>lo := l, hi := h' XOR l\<rparr>)"

lemma xrsr_unstep_step: "xrsr_unstep (xrsr_step g) = g"
proof -
  have h: "rol64 (hi (xrsr_step g)) 36 = hi g XOR lo g"
    using rol64_inverse [of 28 "hi g XOR lo g"] by (simp add: hi_xrsr_step)
  have "lo (xrsr_step g) XOR (hi g XOR lo g) XOR push_bit 21 (hi g XOR lo g) = rol64 (lo g) 49"
    by (simp add: lo_xrsr_step ac_simps)
  then have "rol64 (lo (xrsr_step g) XOR (hi g XOR lo g) XOR push_bit 21 (hi g XOR lo g)) 15 = lo g"
    using rol64_inverse [of 49 "lo g"] by simp
  then show ?thesis
    by (simp add: xrsr_unstep_def h Let_def xor.assoc)
qed

lemma xrsr_step_unstep: "xrsr_step (xrsr_unstep g) = g"
proof -
  let ?h = "rol64 (hi g) 36"
  let ?x = "lo g XOR ?h XOR push_bit 21 ?h"
  have "hi (xrsr_step (xrsr_unstep g)) = hi g"
    using rol64_inverse [of 36 "hi g"] by (simp add: hi_xrsr_step xrsr_unstep_def Let_def xor.assoc)
  moreover have "lo (xrsr_step (xrsr_unstep g)) = lo g"
    using rol64_inverse [of 15 ?x]
    by (simp add: lo_xrsr_step xrsr_unstep_def Let_def xor.assoc)
  ultimately show ?thesis
    by (simp add: xrsr_step_def xrsr_unstep_def nextInternal_def Let_def)
qed

lemma xrsr_step_bij: "bij xrsr_step"
  by (rule bijI') (metis xrsr_unstep_step, metis xrsr_step_unstep)

text \<open>The all-zero state is unreachable: constructors exclude it and the update keeps it out.\<close>

definition nonzero :: "XrsrRandom \<Rightarrow> bool" where
  "nonzero g \<longleftrightarrow> lo g OR hi g \<noteq> 0"

lemma nonzero_fix_zero: "nonzero (fix_zero g)"
  by (simp add: nonzero_def fix_zero_def)

lemma nonzero_step: "nonzero (xrsr_step g) \<longleftrightarrow> nonzero g"
proof -
  have "hi g = lo g \<and> rol64 (lo g) 49 = 0 \<longleftrightarrow> hi g = 0 \<and> lo g = 0"
    by (auto simp: rol64_eq_0)
  then show ?thesis
    by (auto simp: nonzero_def or_eq_0 lo_xrsr_step hi_xrsr_step rol64_eq_0 xor_eq_0)
qed

text \<open>The update is linear over exclusive or.\<close>

lemma xrsr_step_linear:
  "lo (xrsr_step \<lparr>lo = a XOR c, hi = b XOR d\<rparr>)
     = lo (xrsr_step \<lparr>lo = a, hi = b\<rparr>) XOR lo (xrsr_step \<lparr>lo = c, hi = d\<rparr>)"
  "hi (xrsr_step \<lparr>lo = a XOR c, hi = b XOR d\<rparr>)
     = hi (xrsr_step \<lparr>lo = a, hi = b\<rparr>) XOR hi (xrsr_step \<lparr>lo = c, hi = d\<rparr>)"
  by (simp_all add: lo_xrsr_step hi_xrsr_step rol64_xor push_bit_xor64 ac_simps)

text \<open>
  The second draw of the generator that a fork and a hash give can be computed from the two
  advanced separately, which is what \<open>noise_yo_fork\<close> and \<open>octave_yo_fork_hash\<close> do.
\<close>

lemma octave_yo_bits_eq:
  assumes "\<not> (fork_lo f = hash_lo h \<and> fork_hi f = hash_hi h)"
    and "hash_lo h OR hash_hi h \<noteq> 0"
  shows "octave_yo_bits h (noise_yo_fork f)
    = drop_bit 32 (fst (nextInternal (xrsr_step (fork_from f h)))) AND 0xFFFFFF"
proof -
  let ?F = "\<lparr>lo = fork_lo f, hi = fork_hi f\<rparr>" and ?H = "\<lparr>lo = hash_lo h, hi = hash_hi h\<rparr>"
  let ?g = "\<lparr>lo = fork_lo f XOR hash_lo h, hi = fork_hi f XOR hash_hi h\<rparr>"
  have g: "fork_from f h = ?g"
    using assms(1) by (auto simp: fork_from_def XrsrRandom_make_def fix_zero_def or_eq_0 xor_eq_0)
  have yo: "noise_yo_fork f = \<lparr>fork_lo = lo (xrsr_step ?F), fork_hi = hi (xrsr_step ?F)\<rparr>"
    by (simp add: noise_yo_fork_def lo_xrsr_step hi_xrsr_step Let_def xor.assoc)
  have hash: "octave_yo_fork_hash h = \<lparr>hash_lo = lo (xrsr_step ?H), hash_hi = hi (xrsr_step ?H)\<rparr>"
    using assms(2) by (simp add: octave_yo_fork_hash_def XrsrRandom_make_def fix_zero_def xrsr_step_def Let_def)
  have "fst (nextInternal (xrsr_step ?g))
      = rol64 (lo (xrsr_step ?g) + hi (xrsr_step ?g)) 17 + lo (xrsr_step ?g)"
    by (simp add: nextInternal_def Let_def)
  then show ?thesis
    by (simp add: octave_yo_bits_def g yo hash Let_def xrsr_step_linear)
qed

subsection \<open>Bounded draws\<close>

text \<open>
  The rejection rule on natural numbers: a 32-bit draw \<open>x\<close> is accepted for \<open>b\<close> when the low
  half of \<open>x * b\<close> is at least \<open>2^32 mod b\<close>; its value is the high half.
\<close>

definition lemire_accept :: "nat \<Rightarrow> nat \<Rightarrow> bool" where
  "lemire_accept b x \<longleftrightarrow> 2 ^ 32 mod b \<le> (x * b) mod 2 ^ 32"

definition lemire_value :: "nat \<Rightarrow> nat \<Rightarrow> nat" where
  "lemire_value b x = (x * b) div 2 ^ 32"

lemma lemire_value_less: "x < 2 ^ 32 \<Longrightarrow> 0 < b \<Longrightarrow> lemire_value b x < b"
  unfolding lemire_value_def by (rule less_mult_imp_div_less) (simp add: mult.commute)

lemma unat_threshold: "b \<noteq> 0 \<Longrightarrow> unat ((NOT b + 1) mod b) = 2 ^ 32 mod unat b" for b :: u32
proof -
  assume b: "b \<noteq> 0"
  have "NOT b + 1 = - b" by (simp add: minus_eq_not_plus_1)
  then have "unat (NOT b + 1) = 2 ^ 32 - unat b"
    using unat_neg_u32 [OF b] by simp
  moreover have "unat b \<le> 2 ^ 32" using unat_less [of b] by simp
  ultimately show ?thesis
    by (simp only: unat_mod le_mod_geq)
qed

lemma reject_iff:
  fixes x b :: u32
  assumes "b \<noteq> 0"
  shows "(ucast x * ucast b :: u64) AND 0xFFFFFFFF < ucast ((NOT b + 1) mod b)
    \<longleftrightarrow> \<not> lemire_accept (unat b) (unat x)"
  using unat_threshold [OF assms]
  by (simp only: and_low32 word_less_nat_alt unat_take_bit unat_prod_u32 unat_ucast_u64
      lemire_accept_def not_le)

lemma snd_nextInt [simp]: "snd (nextInt g) = xrsr_step g"
  by (simp add: nextInt_def xrsr_step_def split_beta)

definition draw32 :: "XrsrRandom \<Rightarrow> nat" where
  "draw32 g = unat (fst (nextInt g))"

lemma draw32_less: "draw32 g < 2 ^ 32"
  using unat_less [of "fst (nextInt g)"] by (simp add: draw32_def)

lemma nextInt_bound_unfold:
  assumes b: "b \<noteq> 0"
  shows "nextInt_bound b g =
    map_option (\<lambda>(m, g). (ucast (drop_bit 32 m), g))
      (nextInt_loop b ((NOT b + 1) mod b) (ucast (fst (nextInt g)) * ucast b) (xrsr_step g))"
proof -
  let ?m = "ucast (fst (nextInt g)) * ucast b :: u64" and ?j = "(NOT b + 1) mod b"
  have "ucast ?j < (ucast b :: u64)"
    using b unat_threshold [OF b] by (simp add: word_less_nat_alt unat_gt_0)
  then have else_branch: "nextInt_loop b ?j ?m (xrsr_step g) = Some (?m, xrsr_step g)"
    if "\<not> ?m AND 0xFFFFFFFF < ucast b"
  proof -
    have "\<not> ?m AND 0xFFFFFFFF < ucast ?j" using that \<open>ucast ?j < ucast b\<close> order_less_trans by blast
    then show ?thesis by (subst nextInt_loop.simps) (simp only: if_False)
  qed
  have "nextInt_bound b g = map_option (\<lambda>(m, g). (ucast (drop_bit 32 m), g))
      (if ?m AND 0xFFFFFFFF < ucast b then nextInt_loop b ?j ?m (xrsr_step g)
       else Some (?m, xrsr_step g))"
    by (simp only: nextInt_bound_def split_beta Let_def snd_nextInt)
  then show ?thesis using else_branch by (cases "?m AND 0xFFFFFFFF < ucast b") (simp_all only: if_True if_False simp_thms)
qed

lemma nextInt_loop_accept:
  assumes b: "b \<noteq> 0"
    and "lemire_accept (unat b) (draw32 ((xrsr_step ^^ k) g))"
    and "\<forall>i < k. \<not> lemire_accept (unat b) (draw32 ((xrsr_step ^^ i) g))"
  shows "nextInt_loop b ((NOT b + 1) mod b) (ucast (fst (nextInt g)) * ucast b) (xrsr_step g)
    = Some (ucast (fst (nextInt ((xrsr_step ^^ k) g))) * ucast b, (xrsr_step ^^ Suc k) g)"
  using assms(2,3)
proof (induction k arbitrary: g)
  case 0
  then show ?case
    by (subst nextInt_loop.simps) (simp add: reject_iff [OF b] draw32_def)
next
  case (Suc k)
  have r: "\<not> lemire_accept (unat b) (draw32 g)" using Suc.prems(2) by auto
  have "\<forall>i < k. \<not> lemire_accept (unat b) (draw32 ((xrsr_step ^^ i) (xrsr_step g)))"
  proof (intro allI impI)
    fix i assume "i < k"
    then have "\<not> lemire_accept (unat b) (draw32 ((xrsr_step ^^ Suc i) g))"
      using Suc.prems(2) by blast
    then show "\<not> lemire_accept (unat b) (draw32 ((xrsr_step ^^ i) (xrsr_step g)))"
      by (simp add: funpow_swap1)
  qed
  then have "nextInt_loop b ((NOT b + 1) mod b) (ucast (fst (nextInt (xrsr_step g))) * ucast b)
      (xrsr_step (xrsr_step g))
    = Some (ucast (fst (nextInt ((xrsr_step ^^ k) (xrsr_step g)))) * ucast b,
        (xrsr_step ^^ Suc k) (xrsr_step g))"
    using Suc.prems(1) by (intro Suc.IH) (simp_all add: funpow_swap1)
  then show ?case using r
    by (subst nextInt_loop.simps)
      (simp add: reject_iff [OF b] draw32_def split_beta funpow_swap1)
qed

lemma ucast_high: "unat (ucast (drop_bit 32 (ucast (x::u32) * ucast (b::u32) :: u64)) :: u32)
    = lemire_value (unat b) (unat x)" 
proof -
  have "unat x * unat b div 2 ^ 32 < 2 ^ 32"
    using unat_less [of x] unat_less [of b]
    by (intro less_mult_imp_div_less mult_strict_mono) simp_all
  then show ?thesis
    by (simp add: unsigned_ucast_eq unat_drop_bit unat_prod_u32 lemire_value_def take_bit_nat_eq_self)
qed

lemma nextInt_bound_first:
  assumes "b \<noteq> 0"
    and "lemire_accept (unat b) (draw32 ((xrsr_step ^^ k) g))"
    and "\<forall>i < k. \<not> lemire_accept (unat b) (draw32 ((xrsr_step ^^ i) g))"
  shows "\<exists>r. nextInt_bound b g = Some (r, (xrsr_step ^^ Suc k) g)
    \<and> unat r = lemire_value (unat b) (draw32 ((xrsr_step ^^ k) g))"
  using nextInt_loop_accept [OF assms]
  by (simp add: nextInt_bound_unfold [OF assms(1)] ucast_high draw32_def)


text \<open>If the loop returns, some draw was accepted.\<close>

lemma nextInt_loop_Some:
  assumes ret: "nextInt_loop b j m g = Some (m', g')"
  shows "\<not> m' AND 0xFFFFFFFF < ucast j \<and>
    (m' = m \<and> g' = g \<or> (\<exists>k. m' = ucast (fst (nextInt ((xrsr_step ^^ k) g))) * ucast b))"
proof -
  have "\<not> fst r AND 0xFFFFFFFF < ucast j \<and>
    (fst r = m \<and> snd r = g \<or> (\<exists>k. fst r = ucast (fst (nextInt ((xrsr_step ^^ k) g))) * ucast b))"
    if "nextInt_loop b j m g = Some r" for r
  proof (rule nextInt_loop.raw_induct [where P = "\<lambda>b j m g r. \<not> fst r AND 0xFFFFFFFF < ucast j \<and>
    (fst r = m \<and> snd r = g \<or> (\<exists>k. fst r = ucast (fst (nextInt ((xrsr_step ^^ k) g))) * ucast b))", OF _ that])
    fix f b j m g r
    assume IH: "\<And>b j m g r. f b j m g = Some r \<Longrightarrow> \<not> fst r AND 0xFFFFFFFF < ucast j \<and>
      (fst r = m \<and> snd r = g \<or> (\<exists>k. fst r = ucast (fst (nextInt ((xrsr_step ^^ k) g))) * ucast b))"
      and eq: "(if m AND 0xFFFFFFFF < ucast j
        then (let (l, g') = nextInt g in f b j (ucast l * ucast b) g') else Some (m, g)) = Some r"
    show "\<not> fst r AND 0xFFFFFFFF < ucast j \<and>
      (fst r = m \<and> snd r = g \<or> (\<exists>k. fst r = ucast (fst (nextInt ((xrsr_step ^^ k) g))) * ucast b))"
    proof (cases "m AND 0xFFFFFFFF < ucast j")
      case False
      with eq show ?thesis by auto
    next
      case True
      with eq have "f b j (ucast (fst (nextInt g)) * ucast b) (xrsr_step g) = Some r"
        by (simp add: split_beta Let_def)
      from IH [OF this] show ?thesis
        using orbit_step [of "\<lambda>x. fst r = ucast (fst (nextInt x)) * ucast b" g xrsr_step] by blast
    qed
  qed
  from this [OF ret] show ?thesis by simp
qed

lemma nextInt_bound_returns_iff:
  assumes b: "b \<noteq> 0"
  shows "(\<exists>r g'. nextInt_bound b g = Some (r, g'))
    \<longleftrightarrow> (\<exists>k. lemire_accept (unat b) (draw32 ((xrsr_step ^^ k) g)))"
proof
  assume "\<exists>k. lemire_accept (unat b) (draw32 ((xrsr_step ^^ k) g))"
  then obtain k where "lemire_accept (unat b) (draw32 ((xrsr_step ^^ k) g))"
    "\<forall>i < k. \<not> lemire_accept (unat b) (draw32 ((xrsr_step ^^ i) g))"
    using exists_least_iff [of "\<lambda>k. lemire_accept (unat b) (draw32 ((xrsr_step ^^ k) g))"] by blast
  from nextInt_bound_first [OF b this] show "\<exists>r g'. nextInt_bound b g = Some (r, g')" by blast
next
  let ?j = "(NOT b + 1) mod b"
  assume "\<exists>r g'. nextInt_bound b g = Some (r, g')"
  then obtain m g' where "nextInt_loop b ?j (ucast (fst (nextInt g)) * ucast b) (xrsr_step g) = Some (m, g')"
    unfolding nextInt_bound_unfold [OF b] by auto
  from nextInt_loop_Some [OF this]
  have "\<not> m AND 0xFFFFFFFF < ucast ?j"
    and "\<exists>k. m = ucast (fst (nextInt ((xrsr_step ^^ k) g))) * ucast b"
    using orbit_step [of "\<lambda>x. m = ucast (fst (nextInt x)) * ucast b" g xrsr_step] by blast+
  then show "\<exists>k. lemire_accept (unat b) (draw32 ((xrsr_step ^^ k) g))"
    by (auto simp: reject_iff [OF b] draw32_def)
qed

lemma nextInt_bound_less:
  assumes b: "b \<noteq> 0" and "nextInt_bound b g = Some (r, g')"
  shows "unat r < unat b"
proof -
  obtain k where "lemire_accept (unat b) (draw32 ((xrsr_step ^^ k) g))"
    "\<forall>i < k. \<not> lemire_accept (unat b) (draw32 ((xrsr_step ^^ i) g))"
    using nextInt_bound_returns_iff [OF b, of g] assms(2)
      exists_least_iff [of "\<lambda>k. lemire_accept (unat b) (draw32 ((xrsr_step ^^ k) g))"] by blast
  from nextInt_bound_first [OF b this]
  have "unat r = lemire_value (unat b) (draw32 ((xrsr_step ^^ k) g))" using assms(2) by simp
  then show ?thesis using lemire_value_less [OF draw32_less] b by (simp add: unat_gt_0)
qed

text \<open>Each value of a bounded draw is reached by equally many accepted 32-bit draws.\<close>


lemma lemire_unbiased:
  assumes b: "0 < b" and b32: "b \<le> 2 ^ 32" and v: "v < b"
  shows "card {x. x < 2 ^ 32 \<and> lemire_accept b x \<and> lemire_value b x = v} = 2 ^ 32 div b"
proof -
  let ?M = "2 ^ 32 :: nat"
  let ?t = "?M mod b" and ?q = "?M div b"
  have tq: "?t + b * ?q = ?M" by simp
  have iff: "x < ?M \<and> lemire_accept b x \<and> lemire_value b x = v
    \<longleftrightarrow> v * ?M + ?t \<le> x * b \<and> x * b < v * ?M + ?t + b * ?q" for x
  proof
    assume x: "x < ?M \<and> lemire_accept b x \<and> lemire_value b x = v"
    have "x * b = v * ?M + (x * b) mod ?M"
      using x div_mult_mod_eq [of "x * b" ?M] by (simp only: lemire_value_def)
    moreover have "(x * b) mod ?M < ?M" by simp
    ultimately show "v * ?M + ?t \<le> x * b \<and> x * b < v * ?M + ?t + b * ?q"
      using x tq unfolding lemire_accept_def by linarith
  next
    assume x: "v * ?M + ?t \<le> x * b \<and> x * b < v * ?M + ?t + b * ?q"
    then have lt: "x * b < v * ?M + ?M" using tq by linarith
    have "v * ?M \<le> x * b" using x by linarith
    then have dv: "(x * b) div ?M = v"
      using lt by (intro div_nat_eqI) (simp_all add: mult.commute)
    have "Suc v * ?M \<le> b * ?M" using v by (intro mult_le_mono1) simp
    then have "x * b < ?M * b" using lt by (simp only: mult_Suc mult.commute [of ?M b])
    then have "x < ?M" by (rule mult_less_cancel2 [THEN iffD1, THEN conjunct2])
    moreover have "x * b = v * ?M + (x * b) mod ?M" using dv by (metis div_mult_mod_eq)
    ultimately show "x < ?M \<and> lemire_accept b x \<and> lemire_value b x = v"
      using x dv unfolding lemire_accept_def lemire_value_def by linarith
  qed
  show ?thesis unfolding iff by (rule card_multiples [OF b])
qed

subsection \<open>The C functions agree with the struct\<close>

lemma rotl64_eq [simp]: "rotl64 = rol64"
  by (simp add: rotl64_def rol64_def fun_eq_iff)

lemma xNextLong_eq: "xNextLong g = nextInternal g"
  by (simp add: xNextLong_def nextInternal_def Let_def)

lemma xSetSeed_eq: "xSetSeed s = setSeed s"
  by (simp add: xSetSeed_def setSeed_mix mix64_def XRSR_SILVER_RATIO_def XRSR_GOLDEN_RATIO_def
      XRSR_MIX1_def XRSR_MIX2_def Let_def)

lemma xSkipN_eq: "xSkipN n g = (xrsr_step ^^ n) g"
  by (induction n arbitrary: g) (simp_all add: xNextLong_eq xrsr_step_def funpow_swap1)

lemma xNextInt_loop_le:
  "xNextInt_loop n r g = Some y \<Longrightarrow> nextInt_loop n ((NOT n + 1) mod n) r g = Some y"
proof (rule xNextInt_loop.raw_induct
    [where P = "\<lambda>n r g y. nextInt_loop n ((NOT n + 1) mod n) r g = Some y"])
  fix f n r g y
  assume IH: "\<And>n r g y. f n r g = Some y \<Longrightarrow> nextInt_loop n ((NOT n + 1) mod n) r g = Some y"
    and eq: "(if (ucast r :: u32) < (NOT n + 1) mod n
      then (let (x, xr') = xNextLong g in f n ((x AND 0xFFFFFFFF) * ucast n) xr')
      else Some (r, g)) = Some y"
  show "nextInt_loop n ((NOT n + 1) mod n) r g = Some y"
    using eq IH by (subst nextInt_loop.simps)
      (auto simp: less_low32 nextInt_def xNextLong_eq ucast_low32 split: if_splits prod.splits)
qed

lemma nextInt_loop_le:
  "nextInt_loop n j r g = Some y \<Longrightarrow> j = (NOT n + 1) mod n \<Longrightarrow> xNextInt_loop n r g = Some y"
proof (rule nextInt_loop.raw_induct
    [where P = "\<lambda>n j r g y. j = (NOT n + 1) mod n \<longrightarrow> xNextInt_loop n r g = Some y", THEN mp])
  fix f n j r g y
  assume IH: "\<And>n j r g y. f n j r g = Some y \<Longrightarrow> j = (NOT n + 1) mod n \<longrightarrow> xNextInt_loop n r g = Some y"
    and eq: "(if r AND 0xFFFFFFFF < ucast j
      then (let (l, g') = nextInt g in f n j (ucast l * ucast n) g') else Some (r, g)) = Some y"
  show "j = (NOT n + 1) mod n \<longrightarrow> xNextInt_loop n r g = Some y"
    using eq IH by (subst xNextInt_loop.simps)
      (auto simp: less_low32 nextInt_def xNextLong_eq ucast_low32 split: if_splits prod.splits)
qed

lemma xNextInt_loop_eq: "xNextInt_loop n r g = nextInt_loop n ((NOT n + 1) mod n) r g"
  using xNextInt_loop_le [of n r g] nextInt_loop_le [of n _ r g]
  by (cases "xNextInt_loop n r g"; cases "nextInt_loop n ((NOT n + 1) mod n) r g") auto

lemma xNextInt_eq: "xNextInt n g = nextInt_bound n g"
  by (simp add: xNextInt_def nextInt_bound_def nextInt_def xNextLong_eq xNextInt_loop_eq
      less_low32 ucast_low32 split_beta Let_def)

subsection \<open>Properties\<close>

text \<open>\<open>fix64\<close> inverts the seed mixer \<open>mix64\<close>, on both sides.\<close>

lemma mix64_roundtrip: "fix64 (mix64 a) = a \<and> mix64 (fix64 a) = a"
  using fix64_mix64 mix64_fix64 by blast

text \<open>
  The straight-line forks of the kernels are the forks of \<open>XrsrRandom\<close>: \<open>XrsrRandom_seed_fork\<close>
  is \<open>setSeed\<close> followed by \<open>fork\<close> (the check for the all-zero state, which it leaves out, never
  fires), and \<open>XrsrRandom_double_fork\<close> is two successive forks.
\<close>

lemma kernel_forks_agree:
  "XrsrRandom_seed_fork s = fst (fork (setSeed s)) \<and>
   XrsrRandom_double_fork g = (fst (fork g), fst (fork (snd (fork g))))"
  by (simp add: seed_fork_eq double_fork_eq split_beta)

text \<open>
  The state update of \<open>XrsrRandom\<close> keeps the state non-zero (and only the zero state maps to
  zero), and both ways of building a generator start it non-zero.
\<close>

lemma xrsr_never_zero:
  "nonzero (setSeed s) \<and> nonzero (XrsrRandom_make l h) \<and>
   (nonzero (snd (nextInternal g)) \<longleftrightarrow> nonzero g)"
  using nonzero_fix_zero nonzero_step [of g]
  by (simp add: setSeed_def XrsrRandom_make_def Let_def xrsr_step_def)

text \<open>
  \<open>XrsrRandom::nextInt(bound)\<close> returns the scaled value of the first draw that is not
  rejected, and that value is below the bound. It returns exactly when some draw is accepted.
\<close>

lemma xrsr_nextInt_draws:
  assumes "b \<noteq> 0"
  shows "case nextInt_bound b g of
      None \<Rightarrow> (\<forall>k. \<not> lemire_accept (unat b) (draw32 ((xrsr_step ^^ k) g)))
    | Some (r, g') \<Rightarrow> unat r < unat b \<and>
        (\<exists>k. lemire_accept (unat b) (draw32 ((xrsr_step ^^ k) g)) \<and>
             (\<forall>i < k. \<not> lemire_accept (unat b) (draw32 ((xrsr_step ^^ i) g))) \<and>
             unat r = lemire_value (unat b) (draw32 ((xrsr_step ^^ k) g)) \<and> g' = (xrsr_step ^^ Suc k) g)"
proof (cases "\<exists>k. lemire_accept (unat b) (draw32 ((xrsr_step ^^ k) g))")
  case True
  then obtain k where k: "lemire_accept (unat b) (draw32 ((xrsr_step ^^ k) g))"
    "\<forall>i < k. \<not> lemire_accept (unat b) (draw32 ((xrsr_step ^^ i) g))"
    using exists_least_iff [of "\<lambda>k. lemire_accept (unat b) (draw32 ((xrsr_step ^^ k) g))"] by blast
  from nextInt_bound_first [OF assms this] obtain r where r: "nextInt_bound b g = Some (r, (xrsr_step ^^ Suc k) g)"
    "unat r = lemire_value (unat b) (draw32 ((xrsr_step ^^ k) g))" by blast
  show ?thesis unfolding r(1) prod.case option.case
    using nextInt_bound_less [OF assms r(1)] k r(2) by blast
next
  case False
  with nextInt_bound_returns_iff [OF assms, of g] show ?thesis by (cases "nextInt_bound b g") auto
qed

text \<open>
  C0. \<open>nextInt(bound)\<close> is unbiased: it rejects every draw up to the first accepted one and returns the
  scaled value of that one, which leaves the generator behind it; it does not return only if all draws
  are rejected; and among the \<open>2^32\<close> draws the accepted ones with a given value below the bound are
  exactly \<open>2^32 div bound\<close>, the same number for each value.
\<close>

theorem xrsr_nextInt_unbiased:
  assumes "b \<noteq> 0"
  shows "(case nextInt_bound b g of
      None \<Rightarrow> (\<forall>k. \<not> lemire_accept (unat b) (draw32 ((xrsr_step ^^ k) g)))
    | Some (r, g') \<Rightarrow> unat r < unat b \<and>
        (\<exists>k. lemire_accept (unat b) (draw32 ((xrsr_step ^^ k) g)) \<and>
             (\<forall>i < k. \<not> lemire_accept (unat b) (draw32 ((xrsr_step ^^ i) g))) \<and>
             unat r = lemire_value (unat b) (draw32 ((xrsr_step ^^ k) g)) \<and> g' = (xrsr_step ^^ Suc k) g)) \<and>
    (\<forall>v < unat b. card {x. x < 2 ^ 32 \<and> lemire_accept (unat b) x \<and> lemire_value (unat b) x = v} = 2 ^ 32 div unat b)"
  using xrsr_nextInt_draws [OF assms] lemire_unbiased [of "unat b"] unat_less [of b] assms
  by (auto simp: unat_gt_0 less_imp_le)

theorem xrsr_nextInt_unbiased_witness:
  "(\<exists>r. nextInt_bound 6 \<lparr>lo = 1, hi = 2\<rparr> = Some (r, xrsr_step \<lparr>lo = 1, hi = 2\<rparr>) \<and> unat r = lemire_value 6 (draw32 \<lparr>lo = 1, hi = 2\<rparr>)) \<and>
   card {x. x < 2 ^ 32 \<and> lemire_accept 6 x \<and> lemire_value 6 x = 5} = 2 ^ 32 div 6"
proof -
  let ?g = "\<lparr>lo = 1, hi = 2\<rparr>"
  have a: "lemire_accept (unat (6::u32)) (draw32 ((xrsr_step ^^ 0) ?g))"
    by (simp add: lemire_accept_def draw32_def nextInt_def nextBits_def nextInternal_def rol64_def Let_def)
  have "6 \<noteq> (0::u32)" by simp
  note w = xrsr_nextInt_unbiased [OF this, of ?g]
  obtain r g' where x: "nextInt_bound 6 ?g = Some (r, g')"
  proof (cases "nextInt_bound 6 ?g")
    case None
    from w [unfolded None option.case] a show ?thesis by blast
  next
    case (Some v)
    then show ?thesis using that by (cases v) blast
  qed
  from w [unfolded x option.case prod.case] obtain k where
    k: "\<forall>i < k. \<not> lemire_accept (unat (6::u32)) (draw32 ((xrsr_step ^^ i) ?g))"
      "unat r = lemire_value (unat (6::u32)) (draw32 ((xrsr_step ^^ k) ?g))" "g' = (xrsr_step ^^ Suc k) ?g" by blast
  have "k = 0" using k(1) a by (cases k) auto
  then show ?thesis using w x k(2,3) by simp
qed

text \<open>The C functions of cubiomes compute the same generator as the struct \<open>XrsrRandom\<close>.\<close>

lemma cubiomes_xrsr_agrees:
  "xSetSeed s = setSeed s \<and> xNextLong g = nextLong g \<and> xNextInt n g = nextInt_bound n g"
  by (simp add: xSetSeed_eq xNextLong_eq nextLong_def xNextInt_eq)

end
