(* ===== verification/Floats.thy ===== *)
theory Floats
  imports Complex_Main Prelude
begin

text \<open>
  IEEE 754 binary32 and binary64 arithmetic as the sources use it: a finite float is the rational
  number it denotes, and every operation of the source rounds its exact result once, to nearest
  with ties to even and with gradual underflow. Infinities, NaNs and the sign of zero have no
  counterpart; no theorem is about a computation that would produce them. Operations are written
  at the source's granularity: an operator rounds once and \<open>fmaf\<close> rounds once, so a compiler that
  contracts \<open>a * b + c\<close> on its own is outside the model.
\<close>

type_synonym f32 = rat
type_synonym f64 = rat

subsection \<open>Rounding\<close>

text \<open>Round to the nearest integer, ties to even.\<close>

definition rne :: "rat \<Rightarrow> int" where
  "rne x =
     (let f = \<lfloor>x\<rfloor>; r = x - of_int f
      in if r < 1 / 2 then f
         else if 1 / 2 < r then f + 1
         else if even f then f else f + 1)"

fun flog2 :: "nat \<Rightarrow> nat" where
  "flog2 n = (if n \<le> 1 then 0 else Suc (flog2 (n div 2)))"

declare flog2.simps [simp del]

text \<open>The binary exponent of a positive rational number.\<close>

definition ilog2 :: "rat \<Rightarrow> int" where
  "ilog2 x =
     (if 1 \<le> x then int (flog2 (nat \<lfloor>x\<rfloor>)) else - int (flog2 (nat (\<lceil>1 / x\<rceil> - 1))) - 1)"

definition ulp_exp :: "int \<Rightarrow> int \<Rightarrow> rat \<Rightarrow> int" where
  "ulp_exp p emin x = max (ilog2 \<bar>x\<bar> - (p - 1)) emin"

definition round_to :: "int \<Rightarrow> int \<Rightarrow> rat \<Rightarrow> rat" where
  "round_to p emin x =
     (if x = 0 then 0
      else (let u = 2 powi ulp_exp p emin x in of_int (rne (x / u)) * u))"

definition fl32 :: "rat \<Rightarrow> f32" where "fl32 = round_to 24 (- 149)"
definition fl64 :: "rat \<Rightarrow> f64" where "fl64 = round_to 53 (- 1074)"

subsection \<open>Operations\<close>

definition add32 :: "f32 \<Rightarrow> f32 \<Rightarrow> f32" where "add32 x y = fl32 (x + y)"
definition sub32 :: "f32 \<Rightarrow> f32 \<Rightarrow> f32" where "sub32 x y = fl32 (x - y)"
definition mul32 :: "f32 \<Rightarrow> f32 \<Rightarrow> f32" where "mul32 x y = fl32 (x * y)"
definition div32 :: "f32 \<Rightarrow> f32 \<Rightarrow> f32" where "div32 x y = fl32 (x / y)"
definition fmaf :: "f32 \<Rightarrow> f32 \<Rightarrow> f32 \<Rightarrow> f32" where "fmaf x y z = fl32 (x * y + z)"
definition f32_of_int :: "int \<Rightarrow> f32" where "f32_of_int n = fl32 (of_int n)"

definition add64 :: "f64 \<Rightarrow> f64 \<Rightarrow> f64" where "add64 x y = fl64 (x + y)"
definition sub64 :: "f64 \<Rightarrow> f64 \<Rightarrow> f64" where "sub64 x y = fl64 (x - y)"
definition mul64 :: "f64 \<Rightarrow> f64 \<Rightarrow> f64" where "mul64 x y = fl64 (x * y)"
definition div64 :: "f64 \<Rightarrow> f64 \<Rightarrow> f64" where "div64 x y = fl64 (x / y)"
definition f64_of_int :: "int \<Rightarrow> f64" where "f64_of_int n = fl64 (of_int n)"

text \<open>
  Conversions to \<open>int32_t\<close>: \<open>__float2int_rd\<close> rounds down, a C cast truncates towards zero. An
  argument outside the range of \<open>int32_t\<close> saturates on the device; the cast is undefined in C
  there and is given the same value.
\<close>

definition clamp_i32 :: "int \<Rightarrow> int" where
  "clamp_i32 n = max (- 2147483648) (min 2147483647 n)"

definition float2int_rd :: "f32 \<Rightarrow> int" where
  "float2int_rd x = clamp_i32 \<lfloor>x\<rfloor>"

definition trunc_i32 :: "rat \<Rightarrow> int" where
  "trunc_i32 x = clamp_i32 (if 0 \<le> x then \<lfloor>x\<rfloor> else \<lceil>x\<rceil>)"

subsection \<open>Rounding to integers\<close>

lemma rne_cases: "rne x = \<lfloor>x\<rfloor> \<or> rne x = \<lfloor>x\<rfloor> + 1"
  by (simp add: rne_def Let_def)

lemma rne_of_int [simp]: "rne (of_int n) = n"
  by (simp add: rne_def)

lemma rne_mono: "x \<le> y \<Longrightarrow> rne x \<le> rne y"
proof -
  assume xy: "x \<le> y"
  then have f: "\<lfloor>x\<rfloor> \<le> \<lfloor>y\<rfloor>" by (rule floor_mono)
  show ?thesis
  proof (cases "\<lfloor>x\<rfloor> = \<lfloor>y\<rfloor>")
    case True
    then show ?thesis using xy by (auto simp: rne_def Let_def)
  next
    case False
    then show ?thesis using f rne_cases [of x] rne_cases [of y] by linarith
  qed
qed

lemma rne_error: "\<bar>of_int (rne x) - x\<bar> \<le> 1 / 2"
proof -
  have "of_int \<lfloor>x\<rfloor> \<le> x" "x < of_int \<lfloor>x\<rfloor> + 1" using floor_correct [of x] by auto
  then show ?thesis unfolding rne_def Let_def abs_le_iff by (simp only: of_int_add of_int_1 split: if_split) linarith
qed

subsection \<open>The exponent\<close>

lemma flog2_bounds: "0 < n \<Longrightarrow> 2 ^ flog2 n \<le> n \<and> n < 2 ^ Suc (flog2 n)"
proof (induction n rule: flog2.induct)
  case (1 n)
  show ?case
  proof (cases "n \<le> 1")
    case True
    then show ?thesis using 1 by (simp add: flog2.simps [of n])
  next
    case False
    then have "2 ^ flog2 (n div 2) \<le> n div 2 \<and> n div 2 < 2 ^ Suc (flog2 (n div 2))"
      by (intro 1) auto
    then show ?thesis using False by (auto simp: flog2.simps [of n])
  qed
qed

lemma ilog2_bounds:
  assumes "0 < x"
  shows "2 powi ilog2 x \<le> x \<and> x < 2 powi (ilog2 x + 1)"
proof (cases "1 \<le> x")
  case True
  define k where "k = flog2 (nat \<lfloor>x\<rfloor>)"
  have "0 < nat \<lfloor>x\<rfloor>" using True by (simp add: le_floor_iff)
  from flog2_bounds [OF this] have b: "2 ^ k \<le> nat \<lfloor>x\<rfloor>" "nat \<lfloor>x\<rfloor> < 2 ^ Suc k"
    by (simp_all add: k_def)
  from b(1) have "(2::int) ^ k \<le> \<lfloor>x\<rfloor>" using True by (simp add: le_nat_iff le_floor_iff)
  then have "(2::rat) ^ k \<le> x" by (simp add: le_floor_iff)
  moreover from b(2) have "\<lfloor>x\<rfloor> < (2::int) ^ Suc k" using True by (simp add: nat_less_iff del: power_Suc)
  then have "x < (2::rat) ^ Suc k" by (simp add: floor_less_iff del: power_Suc)
  moreover have "ilog2 x = int k" using True by (simp add: ilog2_def k_def)
  ultimately show ?thesis by (simp add: power_int_add)
next
  case False
  define m where "m = nat (\<lceil>1 / x\<rceil> - 1)"
  define k where "k = flog2 m"
  have y: "1 < 1 / x" using assms False by simp
  then have "1 < \<lceil>1 / x\<rceil>" by (simp only: less_ceiling_iff of_int_1)
  then have m: "0 < m" "int m = \<lceil>1 / x\<rceil> - 1" unfolding m_def by linarith+
  from flog2_bounds [OF m(1)] have b: "2 ^ k \<le> m" "m < 2 ^ Suc k" by (simp_all add: k_def)
  from b(1) have "(2::int) ^ k < \<lceil>1 / x\<rceil>" using m(2) of_nat_mono [OF b(1), where 'a = int] by (simp add: less_le_not_le)
  then have "(2::rat) ^ k < 1 / x" by (simp add: less_ceiling_iff)
  then have lo: "x < 1 / 2 ^ k" using assms by (simp add: field_simps)
  have "int m < int (2 ^ Suc k)" using b(2) by (simp only: of_nat_less_iff)
  then have "\<lceil>1 / x\<rceil> \<le> (2::int) ^ Suc k" using m(2) by (simp add: add1_zle_eq)
  then have "1 / x \<le> (2::rat) ^ Suc k" by (simp add: ceiling_le_iff del: power_Suc)
  then have hi: "1 / 2 ^ Suc k \<le> x" using assms by (simp add: field_simps)
  have e: "ilog2 x = - int (Suc k)" using False by (simp add: ilog2_def k_def m_def)
  have "(2::rat) powi - int (Suc k) = 1 / 2 ^ Suc k" by (simp only: power_int_minus power_int_of_nat inverse_eq_divide)
  moreover have "(2::rat) powi (- int (Suc k) + 1) = 1 / 2 ^ k"
  proof -
    have "- int (Suc k) + 1 = - int k" by simp
    then show ?thesis by (simp only: power_int_minus power_int_of_nat inverse_eq_divide)
  qed
  ultimately show ?thesis using lo hi by (simp only: e)
qed

lemma powi2_le_iff: "(2::rat) powi a \<le> 2 powi b \<longleftrightarrow> a \<le> b"
proof
  assume "(2::rat) powi a \<le> 2 powi b"
  then have "\<not> (2::rat) powi b < 2 powi a" by simp
  then have "\<not> b < a" using power_int_strict_increasing [of b a "2::rat"] by auto
  then show "a \<le> b" by simp
next
  assume "a \<le> b"
  then show "(2::rat) powi a \<le> 2 powi b" by (rule power_int_increasing) simp
qed

lemma powi2_less_iff: "(2::rat) powi a < 2 powi b \<longleftrightarrow> a < b"
  by (metis powi2_le_iff not_le)

lemma ilog2_unique: "2 powi k \<le> x \<Longrightarrow> x < 2 powi (k + 1) \<Longrightarrow> ilog2 x = k"
proof -
  assume k: "2 powi k \<le> x" "x < 2 powi (k + 1)"
  have "(0::rat) < 2 powi k" by simp
  then have "0 < x" using k(1) by linarith
  note b = ilog2_bounds [OF this]
  have "ilog2 x < k + 1" using b k(2) powi2_less_iff order_le_less_trans by blast
  moreover have "k < ilog2 x + 1" using b k(1) powi2_less_iff order_le_less_trans by blast
  ultimately show ?thesis by simp
qed

lemma ilog2_mono: "0 < x \<Longrightarrow> x \<le> y \<Longrightarrow> ilog2 x \<le> ilog2 y"
proof -
  assume xy: "0 < x" "x \<le> y"
  then have "2 powi ilog2 x < (2::rat) powi (ilog2 y + 1)"
    using ilog2_bounds [of x] ilog2_bounds [of y] by linarith
  then show ?thesis by (simp add: powi2_less_iff)
qed

subsection \<open>Rounding is exact on representable values, monotone, and sign preserving\<close>

text \<open>The values a format with precision \<open>p\<close> and least exponent \<open>emin\<close> represents.\<close>

definition representable :: "int \<Rightarrow> int \<Rightarrow> rat \<Rightarrow> bool" where
  "representable p emin x \<longleftrightarrow> (\<exists>m e. x = of_int m * 2 powi e \<and> emin \<le> e \<and> \<bar>m\<bar> < 2 ^ nat p)"

lemma powi2_pos [simp]: "(0::rat) < 2 powi e"
  by simp

lemma powi2_split: "e \<le> f \<Longrightarrow> (2::rat) powi f = 2 ^ nat (f - e) * 2 powi e"
proof -
  assume "e \<le> f"
  then have f: "int (nat (f - e)) + e = f" by simp
  have "(2::rat) powi (int (nat (f - e)) + e) = 2 ^ nat (f - e) * 2 powi e"
    using power_int_add [of "2::rat" "int (nat (f - e))" e] by (simp only: power_int_of_nat) simp
  then show ?thesis by (simp only: f)
qed

lemma round_to_representable:
  assumes "representable p emin x" and p: "0 < p"
  shows "round_to p emin x = x"
proof (cases "x = 0")
  case False
  obtain m e where x: "x = of_int m * 2 powi e" and e: "emin \<le> e" and m: "\<bar>m\<bar> < 2 ^ nat p"
    using assms(1) by (auto simp: representable_def)
  let ?u = "ulp_exp p emin x"
  have "\<bar>x\<bar> < 2 powi p * 2 powi e"
  proof -
    have "rat_of_int \<bar>m\<bar> < 2 ^ nat p" using m by (metis of_int_less_iff of_int_numeral of_int_power)
    then show ?thesis using p by (simp add: x abs_mult power_int_def)
  qed
  then have "\<bar>x\<bar> < 2 powi (p + e)" by (simp add: power_int_add)
  moreover have "2 powi ilog2 \<bar>x\<bar> \<le> \<bar>x\<bar>" using ilog2_bounds [of "\<bar>x\<bar>"] False by simp
  ultimately have "ilog2 \<bar>x\<bar> < p + e" using powi2_less_iff order_le_less_trans by blast
  then have u: "?u \<le> e" using e by (simp add: ulp_exp_def)
  define k where "k = nat (e - ?u)"
  have xu: "x = of_int (m * 2 ^ k) * 2 powi ?u"
    using powi2_split [OF u] by (simp add: x k_def mult.assoc)
  then have "x / 2 powi ?u = of_int (m * 2 ^ k)"
    by (metis nonzero_mult_div_cancel_right powi2_pos less_irrefl)
  then have "rne (x / 2 powi ?u) = m * 2 ^ k" by (simp only: rne_of_int)
  then have "round_to p emin x = of_int (m * 2 ^ k) * 2 powi ?u"
    using False by (simp only: round_to_def Let_def if_False)
  then show ?thesis using xu by (simp only:)
qed (simp add: round_to_def)

lemma rne_neg: "rne (- x) = - rne x"
proof -
  consider n where "x = of_int n" | "x \<noteq> of_int \<lfloor>x\<rfloor>" by blast
  then show ?thesis
  proof cases
    case 2
    then have c: "\<lfloor>- x\<rfloor> = - \<lfloor>x\<rfloor> - 1"
      by (metis ceiling_altdef ceiling_def diff_minus_eq_add minus_diff_eq minus_minus uminus_add_conv_diff)
    have "of_int \<lfloor>x\<rfloor> < x" "x < of_int \<lfloor>x\<rfloor> + 1" using 2 floor_correct [of x] by (auto simp: order_less_le)
    then show ?thesis by (auto simp: rne_def Let_def c)
  qed (simp flip: of_int_minus)
qed

lemma round_to_neg: "round_to p emin (- x) = - round_to p emin x"
  by (simp add: round_to_def ulp_exp_def Let_def rne_neg)

lemma round_to_mono_pos:
  assumes x: "0 < x" and xy: "x \<le> y" and p: "0 < p"
  shows "round_to p emin x \<le> round_to p emin y"
proof -
  let ?a = "ulp_exp p emin x" and ?b = "ulp_exp p emin y"
  have y: "0 < y" using x xy by simp
  have ab: "?a \<le> ?b" using ilog2_mono [OF x xy] x y by (simp add: ulp_exp_def)
  show ?thesis
  proof (cases "?a = ?b")
    case True
    have "x / 2 powi ?a \<le> y / 2 powi ?a" using xy by (simp add: divide_right_mono)
    from rne_mono [OF this] show ?thesis
      using x y True by (simp add: round_to_def Let_def mult_right_mono)
  next
    case False
    then have lt: "?a < ?b" using ab by simp
    then have b: "?b = ilog2 y - (p - 1)" and el: "ilog2 x + 1 \<le> ilog2 y"
      using x y by (auto simp: ulp_exp_def max_def split: if_splits)
    have ge: "emin \<le> ilog2 y - (p - 1)" using b by (simp add: ulp_exp_def)
    have t: "2 powi ilog2 y \<le> round_to p emin y"
    proof -
      have "y / 2 powi ?b \<ge> of_int (2 ^ nat (p - 1))"
      proof -
        have "(2::rat) powi ilog2 y = 2 ^ nat (p - 1) * 2 powi ?b"
          using p powi2_split [of ?b "ilog2 y"] by (simp add: b)
        then show ?thesis using ilog2_bounds [OF y] by (simp add: field_simps)
      qed
      from rne_mono [OF this] have "of_int (2 ^ nat (p - 1)) \<le> rat_of_int (rne (y / 2 powi ?b))"
        by (simp only: rne_of_int of_int_le_iff)
      then have "of_int (2 ^ nat (p - 1)) * 2 powi ?b \<le> of_int (rne (y / 2 powi ?b)) * (2::rat) powi ?b"
        by (intro mult_right_mono) simp_all
      moreover have "of_int (2 ^ nat (p - 1)) * 2 powi ?b = (2::rat) powi ilog2 y"
        using p powi2_split [of ?b "ilog2 y"] by (simp add: b)
      moreover have "round_to p emin y = of_int (rne (y / 2 powi ?b)) * 2 powi ?b"
        using y by (simp add: round_to_def Let_def)
      ultimately show ?thesis by (simp only:)
    qed
    have s: "round_to p emin x \<le> 2 powi ilog2 y"
    proof -
      have le: "?a \<le> ilog2 y" using lt b p by simp
      have "x / 2 powi ?a \<le> of_int (2 ^ nat (ilog2 y - ?a))"
      proof -
        have "x \<le> 2 powi ilog2 y"
          using ilog2_bounds [OF x] el powi2_le_iff [of "ilog2 x + 1" "ilog2 y"] by linarith
        then show ?thesis by (simp add: powi2_split [OF le] field_simps)
      qed
      from rne_mono [OF this] have "rat_of_int (rne (x / 2 powi ?a)) \<le> of_int (2 ^ nat (ilog2 y - ?a))"
        by (simp only: rne_of_int of_int_le_iff)
      then have "of_int (rne (x / 2 powi ?a)) * (2::rat) powi ?a \<le> of_int (2 ^ nat (ilog2 y - ?a)) * 2 powi ?a"
        by (intro mult_right_mono) simp_all
      moreover have "round_to p emin x = of_int (rne (x / 2 powi ?a)) * 2 powi ?a"
        using x by (simp add: round_to_def Let_def)
      ultimately show ?thesis using powi2_split [OF le] by simp
    qed
    show ?thesis using s t by (rule order_trans)
  qed
qed

lemma round_to_nonneg: "0 \<le> x \<Longrightarrow> 0 \<le> round_to p emin x"
proof -
  assume "0 \<le> x"
  then have "rne (of_int 0) \<le> rne (x / 2 powi ulp_exp p emin x)" by (intro rne_mono) simp
  then show ?thesis by (simp only: rne_of_int) (simp add: round_to_def Let_def)
qed

lemma round_to_mono:
  assumes xy: "x \<le> y" and p: "0 < p"
  shows "round_to p emin x \<le> round_to p emin y"
proof -
  consider "0 < x" | "x \<le> 0" "0 \<le> y" | "y < 0" by linarith
  then show ?thesis
  proof cases
    case 1
    then show ?thesis using assms by (intro round_to_mono_pos)
  next
    case 2
    then have "round_to p emin x \<le> 0"
      using round_to_nonneg [of "- x"] by (simp add: round_to_neg)
    also have "0 \<le> round_to p emin y" using 2 by (intro round_to_nonneg)
    finally show ?thesis .
  next
    case 3
    then have "round_to p emin (- y) \<le> round_to p emin (- x)" using assms by (intro round_to_mono_pos) simp_all
    then show ?thesis by (simp add: round_to_neg)
  qed
qed

lemma fl32_exact: "\<bar>m\<bar> < 2 ^ 24 \<Longrightarrow> - 149 \<le> e \<Longrightarrow> fl32 (of_int m * 2 powi e) = of_int m * 2 powi e"
  unfolding fl32_def by (rule round_to_representable) (auto simp: representable_def)

lemma fl64_exact: "\<bar>m\<bar> < 2 ^ 53 \<Longrightarrow> - 1074 \<le> e \<Longrightarrow> fl64 (of_int m * 2 powi e) = of_int m * 2 powi e"
  unfolding fl64_def by (rule round_to_representable) (auto simp: representable_def)

lemma fl32_of_int: "\<bar>m\<bar> < 2 ^ 24 \<Longrightarrow> fl32 (of_int m) = of_int m"
  using fl32_exact [of m 0] by simp

lemma fl64_of_int: "\<bar>m\<bar> < 2 ^ 53 \<Longrightarrow> fl64 (of_int m) = of_int m"
  using fl64_exact [of m 0] by simp

lemma fl32_mono: "x \<le> y \<Longrightarrow> fl32 x \<le> fl32 y"
  unfolding fl32_def by (rule round_to_mono) simp_all

lemma fl64_mono: "x \<le> y \<Longrightarrow> fl64 x \<le> fl64 y"
  unfolding fl64_def by (rule round_to_mono) simp_all

lemma fl32_0 [simp]: "fl32 0 = 0" and fl64_0 [simp]: "fl64 0 = 0"
  by (simp_all add: fl32_def fl64_def round_to_def)

lemma fl32_nonneg: "0 \<le> x \<Longrightarrow> 0 \<le> fl32 x"
  using fl32_mono [of 0 x] by simp

lemma rne_unique: "\<bar>x - of_int n\<bar> < 1 / 2 \<Longrightarrow> rne x = n"
proof -
  assume a: "\<bar>x - of_int n\<bar> < 1 / 2"
  have "rat_of_int \<bar>rne x - n\<bar> < 1" using a rne_error [of x] unfolding of_int_abs of_int_diff by linarith
  then show ?thesis by linarith
qed

lemma fl32_eq:
  assumes "2 powi k \<le> x" "x < 2 powi (k + 1)" "- 126 \<le> k" "\<bar>x / 2 powi (k - 23) - of_int m\<bar> < 1 / 2"
  shows "fl32 x = of_int m * 2 powi (k - 23)"
proof -
  have pos: "0 < x" using assms(1) powi2_pos [of k] by linarith
  have "ilog2 x = k" using assms(1,2) by (rule ilog2_unique)
  then have "ulp_exp 24 (- 149) x = k - 23" using pos assms(3) by (simp add: ulp_exp_def)
  then show ?thesis using pos rne_unique [OF assms(4)] by (simp add: fl32_def round_to_def)
qed

lemma fl32_5_9604645E_8: "fl32 (59604645 / 10 ^ 15) = 2 powi (- 24)"
proof -
  have "fl32 (59604645 / 10 ^ 15) = of_int 8388608 * 2 powi (- 24 - 23)"
    by (rule fl32_eq) (simp_all add: power_int_minus field_simps)
  then show ?thesis by (simp add: power_int_minus)
qed

lemma fl32_1_110223E_16: "fl32 (1110223 / 10 ^ 22) = 2 powi (- 53)"
proof -
  have "fl32 (1110223 / 10 ^ 22) = of_int 16777216 * 2 powi (- 54 - 23)"
    by (rule fl32_eq) (simp_all add: power_int_minus field_simps)
  then show ?thesis by (simp add: power_int_minus)
qed

lemma round_to_is_representable:
  assumes p: "1 < p"
  shows "representable p emin (round_to p emin x)"
proof (cases "x = 0")
  case True
  then show ?thesis unfolding representable_def by (intro exI [of _ 0] exI [of _ emin]) (simp add: round_to_def)
next
  case False
  define u where "u = ulp_exp p emin x"
  define m where "m = rne (x / 2 powi u)"
  have r: "round_to p emin x = of_int m * 2 powi u" using False by (simp add: round_to_def Let_def m_def u_def)
  have ue: "emin \<le> u" by (simp add: u_def ulp_exp_def)
  have "\<bar>x\<bar> < 2 powi (ilog2 \<bar>x\<bar> + 1)" using ilog2_bounds [of "\<bar>x\<bar>"] False by simp
  also have "\<dots> \<le> 2 powi (p + u)" by (simp add: powi2_le_iff u_def ulp_exp_def)
  also have "\<dots> = 2 ^ nat p * 2 powi u" using powi2_split [of u "p + u"] p by simp
  finally have "\<bar>x / 2 powi u\<bar> < of_int (2 ^ nat p)" by (simp add: abs_divide divide_less_eq)
  then have "x / 2 powi u \<le> of_int (2 ^ nat p)" "of_int (- (2 ^ nat p)) \<le> x / 2 powi u"
    unfolding of_int_minus by linarith+
  from this [THEN rne_mono] have m: "\<bar>m\<bar> \<le> 2 ^ nat p" unfolding rne_of_int m_def by simp
  show ?thesis
  proof (cases "\<bar>m\<bar> < 2 ^ nat p")
    case True
    then show ?thesis unfolding representable_def r using ue by blast
  next
    case False
    then have m2: "\<bar>m\<bar> = 2 ^ nat p" using m by simp
    have np: "nat p = Suc (nat (p - 1))" using p by simp
    define k where "k = sgn m * 2 ^ nat (p - 1)"
    have "m = sgn m * \<bar>m\<bar>" by (simp add: sgn_mult_abs)
    then have "m = k * 2" unfolding m2 np k_def by simp
    moreover have "(2::rat) powi (u + 1) = 2 * 2 powi u" by (simp add: power_int_add)
    ultimately have "round_to p emin x = of_int k * 2 powi (u + 1)" by (simp add: r)
    moreover have "\<bar>k\<bar> < 2 ^ nat p"
    proof -
      have "\<bar>k\<bar> \<le> 2 ^ nat (p - 1)" by (simp add: k_def abs_mult sgn_if)
      also have "\<dots> < (2::int) ^ nat p" unfolding np by simp
      finally show ?thesis .
    qed
    ultimately show ?thesis unfolding representable_def using ue
      by (intro exI [of _ k] exI [of _ "u + 1"]) simp
  qed
qed

lemma fl32_idem [simp]: "fl32 (fl32 x) = fl32 x"
  unfolding fl32_def by (rule round_to_representable) (simp_all add: round_to_is_representable)

lemma fl64_idem [simp]: "fl64 (fl64 x) = fl64 x"
  unfolding fl64_def by (rule round_to_representable) (simp_all add: round_to_is_representable)

text \<open>Adding something non-negative never makes a float smaller.\<close>

lemma add32_grows: "0 \<le> t \<Longrightarrow> fl32 x \<le> add32 (fl32 x) t"
  unfolding add32_def using fl32_mono [of "fl32 x" "fl32 x + t"] by simp

lemma mul32_nonneg: "0 \<le> x \<Longrightarrow> 0 \<le> y \<Longrightarrow> 0 \<le> mul32 x y"
  by (simp add: mul32_def fl32_nonneg)

end
