(* ===== verification/Rng_Helpers.thy ===== *)
theory Rng_Helpers
  imports Java_Random Xrsr_Random Floats
begin

text \<open>
  The rest of src/cubiomes/rng.h: the floating-point draws, the unrolled draw modulo 24, the
  layer-seed helpers, floor division and the interpolation helpers.
\<close>

subsection \<open>Definitions\<close>

definition rotr32 :: "u32 \<Rightarrow> nat \<Rightarrow> u32" where
  "rotr32 a b = drop_bit b a OR push_bit (32 - b) a"

definition BSWAP32 :: "u32 \<Rightarrow> u32" where
  "BSWAP32 x =
     (push_bit 24 (x AND 0x000000ff) OR push_bit 8 (x AND 0x0000ff00)) OR
     (drop_bit 8 (x AND 0x00ff0000) OR drop_bit 24 (x AND 0xff000000))"

definition floordiv :: "int \<Rightarrow> int \<Rightarrow> int" where
  "floordiv a b =
     (let q = c_div a b; r = c_mod a b
      in q - (if a XOR b < 0 \<and> r \<noteq> 0 then 1 else 0))"

definition c_nextFloat :: "u64 \<Rightarrow> f32 \<times> u64" where
  "c_nextFloat s = (let (b, s') = c_next 24 s in (div32 (f32_of_int b) (f32_of_int (2 ^ 24)), s'))"

definition c_nextDouble :: "u64 \<Rightarrow> f64 \<times> u64" where
  "c_nextDouble s =
     (let (a, s1) = c_next 26 s;
          x = of_int a :: u64;
          x = push_bit 27 x;
          (b, s2) = c_next 27 s1;
          x = x + of_int b
      in (div64 (f64_of_int (sint x)) (f64_of_int (2 ^ 53)), s2))"

text \<open>The macro \<open>JAVA_NEXT_INT24(S, X)\<close>: the value for \<open>X\<close> and the new \<open>S\<close>.\<close>

definition JAVA_NEXT_INT24 :: "u64 \<Rightarrow> int \<times> u64" where
  "JAVA_NEXT_INT24 s =
     (let a = push_bit 48 1 - 1 :: u64;
          c = 0x5deece66d * s;
          c = c + 11;
          a = a AND c;
          s' = a;
          a = signed_drop_bit 17 a;
          c = 0xaaaaaaab * a;
          c = signed_drop_bit 36 c
      in (wrap32 (sint (ucast a :: i32) - sint (ucast (push_bit 3 c) :: i32) * 3), s'))"

definition xNextDouble :: "XrsrRandom \<Rightarrow> f64 \<times> XrsrRandom" where
  "xNextDouble xr =
     (let (x, xr') = xNextLong xr
      in (mul64 (f64_of_int (uint (drop_bit (64 - 53) x))) (fl64 (11102230246251565 / 10 ^ 32)), xr'))"

definition xNextFloat :: "XrsrRandom \<Rightarrow> f32 \<times> XrsrRandom" where
  "xNextFloat xr =
     (let (x, xr') = xNextLong xr
      in (mul32 (f32_of_int (uint (drop_bit (64 - 24) x))) (fl32 (59604645 / 10 ^ 15)), xr'))"

partial_function (option) xNextIntJ_loop :: "u32 \<Rightarrow> XrsrRandom \<Rightarrow> (u32 \<times> XrsrRandom) option" where
  "xNextIntJ_loop n xr =
     (let (x, xr') = xNextLong xr;
          bits = ucast (drop_bit 33 x) :: u32;
          val = bits mod n;
          m = n - 1
      in if sint (bits - val + m) < 0 then xNextIntJ_loop n xr' else Some (val, xr'))"

definition xNextIntJ :: "u32 \<Rightarrow> XrsrRandom \<Rightarrow> (u32 \<times> XrsrRandom) option" where
  "xNextIntJ n xr =
     (let m = n - 1
      in if m AND n = 0
         then (let (r, xr') = xNextLong xr; x = ucast n * drop_bit 33 r :: u64
               in Some (ucast (signed_drop_bit 31 x), xr'))
         else xNextIntJ_loop n xr)"

definition mcStepSeed :: "u64 \<Rightarrow> u64 \<Rightarrow> u64" where
  "mcStepSeed s salt = s * (s * 6364136223846793005 + 1442695040888963407) + salt"

definition mcFirstInt :: "u64 \<Rightarrow> int \<Rightarrow> int" where
  "mcFirstInt s m =
     (let ret = c_mod (sint (signed_drop_bit 24 s)) m
      in if ret < 0 then ret + m else ret)"

definition mcFirstIsZero :: "u64 \<Rightarrow> int \<Rightarrow> bool" where
  "mcFirstIsZero s m \<longleftrightarrow> c_mod (sint (signed_drop_bit 24 s)) m = 0"

definition getChunkSeed :: "u64 \<Rightarrow> int \<Rightarrow> int \<Rightarrow> u64" where
  "getChunkSeed ss x z =
     (let cs = ss + of_int x;
          cs = mcStepSeed cs (of_int z);
          cs = mcStepSeed cs (of_int x);
          cs = mcStepSeed cs (of_int z)
      in cs)"

definition getLayerSalt :: "u64 \<Rightarrow> u64" where
  "getLayerSalt salt =
     (let ls = mcStepSeed salt salt;
          ls = mcStepSeed ls salt;
          ls = mcStepSeed ls salt
      in ls)"

definition getStartSalt :: "u64 \<Rightarrow> u64 \<Rightarrow> u64" where
  "getStartSalt ws ls =
     (let st = ws;
          st = mcStepSeed st ls;
          st = mcStepSeed st ls;
          st = mcStepSeed st ls
      in st)"

definition getStartSeed :: "u64 \<Rightarrow> u64 \<Rightarrow> u64" where
  "getStartSeed ws ls =
     (let ss = ws;
          ss = getStartSalt ss ls;
          ss = mcStepSeed ss 0
      in ss)"

definition lerp :: "f64 \<Rightarrow> f64 \<Rightarrow> f64 \<Rightarrow> f64" where
  "lerp part from to' = add64 from (mul64 part (sub64 to' from))"

definition lerp2 :: "f64 \<Rightarrow> f64 \<Rightarrow> f64 \<Rightarrow> f64 \<Rightarrow> f64 \<Rightarrow> f64 \<Rightarrow> f64" where
  "lerp2 dx dy v00 v10 v01 v11 = lerp dy (lerp dx v00 v10) (lerp dx v01 v11)"

definition lerp3 ::
    "f64 \<Rightarrow> f64 \<Rightarrow> f64 \<Rightarrow> f64 \<Rightarrow> f64 \<Rightarrow> f64 \<Rightarrow> f64 \<Rightarrow> f64 \<Rightarrow> f64 \<Rightarrow> f64 \<Rightarrow> f64 \<Rightarrow> f64" where
  "lerp3 dx dy dz v000 v100 v010 v110 v001 v101 v011 v111 =
     (let v000 = lerp2 dx dy v000 v100 v010 v110;
          v001 = lerp2 dx dy v001 v101 v011 v111
      in lerp dz v000 v001)"

definition clampedLerp :: "f64 \<Rightarrow> f64 \<Rightarrow> f64 \<Rightarrow> f64" where
  "clampedLerp part from to' =
     (if part \<le> 0 then from else if 1 \<le> part then to' else lerp part from to')"

text \<open>
  \<open>mulInv\<close>: the extended Euclidean loop. Its variables \<open>x\<close>, \<open>m\<close>, \<open>a\<close>, \<open>b\<close> are \<open>uint64_t\<close> and
  are compared as \<open>int64_t\<close>; the subtraction wraps.
\<close>

function mulInv_loop :: "u64 \<Rightarrow> u64 \<Rightarrow> u64 \<Rightarrow> u64 \<Rightarrow> u64 option" where
  "mulInv_loop x m a b =
     (if 1 < sint x
      then if m = 0 then None
           else (let q = x div m
                 in mulInv_loop m (x mod m) (b - q * a) a)
      else Some b)"
  by pat_completeness auto
termination
  by (relation "measure (\<lambda>(x, m, a, b). unat m)") (simp_all add: unat_mod_distrib unat_gt_0)

definition mulInv :: "u64 \<Rightarrow> u64 \<Rightarrow> u64" where
  "mulInv x m =
     (if sint m \<le> 1 then 0
      else (case mulInv_loop x m 0 1 of
              None \<Rightarrow> 0
            | Some b \<Rightarrow> if sint b < 0 then b + m else b))"

declare mulInv_loop.simps [simp del]

subsection \<open>Floor division and the first layer integer\<close>

lemma c_mod_dvd: "c_mod a b = 0 \<longleftrightarrow> b dvd a" if "b \<noteq> 0"
proof -
  have "c_mod a b = sgn a * (\<bar>a\<bar> mod \<bar>b\<bar>)"
  proof -
    have "b * (sgn a * sgn b * (\<bar>a\<bar> div \<bar>b\<bar>)) = sgn a * (\<bar>b\<bar> * (\<bar>a\<bar> div \<bar>b\<bar>))"
      by (simp add: abs_sgn mult.commute mult.left_commute)
    then show ?thesis
      unfolding c_mod_def c_div_def
      by (simp add: minus_mult_div_eq_mod [symmetric] right_diff_distrib sgn_mult_abs mult_sgn_abs)
  qed
  then show ?thesis by (cases "a = 0") (auto simp: sgn_0_0 dvd_eq_mod_eq_0 [symmetric])
qed

lemma c_div_floor:
  assumes "b \<noteq> 0"
  shows "c_div a b = (if (a < 0) \<noteq> (b < 0) \<and> \<not> b dvd a then a div b + 1 else a div b)"
proof -
  consider "0 \<le> a" "0 < b" | "a < 0" "0 < b" | "0 \<le> a" "b < 0" | "a < 0" "b < 0"
    using assms by linarith
  then show ?thesis
  proof cases
    case 2
    have "\<bar>a\<bar> div b = - (a div b) - (if b dvd a then 0 else 1)"
      using 2 by (simp add: abs_of_neg zdiv_zminus1_eq_if mod_eq_0_iff_dvd)
    then show ?thesis using 2 by (simp add: c_div_def)
  next
    case 3
    have "a div - b = - (a div b) - (if b dvd a then 0 else 1)"
      using 3 by (simp add: zdiv_zminus2_eq_if mod_eq_0_iff_dvd)
    then show ?thesis using 3 by (cases "a = 0") (simp_all add: c_div_def)
  next
    case 4
    then show ?thesis by (simp add: c_div_def)
  qed simp
qed

lemma floordiv_eq: "b \<noteq> 0 \<Longrightarrow> floordiv a b = a div b"
  by (auto simp: floordiv_def Let_def c_mod_dvd c_div_floor)

lemma c_mod_signs: "0 < m \<Longrightarrow> (if c_mod a m < 0 then c_mod a m + m else c_mod a m) = a mod m"
proof -
  assume m: "0 < m"
  have "c_mod a m = a - m * c_div a m" by (simp add: c_mod_def)
  then have "c_mod a m = (if a < 0 \<and> \<not> m dvd a then a mod m - m else a mod m)"
    using m by (auto simp: c_div_floor minus_mult_div_eq_mod [symmetric] algebra_simps)
  moreover have "0 \<le> a mod m" "a mod m < m" using m by simp_all
  ultimately show ?thesis by simp
qed

lemma mcFirstInt_eq: "0 < m \<Longrightarrow> mcFirstInt s m = sint s div 2 ^ 24 mod m"
  using c_mod_signs [of m "sint s div 2 ^ 24"]
  by (simp only: mcFirstInt_def Let_def sint_signed_drop_bit_eq drop_bit_eq_div)

lemma mcFirstIsZero_eq: "0 < m \<Longrightarrow> mcFirstIsZero s m \<longleftrightarrow> mcFirstInt s m = 0"
  by (simp add: mcFirstIsZero_def c_mod_dvd mcFirstInt_eq sint_signed_drop_bit_eq drop_bit_eq_div mod_eq_0_iff_dvd)


subsection \<open>The unrolled draw modulo 24\<close>

lemma div_24: "n < 2 ^ 31 \<Longrightarrow> 2863311531 * n div 68719476736 = n div (24::nat)"
proof -
  assume n: "n < 2 ^ 31"
  define q r where "q = n div 24" and "r = n mod 24"
  have e: "n = 24 * q + r" and r: "r < 24" by (simp_all add: q_def r_def)
  have "2863311531 * n = 68719476736 * q + (8 * q + 2863311531 * r)" by (simp add: e)
  moreover have "8 * q + 2863311531 * r < 68719476736"
    using n r unfolding e by simp
  ultimately have "2863311531 * n div 68719476736 = q" by (intro div_nat_eqI) simp_all
  then show ?thesis by (simp add: q_def)
qed

lemma c_next_31:
  defines "s' s \<equiv> snd (c_next 31 s)"
  shows "unat (s' s) < 281474976710656" and "fst (c_next 31 s) = int (unat (s' s) div 131072)"
    and "unat (s' s) div 131072 < 2147483648"
proof -
  show lt: "unat (s' s) < 281474976710656"
    by (simp add: s'_def snd_c_next unat_and_MASK)
  then show d: "unat (s' s) div 131072 < 2147483648" by (simp add: less_mult_imp_div_less)
  have "unat (drop_bit 17 (s' s)) = unat (s' s) div 131072" by (simp add: unat_drop_bit)
  moreover from this d have "unat (ucast (drop_bit 17 (s' s)) :: i32) = unat (s' s) div 131072"
    by (simp add: unsigned_ucast_eq take_bit_eq_mod)
  moreover have "fst (c_next 31 s) = sint (ucast (signed_drop_bit 17 (s' s)) :: i32)"
    by (simp add: s'_def c_next_def Let_def)
  ultimately show "fst (c_next 31 s) = int (unat (s' s) div 131072)"
    using lt d by (simp add: signed_drop_bit_small sint_small)
qed

lemma JAVA_NEXT_INT24_eq: "JAVA_NEXT_INT24 s = (fst (c_next 31 s) mod 24, snd (c_next 31 s))"
proof -
  let ?s = "snd (c_next 31 s)"
  define d where "d = unat ?s div 131072"
  note b = c_next_31 [of s, folded d_def]
  have s: "(push_bit 48 1 - 1 :: u64) AND (0x5deece66d * s + 11) = ?s"
    by (simp add: c_next_def Let_def and.commute mult.commute)
  define a :: u64 where "a = drop_bit 17 ?s"
  have ua: "unat a = d" by (simp add: a_def d_def unat_drop_bit)
  have sa: "signed_drop_bit 17 ?s = a" using b(1) by (simp add: a_def signed_drop_bit_small)
  have "d \<le> 2147483647" using b(3) by simp
  then have p: "2863311531 * d \<le> 2863311531 * 2147483647" by simp
  then have up: "unat (0xaaaaaaab * a) = 2863311531 * d" by (simp add: unat_u64_mult ua)
  define c :: u64 where "c = drop_bit 36 (0xaaaaaaab * a)"
  have sc: "signed_drop_bit 36 (0xaaaaaaab * a) = c"
    using p by (simp add: c_def signed_drop_bit_small up)
  have uc: "unat c = d div 24"
    using div_24 [of d] b(3) by (simp add: c_def unat_drop_bit up)
  have le: "d div 24 * 8 \<le> d" by linarith
  have "unat (push_bit 3 c) = d div 24 * 8"
    using le b(3) by (simp add: push_bit_eq_mult unat_u64_mult uc mult.commute)
  then have "unat (ucast (push_bit 3 c) :: i32) = d div 24 * 8"
    using le b(3) by (simp add: unsigned_ucast_eq take_bit_eq_mod)
  then have t: "sint (ucast (push_bit 3 c) :: i32) = int (d div 24 * 8)"
    using le b(3) by (simp only: sint_small)
  have "unat (ucast a :: i32) = d" using b(3) by (simp add: unsigned_ucast_eq take_bit_eq_mod ua)
  then have "sint (ucast a :: i32) = int d" using b(3) by (simp only: sint_small)
  moreover have "int d - int (d div 24 * 8) * 3 = int d mod 24"
    by (simp add: minus_div_mult_eq_mod [symmetric] zdiv_int)
  moreover have "wrap32 (int d mod 24) = int d mod 24"
  proof (rule wrap32_id)
    have "0 \<le> int d mod 24" "int d mod 24 < 24" by simp_all
    then show "- 2147483648 \<le> int d mod 24" "int d mod 24 < 2147483648" by linarith+
  qed
  ultimately show ?thesis
    by (simp only: JAVA_NEXT_INT24_def Let_def s sa sc t b(2))
qed

lemma c_nextInt_24:
  "c_nextInt 24 s =
     (if fst (c_next 31 s) < 2147483640 then Some (JAVA_NEXT_INT24 s)
      else c_nextInt 24 (snd (c_next 31 s)))"
proof -
  let ?s = "snd (c_next 31 s)"
  define d where "d = unat ?s div 131072"
  note b = c_next_31 [of s, folded d_def]
  define w :: i32 where "w = of_int (int d) - of_int (int d mod 24) + of_int (24 - 1)"
  have "of_int (int d mod 24) = (of_nat (d mod 24) :: i32)" by (metis of_int_of_nat_eq of_nat_mod of_nat_numeral)
  then have "w = of_nat (d div 24 * 24 + 23)"
    unfolding w_def by (simp add: minus_mod_eq_div_mult [symmetric])
  moreover have dd: "d div 24 * 24 \<le> d" by simp
  ultimately have uw: "unat w = d div 24 * 24 + 23"
    using b(3) by (simp add: unat_of_nat del: of_nat_add of_nat_mult)
  have neg: "sint w < 0 \<longleftrightarrow> \<not> fst (c_next 31 s) < 2147483640"
  proof (cases "d < 2147483640")
    case True
    then have "d div 24 \<le> 89478484" by (simp add: less_Suc_eq_le div_le_mono [of d 2147483639 24, simplified])
    then show ?thesis using True by (simp add: sint_neg_iff uw b(2))
  next
    case False
    then have "2147483640 div 24 \<le> d div 24" by (intro div_le_mono) simp
    then show ?thesis using False by (simp add: sint_neg_iff uw b(2))
  qed
  have "(of_int (24 - 1) AND of_int 24 :: i32) \<noteq> 0" by simp
  then have "c_nextInt 24 t = c_nextInt_loop 24 t" for t by (simp add: c_nextInt_def)
  moreover have "c_nextInt_loop 24 s = (if sint w < 0 then c_nextInt_loop 24 ?s else Some (int d mod 24, ?s))"
    by (subst c_nextInt_loop.simps) (simp add: split_beta Let_def b(2) w_def)
  ultimately show ?thesis by (simp add: neg JAVA_NEXT_INT24_eq b(2))
qed

subsection \<open>Properties\<close>

text \<open>\<open>floordiv\<close> rounds towards minus infinity, for every non-zero divisor of either sign.\<close>

lemma floordiv_rounds_down:
  assumes "b \<noteq> 0"
  shows "floordiv a b = \<lfloor>rat_of_int a / rat_of_int b\<rfloor>"
  using floordiv_eq [OF assms] by (simp add: floor_divide_of_int_eq)

lemma floordiv_rounds_down_witness: "floordiv (- 7) 2 = \<lfloor>rat_of_int (- 7) / rat_of_int 2\<rfloor>"
  by (rule floordiv_rounds_down) simp

text \<open>
  The macro \<open>JAVA_NEXT_INT24\<close> is \<open>nextInt(seed, 24)\<close> except for the eight draws that
  \<open>nextInt\<close> rejects: there \<open>nextInt\<close> draws again and the macro does not.
\<close>

lemma java_next_int24:
  "c_nextInt 24 s =
     (if fst (c_next 31 s) < 2147483640 then Some (JAVA_NEXT_INT24 s)
      else c_nextInt 24 (snd (c_next 31 s)))"
  by (rule c_nextInt_24)

end
