(* ===== verification/Worldgen_Random.thy ===== *)
theory Worldgen_Random
  imports Java_Random Xrsr_Random Floats
begin

text \<open>
  What src/src/Random.h builds on a generator: the floating-point draws of \<open>JavaRandom\<close> and
  \<open>XrsrRandom\<close>, and the class template \<open>WorldgenRandom<R>\<close>, which redoes Java's derived draws
  over any generator with \<open>setSeed\<close> and \<open>nextBits\<close> and computes the decoration and feature
  seeds. The template parameter is a record of the two operations; the locale \<open>bits_source\<close> is
  what the template needs of it, and it is interpreted on both generators.
\<close>

subsection \<open>Floating-point draws of the two generators\<close>

definition java_nextFloat :: "i64 \<Rightarrow> JavaRandom \<Rightarrow> f32 \<times> JavaRandom" where
  "java_nextFloat N g =
     (let (b, g') = Java_Random.nextBits N 24 g
      in (mul32 (f32_of_int (uint b)) (2 powi - 24), g'))"

definition java_nextDouble :: "i64 \<Rightarrow> JavaRandom \<Rightarrow> f64 \<times> JavaRandom" where
  "java_nextDouble N g =
     (let (a, g1) = Java_Random.nextBits N 26 g; (b, g2) = Java_Random.nextBits 1 27 g1
      in (mul64 (f64_of_int (uint (push_bit 27 (ucast a) + ucast b :: u64))) (2 powi - 53), g2))"

text \<open>The decimal literals \<open>5.9604645E-8f\<close> and \<open>1.110223E-16f\<close> are floats: they are rounded.\<close>

definition xrsr_nextFloat :: "XrsrRandom \<Rightarrow> f32 \<times> XrsrRandom" where
  "xrsr_nextFloat g =
     (let (b, g') = Xrsr_Random.nextBits 24 g
      in (mul32 (f32_of_int (uint b)) (fl32 (59604645 / 10 ^ 15)), g'))"

definition xrsr_nextDouble :: "XrsrRandom \<Rightarrow> f64 \<times> XrsrRandom" where
  "xrsr_nextDouble g =
     (let (b, g') = Xrsr_Random.nextBits 53 g
      in (mul64 (f64_of_int (uint b)) (fl32 (1110223 / 10 ^ 22)), g'))"

subsection \<open>WorldgenRandom\<close>

record 'g BaseRandom =
  base_setSeed :: "u64 \<Rightarrow> 'g"
  base_nextBits :: "nat \<Rightarrow> 'g \<Rightarrow> u32 \<times> 'g"

definition wg_nextInt :: "'g BaseRandom \<Rightarrow> 'g \<Rightarrow> u32 \<times> 'g" where
  "wg_nextInt R g = base_nextBits R 32 g"

partial_function (option) wg_nextInt_loop ::
    "'g BaseRandom \<Rightarrow> u32 \<Rightarrow> u32 \<Rightarrow> 'g \<Rightarrow> (u32 \<times> 'g) option" where
  "wg_nextInt_loop R bound u g =
     (let r = u mod bound; m = bound - 1
      in if sint (u - r + m) < 0
         then (let (u', g') = base_nextBits R 31 g in wg_nextInt_loop R bound u' g')
         else Some (r, g))"

definition wg_nextInt_bound :: "'g BaseRandom \<Rightarrow> u32 \<Rightarrow> 'g \<Rightarrow> (u32 \<times> 'g) option" where
  "wg_nextInt_bound R bound g =
     (let (r, g') = base_nextBits R 31 g; m = bound - 1
      in if bound AND m = 0
         then Some (ucast (drop_bit 31 (ucast bound * ucast r :: u64)), g')
         else wg_nextInt_loop R bound r g')"

definition wg_nextIntFast :: "'g BaseRandom \<Rightarrow> u32 \<Rightarrow> 'g \<Rightarrow> u32 \<times> 'g" where
  "wg_nextIntFast R bound g =
     (let (r, g') = base_nextBits R 31 g; m = bound - 1
      in (if bound AND m = 0
          then ucast (drop_bit 31 (ucast bound * ucast r :: u64)) else r mod bound, g'))"

text \<open>
  \<open>nextLong\<close> calls \<open>nextBits\<close> twice in one expression; the calls are taken from left to right,
  the order that Java's \<open>nextLong\<close> fixes.
\<close>

definition wg_nextLong :: "'g BaseRandom \<Rightarrow> 'g \<Rightarrow> u64 \<times> 'g" where
  "wg_nextLong R g =
     (let (a, g1) = base_nextBits R 32 g; (b, g2) = base_nextBits R 32 g1
      in (push_bit 32 (ucast a) + scast b, g2))"

definition wg_nextBoolean :: "'g BaseRandom \<Rightarrow> 'g \<Rightarrow> bool \<times> 'g" where
  "wg_nextBoolean R g = (let (b, g') = base_nextBits R 1 g in (b \<noteq> 0, g'))"

definition wg_nextFloat :: "'g BaseRandom \<Rightarrow> 'g \<Rightarrow> f32 \<times> 'g" where
  "wg_nextFloat R g =
     (let (b, g') = base_nextBits R 24 g
      in (mul32 (f32_of_int (uint b)) (2 powi - 24), g'))"

definition wg_nextDouble :: "'g BaseRandom \<Rightarrow> 'g \<Rightarrow> f64 \<times> 'g" where
  "wg_nextDouble R g =
     (let (a, g1) = base_nextBits R 26 g; (b, g2) = base_nextBits R 27 g1
      in (mul64 (f64_of_int (uint (push_bit 27 (ucast a) + ucast b :: u64))) (2 powi - 53), g2))"

definition getDecorationSeed12 ::
    "'g BaseRandom \<Rightarrow> u64 \<Rightarrow> i32 \<Rightarrow> i32 \<Rightarrow> u64 \<times> 'g" where
  "getDecorationSeed12 R world_seed chunk_x chunk_z =
     (let g = base_setSeed R world_seed;
          (la, g1) = wg_nextLong R g;
          a = of_int (c_div (sint la) 2 * 2 + 1);
          (lb, g2) = wg_nextLong R g1;
          b = of_int (c_div (sint lb) 2 * 2 + 1)
      in ((scast chunk_x * a + scast chunk_z * b) XOR world_seed, g2))"

definition getDecorationSeed13 ::
    "'g BaseRandom \<Rightarrow> u64 \<Rightarrow> i32 \<Rightarrow> i32 \<Rightarrow> u64 \<times> 'g" where
  "getDecorationSeed13 R world_seed chunk_x chunk_z =
     (let g = base_setSeed R world_seed;
          (la, g1) = wg_nextLong R g; a = la OR 1;
          (lb, g2) = wg_nextLong R g1; b = lb OR 1
      in ((scast (chunk_x * 16) * a + scast (chunk_z * 16) * b) XOR world_seed, g2))"

definition setFeatureSeed :: "'g BaseRandom \<Rightarrow> u64 \<Rightarrow> u32 \<Rightarrow> 'g" where
  "setFeatureSeed R decoration_seed salt = base_setSeed R (decoration_seed + ucast salt)"

definition setFeatureSeed12 :: "'g BaseRandom \<Rightarrow> u64 \<Rightarrow> i32 \<Rightarrow> i32 \<Rightarrow> u32 \<Rightarrow> 'g" where
  "setFeatureSeed12 R world_seed chunk_x chunk_z salt =
     setFeatureSeed R (fst (getDecorationSeed12 R world_seed chunk_x chunk_z)) salt"

definition setFeatureSeed13 :: "'g BaseRandom \<Rightarrow> u64 \<Rightarrow> i32 \<Rightarrow> i32 \<Rightarrow> u32 \<Rightarrow> 'g" where
  "setFeatureSeed13 R world_seed chunk_x chunk_z salt =
     setFeatureSeed R (fst (getDecorationSeed13 R world_seed chunk_x chunk_z)) salt"

definition setLargeFeatureSeed :: "'g BaseRandom \<Rightarrow> u64 \<Rightarrow> i32 \<Rightarrow> i32 \<Rightarrow> 'g" where
  "setLargeFeatureSeed R world_seed chunk_x chunk_z =
     (let g = base_setSeed R world_seed;
          (a, g1) = wg_nextLong R g; (b, g2) = wg_nextLong R g1
      in base_setSeed R ((scast chunk_x * a XOR scast chunk_z * b) XOR world_seed))"

definition setLargeFeatureWithSalt :: "'g BaseRandom \<Rightarrow> u64 \<Rightarrow> i32 \<Rightarrow> i32 \<Rightarrow> i32 \<Rightarrow> 'g" where
  "setLargeFeatureWithSalt R world_seed region_x region_z salt =
     base_setSeed R
       (scast region_x * 341873128712 + scast region_z * 132897987541 + world_seed + scast salt)"

definition java_base :: "JavaRandom BaseRandom" where
  "java_base = \<lparr>base_setSeed = Java_Random.setSeed, base_nextBits = Java_Random.nextBits 1\<rparr>"

text \<open>The \<open>uint64_t\<close> that \<open>XrsrRandom::nextBits\<close> returns is narrowed to \<open>uint32_t\<close>.\<close>

definition xrsr_base :: "XrsrRandom BaseRandom" where
  "xrsr_base =
     \<lparr>base_setSeed = Xrsr_Random.setSeed,
      base_nextBits = (\<lambda>bits g. (let (b, g') = Xrsr_Random.nextBits bits g in (ucast b, g')))\<rparr>"

subsection \<open>The interface: a source of bits\<close>

lemma mod_bound_less: "bound \<noteq> 0 \<Longrightarrow> unat (u mod bound) < unat bound" for u bound :: u32
  by (simp add: unat_mod_distrib unat_gt_0)

lemma scaled_draw32:
  assumes "n < 2 ^ 24"
  shows "mul32 (f32_of_int (int n)) (2 powi - 24) = of_nat n / 2 ^ 24"
proof -
  have n: "\<bar>int n\<bar> < 2 ^ 24" using assms by simp
  have p: "(2::rat) powi - 24 = 1 / 2 ^ 24" by (simp add: power_int_minus)
  have "mul32 (f32_of_int (int n)) (2 powi - 24) = of_int (int n) * 2 powi - 24"
    using fl32_exact [OF n, of "- 24"] by (simp only: mul32_def f32_of_int_def fl32_of_int [OF n])
  then show ?thesis by (simp only: p) simp
qed

lemma scaled_draw64:
  assumes "n < 2 ^ 53"
  shows "mul64 (f64_of_int (int n)) (2 powi - 53) = of_nat n / 2 ^ 53"
proof -
  have n: "\<bar>int n\<bar> < 2 ^ 53" using assms by simp
  have p: "(2::rat) powi - 53 = 1 / 2 ^ 53" by (simp add: power_int_minus)
  have "mul64 (f64_of_int (int n)) (2 powi - 53) = of_int (int n) * 2 powi - 53"
    using fl64_exact [OF n, of "- 53"] by (simp only: mul64_def f64_of_int_def fl64_of_int [OF n])
  then show ?thesis by (simp only: p) simp
qed

lemma join_26_27:
  fixes a b :: u32
  assumes "unat a < 2 ^ 26" "unat b < 2 ^ 27"
  shows "unat (push_bit 27 (ucast a) + ucast b :: u64) = unat a * 2 ^ 27 + unat b"
    and "unat a * 2 ^ 27 + unat b < 2 ^ 53"
proof -
  have ab: "unat a * 2 ^ 27 \<le> (2 ^ 26 - 1) * 2 ^ 27"
    using assms(1) by (intro mult_right_mono) simp_all
  then show "unat a * 2 ^ 27 + unat b < 2 ^ 53" using assms(2) by simp
  have "unat (push_bit 27 (ucast a) :: u64) = unat a * 2 ^ 27"
    using ab by (simp add: push_bit_eq_mult unat_u64_mult unat_ucast_u64 mult.commute)
  then show "unat (push_bit 27 (ucast a) + ucast b :: u64) = unat a * 2 ^ 27 + unat b"
    using ab assms(2) by (simp add: unat_u64_add unat_ucast_u64)
qed

locale bits_source =
  fixes R :: "'g BaseRandom"
  assumes nextBits_less:
    "0 < bits \<Longrightarrow> bits \<le> 32 \<Longrightarrow> unat (fst (base_nextBits R bits g)) < 2 ^ bits"
begin

lemma nextIntFast_less: "bound \<noteq> 0 \<Longrightarrow> unat (fst (wg_nextIntFast R bound g)) < unat bound"
  using nextBits_less [of 31 g] by (auto simp: wg_nextIntFast_def split_beta Let_def
      intro: pow2_branch_bound mod_bound_less)

lemma nextInt_loop_less:
  "wg_nextInt_loop S bound u g = Some y \<Longrightarrow> bound \<noteq> 0 \<longrightarrow> unat (fst y) < unat bound"
proof (erule wg_nextInt_loop.raw_induct [rotated])
  fix f :: "'b BaseRandom \<Rightarrow> u32 \<Rightarrow> u32 \<Rightarrow> 'b \<Rightarrow> (u32 \<times> 'b) option" and S and bound u :: u32 and g y
  assume 1: "\<And>S bound u g y. f S bound u g = Some y \<Longrightarrow> bound \<noteq> 0 \<longrightarrow> unat (fst y) < unat bound"
    "(let r = u mod bound; m = bound - 1
      in if sint (u - r + m) < 0
         then (let (u', g') = base_nextBits S 31 g in f S bound u' g')
         else Some (r, g)) = Some y"
  show "bound \<noteq> 0 \<longrightarrow> unat (fst y) < unat bound"
  proof (cases "sint (u - u mod bound + (bound - 1)) < 0")
    case True
    with 1(2) have "f S bound (fst (base_nextBits S 31 g)) (snd (base_nextBits S 31 g)) = Some y"
      by (simp add: Let_def split_beta)
    then show ?thesis by (rule 1(1))
  next
    case False
    then show ?thesis using 1(2) by (auto simp: Let_def mod_bound_less)
  qed
qed

lemma bounded_draw_less:
  "wg_nextInt_bound R bound g = Some (r, g') \<Longrightarrow> bound \<noteq> 0 \<Longrightarrow> unat r < unat bound"
  using nextBits_less [of 31 g] nextInt_loop_less [of R bound "fst (base_nextBits R 31 g)"]
  by (fastforce simp: wg_nextInt_bound_def split_beta Let_def intro: pow2_branch_bound split: if_splits)

lemma nextFloat_value:
  "fst (wg_nextFloat R g) = of_nat (unat (fst (base_nextBits R 24 g))) / 2 ^ 24"
  using scaled_draw32 [OF nextBits_less [of 24 g]]
  by (simp only: wg_nextFloat_def split_beta Let_def uint_nat fst_conv)

lemma nextFloat_range: "0 \<le> fst (wg_nextFloat R g) \<and> fst (wg_nextFloat R g) < 1"
proof -
  have "rat_of_nat (unat (fst (base_nextBits R 24 g))) < of_nat (2 ^ 24)"
    using nextBits_less [of 24 g] by (simp only: of_nat_less_iff)
  then show ?thesis unfolding nextFloat_value by (simp del: of_nat_unat add: divide_less_eq)
qed

lemma nextDouble_value:
  defines "a g \<equiv> base_nextBits R 26 g"
  shows "fst (wg_nextDouble R g) =
      of_nat (unat (fst (a g)) * 2 ^ 27 + unat (fst (base_nextBits R 27 (snd (a g))))) / 2 ^ 53"
proof -
  have ab: "unat (fst (a g)) < 2 ^ 26" "unat (fst (base_nextBits R 27 (snd (a g)))) < 2 ^ 27"
    unfolding a_def by (rule nextBits_less; simp)+
  show ?thesis
    using scaled_draw64 [OF join_26_27(2) [OF ab]]
    by (simp only: wg_nextDouble_def split_beta Let_def fst_conv uint_nat join_26_27(1) [OF ab] flip: a_def)
qed

lemma nextDouble_range: "0 \<le> fst (wg_nextDouble R g) \<and> fst (wg_nextDouble R g) < 1"
proof -
  let ?a = "base_nextBits R 26 g"
  let ?n = "unat (fst ?a) * 2 ^ 27 + unat (fst (base_nextBits R 27 (snd ?a)))"
  have "?n < 2 ^ 53" by (intro join_26_27(2) nextBits_less) simp_all
  then have "rat_of_nat ?n < of_nat (2 ^ 53)" by (simp only: of_nat_less_iff)
  then show ?thesis unfolding nextDouble_value by (simp del: of_nat_unat add: divide_less_eq)
qed

end

subsection \<open>Both generators are sources of bits\<close>

lemma xrsr_nextBits_less: "bits \<le> 64 \<Longrightarrow> unat (fst (Xrsr_Random.nextBits bits g)) < 2 ^ bits"
proof -
  assume b: "bits \<le> 64"
  define r where "r = fst (nextInternal g)"
  have "(2::nat) ^ bits * 2 ^ (64 - bits) = 2 ^ 64" using b by (simp flip: power_add)
  then have "unat r < 2 ^ bits * 2 ^ (64 - bits)" using unat_less [of r] by simp
  then show ?thesis
    by (simp add: Xrsr_Random.nextBits_def split_beta Let_def unat_drop_bit less_mult_imp_div_less flip: r_def)
qed

lemma unat_ucast_u32: "unat w < 2 ^ 32 \<Longrightarrow> unat (ucast w :: u32) = unat w" for w :: u64
  by (simp add: unsigned_ucast_eq take_bit_eq_mod)

interpretation java_wg: bits_source java_base
  by unfold_locales (simp add: java_base_def nextBits_bound)

interpretation xrsr_wg: bits_source xrsr_base
proof
  fix bits :: nat and g
  assume b: "bits \<le> 32"
  then have "(2::nat) ^ bits \<le> 2 ^ 32" by (intro power_increasing) simp_all
  then have "unat (fst (Xrsr_Random.nextBits bits g)) < 2 ^ 32"
    using b by (intro order_less_le_trans [OF xrsr_nextBits_less]) simp_all
  then show "unat (fst (base_nextBits xrsr_base bits g)) < 2 ^ bits"
    using xrsr_nextBits_less [of bits g] b
    by (simp only: xrsr_base_def BaseRandom.simps split_beta Let_def fst_conv unat_ucast_u32)
qed

subsection \<open>The template at JavaRandom is JavaRandom\<close>

lemma java_base_simps [rng_simps]:
  "base_setSeed java_base = Java_Random.setSeed" "base_nextBits java_base = Java_Random.nextBits 1"
  by (simp_all add: java_base_def)

lemma wg_java_loop_le:
  "wg_nextInt_loop java_base bound u g = Some y \<Longrightarrow> Java_Random.nextInt_loop bound u g = Some y"
proof -
  have "S = java_base \<longrightarrow> Java_Random.nextInt_loop bound u g = Some y"
    if "wg_nextInt_loop S bound u g = Some y" for S :: "JavaRandom BaseRandom" and bound u g y
    using that
  proof (erule_tac wg_nextInt_loop.raw_induct [rotated])
    fix f :: "JavaRandom BaseRandom \<Rightarrow> u32 \<Rightarrow> u32 \<Rightarrow> JavaRandom \<Rightarrow> (u32 \<times> JavaRandom) option"
      and S and bound u :: u32 and g y
    assume "\<And>S bound u g y. f S bound u g = Some y \<Longrightarrow> S = java_base \<longrightarrow> Java_Random.nextInt_loop bound u g = Some y"
      and "(let r = u mod bound; m = bound - 1
        in if sint (u - r + m) < 0
           then (let (u', g') = base_nextBits S 31 g in f S bound u' g')
           else Some (r, g)) = Some y"
    then show "S = java_base \<longrightarrow> Java_Random.nextInt_loop bound u g = Some y"
      by (subst Java_Random.nextInt_loop.simps) (cases y, auto simp: Let_def split_beta rng_simps split: if_splits)
  qed
  then show "wg_nextInt_loop java_base bound u g = Some y \<Longrightarrow> Java_Random.nextInt_loop bound u g = Some y"
    by blast
qed

lemma wg_java_loop_ge:
  "Java_Random.nextInt_loop bound u g = Some y \<Longrightarrow> wg_nextInt_loop java_base bound u g = Some y"
proof (erule Java_Random.nextInt_loop.raw_induct [rotated])
  fix f :: "u32 \<Rightarrow> u32 \<Rightarrow> JavaRandom \<Rightarrow> (u32 \<times> JavaRandom) option" and bound u :: u32 and g y
  assume "\<And>bound u g y. f bound u g = Some y \<Longrightarrow> wg_nextInt_loop java_base bound u g = Some y"
    and "(let r = u mod bound; m = bound - 1
      in if sint (u - r + m) < 0
         then (let (u', g') = Java_Random.nextBits 1 31 g in f bound u' g')
         else Some (r, g)) = Some y"
  then show "wg_nextInt_loop java_base bound u g = Some y"
    by (subst wg_nextInt_loop.simps) (cases y, auto simp: Let_def split_beta rng_simps split: if_splits)
qed

lemma wg_java_loop: "wg_nextInt_loop java_base = Java_Random.nextInt_loop"
proof (intro ext)
  fix bound u g
  show "wg_nextInt_loop java_base bound u g = Java_Random.nextInt_loop bound u g"
    using wg_java_loop_le wg_java_loop_ge by (metis option.exhaust)
qed

lemma wg_java_nextInt_bound: "wg_nextInt_bound java_base = Java_Random.nextInt_bound 1"
  by (simp add: fun_eq_iff wg_nextInt_bound_def Java_Random.nextInt_bound_def wg_java_loop rng_simps split_beta)

lemma wg_java_draws:
  "wg_nextInt java_base = Java_Random.nextInt 1"
  "wg_nextIntFast java_base = Java_Random.nextIntFast 1"
  "wg_nextLong java_base = Java_Random.nextLong 1"
  "wg_nextBoolean java_base = Java_Random.nextBoolean 1"
  "wg_nextFloat java_base = java_nextFloat 1"
  "wg_nextDouble java_base = java_nextDouble 1"
  by (simp_all add: fun_eq_iff wg_nextInt_def Java_Random.nextInt_def wg_nextIntFast_def
      Java_Random.nextIntFast_def wg_nextLong_def Java_Random.nextLong_def wg_nextBoolean_def
      Java_Random.nextBoolean_def wg_nextFloat_def java_nextFloat_def wg_nextDouble_def
      java_nextDouble_def rng_simps)

subsection \<open>The floating-point draws of XrsrRandom\<close>

lemma xrsr_nextFloat_value:
  "fst (xrsr_nextFloat g) = of_nat (unat (fst (Xrsr_Random.nextBits 24 g))) / 2 ^ 24"
proof -
  have "unat (fst (Xrsr_Random.nextBits 24 g)) < 2 ^ 24" by (rule xrsr_nextBits_less) simp
  from scaled_draw32 [OF this] show ?thesis
    by (simp only: xrsr_nextFloat_def split_beta Let_def uint_nat fst_conv fl32_5_9604645E_8)
qed

lemma xrsr_nextDouble_value:
  "fst (xrsr_nextDouble g) = of_nat (unat (fst (Xrsr_Random.nextBits 53 g))) / 2 ^ 53"
proof -
  have "unat (fst (Xrsr_Random.nextBits 53 g)) < 2 ^ 53" by (rule xrsr_nextBits_less) simp
  from scaled_draw64 [OF this] show ?thesis
    by (simp only: xrsr_nextDouble_def split_beta Let_def uint_nat fst_conv fl32_1_110223E_16)
qed

lemma xrsr_nextDouble_range: "0 \<le> fst (xrsr_nextDouble g) \<and> fst (xrsr_nextDouble g) < 1"
proof -
  have "unat (fst (Xrsr_Random.nextBits 53 g)) < 2 ^ 53" by (rule xrsr_nextBits_less) simp
  then have "rat_of_nat (unat (fst (Xrsr_Random.nextBits 53 g))) < of_nat (2 ^ 53)"
    by (simp only: of_nat_less_iff)
  then show ?thesis unfolding xrsr_nextDouble_value by (simp del: of_nat_unat add: divide_less_eq)
qed

lemma xrsr_nextFloat_range: "0 \<le> fst (xrsr_nextFloat g) \<and> fst (xrsr_nextFloat g) < 1"
proof -
  have "unat (fst (Xrsr_Random.nextBits 24 g)) < 2 ^ 24" by (rule xrsr_nextBits_less) simp
  then have "rat_of_nat (unat (fst (Xrsr_Random.nextBits 24 g))) < of_nat (2 ^ 24)"
    by (simp only: of_nat_less_iff)
  then show ?thesis unfolding xrsr_nextFloat_value by (simp del: of_nat_unat add: divide_less_eq)
qed

subsection \<open>Decoration seeds\<close>

lemma dvd_scast_mult16: "16 dvd (scast (c * 16 :: i32) :: u64)"
proof -
  have "c * 16 = push_bit 4 c" by (simp add: push_bit_eq_mult mult.commute)
  then have "take_bit 4 (scast (c * 16) :: u64) = 0"
    by (intro bit_eqI) (auto simp: bit_take_bit_iff bit_simps)
  then show ?thesis using take_bit_eq_0_iff [of 4 "scast (c * 16) :: u64"] by simp
qed

lemma getDecorationSeed13_low_bits:
  "take_bit 4 (fst (getDecorationSeed13 R world_seed x z)) = take_bit 4 world_seed"
proof -
  have "take_bit 4 (scast (x * 16) * a + scast (z * 16) * b :: u64) = 0" for a b
    unfolding take_bit_eq_0_iff using dvd_scast_mult16 by (simp add: dvd_mult2 dvd_add)
  then show ?thesis by (simp add: getDecorationSeed13_def split_beta Let_def take_bit_xor)
qed

subsection \<open>Properties\<close>

text \<open>
  Instantiated with \<open>JavaRandom\<close>, the template \<open>WorldgenRandom\<close> draws exactly what
  \<open>JavaRandom\<close> itself draws, for all derived draws.
\<close>

lemma worldgen_java_agrees:
  "wg_nextInt_bound java_base = Java_Random.nextInt_bound 1 \<and>
   wg_nextInt java_base = Java_Random.nextInt 1 \<and>
   wg_nextIntFast java_base = Java_Random.nextIntFast 1 \<and>
   wg_nextLong java_base = Java_Random.nextLong 1 \<and>
   wg_nextBoolean java_base = Java_Random.nextBoolean 1 \<and>
   wg_nextFloat java_base = java_nextFloat 1 \<and> wg_nextDouble java_base = java_nextDouble 1"
  by (simp add: wg_java_nextInt_bound wg_java_draws)

text \<open>
  Every floating-point draw, of both generators and of the template over both, is exact and
  lies in \<open>[0, 1)\<close>; in particular the decimal literals \<open>5.9604645E-8f\<close> and \<open>1.110223E-16f\<close> are
  the powers of two they stand for.
\<close>

lemma float_draws_in_unit_interval:
  "fst (xrsr_nextFloat g) = of_nat (unat (fst (Xrsr_Random.nextBits 24 g))) / 2 ^ 24 \<and>
   fst (xrsr_nextDouble g) = of_nat (unat (fst (Xrsr_Random.nextBits 53 g))) / 2 ^ 53 \<and>
   0 \<le> fst (xrsr_nextFloat g) \<and> fst (xrsr_nextFloat g) < 1 \<and>
   0 \<le> fst (xrsr_nextDouble g) \<and> fst (xrsr_nextDouble g) < 1 \<and>
   0 \<le> fst (java_nextFloat 1 h) \<and> fst (java_nextFloat 1 h) < 1 \<and>
   0 \<le> fst (java_nextDouble 1 h) \<and> fst (java_nextDouble 1 h) < 1 \<and>
   0 \<le> fst (wg_nextDouble xrsr_base g) \<and> fst (wg_nextDouble xrsr_base g) < 1"
  using xrsr_nextFloat_range [of g] xrsr_nextDouble_range [of g] java_wg.nextFloat_range [of h]
    java_wg.nextDouble_range [of h] xrsr_wg.nextDouble_range [of g]
  by (simp add: xrsr_nextFloat_value xrsr_nextDouble_value wg_java_draws)

text \<open>
  The bounded draws of \<open>WorldgenRandom\<close> stay below their bound, over both generators.
\<close>

lemma worldgen_draws_bounded:
  assumes "bound \<noteq> 0"
  shows "unat (fst (wg_nextIntFast java_base bound h)) < unat bound \<and>
    unat (fst (wg_nextIntFast xrsr_base bound g)) < unat bound \<and>
    (\<forall>r g'. wg_nextInt_bound xrsr_base bound g = Some (r, g') \<longrightarrow> unat r < unat bound)"
  using assms java_wg.nextIntFast_less xrsr_wg.nextIntFast_less xrsr_wg.bounded_draw_less by blast

lemma worldgen_draws_bounded_witness:
  "unat (fst (wg_nextIntFast java_base 7 \<lparr>seed = 1\<rparr>)) < unat (7::u32)"
  using worldgen_draws_bounded [of 7] by simp

text \<open>
  The decoration seed of Minecraft 1.13 keeps the low four bits of the world seed, whatever
  the generator and the chunk: chunk coordinates enter multiplied by 16.
\<close>

lemma decoration_seed13_low_bits:
  "take_bit 4 (fst (getDecorationSeed13 R world_seed x z)) = take_bit 4 world_seed"
  by (rule getDecorationSeed13_low_bits)

end
