(* ===== verification/Gpu_Noise.thy ===== *)
theory Gpu_Noise
  imports Worldgen_Random
begin

text \<open>
  The noise functions of src/src/gpu.cu: the continentalness configuration built at compile time,
  the gradient table, Perlin noise sampling in single precision, the initialisation of an octave
  from a random generator, and the split of sampling into \<open>compute_cell\<close> and \<open>interp\<close> that two
  kernels use. The build flag \<open>OMISSION_LARGE_BIOMES\<close> is an argument \<open>large_biomes\<close>.
\<close>

subsection \<open>Configuration\<close>

definition hash_continentalness :: XrsrForkHash where
  "hash_continentalness = \<lparr>hash_lo = 0x83886c9d0ae3a662, hash_hi = 0xafa638a61b42e8ad\<rparr>"

definition hash_continentalness_large :: XrsrForkHash where
  "hash_continentalness_large = \<lparr>hash_lo = 0x9a3f51a113fce8dc, hash_hi = 0xee2dbd157e5dcdad\<rparr>"

definition hash_octave :: "XrsrForkHash list" where
  "hash_octave =
     [\<lparr>hash_lo = 0xb198de63a8012672, hash_hi = 0x7b84cad43ef7b5a8\<rparr>,
      \<lparr>hash_lo = 0x0fd787bfbc403ec3, hash_hi = 0x74a4a31ca21b48b8\<rparr>,
      \<lparr>hash_lo = 0x36d326eed40efeb2, hash_hi = 0x5be9ce18223c636a\<rparr>,
      \<lparr>hash_lo = 0x082fe255f8be6631, hash_hi = 0x4e96119e22dedc81\<rparr>,
      \<lparr>hash_lo = 0x0ef68ec68504005e, hash_hi = 0x48b6bf93a2789640\<rparr>,
      \<lparr>hash_lo = 0xf11268128982754f, hash_hi = 0x257a1d670430b0aa\<rparr>,
      \<lparr>hash_lo = 0xe51c98ce7d1de664, hash_hi = 0x5f9478a733040c45\<rparr>,
      \<lparr>hash_lo = 0x6d7b49e7e429850a, hash_hi = 0x2e3063c622a24777\<rparr>,
      \<lparr>hash_lo = 0xbd90d5377ba1b762, hash_hi = 0xc07317d419a7548d\<rparr>,
      \<lparr>hash_lo = 0x53d39c6752dac858, hash_hi = 0xbcd1c5a80ab65b3e\<rparr>,
      \<lparr>hash_lo = 0xb4a24d7a84e7677b, hash_hi = 0x023ff9668e89b5c4\<rparr>,
      \<lparr>hash_lo = 0xdffa22b534c5f608, hash_hi = 0xb9b67517d3665ca9\<rparr>,
      \<lparr>hash_lo = 0xd50708086cef4d7c, hash_hi = 0x6e1651ecc7f43309\<rparr>]"

record ImprovedNoise =
  perm :: "u8 list"
  xo :: f32
  yo :: f32
  zo :: f32

record NoiseParameters =
  first_octave :: int
  amplitudes :: "f64 list"

definition continentalness_parameters :: NoiseParameters where
  "continentalness_parameters = \<lparr>first_octave = - 9, amplitudes = [1, 1, 2, 2, 2, 1, 1, 1, 1]\<rparr>"

definition continentalness_large_parameters :: NoiseParameters where
  "continentalness_large_parameters =
     \<lparr>first_octave = - 11, amplitudes = [1, 1, 2, 2, 2, 1, 1, 1, 1]\<rparr>"

record OctaveConfig =
  octave_hash :: XrsrForkHash
  input_factor :: f64
  value_factor :: f64

record NormalNoiseConfig =
  noise_hash :: XrsrForkHash
  octaves_a :: "OctaveConfig list"
  octaves_b :: "OctaveConfig list"

text \<open>The loop of \<open>make_normal_noise_config\<close> over the amplitudes from index \<open>i\<close> on.\<close>

fun noise_config_loop ::
    "int \<Rightarrow> nat \<Rightarrow> f64 list \<Rightarrow> f64 \<Rightarrow> f64 \<Rightarrow> OctaveConfig list \<times> OctaveConfig list" where
  "noise_config_loop fo i [] infac vf = ([], [])"
| "noise_config_loop fo i (amp # amps) infac vf =
     (let h = hash_octave ! nat (fo + 12 + int i);
          a = \<lparr>octave_hash = h, input_factor = infac, value_factor = mul64 vf amp\<rparr>;
          b = \<lparr>octave_hash = h, input_factor = mul64 infac (fl64 (10181268882175227 / 10 ^ 16)),
               value_factor = mul64 vf amp\<rparr>;
          (as, bs) = noise_config_loop fo (Suc i) amps (mul64 infac 2) (mul64 vf (1 / 2))
      in (a # as, b # bs))"

definition make_normal_noise_config :: "NoiseParameters \<Rightarrow> XrsrForkHash \<Rightarrow> NormalNoiseConfig" where
  "make_normal_noise_config params hash =
     (let n = length (amplitudes params);
          root_value_factor =
            div64 (fl64 (16666666666666666 / 10 ^ 17))
              (mul64 (fl64 (1 / 10)) (add64 1 (div64 1 (of_nat n))));
          infac = div64 1 (2 ^ nat (- first_octave params));
          vf = mul64 (div64 (2 ^ (n - 1)) (sub64 (2 ^ n) 1)) root_value_factor;
          (as, bs) = noise_config_loop (first_octave params) 0 (amplitudes params) infac vf
      in \<lparr>noise_hash = hash, octaves_a = as, octaves_b = bs\<rparr>)"

definition chosen_continentalness_config :: "bool \<Rightarrow> NormalNoiseConfig" where
  "chosen_continentalness_config large_biomes =
     (if large_biomes
      then make_normal_noise_config continentalness_large_parameters hash_continentalness_large
      else make_normal_noise_config continentalness_parameters hash_continentalness)"

subsection \<open>Gradients and interpolation\<close>

record GradDotTable =
  grad_x :: "f32 list"
  grad_y :: "f32 list"
  grad_z :: "f32 list"

definition init_grad_dot_table :: GradDotTable where
  "init_grad_dot_table =
     \<lparr>grad_x = [1, -1, 1, -1, 1, -1, 1, -1, 0, 0, 0, 0, 1, 0, -1, 0],
      grad_y = [1, 1, -1, -1, 0, 0, 0, 0, 1, -1, 1, -1, 1, -1, 1, -1],
      grad_z = [0, 0, 0, 0, 1, 1, -1, -1, 1, 1, -1, -1, 0, 1, 0, -1]\<rparr>"

definition gradDot :: "GradDotTable \<Rightarrow> u8 \<Rightarrow> f32 \<Rightarrow> f32 \<Rightarrow> f32 \<Rightarrow> f32" where
  "gradDot table pv x y z =
     (let hash = unat (pv AND 0xF)
      in fmaf x (grad_x table ! hash)
           (fmaf y (grad_y table ! hash) (mul32 z (grad_z table ! hash))))"

definition smoothstep :: "f32 \<Rightarrow> f32" where
  "smoothstep v =
     mul32 (mul32 (mul32 v v) v) (add32 (mul32 v (sub32 (mul32 v 6) 15)) 10)"

definition lerp1 :: "f32 \<Rightarrow> f32 \<Rightarrow> f32 \<Rightarrow> f32" where
  "lerp1 fx v0 v1 = fmaf fx (sub32 v1 v0) v0"

definition lerp2 :: "f32 \<Rightarrow> f32 \<Rightarrow> f32 \<Rightarrow> f32 \<Rightarrow> f32 \<Rightarrow> f32 \<Rightarrow> f32" where
  "lerp2 fx fy v00 v10 v01 v11 = lerp1 fy (lerp1 fx v00 v10) (lerp1 fx v01 v11)"

definition lerp3 ::
    "f32 \<Rightarrow> f32 \<Rightarrow> f32 \<Rightarrow> f32 \<Rightarrow> f32 \<Rightarrow> f32 \<Rightarrow> f32 \<Rightarrow> f32 \<Rightarrow> f32 \<Rightarrow> f32 \<Rightarrow> f32 \<Rightarrow> f32" where
  "lerp3 fx fy fz v000 v100 v010 v110 v001 v101 v011 v111 =
     lerp1 fz (lerp2 fx fy v000 v100 v010 v110) (lerp2 fx fy v001 v101 v011 v111)"

subsection \<open>Sampling\<close>

text \<open>An access \<open>noise.p[i & 0xFF]\<close> with an \<open>int32_t\<close> index.\<close>

definition perm_at :: "ImprovedNoise \<Rightarrow> int \<Rightarrow> u8" where
  "perm_at noise i = perm noise ! nat (i mod 256)"

definition sample_noise :: "GradDotTable \<Rightarrow> ImprovedNoise \<Rightarrow> f32 \<Rightarrow> f32 \<Rightarrow> f32 \<Rightarrow> f32" where
  "sample_noise table noise x y z =
     (let x = add32 x (xo noise);
          y = add32 y (yo noise);
          z = add32 z (zo noise);
          int_x = float2int_rd x;
          int_y = float2int_rd y;
          int_z = float2int_rd z;
          frac_x = sub32 x (f32_of_int int_x);
          frac_y = sub32 y (f32_of_int int_y);
          frac_z = sub32 z (f32_of_int int_z);
          p0 = perm_at noise int_x;
          p1 = perm_at noise (int_x + 1);
          p00 = perm_at noise (uint p0 + int_y);
          p01 = perm_at noise (uint p0 + int_y + 1);
          p10 = perm_at noise (uint p1 + int_y);
          p11 = perm_at noise (uint p1 + int_y + 1);
          n000 = gradDot table (perm_at noise (uint p00 + int_z)) frac_x frac_y frac_z;
          n100 = gradDot table (perm_at noise (uint p10 + int_z)) (sub32 frac_x 1) frac_y frac_z;
          n010 = gradDot table (perm_at noise (uint p01 + int_z)) frac_x (sub32 frac_y 1) frac_z;
          n110 = gradDot table (perm_at noise (uint p11 + int_z))
                   (sub32 frac_x 1) (sub32 frac_y 1) frac_z;
          n001 = gradDot table (perm_at noise (uint p00 + int_z + 1))
                   frac_x frac_y (sub32 frac_z 1);
          n101 = gradDot table (perm_at noise (uint p10 + int_z + 1))
                   (sub32 frac_x 1) frac_y (sub32 frac_z 1);
          n011 = gradDot table (perm_at noise (uint p01 + int_z + 1))
                   frac_x (sub32 frac_y 1) (sub32 frac_z 1);
          n111 = gradDot table (perm_at noise (uint p11 + int_z + 1))
                   (sub32 frac_x 1) (sub32 frac_y 1) (sub32 frac_z 1);
          fx = smoothstep frac_x;
          fy = smoothstep frac_y;
          fz = smoothstep frac_z
      in lerp3 fx fy fz n000 n100 n010 n110 n001 n101 n011 n111)"

text \<open>\<open>wrap\<close> is the identity: its body is commented out in the source.\<close>

definition wrap :: "f32 \<Rightarrow> f32" where
  "wrap v = v"

definition sample_octave ::
    "OctaveConfig \<Rightarrow> GradDotTable \<Rightarrow> ImprovedNoise \<Rightarrow> int \<Rightarrow> int \<Rightarrow> int \<Rightarrow> f32" where
  "sample_octave config table noise x y z =
     (let f = fl32 (input_factor config)
      in mul32
           (sample_noise table noise
              (wrap (mul32 (f32_of_int x) f)) (wrap (mul32 (f32_of_int y) f))
              (wrap (mul32 (f32_of_int z) f)))
           (fl32 (value_factor config)))"

subsection \<open>The split sampling of the cached kernels\<close>

record Cell =
  c000 :: u8  c100 :: u8  c010 :: u8  c110 :: u8
  c001 :: u8  c101 :: u8  c011 :: u8  c111 :: u8

definition compute_cell :: "ImprovedNoise \<Rightarrow> int \<Rightarrow> int \<Rightarrow> int \<Rightarrow> Cell" where
  "compute_cell noise int_x int_y int_z =
     (let p0 = perm_at noise int_x;
          p1 = perm_at noise (int_x + 1);
          p00 = perm_at noise (uint p0 + int_y);
          p01 = perm_at noise (uint p0 + int_y + 1);
          p10 = perm_at noise (uint p1 + int_y);
          p11 = perm_at noise (uint p1 + int_y + 1)
      in \<lparr>c000 = perm_at noise (uint p00 + int_z),
          c100 = perm_at noise (uint p10 + int_z),
          c010 = perm_at noise (uint p01 + int_z),
          c110 = perm_at noise (uint p11 + int_z),
          c001 = perm_at noise (uint p00 + int_z + 1),
          c101 = perm_at noise (uint p10 + int_z + 1),
          c011 = perm_at noise (uint p01 + int_z + 1),
          c111 = perm_at noise (uint p11 + int_z + 1)\<rparr>)"

definition interp ::
    "GradDotTable \<Rightarrow> f32 \<Rightarrow> f32 \<Rightarrow> f32 \<Rightarrow> f32 \<Rightarrow> f32 \<Rightarrow> f32 \<Rightarrow> Cell \<Rightarrow> f32" where
  "interp table frac_x frac_y frac_z fx fy fz c =
     (let n000 = gradDot table (c000 c) frac_x frac_y frac_z;
          n100 = gradDot table (c100 c) (sub32 frac_x 1) frac_y frac_z;
          n010 = gradDot table (c010 c) frac_x (sub32 frac_y 1) frac_z;
          n110 = gradDot table (c110 c) (sub32 frac_x 1) (sub32 frac_y 1) frac_z;
          n001 = gradDot table (c001 c) frac_x frac_y (sub32 frac_z 1);
          n101 = gradDot table (c101 c) (sub32 frac_x 1) frac_y (sub32 frac_z 1);
          n011 = gradDot table (c011 c) frac_x (sub32 frac_y 1) (sub32 frac_z 1);
          n111 = gradDot table (c111 c) (sub32 frac_x 1) (sub32 frac_y 1) (sub32 frac_z 1)
      in lerp3 fx fy fz n000 n100 n010 n110 n001 n101 n011 n111)"

subsection \<open>Initialisation of an octave\<close>

text \<open>
  The shuffle draws \<open>nextInt(256 - i)\<close> for \<open>i = 0, 1, ...\<close> and exchanges entries \<open>i\<close> and
  \<open>i + j\<close>; a draw that never returns makes the whole initialisation \<open>None\<close>.
\<close>

fun shuffle_loop :: "nat \<Rightarrow> nat \<Rightarrow> u8 list \<Rightarrow> XrsrRandom \<Rightarrow> (u8 list \<times> XrsrRandom) option" where
  "shuffle_loop 0 i ps g = Some (ps, g)"
| "shuffle_loop (Suc left) i ps g =
     (case Xrsr_Random.nextInt_bound (256 - of_nat i) g of
        None \<Rightarrow> None
      | Some (j, g') \<Rightarrow> shuffle_loop left (Suc i) (exchange ps i (i + unat j)) g')"

definition noise_offsets :: "XrsrRandom \<Rightarrow> (f32 \<times> f32 \<times> f32) \<times> XrsrRandom" where
  "noise_offsets random =
     (let (fx, g1) = xrsr_nextFloat random;
          (fy, g2) = xrsr_nextFloat g1;
          (fz, g3) = xrsr_nextFloat g2
      in ((mul32 fx 256, mul32 fy 256, mul32 fz 256), g3))"

definition init_noise :: "XrsrRandom \<Rightarrow> ImprovedNoise option" where
  "init_noise random =
     (let ((nxo, nyo, nzo), g3) = noise_offsets random
      in case shuffle_loop 256 0 (map of_nat [0..<256]) g3 of
           None \<Rightarrow> None
         | Some (ps, g4) \<Rightarrow> Some \<lparr>perm = ps, xo = nxo, yo = nyo, zo = nzo\<rparr>)"

subsection \<open>The table of an octave is a permutation of the bytes\<close>

lemma unat_bound_256: "i < 256 \<Longrightarrow> unat (256 - of_nat i :: u32) = 256 - i"
proof -
  assume i: "i < 256"
  then have "unat (of_nat i :: u32) = i" by (simp add: unat_of_nat)
  moreover have "(of_nat i :: u32) \<le> 256" using i calculation by (simp add: word_le_nat_alt)
  ultimately show ?thesis by (simp add: unat_sub)
qed

lemma shuffle_loop_mset:
  "shuffle_loop left i ps g = Some (ps', g') \<Longrightarrow> i + left \<le> 256 \<Longrightarrow> length ps = 256
    \<Longrightarrow> mset ps' = mset ps"
proof (induction left i ps g rule: shuffle_loop.induct)
  case (2 left i ps g)
  from 2(2) obtain j g1 where j: "Xrsr_Random.nextInt_bound (256 - of_nat i) g = Some (j, g1)"
    and rest: "shuffle_loop left (Suc i) (exchange ps i (i + unat j)) g1 = Some (ps', g')"
    by (auto split: option.splits)
  have i: "i < 256" using 2(3) by simp
  then have "256 - of_nat i \<noteq> (0::u32)" using unat_bound_256 [OF i] by fastforce
  from nextInt_bound_less [OF this j] have "i + unat j < 256" using unat_bound_256 [OF i] i by simp
  moreover have "mset ps' = mset (exchange ps i (i + unat j))"
    using 2(1) [OF j refl rest] 2(3,4) by simp
  ultimately show ?case using 2(4) i by (simp add: mset_exchange)
qed simp

definition noise_ok :: "ImprovedNoise \<Rightarrow> bool" where
  "noise_ok noise \<longleftrightarrow>
     length (perm noise) = 256 \<and> set (perm noise) = UNIV \<and>
     (\<forall>off \<in> {xo noise, yo noise, zo noise}. 0 \<le> off \<and> off < 256 \<and> fl32 off = off)"

lemma bytes_UNIV: "set (map of_nat [0..<256]) = (UNIV :: u8 set)"
proof -
  have "b \<in> of_nat ` {0..<256}" for b :: u8
    using unat_less [of b] by (intro image_eqI [of _ _ "unat b"]) simp_all
  then show ?thesis by auto
qed

lemma offset_value:
  "mul32 (fst (xrsr_nextFloat g)) 256 = of_nat (unat (fst (Xrsr_Random.nextBits 24 g))) / 2 ^ 16"
proof -
  define n where "n = unat (fst (Xrsr_Random.nextBits 24 g))"
  have n: "\<bar>int n\<bar> < 2 ^ 24" using xrsr_nextBits_less [of 24 g] by (simp flip: n_def)
  have p: "(2::rat) powi - 16 = 1 / 2 ^ 16" by (simp add: power_int_minus)
  have "fst (xrsr_nextFloat g) * 256 = of_int (int n) * 2 powi - 16"
    by (simp only: xrsr_nextFloat_value p flip: n_def) simp
  then have "mul32 (fst (xrsr_nextFloat g)) 256 = of_int (int n) * 2 powi - 16"
    using fl32_exact [OF n, of "- 16"] by (simp only: mul32_def)
  then show ?thesis by (simp only: p flip: n_def) simp
qed

lemma offset_ok:
  defines "off g \<equiv> mul32 (fst (xrsr_nextFloat g)) 256"
  shows "0 \<le> off g \<and> off g < 256 \<and> fl32 (off g) = off g"
proof -
  have "unat (fst (Xrsr_Random.nextBits 24 g)) < 2 ^ 24" by (rule xrsr_nextBits_less) simp
  then have "rat_of_nat (unat (fst (Xrsr_Random.nextBits 24 g))) < of_nat (2 ^ 24)"
    by (simp only: of_nat_less_iff)
  then have "off g < 256" "0 \<le> off g"
    unfolding off_def offset_value by (simp_all del: of_nat_unat add: divide_less_eq)
  then show ?thesis by (simp add: off_def mul32_def)
qed

lemma init_noise_ok: "init_noise g = Some noise \<Longrightarrow> noise_ok noise"
proof -
  assume "init_noise g = Some noise"
  then obtain ps g3 g4 where s: "shuffle_loop 256 0 (map of_nat [0..<256]) g3 = Some (ps, g4)"
    and ps: "perm noise = ps"
    and off: "\<exists>g. xo noise = mul32 (fst (xrsr_nextFloat g)) 256"
      "\<exists>g. yo noise = mul32 (fst (xrsr_nextFloat g)) 256" "\<exists>g. zo noise = mul32 (fst (xrsr_nextFloat g)) 256"
    by (fastforce simp: init_noise_def noise_offsets_def split_beta Let_def split: option.splits)
  from shuffle_loop_mset [OF s] have m: "mset ps = mset (map of_nat [0..<256])" by simp
  then have "length ps = 256" using mset_eq_length by fastforce
  moreover have "set ps = UNIV" using m mset_eq_setD bytes_UNIV by metis
  ultimately show ?thesis unfolding noise_ok_def using ps off offset_ok by auto
qed

lemma perm_at_in: "noise_ok noise \<Longrightarrow> perm_at noise i \<in> set (perm noise)"
  unfolding perm_at_def noise_ok_def by (auto intro!: nth_mem simp: nat_less_iff)

lemma noise_ok_distinct: "noise_ok noise \<Longrightarrow> distinct (perm noise)"
  unfolding noise_ok_def by (simp add: card_distinct card_word)

subsection \<open>Sampling through a cached cell\<close>

definition frac_of :: "f32 \<Rightarrow> f32" where
  "frac_of x = sub32 x (f32_of_int (float2int_rd x))"

lemma sample_noise_split:
  "sample_noise table noise x y z =
     (let x = add32 x (xo noise); y = add32 y (yo noise); z = add32 z (zo noise)
      in interp table (frac_of x) (frac_of y) (frac_of z)
           (smoothstep (frac_of x)) (smoothstep (frac_of y)) (smoothstep (frac_of z))
           (compute_cell noise (float2int_rd x) (float2int_rd y) (float2int_rd z)))"
  by (simp add: sample_noise_def interp_def compute_cell_def frac_of_def Let_def)

text \<open>
  The initialisation fails to return only if from some point on every draw of the generator is
  rejected for one of its bounds.
\<close>

definition all_rejected :: "XrsrRandom \<Rightarrow> bool" where
  "all_rejected g \<longleftrightarrow> (\<exists>b n. 0 < b \<and> b \<le> 256 \<and> (\<forall>k \<ge> n. \<not> lemire_accept b (draw32 ((xrsr_step ^^ k) g))))"

lemma nextInt_bound_orbit:
  assumes "b \<noteq> 0" "Xrsr_Random.nextInt_bound b g = Some (r, g')"
  shows "\<exists>k. g' = (xrsr_step ^^ k) g"
proof -
  obtain k where "g' = (xrsr_step ^^ Suc k) g" using xrsr_nextInt_draws [OF assms(1), of g] assms(2) by auto
  then show ?thesis by blast
qed

lemma nextInt_bound_rejects:
  assumes "b \<noteq> 0" "Xrsr_Random.nextInt_bound b ((xrsr_step ^^ n) g) = None" "n \<le> k"
  shows "\<not> lemire_accept (unat b) (draw32 ((xrsr_step ^^ k) g))"
proof -
  obtain d where "k = d + n" using assms(3) by (metis le_add_diff_inverse2)
  then show ?thesis using xrsr_nextInt_draws [OF assms(1), of "(xrsr_step ^^ n) g"] assms(2) by (simp add: funpow_add)
qed

lemma shuffle_loop_None:
  "shuffle_loop left i ps ((xrsr_step ^^ n) g) = None \<Longrightarrow> i + left \<le> 256 \<Longrightarrow> all_rejected g"
proof (induction left arbitrary: i ps n)
  case (Suc left)
  let ?b = "256 - of_nat i :: u32"
  have b: "unat ?b = 256 - i" using Suc.prems(2) by (intro unat_bound_256) simp
  then have "0 < unat ?b" using Suc.prems(2) by simp
  then have nz: "?b \<noteq> 0" using unat_gt_0 by blast
  show ?case
  proof (cases "Xrsr_Random.nextInt_bound ?b ((xrsr_step ^^ n) g)")
    case None
    then show ?thesis using nextInt_bound_rejects [OF nz None] b Suc.prems(2) unfolding all_rejected_def
      by (intro exI [of _ "256 - i"] exI [of _ n]) auto
  next
    case (Some jg)
    obtain j g' where jg: "jg = (j, g')" by (cases jg)
    from nextInt_bound_orbit [OF nz Some [unfolded jg]] obtain k where "g' = (xrsr_step ^^ (k + n)) g" by (auto simp: funpow_add)
    then show ?thesis using Suc.prems Suc.IH [of "Suc i" "exchange ps i (i + unat j)" "k + n"] Some jg by simp
  qed
qed simp

lemma noise_offsets_orbit: "snd (noise_offsets g) = (xrsr_step ^^ 3) g"
proof -
  have "snd (xrsr_nextFloat g) = xrsr_step g" for g
    by (simp add: xrsr_nextFloat_def Xrsr_Random.nextBits_def split_beta Let_def xrsr_step_def)
  then show ?thesis by (simp add: noise_offsets_def split_beta Let_def numeral_3_eq_3)
qed

lemma init_noise_None: "init_noise g = None \<Longrightarrow> all_rejected g"
  using shuffle_loop_None [of 256 0 "map of_nat [0..<256]" 3 g] noise_offsets_orbit [of g]
  by (simp add: init_noise_def split_beta Let_def del: shuffle_loop.simps funpow.simps upt.simps split: option.splits)

text \<open>The simplest octave, with the identity table.\<close>

definition plain_noise :: ImprovedNoise where
  "plain_noise = \<lparr>perm = map of_nat [0..<256], xo = 0, yo = 0, zo = 0\<rparr>"

lemma noise_ok_plain: "noise_ok plain_noise"
  using bytes_UNIV by (simp add: noise_ok_def plain_noise_def del: upt_conv_Cons_Cons)

subsection \<open>Properties\<close>

text \<open>
  C39. \<open>init_noise\<close> either returns an octave whose table is a permutation of the 256 bytes and whose
  three offsets are floats in \<open>[0, 256)\<close>, or from some point on every draw of its generator is
  rejected for one of the bounds up to 256.
\<close>

theorem init_noise_permutation:
  "case init_noise g of
     Some noise \<Rightarrow> noise_ok noise \<and> distinct (perm noise)
   | None \<Rightarrow> all_rejected g"
  using init_noise_ok [of g] noise_ok_distinct init_noise_None [of g] by (auto split: option.split)

text \<open>
  Sampling through the cell of the lattice and the interpolation, as the cached kernels do,
  is \<open>sample_noise\<close>.
\<close>

lemma sample_noise_by_cell:
  "sample_noise table noise x y z =
     (let x = add32 x (xo noise); y = add32 y (yo noise); z = add32 z (zo noise);
          frac = (\<lambda>v. sub32 v (f32_of_int (float2int_rd v)))
      in interp table (frac x) (frac y) (frac z)
           (smoothstep (frac x)) (smoothstep (frac y)) (smoothstep (frac z))
           (compute_cell noise (float2int_rd x) (float2int_rd y) (float2int_rd z)))"
  by (simp add: sample_noise_split frac_of_def Let_def)

end
