(* ===== verification/Gpu_Launch.thy ===== *)
theory Gpu_Launch
  imports Prelude "HOL-Library.Sublist"
begin

text \<open>
  How the kernels of src/src/gpu.cu write their results. Every kernel appends to an
  \<open>OutputBuffer\<close> with the same two instructions: \<open>i = atomicAdd(outputs.len, 1)\<close>, then
  \<open>outputs.data[i] = v\<close> if \<open>i < outputs.max_len\<close>. The threads of a launch run in any order and
  may be interrupted between the two. A launch is a step relation on the buffer and the threads,
  each with the values it has still to append and the append it is in the middle of.
\<close>

subsection \<open>Buffers and launches\<close>

text \<open>
  \<open>data\<close> is the memory of the device from the start of the buffer on, of which the first \<open>max_len\<close>
  entries belong to the buffer; what lies behind them belongs to someone else.
\<close>

record 'v OutputBuffer =
  data :: "'v list"
  len :: u32
  max_len :: nat

text \<open>\<open>cudaMemsetAsync(device_buffer_lens, 0, ...)\<close> resets the length of every buffer.\<close>

definition reset_len :: "'v OutputBuffer \<Rightarrow> 'v OutputBuffer" where
  "reset_len b = b\<lparr>len := 0\<rparr>"

definition buffer_ok :: "'v OutputBuffer \<Rightarrow> bool" where
  "buffer_ok b \<longleftrightarrow> max_len b \<le> length (data b)"

text \<open>The entries of the buffer: what a kernel that reads it as an \<open>InputBuffer\<close> sees, when the length is in range.\<close>

definition contents :: "'v OutputBuffer \<Rightarrow> 'v list" where
  "contents b = take (min (unat (len b)) (max_len b)) (data b)"

type_synonym 'v gpu_thread = "'v list \<times> (nat \<times> 'v) option"

text \<open>The label of a step lists the value whose \<open>atomicAdd\<close> it is.\<close>

inductive emit_step ::
    "'v gpu_thread list \<times> 'v OutputBuffer \<Rightarrow> 'v list \<Rightarrow> 'v gpu_thread list \<times> 'v OutputBuffer \<Rightarrow> bool" where
  atomic_add [step_intros]:
    "i < length ts \<Longrightarrow> ts ! i = (v # vs, None) \<Longrightarrow>
     emit_step (ts, b) [v] (ts[i := (vs, Some (unat (len b), v))], b\<lparr>len := len b + 1\<rparr>)"
| store [step_intros]:
    "i < length ts \<Longrightarrow> ts ! i = (vs, Some (k, v)) \<Longrightarrow> k < max_len b \<Longrightarrow>
     emit_step (ts, b) [] (ts[i := (vs, None)], b\<lparr>data := (data b)[k := v]\<rparr>)"
| drop_result [step_intros]:
    "i < length ts \<Longrightarrow> ts ! i = (vs, Some (k, v)) \<Longrightarrow> \<not> k < max_len b \<Longrightarrow>
     emit_step (ts, b) [] (ts[i := (vs, None)], b)"

inductive_cases emit_stepE: "emit_step (ts, b) l s'"

text \<open>A run, with the values in the order of their \<open>atomicAdd\<close>.\<close>

inductive emit_run ::
    "'v gpu_thread list \<times> 'v OutputBuffer \<Rightarrow> 'v list \<Rightarrow> 'v gpu_thread list \<times> 'v OutputBuffer \<Rightarrow> bool" where
  run_refl: "emit_run s [] s"
| run_step: "emit_run s ys s' \<Longrightarrow> emit_step s' l s'' \<Longrightarrow> emit_run s (ys @ l) s''"

definition finished :: "'v gpu_thread list \<Rightarrow> bool" where
  "finished ts \<longleftrightarrow> (\<forall>t \<in> set ts. t = ([], None))"

text \<open>
  A launch in which thread \<open>i\<close> appends the values \<open>ems ! i\<close>, from its start to its end, with the
  order \<open>ys\<close> of the appends or without.
\<close>

definition launch_order :: "'v list list \<Rightarrow> 'v OutputBuffer \<Rightarrow> 'v list \<Rightarrow> 'v OutputBuffer \<Rightarrow> bool" where
  "launch_order ems b ys b' \<longleftrightarrow> (\<exists>ts. emit_run (map (\<lambda>vs. (vs, None)) ems, b) ys (ts, b') \<and> finished ts)"

definition launch :: "'v list list \<Rightarrow> 'v OutputBuffer \<Rightarrow> 'v OutputBuffer \<Rightarrow> bool" where
  "launch ems b b' \<longleftrightarrow> (\<exists>ys. launch_order ems b ys b')"

subsection \<open>The invariant of a launch\<close>

text \<open>
  \<open>ys\<close> is the history of the values in the order of their \<open>atomicAdd\<close>; \<open>M\<close> is everything the
  launch has to append, \<open>d\<close> the memory at its start. A slot is settled unless a thread is between the
  two instructions for it.
\<close>

definition in_flight :: "'v gpu_thread list \<Rightarrow> nat \<Rightarrow> bool" where
  "in_flight ts k \<longleftrightarrow> (\<exists>i < length ts. \<exists>v. snd (ts ! i) = Some (k, v))"

definition launch_inv ::
    "'v multiset \<Rightarrow> nat \<Rightarrow> 'v list \<Rightarrow> 'v list \<Rightarrow> 'v gpu_thread list \<Rightarrow> 'v OutputBuffer \<Rightarrow> bool" where
  "launch_inv M mx d ys ts b \<longleftrightarrow>
     unat (len b) = length ys \<and> mx \<le> length d \<and> length (data b) = length d \<and> max_len b = mx \<and>
     drop mx (data b) = drop mx d \<and>
     mset ys + mset (concat (map fst ts)) = M \<and>
     (\<forall>i < length ts. \<forall>k v. snd (ts ! i) = Some (k, v) \<longrightarrow> k < length ys \<and> ys ! k = v) \<and>
     (\<forall>i < length ts. \<forall>j < length ts. \<forall>k v w.
        snd (ts ! i) = Some (k, v) \<longrightarrow> snd (ts ! j) = Some (k, w) \<longrightarrow> i = j) \<and>
     (\<forall>k < length ys. k < mx \<longrightarrow> \<not> in_flight ts k \<longrightarrow> data b ! k = ys ! k)"

lemma mset_pending_update:
  assumes "i < length ts"
  shows "mset (fst (ts ! i)) + mset (concat (map fst (ts[i := t]))) = mset (fst t) + mset (concat (map fst ts))"
proof -
  have "map fst ts = take i (map fst ts) @ fst (ts ! i) # drop (Suc i) (map fst ts)"
    using assms id_take_nth_drop [of i "map fst ts"] by simp
  then have "mset (concat (map fst ts)) =
      mset (concat (take i (map fst ts))) + mset (fst (ts ! i)) + mset (concat (drop (Suc i) (map fst ts)))"
    by (metis (no_types, lifting) concat.simps(2) concat_append mset_append add.assoc)
  moreover have "map fst (ts[i := t]) = take i (map fst ts) @ fst t # drop (Suc i) (map fst ts)"
    using assms by (simp add: map_update upd_conv_take_nth_drop take_map drop_map)
  ultimately show ?thesis by (simp add: ac_simps)
qed

lemma in_flight_update:
  "i < length ts \<Longrightarrow> in_flight (ts[i := (vs, s)]) k \<longleftrightarrow>
     (\<exists>v. s = Some (k, v)) \<or> (\<exists>j < length ts. j \<noteq> i \<and> (\<exists>v. snd (ts ! j) = Some (k, v)))"
  unfolding in_flight_def by (auto simp: nth_list_update split: if_splits)

lemma launch_inv_settle:
  assumes inv: "launch_inv M mx d ys ts b" and i: "i < length ts" "ts ! i = (vs, Some (k, v))"
    and b': "b' = (if k < mx then b\<lparr>data := (data b)[k := v]\<rparr> else b)"
  shows "launch_inv M mx d ys (ts[i := (vs, None)]) b'"
proof -
  have pend: "mset (concat (map fst (ts[i := (vs, None)]))) = mset (concat (map fst ts))"
    using mset_pending_update [OF i(1), of "(vs, None)"] i by simp
  have k: "k < length ys" "ys ! k = v" using inv i by (simp_all add: launch_inv_def)
  show ?thesis
    unfolding launch_inv_def
  proof (intro conjI allI impI)
    fix j assume j: "j < length ys" "j < mx" "\<not> in_flight (ts[i := (vs, None)]) j"
    have "j = k \<or> \<not> in_flight ts j"
      using j(3) i by (auto simp: in_flight_def nth_list_update split: if_splits)
    then show "data b' ! j = ys ! j"
      using inv j(1,2) k b' by (auto simp: launch_inv_def nth_list_update)
  next
    show "drop mx (data b') = drop mx d" using inv b' by (simp add: launch_inv_def drop_update_swap)
  qed (use inv i b' pend in \<open>auto simp: launch_inv_def nth_list_update split: if_splits\<close>)
qed

lemma launch_inv_step:
  assumes inv: "launch_inv M mx d ys ts b" and small: "size M < 2 ^ 32"
    and step: "emit_step (ts, b) l (ts', b')"
  shows "launch_inv M mx d (ys @ l) ts' b'"
  using step
proof cases
  case (atomic_add i v vs)
  have pend: "mset (concat (map fst ts)) = {#v#} + mset (concat (map fst ts'))"
    using mset_pending_update [OF atomic_add(4), of "(vs, Some (unat (len b), v))"] atomic_add by simp
  have "length ys < size M"
    using inv arg_cong [OF pend, of size] unfolding launch_inv_def by (auto simp flip: size_mset)
  then have l: "unat (len b + 1) = Suc (length ys)"
    using inv small by (simp add: launch_inv_def unat_word_ariths)
  have fl: "in_flight ts' k \<longleftrightarrow> k = unat (len b) \<or> in_flight ts k" for k
    using atomic_add by (auto simp: in_flight_update) (auto simp: in_flight_def)
  show ?thesis
    using inv atomic_add l pend unfolding launch_inv_def fl
    by (auto simp: nth_list_update nth_append split: if_splits)
next
  case (store i vs k v)
  then show ?thesis using launch_inv_settle [OF inv store(4,5)] inv by (simp add: launch_inv_def)
next
  case (drop_result i vs k v)
  then show ?thesis using launch_inv_settle [OF inv drop_result(4,5)] inv by (simp add: launch_inv_def)
qed

lemma launch_inv_run:
  assumes "emit_run s ys s'" "size M < 2 ^ 32" "launch_inv M mx d [] (fst s) (snd s)"
  shows "launch_inv M mx d ys (fst s') (snd s')"
  using assms(1,3)
proof induction
  case (run_step s ys s' l s'')
  from launch_inv_step [OF run_step.IH [OF run_step.prems] assms(2), of l "fst s''" "snd s''"] run_step(2) show ?case by simp
qed simp

lemma finished_pending: "finished ts \<Longrightarrow> concat (map fst ts) = [] \<and> \<not> in_flight ts k"
  by (fastforce simp: finished_def in_flight_def dest: nth_mem)

text \<open>Every thread appends its values in its own order.\<close>

lemma emit_run_subseq:
  assumes "emit_run s ys s'" "i < length (fst s)"
  shows "length (fst s') = length (fst s) \<and> (\<exists>pre. fst (fst s ! i) = pre @ fst (fst s' ! i) \<and> subseq pre ys)"
  using assms
proof induction
  case (run_step s ys s' l s'')
  then obtain pre where pre: "length (fst s') = length (fst s)" "fst (fst s ! i) = pre @ fst (fst s' ! i)" "subseq pre ys" by blast
  from run_step(2) show ?case
  proof cases
    case (atomic_add j ts v vs b)
    then show ?thesis using pre
      by (cases "j = i") (auto intro!: exI [of _ "pre @ [v]"] exI [of _ pre] list_emb_append_mono subseq_order.order_trans [OF pre(3)])
  next
    case (store j ts vs k v b)
    then show ?thesis using pre by (cases "j = i") auto
  next
    case (drop_result j ts vs k v b)
    then show ?thesis using pre by (cases "j = i") auto
  qed
qed auto

text \<open>
  After any launch the length counts all appended values and the stored prefix lists them in the
  order of their \<open>atomicAdd\<close>; nothing is lost unless the buffer is full, and the memory behind the
  buffer is as before.
\<close>

lemma launch_order_result:
  assumes "launch_order ems b ys b'" and "buffer_ok b" "len b = 0" and "length (concat ems) < 2 ^ 32"
  shows "mset ys = mset (concat ems) \<and> (\<forall>vs \<in> set ems. subseq vs ys) \<and> unat (len b') = length ys \<and>
    max_len b' = max_len b \<and> length (data b') = length (data b) \<and> drop (max_len b) (data b') = drop (max_len b) (data b) \<and>
    contents b' = take (max_len b) ys"
proof -
  obtain ts where run: "emit_run (map (\<lambda>vs. (vs, None)) ems, b) ys (ts, b')" and fin: "finished ts"
    using assms(1) by (auto simp: launch_order_def)
  let ?M = "mset (concat ems)"
  have "launch_inv ?M (max_len b) (data b) [] (map (\<lambda>vs. (vs, None)) ems) b"
    using assms(2,3) by (simp add: launch_inv_def buffer_ok_def o_def)
  then have inv: "launch_inv ?M (max_len b) (data b) ys ts b'"
    using launch_inv_run [OF run, of ?M] assms(4) by simp
  have "contents b' = take (max_len b) ys"
  proof (rule nth_equalityI)
    show "length (contents b') = length (take (max_len b) ys)"
      using inv by (auto simp: launch_inv_def contents_def min_def)
  next
    fix k assume "k < length (contents b')"
    then show "contents b' ! k = take (max_len b) ys ! k"
      using inv finished_pending [OF fin, of k] by (simp add: launch_inv_def contents_def)
  qed
  moreover have "subseq vs ys" if "vs \<in> set ems" for vs
  proof -
    from that obtain i where i: "i < length ems" "vs = ems ! i" by (auto simp: in_set_conv_nth)
    from emit_run_subseq [OF run, of i] i obtain pre where pre: "length ts = length ems" "vs = pre @ fst (ts ! i)" "subseq pre ys" by auto
    then have "ts ! i = ([], None)" using fin i(1) by (simp add: finished_def)
    then show ?thesis using pre by simp
  qed
  ultimately show ?thesis
    using inv finished_pending [OF fin] by (auto simp: launch_inv_def)
qed

lemma launch_history:
  assumes "launch ems b b'" and "buffer_ok b" "len b = 0" and "length (concat ems) < 2 ^ 32"
  shows "\<exists>ys. mset ys = mset (concat ems) \<and> unat (len b') = length ys \<and>
    max_len b' = max_len b \<and> buffer_ok b' \<and> contents b' = take (max_len b) ys"
proof -
  obtain ys where "launch_order ems b ys b'" using assms(1) by (auto simp: launch_def)
  from launch_order_result [OF this assms(2-4)] assms(2) show ?thesis by (auto simp: buffer_ok_def)
qed

lemma launch_contents:
  assumes "launch ems b b'" "buffer_ok b" "len b = 0" "length (concat ems) \<le> max_len b" "max_len b < 2 ^ 32"
  shows "mset (contents b') = mset (concat ems)" and "unat (len b') = length (concat ems)"
    and "buffer_ok b'" and "max_len b' = max_len b"
proof -
  have "length (concat ems) < 2 ^ 32" using assms(4,5) by (rule order.strict_trans1)
  from launch_history [OF assms(1-3) this] obtain ys where ys: "mset ys = mset (concat ems)"
    "unat (len b') = length ys" "max_len b' = max_len b" "buffer_ok b'" "contents b' = take (max_len b) ys" by blast
  have l: "length ys = length (concat ems)" using ys(1) mset_eq_length by blast
  then show "mset (contents b') = mset (concat ems)" using ys assms(4) by simp
  show "unat (len b') = length (concat ems)" "buffer_ok b'" "max_len b' = max_len b"
    using ys l by simp_all
qed

subsection \<open>Every launch ends\<close>

definition launch_measure :: "'v gpu_thread list \<Rightarrow> nat" where
  "launch_measure ts = (\<Sum>t \<leftarrow> ts. 2 * length (fst t) + (if snd t = None then 0 else 1))"

lemma sum_list_map_update:
  "i < length ts \<Longrightarrow> sum_list (map f (ts[i := t])) + f (ts ! i) = sum_list (map f ts) + (f t :: nat)"
  by (induction ts arbitrary: i) (auto split: nat.splits)

lemma emit_step_measure: "emit_step (ts, b) l (ts', b') \<Longrightarrow> launch_measure ts' < launch_measure ts"
proof -
  assume "emit_step (ts, b) l (ts', b')"
  then obtain i t where "i < length ts" "ts' = ts[i := t]"
    "2 * length (fst t) + (if snd t = None then 0 else 1)
       < 2 * length (fst (ts ! i)) + (if snd (ts ! i) = None then 0 else (1::nat))"
    by cases fastforce+
  then show ?thesis
    using sum_list_map_update [of i ts "\<lambda>t. 2 * length (fst t) + (if snd t = None then 0 else 1)" t]
    by (simp add: launch_measure_def)
qed

lemma emit_step_progress: "\<not> finished ts \<Longrightarrow> \<exists>l s'. emit_step (ts, b) l s'"
proof -
  assume "\<not> finished ts"
  then obtain i where i: "i < length ts" "ts ! i \<noteq> ([], None)" by (metis finished_def in_set_conv_nth)
  obtain vs s where t: "ts ! i = (vs, s)" by (cases "ts ! i")
  show ?thesis
  proof (cases s)
    case None
    then obtain v ws where "vs = v # ws" using i t by (cases vs) auto
    then show ?thesis using emit_step.atomic_add [OF i(1), of v ws b] t None by auto
  next
    case (Some kv)
    obtain k v where kv: "kv = (k, v)" by (cases kv)
    show ?thesis
      using emit_step.store [OF i(1), of vs k v b] emit_step.drop_result [OF i(1), of vs k v b] t Some kv by auto
  qed
qed

lemma emit_run_trans: "emit_run s' zs s'' \<Longrightarrow> emit_run s ys s' \<Longrightarrow> emit_run s (ys @ zs) s''"
  by (induction arbitrary: ys rule: emit_run.induct) (simp, metis append.assoc run_step)

lemma emit_run_ends: "\<exists>ys ts' b'. emit_run (ts, b) ys (ts', b') \<and> finished ts'"
proof (induction "launch_measure ts" arbitrary: ts b rule: less_induct)
  case less
  show ?case
  proof (cases "finished ts")
    case True
    then show ?thesis using run_refl by blast
  next
    case False
    then obtain l ts1 b1 where s: "emit_step (ts, b) l (ts1, b1)" using emit_step_progress by (metis surj_pair)
    from less [OF emit_step_measure [OF s]] obtain ys ts' b'
      where "emit_run (ts1, b1) ys (ts', b')" "finished ts'" by blast
    then show ?thesis using emit_run_trans [OF _ run_step [OF run_refl s]] by blast
  qed
qed

lemma launch_exists: "\<exists>b'. launch ems b b'"
  using emit_run_ends unfolding launch_def launch_order_def by blast

subsection \<open>Grid-stride loops\<close>

text \<open>
  The indices that a thread of \<open>n\<close> visits: \<open>for (i = first; i < len; i += n)\<close>. The indices of a
  launch stay below \<open>2^32\<close>, so the increments do not wrap.
\<close>

function stride :: "nat \<Rightarrow> nat \<Rightarrow> nat \<Rightarrow> nat list" where
  "stride n i m = (if i < m \<and> 0 < n then i # stride n (i + n) m else [])"
  by pat_completeness auto
termination by (relation "measure (\<lambda>(n, i, m). m - i)") auto

declare stride.simps [simp del]

lemma stride_eq:
  "0 < n \<Longrightarrow> stride n i m = filter (\<lambda>j. i \<le> j \<and> j mod n = i mod n) [0..<m]"
proof (induction n i m rule: stride.induct)
  case (1 n i m)
  show ?case
  proof (cases "i < m")
    case True
    have split: "[0..<m] = [0..<i] @ i # [Suc i..<m]"
      using True upt_add_eq_append [of 0 i "m - i"] upt_conv_Cons [of i m] by simp
    have "filter (\<lambda>j. i \<le> j \<and> j mod n = i mod n) [Suc i..<m] = filter (\<lambda>j. i + n \<le> j \<and> j mod n = i mod n) [Suc i..<m]"
    proof (rule filter_cong [OF refl])
      fix j assume j: "j \<in> set [Suc i..<m]"
      have "j mod n = i mod n \<Longrightarrow> i + n \<le> j"
      proof -
        assume e: "j mod n = i mod n"
        then have "n dvd j - i" using j by (simp add: mod_eq_dvd_iff_nat)
        moreover have "0 < j - i" using j by simp
        ultimately have "n \<le> j - i" by (rule dvd_imp_le)
        then show ?thesis using j by auto
      qed
      then show "(i \<le> j \<and> j mod n = i mod n) = (i + n \<le> j \<and> j mod n = i mod n)" by auto
    qed
    also have "\<dots> = filter (\<lambda>j. i + n \<le> j \<and> j mod n = i mod n) [0..<m]"
      using 1(2) by (simp add: split)
    finally have f: "filter (\<lambda>j. i \<le> j \<and> j mod n = i mod n) [Suc i..<m] = stride n (i + n) m"
      using 1 True by simp
    have "stride n i m = i # stride n (i + n) m" using 1(2) True by (simp add: stride.simps [of n i])
    then show ?thesis using f by (simp add: split)
  qed (use 1(2) in \<open>simp add: stride.simps\<close>)
qed

lemma mset_filter_classes:
  "(\<Sum>t \<leftarrow> [0..<n]. mset (filter (\<lambda>j. j mod n = t) xs)) = mset xs" if "0 < n"
proof (induction xs)
  case (Cons x xs)
  have "(\<Sum>t \<leftarrow> [0..<n]. mset (filter (\<lambda>j. j mod n = t) (x # xs)))
      = (\<Sum>t \<leftarrow> [0..<n]. (if x mod n = t then {#x#} else {#}) + mset (filter (\<lambda>j. j mod n = t) xs))"
    by (rule arg_cong [where f = sum_list]) auto
  also have "\<dots> = (\<Sum>t \<leftarrow> [0..<n]. if x mod n = t then {#x#} else {#}) + mset xs"
    by (simp only: sum_list_addf Cons)
  also have "(\<Sum>t \<leftarrow> [0..<n]. if x mod n = t then {#x#} else {#}) = {#x#}"
    using that by (simp add: sum_list_sum_nth atLeast0LessThan)
  finally show ?case by simp
qed (induction n, simp_all)

lemma mset_strides: "0 < n \<Longrightarrow> mset (concat (map (\<lambda>t. stride n t m) [0..<n])) = mset [0..<m]"
proof -
  assume n: "0 < n"
  have "stride n t m = filter (\<lambda>j. j mod n = t) [0..<m]" if "t < n" for t
    using that n by (auto simp: stride_eq intro!: filter_cong)
  then have "map (\<lambda>t. stride n t m) [0..<n] = map (\<lambda>t. filter (\<lambda>j. j mod n = t) [0..<m]) [0..<n]" by simp
  then show ?thesis using mset_filter_classes [OF n, of "[0..<m]"] by (simp only: mset_concat map_map o_def)
qed

text \<open>
  A kernel whose blocks share out the indices of the inputs in this way, and each block its work
  on an input to its threads: \<open>tw v t\<close> is what thread \<open>t\<close> of a block appends for the input \<open>v\<close>.
\<close>

definition block_emissions :: "('i \<Rightarrow> nat \<Rightarrow> 'v list) \<Rightarrow> nat \<Rightarrow> nat \<Rightarrow> 'i list \<Rightarrow> 'v list list" where
  "block_emissions tw blocks bdim inputs =
     concat (map (\<lambda>blk. map (\<lambda>t.
       concat (map (\<lambda>i. tw (inputs ! i) t) (stride blocks blk (length inputs)))) [0..<bdim]) [0..<blocks])"

definition block_work :: "('i \<Rightarrow> nat \<Rightarrow> 'v list) \<Rightarrow> nat \<Rightarrow> 'i \<Rightarrow> 'v list" where
  "block_work tw bdim v = concat (map (tw v) [0..<bdim])"

lemma mset_concat_map: "mset (concat (map f xs)) = (\<Sum>x \<in># mset xs. mset (f x))"
  by (induction xs) auto

lemma concat_concat_map: "concat (concat (map f xs)) = concat (map (\<lambda>x. concat (f x)) xs)"
  by (induction xs) simp_all

lemma sum_mset_concat_map: "(\<Sum>y \<in># mset (concat (map s xs)). f y) = (\<Sum>x \<in># mset xs. \<Sum>y \<in># mset (s x). f y)"
  by (induction xs) simp_all

lemma mset_block_emissions:
  assumes "0 < blocks"
  shows "mset (concat (block_emissions tw blocks bdim inputs)) = mset (concat (map (block_work tw bdim) inputs))"
proof -
  have "mset (concat (block_emissions tw blocks bdim inputs))
      = (\<Sum>blk \<in># mset [0..<blocks]. \<Sum>t \<in># mset [0..<bdim].
          \<Sum>i \<in># mset (stride blocks blk (length inputs)). mset (tw (inputs ! i) t))"
    by (simp only: block_emissions_def concat_concat_map mset_concat_map)
  also have "\<dots> = (\<Sum>blk \<in># mset [0..<blocks]. \<Sum>i \<in># mset (stride blocks blk (length inputs)).
      \<Sum>t \<in># mset [0..<bdim]. mset (tw (inputs ! i) t))"
    by (subst sum_mset.swap) (rule refl)
  also have "\<dots> = (\<Sum>i \<in># mset (concat (map (\<lambda>blk. stride blocks blk (length inputs)) [0..<blocks])).
      mset (block_work tw bdim (inputs ! i)))"
    by (simp only: sum_mset_concat_map block_work_def) (simp only: mset_concat_map)
  also have "\<dots> = mset (concat (map (\<lambda>i. block_work tw bdim (inputs ! i)) [0..<length inputs]))"
    by (simp only: mset_strides [OF assms]) (simp only: mset_concat_map)
  also have "map (\<lambda>i. block_work tw bdim (inputs ! i)) [0..<length inputs] = map (block_work tw bdim) inputs"
    by (rule nth_equalityI) simp_all
  finally show ?thesis .
qed

locale block_kernel =
  fixes tw :: "'i \<Rightarrow> nat \<Rightarrow> 'v list" and blocks bdim :: nat
  assumes blocks_pos: "0 < blocks"
begin

lemma outputs_of_inputs:
  assumes "launch (block_emissions tw blocks bdim inputs) b b'" and "buffer_ok b" "len b = 0"
    and "length (concat (map (block_work tw bdim) inputs)) \<le> max_len b" "max_len b < 2 ^ 32"
  shows "mset (contents b') = mset (concat (map (block_work tw bdim) inputs))"
    and "unat (len b') = length (concat (map (block_work tw bdim) inputs))"
    and "buffer_ok b'" and "max_len b' = max_len b"
proof -
  note m = mset_block_emissions [OF blocks_pos, of tw bdim inputs]
  then have l: "length (concat (block_emissions tw blocks bdim inputs)) = length (concat (map (block_work tw bdim) inputs))"
    by (metis size_mset)
  have le: "length (concat (block_emissions tw blocks bdim inputs)) \<le> max_len b" using assms(4) l by simp
  note r = launch_contents [OF assms(1-3) le assms(5)]
  show "mset (contents b') = mset (concat (map (block_work tw bdim) inputs))"
    "unat (len b') = length (concat (map (block_work tw bdim) inputs))" "buffer_ok b'" "max_len b' = max_len b"
    using r m l by simp_all
qed

lemma outputs_bounded:
  assumes "launch (block_emissions tw blocks bdim inputs) b b'" and "buffer_ok b" "len b = 0"
    and "length (concat (map (block_work tw bdim) inputs)) < 2 ^ 32"
  shows "unat (len b') = length (concat (map (block_work tw bdim) inputs))"
    and "set (contents b') \<subseteq> set (concat (map (block_work tw bdim) inputs))"
    and "length (contents b') = min (length (concat (map (block_work tw bdim) inputs))) (max_len b)"
proof -
  note m = mset_block_emissions [OF blocks_pos, of tw bdim inputs]
  have l: "length (concat (block_emissions tw blocks bdim inputs)) < 2 ^ 32" using m assms(4) by (metis size_mset)
  from launch_history [OF assms(1-3) l] obtain ys where
    ys: "mset ys = mset (concat (block_emissions tw blocks bdim inputs))"
      "unat (len b') = length ys" "contents b' = take (max_len b) ys" by blast
  have "length ys = length (concat (map (block_work tw bdim) inputs))"
    "set ys = set (concat (map (block_work tw bdim) inputs))"
    using ys(1) m by (metis size_mset, metis set_mset_mset)
  then show "unat (len b') = length (concat (map (block_work tw bdim) inputs))"
    "set (contents b') \<subseteq> set (concat (map (block_work tw bdim) inputs))"
    "length (contents b') = min (length (concat (map (block_work tw bdim) inputs))) (max_len b)"
    using ys set_take_subset [of "max_len b" ys] by auto
qed

end

text \<open>
  A kernel in which one thread of a group (a warp, or a block) appends for an input: \<open>work v\<close> is
  what is appended. It is the case of one thread per block.
\<close>

definition stride_emissions :: "('i \<Rightarrow> 'v list) \<Rightarrow> nat \<Rightarrow> 'i list \<Rightarrow> 'v list list" where
  "stride_emissions work n inputs =
     map (\<lambda>t. concat (map (\<lambda>i. work (inputs ! i)) (stride n t (length inputs)))) [0..<n]"

lemma stride_emissions_block: "stride_emissions work n inputs = block_emissions (\<lambda>v t. work v) n 1 inputs"
  by (simp add: stride_emissions_def block_emissions_def concat_map_singleton)

lemma block_work_single [simp]: "block_work (\<lambda>v t. work v) (Suc 0) = work"
  by (simp add: block_work_def fun_eq_iff)

locale stride_kernel =
  fixes work :: "'i \<Rightarrow> 'v list" and groups :: nat
  assumes groups_pos: "0 < groups"

sublocale stride_kernel \<subseteq> grp: block_kernel "\<lambda>v t. work v" groups 1
  by unfold_locales (rule groups_pos)

context stride_kernel
begin

lemma group_outputs:
  assumes "launch (stride_emissions work groups inputs) b b'" and "buffer_ok b" "len b = 0"
    and "length (concat (map work inputs)) \<le> max_len b" "max_len b < 2 ^ 32"
  shows "mset (contents b') = mset (concat (map work inputs))"
    and "unat (len b') = length (concat (map work inputs))"
    and "buffer_ok b'" and "max_len b' = max_len b"
  using grp.outputs_of_inputs [of inputs b b'] assms by (simp_all add: stride_emissions_block)

end

subsection \<open>A launch whose output buffer is its input buffer\<close>

text \<open>
  When the output buffer of a kernel has the same \<open>data\<close> pointer as its input buffer, a thread
  reads its next input from the array that the other threads are appending to. A thread has the
  indices it has still to read, the values it has still to append and the append it is in the
  middle of; \<open>work\<close> is what it appends for a value it has read. An entry is read and stored in one
  step; the device uses several accesses, so it has these runs and more.
\<close>

record 'v alias_thread =
  todo :: "nat list"
  emits :: "'v list"
  flight :: "(nat \<times> 'v) option"

inductive alias_step ::
    "('v \<Rightarrow> 'v list) \<Rightarrow> 'v alias_thread list \<times> 'v OutputBuffer \<Rightarrow>
     'v alias_thread list \<times> 'v OutputBuffer \<Rightarrow> bool" for work where
  alias_read [step_intros]:
    "i < length ts \<Longrightarrow> ts ! i = \<lparr>todo = k # ks, emits = [], flight = None\<rparr> \<Longrightarrow>
     alias_step work (ts, b) (ts[i := \<lparr>todo = ks, emits = work (data b ! k), flight = None\<rparr>], b)"
| alias_atomic_add [step_intros]:
    "i < length ts \<Longrightarrow> ts ! i = \<lparr>todo = ks, emits = v # vs, flight = None\<rparr> \<Longrightarrow>
     alias_step work (ts, b)
       (ts[i := \<lparr>todo = ks, emits = vs, flight = Some (unat (len b), v)\<rparr>], b\<lparr>len := len b + 1\<rparr>)"
| alias_store [step_intros]:
    "i < length ts \<Longrightarrow> ts ! i = \<lparr>todo = ks, emits = vs, flight = Some (k, v)\<rparr> \<Longrightarrow>
     alias_step work (ts, b)
       (ts[i := \<lparr>todo = ks, emits = vs, flight = None\<rparr>],
        if k < max_len b then b\<lparr>data := (data b)[k := v]\<rparr> else b)"

definition alias_finished :: "'v alias_thread list \<Rightarrow> bool" where
  "alias_finished ts \<longleftrightarrow> (\<forall>t \<in> set ts. t = \<lparr>todo = [], emits = [], flight = None\<rparr>)"

text \<open>A launch over the first \<open>m\<close> entries of the buffer, shared out to \<open>n\<close> threads.\<close>

definition alias_launch ::
    "('v \<Rightarrow> 'v list) \<Rightarrow> nat \<Rightarrow> nat \<Rightarrow> 'v OutputBuffer \<Rightarrow> 'v OutputBuffer \<Rightarrow> bool" where
  "alias_launch work n m b b' \<longleftrightarrow>
     (\<exists>ts. (alias_step work)\<^sup>*\<^sup>*
             (map (\<lambda>t. \<lparr>todo = stride n t m, emits = [], flight = None\<rparr>) [0..<n], b) (ts, b') \<and>
           alias_finished ts)"

text \<open>
  What survives the aliasing when a kernel only passes its inputs on: \<open>I\<close> is the set of inputs,
  and every slot below the length that is not in flight holds an input that \<open>work\<close> passes on.
\<close>

definition passed :: "('v \<Rightarrow> 'v list) \<Rightarrow> 'v set \<Rightarrow> 'v \<Rightarrow> bool" where
  "passed work I v \<longleftrightarrow> v \<in> I \<and> v \<in> set (work v)"

definition alias_thread_ok :: "('v \<Rightarrow> 'v list) \<Rightarrow> 'v set \<Rightarrow> nat \<Rightarrow> nat \<Rightarrow> 'v alias_thread \<Rightarrow> bool" where
  "alias_thread_ok work I m c t \<longleftrightarrow>
     (\<forall>k \<in> set (todo t). k < m) \<and> (\<forall>v \<in> set (emits t). passed work I v) \<and>
     (\<forall>k v. flight t = Some (k, v) \<longrightarrow> k < c \<and> passed work I v)"

definition alias_left :: "'v alias_thread list \<Rightarrow> nat" where
  "alias_left ts = (\<Sum>t \<leftarrow> ts. length (todo t) + length (emits t))"

definition alias_inv ::
    "('v \<Rightarrow> 'v list) \<Rightarrow> 'v set \<Rightarrow> nat \<Rightarrow> nat \<Rightarrow> 'v alias_thread list \<Rightarrow> 'v OutputBuffer \<Rightarrow> nat \<Rightarrow> bool" where
  "alias_inv work I m mx ts b c \<longleftrightarrow>
     unat (len b) = c \<and> mx \<le> length (data b) \<and> max_len b = mx \<and> m \<le> mx \<and>
     (\<forall>k < m. data b ! k \<in> I) \<and>
     (\<forall>i < length ts. alias_thread_ok work I m c (ts ! i)) \<and>
     c + alias_left ts \<le> m \<and>
     (\<forall>k < c. passed work I (data b ! k) \<or> (\<exists>i < length ts. \<exists>v. flight (ts ! i) = Some (k, v)))"

lemma alias_left_update:
  "i < length ts \<Longrightarrow> alias_left (ts[i := t]) + (length (todo (ts ! i)) + length (emits (ts ! i)))
     = alias_left ts + (length (todo t) + length (emits t))"
  unfolding alias_left_def by (rule sum_list_map_update)

lemma alias_inv_step:
  assumes inv: "alias_inv work I m mx ts b c" and m: "m < 2 ^ 32"
    and work: "\<And>v. work v = [] \<or> work v = [v]"
    and step: "alias_step work (ts, b) (ts', b')"
  shows "\<exists>c'. alias_inv work I m mx ts' b' c'"
  using step
proof cases
  case (alias_read i k ks)
  have t: "alias_thread_ok work I m c (ts ! i)" using inv alias_read(3) by (simp add: alias_inv_def)
  then have k: "k < m" "\<forall>k \<in> set ks. k < m" using alias_read(4) by (simp_all add: alias_thread_ok_def)
  then have "data b ! k \<in> I" using inv by (simp add: alias_inv_def)
  then have "\<forall>v \<in> set (work (data b ! k)). passed work I v" using work [of "data b ! k"] by (auto simp: passed_def)
  then have ok: "\<forall>j < length ts'. alias_thread_ok work I m c (ts' ! j)"
    using inv t k alias_read(1,3,4) by (auto simp: nth_list_update alias_inv_def alias_thread_ok_def)
  have left: "alias_left ts' \<le> alias_left ts"
    using alias_left_update [OF alias_read(3), of "\<lparr>todo = ks, emits = work (data b ! k), flight = None\<rparr>"]
      alias_read(1,4) work [of "data b ! k"] by auto
  have fl: "\<exists>i < length ts'. \<exists>v. flight (ts' ! i) = Some (j, v)"
    if "\<exists>i < length ts. \<exists>v. flight (ts ! i) = Some (j, v)" for j
    using that alias_read(1,4) by (metis alias_thread.simps(3) length_list_update nth_list_update_neq option.distinct(1))
  have "alias_inv work I m mx ts' b' c"
    using inv alias_read(2) left ok unfolding alias_inv_def by auto (metis fl)
  then show ?thesis by blast
next
  case (alias_atomic_add i ks v vs)
  have t: "alias_thread_ok work I m c (ts ! i)" using inv alias_atomic_add(3) by (simp add: alias_inv_def)
  have left: "Suc (alias_left ts') = alias_left ts"
    using alias_left_update [OF alias_atomic_add(3), of "\<lparr>todo = ks, emits = vs, flight = Some (unat (len b), v)\<rparr>"]
      alias_atomic_add(1,4) by simp
  then have l: "unat (len b + 1) = Suc c"
    using inv m by (simp add: alias_inv_def unat_word_ariths)
  have ok: "\<forall>j < length ts'. alias_thread_ok work I m (Suc c) (ts' ! j)"
    using inv t alias_atomic_add(1,3,4)
    by (auto simp: nth_list_update alias_inv_def alias_thread_ok_def less_SucI)
  have fl: "\<exists>i < length ts'. \<exists>v. flight (ts' ! i) = Some (j, v)"
    if "\<exists>i < length ts. \<exists>v. flight (ts ! i) = Some (j, v)" for j
    using that alias_atomic_add(1,4) by (metis alias_thread.simps(3) length_list_update nth_list_update_neq option.distinct(1))
  have "\<exists>i < length ts'. \<exists>v. flight (ts' ! i) = Some (c, v)"
    using inv alias_atomic_add(1,3) by (intro exI [of _ i]) (auto simp: alias_inv_def)
  then have "alias_inv work I m mx ts' b' (Suc c)"
    using inv alias_atomic_add(2) l left ok unfolding alias_inv_def by (auto simp: less_Suc_eq) (metis fl)
  then show ?thesis by blast
next
  case (alias_store i ks vs k v)
  have t: "alias_thread_ok work I m c (ts ! i)" using inv alias_store(3) by (simp add: alias_inv_def)
  have v: "passed work I v" "k < c" using t alias_store(4) by (auto simp: alias_thread_ok_def)
  have left: "alias_left ts' = alias_left ts"
    using alias_left_update [OF alias_store(3), of "\<lparr>todo = ks, emits = vs, flight = None\<rparr>"]
      alias_store(1,4) by simp
  have ok: "\<forall>j < length ts'. alias_thread_ok work I m c (ts' ! j)"
    using inv t alias_store(1,3,4) by (auto simp: nth_list_update alias_inv_def alias_thread_ok_def)
  have fl: "\<exists>i < length ts'. \<exists>v. flight (ts' ! i) = Some (j, v)"
    if "\<exists>i < length ts. \<exists>v. flight (ts ! i) = Some (j, v)" "j \<noteq> k" for j
    using that alias_store(1,4) by (metis alias_thread.simps(3) fst_conv length_list_update nth_list_update_neq option.inject)
  have k: "k < length (data b)" "k < max_len b" using v(2) inv by (auto simp: alias_inv_def)
  have "alias_inv work I m mx ts' b' c"
    using inv alias_store(2) left ok v k unfolding alias_inv_def
    by (auto simp: nth_list_update passed_def) (metis fl)
  then show ?thesis by blast
qed

lemma alias_inv_steps:
  assumes "(alias_step work)\<^sup>*\<^sup>* s s'" and "m < 2 ^ 32" "\<And>v. work v = [] \<or> work v = [v]"
    and "\<exists>c. alias_inv work I m mx (fst s) (snd s) c"
  shows "\<exists>c. alias_inv work I m mx (fst s') (snd s') c"
  using assms(1,4)
proof induction
  case (step s' s'')
  then obtain c where "alias_inv work I m mx (fst s') (snd s') c" by blast
  from alias_inv_step [OF this assms(2,3), of "fst s''" "snd s''"] step(2) show ?case by simp
qed

lemma alias_left_init:
  fixes start :: "nat \<Rightarrow> 'v alias_thread"
  assumes n: "0 < n" and start: "\<And>t. todo (start t) = stride n t m" "\<And>t. emits (start t) = []"
  shows "alias_left (map start [0..<n]) = m"
proof -
  have "alias_left (map start ts)
      = length (concat (map (\<lambda>t. stride n t m) ts))" for ts :: "nat list"
    by (induction ts) (simp_all add: alias_left_def start)
  then show ?thesis using mset_strides [OF n, of m, THEN arg_cong [where f = size]] by simp
qed

lemma alias_launch_sound:
  fixes b b' :: "'v OutputBuffer"
  assumes "alias_launch work n m b b'" and "0 < n" "m < 2 ^ 32" "buffer_ok b" "len b = 0" "m \<le> max_len b"
    and work: "\<And>v. work v = [] \<or> work v = [v]"
  shows "unat (len b') \<le> m" and "set (contents b') \<subseteq> {v \<in> set (take m (data b)). work v = [v]}"
proof -
  let ?I = "set (take m (data b))"
  let ?ts = "map (\<lambda>t. \<lparr>todo = stride n t m, emits = [], flight = None\<rparr>) [0..<n]"
  obtain ts where run: "(alias_step work)\<^sup>*\<^sup>* (?ts, b) (ts, b')" and fin: "alias_finished ts"
    using assms(1) by (auto simp: alias_launch_def)
  have todo: "k < m" if "k \<in> set (stride n t m)" for k t using that assms(2) by (auto simp: stride_eq)
  have "alias_inv work ?I m (max_len b) ?ts b 0"
    using assms(2,4,5,6) alias_left_init [OF assms(2), of "\<lambda>t. \<lparr>todo = stride n t m, emits = [], flight = None\<rparr> :: 'v alias_thread" m] todo
    by (auto simp: alias_inv_def buffer_ok_def alias_thread_ok_def in_set_conv_nth)
  then obtain c where inv: "alias_inv work ?I m (max_len b) ts b' c"
    using alias_inv_steps [OF run assms(3) work, of ?I "max_len b"] by auto
  then show l: "unat (len b') \<le> m" by (auto simp: alias_inv_def)
  have "flight (ts ! i) = None" if "i < length ts" for i
    using fin nth_mem [OF that] unfolding alias_finished_def by (metis alias_thread.select_convs(3))
  then have "passed work ?I (data b' ! k)" if "k < c" for k using inv that by (auto simp: alias_inv_def)
  moreover have "passed work ?I v \<Longrightarrow> v \<in> ?I \<and> work v = [v]" for v
    using work [of v] by (auto simp: passed_def)
  moreover have "\<exists>k < c. v = data b' ! k" if "v \<in> set (contents b')" for v
    using that inv by (auto simp: contents_def in_set_conv_nth alias_inv_def)
  ultimately show "set (contents b') \<subseteq> {v \<in> ?I. work v = [v]}" by blast
qed

text \<open>
  What does not survive: with two inputs that both pass, one schedule returns the second input
  twice and the first never.
\<close>

lemma alias_launch_loses:
  assumes "work u = [u]" "work v = [v]"
  shows "alias_launch work 2 2 \<lparr>data = [u, v], len = 0, max_len = 2\<rparr>
           \<lparr>data = [v, v], len = 2, max_len = 2\<rparr>"
proof -
  have st: "stride 2 0 2 = [0]" "stride 2 1 2 = [1]"
    by (simp_all add: stride.simps)
  let ?T = "\<lambda>ks vs f. \<lparr>todo = ks, emits = vs, flight = f\<rparr>"
  let ?B = "\<lambda>d l. \<lparr>data = d, len = l, max_len = 2\<rparr>"
  note steps = alias_step.intros
  have "(alias_step work)\<^sup>*\<^sup>* ([?T [0] [] None, ?T [1] [] None], ?B [u, v] 0) ([?T [0] [] None, ?T [] [v] None], ?B [u, v] 0)"
    using steps(1) [of 1 "[?T [0] [] None, ?T [1] [] None]" 1 "[]" work "?B [u, v] 0"] assms by simp
  also have "(alias_step work)\<^sup>*\<^sup>* \<dots> ([?T [0] [] None, ?T [] [] (Some (0, v))], ?B [u, v] 1)"
    using steps(2) [of 1 "[?T [0] [] None, ?T [] [v] None]" "[]" v "[]" work "?B [u, v] 0"] by simp
  also have "(alias_step work)\<^sup>*\<^sup>* \<dots> ([?T [0] [] None, ?T [] [] None], ?B [v, v] 1)"
    using steps(3) [of 1 "[?T [0] [] None, ?T [] [] (Some (0, v))]" "[]" "[]" 0 v work "?B [u, v] 1"] by simp
  also have "(alias_step work)\<^sup>*\<^sup>* \<dots> ([?T [] [v] None, ?T [] [] None], ?B [v, v] 1)"
    using steps(1) [of 0 "[?T [0] [] None, ?T [] [] None]" 0 "[]" work "?B [v, v] 1"] assms by simp
  also have "(alias_step work)\<^sup>*\<^sup>* \<dots> ([?T [] [] (Some (1, v)), ?T [] [] None], ?B [v, v] 2)"
    using steps(2) [of 0 "[?T [] [v] None, ?T [] [] None]" "[]" v "[]" work "?B [v, v] 1"] by simp
  also have "(alias_step work)\<^sup>*\<^sup>* \<dots> ([?T [] [] None, ?T [] [] None], ?B [v, v] 2)"
    using steps(3) [of 0 "[?T [] [] (Some (1, v)), ?T [] [] None]" "[]" "[]" 1 v work "?B [v, v] 2"] by simp
  finally show ?thesis
    unfolding alias_launch_def alias_finished_def
    by (intro exI [of _ "[?T [] [] None, ?T [] [] None]"]) (simp add: upt_rec st st(2) [simplified])
qed

subsection \<open>Properties\<close>

text \<open>
  C0. Appending is safe and complete under every interleaving: after any launch, with \<open>ys\<close> the values
  in the order of their \<open>atomicAdd\<close>, the length counts all values that the threads append, each
  appears once and those of a thread in its order, the entries of the buffer are the first \<open>max_len\<close>
  of \<open>ys\<close>, and the memory behind the buffer is not written.
\<close>

theorem append_any_interleaving:
  assumes "launch_order ems b ys b'" and "buffer_ok b" "len b = 0" and "length (concat ems) < 2 ^ 32"
  shows "mset ys = mset (concat ems) \<and> (\<forall>vs \<in> set ems. subseq vs ys) \<and> unat (len b') = length ys \<and>
    max_len b' = max_len b \<and> length (data b') = length (data b) \<and> drop (max_len b) (data b') = drop (max_len b) (data b) \<and>
    contents b' = take (max_len b) ys"
  using assms by (rule launch_order_result)

theorem append_any_interleaving_witness:
  "\<exists>ys b'. launch_order [[1, 2], [3::nat]] \<lparr>data = [0, 0, 7], len = 0, max_len = 2\<rparr> ys b' \<and>
     mset ys = {#1, 2, 3#} \<and> subseq [1, 2] ys \<and> len b' = 3 \<and> data b' = take 2 ys @ [7]"
proof -
  obtain ys b' where l: "launch_order [[1, 2], [3::nat]] \<lparr>data = [0, 0, 7], len = 0, max_len = 2\<rparr> ys b'"
    using launch_exists unfolding launch_def by blast
  from append_any_interleaving [OF l] have r: "mset ys = {#1, 2, 3#}" "subseq [1, 2] ys" "unat (len b') = length ys" "max_len b' = 2"
    "drop 2 (data b') = [7]" "contents b' = take 2 ys" by (auto simp: buffer_ok_def)
  have "length ys = 3" using arg_cong [OF r(1), of size] by simp
  then have "len b' = 3" "take 2 (data b') = take 2 ys" using r(3,4,6) by (auto simp: contents_def word_unat_eq_iff)
  then show ?thesis using l r(1,2,5) by (metis append_take_drop_id)
qed

text \<open>Every launch ends: each step lowers a measure, and an unfinished launch can always step.\<close>

lemma launch_ends:
  "(\<exists>b'. launch ems b b') \<and> (finished ts \<or> (\<exists>l s'. emit_step (ts, b) l s')) \<and>
   wfP (\<lambda>s' s :: 'v gpu_thread list \<times> 'v OutputBuffer. \<exists>l. emit_step s l s')"
proof -
  have "wfP (\<lambda>s' s :: 'v gpu_thread list \<times> 'v OutputBuffer. \<exists>l. emit_step s l s')"
    by (rule wfp_if_convertible_to_nat [where f = "\<lambda>s. launch_measure (fst s)"])
      (metis emit_step_measure prod.collapse)
  then show ?thesis using launch_exists emit_step_progress by blast
qed

text \<open>
  A kernel that filters a buffer in place (its input and its output share their memory) never
  invents or passes on anything that fails the test, under every interleaving.
\<close>

lemma in_place_filter_sound:
  assumes "alias_launch work n m b b'" and "0 < n" "m < 2 ^ 32" "buffer_ok b" "len b = 0" "m \<le> max_len b"
    and "\<And>v. work v = [] \<or> work v = [v]"
  shows "unat (len b') \<le> m \<and> set (contents b') \<subseteq> {v \<in> set (take m (data b)). work v = [v]}"
  using alias_launch_sound [OF assms] by blast

text \<open>
  C0. But filtering in place can lose an input: with two inputs that both pass, one interleaving
  returns the second twice and the first not at all.
\<close>

theorem in_place_filter_loses:
  assumes "work u = [u]" "work v = [v]"
  shows "alias_launch work 2 2 \<lparr>data = [u, v], len = 0, max_len = 2\<rparr> \<lparr>data = [v, v], len = 2, max_len = 2\<rparr>"
  using assms by (rule alias_launch_loses)

theorem in_place_filter_loses_witness:
  "alias_launch (\<lambda>v. [v]) 2 2 \<lparr>data = [1, 2::nat], len = 0, max_len = 2\<rparr> \<lparr>data = [2, 2], len = 2, max_len = 2\<rparr>"
  by (rule in_place_filter_loses) simp_all

end
