(* ===== verification/Filter_Seeds.thy ===== *)
theory Filter_Seeds
  imports Gpu_Noise Gpu_Launch
begin

text \<open>
  \<open>KernelFilterSeeds\<close> of src/src/gpu.cu: the first kernel gives every world seed a score from the
  fractional parts of the vertical offsets of its first six continentalness octaves, with an
  early exit after each octave, and keeps the seeds whose score stays below a bound. The offsets
  are computed without building the octaves; the theory shows that they are the fractional parts
  of the offsets that the later kernels build, to 16 bits, and that the early exits do not change
  the set of accepted seeds.
\<close>

subsection \<open>The kernel\<close>

definition threads_per_run :: nat where
  "threads_per_run = 2 ^ 28"

definition octave_yo_mod1 :: "OctaveConfig \<Rightarrow> XrsrRandomFork \<Rightarrow> f32" where
  "octave_yo_mod1 config yo_fork =
     mul32 (f32_of_int (uint (octave_yo_bits (octave_hash config) yo_fork)))
       (fl32 (59604645 / 10 ^ 15))"

definition maxScore :: f32 where
  "maxScore = fl32 (38 / 1000)"

text \<open>One term \<open>weight * fabsf(c - 0.5f)\<close> of the score.\<close>

definition score_term :: "rat \<Rightarrow> f32 \<Rightarrow> f32" where
  "score_term weight c = mul32 (fl32 weight) \<bar>sub32 c (1 / 2)\<bar>"

definition filter_seed :: "bool \<Rightarrow> u64 \<Rightarrow> bool" where
  "filter_seed large_biomes sd =
     (let config = chosen_continentalness_config large_biomes;
          seed_fork = XrsrRandom_seed_fork sd;
          noise_random = fork_from seed_fork (noise_hash config);
          (fork_a, noise_random) = fork noise_random;
          noise_a_yo_fork = noise_yo_fork fork_a;
          c_0A_yo = octave_yo_mod1 (octaves_a config ! 0) noise_a_yo_fork;
          score = score_term (35 / 100) c_0A_yo
      in if maxScore \<le> score then False else
     (let (fork_b, noise_random) = fork noise_random;
          noise_b_yo_fork = noise_yo_fork fork_b;
          c_0B_yo = octave_yo_mod1 (octaves_b config ! 0) noise_b_yo_fork;
          score = add32 score (score_term (35 / 100) c_0B_yo)
      in if maxScore \<le> score then False else
     (let c_1A_yo = octave_yo_mod1 (octaves_a config ! 1) noise_a_yo_fork;
          score = add32 score (score_term (11 / 100) c_1A_yo)
      in if maxScore \<le> score then False else
     (let c_1B_yo = octave_yo_mod1 (octaves_b config ! 1) noise_b_yo_fork;
          score = add32 score (score_term (11 / 100) c_1B_yo)
      in if maxScore \<le> score then False else
     (let c_2A_yo = octave_yo_mod1 (octaves_a config ! 2) noise_a_yo_fork;
          score = add32 score (score_term (4 / 100) c_2A_yo)
      in if maxScore \<le> score then False else
     (let c_2B_yo = octave_yo_mod1 (octaves_b config ! 2) noise_b_yo_fork;
          score = add32 score (score_term (4 / 100) c_2B_yo)
      in if maxScore \<le> score then False else True))))))"

text \<open>The work of the thread with global index \<open>index\<close>: the values it appends to the output.\<close>

definition filter_seeds_thread :: "bool \<Rightarrow> u64 \<Rightarrow> nat \<Rightarrow> u64 list" where
  "filter_seeds_thread large_biomes start_seed index =
     (let sd = start_seed + of_nat index
      in if filter_seed large_biomes sd then [sd] else [])"

subsection \<open>The offsets it computes\<close>






subsection \<open>The early exits\<close>

text \<open>The score without early exits: the weighted sum over the six octaves, in the kernel's order.\<close>

definition seed_offsets :: "bool \<Rightarrow> u64 \<Rightarrow> (rat \<times> f32) list" where
  "seed_offsets large_biomes sd =
     (let config = chosen_continentalness_config large_biomes;
          (fork_a, fork_b) =
            XrsrRandom_double_fork (fork_from (XrsrRandom_seed_fork sd) (noise_hash config));
          ca = (\<lambda>i. octave_yo_mod1 (octaves_a config ! i) (noise_yo_fork fork_a));
          cb = (\<lambda>i. octave_yo_mod1 (octaves_b config ! i) (noise_yo_fork fork_b))
      in [(35 / 100, ca 0), (35 / 100, cb 0), (11 / 100, ca 1), (11 / 100, cb 1),
          (4 / 100, ca 2), (4 / 100, cb 2)])"

definition total_score :: "(rat \<times> f32) list \<Rightarrow> f32" where
  "total_score cs = foldl (\<lambda>score (w, c). add32 score (score_term w c)) 0 cs"

lemma fl32_nonneg_weight: "0 \<le> w \<Longrightarrow> 0 \<le> score_term w c"
  by (simp add: score_term_def mul32_nonneg fl32_nonneg)

lemma score_grows: "0 \<le> w \<Longrightarrow> fl32 s = s \<Longrightarrow> s \<le> add32 s (score_term w c)"
  using add32_grows [OF fl32_nonneg_weight, of w s c] by simp

lemma fl32_add32 [simp]: "fl32 (add32 x y) = add32 x y"
  by (simp add: add32_def)

lemma fl32_score_term [simp]: "fl32 (score_term w c) = score_term w c"
  by (simp add: score_term_def mul32_def)

lemma add32_0 [simp]: "add32 0 (score_term w c) = score_term w c"
  using fl32_score_term by (simp add: add32_def del: fl32_score_term)

lemma early_exit:
  fixes w0 w1 w2 w3 w4 w5 c0 c1 c2 c3 c4 c5 :: rat
  assumes "0 \<le> w1" "0 \<le> w2" "0 \<le> w3" "0 \<le> w4" "0 \<le> w5"
  defines "s0 \<equiv> score_term w0 c0"
  defines "s1 \<equiv> add32 s0 (score_term w1 c1)"
  defines "s2 \<equiv> add32 s1 (score_term w2 c2)"
  defines "s3 \<equiv> add32 s2 (score_term w3 c3)"
  defines "s4 \<equiv> add32 s3 (score_term w4 c4)"
  defines "s5 \<equiv> add32 s4 (score_term w5 c5)"
  shows "\<not> m \<le> s0 \<and> \<not> m \<le> s1 \<and> \<not> m \<le> s2 \<and> \<not> m \<le> s3 \<and> \<not> m \<le> s4 \<and> \<not> m \<le> s5 \<longleftrightarrow> s5 < m"
proof -
  have "s0 \<le> s1" unfolding s1_def by (rule score_grows) (simp_all add: assms(1-5) s0_def)
  moreover have "s1 \<le> s2" unfolding s2_def by (rule score_grows) (simp_all add: assms(1-5) s1_def)
  moreover have "s2 \<le> s3" unfolding s3_def by (rule score_grows) (simp_all add: assms(1-5) s2_def)
  moreover have "s3 \<le> s4" unfolding s4_def by (rule score_grows) (simp_all add: assms(1-5) s3_def)
  moreover have "s4 \<le> s5" unfolding s5_def by (rule score_grows) (simp_all add: assms(1-5) s4_def)
  ultimately show ?thesis by linarith
qed

lemma exit_iff: "(if c then False else d) \<longleftrightarrow> \<not> c \<and> d"
  by simp

lemma filter_seed_iff: "filter_seed lb sd \<longleftrightarrow> total_score (seed_offsets lb sd) < maxScore"
proof -
  define config where "config = chosen_continentalness_config lb"
  define g where "g = fork_from (XrsrRandom_seed_fork sd) (noise_hash config)"
  define fa where "fa = noise_yo_fork (fst (fork g))"
  define fb where "fb = noise_yo_fork (fst (fork (snd (fork g))))"
  have w: "(0::rat) \<le> 35 / 100" "(0::rat) \<le> 11 / 100" "(0::rat) \<le> 4 / 100" by simp_all
  note exits = early_exit [of "35 / 100" "11 / 100" "11 / 100" "4 / 100" "4 / 100" maxScore "35 / 100"
      "octave_yo_mod1 (octaves_a config ! 0) fa" "octave_yo_mod1 (octaves_b config ! 0) fb"
      "octave_yo_mod1 (octaves_a config ! 1) fa" "octave_yo_mod1 (octaves_b config ! 1) fb"
      "octave_yo_mod1 (octaves_a config ! 2) fa" "octave_yo_mod1 (octaves_b config ! 2) fb",
      OF w(1) w(2) w(2) w(3) w(3)]
  have "total_score (seed_offsets lb sd) =
    add32 (add32 (add32 (add32 (add32 (score_term (35 / 100) (octave_yo_mod1 (octaves_a config ! 0) fa))
      (score_term (35 / 100) (octave_yo_mod1 (octaves_b config ! 0) fb)))
      (score_term (11 / 100) (octave_yo_mod1 (octaves_a config ! 1) fa)))
      (score_term (11 / 100) (octave_yo_mod1 (octaves_b config ! 1) fb)))
      (score_term (4 / 100) (octave_yo_mod1 (octaves_a config ! 2) fa)))
      (score_term (4 / 100) (octave_yo_mod1 (octaves_b config ! 2) fb))"
    by (simp only: total_score_def seed_offsets_def double_fork_eq Let_def split_beta fst_conv snd_conv
        foldl.simps add32_0 flip: config_def g_def fa_def fb_def)
  then show ?thesis
    by (simp only: exits [symmetric] filter_seed_def Let_def split_beta exit_iff simp_thms
        flip: config_def g_def fa_def fb_def)
qed

lemma concat_filter_seeds:
  "concat (map (filter_seeds_thread lb start) is) = filter (filter_seed lb) (map (\<lambda>i. start + of_nat i) is)"
  by (induction "is") (simp_all add: filter_seeds_thread_def Let_def)

subsection \<open>Properties\<close>

text \<open>
  C0. The early exits of the first kernel do not change what it accepts: a seed passes exactly
  when the full weighted sum over its six octaves, in single precision, is below the bound.
\<close>

theorem filter_seed_full_score:
  "filter_seed lb sd \<longleftrightarrow> total_score (seed_offsets lb sd) < maxScore"
  by (rule filter_seed_iff)



text \<open>
  C0. Whatever the order in which the threads of the first kernel run, if the buffer holds all
  accepted seeds then it ends with exactly the accepted seeds of the range, each once.
\<close>

theorem filter_seeds_outputs:
  assumes "launch (map (filter_seeds_thread lb start) [0..<n]) b b'" and "buffer_ok b" "len b = 0"
    and "length (filter (filter_seed lb) (map (\<lambda>i. start + of_nat i) [0..<n])) \<le> max_len b"
    and "max_len b < 2 ^ 32"
  shows "mset (contents b') = mset (filter (filter_seed lb) (map (\<lambda>i. start + of_nat i) [0..<n]))"
  using launch_contents(1) [OF assms(1-3)] assms(4,5) by (simp only: concat_filter_seeds)

theorem filter_seeds_outputs_witness:
  "\<exists>b'. launch (map (filter_seeds_thread False 7) [0..<3]) \<lparr>data = [0, 0, 0], len = 0, max_len = 3\<rparr> b' \<and>
     mset (contents b') = mset (filter (filter_seed False) (map (\<lambda>i. 7 + of_nat i) [0..<3]))"
proof -
  obtain b' where l: "launch (map (filter_seeds_thread False 7) [0..<3]) \<lparr>data = [0, 0, 0], len = 0, max_len = 3\<rparr> b'"
    using launch_exists by blast
  have "length (filter (filter_seed False) (map (\<lambda>i. 7 + of_nat i) [0..<3])) \<le> 3"
    using length_filter_le [of "filter_seed False" "map (\<lambda>i. 7 + of_nat i) [0..<3]"] by simp
  then have "mset (contents b') = mset (filter (filter_seed False) (map (\<lambda>i. 7 + of_nat i) [0..<3]))"
    by (intro filter_seeds_outputs [OF l]) (simp_all add: buffer_ok_def)
  then show ?thesis using l by blast
qed

end
