(* ===== verification/Gpu_GradVecs.thy ===== *)
theory Gpu_GradVecs
  imports Gpu_Noise Gpu_Launch
begin

text \<open>
  \<open>KernelFilterGradVecs1\<close> and \<open>KernelFilterGradVecs2\<close> of src/src/gpu.cu: they score a position by
  a convolution of the gradient indices around it with a precomputed kernel. The convolution
  kernels (the arrays of src/src/kernel_0A.h and kernel_0B.h, as \<open>init_conv_kernels\<close> lays them
  out) are an argument \<open>kern\<close>. The first kernel slides a window of packed bytes along the x axis;
  it is shown to compute the plain definition, for any content of the bytes it never sets.
\<close>

subsection \<open>Shared definitions\<close>

record SeedPos =
  seed_index :: nat
  pos_x :: int
  pos_z :: int

definition large_biomes_pos_mul :: "bool \<Rightarrow> int" where
  "large_biomes_pos_mul large_biomes = (if large_biomes then 4 else 1)"

text \<open>\<open>init_conv_kernels\<close> moves the innermost index: from \<open>[dny][dnx][dnz][p]\<close> to \<open>[dnx][dnz][p][dny]\<close>.\<close>

type_synonym conv_kernel = "nat \<Rightarrow> nat \<Rightarrow> nat \<Rightarrow> nat \<Rightarrow> f32"

definition init_conv_kernels :: "conv_kernel \<Rightarrow> conv_kernel" where
  "init_conv_kernels host = (\<lambda>dnx dnz pv dny. host dny dnx dnz pv)"

definition kGradVecs1PrefilterThreshold :: f32 where "kGradVecs1PrefilterThreshold = - 12"
definition kGradVecs1FinalThreshold :: f32 where "kGradVecs1FinalThreshold = - 37 / 2"
definition kGradVecs2PrefilterThreshold :: f32 where "kGradVecs2PrefilterThreshold = - 27 / 2"
definition kGradVecs2FinalThreshold :: f32 where "kGradVecs2FinalThreshold = - 20"

text \<open>One entry \<open>conv_z[V][dnx]\<close>, and the table of 512 rows: every row is stored twice.\<close>

definition conv_entry :: "conv_kernel \<Rightarrow> ImprovedNoise \<Rightarrow> nat \<Rightarrow> nat \<Rightarrow> nat \<Rightarrow> f32" where
  "conv_entry kern noise dny V dnx =
     (let p_z = map (\<lambda>dnz. unat (perm_at noise (int (V + dnz)) AND 0xF)) [0..<6]
      in foldl (\<lambda>conv dnz. add32 conv (kern dnx dnz (p_z ! dnz) dny)) 0 [0..<6])"

definition conv_table :: "conv_kernel \<Rightarrow> ImprovedNoise \<Rightarrow> nat \<Rightarrow> f32 list list" where
  "conv_table kern noise dny =
     (let rows = map (\<lambda>V. map (conv_entry kern noise dny V) [0..<6]) [0..<256] in rows @ rows)"

definition score_center_2x2 :: "f32 list list \<Rightarrow> f32 list list \<Rightarrow> nat list \<Rightarrow> nat list \<Rightarrow> f32" where
  "score_center_2x2 conv_z0 conv_z1 idx0 idx1 =
     add32 (add32 (add32 (conv_z0 ! (idx0 ! 2) ! 2) (conv_z0 ! (idx0 ! 3) ! 3))
       (conv_z1 ! (idx1 ! 2) ! 2)) (conv_z1 ! (idx1 ! 3) ! 3)"

definition score_full_12 :: "f32 list list \<Rightarrow> f32 list list \<Rightarrow> nat list \<Rightarrow> nat list \<Rightarrow> f32" where
  "score_full_12 conv_z0 conv_z1 idx0 idx1 =
     foldl (\<lambda>score i. add32 (add32 score (conv_z0 ! (idx0 ! i) ! i)) (conv_z1 ! (idx1 ! i) ! i)) 0 [0..<6]"

subsection \<open>KernelFilterGradVecs1\<close>

text \<open>The row \<open>idx_xy[dny]\<close> in shared memory: 256 entries, the first 6 again, 10 bytes never set.\<close>

definition idx_xy_row :: "ImprovedNoise \<Rightarrow> int \<Rightarrow> u8 list \<Rightarrow> nat \<Rightarrow> u8 list" where
  "idx_xy_row noise ny junk dny =
     (let row = map (\<lambda>nz. perm_at noise (uint (perm noise ! nz) + ny + int dny)) [0..<256]
      in row @ take 6 row @ junk)"

definition uchar4_at :: "u8 list \<Rightarrow> nat \<Rightarrow> u8 list" where
  "uchar4_at row i = [row ! i, row ! (i + 1), row ! (i + 2), row ! (i + 3)]"

text \<open>The 13 indices \<open>w[j]\<close> of one iteration, from the four packed registers.\<close>

definition window :: "nat \<Rightarrow> u8 list \<Rightarrow> u8 list \<Rightarrow> u8 list \<Rightarrow> u8 list \<Rightarrow> nat list" where
  "window nz c_0 c_1 c_2 c_3 =
     map (\<lambda>b. unat b + nz) (c_0 @ c_1 @ c_2 @ [c_3 ! 0])"

definition gradvecs_hit ::
    "f32 \<Rightarrow> f32 \<Rightarrow> f32 list list \<Rightarrow> f32 list list \<Rightarrow> nat list \<Rightarrow> nat list \<Rightarrow> bool" where
  "gradvecs_hit prefilter final conv_z0 conv_z1 idx0 idx1 \<longleftrightarrow>
     prefilter \<le> score_center_2x2 conv_z0 conv_z1 idx0 idx1 \<and>
     final < score_full_12 conv_z0 conv_z1 idx0 idx1"

fun gradvecs1_loop ::
    "nat \<Rightarrow> f32 list list \<Rightarrow> f32 list list \<Rightarrow> u8 list \<Rightarrow> u8 list \<Rightarrow> nat \<Rightarrow> int \<Rightarrow> int \<Rightarrow> nat \<Rightarrow> int \<Rightarrow> nat \<Rightarrow>
     u8 list \<Rightarrow> u8 list \<Rightarrow> u8 list \<Rightarrow> u8 list \<Rightarrow> SeedPos list" where
  "gradvecs1_loop 0 z0 z1 row0 row1 si cell z nz x nx c0_0 c0_1 c1_0 c1_1 = []"
| "gradvecs1_loop (Suc left) z0 z1 row0 row1 si cell z nz x nx c0_0 c0_1 c1_0 c1_1 =
     (let c0_2 = uchar4_at row0 (nx + 8); c0_3 = uchar4_at row0 (nx + 12);
          c1_2 = uchar4_at row1 (nx + 8); c1_3 = uchar4_at row1 (nx + 12);
          w0 = window nz c0_0 c0_1 c0_2 c0_3;
          w1 = window nz c1_0 c1_1 c1_2 c1_3;
          hits = concat (map (\<lambda>candidate.
            let cw0 = drop candidate w0; cw1 = drop candidate w1
            in if gradvecs_hit kGradVecs1PrefilterThreshold kGradVecs1FinalThreshold z0 z1 cw0 cw1
               then [\<lparr>seed_index = si, pos_x = x + int candidate * cell, pos_z = z\<rparr>] else []) [0..<8])
      in hits @ gradvecs1_loop left z0 z1 row0 row1 si cell z nz (x + 8 * cell) (nx + 8) c0_2 c0_3 c1_2 c1_3)"

text \<open>The work of thread \<open>nz\<close> of the block that handles seed \<open>si\<close>.\<close>

definition gradvecs1_thread ::
    "bool \<Rightarrow> conv_kernel \<Rightarrow> u8 list \<Rightarrow> ImprovedNoise \<Rightarrow> nat \<Rightarrow> nat \<Rightarrow> SeedPos list" where
  "gradvecs1_thread large_biomes kern junk oct_0A si nz =
     (let conv_z0 = conv_table kern oct_0A 0;
          conv_z1 = conv_table kern oct_0A 1;
          cell_size = 512 * large_biomes_pos_mul large_biomes;
          x_center = trunc_i32 (mul32 (sub32 (5 / 2) (xo oct_0A)) (f32_of_int cell_size));
          ny = trunc_i32 (yo oct_0A);
          z_center = trunc_i32 (mul32 (sub32 (5 / 2) (zo oct_0A)) (f32_of_int cell_size));
          row0 = idx_xy_row oct_0A ny junk 0;
          row1 = idx_xy_row oct_0A ny junk 1;
          z = z_center + int nz * cell_size
      in gradvecs1_loop 32 conv_z0 conv_z1 row0 row1 si cell_size z nz x_center 0
           (uchar4_at row0 0) (uchar4_at row0 4) (uchar4_at row1 0) (uchar4_at row1 4))"

text \<open>The launch: 2048 blocks of 256 threads over the seeds that passed the first kernel.\<close>

definition gradvecs1_tw ::
    "bool \<Rightarrow> conv_kernel \<Rightarrow> u8 list \<Rightarrow> (nat \<Rightarrow> ImprovedNoise) \<Rightarrow> nat \<Rightarrow> nat \<Rightarrow> SeedPos list" where
  "gradvecs1_tw large_biomes kern junk octs_0A si nz =
     gradvecs1_thread large_biomes kern junk (octs_0A si) si nz"

definition gradvecs1_run ::
    "bool \<Rightarrow> conv_kernel \<Rightarrow> u8 list \<Rightarrow> (nat \<Rightarrow> ImprovedNoise) \<Rightarrow> nat \<Rightarrow> SeedPos list list" where
  "gradvecs1_run large_biomes kern junk octs_0A seeds_len =
     block_emissions (gradvecs1_tw large_biomes kern junk octs_0A) 2048 256 [0..<seeds_len]"

subsection \<open>KernelFilterGradVecs2\<close>

definition grid_width :: "bool \<Rightarrow> bool \<Rightarrow> nat" where
  "grid_width unbound large_biomes = (if unbound then 331 else if large_biomes then 29 else 115)"

definition gradvecs2_tile ::
    "bool \<Rightarrow> bool \<Rightarrow> conv_kernel \<Rightarrow> ImprovedNoise \<Rightarrow> SeedPos \<Rightarrow> nat \<Rightarrow> nat \<Rightarrow> SeedPos list" where
  "gradvecs2_tile unbound large_biomes kern oct_0B input tx tz =
     (let config = chosen_continentalness_config large_biomes;
          conv_z0 = conv_table kern oct_0B 0;
          conv_z1 = conv_table kern oct_0B 1;
          cell_size_0A = trunc_i32 (div64 1 (input_factor (octaves_a config ! 0))) * 256;
          input_factor_b = fl32 (input_factor (octaves_b config ! 0));
          grid_half = int (grid_width unbound large_biomes div 2);
          ny = trunc_i32 (yo oct_0B);
          x = pos_x input + (int tx - grid_half) * cell_size_0A;
          nx = float2int_rd (sub32 (add32 (mul32 (f32_of_int x) input_factor_b) (xo oct_0B)) 2);
          hoisted = (\<lambda>dny. map (\<lambda>dnx.
            unat (perm_at oct_0B (uint (perm_at oct_0B (nx + int dnx)) + ny + int dny))) [0..<6]);
          z = pos_z input + (int tz - grid_half) * cell_size_0A;
          nz = float2int_rd (sub32 (add32 (mul32 (f32_of_int z) input_factor_b) (zo oct_0B)) 2);
          nz_masked = nat (nz mod 256);
          idx0 = map (\<lambda>i. i + nz_masked) (hoisted 0);
          idx1 = map (\<lambda>i. i + nz_masked) (hoisted 1)
      in if gradvecs_hit kGradVecs2PrefilterThreshold kGradVecs2FinalThreshold conv_z0 conv_z1 idx0 idx1
         then [\<lparr>seed_index = seed_index input, pos_x = x, pos_z = z\<rparr>] else [])"

text \<open>A thread handles all columns \<open>tx\<close> and the rows \<open>tz\<close> that are its share of 128.\<close>

definition gradvecs2_tw ::
    "bool \<Rightarrow> bool \<Rightarrow> conv_kernel \<Rightarrow> (nat \<Rightarrow> ImprovedNoise) \<Rightarrow> SeedPos \<Rightarrow> nat \<Rightarrow> SeedPos list" where
  "gradvecs2_tw unbound large_biomes kern octs_0B input t =
     (let w = grid_width unbound large_biomes
      in concat (map (\<lambda>tx. concat (map
           (gradvecs2_tile unbound large_biomes kern (octs_0B (seed_index input)) input tx)
           (stride 128 t w))) [0..<w]))"

definition gradvecs2_run ::
    "bool \<Rightarrow> bool \<Rightarrow> conv_kernel \<Rightarrow> (nat \<Rightarrow> ImprovedNoise) \<Rightarrow> SeedPos list \<Rightarrow> SeedPos list list" where
  "gradvecs2_run unbound large_biomes kern octs_0B inputs =
     block_emissions (gradvecs2_tw unbound large_biomes kern octs_0B) 2048 128 inputs"

subsection \<open>The sliding window computes the plain score\<close>

text \<open>The six table rows that position \<open>(nx, nz)\<close> reads.\<close>

definition plain_idx :: "ImprovedNoise \<Rightarrow> int \<Rightarrow> nat \<Rightarrow> nat \<Rightarrow> nat \<Rightarrow> nat list" where
  "plain_idx noise ny nx nz dny =
     map (\<lambda>i. unat (perm_at noise (uint (perm_at noise (int (nx + i))) + ny + int dny)) + nz) [0..<6]"

definition gradvecs1_plain :: "bool \<Rightarrow> conv_kernel \<Rightarrow> ImprovedNoise \<Rightarrow> nat \<Rightarrow> nat \<Rightarrow> SeedPos list" where
  "gradvecs1_plain large_biomes kern noise si nz =
     (let cell = 512 * large_biomes_pos_mul large_biomes;
          centre = (\<lambda>off. trunc_i32 (mul32 (sub32 (5 / 2) off) (f32_of_int cell)));
          ny = trunc_i32 (yo noise)
      in concat (map (\<lambda>nx.
           if gradvecs_hit kGradVecs1PrefilterThreshold kGradVecs1FinalThreshold
                (conv_table kern noise 0) (conv_table kern noise 1)
                (plain_idx noise ny nx nz 0) (plain_idx noise ny nx nz 1)
           then [\<lparr>seed_index = si, pos_x = centre (xo noise) + int nx * cell,
                  pos_z = centre (zo noise) + int nz * cell\<rparr>]
           else []) [0..<256]))"

lemma gradvecs_hit_cong:
  assumes "\<And>i. i < 6 \<Longrightarrow> idx0 ! i = idx0' ! i" "\<And>i. i < 6 \<Longrightarrow> idx1 ! i = idx1' ! i"
  shows "gradvecs_hit a b z0 z1 idx0 idx1 = gradvecs_hit a b z0 z1 idx0' idx1'"
proof -
  have "score_full_12 z0 z1 idx0 idx1 = score_full_12 z0 z1 idx0' idx1'"
    unfolding score_full_12_def by (rule foldl_cong) (simp_all add: assms)
  then show ?thesis by (simp add: gradvecs_hit_def score_center_2x2_def assms)
qed

lemma window_eq:
  "window nz (uchar4_at row nx) (uchar4_at row (nx + 4)) (uchar4_at row (nx + 8)) (uchar4_at row (nx + 12))
     = map (\<lambda>j. unat (row ! (nx + j)) + nz) [0..<13]"
  by (simp add: window_def uchar4_at_def upt_rec numeral_eq_Suc)

text \<open>The test and the output for the position \<open>k\<close> steps after \<open>nx\<close>.\<close>

definition gradvecs1_at ::
    "f32 list list \<Rightarrow> f32 list list \<Rightarrow> u8 list \<Rightarrow> u8 list \<Rightarrow> nat \<Rightarrow> int \<Rightarrow> int \<Rightarrow> nat \<Rightarrow> int \<Rightarrow> nat \<Rightarrow> nat \<Rightarrow> SeedPos list" where
  "gradvecs1_at z0 z1 row0 row1 si cell z nz x nx k =
     (if gradvecs_hit kGradVecs1PrefilterThreshold kGradVecs1FinalThreshold z0 z1
           (map (\<lambda>i. unat (row0 ! (nx + k + i)) + nz) [0..<6])
           (map (\<lambda>i. unat (row1 ! (nx + k + i)) + nz) [0..<6])
      then [\<lparr>seed_index = si, pos_x = x + int k * cell, pos_z = z\<rparr>] else [])"

lemma gradvecs1_candidate:
  assumes "c < 8"
  shows "(if gradvecs_hit kGradVecs1PrefilterThreshold kGradVecs1FinalThreshold z0 z1
       (drop c (map (\<lambda>j. unat (row0 ! (nx + j)) + nz) [0..<13]))
       (drop c (map (\<lambda>j. unat (row1 ! (nx + j)) + nz) [0..<13]))
       then [\<lparr>seed_index = si, pos_x = x + int c * cell, pos_z = z\<rparr>] else [])
     = gradvecs1_at z0 z1 row0 row1 si cell z nz x nx c"
proof -
  have "gradvecs_hit a b z0 z1 (drop c (map (\<lambda>j. unat (row0 ! (nx + j)) + nz) [0..<13]))
       (drop c (map (\<lambda>j. unat (row1 ! (nx + j)) + nz) [0..<13]))
      = gradvecs_hit a b z0 z1 (map (\<lambda>i. unat (row0 ! (nx + c + i)) + nz) [0..<6])
            (map (\<lambda>i. unat (row1 ! (nx + c + i)) + nz) [0..<6])" for a b
    using assms by (intro gradvecs_hit_cong) (simp_all add: add.assoc)
  then show ?thesis by (simp add: gradvecs1_at_def)
qed

lemma gradvecs1_at_shift:
  "gradvecs1_at z0 z1 row0 row1 si cell z nz (x + 8 * cell) (nx + 8) k
     = gradvecs1_at z0 z1 row0 row1 si cell z nz x nx (k + 8)"
proof -
  have "nx + 8 + k + i = nx + (k + 8) + i" for i by simp
  moreover have "x + 8 * cell + int k * cell = x + int (k + 8) * cell" by (simp add: distrib_right)
  ultimately show ?thesis by (simp only: gradvecs1_at_def)
qed

lemma gradvecs1_loop_eq:
  "gradvecs1_loop left z0 z1 row0 row1 si cell z nz x nx
     (uchar4_at row0 nx) (uchar4_at row0 (nx + 4)) (uchar4_at row1 nx) (uchar4_at row1 (nx + 4))
   = concat (map (gradvecs1_at z0 z1 row0 row1 si cell z nz x nx) [0..<8 * left])"
proof (induction left arbitrary: x nx)
  case (Suc left)
  let ?at = "gradvecs1_at z0 z1 row0 row1 si cell z nz"
  have "map (\<lambda>c. if gradvecs_hit kGradVecs1PrefilterThreshold kGradVecs1FinalThreshold z0 z1
       (drop c (map (\<lambda>j. unat (row0 ! (nx + j)) + nz) [0..<13]))
       (drop c (map (\<lambda>j. unat (row1 ! (nx + j)) + nz) [0..<13]))
       then [\<lparr>seed_index = si, pos_x = x + int c * cell, pos_z = z\<rparr>] else []) [0..<8]
     = map (?at x nx) [0..<8]"
    by (rule map_cong [OF refl], rule gradvecs1_candidate) simp
  moreover have "[8..<8 * Suc left] = map (\<lambda>k. k + 8) [0..<8 * left]" by (simp add: map_add_upt add.commute)
  then have "map (?at (x + 8 * cell) (nx + 8)) [0..<8 * left] = map (?at x nx) [8..<8 * Suc left]"
    using gradvecs1_at_shift by (simp only: map_map o_def) (intro map_cong, simp_all)
  moreover have "[0..<8 * Suc left] = [0..<8] @ [8..<8 * Suc left]"
    using upt_add_eq_append [of 0 8 "8 * left"] by simp
  moreover have "uchar4_at r (nx + 8 + 4) = uchar4_at r (nx + 12)" for r by (simp add: add.assoc)
  ultimately show ?case
    using Suc.IH [of "x + 8 * cell" "nx + 8"]
    by (simp only: gradvecs1_loop.simps window_eq Let_def map_append concat_append)
qed simp

lemma idx_xy_row_nth:
  assumes "j < 262" "length (perm noise) = 256"
  shows "idx_xy_row noise ny junk dny ! j = perm_at noise (uint (perm_at noise (int j)) + ny + int dny)"
proof -
  have "perm_at noise (int j) = perm noise ! (if j < 256 then j else j - 256)"
  proof (cases "j < 256")
    case False
    then obtain k where "j = k + 256" "k < 256" using assms(1) by (intro that [of "j - 256"]) simp_all
    then have "int j mod 256 = int (j - 256)" by simp
    then show ?thesis using False by (simp only: perm_at_def nat_int if_False)
  qed (simp add: perm_at_def)
  moreover have "\<not> j < 256 \<Longrightarrow> j - 256 < 6" using assms(1) by auto
  ultimately show ?thesis
    by (cases "j < 256") (simp_all add: idx_xy_row_def Let_def nth_append take_map)
qed

lemma gradvecs1_thread_eq:
  assumes "length (perm noise) = 256"
  shows "gradvecs1_thread lb kern junk noise si nz = gradvecs1_plain lb kern noise si nz"
proof -
  have "map (\<lambda>i. unat (idx_xy_row noise ny junk dny ! (0 + k + i)) + nz) [0..<6] = plain_idx noise ny k nz dny"
    if "k < 256" for k ny dny
    unfolding plain_idx_def using that by (intro map_cong) (simp_all add: idx_xy_row_nth assms)
  then show ?thesis
    unfolding gradvecs1_thread_def gradvecs1_plain_def Let_def
    using gradvecs1_loop_eq [where nx = 0 and left = 32]
    by (auto intro!: arg_cong [where f = concat] map_cong simp: gradvecs1_at_def)
qed

subsection \<open>Table accesses are in range\<close>

lemma length_conv_table [simp]: "length (conv_table kern noise dny) = 512"
  by (simp add: conv_table_def Let_def)

lemma conv_table_nth:
  "j < 512 \<Longrightarrow> conv_table kern noise dny ! j = map (conv_entry kern noise dny (j mod 256)) [0..<6]"
proof -
  assume j: "j < 512"
  show ?thesis
  proof (cases "j < 256")
    case False
    then obtain k where "j = k + 256" "k < 256" using j by (intro that [of "j - 256"]) simp_all
    then show ?thesis by (simp add: conv_table_def Let_def nth_append)
  qed (simp add: conv_table_def Let_def nth_append)
qed

lemma byte_plus_less: "nz < 256 \<Longrightarrow> unat (b::u8) + nz < 511"
  using unat_less [of b] by simp

lemma plain_idx_bound: "nz < 256 \<Longrightarrow> j \<in> set (plain_idx noise ny nx nz dny) \<Longrightarrow> j < 511"
  unfolding plain_idx_def by (auto intro: byte_plus_less)

subsection \<open>Both kernels are launches of blocks\<close>

interpretation gradvecs1: block_kernel "gradvecs1_tw lb kern junk octs" 2048 256
  for lb kern junk octs
  by unfold_locales simp

interpretation gradvecs2: block_kernel "gradvecs2_tw unbound lb kern octs" 2048 128
  for unbound lb kern octs
  by unfold_locales simp

text \<open>What the first kernel appends for a seed, over all threads of its block.\<close>

lemma gradvecs1_block:
  assumes "length (perm (octs si)) = 256"
  shows "block_work (gradvecs1_tw lb kern junk octs) 256 si = concat (map (gradvecs1_plain lb kern (octs si) si) [0..<256])"
proof -
  have "gradvecs1_tw lb kern junk octs si = gradvecs1_plain lb kern (octs si) si"
    using gradvecs1_thread_eq [OF assms] by (simp add: fun_eq_iff gradvecs1_tw_def)
  then show ?thesis by (simp add: block_work_def)
qed

text \<open>
  What the second kernel appends for an input, up to order: every tile of the square around it
  once, whichever thread handles it.
\<close>

lemma gradvecs2_block:
  "mset (block_work (gradvecs2_tw unbound lb kern octs) 128 input)
     = (\<Sum>tx \<in># mset [0..<grid_width unbound lb]. \<Sum>tz \<in># mset [0..<grid_width unbound lb].
          mset (gradvecs2_tile unbound lb kern (octs (seed_index input)) input tx tz))"
proof -
  let ?w = "grid_width unbound lb"
  let ?tile = "\<lambda>tx tz. mset (gradvecs2_tile unbound lb kern (octs (seed_index input)) input tx tz)"
  have "mset (block_work (gradvecs2_tw unbound lb kern octs) 128 input)
      = (\<Sum>t \<in># mset [0..<128]. \<Sum>tx \<in># mset [0..<?w]. \<Sum>tz \<in># mset (stride 128 t ?w). ?tile tx tz)"
    by (simp only: block_work_def gradvecs2_tw_def Let_def mset_concat_map)
  also have "\<dots> = (\<Sum>tx \<in># mset [0..<?w]. \<Sum>t \<in># mset [0..<128]. \<Sum>tz \<in># mset (stride 128 t ?w). ?tile tx tz)"
    by (rule sum_mset.swap)
  also have "\<dots> = (\<Sum>tx \<in># mset [0..<?w]. \<Sum>tz \<in># mset (concat (map (\<lambda>t. stride 128 t ?w) [0..<128])). ?tile tx tz)"
    by (simp only: sum_mset_concat_map)
  finally show ?thesis using mset_strides [of 128 ?w] by (simp only: zero_less_numeral simp_thms)
qed

subsection \<open>Properties\<close>

text \<open>
  C34. The sliding window of packed bytes in \<open>KernelFilterGradVecs1\<close> computes the plain scan of the
  256 positions of a row, whatever the ten bytes of shared memory that it never sets contain.
\<close>

theorem gradvecs1_window_correct:
  assumes "length (perm noise) = 256"
  shows "gradvecs1_thread lb kern junk noise si nz = gradvecs1_plain lb kern noise si nz"
  using assms by (rule gradvecs1_thread_eq)

theorem gradvecs1_window_correct_witness:
  "gradvecs1_thread False (\<lambda>a b c d. 0) [] plain_noise 0 3 = gradvecs1_plain False (\<lambda>a b c d. 0) plain_noise 0 3"
  by (rule gradvecs1_window_correct) (simp add: plain_noise_def)

text \<open>
  Every access of the scan to the doubled convolution table is in range, and reads the row of
  the index modulo 256.
\<close>

lemma gradvecs1_table_in_range:
  assumes "nz < 256" and "j \<in> set (plain_idx noise ny nx nz dny)"
  shows "j < length (conv_table kern noise dny') \<and>
    conv_table kern noise dny' ! j = map (conv_entry kern noise dny' (j mod 256)) [0..<6]"
  using plain_idx_bound [OF assms] by (simp add: conv_table_nth)

lemma gradvecs1_table_in_range_witness:
  "(let j = plain_idx plain_noise 0 250 200 0 ! 5 in
    j < length (conv_table (\<lambda>a b c d. 0) plain_noise 1) \<and>
    conv_table (\<lambda>a b c d. 0) plain_noise 1 ! j = map (conv_entry (\<lambda>a b c d. 0) plain_noise 1 (j mod 256)) [0..<6])"
  unfolding Let_def
  by (rule gradvecs1_table_in_range [where nz = 200 and ny = 0 and nx = 250 and dny = 0])
    (simp, rule nth_mem, simp add: plain_idx_def)

end
