(* ===== verification/Gpu_Filter2.thy ===== *)
theory Gpu_Filter2
  imports Gpu_GradVecs
begin

text \<open>
  The sampling filters of src/src/gpu.cu: \<open>ResultSampler\<close>, \<open>KernelFilter1\<close>, the class template
  \<open>KernelFilter2::Template\<close> with its kernel, and the two hand-optimised kernels
  \<open>KernelFilter2_0A\<close> and \<open>KernelFilter2_0B\<close>, which give a warp one input and cache the cell of
  the noise lattice along a row. A \<open>Result\<close> is its eighteen octaves in the order of the struct:
  octave \<open>k\<close> of noise A at index \<open>2 k\<close>, of noise B at \<open>2 k + 1\<close>. Coordinates are integers: the
  sources add within \<open>int32_t\<close>.
\<close>

type_synonym octaves = "nat \<Rightarrow> ImprovedNoise"

subsection \<open>ResultSampler\<close>

definition sample_only_a ::
    "NormalNoiseConfig \<Rightarrow> nat \<Rightarrow> GradDotTable \<Rightarrow> octaves \<Rightarrow> int \<Rightarrow> int \<Rightarrow> int \<Rightarrow> f32" where
  "sample_only_a config n_octaves table octs x y z =
     foldl (\<lambda>val k. add32 val (sample_octave (octaves_a config ! k) table (octs (2 * k)) x y z))
       0 (filter (\<lambda>k. 2 * k + 1 \<le> n_octaves) [0..<9])"

definition octave_config :: "NormalNoiseConfig \<Rightarrow> nat \<Rightarrow> OctaveConfig" where
  "octave_config config j =
     (if even j then octaves_a config ! (j div 2) else octaves_b config ! (j div 2))"

definition sample ::
    "NormalNoiseConfig \<Rightarrow> nat \<Rightarrow> GradDotTable \<Rightarrow> octaves \<Rightarrow> int \<Rightarrow> int \<Rightarrow> int \<Rightarrow> f32" where
  "sample config n_octaves table octs x y z =
     foldl (\<lambda>val j. add32 val (sample_octave (octave_config config j) table (octs j) x y z))
       0 (filter (\<lambda>j. j + 1 \<le> n_octaves) [0..<18])"

subsection \<open>KernelFilter1\<close>

definition filter1_work ::
    "bool \<Rightarrow> GradDotTable \<Rightarrow> (nat \<Rightarrow> octaves) \<Rightarrow> nat \<Rightarrow> SeedPos list" where
  "filter1_work large_biomes table results index =
     (let threads_per_seed_sqrt = 2 ^ 10;
          threads_per_seed = threads_per_seed_sqrt * threads_per_seed_sqrt;
          pos_step = 14600 * large_biomes_pos_mul large_biomes div 4;
          pos_range = int threads_per_seed_sqrt * pos_step;
          si = index div threads_per_seed;
          pos_index = index mod threads_per_seed;
          x_index = pos_index mod threads_per_seed_sqrt;
          z_index = pos_index div threads_per_seed_sqrt;
          x = int x_index * pos_step - pos_range div 2;
          z = int z_index * pos_step - pos_range div 2;
          val = sample (chosen_continentalness_config large_biomes) 2 table (results si) x 0 z
      in if fl32 (- 515 / 1000) \<le> val then []
         else [\<lparr>seed_index = si, pos_x = x, pos_z = z\<rparr>])"

subsection \<open>The warp reduction\<close>

text \<open>
  \<open>__shfl_down_sync(-1, val, d)\<close> on the 32 lanes of a warp: lane \<open>l\<close> receives the value of lane
  \<open>l + d\<close>, or its own past the end. Lane 0 ends with the sum of the warp.
\<close>

definition shfl_down :: "nat \<Rightarrow> 'a list \<Rightarrow> 'a list" where
  "shfl_down d vs = map (\<lambda>l. if l + d < 32 then vs ! (l + d) else vs ! l) [0..<32]"

definition warp_reduce_add :: "'a::comm_monoid_add list \<Rightarrow> 'a list" where
  "warp_reduce_add vs =
     foldl (\<lambda>vs d. map2 (+) vs (shfl_down d vs)) vs [1, 2, 4, 8, 16]"

subsection \<open>KernelFilter2\<close>

record Template =
  noise_threshold_int :: int
  n_octaves :: nat
  pos_range :: nat
  samples :: nat
  min_count :: nat
  flipped_sparse_samples :: bool
  move_center :: bool
  only_a :: bool

definition noise_threshold :: "Template \<Rightarrow> f32" where
  "noise_threshold T = div32 (f32_of_int (noise_threshold_int T)) 10000"

definition samples_square_size :: "Template \<Rightarrow> nat" where
  "samples_square_size T = 2 ^ ((flog2 (samples T) + 1) div 2)"

definition samples_square_sparse :: "Template \<Rightarrow> bool" where
  "samples_square_sparse T \<longleftrightarrow> flog2 (samples T) mod 2 = 1"

definition pos_step :: "bool \<Rightarrow> Template \<Rightarrow> nat" where
  "pos_step large_biomes T =
     pos_range T * nat (large_biomes_pos_mul large_biomes) div 4 div samples_square_size T"

definition pos_offset :: "bool \<Rightarrow> Template \<Rightarrow> int" where
  "pos_offset large_biomes T = - int (pos_step large_biomes T * (samples_square_size T - 1) div 2)"

definition threads_per_input :: "Template \<Rightarrow> nat" where
  "threads_per_input T = min (samples T) 256"

definition loops :: "Template \<Rightarrow> nat" where
  "loops T = samples T div threads_per_input T"

text \<open>The position that thread \<open>pos_index\<close> samples in iteration \<open>i\<close>.\<close>

definition sample_pos :: "bool \<Rightarrow> Template \<Rightarrow> SeedPos \<Rightarrow> nat \<Rightarrow> nat \<Rightarrow> int \<times> int" where
  "sample_pos large_biomes T input pos_index i =
     (let x_index = pos_index mod samples_square_size T;
          z_index = pos_index div samples_square_size T;
          z_index = (if samples_square_sparse T
                     then z_index * 2 + (if odd x_index \<noteq> flipped_sparse_samples T then 1 else 0)
                     else z_index);
          z_step = pos_step large_biomes T * (samples_square_size T div loops T);
          x = pos_x input + int (x_index * pos_step large_biomes T) + pos_offset large_biomes T;
          z = pos_z input + int (z_index * pos_step large_biomes T) + pos_offset large_biomes T
      in (x, z + int (i * z_step)))"

definition valid_at :: "bool \<Rightarrow> Template \<Rightarrow> GradDotTable \<Rightarrow> octaves \<Rightarrow> int \<times> int \<Rightarrow> bool" where
  "valid_at large_biomes T table octs pos \<longleftrightarrow>
     (let config = chosen_continentalness_config large_biomes; (x, z) = pos
      in (if only_a T then sample_only_a config (n_octaves T) table octs x 0 z
          else sample config (n_octaves T) table octs x 0 z) < noise_threshold T)"

text \<open>
  The block's work on one input. Each warp \<open>w\<close> reduces the results of its lanes in every
  iteration; with more than one warp the totals meet in shared memory through \<open>atomicAdd\<close>.
\<close>

definition warp_total ::
    "bool \<Rightarrow> Template \<Rightarrow> (nat \<Rightarrow> nat \<Rightarrow> nat) \<Rightarrow> nat \<Rightarrow> nat" where
  "warp_total large_biomes T valid w =
     foldl (\<lambda>total i. total + hd (warp_reduce_add (map (\<lambda>lane. valid (32 * w + lane) i) [0..<32])))
       0 [0..<loops T]"

definition warp_sum :: "Template \<Rightarrow> (nat \<Rightarrow> nat \<Rightarrow> int) \<Rightarrow> nat \<Rightarrow> int" where
  "warp_sum T d w =
     hd (warp_reduce_add (map (\<lambda>lane. foldl (\<lambda>s i. s + d (32 * w + lane) i) 0 [0..<loops T]) [0..<32]))"

definition filter2_work ::
    "bool \<Rightarrow> Template \<Rightarrow> GradDotTable \<Rightarrow> (nat \<Rightarrow> octaves) \<Rightarrow> SeedPos \<Rightarrow> SeedPos list" where
  "filter2_work large_biomes T table results input =
     (let octs = results (seed_index input);
          pos = sample_pos large_biomes T input;
          ok = (\<lambda>pi i. valid_at large_biomes T table octs (pos pi i));
          valid = (\<lambda>pi i. if ok pi i then 1 else 0);
          warps = [0..<threads_per_input T div 32];
          total_valid = (if 32 < samples T
                         then foldl (\<lambda>s w. s + warp_total large_biomes T valid w) 0 warps
                         else warp_total large_biomes T valid 0);
          dx = (\<lambda>pi i. if ok pi i then fst (pos pi i) - pos_x input else 0);
          dz = (\<lambda>pi i. if ok pi i then snd (pos pi i) - pos_z input else 0);
          sum = (\<lambda>d. if \<not> move_center T then 0
                     else let s = (if 32 < samples T then foldl (\<lambda>s w. s + warp_sum T d w) 0 warps
                                   else warp_sum T d 0)
                          in if total_valid \<noteq> 0 then c_div s (int total_valid) else s)
      in if min_count T \<le> total_valid
         then [\<lparr>seed_index = seed_index input, pos_x = pos_x input + sum dx,
                pos_z = pos_z input + sum dz\<rparr>]
         else [])"

subsection \<open>KernelFilter2_0A and KernelFilter2_0B\<close>

text \<open>The cell cache of one octave along a row.\<close>

record CellCache =
  have_cell :: bool
  cur_ix :: int
  cell :: Cell

definition cached_cell :: "ImprovedNoise \<Rightarrow> int \<Rightarrow> int \<Rightarrow> int \<Rightarrow> CellCache \<Rightarrow> CellCache" where
  "cached_cell noise int_x int_y int_z cache =
     (if \<not> have_cell cache \<or> int_x \<noteq> cur_ix cache
      then \<lparr>have_cell = True, cur_ix = int_x, cell = compute_cell noise int_x int_y int_z\<rparr>
      else cache)"

text \<open>One iteration \<open>k\<close> of a lane: the two noise values, the comparison and the two caches.\<close>

definition cached_step ::
    "OctaveConfig \<Rightarrow> OctaveConfig \<Rightarrow> f32 \<Rightarrow> GradDotTable \<Rightarrow> ImprovedNoise \<Rightarrow> ImprovedNoise \<Rightarrow> int \<Rightarrow> int \<Rightarrow>
     nat \<times> CellCache \<times> CellCache \<Rightarrow> nat \<times> CellCache \<times> CellCache" where
  "cached_step cfg0 cfg1 threshold table oct0 oct1 x_world z_world st =
     (let (local_count, cache0, cache1) = st;
          if0 = fl32 (input_factor cfg0); if1 = fl32 (input_factor cfg1);
          vf0 = fl32 (value_factor cfg0); vf1 = fl32 (value_factor cfg1);
          y0 = yo oct0; int_y0 = float2int_rd y0; frac_y0 = sub32 y0 (f32_of_int int_y0);
          fy0 = smoothstep frac_y0;
          z0c = add32 (mul32 (f32_of_int z_world) if0) (zo oct0); int_z0 = float2int_rd z0c;
          frac_z0 = sub32 z0c (f32_of_int int_z0); fz0 = smoothstep frac_z0;
          y1 = yo oct1; int_y1 = float2int_rd y1; frac_y1 = sub32 y1 (f32_of_int int_y1);
          fy1 = smoothstep frac_y1;
          z1c = add32 (mul32 (f32_of_int z_world) if1) (zo oct1); int_z1 = float2int_rd z1c;
          frac_z1 = sub32 z1c (f32_of_int int_z1); fz1 = smoothstep frac_z1;
          x0c = add32 (mul32 (f32_of_int x_world) if0) (xo oct0); int_x0 = float2int_rd x0c;
          frac_x0 = sub32 x0c (f32_of_int int_x0);
          cache0 = cached_cell oct0 int_x0 int_y0 int_z0 cache0;
          fx0 = smoothstep frac_x0;
          noise0 = interp table frac_x0 frac_y0 frac_z0 fx0 fy0 fz0 (cell cache0);
          x1c = add32 (mul32 (f32_of_int x_world) if1) (xo oct1); int_x1 = float2int_rd x1c;
          frac_x1 = sub32 x1c (f32_of_int int_x1);
          cache1 = cached_cell oct1 int_x1 int_y1 int_z1 cache1;
          fx1 = smoothstep frac_x1;
          noise1 = interp table frac_x1 frac_y1 frac_z1 fx1 fy1 fz1 (cell cache1);
          val = add32 (add32 0 (mul32 noise0 vf0)) (mul32 noise1 vf1)
      in (local_count + (if val < threshold then 1 else 0), cache0, cache1))"

text \<open>The count of one lane: row \<open>lane >> 1\<close>, the left or the right half of it.\<close>

definition cached_lane ::
    "bool \<Rightarrow> Template \<Rightarrow> OctaveConfig \<Rightarrow> OctaveConfig \<Rightarrow> GradDotTable \<Rightarrow> ImprovedNoise \<Rightarrow> ImprovedNoise \<Rightarrow>
     SeedPos \<Rightarrow> Cell \<Rightarrow> nat \<Rightarrow> nat" where
  "cached_lane large_biomes T cfg0 cfg1 table oct0 oct1 input junk lane =
     (let z_index = lane div 2;
          x_start = lane mod 2 * 8;
          step = pos_step large_biomes T;
          z_world = pos_z input + int (z_index * step) + pos_offset large_biomes T;
          x_base = pos_x input + int (x_start * step) + pos_offset large_biomes T;
          empty = \<lparr>have_cell = False, cur_ix = 0, cell = junk\<rparr>
      in fst (foldl (\<lambda>st k. cached_step cfg0 cfg1 (noise_threshold T) table oct0 oct1
                (x_base + int (k * step)) z_world st) (0, empty, empty) [0..<8]))"

definition cached_work ::
    "bool \<Rightarrow> Template \<Rightarrow> OctaveConfig \<Rightarrow> OctaveConfig \<Rightarrow> GradDotTable \<Rightarrow> ImprovedNoise \<Rightarrow> ImprovedNoise \<Rightarrow>
     Cell \<Rightarrow> SeedPos \<Rightarrow> SeedPos list" where
  "cached_work large_biomes T cfg0 cfg1 table oct0 oct1 junk input =
     (let total = hd (warp_reduce_add
            (map (cached_lane large_biomes T cfg0 cfg1 table oct0 oct1 input junk) [0..<32]))
      in if min_count T \<le> total
         then [\<lparr>seed_index = seed_index input, pos_x = pos_x input, pos_z = pos_z input\<rparr>] else [])"

definition T_0A :: Template where
  "T_0A = \<lparr>noise_threshold_int = - 5500, n_octaves = 3, pos_range = 8 * 1024, samples = 256,
           min_count = 27, flipped_sparse_samples = False, move_center = False, only_a = True\<rparr>"

definition filter2_0A_work ::
    "bool \<Rightarrow> GradDotTable \<Rightarrow> (nat \<Rightarrow> octaves) \<Rightarrow> Cell \<Rightarrow> SeedPos \<Rightarrow> SeedPos list" where
  "filter2_0A_work large_biomes table results junk input =
     (let config = chosen_continentalness_config large_biomes; octs = results (seed_index input)
      in cached_work large_biomes T_0A (octaves_a config ! 0) (octaves_a config ! 1) table
           (octs 0) (octs 2) junk input)"

definition T_0B :: Template where
  "T_0B = \<lparr>noise_threshold_int = - 5500, n_octaves = 3, pos_range = 8 * 1024, samples = 256,
           min_count = 20, flipped_sparse_samples = False, move_center = False, only_a = False\<rparr>"

definition filter2_0B_work ::
    "bool \<Rightarrow> GradDotTable \<Rightarrow> (nat \<Rightarrow> octaves) \<Rightarrow> Cell \<Rightarrow> SeedPos \<Rightarrow> SeedPos list" where
  "filter2_0B_work large_biomes table results junk input =
     (let config = chosen_continentalness_config large_biomes; octs = results (seed_index input)
      in cached_work large_biomes T_0B (octaves_b config ! 0) (octaves_b config ! 1) table
           (octs 1) (octs 3) junk input)"

text \<open>The four instances that \<open>GpuThread::run\<close> chains.\<close>

definition filter_2_runs :: "Template list" where
  "filter_2_runs =
     [\<lparr>noise_threshold_int = - 10500, n_octaves = 12, pos_range = 8 * 1024, samples = 256,
       min_count = 24, flipped_sparse_samples = False, move_center = True, only_a = False\<rparr>,
      \<lparr>noise_threshold_int = - 10500, n_octaves = 14, pos_range = 8 * 1024, samples = 1024,
       min_count = 110, flipped_sparse_samples = False, move_center = True, only_a = False\<rparr>,
      \<lparr>noise_threshold_int = - 10500, n_octaves = 16, pos_range = 10 * 1024, samples = 4096,
       min_count = 340, flipped_sparse_samples = False, move_center = False, only_a = False\<rparr>,
      \<lparr>noise_threshold_int = - 10500, n_octaves = 18, pos_range = 10 * 1024, samples = 16384,
       min_count = 1540, flipped_sparse_samples = False, move_center = False, only_a = False\<rparr>]"

subsection \<open>The reduction leaves the sum in lane 0\<close>

lemma shfl_round:
  fixes vs us :: "'a::comm_monoid_add list"
  assumes len: "length us = 32" and s: "\<And>l. l + s \<le> 32 \<Longrightarrow> us ! l = (\<Sum>j\<in>{..<s}. vs ! (l + j))"
    and l: "l + 2 * s \<le> 32" and pos: "0 < s"
  shows "map2 (+) us (shfl_down s us) ! l = (\<Sum>j\<in>{..<2 * s}. vs ! (l + j))"
proof -
  have "map2 (+) us (shfl_down s us) ! l = us ! l + us ! (l + s)"
    using len l pos by (simp add: shfl_down_def)
  also have "\<dots> = (\<Sum>j\<in>{..<s}. vs ! (l + j)) + (\<Sum>j\<in>{..<s}. vs ! (l + s + j))"
    using s [of l] s [of "l + s"] l by simp
  also have "\<dots> = (\<Sum>j\<in>{..<s + s}. vs ! (l + j))"
    by (simp add: sum.lessThan_Suc_shift lessThan_atLeast0 sum.shift_bounds_nat_ivl
        sum.atLeastLessThan_concat [of 0 s "s + s", symmetric]
        sum.atLeastLessThan_shift_bounds [of _ 0 s s, simplified] ac_simps)
  finally show ?thesis by (simp add: mult_2)
qed

lemma length_shfl_down [simp]: "length (shfl_down d vs) = 32"
  by (simp add: shfl_down_def)

lemma warp_reduce_add_hd:
  fixes vs :: "'a::comm_monoid_add list"
  assumes len: "length vs = 32"
  shows "hd (warp_reduce_add vs) = sum_list vs"
proof -
  define r where "r d us = map2 (+) us (shfl_down d us)" for d and us :: "'a list"
  have lr: "length (r d us) = 32" if "length us = 32" for d us using that by (simp add: r_def)
  have 1: "r 1 vs ! l = (\<Sum>j\<in>{..<2}. vs ! (l + j))" if "l + 2 \<le> 32" for l
    using shfl_round [of vs 1 vs l] that len by (simp add: r_def)
  have 2: "r 2 (r 1 vs) ! l = (\<Sum>j\<in>{..<4}. vs ! (l + j))" if "l + 4 \<le> 32" for l
    using shfl_round [of "r 1 vs" 2 vs l] that 1 len lr by (simp add: r_def [of 2])
  have 4: "r 4 (r 2 (r 1 vs)) ! l = (\<Sum>j\<in>{..<8}. vs ! (l + j))" if "l + 8 \<le> 32" for l
    using shfl_round [of "r 2 (r 1 vs)" 4 vs l] that 2 len lr by (simp add: r_def [of 4])
  have 8: "r 8 (r 4 (r 2 (r 1 vs))) ! l = (\<Sum>j\<in>{..<16}. vs ! (l + j))" if "l + 16 \<le> 32" for l
    using shfl_round [of "r 4 (r 2 (r 1 vs))" 8 vs l] that 4 len lr by (simp add: r_def [of 8])
  have 16: "r 16 (r 8 (r 4 (r 2 (r 1 vs)))) ! l = (\<Sum>j\<in>{..<32}. vs ! (l + j))" if "l + 32 \<le> 32" for l
    using shfl_round [of "r 8 (r 4 (r 2 (r 1 vs)))" 16 vs l] that 8 len lr by (simp add: r_def [of 16])
  have "warp_reduce_add vs = r 16 (r 8 (r 4 (r 2 (r 1 vs))))" by (simp add: warp_reduce_add_def r_def)
  moreover have "r 16 (r 8 (r 4 (r 2 (r 1 vs)))) \<noteq> []" using lr len by (metis list.size(3) zero_neq_numeral)
  ultimately have "hd (warp_reduce_add vs) = r 16 (r 8 (r 4 (r 2 (r 1 vs)))) ! 0" by (simp add: hd_conv_nth)
  also have "\<dots> = (\<Sum>j\<in>{..<32}. vs ! (0 + j))" by (rule 16) simp
  finally show ?thesis using len by (simp add: sum_list_sum_nth atLeast0LessThan)
qed

subsection \<open>What a block counts\<close>

lemma foldl_add: "foldl (\<lambda>s x. s + f x) a xs = a + (\<Sum>x \<leftarrow> xs. f x)" for a :: "'a::comm_monoid_add"
  by (induction xs arbitrary: a) (simp_all add: ac_simps)

lemma warp_total_eq: "warp_total lb T valid w = (\<Sum>i\<in>{..<loops T}. \<Sum>l\<in>{..<32}. valid (32 * w + l) i)"
  by (simp add: warp_total_def foldl_add warp_reduce_add_hd interv_sum_list_conv_sum_set_nat
      atLeast0LessThan del: upt_Suc)

lemma warp_sum_eq: "warp_sum T d w = (\<Sum>i\<in>{..<loops T}. \<Sum>l\<in>{..<32}. d (32 * w + l) i)"
proof -
  have "warp_sum T d w = (\<Sum>l\<in>{..<32}. \<Sum>i\<in>{..<loops T}. d (32 * w + l) i)"
    by (simp add: warp_sum_def foldl_add warp_reduce_add_hd interv_sum_list_conv_sum_set_nat
      atLeast0LessThan del: upt_Suc)
  also have "\<dots> = (\<Sum>i\<in>{..<loops T}. \<Sum>l\<in>{..<32}. d (32 * w + l) i)" by (rule sum.swap)
  finally show ?thesis .
qed

lemma sum_group:
  "(\<Sum>m\<in>{..<n}. \<Sum>i\<in>{..<k}. f (m * k + i)) = (\<Sum>i\<in>{..<n * k}. f i)"
  for f :: "nat \<Rightarrow> 'a::comm_monoid_add"
proof -
  have "(\<Sum>i\<in>{..<k}. f (m * k + i)) = sum f {m * k..<m * k + k}" for m
    using sum.shift_bounds_nat_ivl [of f 0 "m * k" k] by (simp add: lessThan_atLeast0 ac_simps)
  then show ?thesis using sum.nat_group [of f k n] by simp
qed

text \<open>
  The instances that are used: a power of four samples, at least 256, so that the square is full
  and every warp has an input.
\<close>

definition full_square :: "Template \<Rightarrow> bool" where
  "full_square T \<longleftrightarrow>
     \<not> samples_square_sparse T \<and> samples T = samples_square_size T * samples_square_size T \<and>
     256 dvd samples T \<and> loops T dvd samples_square_size T \<and> 256 \<le> samples T"

text \<open>The sample with number \<open>n\<close>, counted row by row.\<close>

definition grid_pos :: "bool \<Rightarrow> Template \<Rightarrow> SeedPos \<Rightarrow> nat \<Rightarrow> int \<times> int" where
  "grid_pos lb T input n =
     (pos_x input + int (n mod samples_square_size T * pos_step lb T) + pos_offset lb T,
      pos_z input + int (n div samples_square_size T * pos_step lb T) + pos_offset lb T)"

lemma full_square_tpi: "full_square T \<Longrightarrow> threads_per_input T = 256"
  by (simp add: full_square_def threads_per_input_def)

lemma full_square_loops: "full_square T \<Longrightarrow> loops T * 256 = samples T"
proof -
  assume T: "full_square T"
  then have "256 dvd samples T" unfolding full_square_def by blast
  then show ?thesis by (simp only: loops_def full_square_tpi [OF T] dvd_div_mult_self)
qed

lemma sample_pos_grid:
  assumes T: "full_square T" and th: "th < 256"
  shows "sample_pos lb T input th i = grid_pos lb T input (i * 256 + th)"
proof -
  let ?sq = "samples_square_size T" and ?rows = "samples_square_size T div loops T"
  have "0 < loops T" using full_square_loops [OF T] T by (auto simp: full_square_def intro!: Nat.gr0I)
  moreover have lr: "loops T * ?rows = ?sq" using T by (simp add: full_square_def)
  moreover have "loops T * 256 = ?sq * ?sq" using full_square_loops [OF T] T by (simp add: full_square_def)
  ultimately have tpi: "256 = ?rows * ?sq" by (metis mult.assoc mult_cancel1 mult.commute less_not_refl)
  have sq: "0 < ?sq" by (simp add: samples_square_size_def)
  have m: "(i * 256 + th) mod ?sq = th mod ?sq" unfolding tpi by (simp add: mult.assoc [symmetric])
  have "(i * 256 + th) div ?sq = i * ?rows + th div ?sq"
    unfolding tpi using sq by (simp add: mult.assoc [symmetric])
  then have d: "(i * 256 + th) div ?sq * pos_step lb T = th div ?sq * pos_step lb T + i * (pos_step lb T * ?rows)"
    by (simp add: algebra_simps)
  show ?thesis
    using T unfolding sample_pos_def grid_pos_def Let_def m d by (simp add: full_square_def)
qed

lemma block_sum:
  fixes valid :: "nat \<Rightarrow> nat \<Rightarrow> 'a::comm_monoid_add"
  assumes T: "full_square T" and v: "\<And>th i. th < 256 \<Longrightarrow> valid th i = f (i * 256 + th)"
  shows "(\<Sum>w\<in>{..<8}. \<Sum>i\<in>{..<loops T}. \<Sum>l\<in>{..<32}. valid (32 * w + l) i)
      = (\<Sum>n\<in>{..<samples T}. f n)"
proof -
  have "(\<Sum>w\<in>{..<8}. \<Sum>i\<in>{..<loops T}. \<Sum>l\<in>{..<32}. valid (32 * w + l) i)
      = (\<Sum>i\<in>{..<loops T}. \<Sum>w\<in>{..<8}. \<Sum>l\<in>{..<32}. valid (w * 32 + l) i)"
    by (subst sum.swap) (simp add: mult.commute)
  also have "\<dots> = (\<Sum>i\<in>{..<loops T}. \<Sum>th\<in>{..<256}. valid th i)"
    using sum_group [where n = 8 and k = 32 and f = "\<lambda>th. valid th _"] by simp
  also have "\<dots> = (\<Sum>i\<in>{..<loops T}. \<Sum>th\<in>{..<256}. f (i * 256 + th))"
    by (intro sum.cong refl) (simp add: v)
  also have "\<dots> = (\<Sum>n\<in>{..<loops T * 256}. f n)" by (rule sum_group)
  finally show ?thesis using full_square_loops [OF T] by simp
qed

text \<open>The number of sample points below the threshold, and the sums of their offsets.\<close>

definition valid_points :: "bool \<Rightarrow> Template \<Rightarrow> GradDotTable \<Rightarrow> octaves \<Rightarrow> SeedPos \<Rightarrow> nat set" where
  "valid_points lb T table octs input =
     {n. n < samples T \<and> valid_at lb T table octs (grid_pos lb T input n)}"

lemma filter2_work_eq:
  fixes lb table results input
  assumes T: "full_square T"
  defines "V \<equiv> valid_points lb T table (results (seed_index input)) input"
  shows "filter2_work lb T table results input =
    (if min_count T \<le> card (V)
     then [\<lparr>seed_index = seed_index input,
            pos_x = pos_x input + (if move_center T \<and> V \<noteq> {}
              then c_div (\<Sum>n \<in> V. fst (grid_pos lb T input n) - pos_x input) (int (card (V))) else 0),
            pos_z = pos_z input + (if move_center T \<and> V \<noteq> {}
              then c_div (\<Sum>n \<in> V. snd (grid_pos lb T input n) - pos_z input) (int (card (V))) else 0)\<rparr>]
     else [])"
proof -
  define octs where "octs = results (seed_index input)"
  define ok where "ok n = valid_at lb T table octs (grid_pos lb T input n)" for n
  have fin: "finite (V)" by (simp add: V_def valid_points_def)
  have V: "V = {n \<in> {..<samples T}. ok n}" by (auto simp: V_def valid_points_def ok_def octs_def)
  have pos: "sample_pos lb T input th i = grid_pos lb T input (i * 256 + th)" if "th < 256" for th i
    using sample_pos_grid [OF T that] .
  have warps: "threads_per_input T div 32 = 8" using full_square_tpi [OF T] by simp
  have big: "32 < samples T" using T by (simp add: full_square_def)
  have total: "foldl (\<lambda>s w. s + warp_total lb T (\<lambda>th i. if valid_at lb T table octs (sample_pos lb T input th i) then 1 else 0) w)
      0 [0..<threads_per_input T div 32] = card (V)"
  proof -
    have "foldl (\<lambda>s w. s + warp_total lb T (\<lambda>th i. if valid_at lb T table octs (sample_pos lb T input th i) then 1 else 0) w)
      0 [0..<threads_per_input T div 32] = (\<Sum>n\<in>{..<samples T}. if ok n then 1 else 0)"
      unfolding foldl_add warps warp_total_eq
      using block_sum [OF T, of "\<lambda>th i. if valid_at lb T table octs (sample_pos lb T input th i) then 1 else 0" "\<lambda>n. if ok n then 1 else 0"]
      by (simp add: pos ok_def interv_sum_list_conv_sum_set_nat atLeast0LessThan del: upt_Suc)
    also have "\<dots> = card (V)" by (simp add: V sum.If_cases Int_def)
    finally show ?thesis .
  qed
  have sums: "foldl (\<lambda>s w. s + warp_sum T (\<lambda>th i. if valid_at lb T table octs (sample_pos lb T input th i)
        then g (sample_pos lb T input th i) else 0) w) 0 [0..<threads_per_input T div 32]
      = (\<Sum>n \<in> V. g (grid_pos lb T input n))" for g
  proof -
    have "foldl (\<lambda>s w. s + warp_sum T (\<lambda>th i. if valid_at lb T table octs (sample_pos lb T input th i)
        then g (sample_pos lb T input th i) else 0) w) 0 [0..<threads_per_input T div 32]
      = (\<Sum>n\<in>{..<samples T}. if ok n then g (grid_pos lb T input n) else 0)"
      unfolding foldl_add warps warp_sum_eq add_0 interv_sum_list_conv_sum_set_nat atLeast0LessThan set_upt
      by (rule block_sum [OF T]) (simp only: pos ok_def)
    also have "\<dots> = (\<Sum>n \<in> V. g (grid_pos lb T input n))" by (simp add: V sum.If_cases Int_def)
    finally show ?thesis .
  qed
  have empty: "V = {} \<longleftrightarrow> card (V) = 0" using fin by simp
  have none: "card V = 0 \<Longrightarrow> (\<Sum>n \<in> V. h n) = 0" for h :: "nat \<Rightarrow> int" using fin by simp
  show ?thesis
    unfolding filter2_work_def Let_def octs_def [symmetric]
    using big total sums [of "\<lambda>p. fst p - pos_x input"] sums [of "\<lambda>p. snd p - pos_z input"]
    by (auto simp: empty none simp del: One_nat_def)
qed

lemma flog2_step: "1 < n \<Longrightarrow> flog2 n = Suc (flog2 (n div 2))" and flog2_1: "flog2 (Suc 0) = 0"
  by (subst flog2.simps, simp)+

lemma flog2_samples: "flog2 256 = 8" "flog2 1024 = 10" "flog2 4096 = 12" "flog2 16384 = 14"
  by (simp_all add: flog2_step flog2_1)

lemma filter_2_runs_full: "\<forall>T \<in> set filter_2_runs. full_square T"
  by (simp add: filter_2_runs_def full_square_def samples_square_sparse_def samples_square_size_def
      loops_def threads_per_input_def flog2_samples)

lemma T_0A_full: "full_square T_0A" and T_0B_full: "full_square T_0B"
  by (simp_all add: T_0A_def T_0B_def full_square_def samples_square_sparse_def samples_square_size_def
      loops_def threads_per_input_def flog2_samples)

subsection \<open>The cached kernels\<close>

definition cache_ok :: "ImprovedNoise \<Rightarrow> int \<Rightarrow> int \<Rightarrow> CellCache \<Rightarrow> bool" where
  "cache_ok noise int_y int_z cache \<longleftrightarrow>
     (have_cell cache \<longrightarrow> cell cache = compute_cell noise (cur_ix cache) int_y int_z)"

lemma cached_cell_ok:
  "cache_ok noise int_y int_z cache \<Longrightarrow>
     cell (cached_cell noise int_x int_y int_z cache) = compute_cell noise int_x int_y int_z \<and>
     cache_ok noise int_y int_z (cached_cell noise int_x int_y int_z cache)"
  by (auto simp: cached_cell_def cache_ok_def)

text \<open>The value that the kernel compares, without caches.\<close>

definition two_octaves ::
    "OctaveConfig \<Rightarrow> OctaveConfig \<Rightarrow> GradDotTable \<Rightarrow> ImprovedNoise \<Rightarrow> ImprovedNoise \<Rightarrow> int \<times> int \<Rightarrow> f32" where
  "two_octaves cfg0 cfg1 table oct0 oct1 pos =
     add32 (add32 0 (sample_octave cfg0 table oct0 (fst pos) 0 (snd pos)))
       (sample_octave cfg1 table oct1 (fst pos) 0 (snd pos))"

lemma sample_octave_split:
  assumes "noise_ok noise"
  defines "coord v off cfg \<equiv> add32 (mul32 (f32_of_int v) (fl32 (input_factor cfg))) off"
  shows "sample_octave cfg table noise x 0 z =
    mul32 (interp table (frac_of (coord x (xo noise) cfg)) (frac_of (yo noise)) (frac_of (coord z (zo noise) cfg))
        (smoothstep (frac_of (coord x (xo noise) cfg))) (smoothstep (frac_of (yo noise)))
        (smoothstep (frac_of (coord z (zo noise) cfg)))
        (compute_cell noise (float2int_rd (coord x (xo noise) cfg)) (float2int_rd (yo noise))
          (float2int_rd (coord z (zo noise) cfg)))) (fl32 (value_factor cfg))"
proof -
  have "add32 (wrap (mul32 (f32_of_int 0) (fl32 (input_factor cfg)))) (yo noise) = yo noise"
    using assms(1) by (simp add: wrap_def mul32_def f32_of_int_def add32_def noise_ok_def)
  then show ?thesis
    by (simp add: sample_octave_def Let_def sample_noise_split wrap_def coord_def)
qed

lemma cached_step_eq:
  assumes "noise_ok oct0" "noise_ok oct1"
    and "cache_ok oct0 (float2int_rd (yo oct0))
      (float2int_rd (add32 (mul32 (f32_of_int z) (fl32 (input_factor cfg0))) (zo oct0))) cache0"
    and "cache_ok oct1 (float2int_rd (yo oct1))
      (float2int_rd (add32 (mul32 (f32_of_int z) (fl32 (input_factor cfg1))) (zo oct1))) cache1"
  shows "\<exists>cache0' cache1'. cached_step cfg0 cfg1 thr table oct0 oct1 x z (c, cache0, cache1) =
      (c + (if two_octaves cfg0 cfg1 table oct0 oct1 (x, z) < thr then 1 else 0), cache0', cache1') \<and>
    cache_ok oct0 (float2int_rd (yo oct0))
      (float2int_rd (add32 (mul32 (f32_of_int z) (fl32 (input_factor cfg0))) (zo oct0))) cache0' \<and>
    cache_ok oct1 (float2int_rd (yo oct1))
      (float2int_rd (add32 (mul32 (f32_of_int z) (fl32 (input_factor cfg1))) (zo oct1))) cache1'"
  using cached_cell_ok [OF assms(3)] cached_cell_ok [OF assms(4)]
  by (simp add: cached_step_def Let_def two_octaves_def sample_octave_split assms(1,2) frac_of_def)

lemma cached_fold:
  assumes "noise_ok oct0" "noise_ok oct1"
  defines "Z cfg noise z \<equiv> float2int_rd (add32 (mul32 (f32_of_int z) (fl32 (input_factor cfg))) (zo noise))"
  assumes "cache_ok oct0 (float2int_rd (yo oct0)) (Z cfg0 oct0 z) cache0"
    and "cache_ok oct1 (float2int_rd (yo oct1)) (Z cfg1 oct1 z) cache1"
  shows "fst (foldl (\<lambda>st k. cached_step cfg0 cfg1 thr table oct0 oct1 (x k) z st) (c, cache0, cache1) ks)
    = c + (\<Sum>k \<leftarrow> ks. if two_octaves cfg0 cfg1 table oct0 oct1 (x k, z) < thr then 1 else 0)"
  using assms(4,5)
proof (induction ks arbitrary: c cache0 cache1)
  case (Cons k ks)
  from cached_step_eq [OF assms(1,2) Cons.prems [unfolded Z_def], of thr table "x k" c]
  obtain cache0' cache1' where st: "cached_step cfg0 cfg1 thr table oct0 oct1 (x k) z (c, cache0, cache1) =
      (c + (if two_octaves cfg0 cfg1 table oct0 oct1 (x k, z) < thr then 1 else 0), cache0', cache1')"
    and ok: "cache_ok oct0 (float2int_rd (yo oct0)) (Z cfg0 oct0 z) cache0'"
      "cache_ok oct1 (float2int_rd (yo oct1)) (Z cfg1 oct1 z) cache1'"
    unfolding Z_def by blast
  show ?case using Cons.IH [OF ok] by (simp add: st)
qed simp

lemma cached_lane_eq:
  assumes T: "full_square T" "samples T = 256" and ok: "noise_ok oct0" "noise_ok oct1"
  shows "cached_lane lb T cfg0 cfg1 table oct0 oct1 input junk lane
    = (\<Sum>k\<in>{..<8}. if two_octaves cfg0 cfg1 table oct0 oct1 (grid_pos lb T input (lane * 8 + k)) < noise_threshold T
        then 1 else 0)"
proof -
  have sq: "samples_square_size T = 16"
    using T by (simp add: samples_square_size_def flog2_samples)
  let ?e = "\<lparr>have_cell = False, cur_ix = 0, cell = junk\<rparr>"
  have e: "cache_ok n a b ?e" for n a b by (simp add: cache_ok_def)
  have pos: "grid_pos lb T input (lane * 8 + k) =
      (pos_x input + int (lane mod 2 * 8 * pos_step lb T) + pos_offset lb T + int (k * pos_step lb T),
       pos_z input + int (lane div 2 * pos_step lb T) + pos_offset lb T)" if "k < 8" for k
  proof -
    obtain q r where l: "lane = 2 * q + r" "r < 2" using mod_less_divisor [of 2 lane] by (metis mult_div_mod_eq zero_less_numeral)
    have "lane * 8 + k = q * 16 + (r * 8 + k)" using l by simp
    moreover have "r * 8 + k < 16" using l that by simp
    ultimately have "(lane * 8 + k) mod 16 = r * 8 + k" "(lane * 8 + k) div 16 = q"
      by (simp_all only: mod_mult_self3 div_mult_self3 mod_less div_less)
    moreover have "lane mod 2 = r" "lane div 2 = q" using l by simp_all
    ultimately show ?thesis unfolding grid_pos_def sq by (simp add: distrib_right)
  qed
  show ?thesis
    unfolding cached_lane_def Let_def cached_fold [OF ok e e]
    by (simp only: add_0 interv_sum_list_conv_sum_set_nat set_upt atLeast0LessThan)
      (rule sum.cong [OF refl], simp only: pos lessThan_iff)
qed

text \<open>The number of sample points at which two octaves together stay below the threshold.\<close>

definition two_octave_points ::
    "bool \<Rightarrow> Template \<Rightarrow> OctaveConfig \<Rightarrow> OctaveConfig \<Rightarrow> GradDotTable \<Rightarrow> ImprovedNoise \<Rightarrow> ImprovedNoise \<Rightarrow> SeedPos \<Rightarrow> nat set" where
  "two_octave_points lb T cfg0 cfg1 table oct0 oct1 input =
     {n. n < samples T \<and> two_octaves cfg0 cfg1 table oct0 oct1 (grid_pos lb T input n) < noise_threshold T}"

lemma cached_work_eq:
  assumes T: "full_square T" "samples T = 256" and ok: "noise_ok oct0" "noise_ok oct1"
  shows "cached_work lb T cfg0 cfg1 table oct0 oct1 junk input =
    (if min_count T \<le> card (two_octave_points lb T cfg0 cfg1 table oct0 oct1 input) then [input] else [])"
proof -
  let ?ok = "\<lambda>n. two_octaves cfg0 cfg1 table oct0 oct1 (grid_pos lb T input n) < noise_threshold T"
  have "hd (warp_reduce_add (map (cached_lane lb T cfg0 cfg1 table oct0 oct1 input junk) [0..<32]))
      = (\<Sum>lane\<in>{..<32}. \<Sum>k\<in>{..<8}. if ?ok (lane * 8 + k) then 1 else 0)"
    by (simp add: warp_reduce_add_hd cached_lane_eq [OF assms] interv_sum_list_conv_sum_set_nat
        atLeast0LessThan del: upt_Suc)
  also have "\<dots> = (\<Sum>n\<in>{..<32 * 8}. if ?ok n then 1 else 0)" by (rule sum_group)
  also have "\<dots> = card (two_octave_points lb T cfg0 cfg1 table oct0 oct1 input)"
    using T(2) by (simp add: two_octave_points_def sum.If_cases Int_def)
  finally show ?thesis by (simp add: cached_work_def)
qed

lemma filter2_0A_eq:
  assumes "noise_ok (results (seed_index input) 0)" "noise_ok (results (seed_index input) 2)"
  shows "filter2_0A_work lb table results junk input = filter2_work lb T_0A table results input"
proof -
  let ?c = "chosen_continentalness_config lb" and ?o = "results (seed_index input)"
  have "filter (\<lambda>k. 2 * k + 1 \<le> (3::nat)) [0..<9] = [0, 1]" by (simp add: upt_rec numeral_eq_Suc)
  then have "valid_at lb T_0A table ?o pos \<longleftrightarrow>
      two_octaves (octaves_a ?c ! 0) (octaves_a ?c ! 1) table (?o 0) (?o 2) pos < noise_threshold T_0A" for pos
    by (simp add: valid_at_def T_0A_def sample_only_a_def two_octaves_def split_beta Let_def)
  then have "two_octave_points lb T_0A (octaves_a ?c ! 0) (octaves_a ?c ! 1) table (?o 0) (?o 2) input
      = valid_points lb T_0A table ?o input"
    by (simp add: two_octave_points_def valid_points_def)
  moreover have "samples T_0A = 256" "\<not> move_center T_0A" by (simp_all add: T_0A_def)
  ultimately show ?thesis
    using cached_work_eq [OF T_0A_full _ assms] filter2_work_eq [OF T_0A_full]
    by (simp add: filter2_0A_work_def Let_def)
qed

lemma filter2_0B_eq:
  fixes lb
  assumes "noise_ok (results (seed_index input) 1)" "noise_ok (results (seed_index input) 3)"
  defines "c \<equiv> chosen_continentalness_config lb"
  shows "filter2_0B_work lb table results junk input =
    (if 20 \<le> card (two_octave_points lb T_0B (octaves_b c ! 0) (octaves_b c ! 1) table
           (results (seed_index input) 1) (results (seed_index input) 3) input) then [input] else [])"
proof -
  have "samples T_0B = 256" "min_count T_0B = 20" by (simp_all add: T_0B_def)
  then show ?thesis
    using cached_work_eq [OF T_0B_full _ assms(1,2)] by (simp add: filter2_0B_work_def Let_def c_def)
qed

subsection \<open>The launches\<close>

text \<open>The thread that appends is lane 0 of a warp in the cached kernels, thread 0 of a block otherwise.\<close>

definition filter2_0A_run ::
    "bool \<Rightarrow> GradDotTable \<Rightarrow> (nat \<Rightarrow> octaves) \<Rightarrow> Cell \<Rightarrow> SeedPos list \<Rightarrow> SeedPos list list" where
  "filter2_0A_run large_biomes table results junk inputs =
     stride_emissions (filter2_0A_work large_biomes table results junk) (32 * 256 * 256 div 32) inputs"

definition filter2_run ::
    "bool \<Rightarrow> Template \<Rightarrow> GradDotTable \<Rightarrow> (nat \<Rightarrow> octaves) \<Rightarrow> SeedPos list \<Rightarrow> SeedPos list list" where
  "filter2_run large_biomes T table results inputs =
     stride_emissions (filter2_work large_biomes T table results) (32 * 256) inputs"

definition filter1_run ::
    "bool \<Rightarrow> GradDotTable \<Rightarrow> (nat \<Rightarrow> octaves) \<Rightarrow> nat \<Rightarrow> SeedPos list list" where
  "filter1_run large_biomes table results seeds_len =
     stride_emissions (filter1_work large_biomes table results) (16 * 1024 * 256)
       [0..<seeds_len * (2 ^ 10 * 2 ^ 10)]"

interpretation filter2_0A: stride_kernel "filter2_0A_work lb table results junk" "32 * 256 * 256 div 32"
  for lb table results junk
  by unfold_locales simp

interpretation filter2: stride_kernel "filter2_work lb T table results" "32 * 256"
  for lb T table results
  by unfold_locales simp

interpretation filter1: stride_kernel "filter1_work lb table results" "16 * 1024 * 256"
  for lb table results
  by unfold_locales simp

text \<open>Every filter passes on the seed of its input.\<close>

lemma filter2_work_seed: "out \<in> set (filter2_work lb T table results input) \<Longrightarrow> seed_index out = seed_index input"
  by (auto simp: filter2_work_def Let_def split: if_splits)

lemma cached_work_cases:
  "cached_work lb T cfg0 cfg1 table oct0 oct1 junk input = [] \<or>
   cached_work lb T cfg0 cfg1 table oct0 oct1 junk input = [input]"
  by (auto simp: cached_work_def Let_def)

lemma filter2_0B_cases: "filter2_0B_work lb table results junk input = [] \<or> filter2_0B_work lb table results junk input = [input]"
  unfolding filter2_0B_work_def Let_def by (rule cached_work_cases)

text \<open>Some content of the uninitialised cache registers.\<close>

definition junk0 :: Cell where
  "junk0 = \<lparr>c000 = 0, c100 = 0, c010 = 0, c110 = 0, c001 = 0, c101 = 0, c011 = 0, c111 = 0\<rparr>"

subsection \<open>Properties\<close>

text \<open>
  C18. The filter kernel counts: for an instance with a full square of at least 256 samples, the
  warps, the reductions and the shared counters together keep an input exactly when at least
  \<open>min_count\<close> of its sample points are below the threshold, and, if the instance moves the
  centre, they move it by the truncated mean offset of those points.
\<close>

theorem filter2_counts_samples:
  assumes "full_square T" and "V = valid_points lb T table (results (seed_index input)) input"
  shows "filter2_work lb T table results input =
    (if min_count T \<le> card V
     then [\<lparr>seed_index = seed_index input,
            pos_x = pos_x input + (if move_center T \<and> V \<noteq> {}
              then c_div (\<Sum>n \<in> V. fst (grid_pos lb T input n) - pos_x input) (int (card V)) else 0),
            pos_z = pos_z input + (if move_center T \<and> V \<noteq> {}
              then c_div (\<Sum>n \<in> V. snd (grid_pos lb T input n) - pos_z input) (int (card V)) else 0)\<rparr>]
     else [])"
  unfolding assms(2) by (rule filter2_work_eq [OF assms(1)])

theorem filter2_counts_samples_witness:
  "filter2_work False T_0A init_grad_dot_table (\<lambda>s k. plain_noise) \<lparr>seed_index = 0, pos_x = 0, pos_z = 0\<rparr> =
    (if min_count T_0A \<le> card (valid_points False T_0A init_grad_dot_table (\<lambda>k. plain_noise) \<lparr>seed_index = 0, pos_x = 0, pos_z = 0\<rparr>)
     then [\<lparr>seed_index = 0, pos_x = 0, pos_z = 0\<rparr>] else [])"
  using filter2_counts_samples [OF T_0A_full refl, of False init_grad_dot_table "\<lambda>s k. plain_noise" "\<lparr>seed_index = 0, pos_x = 0, pos_z = 0\<rparr>"]
  by (simp add: T_0A_def)

text \<open>
  C19. The hand-optimised kernel \<open>KernelFilter2_0A\<close>, with one warp per input and cached lattice
  cells, computes what the template instance it replaces computes.
\<close>

theorem filter2_0A_is_template:
  assumes "noise_ok (results (seed_index input) 0)" "noise_ok (results (seed_index input) 2)"
  shows "filter2_0A_work lb table results junk input = filter2_work lb T_0A table results input"
  using assms by (rule filter2_0A_eq)

theorem filter2_0A_is_template_witness:
  "filter2_0A_work False init_grad_dot_table (\<lambda>s k. plain_noise) junk0 \<lparr>seed_index = 0, pos_x = 5, pos_z = 9\<rparr>
   = filter2_work False T_0A init_grad_dot_table (\<lambda>s k. plain_noise) \<lparr>seed_index = 0, pos_x = 5, pos_z = 9\<rparr>"
  by (rule filter2_0A_is_template) (simp_all add: noise_ok_plain)

text \<open>
  C40. \<open>KernelFilter2_0B\<close> keeps an input, unchanged, exactly when at least 20 of its 256 sample
  points are below the threshold in the first two octaves of noise B.
\<close>

theorem filter2_0B_counts:
  assumes "noise_ok (results (seed_index input) 1)" "noise_ok (results (seed_index input) 3)"
    and "c = chosen_continentalness_config lb"
  shows "filter2_0B_work lb table results junk input =
    (if 20 \<le> card (two_octave_points lb T_0B (octaves_b c ! 0) (octaves_b c ! 1) table
           (results (seed_index input) 1) (results (seed_index input) 3) input) then [input] else [])"
  using filter2_0B_eq [of results input lb table junk] assms by simp

theorem filter2_0B_counts_witness:
  "filter2_0B_work False init_grad_dot_table (\<lambda>s k. plain_noise) junk0 \<lparr>seed_index = 0, pos_x = 5, pos_z = 9\<rparr> =
    (if 20 \<le> card (two_octave_points False T_0B (octaves_b (chosen_continentalness_config False) ! 0)
         (octaves_b (chosen_continentalness_config False) ! 1) init_grad_dot_table plain_noise plain_noise
         \<lparr>seed_index = 0, pos_x = 5, pos_z = 9\<rparr>) then [\<lparr>seed_index = 0, pos_x = 5, pos_z = 9\<rparr>] else [])"
  by (rule filter2_0B_counts [OF _ _ refl]) (simp_all add: noise_ok_plain)

text \<open>
  The warp reduction by shuffles leaves the sum of the 32 lanes in lane 0.
\<close>

lemma warp_reduction_sums:
  assumes "length vs = 32"
  shows "hd (warp_reduce_add vs) = sum_list vs"
  using assms by (rule warp_reduce_add_hd)

lemma warp_reduction_sums_witness: "hd (warp_reduce_add (replicate 32 (3::nat))) = sum_list (replicate 32 3)"
  by (rule warp_reduction_sums) simp

end
