(* ===== verification/Biome_Tree.thy ===== *)
theory Biome_Tree
  imports Prelude
begin

text \<open>
  The search of cubiomes for the biome of a climate (\<open>biomenoise.c\<close>): a tree of boxes in the six
  climate parameters, stored as an array of nodes, searched by branch and bound. An access outside
  an array, which C leaves undefined, is the value \<open>None\<close>.

  The locale \<open>biome_tree\<close> states what the search needs of the arrays, and shows that it then
  returns, stays in range and finds a leaf whose box is nearest to the climate. A linear check
  over the nodes, \<open>check_nodes\<close>, implies the laws of the locale.
\<close>

subsection \<open>The model\<close>

text \<open>
  \<open>steps\<close> and \<open>order\<close> describe the layout, \<open>param\<close> the intervals (\<open>param[2*i]\<close> and \<open>param[2*i+1]\<close>
  in the source), \<open>nodes\<close> the packed nodes; \<open>len\<close> is the length of \<open>nodes\<close>.
\<close>

record BiomeTree =
  steps :: "nat list"
  param :: "(int \<times> int) list"
  nodes :: "nat list"
  order :: nat

abbreviation bt_len :: "BiomeTree \<Rightarrow> nat" where
  "bt_len bt \<equiv> length (nodes bt)"

text \<open>The contribution of one parameter to the distance, in 64-bit arithmetic.\<close>

definition axis_dist :: "u64 \<Rightarrow> int \<times> int \<Rightarrow> u64" where
  "axis_dist v lim =
     (let a = v - of_int (snd lim);
          b = of_int (fst lim) - v;
          d = (if sint a > 0 then a else if sint b > 0 then b else 0)
      in d * d)"

fun np_dist_loop :: "u64 list \<Rightarrow> BiomeTree \<Rightarrow> nat \<Rightarrow> nat list \<Rightarrow> u64 \<Rightarrow> u64 option" where
  "np_dist_loop np bt node [] ds = Some ds"
| "np_dist_loop np bt node (i # is) ds =
     (let idx = node div 2 ^ (8 * i) mod 256
      in if idx < length (param bt) then np_dist_loop np bt node is (ds + axis_dist (np ! i) (param bt ! idx)) else None)"

definition get_np_dist :: "u64 list \<Rightarrow> BiomeTree \<Rightarrow> nat \<Rightarrow> u64 option" where
  "get_np_dist np bt idx =
     (if idx < bt_len bt then np_dist_loop np bt (nodes bt ! idx) [0..<6] 0 else None)"

text \<open>The \<open>do ... while\<close> loop that finds the step of the next level.\<close>

function get_step :: "BiomeTree \<Rightarrow> nat \<Rightarrow> nat \<Rightarrow> (nat \<times> nat) option" where
  "get_step bt idx depth =
     (if depth < length (steps bt)
      then let step = steps bt ! depth
           in if bt_len bt \<le> idx + step then get_step bt idx (Suc depth) else Some (step, Suc depth)
      else None)"
  by pat_completeness auto
termination by (relation "measure (\<lambda>(bt, idx, depth). length (steps bt) - depth)") auto

declare get_step.simps [simp del]

lemma get_step_depth: "get_step bt idx depth = Some (step, depth') \<Longrightarrow> depth < depth' \<and> depth' \<le> length (steps bt)"
proof (induction bt idx depth rule: get_step.induct)
  case (1 bt idx depth)
  from 1(2) have d: "depth < length (steps bt)" by (subst (asm) get_step.simps) (simp split: if_splits)
  show ?case
  proof (cases "bt_len bt \<le> idx + steps bt ! depth")
    case True
    with d 1(2) have "get_step bt idx (Suc depth) = Some (step, depth')" by (subst (asm) get_step.simps) simp
    from 1(1) [OF d refl True this] show ?thesis by simp
  next
    case False
    with d 1(2) show ?thesis by (subst (asm) get_step.simps) simp
  qed
qed

lemma get_step_mem: "get_step bt idx depth = Some (step, depth') \<Longrightarrow> step \<in> set (steps bt)"
proof (induction bt idx depth rule: get_step.induct)
  case (1 bt idx depth)
  from 1(2) have d: "depth < length (steps bt)" by (subst (asm) get_step.simps) (simp split: if_splits)
  show ?case
  proof (cases "bt_len bt \<le> idx + steps bt ! depth")
    case True
    with d 1(2) have "get_step bt idx (Suc depth) = Some (step, depth')" by (subst (asm) get_step.simps) simp
    from 1(1) [OF d refl True this] show ?thesis .
  next
    case False
    with d 1(2) show ?thesis by (subst (asm) get_step.simps) auto
  qed
qed

function (sequential) get_resulting_node ::
    "u64 list \<Rightarrow> BiomeTree \<Rightarrow> nat \<Rightarrow> nat \<Rightarrow> u64 \<Rightarrow> nat \<Rightarrow> nat option"
  and children_loop ::
    "u64 list \<Rightarrow> BiomeTree \<Rightarrow> nat \<Rightarrow> nat \<Rightarrow> nat \<Rightarrow> nat \<Rightarrow> nat \<Rightarrow> u64 \<Rightarrow> nat option" where
  "get_resulting_node np bt idx alt ds depth =
     (if \<not> depth < length (steps bt) then None
      else if steps bt ! depth = 0 then Some idx
      else case get_step bt idx depth of
          None \<Rightarrow> None
        | Some (step, depth') \<Rightarrow>
            if idx < bt_len bt
            then children_loop np bt step depth' (order bt) (nodes bt ! idx div 2 ^ 48 mod 2 ^ 16) alt ds
            else None)"
| "children_loop np bt step depth 0 inner leaf ds = Some leaf"
| "children_loop np bt step depth (Suc n) inner leaf ds =
     (case get_np_dist np bt inner of
        None \<Rightarrow> None
      | Some ds_inner \<Rightarrow>
          (case (if ds_inner < ds
                 then (case get_resulting_node np bt inner leaf ds depth of
                         None \<Rightarrow> None
                       | Some leaf2 \<Rightarrow>
                           (case (if inner = leaf2 then Some ds_inner else get_np_dist np bt leaf2) of
                              None \<Rightarrow> None
                            | Some ds_leaf2 \<Rightarrow> if ds_leaf2 < ds then Some (leaf2, ds_leaf2) else Some (leaf, ds)))
                 else Some (leaf, ds)) of
             None \<Rightarrow> None
           | Some (leaf', ds') \<Rightarrow>
               let inner' = (inner + step) mod 2 ^ 16
               in if bt_len bt \<le> inner' then Some leaf' else children_loop np bt step depth n inner' leaf' ds'))"
  by pat_completeness auto
termination
proof (relation "measures [(\<lambda>x. case x of Inl (np, bt, idx, alt, ds, depth) \<Rightarrow> length (steps bt) - depth
      | Inr (np, bt, step, depth, n, inner, leaf, ds) \<Rightarrow> length (steps bt) - depth),
    (\<lambda>x. case x of Inl _ \<Rightarrow> 0 | Inr (np, bt, step, depth, n, inner, leaf, ds) \<Rightarrow> n)]", goal_cases)
  case (2 np bt idx alt ds depth y step depth')
  then show ?case using get_step_depth [of bt idx depth step depth'] by auto
qed auto

declare get_resulting_node.simps [simp del] children_loop.simps [simp del]

subsection \<open>The distance\<close>

definition axis_gap :: "int \<Rightarrow> int \<times> int \<Rightarrow> int" where
  "axis_gap v lim = max 0 (max (v - snd lim) (fst lim - v))"

definition node_box :: "BiomeTree \<Rightarrow> nat \<Rightarrow> nat \<Rightarrow> (int \<times> int) option" where
  "node_box bt node i =
     (let idx = node div 2 ^ (8 * i) mod 256 in if idx < length (param bt) then Some (param bt ! idx) else None)"

text \<open>The squared distance of a climate from the box of a node, over the integers.\<close>

definition ndist :: "u64 list \<Rightarrow> BiomeTree \<Rightarrow> nat \<Rightarrow> int" where
  "ndist np bt idx = (\<Sum>i<6. (axis_gap (sint (np ! i)) (the (node_box bt (nodes bt ! idx) i)))\<^sup>2)"

text \<open>Climates in this range keep the 64-bit arithmetic exact.\<close>

definition np_ok :: "u64 list \<Rightarrow> bool" where
  "np_ok np \<longleftrightarrow> length np = 6 \<and> (\<forall>v \<in> set np. \<bar>sint v\<bar> \<le> 2 ^ 29)"

definition param_ok :: "BiomeTree \<Rightarrow> bool" where
  "param_ok bt \<longleftrightarrow> (\<forall>(l, h) \<in> set (param bt). - (2 ^ 29) \<le> l \<and> l \<le> h \<and> h \<le> 2 ^ 29)"

lemma sint_of_int_small: "\<bar>x\<bar> < 2 ^ 63 \<Longrightarrow> sint (word_of_int x :: u64) = x"
  by (subst signed_of_int) (simp add: signed_take_bit_int_eq_self abs_less_iff)

lemma axis_dist_gap:
  assumes "\<bar>sint v\<bar> \<le> 2 ^ 29" "- (2 ^ 29) \<le> l" "l \<le> h" "h \<le> 2 ^ 29"
  shows "axis_dist v (l, h) = of_int ((axis_gap (sint v) (l, h))\<^sup>2)"
proof -
  have v: "v = word_of_int (sint v)" by simp
  have a: "sint (v - of_int h) = sint v - h" and b: "sint (of_int l - v) = l - sint v"
    using assms sint_of_int_small [of "sint v - h"] sint_of_int_small [of "l - sint v"] by simp_all
  have "v - of_int h = of_int (sint v - h)" "of_int l - v = of_int (l - sint v)" by simp_all
  then show ?thesis
    unfolding axis_dist_def Let_def fst_conv snd_conv a b
    using assms(3) by (auto simp: axis_gap_def max_def power2_eq_square)
qed

lemma axis_gap_bounds:
  assumes "\<bar>v\<bar> \<le> 2 ^ 29" "- (2 ^ 29) \<le> l" "l \<le> h" "h \<le> 2 ^ 29"
  shows "(axis_gap v (l, h))\<^sup>2 \<le> 2 ^ 60"
proof -
  have "0 \<le> axis_gap v (l, h)" "axis_gap v (l, h) \<le> 2 ^ 30" using assms by (auto simp: axis_gap_def)
  then have "(axis_gap v (l, h))\<^sup>2 \<le> (2 ^ 30)\<^sup>2" by (intro power_mono)
  then show ?thesis by simp
qed

lemma axis_gap_mono: "l \<le> l' \<Longrightarrow> h' \<le> h \<Longrightarrow> (axis_gap v (l, h))\<^sup>2 \<le> (axis_gap v (l', h'))\<^sup>2"
  by (rule power_mono) (auto simp: axis_gap_def)

lemma np_dist_loop_eq:
  assumes "np_ok np" "param_ok bt" and "\<forall>i \<in> set is. i < 6 \<and> node_box bt node i \<noteq> None"
  shows "np_dist_loop np bt node is ds =
    Some (ds + of_int (\<Sum>i\<leftarrow>is. (axis_gap (sint (np ! i)) (the (node_box bt node i)))\<^sup>2))"
  using assms(3)
proof (induction "is" arbitrary: ds)
  case (Cons i "is")
  let ?j = "node div 2 ^ (8 * i) mod 256"
  have j: "?j < length (param bt)" "node_box bt node i = Some (param bt ! ?j)"
    using Cons.prems by (auto simp: node_box_def Let_def split: if_splits)
  obtain l h where lh: "param bt ! ?j = (l, h)" by fastforce
  have "(l, h) \<in> set (param bt)" using j(1) lh by (metis nth_mem)
  then have "- (2 ^ 29) \<le> l" "l \<le> h" "h \<le> 2 ^ 29" using assms(2) by (auto simp: param_ok_def)
  moreover have "\<bar>sint (np ! i)\<bar> \<le> 2 ^ 29" using assms(1) Cons.prems by (simp add: np_ok_def)
  ultimately have d: "axis_dist (np ! i) (l, h) = of_int ((axis_gap (sint (np ! i)) (l, h))\<^sup>2)"
    by (intro axis_dist_gap)
  show ?case using Cons.IH [of "ds + axis_dist (np ! i) (l, h)"] Cons.prems j
    by (simp add: Let_def lh d)
qed simp

lemma ndist_bounds:
  assumes "np_ok np" "param_ok bt" "\<forall>i < 6. node_box bt (nodes bt ! idx) i \<noteq> None"
  shows "0 \<le> ndist np bt idx" "ndist np bt idx < 2 ^ 63"
proof -
  have "(axis_gap (sint (np ! i)) (the (node_box bt (nodes bt ! idx) i)))\<^sup>2 \<le> 2 ^ 60" if "i < 6" for i
  proof -
    from assms(3) that have "node_box bt (nodes bt ! idx) i \<noteq> None" by blast
    then obtain l h where lh: "node_box bt (nodes bt ! idx) i = Some (l, h)" by auto
    then have "(l, h) \<in> set (param bt)" by (auto simp: node_box_def Let_def split: if_splits) (metis nth_mem)
    then have "- (2 ^ 29) \<le> l" "l \<le> h" "h \<le> 2 ^ 29" using assms(2) unfolding param_ok_def by blast+
    moreover have "\<bar>sint (np ! i)\<bar> \<le> 2 ^ 29" using assms(1) that by (simp add: np_ok_def)
    ultimately show ?thesis unfolding lh option.sel by (intro axis_gap_bounds)
  qed
  then have "ndist np bt idx \<le> (\<Sum>i\<in>{..<6::nat}. 2 ^ 60)" unfolding ndist_def by (intro sum_mono) simp
  also have "\<dots> < 2 ^ 63" by simp
  finally show "ndist np bt idx < 2 ^ 63" .
qed (simp add: ndist_def sum_nonneg)

lemma get_np_dist_eq:
  assumes "np_ok np" "param_ok bt" "idx < bt_len bt" "\<forall>i < 6. node_box bt (nodes bt ! idx) i \<noteq> None"
  shows "\<exists>d. get_np_dist np bt idx = Some d \<and> uint d = ndist np bt idx"
proof -
  have "get_np_dist np bt idx = Some (of_int (ndist np bt idx))"
    using assms np_dist_loop_eq [OF assms(1,2), of "[0..<6]" "nodes bt ! idx" 0]
    by (simp add: get_np_dist_def ndist_def interv_sum_list_conv_sum_set_nat atLeast0LessThan)
  moreover have "uint (of_int (ndist np bt idx) :: u64) = ndist np bt idx"
    using ndist_bounds [OF assms(1,2,4)] by (simp add: uint_word_of_int take_bit_int_eq_self)
  ultimately show ?thesis by blast
qed

subsection \<open>The search\<close>

definition inner_of :: "BiomeTree \<Rightarrow> nat \<Rightarrow> nat" where
  "inner_of bt idx = nodes bt ! idx div 2 ^ 48 mod 2 ^ 16"

text \<open>The calls of the search, whatever the climate: node and depth.\<close>

inductive visits :: "BiomeTree \<Rightarrow> nat \<Rightarrow> nat \<Rightarrow> bool" for bt where
  root: "visits bt 0 0"
| child: "visits bt idx depth \<Longrightarrow> depth < length (steps bt) \<Longrightarrow> steps bt ! depth \<noteq> 0 \<Longrightarrow>
    get_step bt idx depth = Some (step, depth') \<Longrightarrow> k < order bt \<Longrightarrow>
    inner_of bt idx + k * step < bt_len bt \<Longrightarrow> visits bt (inner_of bt idx + k * step) depth'"

definition box_within :: "BiomeTree \<Rightarrow> nat \<Rightarrow> nat \<Rightarrow> bool" where
  "box_within bt c p \<longleftrightarrow> (\<forall>i < 6. \<exists>l h l' h'. node_box bt (nodes bt ! p) i = Some (l, h) \<and>
     node_box bt (nodes bt ! c) i = Some (l', h') \<and> l \<le> l' \<and> h' \<le> h)"

inductive leaf_under :: "BiomeTree \<Rightarrow> nat \<Rightarrow> nat \<Rightarrow> nat \<Rightarrow> bool" for bt where
  leaf: "depth < length (steps bt) \<Longrightarrow> steps bt ! depth = 0 \<Longrightarrow> leaf_under bt idx depth idx"
| below: "depth < length (steps bt) \<Longrightarrow> steps bt ! depth \<noteq> 0 \<Longrightarrow> get_step bt idx depth = Some (step, depth') \<Longrightarrow>
    k < order bt \<Longrightarrow> inner_of bt idx + k * step < bt_len bt \<Longrightarrow>
    leaf_under bt (inner_of bt idx + k * step) depth' m \<Longrightarrow> leaf_under bt idx depth m"

text \<open>The leaves of the tree.\<close>

definition leaves :: "BiomeTree \<Rightarrow> nat set" where
  "leaves bt = {m. leaf_under bt 0 0 m}"

locale biome_tree =
  fixes bt :: BiomeTree
  assumes order_pos: "0 < order bt"
    and param_ok: "param_ok bt"
    and u16: "\<forall>s \<in> set (steps bt). bt_len bt + s \<le> 2 ^ 16"
    and visit_range: "visits bt idx depth \<Longrightarrow> idx < bt_len bt \<and> depth < length (steps bt)"
    and visit_box: "visits bt idx depth \<Longrightarrow> i < 6 \<Longrightarrow> node_box bt (nodes bt ! idx) i \<noteq> None"
    and visit_step: "visits bt idx depth \<Longrightarrow> steps bt ! depth \<noteq> 0 \<Longrightarrow>
      \<exists>step depth'. get_step bt idx depth = Some (step, depth') \<and> 0 < inner_of bt idx \<and> inner_of bt idx < bt_len bt"
    and visit_within: "visits bt idx depth \<Longrightarrow> idx \<noteq> 0 \<Longrightarrow> steps bt ! depth \<noteq> 0 \<Longrightarrow>
      get_step bt idx depth = Some (step, depth') \<Longrightarrow> k < order bt \<Longrightarrow> inner_of bt idx + k * step < bt_len bt \<Longrightarrow>
      box_within bt (inner_of bt idx + k * step) idx"
begin

lemma dist_eq:
  assumes "np_ok np" "visits bt idx depth"
  shows "\<exists>d. get_np_dist np bt idx = Some d \<and> uint d = ndist np bt idx"
  using get_np_dist_eq [OF assms(1) param_ok] visit_range [OF assms(2)] visit_box [OF assms(2)] by blast

lemma visit_child:
  assumes "visits bt idx depth" "steps bt ! depth \<noteq> 0" "get_step bt idx depth = Some (step, depth')"
    and "k < order bt" "inner_of bt idx + k * step < bt_len bt"
  shows "visits bt (inner_of bt idx + k * step) depth'"
  using assms visit_range [OF assms(1)] by (blast intro: visits.child)

lemma visit_first_child:
  assumes "visits bt idx depth" "steps bt ! depth \<noteq> 0"
  obtains step depth' where "get_step bt idx depth = Some (step, depth')" "inner_of bt idx < bt_len bt"
    "visits bt (inner_of bt idx) depth'"
  using visit_step [OF assms] visit_child [OF assms, of _ _ 0] order_pos by auto

text \<open>A leaf below a visited node is a visited leaf, and no nearer than the node.\<close>

lemma within_ndist:
  assumes "box_within bt c p"
  shows "ndist np bt p \<le> ndist np bt c"
  unfolding ndist_def
proof (rule sum_mono)
  fix i :: nat assume "i \<in> {..<6}"
  with assms obtain l h l' h' where "node_box bt (nodes bt ! p) i = Some (l, h)"
    "node_box bt (nodes bt ! c) i = Some (l', h')" "l \<le> l'" "h' \<le> h"
    unfolding box_within_def by blast
  then show "(axis_gap (sint (np ! i)) (the (node_box bt (nodes bt ! p) i)))\<^sup>2
      \<le> (axis_gap (sint (np ! i)) (the (node_box bt (nodes bt ! c) i)))\<^sup>2"
    by (simp add: axis_gap_mono)
qed

lemma leaf_under_visited:
  assumes "leaf_under bt idx depth m" "visits bt idx depth"
  shows "\<exists>d. visits bt m d \<and> steps bt ! d = 0"
  using assms by (induction rule: leaf_under.induct) (auto intro: visit_child)

lemma leaf_under_ndist:
  assumes "leaf_under bt idx depth m" "visits bt idx depth" "idx \<noteq> 0"
  shows "ndist np bt idx \<le> ndist np bt m"
  using assms
proof (induction rule: leaf_under.induct)
  case (below depth idx step depth' k m)
  have w: "box_within bt (inner_of bt idx + k * step) idx" using below by (blast intro: visit_within)
  have v: "visits bt (inner_of bt idx + k * step) depth'" using below by (blast intro: visit_child)
  have "0 < inner_of bt idx" using visit_step below by blast
  then show ?case using within_ndist [OF w, of np] below.IH [OF v] by simp
qed simp

lemma leaf_exists:
  assumes "visits bt idx depth"
  shows "\<exists>m. leaf_under bt idx depth m"
  using assms
proof (induction "length (steps bt) - depth" arbitrary: idx depth rule: less_induct)
  case less
  note r = visit_range [OF less.prems]
  show ?case
  proof (cases "steps bt ! depth = 0")
    case True
    then show ?thesis using r by (blast intro: leaf_under.leaf)
  next
    case False
    from visit_first_child [OF less.prems False] obtain step depth' where
      s: "get_step bt idx depth = Some (step, depth')" "inner_of bt idx < bt_len bt" "visits bt (inner_of bt idx) depth'" .
    from less.hyps [OF _ s(3)] get_step_depth [OF s(1)] r obtain m where "leaf_under bt (inner_of bt idx) depth' m" by force
    then show ?thesis using leaf_under.below [OF _ False s(1) order_pos, of m] r s(2) by auto
  qed
qed

text \<open>
  The bound of the search: either still the initial value \<open>-1\<close>, or the distance of the node that
  goes with it, a leaf or the node of the hint.
\<close>

definition good_bound :: "u64 list \<Rightarrow> nat \<Rightarrow> u64 \<Rightarrow> bool" where
  "good_bound np alt ds \<longleftrightarrow> ds = - 1 \<or> ((\<exists>d. visits bt alt d) \<and> uint ds = ndist np bt alt)"

text \<open>What a search among the nodes in \<open>M\<close> returns.\<close>

definition nearest_or :: "u64 list \<Rightarrow> nat set \<Rightarrow> nat \<Rightarrow> u64 \<Rightarrow> nat \<Rightarrow> bool" where
  "nearest_or np M alt ds r \<longleftrightarrow>
     (r \<in> M \<and> ndist np bt r < uint ds \<and> (\<forall>m \<in> M. ndist np bt r \<le> ndist np bt m)) \<or>
     (r = alt \<and> (\<forall>m \<in> M. uint ds \<le> ndist np bt m))"

lemma ndist_less_max: "np_ok np \<Longrightarrow> visits bt m d \<Longrightarrow> ndist np bt m < uint (- 1 :: u64)"
  using ndist_bounds(2) [of np bt m] param_ok visit_box by (fastforce simp: unsigned_minus_1_eq_mask mask_eq_exp_minus_1)

text \<open>One child in the loop: the pair of leaf and bound that the loop keeps after it.\<close>

lemma child_step:
  assumes np: "np_ok np" and v: "visits bt c d" "c \<noteq> 0" and g: "good_bound np leaf ds"
    and IH: "\<And>alt ds. good_bound np alt ds \<Longrightarrow> (steps bt ! d = 0 \<Longrightarrow> ndist np bt c < uint ds) \<Longrightarrow>
      \<exists>r. get_resulting_node np bt c alt ds d = Some r \<and> nearest_or np {m. leaf_under bt c d m} alt ds r"
    and di: "get_np_dist np bt c = Some ds_inner"
  shows "\<exists>leaf' ds'. (if ds_inner < ds
       then (case get_resulting_node np bt c leaf ds d of None \<Rightarrow> None
             | Some leaf2 \<Rightarrow>
                 (case (if c = leaf2 then Some ds_inner else get_np_dist np bt leaf2) of None \<Rightarrow> None
                  | Some ds_leaf2 \<Rightarrow> if ds_leaf2 < ds then Some (leaf2, ds_leaf2) else Some (leaf, ds)))
       else Some (leaf, ds)) = Some (leaf', ds') \<and> good_bound np leaf' ds' \<and>
     (leaf' = leaf \<and> ds' = ds \<and> (\<forall>m. leaf_under bt c d m \<longrightarrow> uint ds \<le> ndist np bt m) \<or>
      leaf_under bt c d leaf' \<and> uint ds' = ndist np bt leaf' \<and> uint ds' < uint ds \<and>
      (\<forall>m. leaf_under bt c d m \<longrightarrow> uint ds' \<le> ndist np bt m))"
proof -
  have di': "uint ds_inner = ndist np bt c" using dist_eq [OF np v(1)] di by auto
  show ?thesis
  proof (cases "ds_inner < ds")
    case False
    then have "uint ds \<le> ndist np bt m" if "leaf_under bt c d m" for m
      using leaf_under_ndist [OF that v, of np] di' by (simp add: word_less_def)
    with False g show ?thesis by auto
  next
    case True
    then have lt: "ndist np bt c < uint ds" using di' by (simp add: word_less_def)
    obtain r where r: "get_resulting_node np bt c leaf ds d = Some r"
      "nearest_or np {m. leaf_under bt c d m} leaf ds r" using IH [OF g lt] by blast
    show ?thesis
    proof (cases "leaf_under bt c d r \<and> ndist np bt r < uint ds \<and> (\<forall>m. leaf_under bt c d m \<longrightarrow> ndist np bt r \<le> ndist np bt m)")
      case near: True
      then obtain e where e: "visits bt r e" "steps bt ! e = 0" using leaf_under_visited v by blast
      obtain dr where dr: "get_np_dist np bt r = Some dr" "uint dr = ndist np bt r" using dist_eq [OF np e(1)] by blast
      have "(if c = r then Some ds_inner else get_np_dist np bt r) = Some dr" using dr(1) di by auto
      moreover have "dr < ds" using near dr(2) by (simp add: word_less_def)
      moreover have "good_bound np r dr" unfolding good_bound_def using e dr(2) by blast
      ultimately show ?thesis using True r(1) near dr(2) by auto
    next
      case False
      then have ra: "r = leaf" and far: "\<forall>m. leaf_under bt c d m \<longrightarrow> uint ds \<le> ndist np bt m"
        using r(2) unfolding nearest_or_def by auto
      obtain m where m: "leaf_under bt c d m" using leaf_exists [OF v(1)] by blast
      then obtain e where "visits bt m e" using leaf_under_visited v(1) by blast
      then have "ds \<noteq> - 1" using far m ndist_less_max [OF np] by force
      then obtain e where e: "visits bt leaf e" "uint ds = ndist np bt leaf"
        using g unfolding good_bound_def by blast
      obtain dr where dr: "get_np_dist np bt leaf = Some dr" "uint dr = ndist np bt leaf" using dist_eq [OF np e(1)] by blast
      have "(if c = r then Some ds_inner else get_np_dist np bt r) = Some dr" using dr(1) di ra by auto
      moreover have "\<not> dr < ds" using e(2) dr(2) by (simp add: word_less_def)
      ultimately show ?thesis using True r(1) far g by auto
    qed
  qed
qed

text \<open>The loop over the children from number \<open>k\<close> on.\<close>

definition leaves_from :: "nat \<Rightarrow> nat \<Rightarrow> nat \<Rightarrow> nat \<Rightarrow> nat set" where
  "leaves_from idx step depth' k =
     {m. \<exists>j. k \<le> j \<and> j < order bt \<and> inner_of bt idx + j * step < bt_len bt \<and>
        leaf_under bt (inner_of bt idx + j * step) depth' m}"

lemma leaves_from_step:
  assumes "k < order bt" "inner_of bt idx + k * step < bt_len bt"
  shows "leaves_from idx step depth' k =
    {m. leaf_under bt (inner_of bt idx + k * step) depth' m} \<union> leaves_from idx step depth' (Suc k)"
proof (intro set_eqI iffI)
  fix m assume "m \<in> leaves_from idx step depth' k"
  then obtain j where j: "k \<le> j" "j < order bt" "inner_of bt idx + j * step < bt_len bt"
    "leaf_under bt (inner_of bt idx + j * step) depth' m" unfolding leaves_from_def by blast
  then show "m \<in> {m. leaf_under bt (inner_of bt idx + k * step) depth' m} \<union> leaves_from idx step depth' (Suc k)"
    unfolding leaves_from_def by (cases "j = k") auto
next
  fix m assume "m \<in> {m. leaf_under bt (inner_of bt idx + k * step) depth' m} \<union> leaves_from idx step depth' (Suc k)"
  then show "m \<in> leaves_from idx step depth' k"
    unfolding leaves_from_def using assms by (auto dest: Suc_leD)
qed

lemma leaves_from_end:
  assumes "bt_len bt \<le> inner_of bt idx + k * step"
  shows "leaves_from idx step depth' k = {}"
proof -
  have "\<not> inner_of bt idx + j * step < bt_len bt" if "k \<le> j" for j
    using that assms mult_le_mono1 [OF that, of step] by linarith
  then show ?thesis unfolding leaves_from_def by blast
qed

lemma nearest_or_step:
  assumes "nearest_or np N leaf' ds' r" and
    "(leaf' = leaf \<and> ds' = ds \<and> (\<forall>m \<in> M. uint ds \<le> ndist np bt m) \<or>
      leaf' \<in> M \<and> uint ds' = ndist np bt leaf' \<and> uint ds' < uint ds \<and> (\<forall>m \<in> M. uint ds' \<le> ndist np bt m))"
  shows "nearest_or np (M \<union> N) leaf ds r"
  using assms unfolding nearest_or_def by (elim disjE conjE) (auto 4 4)

lemma children_loop_ok:
  assumes np: "np_ok np" and v: "visits bt idx depth" and s: "steps bt ! depth \<noteq> 0" "get_step bt idx depth = Some (step, depth')"
    and IH: "\<And>c alt ds. visits bt c depth' \<Longrightarrow> good_bound np alt ds \<Longrightarrow> (steps bt ! depth' = 0 \<Longrightarrow> ndist np bt c < uint ds) \<Longrightarrow>
      \<exists>r. get_resulting_node np bt c alt ds depth' = Some r \<and> nearest_or np {m. leaf_under bt c depth' m} alt ds r"
    and "k + n = order bt" "inner_of bt idx + k * step < bt_len bt" "good_bound np leaf ds"
  shows "\<exists>r. children_loop np bt step depth' n (inner_of bt idx + k * step) leaf ds = Some r \<and>
    nearest_or np (leaves_from idx step depth' k) leaf ds r"
  using assms(6-8)
proof (induction n arbitrary: k leaf ds)
  case 0
  then show ?case by (auto simp: children_loop.simps nearest_or_def leaves_from_def)
next
  case (Suc n)
  let ?c = "inner_of bt idx + k * step" and ?M = "{m. leaf_under bt (inner_of bt idx + k * step) depth' m}"
  have k: "k < order bt" using Suc.prems by simp
  have c: "visits bt ?c depth'" "?c \<noteq> 0" using visit_child [OF v s k Suc.prems(2)] visit_step [OF v s(1)] by auto
  obtain ds_inner where di: "get_np_dist np bt ?c = Some ds_inner" using dist_eq [OF np c(1)] by blast
  from child_step [OF np c Suc.prems(3) IH [OF c(1)] di] obtain leaf' ds' where
    st: "(if ds_inner < ds
       then (case get_resulting_node np bt ?c leaf ds depth' of None \<Rightarrow> None
             | Some leaf2 \<Rightarrow>
                 (case (if ?c = leaf2 then Some ds_inner else get_np_dist np bt leaf2) of None \<Rightarrow> None
                  | Some ds_leaf2 \<Rightarrow> if ds_leaf2 < ds then Some (leaf2, ds_leaf2) else Some (leaf, ds)))
       else Some (leaf, ds)) = Some (leaf', ds')"
    and g: "good_bound np leaf' ds'"
    and upd: "leaf' = leaf \<and> ds' = ds \<and> (\<forall>m \<in> ?M. uint ds \<le> ndist np bt m) \<or>
      leaf' \<in> ?M \<and> uint ds' = ndist np bt leaf' \<and> uint ds' < uint ds \<and> (\<forall>m \<in> ?M. uint ds' \<le> ndist np bt m)"
    by auto
  have "?c + step < 2 ^ 16" using u16 get_step_mem [OF s(2)] Suc.prems(2) by fastforce
  then have nx: "(?c + step) mod 2 ^ 16 = inner_of bt idx + Suc k * step" by simp
  have eq: "children_loop np bt step depth' (Suc n) ?c leaf ds =
      (if bt_len bt \<le> inner_of bt idx + Suc k * step then Some leaf'
       else children_loop np bt step depth' n (inner_of bt idx + Suc k * step) leaf' ds')"
    unfolding children_loop.simps(2) di option.case st prod.case Let_def nx ..
  note lf = leaves_from_step [OF k Suc.prems(2)]
  show ?case
  proof (cases "bt_len bt \<le> inner_of bt idx + Suc k * step")
    case True
    then have "nearest_or np (leaves_from idx step depth' (Suc k)) leaf' ds' leaf'"
      by (simp add: leaves_from_end nearest_or_def)
    from nearest_or_step [OF this upd] show ?thesis unfolding eq lf using True by simp
  next
    case False
    then obtain r where r: "children_loop np bt step depth' n (inner_of bt idx + Suc k * step) leaf' ds' = Some r"
      "nearest_or np (leaves_from idx step depth' (Suc k)) leaf' ds' r"
      using Suc.IH [of "Suc k" leaf' ds'] Suc.prems(1) g by auto
    from nearest_or_step [OF r(2) upd] show ?thesis unfolding eq lf using False r(1) by simp
  qed
qed

lemma leaves_from_0:
  assumes "depth < length (steps bt)" "steps bt ! depth \<noteq> 0" "get_step bt idx depth = Some (step, depth')"
  shows "leaves_from idx step depth' 0 = {m. leaf_under bt idx depth m}"
proof -
  have "leaf_under bt idx depth m \<longleftrightarrow> (\<exists>j < order bt. inner_of bt idx + j * step < bt_len bt \<and>
      leaf_under bt (inner_of bt idx + j * step) depth' m)" for m
    using assms by (subst leaf_under.simps) auto
  then show ?thesis unfolding leaves_from_def by auto
qed

lemma search_ok:
  assumes np: "np_ok np"
  shows "visits bt idx depth \<Longrightarrow> good_bound np alt ds \<Longrightarrow> (steps bt ! depth = 0 \<Longrightarrow> ndist np bt idx < uint ds) \<Longrightarrow>
    \<exists>r. get_resulting_node np bt idx alt ds depth = Some r \<and> nearest_or np {m. leaf_under bt idx depth m} alt ds r"
proof (induction "length (steps bt) - depth" arbitrary: idx depth alt ds rule: less_induct)
  case less
  note r = visit_range [OF less.prems(1)]
  show ?case
  proof (cases "steps bt ! depth = 0")
    case True
    then have "{m. leaf_under bt idx depth m} = {idx}" using r by (auto intro: leaf_under.leaf elim: leaf_under.cases)
    with True r less.prems show ?thesis by (auto simp: get_resulting_node.simps nearest_or_def)
  next
    case False
    from visit_first_child [OF less.prems(1) False] obtain step depth' where
      s: "get_step bt idx depth = Some (step, depth')" "inner_of bt idx < bt_len bt" "visits bt (inner_of bt idx) depth'" .
    have "length (steps bt) - depth' < length (steps bt) - depth" using get_step_depth [OF s(1)] r by linarith
    from children_loop_ok [OF np less.prems(1) False s(1) less.hyps [OF this], of 0 "order bt" alt ds] s(2) less.prems(2)
    show ?thesis using False r
      by (simp add: get_resulting_node.simps [of np bt idx] s(1) inner_of_def leaves_from_0 [OF _ False s(1)])
  qed
qed

end

subsection \<open>A linear check of the arrays\<close>

text \<open>
  The nodes are stored in the order of a depth-first walk. The check walks along the array with a
  stack of frames, one for each ancestor of the next node: the boxes of the ancestor, the index of
  its next child, the number of its children so far, its step and the depth of its children.
\<close>

type_synonym frame = "(int \<times> int) option list \<times> nat \<times> nat \<times> nat \<times> nat"

definition boxes :: "BiomeTree \<Rightarrow> nat \<Rightarrow> (int \<times> int) option list" where
  "boxes bt node = map (node_box bt node) [0..<6]"

fun fits :: "(int \<times> int) option list \<Rightarrow> (int \<times> int) option list \<Rightarrow> bool" where
  "fits [] cs = list_all (\<lambda>c. c \<noteq> None) cs"
| "fits (Some (l, h) # ps) (Some (l', h') # cs) = (l \<le> l' \<and> h' \<le> h \<and> fits ps cs)"
| "fits _ _ = False"

fun drop_done :: "BiomeTree \<Rightarrow> frame list \<Rightarrow> frame list" where
  "drop_done bt [] = []"
| "drop_done bt ((b, e, c, s, d) # fs) =
     (if c = order bt \<or> bt_len bt \<le> e then drop_done bt fs else (b, e, c, s, d) # fs)"

fun check_nodes :: "BiomeTree \<Rightarrow> frame list \<Rightarrow> nat \<Rightarrow> nat list \<Rightarrow> (frame list \<times> nat) option" where
  "check_nodes bt fs i [] = Some (fs, i)"
| "check_nodes bt [] i (n # ns) = None"
| "check_nodes bt ((b, e, c, s, d) # fs) i (n # ns) =
     (if i = e \<and> fits b (boxes bt n)
      then if steps bt ! d = 0 then check_nodes bt (drop_done bt ((b, e + s, c + 1, s, d) # fs)) (i + 1) ns
           else case get_step bt i d of
                  None \<Rightarrow> None
                | Some (s', d') \<Rightarrow>
                    if n div 2 ^ 48 = i + 1 \<and> i + 1 < 65536 \<and> i + 1 < bt_len bt \<and> d' < length (steps bt)
                    then check_nodes bt ((boxes bt n, i + 1, 0, s', d') # (b, e + s, c + 1, s, d) # fs) (i + 1) ns
                    else None
      else None)"

text \<open>The invariant of the walk, for an assignment \<open>D\<close> of depths to the nodes.\<close>

definition child_ok :: "BiomeTree \<Rightarrow> (nat \<Rightarrow> nat) \<Rightarrow> nat \<Rightarrow> nat \<Rightarrow> nat \<Rightarrow> nat \<Rightarrow> bool" where
  "child_ok bt D i j d c \<longleftrightarrow> c < i \<and> D c = d \<and> (j \<noteq> 0 \<longrightarrow> box_within bt c j)"

definition opened :: "BiomeTree \<Rightarrow> (nat \<Rightarrow> nat) \<Rightarrow> nat \<Rightarrow> nat \<Rightarrow> nat \<Rightarrow> bool" where
  "opened bt D j s d \<longleftrightarrow> D j < length (steps bt) \<and> steps bt ! D j \<noteq> 0 \<and> get_step bt j (D j) = Some (s, d) \<and>
     d < length (steps bt) \<and> 0 < inner_of bt j \<and> inner_of bt j < bt_len bt"

definition frame_ok :: "BiomeTree \<Rightarrow> (nat \<Rightarrow> nat) \<Rightarrow> nat \<Rightarrow> frame \<Rightarrow> nat \<Rightarrow> bool" where
  "frame_ok bt D i f j \<longleftrightarrow> (case f of (b, e, c, s, d) \<Rightarrow>
     j < i \<and> opened bt D j s d \<and> e = inner_of bt j + c * s \<and>
     b = (if j = 0 then [] else boxes bt (nodes bt ! j)) \<and> (\<forall>k < c. child_ok bt D i j d (inner_of bt j + k * s)))"

definition closed_ok :: "BiomeTree \<Rightarrow> (nat \<Rightarrow> nat) \<Rightarrow> nat \<Rightarrow> nat \<Rightarrow> bool" where
  "closed_ok bt D i j \<longleftrightarrow> D j < length (steps bt) \<and> (steps bt ! D j = 0 \<or>
     (\<exists>s d. opened bt D j s d \<and>
        (\<forall>k < order bt. inner_of bt j + k * s < bt_len bt \<longrightarrow> child_ok bt D i j d (inner_of bt j + k * s))))"

definition walk_inv :: "BiomeTree \<Rightarrow> (nat \<Rightarrow> nat) \<Rightarrow> nat \<Rightarrow> frame list \<Rightarrow> nat list \<Rightarrow> bool" where
  "walk_inv bt D i fs js \<longleftrightarrow> list_all2 (frame_ok bt D i) fs js \<and> D 0 = 0 \<and>
     (\<forall>j < i. (j \<in> set js \<or> closed_ok bt D i j) \<and> (\<forall>n < 6. node_box bt (nodes bt ! j) n \<noteq> None))"

lemma fits_valid: "fits b cs \<Longrightarrow> length b = 0 \<or> length b = length cs \<Longrightarrow> c \<in> set cs \<Longrightarrow> c \<noteq> None"
  by (induction b cs rule: fits.induct) (auto simp: list_all_iff)

lemma fits_nth: "fits b cs \<Longrightarrow> length b = length cs \<Longrightarrow> i < length cs \<Longrightarrow>
    \<exists>l h l' h'. b ! i = Some (l, h) \<and> cs ! i = Some (l', h') \<and> l \<le> l' \<and> h' \<le> h"
proof (induction b cs arbitrary: i rule: fits.induct)
  case (2 l h ps l' h' cs)
  then show ?case by (cases i) auto
qed auto

lemma nth_boxes: "i < 6 \<Longrightarrow> boxes bt node ! i = node_box bt node i"
  by (simp add: boxes_def)

lemma length_boxes [simp]: "length (boxes bt node) = 6"
  by (simp add: boxes_def)

lemma boxes_valid:
  assumes "fits b (boxes bt n)" "b = [] \<or> length b = 6" "i < 6"
  shows "node_box bt n i \<noteq> None"
proof -
  have "node_box bt n i \<in> set (boxes bt n)" using assms(3) by (auto simp: boxes_def)
  from fits_valid [OF assms(1) _ this] assms(2) show ?thesis by auto
qed

lemma fits_within: "fits (boxes bt (nodes bt ! j)) (boxes bt (nodes bt ! c)) \<Longrightarrow> box_within bt c j"
  unfolding box_within_def using fits_nth [of "boxes bt (nodes bt ! j)" "boxes bt (nodes bt ! c)"]
  by (simp add: nth_boxes)

text \<open>Giving a depth to the next node does not disturb what is known of the earlier ones.\<close>

lemma child_ok_upd: "child_ok bt D i j d c \<Longrightarrow> child_ok bt (D(i := x)) (Suc i) j d c"
  by (auto simp: child_ok_def)

lemma opened_upd: "j < i \<Longrightarrow> opened bt (D(i := x)) j s d = opened bt D j s d"
  by (simp add: opened_def)

lemma frame_ok_upd: "frame_ok bt D i f j \<Longrightarrow> frame_ok bt (D(i := x)) (Suc i) f j"
  by (auto simp: frame_ok_def opened_upd child_ok_upd split: prod.splits)

lemma closed_ok_upd: "j < i \<Longrightarrow> closed_ok bt D i j \<Longrightarrow> closed_ok bt (D(i := x)) (Suc i) j"
  unfolding closed_ok_def by (simp add: opened_upd) (blast intro: child_ok_upd)

lemma frames_upd: "list_all2 (frame_ok bt D i) fs js \<Longrightarrow> list_all2 (frame_ok bt (D(i := x)) (Suc i)) fs js"
  by (erule list_all2_mono) (rule frame_ok_upd)

text \<open>A full frame closes its node.\<close>

lemma frame_closed:
  assumes "frame_ok bt D i (b, e, c, s, d) j" "c = order bt \<or> bt_len bt \<le> e"
  shows "closed_ok bt D i j"
proof -
  have o: "opened bt D j s d" and k: "\<forall>k < c. child_ok bt D i j d (inner_of bt j + k * s)"
    and e: "e = inner_of bt j + c * s" using assms(1) by (auto simp: frame_ok_def)
  have "k < c" if "k < order bt" "inner_of bt j + k * s < bt_len bt" for k
  proof (rule ccontr)
    assume "\<not> k < c"
    then have "c * s \<le> k * s" by simp
    then show False using assms(2) e that \<open>\<not> k < c\<close> by linarith
  qed
  then show ?thesis using o k unfolding closed_ok_def by (auto simp: opened_def)
qed

lemma drop_done_inv:
  assumes "list_all2 (frame_ok bt D i) fs js" "\<forall>j < i. j \<in> set js \<or> closed_ok bt D i j"
  shows "\<exists>js'. list_all2 (frame_ok bt D i) (drop_done bt fs) js' \<and> (\<forall>j < i. j \<in> set js' \<or> closed_ok bt D i j)"
  using assms
proof (induction bt fs arbitrary: js rule: drop_done.induct)
  case (2 bt b e c s d fs)
  then obtain j js' where js: "js = j # js'" "frame_ok bt D i (b, e, c, s, d) j" "list_all2 (frame_ok bt D i) fs js'"
    by (auto simp: list_all2_Cons1)
  show ?case
  proof (cases "c = order bt \<or> bt_len bt \<le> e")
    case True
    have "\<forall>j < i. j \<in> set js' \<or> closed_ok bt D i j"
      using 2(3) js(1) frame_closed [OF js(2) True] by auto
    from 2(1) [OF True js(3) this] True show ?thesis by auto
  next
    case False
    then show ?thesis using 2(2,3) by auto
  qed
qed auto

text \<open>One step of the walk.\<close>

lemma walk_visit:
  assumes inv: "walk_inv bt D i ((b, e, c, s, d) # fs) (j # js)" and i: "i < bt_len bt" "i = e"
    and fit: "fits b (boxes bt (nodes bt ! i))"
  shows "list_all2 (frame_ok bt (D(i := d)) (Suc i)) ((b, e + s, c + 1, s, d) # fs) (j # js)"
    and "\<forall>j' < i. j' \<in> set (j # js) \<or> closed_ok bt (D(i := d)) (Suc i) j'"
    and "\<forall>j' < Suc i. \<forall>n < 6. node_box bt (nodes bt ! j') n \<noteq> None"
    and "d < length (steps bt)" "(D(i := d)) 0 = 0"
proof -
  have f: "frame_ok bt D i (b, e, c, s, d) j" and fs: "list_all2 (frame_ok bt D i) fs js"
    using inv by (auto simp: walk_inv_def)
  have o: "opened bt D j s d" "j < i" "e = inner_of bt j + c * s" "b = (if j = 0 then [] else boxes bt (nodes bt ! j))"
    and k: "\<And>k. k < c \<Longrightarrow> child_ok bt D i j d (inner_of bt j + k * s)"
    using f by (auto simp: frame_ok_def)
  have "child_ok bt (D(i := d)) (Suc i) j d (inner_of bt j + c * s)"
    using o i fit fits_within [of bt j i] by (auto simp: child_ok_def)
  then have "child_ok bt (D(i := d)) (Suc i) j d (inner_of bt j + k * s)" if "k < c + 1" for k
    using k [of k] child_ok_upd [of bt D i j d _ d] that by (cases "k = c") auto
  then have "frame_ok bt (D(i := d)) (Suc i) (b, e + s, c + 1, s, d) j"
    using o by (simp add: frame_ok_def opened_upd)
  with frames_upd [OF fs] show "list_all2 (frame_ok bt (D(i := d)) (Suc i)) ((b, e + s, c + 1, s, d) # fs) (j # js)" by simp
  show "\<forall>j' < i. j' \<in> set (j # js) \<or> closed_ok bt (D(i := d)) (Suc i) j'"
    using inv closed_ok_upd unfolding walk_inv_def by blast
  have "\<forall>n < 6. node_box bt (nodes bt ! i) n \<noteq> None" using boxes_valid [OF fit] o(4) by auto
  then show "\<forall>j' < Suc i. \<forall>n < 6. node_box bt (nodes bt ! j') n \<noteq> None"
    using inv by (auto simp: walk_inv_def less_Suc_eq)
  show "d < length (steps bt)" using o(1) by (simp add: opened_def)
  show "(D(i := d)) 0 = 0" using o(2) inv by (simp add: walk_inv_def)
qed

lemma walk_inv_steps:
  assumes "check_nodes bt fs i ns = Some (fs', i')" "walk_inv bt D i fs js" "drop i (nodes bt) = ns"
  shows "\<exists>D js. walk_inv bt D i' fs' js \<and> i' = i + length ns"
  using assms
proof (induction bt fs i ns arbitrary: D js rule: check_nodes.induct)
  case (1 bt fs i)
  then show ?case by auto
next
  case (3 bt b e c s d fs i n ns)
  from 3(4) obtain j js' where js: "js = j # js'" by (auto simp: walk_inv_def list_all2_Cons1)
  have i: "i < bt_len bt" "nodes bt ! i = n" "drop (i + 1) (nodes bt) = ns"
    using 3(5) by (metis drop_all list.distinct(1) not_le, metis nth_via_drop, metis Suc_eq_plus1 drop_Suc list.sel(3) tl_drop)
  from 3(3) have c: "i = e" "fits b (boxes bt (nodes bt ! i))" by (auto simp: i(2) split: if_splits)
  note w = walk_visit [OF 3(4) [unfolded js] i(1) c]
  show ?case
  proof (cases "steps bt ! d = 0")
    case True
    have "closed_ok bt (D(i := d)) (Suc i) i" using True w(4) by (simp add: closed_ok_def)
    then have "\<forall>j' < Suc i. j' \<in> set (j # js') \<or> closed_ok bt (D(i := d)) (Suc i) j'"
      using w(2) by (auto simp: less_Suc_eq)
    from drop_done_inv [OF w(1) this] obtain ks where
      ks: "walk_inv bt (D(i := d)) (i + 1) (drop_done bt ((b, e + s, c + 1, s, d) # fs)) ks"
      using w(3,5) unfolding walk_inv_def by auto
    have ch: "check_nodes bt (drop_done bt ((b, e + s, c + 1, s, d) # fs)) (i + 1) ns = Some (fs', i')"
      using 3(3) True c i(2) by simp
    have "i = e \<and> fits b (boxes bt n)" using c i(2) by simp
    from 3(1) [OF this True ch ks i(3)] show ?thesis by auto
  next
    case False
    with 3(3) c i(2) obtain s' d' where g: "get_step bt i d = Some (s', d')"
      and q: "n div 2 ^ 48 = i + 1 \<and> i + 1 < 65536 \<and> i + 1 < bt_len bt \<and> d' < length (steps bt)"
      and ch: "check_nodes bt ((boxes bt n, i + 1, 0, s', d') # (b, e + s, c + 1, s, d) # fs) (i + 1) ns = Some (fs', i')"
      by (auto split: option.splits if_splits prod.splits)
    have "i \<noteq> 0" using 3(4) js by (auto simp: walk_inv_def frame_ok_def)
    then have "frame_ok bt (D(i := d)) (Suc i) (boxes bt n, i + 1, 0, s', d') i"
      using False g q w(4) i(2) by (simp add: frame_ok_def opened_def inner_of_def)
    then have "walk_inv bt (D(i := d)) (i + 1) ((boxes bt n, i + 1, 0, s', d') # (b, e + s, c + 1, s, d) # fs) (i # j # js')"
      using w unfolding walk_inv_def by (auto simp: less_Suc_eq)
    from 3(2) [OF _ False g refl q ch this i(3)] c i(2) show ?thesis by auto
  qed
qed simp

text \<open>A successful check gives the laws of the locale.\<close>

definition tree_check :: "BiomeTree \<Rightarrow> bool" where
  "tree_check bt \<longleftrightarrow> 0 < order bt \<and> param_ok bt \<and> (\<forall>s \<in> set (steps bt). bt_len bt + s \<le> 2 ^ 16) \<and>
     nodes bt \<noteq> [] \<and> steps bt \<noteq> [] \<and> steps bt ! 0 \<noteq> 0 \<and> list_all (\<lambda>c. c \<noteq> None) (boxes bt (hd (nodes bt))) \<and>
     (case get_step bt 0 0 of
        None \<Rightarrow> False
      | Some (s, d) \<Rightarrow> hd (nodes bt) div 2 ^ 48 mod 2 ^ 16 = 1 \<and> 1 < bt_len bt \<and> d < length (steps bt) \<and>
          check_nodes bt [([], 1, 0, s, d)] 1 (tl (nodes bt)) = Some ([], bt_len bt))"

lemma tree_check_walk:
  assumes "tree_check bt"
  shows "\<exists>D. walk_inv bt D (bt_len bt) [] []"
proof -
  obtain n ns where ns: "nodes bt = n # ns" using assms by (cases "nodes bt") (auto simp: tree_check_def)
  obtain s d where g: "get_step bt 0 0 = Some (s, d)" "n div 2 ^ 48 mod 2 ^ 16 = 1" "d < length (steps bt)" "1 < bt_len bt"
    and ch: "check_nodes bt [([], 1, 0, s, d)] 1 ns = Some ([], bt_len bt)"
    using assms ns by (auto simp: tree_check_def split: option.splits)
  have "walk_inv bt (\<lambda>_. 0) 1 [([], 1, 0, s, d)] [0]"
    using assms g ns by (auto simp: walk_inv_def frame_ok_def opened_def inner_of_def tree_check_def boxes_def list_all_iff)
  from walk_inv_steps [OF ch this] ns obtain D js where "walk_inv bt D (bt_len bt) [] js" by auto
  then show ?thesis by (auto simp: walk_inv_def)
qed

lemma visits_depth:
  assumes "walk_inv bt D (bt_len bt) [] []" "0 < bt_len bt" "visits bt idx depth"
  shows "idx < bt_len bt \<and> D idx = depth"
  using assms(3)
proof (induction rule: visits.induct)
  case root
  then show ?case using assms by (simp add: walk_inv_def)
next
  case (child idx depth step depth' k)
  then have "closed_ok bt D (bt_len bt) idx" using assms(1) by (simp add: walk_inv_def)
  with child show ?case by (auto simp: closed_ok_def opened_def child_ok_def)
qed

lemma tree_check_sound:
  assumes "tree_check bt"
  shows "biome_tree bt"
proof -
  obtain D where D: "walk_inv bt D (bt_len bt) [] []" using tree_check_walk [OF assms] ..
  have pos: "0 < bt_len bt" using assms by (simp add: tree_check_def)
  have closed: "closed_ok bt D (bt_len bt) idx" "D idx = depth" "idx < bt_len bt"
    if "visits bt idx depth" for idx depth
    using visits_depth [OF D pos that] D by (auto simp: walk_inv_def)
  show ?thesis
  proof
    show "0 < order bt" "param_ok bt" "\<forall>s \<in> set (steps bt). bt_len bt + s \<le> 2 ^ 16"
      using assms by (simp_all add: tree_check_def)
  next
    fix idx depth i assume v: "visits bt idx depth"
    show "idx < bt_len bt \<and> depth < length (steps bt)" using closed [OF v] by (auto simp: closed_ok_def)
    show "i < 6 \<Longrightarrow> node_box bt (nodes bt ! idx) i \<noteq> None" using closed [OF v] D by (simp add: walk_inv_def)
    show "steps bt ! depth \<noteq> 0 \<Longrightarrow> \<exists>step depth'. get_step bt idx depth = Some (step, depth') \<and>
        0 < inner_of bt idx \<and> inner_of bt idx < bt_len bt"
      using closed [OF v] by (auto simp: closed_ok_def opened_def)
  next
    fix idx depth step depth' k
    assume v: "visits bt idx depth" and "idx \<noteq> 0" "steps bt ! depth \<noteq> 0" "get_step bt idx depth = Some (step, depth')"
      "k < order bt" "inner_of bt idx + k * step < bt_len bt"
    then show "box_within bt (inner_of bt idx + k * step) idx"
      using closed [OF v] by (auto simp: closed_ok_def opened_def child_ok_def)
  qed
qed

end
