(* ===== verification/Btree21wd.thy ===== *)
theory Btree21wd
  imports Biome_Tree
begin

text \<open>
  The search tree of Minecraft 1.21 (\<open>tables/btree21wd.h\<close>), transcribed: 139 intervals and 9112
  packed nodes, in the rows of the source. The linear check of \<open>Biome_Tree\<close> is evaluated on it
  by rewriting, one part of the table after the other, and gives the laws of the locale
  \<open>biome_tree\<close>.
\<close>

subsection \<open>The table\<close>

definition btree21wd_order :: nat where
  "btree21wd_order = 6"

definition btree21wd_steps :: "nat list" where
  "btree21wd_steps = [1555, 259, 43, 7, 1, 0]"

definition btree21wd_param :: "(int \<times> int) list" where
  "btree21wd_param =
   [(- 12000, - 10500), (- 12000, - 4550), (- 12000, 10000), (- 10500, - 4550),
    (- 10500, - 1900), (- 10500, 10000), (- 10000, - 9333), (- 10000, - 7799),
    (- 10000, - 7666), (- 10000, - 5666), (- 10000, - 4500), (- 10000, - 4000),
    (- 10000, - 3750), (- 10000, - 3500), (- 10000, - 2666), (- 10000, - 2225),
    (- 10000, - 1500), (- 10000, - 1000), (- 10000, - 500), (- 10000, 500),
    (- 10000, 1000), (- 10000, 2000), (- 10000, 2666), (- 10000, 3000),
    (- 10000, 4000), (- 10000, 5500), (- 10000, 5666), (- 10000, 9333),
    (- 10000, 10000), (- 9333, - 7666), (- 9333, - 5666), (- 9333, - 4000),
    (- 9333, - 2666), (- 9333, 2666), (- 9333, 4000), (- 9333, 5666),
    (- 9333, 10000), (- 7799, - 3750), (- 7799, - 2225), (- 7666, - 5666),
    (- 7666, - 4000), (- 7666, - 2666), (- 7666, - 500), (- 7666, 500),
    (- 7666, 4000), (- 7666, 5666), (- 5666, - 4000), (- 5666, - 2666),
    (- 5666, - 500), (- 5666, 500), (- 5666, 2666), (- 5666, 4000),
    (- 5666, 5666), (- 5666, 7666), (- 4550, - 1900), (- 4500, - 1500),
    (- 4500, 2000), (- 4500, 5500), (- 4500, 10000), (- 4000, - 2666),
    (- 4000, - 500), (- 4000, 2666), (- 4000, 4000), (- 4000, 5666),
    (- 4000, 9333), (- 4000, 10000), (- 3750, - 2225), (- 3750, 500),
    (- 3750, 5500), (- 3500, - 1000), (- 3500, 1000), (- 3500, 3000),
    (- 3500, 10000), (- 2666, - 500), (- 2666, 500), (- 2666, 2666),
    (- 2666, 4000), (- 2666, 5666), (- 2666, 9333), (- 2666, 10000),
    (- 2225, 500), (- 2225, 4500), (- 1900, - 1100), (- 1900, 300),
    (- 1900, 3000), (- 1900, 10000), (- 1500, 2000), (- 1500, 5500),
    (- 1500, 10000), (- 1100, 300), (- 1100, 3000), (- 1100, 10000),
    (- 1000, 1000), (- 1000, 3000), (- 1000, 10000), (- 500, 500),
    (- 500, 2666), (0, 0), (0, 10000), (0, 11000),
    (300, 3000), (300, 10000), (500, 2666), (500, 4000),
    (500, 4500), (500, 5500), (500, 5666), (500, 7666),
    (500, 9333), (500, 10000), (1000, 3000), (1000, 10000),
    (2000, 5500), (2000, 9000), (2000, 10000), (2666, 4000),
    (2666, 5666), (2666, 7666), (2666, 9333), (2666, 10000),
    (3000, 10000), (4000, 5666), (4000, 7666), (4000, 9333),
    (4000, 10000), (4500, 5500), (4500, 10000), (5500, 10000),
    (5666, 7666), (5666, 9333), (5666, 10000), (7000, 10000),
    (7666, 9333), (7666, 10000), (8000, 10000), (9333, 10000),
    (10000, 10000), (10000, 11000), (11000, 11000)]"

definition btree21wd_nodes_00 :: "nat list" where
  "btree21wd_nodes_00 =
   [0x0001616161616161,
    0x00021C621C021C1C, 0x00031C621C021C1C, 0x00041C621C051C1C, 0x0005496251521456,
    0xFF10496151525C56, 0xFF10496151524556, 0xFF10496151520D56, 0xFF10498851525C56,
    0xFF10498851524556, 0xFF10498851520D56, 0x000C496251521C57, 0xFF10496151526E56,
    0xFF10496151527856, 0xFF10496151520D70, 0xFF10498851526E56, 0xFF10498851527856,
    0xFF10498851520D70, 0x0013496251524770, 0xFF10496151525C70, 0xFF10496151526E70,
    0xFF10496151524570, 0xFF10498851525C70, 0xFF10498851526E70, 0xFF10498851524570,
    0x001A1C621C051C10, 0xFF0A1C611C361C0A, 0xFF0B5F6144551C0A, 0xFF321C611C031C0A,
    0xFF0A1C881C361C0A, 0xFF10498851527837, 0xFF321C881C031C0A, 0x0021496251521C72,
    0xFF0249615152457F, 0xFF10496151527870, 0xFF02496151520D7F, 0xFF0249885152457F,
    0xFF10498851527870, 0xFF02498851520D7F, 0x0028496251525E7F, 0xFF02496151525C7F,
    0xFF02496151526E7F, 0xFF0249615152787F, 0xFF02498851525C7F, 0xFF02498851526E7F,
    0xFF0249885152787F, 0x002F1C621C021C1C, 0x00301C621C1C1C1C, 0xFF075F6144551C3A,
    0xFFAF1C711C1C831C, 0xFFAE1C711C861C1C, 0xFF075F8844551C3A, 0xFF0B5F8844551C0A,
    0xFF10668851520D37, 0x0037666151521C10, 0xFF1A666151525C0A, 0xFF1A666151526E0A,
    0xFF1A66615152450A, 0xFF10666151520D37, 0xFF1A66615152780A, 0xFF1A666151520D0A,
    0x003E666251521C10, 0xFF10666151524537, 0xFF1A668851525C0A, 0xFF1A668851526E0A,
    0xFF1A66885152450A, 0xFF1A66885152780A, 0xFF1A668851520D0A, 0x00451C621C361C3A,
    0xFF2D1C611C361C70, 0xFF2C1C611C361C7F, 0xFF001C881C361C56, 0xFF2E1C881C361C37,
    0xFF2D1C881C361C70, 0xFF2C1C881C361C7F, 0x004C1C621C041C3A, 0xFF001C611C361C56,
    0xFF2E1C611C361C37, 0xFF181C881C031C56, 0xFF311C881C031C37, 0xFF301C881C031C70,
    0xFF2C1C881C031C7F, 0x00531C621C011C1C, 0xFF181C611C031C56, 0xFF311C611C031C37,
    0xFF0E1C611C001C1C, 0xFF301C611C031C70, 0xFF2C1C611C031C7F, 0xFF0E1C881C001C1C,
    0x005A666251521C3A, 0x005B666151521C38, 0xFF10666151525C56, 0xFF10666151524556,
    0xFF10666151525C37, 0xFF10666151526E37, 0xFF10666151520D56, 0xFF10666151527837,
    0x0062666151521C57, 0xFF10666151526E56, 0xFF10666151525C70, 0xFF10666151526E70,
    0xFF10666151524570, 0xFF10666151527856, 0xFF10666151520D70, 0x0069666151521C72,
    0xFF02666151525C7F, 0xFF02666151526E7F, 0xFF0266615152457F, 0xFF10666151527870,
    0xFF0266615152787F, 0xFF02666151520D7F, 0x0070668851521C38, 0xFF10668851524556,
    0xFF10668851525C37, 0xFF10668851526E37, 0xFF10668851524537, 0xFF10668851520D56,
    0xFF10668851527837, 0x0077668851521C57, 0xFF10668851525C56, 0xFF10668851526E56,
    0xFF10668851525C70, 0xFF10668851524570, 0xFF10668851527856, 0xFF10668851520D70,
    0x007E668851521C72, 0xFF10668851526E70, 0xFF02668851525C7F, 0xFF02668851526E7F,
    0xFF0266885152457F, 0xFF10668851527870, 0xFF02668851520D7F, 0x0085126251551C1C,
    0x0086496251524837, 0xFF10496151525C37, 0xFF10496151526E37, 0xFF10496151527837,
    0xFF10498851525C37, 0xFF10498851526E37, 0xFF10498851524537, 0x008D496251521C10,
    0xFF10496151524537, 0xFF10496151520D37, 0xFF1A49615152780A, 0xFF1A498851526E0A,
    0xFF10498851520D37, 0xFF1A49885152780A, 0x009449625152170A, 0xFF1A496151525C0A,
    0xFF1A496151526E0A, 0xFF1A49615152450A, 0xFF1A498851525C0A, 0xFF1A49885152450A,
    0xFF1A498851520D0A, 0x009B126151551C1C, 0xFF1A496151520D0A, 0xFF0C1D6168555C0A,
    0xFF0C1D616855450A, 0xFF0206616852787F, 0xFF0C1D6168550D0A, 0xFF020661685B787F,
    0x00A2066168551C72, 0xFF10066168526E70, 0xFF150661685B6E70, 0xFF10066168527870,
    0xFF150661685B7870, 0xFF02066168520D7F, 0xFF020661685B0D7F, 0x00A906616855477F,
    0xFF02066168525C7F, 0xFF02066168526E7F, 0xFF0206616852457F, 0xFF020661685B5C7F,
    0xFF020661685B6E7F, 0xFF020661685B457F, 0x00B06D8851551C3A, 0x00B1878850555C3A,
    0xFF04878850535C56, 0xFF01878850535C70, 0xFF04878850655C56, 0xFF04878850655C37,
    0xFF02878850535C7F, 0xFF01878850655C70, 0x00B8878850555D3A, 0xFF9B878850536E56,
    0xFF05878850536E37, 0xFF17878850536E70, 0xFF05878850656E37, 0xFF02878850536E7F,
    0xFF25878850655C7F, 0x00BF878850554558, 0xFF01878850534556, 0xFF23878850534570,
    0xFF01878850654556, 0xFF0287885053457F, 0xFF23878850654570, 0xFFA587885065457F]"

definition btree21wd_nodes_01 :: "nat list" where
  "btree21wd_nodes_01 =
   [0x00C66D8851556F3A, 0xFF9B878850656E56, 0xFF1D878850537856, 0xFF0266885152787F,
    0xFF20878850537837, 0xFF17878850656E70, 0xFF26878850656E7F, 0x00CD87885055783A,
    0xFFA8878850537870, 0xFF1D878850657856, 0xFF20878850657837, 0xFF0287885053787F,
    0xFFA8878850657870, 0xFF2687885065787F, 0x00D4878850550D58, 0xFF81878850530D56,
    0xFF23878850530D70, 0xFF81878850650D56, 0xFF02878850530D7F, 0xFF23878850650D70,
    0xFFA5878850650D7F, 0x00DB066168551C19, 0x00DC066168555E56, 0xFF10066168525C56,
    0xFF10066168526E56, 0xFF040661685B5C56, 0xFF1B0661685B6E56, 0xFF10066168527856,
    0xFF1D0661685B7856, 0x00E3066168551C38, 0xFF10066168524556, 0xFF010661685B4556,
    0xFF10066168520D56, 0xFF10066168527837, 0xFF840661685B0D56, 0xFFA00661685B7837,
    0x00EA066168554737, 0xFF10066168525C37, 0xFF10066168526E37, 0xFF10066168524537,
    0xFF040661685B5C37, 0xFF050661685B6E37, 0xFF010661685B4537, 0x00F1066168551470,
    0xFF10066168525C70, 0xFF10066168524570, 0xFF040661685B5C70, 0xFF230661685B4570,
    0xFF10066168520D70, 0xFF230661685B0D70, 0x00F8066168551C10, 0xFF1A066168526E0A,
    0xFF10066168520D37, 0xFF1E0661685B6E0A, 0xFF010661685B0D37, 0xFF1A06616852780A,
    0xFF050661685B780A, 0x00FF06616855140A, 0xFF1A066168525C0A, 0xFF1A06616852450A,
    0xFF0C0661685B5C0A, 0xFF0C0661685B450A, 0xFF1A066168520D0A, 0xFF0C0661685B0D0A,
    0x01061C6250551C1C, 0x01071A6250551C19, 0x0108068850551756, 0xFF04068850535C56,
    0xFF1B068850536E56, 0xFF01068850534556, 0xFF04068850655C56, 0xFF01068850654556,
    0xFF84068850650D56, 0x010F1A6250551C38, 0xFF20796150647837, 0xFFB1796150786E37,
    0xFF20796150787837, 0xFF84068850530D56, 0xFFA0068850537837, 0xFFA0068850657837,
    0x0116068850551C57, 0xFF23068850534570, 0xFF1B068850656E56, 0xFF1D068850537856,
    0xFF23068850530D70, 0xFF1D068850657856, 0xFF23068850650D70, 0x011D068850554737,
    0xFF04068850535C37, 0xFF05068850536E37, 0xFF01068850534537, 0xFF04068850655C37,
    0xFF05068850656E37, 0xFF01068850654537, 0x0124068850551C10, 0xFF1E068850536E0A,
    0xFF01068850530D37, 0xFF1E068850656E0A, 0xFF0506885053780A, 0xFF01068850650D37,
    0xFF0506885065780A, 0x012B06885055140A, 0xFF0C068850535C0A, 0xFF0C06885053450A,
    0xFF0C068850655C0A, 0xFF0C06885065450A, 0xFF0C068850530D0A, 0xFF0C068850650D0A,
    0x01327A6150651C1C, 0x0133796150651456, 0xFF04796150645C56, 0xFF01796150644556,
    0xFF04796150785C56, 0xFF81796150640D56, 0xFFB9796150784556, 0xFFB9796150780D56,
    0x013A796150651C57, 0xFF9B796150646E56, 0xFF1D796150647856, 0xFF1B796150786E56,
    0xFF23796150640D70, 0xFFBA796150787856, 0xFF24796150780D70, 0x0141796150654770,
    0xFF01796150645C70, 0xFF17796150646E70, 0xFF23796150644570, 0xFF04796150785C70,
    0xFF04796150786E70, 0xFF24796150784570, 0x0148796150651C72, 0xFFA579615064457F,
    0xFFA8796150647870, 0xFFA5796150640D7F, 0xFFA579615078457F, 0xFF15796150787870,
    0xFFA5796150780D7F, 0x014F80615065140A, 0xFF1E806150645C0A, 0xFF0C80615064450A,
    0xFF0C806150785C0A, 0xFF8C806150640D0A, 0xFF0C80615078450A, 0xFF8C806150780D0A,
    0x0156796150655E7F, 0xFF25796150645C7F, 0xFF26796150646E7F, 0xFF25796150785C7F,
    0xFF2679615064787F, 0xFF26796150786E7F, 0xFF2679615078787F, 0x015D806150651C1C,
    0x015E806150655E56, 0xFF04806150645C56, 0xFF9B806150646E56, 0xFF04806150785C56,
    0xFF1D806150647856, 0xFF1B806150786E56, 0xFFBA806150787856, 0x0165806150651C38,
    0xFF01806150644556, 0xFF81806150640D56, 0xFFB9806150784556, 0xFF20806150647837,
    0xFFB9806150780D56, 0xFF20806150787837, 0x016C806150654737, 0xFF04806150645C37,
    0xFF05806150646E37, 0xFF01806150644537, 0xFFB1806150785C37, 0xFFB1806150786E37,
    0xFFB1806150784537, 0x0173806150651470, 0xFF01806150645C70, 0xFF23806150644570,
    0xFF04806150785C70, 0xFF23806150640D70, 0xFF24806150784570, 0xFF24806150780D70,
    0x017A806150651C10, 0xFF1E806150646E0A, 0xFF01806150640D37, 0xFF0580615064780A,
    0xFF1E806150786E0A, 0xFFB9806150780D37, 0xFF1E80615078780A, 0x0181806150651C72,
    0xFF17806150646E70, 0xFFA8806150647870, 0xFF04806150786E70, 0xFFA5806150640D7F,
    0xFF15806150787870, 0xFFA5806150780D7F, 0x0188816150651C1C, 0x0189846150651C38,
    0xFF01846150644556, 0xFF81846150640D56, 0xFFB9846150784556, 0xFF20846150647837]"

definition btree21wd_nodes_02 :: "nat list" where
  "btree21wd_nodes_02 =
   [0xFFB9846150780D56, 0xFF20846150787837, 0x0190846150654737, 0xFF04846150645C37,
    0xFF05846150646E37, 0xFF01846150644537, 0xFFB1846150785C37, 0xFFB1846150786E37,
    0xFFB1846150784537, 0x0197816150654758, 0xFF04846150645C56, 0xFF9B846150646E56,
    0xFF04846150785C56, 0xFF1B846150786E56, 0xFFA580615064457F, 0xFFA580615078457F,
    0x019E846150651C10, 0xFF1E846150646E0A, 0xFF01846150640D37, 0xFF0584615064780A,
    0xFF1E846150786E0A, 0xFFB9846150780D37, 0xFF1E84615078780A, 0x01A584615065140A,
    0xFF1E846150645C0A, 0xFF0C84615064450A, 0xFF0C846150785C0A, 0xFF8C846150640D0A,
    0xFF0C84615078450A, 0xFF8C846150780D0A, 0x01AC806150655E7F, 0xFF25806150645C7F,
    0xFF26806150646E7F, 0xFF25806150785C7F, 0xFF2680615064787F, 0xFF26806150786E7F,
    0xFF2680615078787F, 0x01B3856150551C1C, 0x01B4856150551C39, 0xFF01876150534537,
    0xFF1D846150647856, 0xFF01876150654537, 0xFF23846150640D70, 0xFFBA846150787856,
    0xFF24846150780D70, 0x01BB846150654770, 0xFF01846150645C70, 0xFF17846150646E70,
    0xFF23846150644570, 0xFF04846150785C70, 0xFF04846150786E70, 0xFF24846150784570,
    0x01C2876150551C10, 0xFF1E876150536E0A, 0xFF01876150530D37, 0xFF1E876150656E0A,
    0xFF0587615053780A, 0xFF01876150650D37, 0xFF0587615065780A, 0x01C9846150651C72,
    0xFFA584615064457F, 0xFFA8846150647870, 0xFFA5846150640D7F, 0xFFA584615078457F,
    0xFF15846150787870, 0xFFA5846150780D7F, 0x01D087615055140A, 0xFF1E876150535C0A,
    0xFF0C87615053450A, 0xFF1E876150655C0A, 0xFF0C87615065450A, 0xFF8C876150530D0A,
    0xFF8C876150650D0A, 0x01D7846150655E7F, 0xFF25846150645C7F, 0xFF26846150646E7F,
    0xFF25846150785C7F, 0xFF2684615064787F, 0xFF26846150786E7F, 0xFF2684615078787F,
    0x01DE876150551C3A, 0x01DF876150551456, 0xFF04876150535C56, 0xFF01876150534556,
    0xFF04876150655C56, 0xFF01876150654556, 0xFF81876150530D56, 0xFF81876150650D56,
    0x01E6876150551C57, 0xFF9B876150536E56, 0xFF9B876150656E56, 0xFF1D876150537856,
    0xFF23876150530D70, 0xFF1D876150657856, 0xFF23876150650D70, 0x01ED876150555E37,
    0xFF04876150535C37, 0xFF05876150536E37, 0xFF04876150655C37, 0xFF05876150656E37,
    0xFF20876150537837, 0xFF20876150657837, 0x01F4876150554770, 0xFF01876150535C70,
    0xFF17876150536E70, 0xFF23876150534570, 0xFF01876150655C70, 0xFF17876150656E70,
    0xFF23876150654570, 0x01FB876150551C72, 0xFF0287615053457F, 0xFFA8876150537870,
    0xFFA587615065457F, 0xFF02876150530D7F, 0xFFA8876150657870, 0xFFA5876150650D7F,
    0x0202876150555E7F, 0xFF02876150535C7F, 0xFF02876150536E7F, 0xFF25876150655C7F,
    0xFF26876150656E7F, 0xFF0287615053787F, 0xFF2687615065787F, 0x0209418850551C1C,
    0x020A768850551C38, 0x020B768850555D37, 0xFF05738850536E37, 0xFF05798850646E37,
    0xFF05808850646E37, 0xFF05848850646E37, 0xFFB1808850785C37, 0xFFB1848850785C37,
    0x0212768850654638, 0xFF04798850645C37, 0xFF01738850654556, 0xFF04808850645C37,
    0xFF04738850655C37, 0xFF04848850645C37, 0xFFB1798850785C37, 0x0219768850551156,
    0xFF01738850534556, 0xFF01798850644556, 0xFF01808850644556, 0xFF01848850644556,
    0xFFB9808850780D56, 0xFFB9848850780D56, 0x0220768850556F37, 0xFF05738850656E37,
    0xFF20738850537837, 0xFF20798850647837, 0xFFB1798850786E37, 0xFFB1808850786E37,
    0xFFB1848850786E37, 0x0227768850657837, 0xFF20808850647837, 0xFF20738850657837,
    0xFF20848850647837, 0xFF20798850787837, 0xFF20808850787837, 0xFF20848850787837,
    0x022E768850550D56, 0xFF81738850530D56, 0xFF81798850640D56, 0xFF81808850640D56,
    0xFF81738850650D56, 0xFF81848850640D56, 0xFFB9798850780D56, 0x0235768850551C57,
    0x0236768850555C56, 0xFF04738850535C56, 0xFF04798850645C56, 0xFF04808850645C56,
    0xFF04738850655C56, 0xFF04848850645C56, 0xFF04798850785C56, 0x023D768850555D56,
    0xFF9B738850536E56, 0xFF9B798850646E56, 0xFF9B808850646E56, 0xFF9B848850646E56,
    0xFF04808850785C56, 0xFF04848850785C56, 0x0244768850556F56, 0xFF9B738850656E56,
    0xFF1D738850537856, 0xFF1D798850647856, 0xFF1B798850786E56, 0xFF1B808850786E56,
    0xFF1B848850786E56, 0x024B768850551157, 0xFF23738850534570, 0xFFB9798850784556,
    0xFFB9808850784556, 0xFFB9848850784556, 0xFF24808850780D70, 0xFF24848850780D70,
    0x0252768850657856, 0xFF1D808850647856, 0xFF1D738850657856, 0xFF1D848850647856]"

definition btree21wd_nodes_03 :: "nat list" where
  "btree21wd_nodes_03 =
   [0xFFBA798850787856, 0xFFBA808850787856, 0xFFBA848850787856, 0x0259768850550D70,
    0xFF23738850530D70, 0xFF23798850640D70, 0xFF23808850640D70, 0xFF23738850650D70,
    0xFF23848850640D70, 0xFF24798850780D70, 0x0260778850551C10, 0x0261778850554710,
    0xFF04738850535C37, 0xFF04878850535C37, 0xFFB1808850784537, 0xFFB1848850784537,
    0xFF1E798850786E0A, 0xFF1E878850656E0A, 0x0268778850654537, 0xFF01798850644537,
    0xFF01808850644537, 0xFF01738850654537, 0xFF01848850644537, 0xFFB1798850784537,
    0xFF01878850654537, 0x026F778850551137, 0xFF01738850534537, 0xFF01878850534537,
    0xFFB9798850780D37, 0xFFB9808850780D37, 0xFF01878850650D37, 0xFFB9848850780D37,
    0x0276778850556F0A, 0xFF0573885053780A, 0xFF0579885064780A, 0xFF0580885064780A,
    0xFF1E808850786E0A, 0xFF0587885053780A, 0xFF1E848850786E0A, 0x027D77885065780A,
    0xFF0573885065780A, 0xFF0584885064780A, 0xFF1E79885078780A, 0xFF1E80885078780A,
    0xFF0587885065780A, 0xFF1E84885078780A, 0x0284778850550D37, 0xFF01738850530D37,
    0xFF01798850640D37, 0xFF01808850640D37, 0xFF01738850650D37, 0xFF01848850640D37,
    0xFF01878850530D37, 0x028B768850551C72, 0x028C768850555C70, 0xFF01738850535C70,
    0xFF01798850645C70, 0xFF01808850645C70, 0xFF01738850655C70, 0xFF01848850645C70,
    0xFF04798850785C70, 0x0293768850555D70, 0xFF17738850536E70, 0xFF17798850646E70,
    0xFF17808850646E70, 0xFF17848850646E70, 0xFF04808850785C70, 0xFF04848850785C70,
    0x029A768850654570, 0xFF23808850644570, 0xFF23738850654570, 0xFF23848850644570,
    0xFF24798850784570, 0xFF24808850784570, 0xFF24848850784570, 0x02A1768850556F70,
    0xFF17738850656E70, 0xFFA8738850537870, 0xFFA8798850647870, 0xFF04798850786E70,
    0xFF04808850786E70, 0xFF04848850786E70, 0x02A8768850551172, 0xFF23798850644570,
    0xFF02738850530D7F, 0xFFA5798850640D7F, 0xFFA5808850640D7F, 0xFFA5738850650D7F,
    0xFFA5848850640D7F, 0x02AF768850657870, 0xFFA8808850647870, 0xFFA8738850657870,
    0xFFA8848850647870, 0xFF15798850787870, 0xFF15808850787870, 0xFF15848850787870,
    0x02B677885055170A, 0x02B7778850655C0A, 0xFF1E738850655C0A, 0xFF1E848850645C0A,
    0xFF0C798850785C0A, 0xFF0C808850785C0A, 0xFF1E878850655C0A, 0xFF0C848850785C0A,
    0x02BE77885055460A, 0xFF1E738850535C0A, 0xFF1E798850645C0A, 0xFF1E808850645C0A,
    0xFF1E878850535C0A, 0xFF0C80885078450A, 0xFF0C84885078450A, 0x02C5778850556E0A,
    0xFF1E738850536E0A, 0xFF1E798850646E0A, 0xFF1E808850646E0A, 0xFF1E738850656E0A,
    0xFF1E848850646E0A, 0xFF1E878850536E0A, 0x02CC77885065450A, 0xFF0C79885064450A,
    0xFF0C80885064450A, 0xFF0C73885065450A, 0xFF0C84885064450A, 0xFF0C79885078450A,
    0xFF0C87885065450A, 0x02D377885055110A, 0xFF0C73885053450A, 0xFF0C87885053450A,
    0xFF8C798850780D0A, 0xFF8C808850780D0A, 0xFF8C878850650D0A, 0xFF8C848850780D0A,
    0x02DA778850550D0A, 0xFF8C738850530D0A, 0xFF8C798850640D0A, 0xFF8C808850640D0A,
    0xFF8C738850650D0A, 0xFF8C848850640D0A, 0xFF8C878850530D0A, 0x02E1408850551C7F,
    0x02E2768850655C7F, 0xFF25798850645C7F, 0xFF25808850645C7F, 0xFF25738850655C7F,
    0xFF25848850645C7F, 0xFF25798850785C7F, 0xFF25808850785C7F, 0x02E9768850555D7F,
    0xFF02738850536E7F, 0xFF26798850646E7F, 0xFF26808850646E7F, 0xFF26738850656E7F,
    0xFF26848850646E7F, 0xFF25848850785C7F, 0x02F076885055467F, 0xFF02738850535C7F,
    0xFFA573885065457F, 0xFFA584885064457F, 0xFFA579885078457F, 0xFFA580885078457F,
    0xFFA584885078457F, 0x02F776885055117F, 0xFF0273885053457F, 0xFFA579885064457F,
    0xFFA580885064457F, 0xFFA5798850780D7F, 0xFFA5808850780D7F, 0xFFA5848850780D7F,
    0x02FE768850556F7F, 0xFF0273885053787F, 0xFF2679885064787F, 0xFF26798850786E7F,
    0xFF2680885064787F, 0xFF26808850786E7F, 0xFF26848850786E7F, 0x030540885065787F,
    0xFF263B885065787F, 0xFF2673885065787F, 0xFF2684885064787F, 0xFF2679885078787F,
    0xFF2680885078787F, 0xFF2684885078787F, 0x030C0E8850551C1C, 0x030D208850551C38,
    0x030E208850655C56, 0xFF042E8850645C56, 0xFF04278850645C56, 0xFF043B8850655C56,
    0xFFB12E8850785C56, 0xFFB1278850785C56, 0xFFB11D8850785C56, 0x0315208850554656,
    0xFF043B8850535C56, 0xFF041D8850645C56, 0xFF013B8850654556, 0xFFB12E8850784556,
    0xFFB1278850784556, 0xFFB11D8850784556, 0x031C208850546F38, 0xFF1B3B8850536E56]"

definition btree21wd_nodes_04 :: "nat list" where
  "btree21wd_nodes_04 =
   [0xFF1B2E8850646E56, 0xFF1B278850646E56, 0xFF1B1D8850646E56, 0xFFA03B8850537837,
    0xFFA01D8850647837, 0x0323208850551156, 0xFF013B8850534556, 0xFF012E8850644556,
    0xFF01278850644556, 0xFF011D8850644556, 0xFFB12E8850780D56, 0xFFB1278850780D56,
    0x032A208850657837, 0xFFA02E8850647837, 0xFFA0278850647837, 0xFFA03B8850657837,
    0xFFA02E8850787837, 0xFFA0278850787837, 0xFFA01D8850787837, 0x0331208850550D56,
    0xFF843B8850530D56, 0xFF842E8850640D56, 0xFF84278850640D56, 0xFF843B8850650D56,
    0xFF841D8850640D56, 0xFFB11D8850780D56, 0x03380E8850551C57, 0x0339208850556F56,
    0xFF1B3B8850656E56, 0xFF1D3B8850537856, 0xFFB12E8850786E56, 0xFFB1278850786E56,
    0xFF1D1D8850647856, 0xFFB11D8850786E56, 0x0340208850657856, 0xFF1D2E8850647856,
    0xFF1D278850647856, 0xFF1D3B8850657856, 0xFF1D2E8850787856, 0xFF1D278850787856,
    0xFF1D1D8850787856, 0x03470E8850555C70, 0xFF043B8850535C70, 0xFF042E8850645C70,
    0xFF04278850645C70, 0xFF043B8850655C70, 0xFF041D8850645C70, 0xFF04068850655C70,
    0x034E0E8850554670, 0xFF04068850535C70, 0xFF233B8850654570, 0xFF242E8850784570,
    0xFF24278850784570, 0xFF23068850654570, 0xFF241D8850784570, 0x0355208850551170,
    0xFF233B8850534570, 0xFF232E8850644570, 0xFF23278850644570, 0xFF231D8850644570,
    0xFF242E8850780D70, 0xFF24278850780D70, 0x035C208850550D70, 0xFF233B8850530D70,
    0xFF232E8850640D70, 0xFF23278850640D70, 0xFF233B8850650D70, 0xFF231D8850640D70,
    0xFF241D8850780D70, 0x0363208850551C10, 0x0364208850655C37, 0xFF042E8850645C37,
    0xFF04278850645C37, 0xFF043B8850655C37, 0xFF042E8850785C37, 0xFF04278850785C37,
    0xFF041D8850785C37, 0x036B208850554637, 0xFF043B8850535C37, 0xFF041D8850645C37,
    0xFF013B8850654537, 0xFFB12E8850784537, 0xFFB1278850784537, 0xFFB11D8850784537,
    0x0372208850556E37, 0xFF053B8850536E37, 0xFF052E8850646E37, 0xFF05278850646E37,
    0xFF053B8850656E37, 0xFF051D8850646E37, 0xFF051D8850786E37, 0x0379208850551137,
    0xFF013B8850534537, 0xFF012E8850644537, 0xFF01278850644537, 0xFF011D8850644537,
    0xFFB12E8850780D37, 0xFFB1278850780D37, 0x0380208850656F10, 0xFF052E8850786E37,
    0xFF05278850786E37, 0xFF053B885065780A, 0xFF1E2E885078780A, 0xFF1E27885078780A,
    0xFF1E1D885078780A, 0x0387208850550D37, 0xFF013B8850530D37, 0xFF012E8850640D37,
    0xFF01278850640D37, 0xFF013B8850650D37, 0xFF011D8850640D37, 0xFFB11D8850780D37,
    0x038E0E8850551C72, 0x038F0E8850554772, 0xFF153B8850536E70, 0xFF042E8850785C70,
    0xFF15068850536E70, 0xFF04278850785C70, 0xFF041D8850785C70, 0xFF251D885064457F,
    0x03960E8850656E70, 0xFF152E8850646E70, 0xFF15278850646E70, 0xFF153B8850656E70,
    0xFF151D8850646E70, 0xFF15068850656E70, 0xFF041D8850786E70, 0x039D0E8850556F70,
    0xFF153B8850537870, 0xFF042E8850786E70, 0xFF15278850647870, 0xFF04278850786E70,
    0xFF151D8850647870, 0xFF15068850537870, 0x03A40E885055117F, 0xFF023B885053457F,
    0xFF0206885053457F, 0xFF253B8850650D7F, 0xFF252E8850780D7F, 0xFF25278850780D7F,
    0xFF251D8850780D7F, 0x03AB0E8850657870, 0xFF152E8850647870, 0xFF153B8850657870,
    0xFF152E8850787870, 0xFF15278850787870, 0xFF15068850657870, 0xFF151D8850787870,
    0x03B20E8850550D7F, 0xFF023B8850530D7F, 0xFF252E8850640D7F, 0xFF25278850640D7F,
    0xFF251D8850640D7F, 0xFF02068850530D7F, 0xFF25068850650D7F, 0x03B9208850551C0A,
    0x03BA208850655C0A, 0xFF0C2E8850645C0A, 0xFF0C278850645C0A, 0xFF0C3B8850655C0A,
    0xFF0C2E8850785C0A, 0xFF0C278850785C0A, 0xFF0C1D8850785C0A, 0x03C120885055460A,
    0xFF0C3B8850535C0A, 0xFF0C1D8850645C0A, 0xFF0C3B885065450A, 0xFF0C2E885078450A,
    0xFF0C27885078450A, 0xFF0C1D885078450A, 0x03C8208850556E0A, 0xFF1E3B8850536E0A,
    0xFF1E2E8850646E0A, 0xFF1E278850646E0A, 0xFF1E3B8850656E0A, 0xFF1E1D8850646E0A,
    0xFF1E1D8850786E0A, 0x03CF20885055110A, 0xFF0C3B885053450A, 0xFF0C2E885064450A,
    0xFF0C27885064450A, 0xFF0C1D885064450A, 0xFF0C2E8850780D0A, 0xFF0C278850780D0A,
    0x03D6208850556F0A, 0xFF053B885053780A, 0xFF052E885064780A, 0xFF1E2E8850786E0A,
    0xFF0527885064780A, 0xFF1E278850786E0A, 0xFF051D885064780A, 0x03DD208850550D0A,
    0xFF0C3B8850530D0A, 0xFF0C2E8850640D0A, 0xFF0C278850640D0A, 0xFF0C3B8850650D0A,
    0xFF0C1D8850640D0A, 0xFF0C1D8850780D0A, 0x03E40E885055487F, 0x03E50E8850555D7F]"

definition btree21wd_nodes_05 :: "nat list" where
  "btree21wd_nodes_05 =
   [0xFF253B8850655C7F, 0xFF252E8850785C7F, 0xFF02068850536E7F, 0xFF25278850785C7F,
    0xFF25068850655C7F, 0xFF251D8850785C7F, 0x03EC0E885055467F, 0xFF023B8850535C7F,
    0xFF252E8850645C7F, 0xFF25278850645C7F, 0xFF251D8850645C7F, 0xFF02068850535C7F,
    0xFF252E885078457F, 0x03F30E8850556E7F, 0xFF023B8850536E7F, 0xFF262E8850646E7F,
    0xFF26278850646E7F, 0xFF263B8850656E7F, 0xFF261D8850646E7F, 0xFF26068850656E7F,
    0x03FA0E885065457F, 0xFF252E885064457F, 0xFF2527885064457F, 0xFF253B885065457F,
    0xFF2527885078457F, 0xFF2506885065457F, 0xFF251D885078457F, 0x04010E8850556F7F,
    0xFF023B885053787F, 0xFF262E8850786E7F, 0xFF26278850786E7F, 0xFF261D885064787F,
    0xFF0206885053787F, 0xFF261D8850786E7F, 0x04080B885065787F, 0xFF262E885064787F,
    0xFF2627885064787F, 0xFF262E885078787F, 0xFF2627885078787F, 0xFF2606885065787F,
    0xFF261D885078787F, 0x040F236168551C1C, 0x0410236168551C38, 0x0411236168555D38,
    0xFF103B6168525C56, 0xFF04276168555C56, 0xFF05736168556E37, 0xFF041D6168555C56,
    0xFF052E6168556E37, 0xFF05796168556E37, 0x0418346168554556, 0xFF014961685B4556,
    0xFF016661685B4556, 0xFF01736168554556, 0xFF013B61685B4556, 0xFF012E6168554556,
    0xFF01796168554556, 0x041F216168551156, 0xFF103B6168524556, 0xFF844961685B0D56,
    0xFF816661685B0D56, 0xFF01276168554556, 0xFF843B61685B0D56, 0xFF011D6168554556,
    0x0426216168556F37, 0xFF054961685B6E37, 0xFF056661685B6E37, 0xFF053B61685B6E37,
    0xFF103B6168527837, 0xFFA0276168557837, 0xFFA01D6168557837, 0x042D346168557837,
    0xFFA04961685B7837, 0xFF206661685B7837, 0xFF20736168557837, 0xFFA03B61685B7837,
    0xFFA02E6168557837, 0xFF20796168557837, 0x0434236168550D56, 0xFF103B6168520D56,
    0xFF81736168550D56, 0xFF842E6168550D56, 0xFF81796168550D56, 0xFF84276168550D56,
    0xFF841D6168550D56, 0x043B236168551C57, 0x043C346168555C56, 0xFF044961685B5C56,
    0xFF046661685B5C56, 0xFF04736168555C56, 0xFF043B61685B5C56, 0xFF042E6168555C56,
    0xFF04796168555C56, 0x0443236168556E56, 0xFF103B6168526E56, 0xFF9B736168556E56,
    0xFF1B2E6168556E56, 0xFF9B796168556E56, 0xFF1B276168556E56, 0xFF1B1D6168556E56,
    0x044A216168556F56, 0xFF1B4961685B6E56, 0xFF9B6661685B6E56, 0xFF1B3B61685B6E56,
    0xFF103B6168527856, 0xFF1D276168557856, 0xFF1D1D6168557856, 0x0451346168557856,
    0xFF1D4961685B7856, 0xFF1D6661685B7856, 0xFF1D736168557856, 0xFF1D3B61685B7856,
    0xFF1D2E6168557856, 0xFF1D796168557856, 0x0458216168551170, 0xFF103B6168524570,
    0xFF234961685B0D70, 0xFF236661685B0D70, 0xFF23276168554570, 0xFF233B61685B0D70,
    0xFF231D6168554570, 0x045F236168550D70, 0xFF103B6168520D70, 0xFF23736168550D70,
    0xFF232E6168550D70, 0xFF23796168550D70, 0xFF23276168550D70, 0xFF231D6168550D70,
    0x0466236168551C10, 0x0467236168555C37, 0xFF103B6168525C37, 0xFF04736168555C37,
    0xFF042E6168555C37, 0xFF04796168555C37, 0xFF04276168555C37, 0xFF041D6168555C37,
    0x046E216168555D37, 0xFF044961685B5C37, 0xFF046661685B5C37, 0xFF103B6168526E37,
    0xFF043B61685B5C37, 0xFF05276168556E37, 0xFF051D6168556E37, 0x0475346168554537,
    0xFF014961685B4537, 0xFF016661685B4537, 0xFF01736168554537, 0xFF013B61685B4537,
    0xFF012E6168554537, 0xFF01796168554537, 0x047C216168551137, 0xFF103B6168524537,
    0xFF014961685B0D37, 0xFF016661685B0D37, 0xFF01276168554537, 0xFF013B61685B0D37,
    0xFF011D6168554537, 0x0483236168550D37, 0xFF103B6168520D37, 0xFF01736168550D37,
    0xFF012E6168550D37, 0xFF01796168550D37, 0xFF01276168550D37, 0xFF011D6168550D37,
    0x048A34616855780A, 0xFF054961685B780A, 0xFF056661685B780A, 0xFF0573616855780A,
    0xFF053B61685B780A, 0xFF052E616855780A, 0xFF0579616855780A, 0x0491236168551C72,
    0x0492236168555C70, 0xFF103B6168525C70, 0xFF01736168555C70, 0xFF042E6168555C70,
    0xFF01796168555C70, 0xFF04276168555C70, 0xFF041D6168555C70, 0x0499216168555D70,
    0xFF044961685B5C70, 0xFF016661685B5C70, 0xFF103B6168526E70, 0xFF043B61685B5C70,
    0xFF15276168556E70, 0xFF151D6168556E70, 0x04A0346168556E70, 0xFF154961685B6E70,
    0xFF176661685B6E70, 0xFF17736168556E70, 0xFF153B61685B6E70, 0xFF152E6168556E70,
    0xFF17796168556E70, 0x04A7346168554570, 0xFF234961685B4570, 0xFF236661685B4570,
    0xFF23736168554570, 0xFF233B61685B4570, 0xFF232E6168554570, 0xFF23796168554570]"

definition btree21wd_nodes_06 :: "nat list" where
  "btree21wd_nodes_06 =
   [0x04AE226168557870, 0xFF103B6168527870, 0xFFA8736168557870, 0xFF153B61685B7870,
    0xFF152E6168557870, 0xFF15276168557870, 0xFF151D6168557870, 0x04B5216168551C72,
    0xFF154961685B7870, 0xFFA86661685B7870, 0xFF023B6168520D7F, 0xFF022E6168550D7F,
    0xFF02276168550D7F, 0xFF021D6168550D7F, 0x04BC236168551C0A, 0x04BD346168555C0A,
    0xFF0C4961685B5C0A, 0xFF1E6661685B5C0A, 0xFF1E736168555C0A, 0xFF0C3B61685B5C0A,
    0xFF0C2E6168555C0A, 0xFF1E796168555C0A, 0x04C42D616855460A, 0xFF1A3B6168525C0A,
    0xFF0C4961685B450A, 0xFF0C6661685B450A, 0xFF0C3B61685B450A, 0xFF0C276168555C0A,
    0xFF0C79616855450A, 0x04CB236168556E0A, 0xFF1A3B6168526E0A, 0xFF1E736168556E0A,
    0xFF1E2E6168556E0A, 0xFF1E796168556E0A, 0xFF1E276168556E0A, 0xFF1E1D6168556E0A,
    0x04D22C616855110A, 0xFF1A3B616852450A, 0xFF0C73616855450A, 0xFF0C2E616855450A,
    0xFF0C4961685B0D0A, 0xFF8C6661685B0D0A, 0xFF0C27616855450A, 0x04D9216168556F0A,
    0xFF1E4961685B6E0A, 0xFF1E6661685B6E0A, 0xFF1E3B61685B6E0A, 0xFF1A3B616852780A,
    0xFF0527616855780A, 0xFF051D616855780A, 0x04E02D6168550D0A, 0xFF1A3B6168520D0A,
    0xFF8C736168550D0A, 0xFF0C3B61685B0D0A, 0xFF0C2E6168550D0A, 0xFF8C796168550D0A,
    0xFF0C276168550D0A, 0x04E7226168551C7F, 0x04E8226168555C7F, 0xFF023B6168525C7F,
    0xFF02736168555C7F, 0xFF023B61685B5C7F, 0xFF022E6168555C7F, 0xFF02276168555C7F,
    0xFF021D6168555C7F, 0x04EF216168555D7F, 0xFF024961685B5C7F, 0xFF026661685B5C7F,
    0xFF023B6168526E7F, 0xFF022E6168556E7F, 0xFF02276168556E7F, 0xFF021D6168556E7F,
    0x04F62C616855457F, 0xFF024961685B457F, 0xFF026661685B457F, 0xFF0273616855457F,
    0xFF023B61685B457F, 0xFF022E616855457F, 0xFF0227616855457F, 0x04FD22616855117F,
    0xFF023B616852457F, 0xFF024961685B0D7F, 0xFF026661685B0D7F, 0xFF02736168550D7F,
    0xFF023B61685B0D7F, 0xFF021D616855457F, 0x0504226168556F7F, 0xFF024961685B6E7F,
    0xFF026661685B6E7F, 0xFF02736168556E7F, 0xFF023B61685B6E7F, 0xFF023B616852787F,
    0xFF021D616855787F, 0x050B2C616855787F, 0xFF024961685B787F, 0xFF026661685B787F,
    0xFF0273616855787F, 0xFF023B61685B787F, 0xFF022E616855787F, 0xFF0227616855787F,
    0x05121C6268551C1C, 0x0513356268551C1C, 0x0514796168551C72, 0xFF02796168555C7F,
    0xFF02796168556E7F, 0xFF0279616855457F, 0xFFA8796168557870, 0xFF0279616855787F,
    0xFF02796168550D7F, 0x051B356268551C15, 0xFF1E806168555C0A, 0xFF0C80616855450A,
    0xFF052E8868556E37, 0xFF8C806168550D0A, 0xFF842E8868550D56, 0xFFA02E8868557837,
    0x05223B8868555E0A, 0xFF1A3B8868525C0A, 0xFF1A3B8868526E0A, 0xFF0C3B88685B5C0A,
    0xFF1E3B88685B6E0A, 0xFF1A3B886852780A, 0xFF053B88685B780A, 0x05292F8868551C1C,
    0xFF1A3B886852450A, 0xFF0C3B88685B450A, 0xFF022E8868556E7F, 0xFF1A3B8868520D0A,
    0xFF0C3B88685B0D0A, 0xFF022E886855787F, 0x05302E8868551C57, 0xFF042E8868555C56,
    0xFF1B2E8868556E56, 0xFF012E8868554556, 0xFF232E8868554570, 0xFF1D2E8868557856,
    0xFF232E8868550D70, 0x05372E8868551C72, 0xFF042E8868555C70, 0xFF152E8868556E70,
    0xFF022E8868555C7F, 0xFF022E886855457F, 0xFF152E8868557870, 0xFF022E8868550D7F,
    0x053E1F8868551C1C, 0x053F278868551C57, 0xFF04278868555C56, 0xFF1B278868556E56,
    0xFF01278868554556, 0xFF1D278868557856, 0xFF84278868550D56, 0xFF23278868550D70,
    0x0546288868554837, 0xFF042E8868555C37, 0xFF04278868555C37, 0xFF012E8868554537,
    0xFF05278868556E37, 0xFF01278868554537, 0xFFA0278868557837, 0x054D288868551C10,
    0xFF1E2E8868556E0A, 0xFF012E8868550D37, 0xFF1E278868556E0A, 0xFF01278868550D37,
    0xFF052E886855780A, 0xFF0527886855780A, 0x0554278868551C72, 0xFF04278868555C70,
    0xFF15278868556E70, 0xFF23278868554570, 0xFF0227886855457F, 0xFF15278868557870,
    0xFF02278868550D7F, 0x055B28886855140A, 0xFF0C2E8868555C0A, 0xFF0C278868555C0A,
    0xFF0C2E886855450A, 0xFF0C27886855450A, 0xFF0C2E8868550D0A, 0xFF0C278868550D0A,
    0x05621E8868555E7F, 0xFF02278868555C7F, 0xFF021D8868555C7F, 0xFF02278868556E7F,
    0xFF021D8868556E7F, 0xFF0227886855787F, 0xFF021D886855787F, 0x0569816168551C1C,
    0x056A816168555D15, 0xFF04846168555C56, 0xFF9B806168556E56, 0xFF04846168555C37,
    0xFF05806168556E37, 0xFF1E846168555C0A, 0xFF1E806168556E0A, 0x057181616855463A,
    0xFF04806168555C56, 0xFF04806168555C37, 0xFF01806168555C70, 0xFF01846168554556]"

definition btree21wd_nodes_07 :: "nat list" where
  "btree21wd_nodes_07 =
   [0xFF01846168554537, 0xFF02806168555C7F, 0x057881616855111C, 0xFF01806168554556,
    0xFF01806168554537, 0xFF23806168554570, 0xFF81846168550D56, 0xFF0280616855457F,
    0xFF0C84616855450A, 0x057F816168556F1C, 0xFF9B846168556E56, 0xFF17806168556E70,
    0xFF05846168556E37, 0xFF02806168556E7F, 0xFF1E846168556E0A, 0xFF0580616855780A,
    0x058681616855781C, 0xFF1D806168557856, 0xFF20806168557837, 0xFFA8806168557870,
    0xFF20846168557837, 0xFF0280616855787F, 0xFF0584616855780A, 0x058D816168550D1C,
    0xFF81806168550D56, 0xFF01806168550D37, 0xFF23806168550D70, 0xFF01846168550D37,
    0xFF02806168550D7F, 0xFF8C846168550D0A, 0x0594856168551C1C, 0x0595876168551C38,
    0xFF01876168554556, 0xFF04876168555C37, 0xFF05876168556E37, 0xFF01876168554537,
    0xFF81876168550D56, 0xFF20876168557837, 0x059C856168551C57, 0xFF04876168555C56,
    0xFF9B876168556E56, 0xFF1D846168557856, 0xFF1D876168557856, 0xFF23846168550D70,
    0xFF23876168550D70, 0x05A3856168554770, 0xFF01846168555C70, 0xFF01876168555C70,
    0xFF17846168556E70, 0xFF23846168554570, 0xFF17876168556E70, 0xFF23876168554570,
    0x05AA876168551C10, 0xFF1E876168555C0A, 0xFF1E876168556E0A, 0xFF0C87616855450A,
    0xFF01876168550D37, 0xFF0587616855780A, 0xFF8C876168550D0A, 0x05B1856168551C72,
    0xFF0284616855457F, 0xFFA8846168557870, 0xFF0287616855457F, 0xFFA8876168557870,
    0xFF02846168550D7F, 0xFF02876168550D7F, 0x05B8856168555E7F, 0xFF02846168555C7F,
    0xFF02876168555C7F, 0xFF02846168556E7F, 0xFF02876168556E7F, 0xFF0284616855787F,
    0xFF0287616855787F, 0x05BF088868551C1C, 0x05C01D8868551C38, 0xFF011D8868554556,
    0xFF041D8868555C37, 0xFF051D8868556E37, 0xFF011D8868554537, 0xFF841D8868550D56,
    0xFFA01D8868557837, 0x05C71D8868551C57, 0xFF041D8868555C56, 0xFF1B1D8868556E56,
    0xFF041D8868555C70, 0xFF231D8868554570, 0xFF1D1D8868557856, 0xFF231D8868550D70,
    0x05CE088868556F70, 0xFF10068868526E70, 0xFF151D8868556E70, 0xFF150688685B6E70,
    0xFF10068868527870, 0xFF151D8868557870, 0xFF150688685B7870, 0x05D51D8868551C10,
    0xFF0C1D8868555C0A, 0xFF1E1D8868556E0A, 0xFF0C1D886855450A, 0xFF011D8868550D37,
    0xFF051D886855780A, 0xFF0C1D8868550D0A, 0x05DC068868555E7F, 0xFF02068868525C7F,
    0xFF02068868526E7F, 0xFF020688685B5C7F, 0xFF020688685B6E7F, 0xFF0206886852787F,
    0xFF020688685B787F, 0x05E308886855117F, 0xFF0206886852457F, 0xFF021D886855457F,
    0xFF020688685B457F, 0xFF02068868520D7F, 0xFF021D8868550D7F, 0xFF020688685B0D7F,
    0x05EA068868551C19, 0x05EB068868555E56, 0xFF10068868525C56, 0xFF10068868526E56,
    0xFF040688685B5C56, 0xFF1B0688685B6E56, 0xFF10068868527856, 0xFF1D0688685B7856,
    0x05F2068868551C38, 0xFF10068868524556, 0xFF010688685B4556, 0xFF10068868520D56,
    0xFF10068868527837, 0xFF840688685B0D56, 0xFFA00688685B7837, 0x05F9068868554737,
    0xFF10068868525C37, 0xFF10068868526E37, 0xFF10068868524537, 0xFF040688685B5C37,
    0xFF050688685B6E37, 0xFF010688685B4537, 0x0600068868551470, 0xFF10068868525C70,
    0xFF10068868524570, 0xFF040688685B5C70, 0xFF230688685B4570, 0xFF10068868520D70,
    0xFF230688685B0D70, 0x0607068868551C10, 0xFF1A068868526E0A, 0xFF10068868520D37,
    0xFF1E0688685B6E0A, 0xFF010688685B0D37, 0xFF1A06886852780A, 0xFF050688685B780A,
    0x060E06886855140A, 0xFF1A068868525C0A, 0xFF1A06886852450A, 0xFF0C0688685B5C0A,
    0xFF0C0688685B450A, 0xFF1A068868520D0A, 0xFF0C0688685B0D0A, 0x06151C6243551C1C,
    0x0616336143551C1C, 0x0617326143551C38, 0x0618326143555C56, 0xFF04496143595C56,
    0xFF04666143595C56, 0xFF043B6150535C56, 0xFF042E6143535C56, 0xFF042E6150645C56,
    0xFF04496143655C56, 0x061F3261435B4556, 0xFF01666143594556, 0xFF012E6150644556,
    0xFF01496143654556, 0xFF01666143654556, 0xFF013B6150654556, 0xFFB12E6150784556,
    0x0626326143555E38, 0xFF04666143655C56, 0xFF043B6150655C56, 0xFFB12E6150785C56,
    0xFFA0496143597837, 0xFFA03B6150537837, 0xFFA02E6143537837, 0x062D326143551156,
    0xFF01496143594556, 0xFF013B6150534556, 0xFF012E6143534556, 0xFF81666143650D56,
    0xFF843B6150650D56, 0xFFB12E6150780D56, 0x06343261435B7837, 0xFF20666143597837,
    0xFFA02E6150647837, 0xFFA0496143657837, 0xFF20666143657837, 0xFFA03B6150657837,
    0xFFA02E6150787837, 0x063B326143550D56, 0xFF84496143590D56, 0xFF81666143590D56]"

definition btree21wd_nodes_08 :: "nat list" where
  "btree21wd_nodes_08 =
   [0xFF843B6150530D56, 0xFF842E6143530D56, 0xFF842E6150640D56, 0xFF84496143650D56,
    0x0642326143551C57, 0x0643326143556E56, 0xFF1B496143596E56, 0xFF9B666143596E56,
    0xFF1B3B6150536E56, 0xFF1B2E6143536E56, 0xFF1B2E6150646E56, 0xFF1B496143656E56,
    0x064A326143556F56, 0xFF1D496143597856, 0xFF9B666143656E56, 0xFF1B3B6150656E56,
    0xFF1D3B6150537856, 0xFF1D2E6143537856, 0xFFB12E6150786E56, 0x06513261435B7856,
    0xFF1D666143597856, 0xFF1D2E6150647856, 0xFF1D496143657856, 0xFF1D666143657856,
    0xFF1D3B6150657856, 0xFF1D2E6150787856, 0x06583261435B4570, 0xFF23666143594570,
    0xFF232E6150644570, 0xFF23496143654570, 0xFF23666143654570, 0xFF233B6150654570,
    0xFF242E6150784570, 0x065F326143551170, 0xFF23496143594570, 0xFF233B6150534570,
    0xFF232E6143534570, 0xFF23666143650D70, 0xFF233B6150650D70, 0xFF242E6150780D70,
    0x0666326143550D70, 0xFF23496143590D70, 0xFF23666143590D70, 0xFF233B6150530D70,
    0xFF232E6143530D70, 0xFF232E6150640D70, 0xFF23496143650D70, 0x066D326143551C10,
    0x066E4B61435B1737, 0xFF04496143595C37, 0xFF05496143596E37, 0xFF04496143655C37,
    0xFF05496143656E37, 0xFF01666143590D37, 0xFF01666143650D37, 0x06756661435B4737,
    0xFF04666143595C37, 0xFF05666143596E37, 0xFF01666143594537, 0xFF04666143655C37,
    0xFF05666143656E37, 0xFF01666143654537, 0x067C3C6143551737, 0xFF01496143594537,
    0xFF053B6150536E37, 0xFF01496143590D37, 0xFF01496143654537, 0xFF053B6150656E37,
    0xFF01496143650D37, 0x06833B6150551437, 0xFF043B6150535C37, 0xFF013B6150534537,
    0xFF043B6150655C37, 0xFF013B6150654537, 0xFF013B6150530D37, 0xFF013B6150650D37,
    0x068A2F6143555E10, 0xFF042E6150645C37, 0xFF052E6143536E37, 0xFF052E6150646E37,
    0xFF042E6150785C37, 0xFF052E6150786E37, 0xFF053B615065780A, 0x06912E6143551437,
    0xFF042E6143535C37, 0xFF012E6143534537, 0xFF012E6150644537, 0xFF012E6150640D37,
    0xFFB12E6150784537, 0xFFB12E6150780D37, 0x0698326143551C72, 0x06993261435B5C70,
    0xFF01666143595C70, 0xFF042E6150645C70, 0xFF04496143655C70, 0xFF01666143655C70,
    0xFF043B6150655C70, 0xFF042E6150785C70, 0x06A0326143556E70, 0xFF15496143596E70,
    0xFF17666143596E70, 0xFF153B6150536E70, 0xFF152E6143536E70, 0xFF152E6150646E70,
    0xFF15496143656E70, 0x06A7326143551472, 0xFF04496143595C70, 0xFF043B6150535C70,
    0xFF042E6143535C70, 0xFFA5666143650D7F, 0xFF253B6150650D7F, 0xFF252E6150780D7F,
    0x06AE326143556F70, 0xFF15496143597870, 0xFF17666143656E70, 0xFF153B6150656E70,
    0xFF153B6150537870, 0xFF152E6143537870, 0xFF042E6150786E70, 0x06B53261435B7870,
    0xFFA8666143597870, 0xFF152E6150647870, 0xFF15496143657870, 0xFFA8666143657870,
    0xFF153B6150657870, 0xFF152E6150787870, 0x06BC326143550D7F, 0xFF02496143590D7F,
    0xFF02666143590D7F, 0xFF023B6150530D7F, 0xFF022E6143530D7F, 0xFF252E6150640D7F,
    0xFF25496143650D7F, 0x06C33E6143551C0A, 0x06C43E61435B5C0A, 0xFF0C496143595C0A,
    0xFF1E666143595C0A, 0xFF0C496143655C0A, 0xFF1E666143655C0A, 0xFF0C3B6150655C0A,
    0xFF1E736150655C0A, 0x06CB3E614355460A, 0xFF0C3B6150535C0A, 0xFF1E736150535C0A,
    0xFF0C49614365450A, 0xFF0C66614365450A, 0xFF0C3B615065450A, 0xFF0C73615065450A,
    0x06D23E6143556E0A, 0xFF1E496143596E0A, 0xFF1E666143596E0A, 0xFF1E3B6150536E0A,
    0xFF1E736150536E0A, 0xFF1E496143656E0A, 0xFF1E666143656E0A, 0x06D93E614355110A,
    0xFF0C49614359450A, 0xFF0C66614359450A, 0xFF0C3B615053450A, 0xFF0C73615053450A,
    0xFF0C3B6150650D0A, 0xFF8C736150650D0A, 0x06E03D6143556F0A, 0xFF0549614359780A,
    0xFF0566614359780A, 0xFF1E3B6150656E0A, 0xFF053B615053780A, 0xFF0549614365780A,
    0xFF0566614365780A, 0x06E73E6143550D0A, 0xFF0C496143590D0A, 0xFF8C666143590D0A,
    0xFF0C3B6150530D0A, 0xFF8C736150530D0A, 0xFF0C496143650D0A, 0xFF8C666143650D0A,
    0x06EE32614355487F, 0x06EF4B61435B487F, 0xFF02496143596E7F, 0xFF0266614359457F,
    0xFF0249614359787F, 0xFF26496143656E7F, 0xFFA566614365457F, 0xFF2649614365787F,
    0x06F66661435B5E7F, 0xFF02666143595C7F, 0xFF02666143596E7F, 0xFF25666143655C7F,
    0xFF0266614359787F, 0xFF26666143656E7F, 0xFF2666614365787F, 0x06FD3C614355487F,
    0xFF02496143595C7F, 0xFF0249614359457F, 0xFF25496143655C7F, 0xFF2549614365457F,
    0xFF023B615053787F, 0xFF263B615065787F, 0x07043B615055477F, 0xFF023B6150535C7F]"

definition btree21wd_nodes_09 :: "nat list" where
  "btree21wd_nodes_09 =
   [0xFF023B6150536E7F, 0xFF023B615053457F, 0xFF253B6150655C7F, 0xFF263B6150656E7F,
    0xFF253B615065457F, 0x070B2E614355467F, 0xFF022E6143535C7F, 0xFF252E6150645C7F,
    0xFF022E614353457F, 0xFF252E615064457F, 0xFF252E6150785C7F, 0xFF252E615078457F,
    0x07122E6143556F7F, 0xFF022E6143536E7F, 0xFF262E6150646E7F, 0xFF022E614353787F,
    0xFF262E615064787F, 0xFF262E6150786E7F, 0xFF262E615078787F, 0x07190B6143551C1C,
    0x071A096143551C38, 0x071B096143551156, 0xFF01276143534556, 0xFF011D6143534556,
    0xFF011D6150644556, 0xFF01066150534556, 0xFFB1276150780D56, 0xFFB11D6150780D56,
    0x0722096143550D56, 0xFF84276143530D56, 0xFF84276150640D56, 0xFF841D6143530D56,
    0xFF841D6150640D56, 0xFF84066150530D56, 0xFF84066150650D56, 0x0729096143555C37,
    0xFF04276143535C37, 0xFF04276150645C37, 0xFF041D6143535C37, 0xFF041D6150645C37,
    0xFF04066150535C37, 0xFF04066150655C37, 0x0730096143555D37, 0xFF05276143536E37,
    0xFF051D6143536E37, 0xFF051D6150646E37, 0xFF05066150536E37, 0xFF04276150785C37,
    0xFF041D6150785C37, 0x0737096143556F37, 0xFF05276150646E37, 0xFFA0276143537837,
    0xFF05276150786E37, 0xFFA01D6143537837, 0xFF05066150656E37, 0xFF051D6150786E37,
    0x073E096150557837, 0xFFA0276150647837, 0xFFA01D6150647837, 0xFFA0066150537837,
    0xFFA0276150787837, 0xFFA0066150657837, 0xFFA01D6150787837, 0x0745096143551C57,
    0x0746096143555C56, 0xFF04276143535C56, 0xFF04276150645C56, 0xFF041D6143535C56,
    0xFF041D6150645C56, 0xFF04066150535C56, 0xFF04066150655C56, 0x074D096143555D56,
    0xFF1B276143536E56, 0xFF1B1D6143536E56, 0xFF1B1D6150646E56, 0xFF1B066150536E56,
    0xFFB1276150785C56, 0xFFB11D6150785C56, 0x0754096143556F56, 0xFF1B276150646E56,
    0xFF1D276143537856, 0xFFB1276150786E56, 0xFF1D1D6143537856, 0xFF1B066150656E56,
    0xFFB11D6150786E56, 0x075B096150651157, 0xFF01276150644556, 0xFFB1276150784556,
    0xFF01066150654556, 0xFFB11D6150784556, 0xFF24276150780D70, 0xFF241D6150780D70,
    0x0762096150557856, 0xFF1D276150647856, 0xFF1D1D6150647856, 0xFF1D066150537856,
    0xFF1D276150787856, 0xFF1D066150657856, 0xFF1D1D6150787856, 0x0769096143550D70,
    0xFF23276143530D70, 0xFF23276150640D70, 0xFF231D6143530D70, 0xFF231D6150640D70,
    0xFF23066150530D70, 0xFF23066150650D70, 0x07700B6143551C10, 0x0771096150554710,
    0xFF01276150644537, 0xFF011D6150644537, 0xFFB1276150784537, 0xFF1E066150536E0A,
    0xFF01066150654537, 0xFFB11D6150784537, 0x07780B6150656E0A, 0xFF1E2E6150646E0A,
    0xFF1E276150646E0A, 0xFF1E1D6150646E0A, 0xFF1E276150786E0A, 0xFF1E066150656E0A,
    0xFF1E1D6150786E0A, 0x077F0B6143556F0A, 0xFF052E614353780A, 0xFF1E2E6150786E0A,
    0xFF0527614353780A, 0xFF051D614353780A, 0xFF051D615064780A, 0xFF0506615053780A,
    0x0786096143551137, 0xFF01276143534537, 0xFF011D6143534537, 0xFF01066150534537,
    0xFFB1276150780D37, 0xFF01066150650D37, 0xFFB11D6150780D37, 0x078D0B615065780A,
    0xFF052E615064780A, 0xFF0527615064780A, 0xFF1E2E615078780A, 0xFF1E27615078780A,
    0xFF0506615065780A, 0xFF1E1D615078780A, 0x07940B6143540D37, 0xFF012E6143530D37,
    0xFF01276143530D37, 0xFF01276150640D37, 0xFF011D6143530D37, 0xFF011D6150640D37,
    0xFF01066150530D37, 0x079B096143551C72, 0x079C096143555C70, 0xFF04276143535C70,
    0xFF04276150645C70, 0xFF041D6143535C70, 0xFF041D6150645C70, 0xFF04066150535C70,
    0xFF04066150655C70, 0x07A3096143555D70, 0xFF15276143536E70, 0xFF151D6143536E70,
    0xFF151D6150646E70, 0xFF15066150536E70, 0xFF04276150785C70, 0xFF041D6150785C70,
    0x07AA096150554570, 0xFF23276150644570, 0xFF231D6150644570, 0xFF23066150534570,
    0xFF24276150784570, 0xFF23066150654570, 0xFF241D6150784570, 0x07B1096143541172,
    0xFF23276143534570, 0xFF231D6143534570, 0xFF02276143530D7F, 0xFF021D6143530D7F,
    0xFF251D6150640D7F, 0xFF02066150530D7F, 0x07B8096143556F70, 0xFF15276150646E70,
    0xFF15276143537870, 0xFF04276150786E70, 0xFF151D6143537870, 0xFF15066150656E70,
    0xFF041D6150786E70, 0x07BF096150557870, 0xFF15276150647870, 0xFF151D6150647870,
    0xFF15066150537870, 0xFF15276150787870, 0xFF15066150657870, 0xFF151D6150787870,
    0x07C60B614355170A, 0x07C708615054140A, 0xFF0C1D6150645C0A, 0xFF0C066150535C0A,
    0xFF0C1D615064450A, 0xFF0C06615053450A, 0xFF0C1D6150640D0A, 0xFF0C066150530D0A]"

definition btree21wd_nodes_10 :: "nat list" where
  "btree21wd_nodes_10 =
   [0x07CE28614353170A, 0xFF0C2E6143535C0A, 0xFF0C276143535C0A, 0xFF1E2E6143536E0A,
    0xFF0C2E614353450A, 0xFF1E276143536E0A, 0xFF0C2E6143530D0A, 0x07D51E614353170A,
    0xFF0C1D6143535C0A, 0xFF0C27614353450A, 0xFF1E1D6143536E0A, 0xFF0C1D614353450A,
    0xFF0C276143530D0A, 0xFF0C1D6143530D0A, 0x07DC28615064140A, 0xFF0C2E6150645C0A,
    0xFF0C276150645C0A, 0xFF0C2E615064450A, 0xFF0C27615064450A, 0xFF0C2E6150640D0A,
    0xFF0C276150640D0A, 0x07E308615065140A, 0xFF0C066150655C0A, 0xFF0C1D6150785C0A,
    0xFF0C06615065450A, 0xFF0C1D615078450A, 0xFF0C066150650D0A, 0xFF0C1D6150780D0A,
    0x07EA28615078140A, 0xFF0C2E6150785C0A, 0xFF0C276150785C0A, 0xFF0C2E615078450A,
    0xFF0C27615078450A, 0xFF0C2E6150780D0A, 0xFF0C276150780D0A, 0x07F1096143551C7F,
    0x07F2096143555C7F, 0xFF02276143535C7F, 0xFF25276150645C7F, 0xFF021D6143535C7F,
    0xFF251D6150645C7F, 0xFF02066150535C7F, 0xFF25066150655C7F, 0x07F9096143555D7F,
    0xFF02276143536E7F, 0xFF021D6143536E7F, 0xFF261D6150646E7F, 0xFF02066150536E7F,
    0xFF25276150785C7F, 0xFF251D6150785C7F, 0x080009615055457F, 0xFF2527615064457F,
    0xFF251D615064457F, 0xFF0206615053457F, 0xFF2527615078457F, 0xFF2506615065457F,
    0xFF251D615078457F, 0x080709614355117F, 0xFF0227614353457F, 0xFF021D614353457F,
    0xFF25276150640D7F, 0xFF25276150780D7F, 0xFF25066150650D7F, 0xFF251D6150780D7F,
    0x080E096143556F7F, 0xFF26276150646E7F, 0xFF0227614353787F, 0xFF26276150786E7F,
    0xFF021D614353787F, 0xFF26066150656E7F, 0xFF261D6150786E7F, 0x081509615055787F,
    0xFF2627615064787F, 0xFF261D615064787F, 0xFF0206615053787F, 0xFF2627615078787F,
    0xFF2606615065787F, 0xFF261D615078787F, 0x081C1C6243551C1C, 0x081D186243551C19,
    0x081E186243555D56, 0xFF9B736150536E56, 0xFF04736150655C56, 0xFF04068842595C56,
    0xFF04068842645C56, 0xFF1B068842596E56, 0xFFB1068842785C56, 0x0825736150551C38,
    0xFF04736150535C56, 0xFF01736150534556, 0xFF01736150654556, 0xFF81736150530D56,
    0xFF81736150650D56, 0xFF20736150657837, 0x082C0688425B1C57, 0xFF1B068842646E56,
    0xFF1D068842597856, 0xFF1D068842647856, 0xFFB1068842786E56, 0xFF23068842590D70,
    0xFF1D068842787856, 0x0833736150554837, 0xFF04736150535C37, 0xFF05736150536E37,
    0xFF04736150655C37, 0xFF05736150656E37, 0xFF20736150537837, 0xFF01736150654537,
    0x083A0688425B1470, 0xFF04068842595C70, 0xFF23068842594570, 0xFF23068842644570,
    0xFF23068842640D70, 0xFF24068842784570, 0xFF24068842780D70, 0x0841736150551C10,
    0xFF01736150534537, 0xFF01736150530D37, 0xFF1E736150656E0A, 0xFF0573615053780A,
    0xFF01736150650D37, 0xFF0573615065780A, 0x0848746143551C1C, 0x0849746143551C19,
    0xFF9B736150656E56, 0xFF1D736150537856, 0xFF23736150530D70, 0xFF1D736150657856,
    0xFF23736150650D70, 0xFF0579614353780A, 0x0850736150554770, 0xFF01736150535C70,
    0xFF17736150536E70, 0xFF23736150534570, 0xFF01736150655C70, 0xFF17736150656E70,
    0xFF23736150654570, 0x0857736150551C72, 0xFF0273615053457F, 0xFFA8736150537870,
    0xFFA573615065457F, 0xFF02736150530D7F, 0xFFA8736150657870, 0xFFA5736150650D7F,
    0x085E796143555D0A, 0xFF1E796143535C0A, 0xFF1E796150645C0A, 0xFF1E796143536E0A,
    0xFF1E796150646E0A, 0xFF0C796150785C0A, 0xFF1E796150786E0A, 0x086579614355110A,
    0xFF0C79614353450A, 0xFF0C79615064450A, 0xFF8C796143530D0A, 0xFF8C796150640D0A,
    0xFF0C79615078450A, 0xFF8C796150780D0A, 0x086C736150555E7F, 0xFF02736150535C7F,
    0xFF02736150536E7F, 0xFF25736150655C7F, 0xFF26736150656E7F, 0xFF0273615053787F,
    0xFF2673615065787F, 0x08737A6143551C1C, 0x0874796143541C38, 0xFF04796143535C56,
    0xFF01796143534556, 0xFF05796143536E37, 0xFF05796150646E37, 0xFF81796143530D56,
    0xFF20796143537837, 0x087B796143531C57, 0xFF9B796143536E56, 0xFF01796143535C70,
    0xFF17796143536E70, 0xFF23796143534570, 0xFF1D796143537856, 0xFF23796143530D70,
    0x08827A6143554637, 0xFF04796143535C37, 0xFF04796150645C37, 0xFF01796150644537,
    0xFF01806143534537, 0xFFB1796150785C37, 0xFFB1796150784537, 0x08897A6143551C10,
    0xFF01796143534537, 0xFF01796143530D37, 0xFF01796150640D37, 0xFF01806143530D37,
    0xFFB9796150780D37, 0xFF1E79615078780A, 0x0890796143531C72, 0xFF02796143535C7F,
    0xFF02796143536E7F, 0xFF0279614353457F, 0xFFA8796143537870, 0xFF0279614353787F]"

definition btree21wd_nodes_11 :: "nat list" where
  "btree21wd_nodes_11 =
   [0xFF02796143530D7F, 0x08977A6143541C0A, 0xFF1E806143535C0A, 0xFF1E806143536E0A,
    0xFF0C80614353450A, 0xFF0579615064780A, 0xFF0580614353780A, 0xFF8C806143530D0A,
    0x089E816143531C1C, 0x089F816143531C38, 0xFF04806143535C56, 0xFF01806143534556,
    0xFF01846143534556, 0xFF81806143530D56, 0xFF81846143530D56, 0xFF20846143537837,
    0x08A6816143531C57, 0xFF04846143535C56, 0xFF9B806143536E56, 0xFF9B846143536E56,
    0xFF1D806143537856, 0xFF1D846143537856, 0xFF23806143530D70, 0x08AD816143534837,
    0xFF04806143535C37, 0xFF04846143535C37, 0xFF05806143536E37, 0xFF05846143536E37,
    0xFF01846143534537, 0xFF20806143537837, 0x08B4816143531770, 0xFF01806143535C70,
    0xFF01846143535C70, 0xFF17806143536E70, 0xFF23806143534570, 0xFF23846143534570,
    0xFF23846143530D70, 0x08BB846143531C10, 0xFF1E846143535C0A, 0xFF1E846143536E0A,
    0xFF0C84614353450A, 0xFF01846143530D37, 0xFF0584614353780A, 0xFF8C846143530D0A,
    0x08C2806143531C72, 0xFF02806143535C7F, 0xFF02806143536E7F, 0xFF0280614353457F,
    0xFFA8806143537870, 0xFF0280614353787F, 0xFF02806143530D7F, 0x08C9856143551C72,
    0x08CA856143555D72, 0xFF17846143536E70, 0xFF17876142596E70, 0xFF02846143536E7F,
    0xFF02876142596E7F, 0xFF04876142785C70, 0xFF25876142785C7F, 0x08D1856143554672,
    0xFF01876142595C70, 0xFF01876142645C70, 0xFF02846143535C7F, 0xFF02876142595C7F,
    0xFF25876142645C7F, 0xFFA587614278457F, 0x08D8856143554572, 0xFF23876142594570,
    0xFF23876142644570, 0xFF0284614353457F, 0xFF0287614259457F, 0xFFA587614264457F,
    0xFF24876142784570, 0x08DF856143556F72, 0xFF17876142646E70, 0xFFA8846143537870,
    0xFF26876142646E7F, 0xFF04876142786E70, 0xFF0284614353787F, 0xFF26876142786E7F,
    0x08E68761425B7872, 0xFFA8876142597870, 0xFFA8876142647870, 0xFF0287614259787F,
    0xFF2687614264787F, 0xFF15876142787870, 0xFF2687614278787F, 0x08ED856143550D72,
    0xFF23876142640D70, 0xFF02846143530D7F, 0xFF02876142590D7F, 0xFFA5876142640D7F,
    0xFF24876142780D70, 0xFFA5876142780D7F, 0x08F40688425B1C15, 0x08F50688425B5C10,
    0xFF04068842595C37, 0xFF04068842645C37, 0xFF0C068842595C0A, 0xFF0C068842645C0A,
    0xFF04068842785C37, 0xFF0C068842785C0A, 0x08FC0688425B6E10, 0xFF05068842596E37,
    0xFF05068842646E37, 0xFF1E068842596E0A, 0xFF1E068842646E0A, 0xFF05068842786E37,
    0xFF1E068842786E0A, 0x0903068842654515, 0xFF01068842644556, 0xFF01068842644537,
    0xFFB1068842784556, 0xFF0C06884264450A, 0xFFB1068842784537, 0xFF0C06884278450A,
    0x090A0688425B1115, 0xFF01068842594556, 0xFF01068842594537, 0xFF0C06884259450A,
    0xFFB1068842780D56, 0xFFB1068842780D37, 0xFF0C068842780D0A, 0x09110688425B7810,
    0xFFA0068842597837, 0xFFA0068842647837, 0xFF0506884259780A, 0xFF0506884264780A,
    0xFFA0068842787837, 0xFF1E06884278780A, 0x09180688425A0D15, 0xFF84068842590D56,
    0xFF84068842640D56, 0xFF01068842590D37, 0xFF01068842640D37, 0xFF0C068842590D0A,
    0xFF0C068842640D0A, 0x091F3F8843551C1C, 0x09204C88435B1C38, 0x09214C88435B5D56,
    0xFF1B498843596E56, 0xFF9B668843596E56, 0xFF04498843655C56, 0xFF04668843655C56,
    0xFF9B738842596E56, 0xFF04738842785C56, 0x09284C88435B4656, 0xFF04498843595C56,
    0xFF04668843595C56, 0xFF04738842595C56, 0xFF04738842645C56, 0xFF01668843654556,
    0xFFB9738842784556, 0x092F4C88435B1156, 0xFF01498843594556, 0xFF01668843594556,
    0xFF01738842594556, 0xFF01738842644556, 0xFF01498843654556, 0xFFB9738842780D56,
    0x09364C88435B6F38, 0xFF9B738842646E56, 0xFF1B498843656E56, 0xFF9B668843656E56,
    0xFF1D738842597856, 0xFF1B738842786E56, 0xFF20738842597837, 0x093D4C88435B7837,
    0xFFA0498843597837, 0xFF20668843597837, 0xFF20738842647837, 0xFFA0498843657837,
    0xFF20668843657837, 0xFF20738842787837, 0x09444C88435B0D56, 0xFF84498843590D56,
    0xFF81668843590D56, 0xFF81738842590D56, 0xFF81738842640D56, 0xFF84498843650D56,
    0xFF81668843650D56, 0x094B3E88435B1C57, 0x094C3E88435B4670, 0xFF04498843595C70,
    0xFF01668843595C70, 0xFF043B8842595C70, 0xFF01738842595C70, 0xFF243B8842784570,
    0xFF24738842784570, 0x09533E88435B4570, 0xFF23498843594570, 0xFF23668843594570,
    0xFF233B8842644570, 0xFF23738842644570, 0xFF23498843654570, 0xFF23668843654570,
    0x095A3E88435B5E57, 0xFF1D498843597856, 0xFF1D668843597856, 0xFF043B8842645C70]"

definition btree21wd_nodes_12 :: "nat list" where
  "btree21wd_nodes_12 =
   [0xFF01738842645C70, 0xFF04498843655C70, 0xFF01668843655C70, 0x09613E88435B1170,
    0xFF233B8842594570, 0xFF23738842594570, 0xFF23498843650D70, 0xFF23668843650D70,
    0xFF243B8842780D70, 0xFF24738842780D70, 0x09683E8843657856, 0xFF1D3B8842647856,
    0xFF1D738842647856, 0xFF1D498843657856, 0xFF1D668843657856, 0xFF1D3B8842787856,
    0xFFBA738842787856, 0x096F3E88435A0D70, 0xFF23498843590D70, 0xFF23668843590D70,
    0xFF233B8842590D70, 0xFF23738842590D70, 0xFF233B8842640D70, 0xFF23738842640D70,
    0x09764D8843551C10, 0x09774C88435B5D37, 0xFF05498843596E37, 0xFF05668843596E37,
    0xFF04498843655C37, 0xFF04668843655C37, 0xFF05738842596E37, 0xFFB1738842785C37,
    0x097E4C88435B4637, 0xFF04498843595C37, 0xFF04668843595C37, 0xFF04738842595C37,
    0xFF04738842645C37, 0xFF01668843654537, 0xFFB1738842784537, 0x09854D8843556F10,
    0xFF05738842646E37, 0xFF05498843656E37, 0xFF05668843656E37, 0xFFB1738842786E37,
    0xFF0573884259780A, 0xFF0579884353780A, 0x098C4C88435B1137, 0xFF01498843594537,
    0xFF01668843594537, 0xFF01738842594537, 0xFF01738842644537, 0xFF01498843654537,
    0xFFB9738842780D37, 0x09934C88435B780A, 0xFF0549884359780A, 0xFF0566884359780A,
    0xFF0573884264780A, 0xFF0549884365780A, 0xFF0566884365780A, 0xFF1E73884278780A,
    0x099A4C88435B0D37, 0xFF01498843590D37, 0xFF01668843590D37, 0xFF01738842590D37,
    0xFF01738842640D37, 0xFF01498843650D37, 0xFF01668843650D37, 0x09A13E88435B1C72,
    0x09A23E88435B4772, 0xFF153B8842596E70, 0xFF17738842596E70, 0xFF0249884359457F,
    0xFF0266884359457F, 0xFF043B8842785C70, 0xFF04738842785C70, 0x09A93E88435B6E70,
    0xFF15498843596E70, 0xFF17668843596E70, 0xFF153B8842646E70, 0xFF17738842646E70,
    0xFF15498843656E70, 0xFF17668843656E70, 0x09B03E88435B6F70, 0xFF15498843597870,
    0xFFA8668843597870, 0xFF153B8842597870, 0xFFA8738842597870, 0xFF043B8842786E70,
    0xFF04738842786E70, 0x09B73E88435B117F, 0xFF023B884259457F, 0xFF0273884259457F,
    0xFF25498843650D7F, 0xFFA5668843650D7F, 0xFF253B8842780D7F, 0xFFA5738842780D7F,
    0x09BE3E8843657870, 0xFF153B8842647870, 0xFFA8738842647870, 0xFF15498843657870,
    0xFFA8668843657870, 0xFF153B8842787870, 0xFF15738842787870, 0x09C53E88435A0D7F,
    0xFF02498843590D7F, 0xFF02668843590D7F, 0xFF023B8842590D7F, 0xFF02738842590D7F,
    0xFF253B8842640D7F, 0xFFA5738842640D7F, 0x09CC4D884355170A, 0x09CD4C884359170A,
    0xFF0C498843595C0A, 0xFF1E498843596E0A, 0xFF0C49884359450A, 0xFF1E738842595C0A,
    0xFF1E738842596E0A, 0xFF0C498843590D0A, 0x09D474884353170A, 0xFF1E798843535C0A,
    0xFF0C73884259450A, 0xFF1E798843536E0A, 0xFF0C79884353450A, 0xFF8C738842590D0A,
    0xFF8C798843530D0A, 0x09DB6788435A170A, 0xFF1E668843595C0A, 0xFF1E668843596E0A,
    0xFF0C66884359450A, 0xFF0C73884264450A, 0xFF8C668843590D0A, 0xFF8C738842640D0A,
    0x09E24B884365170A, 0xFF0C498843655C0A, 0xFF1E498843656E0A, 0xFF0C49884365450A,
    0xFF0C66884365450A, 0xFF0C498843650D0A, 0xFF8C668843650D0A, 0x09E967884365170A,
    0xFF1E668843655C0A, 0xFF1E668843656E0A, 0xFF0C738842785C0A, 0xFF1E738842786E0A,
    0xFF0C73884278450A, 0xFF8C738842780D0A, 0x09F074884265170A, 0xFF1E738842645C0A,
    0xFF1E738842646E0A, 0xFF0C798842655C0A, 0xFF1E798842656E0A, 0xFF0C79884265450A,
    0xFF8C798842650D0A, 0x09F73E88435B487F, 0x09F83E88435A5C7F, 0xFF02498843595C7F,
    0xFF02668843595C7F, 0xFF023B8842595C7F, 0xFF02738842595C7F, 0xFF253B8842645C7F,
    0xFF25738842645C7F, 0x09FF3E88435B5D7F, 0xFF25498843655C7F, 0xFF25668843655C7F,
    0xFF023B8842596E7F, 0xFF02738842596E7F, 0xFF253B8842785C7F, 0xFF25738842785C7F,
    0x0A063E88435B6E7F, 0xFF02498843596E7F, 0xFF02668843596E7F, 0xFF263B8842646E7F,
    0xFF26738842646E7F, 0xFF26498843656E7F, 0xFF26668843656E7F, 0x0A0D3E884365457F,
    0xFF253B884264457F, 0xFFA573884264457F, 0xFF2549884365457F, 0xFFA566884365457F,
    0xFF253B884278457F, 0xFFA573884278457F, 0x0A143E88435B6F7F, 0xFF0249884359787F,
    0xFF0266884359787F, 0xFF023B884259787F, 0xFF0273884259787F, 0xFF263B8842786E7F,
    0xFF26738842786E7F, 0x0A1B3E884365787F, 0xFF263B884264787F, 0xFF2673884264787F,
    0xFF2649884365787F, 0xFF2666884365787F, 0xFF263B884278787F, 0xFF2673884278787F,
    0x0A220E8843551C1C, 0x0A23208843551C38, 0x0A242088425B4556, 0xFF013B8842594556]"

definition btree21wd_nodes_13 :: "nat list" where
  "btree21wd_nodes_13 =
   [0xFF013B8842644556, 0xFFB13B8842784556, 0xFFB12E8842654556, 0xFFB1278842654556,
    0xFFB11D8842654556, 0x0A2B208843551156, 0xFF012E8843534556, 0xFF01278843534556,
    0xFF011D8843534556, 0xFFB13B8842780D56, 0xFFB12E8842650D56, 0xFFB1278842650D56,
    0x0A32208843550D56, 0xFF843B8842590D56, 0xFF842E8843530D56, 0xFF843B8842640D56,
    0xFF84278843530D56, 0xFF841D8843530D56, 0xFFB11D8842650D56, 0x0A39208843556E37,
    0xFF053B8842596E37, 0xFF052E8843536E37, 0xFF053B8842646E37, 0xFF05278843536E37,
    0xFF051D8843536E37, 0xFF051D8842656E37, 0x0A40208843556F37, 0xFFA02E8843537837,
    0xFF053B8842786E37, 0xFF052E8842656E37, 0xFFA0278843537837, 0xFF05278842656E37,
    0xFFA01D8843537837, 0x0A472088425B7837, 0xFFA03B8842597837, 0xFFA03B8842647837,
    0xFFA03B8842787837, 0xFFA02E8842657837, 0xFFA0278842657837, 0xFFA01D8842657837,
    0x0A4E208843551C57, 0x0A4F208843555C56, 0xFF043B8842595C56, 0xFF042E8843535C56,
    0xFF043B8842645C56, 0xFF04278843535C56, 0xFFB1278842655C56, 0xFFB11D8842655C56,
    0x0A56208843555D56, 0xFF1B3B8842596E56, 0xFF1B2E8843536E56, 0xFF1B278843536E56,
    0xFFB13B8842785C56, 0xFF1B1D8843536E56, 0xFFB12E8842655C56, 0x0A5D1F8843554657,
    0xFF041D8843535C56, 0xFF232E8843534570, 0xFF23278843534570, 0xFF231D8843534570,
    0xFF24278842654570, 0xFF241D8842654570, 0x0A64208843556F56, 0xFF1B3B8842646E56,
    0xFFB13B8842786E56, 0xFFB12E8842656E56, 0xFFB1278842656E56, 0xFF1D1D8843537856,
    0xFFB11D8842656E56, 0x0A6B208843557856, 0xFF1D3B8842597856, 0xFF1D2E8843537856,
    0xFF1D278843537856, 0xFF1D2E8842657856, 0xFF1D278842657856, 0xFF1D1D8842657856,
    0x0A721F8843550D70, 0xFF232E8843530D70, 0xFF23278843530D70, 0xFF231D8843530D70,
    0xFF242E8842650D70, 0xFF24278842650D70, 0xFF241D8842650D70, 0x0A79208843551C10,
    0x0A7A208843555C37, 0xFF043B8842595C37, 0xFF042E8843535C37, 0xFF043B8842645C37,
    0xFF04278843535C37, 0xFF041D8843535C37, 0xFF041D8842655C37, 0x0A812088425B4537,
    0xFF013B8842594537, 0xFF013B8842644537, 0xFFB13B8842784537, 0xFFB12E8842654537,
    0xFFB1278842654537, 0xFFB11D8842654537, 0x0A88208843555E10, 0xFF043B8842785C37,
    0xFF042E8842655C37, 0xFF04278842655C37, 0xFF052E884353780A, 0xFF0527884353780A,
    0xFF051D884353780A, 0x0A8F208843551137, 0xFF012E8843534537, 0xFF01278843534537,
    0xFF011D8843534537, 0xFFB13B8842780D37, 0xFFB12E8842650D37, 0xFFB1278842650D37,
    0x0A962088425B780A, 0xFF053B884259780A, 0xFF053B884264780A, 0xFF1E3B884278780A,
    0xFF1E2E884265780A, 0xFF1E27884265780A, 0xFF1E1D884265780A, 0x0A9D208843550D37,
    0xFF013B8842590D37, 0xFF012E8843530D37, 0xFF013B8842640D37, 0xFF01278843530D37,
    0xFF011D8843530D37, 0xFFB11D8842650D37, 0x0AA40B8843551C72, 0x0AA50B8843555C70,
    0xFF042E8843535C70, 0xFF042E8842655C70, 0xFF04068842645C70, 0xFF04278842655C70,
    0xFF041D8842655C70, 0xFF04068842785C70, 0x0AAC0B8843556E70, 0xFF152E8843536E70,
    0xFF15278843536E70, 0xFF151D8843536E70, 0xFF15068842596E70, 0xFF15068842646E70,
    0xFF041D8842656E70, 0x0AB30B8843551472, 0xFF04278843535C70, 0xFF041D8843535C70,
    0xFF242E8842654570, 0xFF252E8842650D7F, 0xFF25278842650D7F, 0xFF25068842780D7F,
    0x0ABA0B8843556F70, 0xFF152E8843537870, 0xFF042E8842656E70, 0xFF15278843537870,
    0xFF04278842656E70, 0xFF151D8843537870, 0xFF04068842786E70, 0x0AC10B88425B7870,
    0xFF152E8842657870, 0xFF15068842597870, 0xFF15068842647870, 0xFF15278842657870,
    0xFF151D8842657870, 0xFF15068842787870, 0x0AC80B8843550D7F, 0xFF022E8843530D7F,
    0xFF02278843530D7F, 0xFF021D8843530D7F, 0xFF02068842590D7F, 0xFF25068842640D7F,
    0xFF251D8842650D7F, 0x0ACF20884355170A, 0x0AD028884353170A, 0xFF0C2E8843535C0A,
    0xFF0C278843535C0A, 0xFF1E2E8843536E0A, 0xFF0C2E884353450A, 0xFF1E278843536E0A,
    0xFF0C2E8843530D0A, 0x0AD71E884353170A, 0xFF0C1D8843535C0A, 0xFF0C27884353450A,
    0xFF1E1D8843536E0A, 0xFF0C1D884353450A, 0xFF0C278843530D0A, 0xFF0C1D8843530D0A,
    0x0ADE3B88425B5D0A, 0xFF0C3B8842595C0A, 0xFF0C3B8842645C0A, 0xFF1E3B8842596E0A,
    0xFF1E3B8842646E0A, 0xFF0C3B8842785C0A, 0xFF1E3B8842786E0A, 0x0AE53B88425B110A,
    0xFF0C3B884259450A, 0xFF0C3B884264450A, 0xFF0C3B8842590D0A, 0xFF0C3B8842640D0A,
    0xFF0C3B884278450A, 0xFF0C3B8842780D0A, 0x0AEC28884265170A, 0xFF0C2E8842655C0A]"

definition btree21wd_nodes_14 :: "nat list" where
  "btree21wd_nodes_14 =
   [0xFF0C278842655C0A, 0xFF1E2E8842656E0A, 0xFF0C2E884265450A, 0xFF1E278842656E0A,
    0xFF0C2E8842650D0A, 0x0AF31E884265170A, 0xFF0C1D8842655C0A, 0xFF0C27884265450A,
    0xFF1E1D8842656E0A, 0xFF0C1D884265450A, 0xFF0C278842650D0A, 0xFF0C1D8842650D0A,
    0x0AFA0B884355487F, 0x0AFB28884353487F, 0xFF022E8843535C7F, 0xFF022E8843536E7F,
    0xFF022E884353457F, 0xFF02278843536E7F, 0xFF022E884353787F, 0xFF0227884353787F,
    0x0B021E884353487F, 0xFF02278843535C7F, 0xFF021D8843535C7F, 0xFF0227884353457F,
    0xFF021D8843536E7F, 0xFF021D884353457F, 0xFF021D884353787F, 0x0B0928884265487F,
    0xFF252E8842655C7F, 0xFF262E8842656E7F, 0xFF252E884265457F, 0xFF26278842656E7F,
    0xFF262E884265787F, 0xFF2627884265787F, 0x0B101E884265487F, 0xFF25278842655C7F,
    0xFF251D8842655C7F, 0xFF2527884265457F, 0xFF261D8842656E7F, 0xFF251D884265457F,
    0xFF261D884265787F, 0x0B170688425B467F, 0xFF02068842595C7F, 0xFF25068842645C7F,
    0xFF0206884259457F, 0xFF2506884264457F, 0xFF25068842785C7F, 0xFF2506884278457F,
    0x0B1E0688425B6F7F, 0xFF02068842596E7F, 0xFF26068842646E7F, 0xFF0206884259787F,
    0xFF2606884264787F, 0xFF26068842786E7F, 0xFF2606884278787F, 0x0B257C8843551C1C,
    0x0B267C8843551C38, 0x0B277C8843555C56, 0xFF04798843535C56, 0xFF04808843535C56,
    0xFF04848843535C56, 0xFF04798842655C56, 0xFF04878842595C56, 0xFF04878842645C56,
    0x0B2E7C88425B4556, 0xFFB9798842654556, 0xFF01878842594556, 0xFF01878842644556,
    0xFFB9808842654556, 0xFFB9848842654556, 0xFFB9878842784556, 0x0B357C8843555E38,
    0xFF04808842655C56, 0xFF20798843537837, 0xFF04848842655C56, 0xFF20808843537837,
    0xFF04878842785C56, 0xFF20848843537837, 0x0B3C7C8843551156, 0xFF01798843534556,
    0xFF01808843534556, 0xFF01848843534556, 0xFFB9808842650D56, 0xFFB9848842650D56,
    0xFFB9878842780D56, 0x0B437C88425B7837, 0xFF20798842657837, 0xFF20878842597837,
    0xFF20878842647837, 0xFF20808842657837, 0xFF20848842657837, 0xFF20878842787837,
    0x0B4A7C8843550D56, 0xFF81798843530D56, 0xFF81808843530D56, 0xFF81848843530D56,
    0xFFB9798842650D56, 0xFF81878842590D56, 0xFF81878842640D56, 0x0B517C8843551C57,
    0x0B527C8843556E56, 0xFF9B798843536E56, 0xFF9B808843536E56, 0xFF9B848843536E56,
    0xFF1B798842656E56, 0xFF9B878842596E56, 0xFF9B878842646E56, 0x0B597C8843556F56,
    0xFF1D798843537856, 0xFF1D808843537856, 0xFF1B808842656E56, 0xFF1D848843537856,
    0xFF1B848842656E56, 0xFF1B878842786E56, 0x0B607C88425B7856, 0xFFBA798842657856,
    0xFF1D878842597856, 0xFF1D878842647856, 0xFFBA808842657856, 0xFFBA848842657856,
    0xFFBA878842787856, 0x0B677C88425B4570, 0xFF24798842654570, 0xFF23878842594570,
    0xFF23878842644570, 0xFF24808842654570, 0xFF24848842654570, 0xFF24878842784570,
    0x0B6E7C8843551170, 0xFF23798843534570, 0xFF23808843534570, 0xFF23848843534570,
    0xFF24808842650D70, 0xFF24848842650D70, 0xFF24878842780D70, 0x0B757C8843550D70,
    0xFF23798843530D70, 0xFF23808843530D70, 0xFF23848843530D70, 0xFF24798842650D70,
    0xFF23878842590D70, 0xFF23878842640D70, 0x0B7C7C8843551737, 0x0B7D7A8843531737,
    0xFF04798843535C37, 0xFF05798843536E37, 0xFF01798843534537, 0xFF01808843534537,
    0xFF01798843530D37, 0xFF01808843530D37, 0x0B84818843531737, 0xFF04808843535C37,
    0xFF04848843535C37, 0xFF05808843536E37, 0xFF05848843536E37, 0xFF01848843534537,
    0xFF01848843530D37, 0x0B8B7A8842651737, 0xFFB1798842655C37, 0xFFB1798842656E37,
    0xFFB1798842654537, 0xFFB1808842654537, 0xFFB9798842650D37, 0xFFB9808842650D37,
    0x0B92818842651737, 0xFFB1808842655C37, 0xFFB1848842655C37, 0xFFB1808842656E37,
    0xFFB1848842656E37, 0xFFB1848842654537, 0xFFB9848842650D37, 0x0B998788425B5D37,
    0xFF04878842595C37, 0xFF04878842645C37, 0xFF05878842596E37, 0xFF05878842646E37,
    0xFFB1878842785C37, 0xFFB1878842786E37, 0x0BA08788425B1137, 0xFF01878842594537,
    0xFF01878842644537, 0xFF01878842590D37, 0xFF01878842640D37, 0xFFB1878842784537,
    0xFFB9878842780D37, 0x0BA77C8843551C72, 0x0BA87C88425B5C70, 0xFF04798842655C70,
    0xFF01878842595C70, 0xFF01878842645C70, 0xFF04808842655C70, 0xFF04848842655C70,
    0xFF04878842785C70, 0x0BAF7C8843556E70, 0xFF17798843536E70, 0xFF17808843536E70,
    0xFF17848843536E70, 0xFF04798842656E70, 0xFF17878842596E70, 0xFF17878842646E70]"

definition btree21wd_nodes_15 :: "nat list" where
  "btree21wd_nodes_15 =
   [0x0BB67C8843551472, 0xFF01798843535C70, 0xFF01808843535C70, 0xFF01848843535C70,
    0xFFA5808842650D7F, 0xFFA5848842650D7F, 0xFFA5878842780D7F, 0x0BBD7C8843556F70,
    0xFFA8798843537870, 0xFFA8808843537870, 0xFF04808842656E70, 0xFFA8848843537870,
    0xFF04848842656E70, 0xFF04878842786E70, 0x0BC47C88425B7870, 0xFF15798842657870,
    0xFFA8878842597870, 0xFFA8878842647870, 0xFF15808842657870, 0xFF15848842657870,
    0xFF15878842787870, 0x0BCB7C8843550D7F, 0xFF02798843530D7F, 0xFF02808843530D7F,
    0xFF02848843530D7F, 0xFFA5798842650D7F, 0xFF02878842590D7F, 0xFFA5878842640D7F,
    0x0BD27C8843551C0A, 0x0BD3828843555D0A, 0xFF1E808843536E0A, 0xFF1E848843536E0A,
    0xFF0C808842655C0A, 0xFF1E878842596E0A, 0xFF0C848842655C0A, 0xFF0C878842785C0A,
    0x0BDA82884355460A, 0xFF1E808843535C0A, 0xFF1E848843535C0A, 0xFF1E878842595C0A,
    0xFF1E878842645C0A, 0xFF0C84884265450A, 0xFF0C87884278450A, 0x0BE182884355110A,
    0xFF0C80884353450A, 0xFF0C84884353450A, 0xFF0C87884259450A, 0xFF0C87884264450A,
    0xFF0C80884265450A, 0xFF8C878842780D0A, 0x0BE8828843556F0A, 0xFF0580884353780A,
    0xFF1E878842646E0A, 0xFF1E808842656E0A, 0xFF0584884353780A, 0xFF1E848842656E0A,
    0xFF1E878842786E0A, 0x0BEF7C88425B780A, 0xFF1E79884265780A, 0xFF0587884259780A,
    0xFF0587884264780A, 0xFF1E80884265780A, 0xFF1E84884265780A, 0xFF1E87884278780A,
    0x0BF6828843550D0A, 0xFF8C808843530D0A, 0xFF8C848843530D0A, 0xFF8C878842590D0A,
    0xFF8C878842640D0A, 0xFF8C808842650D0A, 0xFF8C848842650D0A, 0x0BFD7C884355487F,
    0x0BFE7A884353487F, 0xFF02798843535C7F, 0xFF02808843535C7F, 0xFF02798843536E7F,
    0xFF0279884353457F, 0xFF0280884353457F, 0xFF0279884353787F, 0x0C0581884353487F,
    0xFF02848843535C7F, 0xFF02808843536E7F, 0xFF02848843536E7F, 0xFF0284884353457F,
    0xFF0280884353787F, 0xFF0284884353787F, 0x0C0C7A884265487F, 0xFF25798842655C7F,
    0xFF25808842655C7F, 0xFF26798842656E7F, 0xFFA579884265457F, 0xFFA580884265457F,
    0xFF2679884265787F, 0x0C1381884265487F, 0xFF25848842655C7F, 0xFF26808842656E7F,
    0xFF26848842656E7F, 0xFFA584884265457F, 0xFF2680884265787F, 0xFF2684884265787F,
    0x0C1A8788425B467F, 0xFF02878842595C7F, 0xFF25878842645C7F, 0xFF0287884259457F,
    0xFFA587884264457F, 0xFF25878842785C7F, 0xFFA587884278457F, 0x0C218788425B6F7F,
    0xFF02878842596E7F, 0xFF26878842646E7F, 0xFF0287884259787F, 0xFF2687884264787F,
    0xFF26878842786E7F, 0xFF2687884278787F, 0x0C281C6269551C1C, 0x0C2932617D551C1C,
    0x0C2A3D617D551C38, 0x0C2B3D617D5B4556, 0xFF0149617D594556, 0xFFA366617D594556,
    0xFF013B617D594556, 0xFF0149617D654556, 0xFF0166617D654556, 0xFF033B617D654556,
    0x0C323D617D551156, 0xFF1049617D524556, 0xFFA366617D524556, 0xFF103B617D524556,
    0xFF8449617D650D56, 0xFF8166617D650D56, 0xFF033B617D650D56, 0x0C393D617D530D56,
    0xFF8449617D590D56, 0xFFA366617D590D56, 0xFF1049617D520D56, 0xFFA366617D520D56,
    0xFF843B617D590D56, 0xFF103B617D520D56, 0x0C403D617D536E37, 0xFF0549617D596E37,
    0xFF0566617D596E37, 0xFF1049617D526E37, 0xFF0566617D526E37, 0xFF053B617D596E37,
    0xFF103B617D526E37, 0x0C473D617D556F37, 0xFF0549617D656E37, 0xFF0566617D656E37,
    0xFF1049617D527837, 0xFF2066617D527837, 0xFF223B617D656E37, 0xFF103B617D527837,
    0x0C4E3D617D5B7837, 0xFFA049617D597837, 0xFF2066617D597837, 0xFFA03B617D597837,
    0xFFA049617D657837, 0xFF2066617D657837, 0xFF223B617D657837, 0x0C553D617D551C57,
    0x0C563D617D5B5C56, 0xFF0449617D595C56, 0xFFA366617D595C56, 0xFF043B617D595C56,
    0xFF0449617D655C56, 0xFF0466617D655C56, 0xFF033B617D655C56, 0x0C5D3D617D536E56,
    0xFF1B49617D596E56, 0xFFA366617D596E56, 0xFF1049617D526E56, 0xFFA366617D526E56,
    0xFF1B3B617D596E56, 0xFF103B617D526E56, 0x0C643D617D551457, 0xFF1049617D525C56,
    0xFFA366617D525C56, 0xFF103B617D525C56, 0xFF2349617D650D70, 0xFF2366617D650D70,
    0xFF233B617D650D70, 0x0C6B3D617D556F56, 0xFF1B49617D656E56, 0xFF9B66617D656E56,
    0xFF1049617D527856, 0xFF1D66617D527856, 0xFF223B617D656E56, 0xFF103B617D527856,
    0x0C723D617D5B7856, 0xFF1D49617D597856, 0xFF1D66617D597856, 0xFF1D3B617D597856,
    0xFF1D49617D657856, 0xFF1D66617D657856, 0xFF223B617D657856, 0x0C793D617D530D70,
    0xFF2349617D590D70, 0xFFA366617D590D70, 0xFF1049617D520D70, 0xFFA366617D520D70]"

definition btree21wd_nodes_16 :: "nat list" where
  "btree21wd_nodes_16 =
   [0xFF233B617D590D70, 0xFF103B617D520D70, 0x0C803D617D551C10, 0x0C813D617D535C37,
    0xFF0449617D595C37, 0xFF0466617D595C37, 0xFF1049617D525C37, 0xFF0466617D525C37,
    0xFF043B617D595C37, 0xFF103B617D525C37, 0x0C883D617D5B4537, 0xFF0149617D594537,
    0xFF0166617D594537, 0xFF013B617D594537, 0xFF0149617D654537, 0xFF0166617D654537,
    0xFF833B617D654537, 0x0C8F3D617D555E10, 0xFF0449617D655C37, 0xFF0466617D655C37,
    0xFF033B617D655C37, 0xFF1A49617D52780A, 0xFF0566617D52780A, 0xFF1A3B617D52780A,
    0x0C963D617D551137, 0xFF1049617D524537, 0xFF0166617D524537, 0xFF103B617D524537,
    0xFF0149617D650D37, 0xFF0166617D650D37, 0xFF833B617D650D37, 0x0C9D3D617D5B780A,
    0xFF0549617D59780A, 0xFF0566617D59780A, 0xFF053B617D59780A, 0xFF0549617D65780A,
    0xFF0566617D65780A, 0xFF223B617D65780A, 0x0CA43D617D530D37, 0xFF0149617D590D37,
    0xFF0166617D590D37, 0xFF1049617D520D37, 0xFF0166617D520D37, 0xFF013B617D590D37,
    0xFF103B617D520D37, 0x0CAB3D617D551C72, 0x0CAC3D617D535C70, 0xFF0449617D595C70,
    0xFFA366617D595C70, 0xFF1049617D525C70, 0xFFA366617D525C70, 0xFF043B617D595C70,
    0xFF103B617D525C70, 0x0CB33D617D555D70, 0xFF1049617D526E70, 0xFFA366617D526E70,
    0xFF0449617D655C70, 0xFF0166617D655C70, 0xFF103B617D526E70, 0xFF043B617D655C70,
    0x0CBA3D617D5B6E70, 0xFF1549617D596E70, 0xFFA366617D596E70, 0xFF153B617D596E70,
    0xFF1549617D656E70, 0xFF1766617D656E70, 0xFF153B617D656E70, 0x0CC13D617D5B4570,
    0xFF2349617D594570, 0xFFA366617D594570, 0xFF233B617D594570, 0xFF2349617D654570,
    0xFF2366617D654570, 0xFF233B617D654570, 0x0CC83D617D531172, 0xFF1049617D524570,
    0xFFA366617D524570, 0xFF103B617D524570, 0xFF0249617D520D7F, 0xFF023B617D590D7F,
    0xFF023B617D520D7F, 0x0CCF3C617D557870, 0xFF1549617D597870, 0xFF1049617D527870,
    0xFF153B617D597870, 0xFF103B617D527870, 0xFF1549617D657870, 0xFF153B617D657870,
    0x0CD63D617D55170A, 0x0CD73D617D535C0A, 0xFF0C49617D595C0A, 0xFF1E66617D595C0A,
    0xFF1A49617D525C0A, 0xFF1E66617D525C0A, 0xFF0C3B617D595C0A, 0xFF1A3B617D525C0A,
    0x0CDE3D617D555D0A, 0xFF1A49617D526E0A, 0xFF1E66617D526E0A, 0xFF0C49617D655C0A,
    0xFF1E66617D655C0A, 0xFF1A3B617D526E0A, 0xFF033B617D655C0A, 0x0CE53D617D5B6E0A,
    0xFF1E49617D596E0A, 0xFF1E66617D596E0A, 0xFF1E3B617D596E0A, 0xFF1E49617D656E0A,
    0xFF1E66617D656E0A, 0xFF223B617D656E0A, 0x0CEC3D617D5B450A, 0xFF0C49617D59450A,
    0xFF0C66617D59450A, 0xFF0C3B617D59450A, 0xFF0C49617D65450A, 0xFF0C66617D65450A,
    0xFF833B617D65450A, 0x0CF33D617D55110A, 0xFF1A49617D52450A, 0xFF0C66617D52450A,
    0xFF1A3B617D52450A, 0xFF0C49617D650D0A, 0xFF8C66617D650D0A, 0xFF833B617D650D0A,
    0x0CFA3D617D530D0A, 0xFF0C49617D590D0A, 0xFF8C66617D590D0A, 0xFF1A49617D520D0A,
    0xFF8C66617D520D0A, 0xFF0C3B617D590D0A, 0xFF1A3B617D520D0A, 0x0D0130617D551C7F,
    0x0D0230617D555C7F, 0xFF0249617D595C7F, 0xFF0249617D525C7F, 0xFF023B617D595C7F,
    0xFF023B617D525C7F, 0xFF022E617D535C7F, 0xFF022E617D655C7F, 0x0D0930617D555D7F,
    0xFF0249617D526E7F, 0xFF023B617D596E7F, 0xFF0249617D655C7F, 0xFF023B617D526E7F,
    0xFF022E617D536E7F, 0xFF023B617D655C7F, 0x0D1030617D55457F, 0xFF0249617D59457F,
    0xFF023B617D59457F, 0xFF022E617D53457F, 0xFF0249617D65457F, 0xFF023B617D65457F,
    0xFF022E617D65457F, 0x0D1730617D55117F, 0xFF0249617D52457F, 0xFF023B617D52457F,
    0xFF0249617D590D7F, 0xFF0249617D650D7F, 0xFF023B617D650D7F, 0xFF022E617D650D7F,
    0x0D1E30617D556F7F, 0xFF0249617D596E7F, 0xFF0249617D656E7F, 0xFF0249617D52787F,
    0xFF023B617D656E7F, 0xFF023B617D52787F, 0xFF022E617D656E7F, 0x0D2530617D55787F,
    0xFF0249617D59787F, 0xFF023B617D59787F, 0xFF022E617D53787F, 0xFF0249617D65787F,
    0xFF023B617D65787F, 0xFF022E617D65787F, 0x0D2C6C617D551C1C, 0x0D2D76617D551C38,
    0x0D2E76617D554656, 0xFFA373617D525C56, 0xFFA373617D594556, 0xFF0373617D654556,
    0xFFA384617D534556, 0xFF0379617D654556, 0xFF0380617D654556, 0x0D3576617D551156,
    0xFFA373617D524556, 0xFFA379617D534556, 0xFFA380617D534556, 0xFF0379617D650D56,
    0xFF0380617D650D56, 0xFF0384617D650D56, 0x0D3C76617D550D56, 0xFFA373617D590D56,
    0xFFA373617D520D56, 0xFFA379617D530D56, 0xFFA380617D530D56, 0xFF0373617D650D56,
    0xFFA384617D530D56, 0x0D4376617D556E37, 0xFF0573617D596E37, 0xFF0573617D526E37]"

definition btree21wd_nodes_17 :: "nat list" where
  "btree21wd_nodes_17 =
   [0xFF0579617D536E37, 0xFF2280617D536E37, 0xFF2273617D656E37, 0xFF0584617D536E37,
    0x0D4A76617D556F37, 0xFF2073617D527837, 0xFF2279617D656E37, 0xFF2079617D537837,
    0xFF2280617D656E37, 0xFF2280617D537837, 0xFF2284617D656E37, 0x0D5176617D557837,
    0xFF2073617D597837, 0xFF2273617D657837, 0xFF2084617D537837, 0xFF2279617D657837,
    0xFF2280617D657837, 0xFF2284617D657837, 0x0D5875617D551C57, 0x0D5975617D555D56,
    0xFFA373617D595C56, 0xFFA373617D526E56, 0xFFA379617D536E56, 0xFF0373617D655C56,
    0xFF0379617D655C56, 0xFF0380617D655C56, 0x0D6075617D554657, 0xFFA379617D535C56,
    0xFFA380617D535C56, 0xFFA373617D525C70, 0xFFA379617D535C70, 0xFF2379617D654570,
    0xFF2380617D654570, 0x0D6775617D556F56, 0xFFA373617D596E56, 0xFFA380617D536E56,
    0xFF2273617D656E56, 0xFF1D73617D527856, 0xFF2279617D656E56, 0xFF2280617D656E56,
    0x0D6E75617D551170, 0xFFA373617D594570, 0xFFA373617D524570, 0xFFA379617D534570,
    0xFFA380617D534570, 0xFF2373617D654570, 0xFF2380617D650D70, 0x0D7575617D557856,
    0xFF1D73617D597856, 0xFF1D79617D537856, 0xFF2280617D537856, 0xFF2273617D657856,
    0xFF2279617D657856, 0xFF2280617D657856, 0x0D7C75617D550D70, 0xFFA373617D590D70,
    0xFFA373617D520D70, 0xFFA379617D530D70, 0xFFA380617D530D70, 0xFF2373617D650D70,
    0xFF2379617D650D70, 0x0D8376617D551C10, 0x0D8476617D555C37, 0xFF0473617D595C37,
    0xFF0473617D525C37, 0xFF0479617D535C37, 0xFF0380617D535C37, 0xFF0373617D655C37,
    0xFF0484617D535C37, 0x0D8B76617D554537, 0xFF0173617D594537, 0xFF8373617D654537,
    0xFF0184617D534537, 0xFF8379617D654537, 0xFF8380617D654537, 0xFF8384617D654537,
    0x0D9276617D555E10, 0xFF0379617D655C37, 0xFF0380617D655C37, 0xFF0384617D655C37,
    0xFF0573617D52780A, 0xFF0579617D53780A, 0xFF2280617D53780A, 0x0D9976617D551137,
    0xFF0173617D524537, 0xFF0179617D534537, 0xFF8380617D534537, 0xFF8379617D650D37,
    0xFF8380617D650D37, 0xFF8384617D650D37, 0x0DA076617D55780A, 0xFF0573617D59780A,
    0xFF2273617D65780A, 0xFF0584617D53780A, 0xFF2279617D65780A, 0xFF2280617D65780A,
    0xFF2284617D65780A, 0x0DA776617D550D37, 0xFF0173617D590D37, 0xFF0173617D520D37,
    0xFF0179617D530D37, 0xFF8380617D530D37, 0xFF8373617D650D37, 0xFF0184617D530D37,
    0x0DAE6B617D551C72, 0x0DAF75617D555D70, 0xFFA373617D596E70, 0xFFA373617D526E70,
    0xFFA379617D536E70, 0xFFA380617D536E70, 0xFF1773617D656E70, 0xFF0180617D655C70,
    0x0DB675617D554672, 0xFFA373617D595C70, 0xFFA380617D535C70, 0xFF0173617D655C70,
    0xFF0179617D655C70, 0xFFA379617D53457F, 0xFFA380617D53457F, 0x0DBD6B617D556F70,
    0xFFA866617D527870, 0xFFA873617D527870, 0xFF1779617D656E70, 0xFFA879617D537870,
    0xFF1780617D656E70, 0xFFA880617D537870, 0x0DC46B617D55117F, 0xFFA366617D52457F,
    0xFFA373617D52457F, 0xFF0266617D650D7F, 0xFF0273617D650D7F, 0xFF0279617D650D7F,
    0xFF0280617D650D7F, 0x0DCB6B617D5B7870, 0xFFA866617D597870, 0xFFA873617D597870,
    0xFFA866617D657870, 0xFFA873617D657870, 0xFFA879617D657870, 0xFFA880617D657870,
    0x0DD26B617D530D7F, 0xFFA366617D590D7F, 0xFFA366617D520D7F, 0xFFA373617D590D7F,
    0xFFA373617D520D7F, 0xFFA379617D530D7F, 0xFFA380617D530D7F, 0x0DD976617D55170A,
    0x0DDA74617D53170A, 0xFF1E73617D525C0A, 0xFF1E73617D526E0A, 0xFF0C73617D52450A,
    0xFF0C79617D53450A, 0xFF8C73617D520D0A, 0xFF8C79617D530D0A, 0x0DE17A617D53170A,
    0xFF1E79617D535C0A, 0xFF0380617D535C0A, 0xFF1E79617D536E0A, 0xFF2280617D536E0A,
    0xFF8380617D53450A, 0xFF8380617D530D0A, 0x0DE876617D53170A, 0xFF0C73617D59450A,
    0xFF1E84617D535C0A, 0xFF8C73617D590D0A, 0xFF1E84617D536E0A, 0xFF0C84617D53450A,
    0xFF8C84617D530D0A, 0x0DEF73617D5B170A, 0xFF1E73617D595C0A, 0xFF1E73617D596E0A,
    0xFF0373617D655C0A, 0xFF2273617D656E0A, 0xFF8373617D65450A, 0xFF8373617D650D0A,
    0x0DF67A617D65170A, 0xFF0379617D655C0A, 0xFF2279617D656E0A, 0xFF8379617D65450A,
    0xFF8380617D65450A, 0xFF8379617D650D0A, 0xFF8380617D650D0A, 0x0DFD81617D65170A,
    0xFF0380617D655C0A, 0xFF0384617D655C0A, 0xFF2280617D656E0A, 0xFF2284617D656E0A,
    0xFF8384617D65450A, 0xFF8384617D650D0A, 0x0E046B617D55487F, 0x0E056B617D535C7F,
    0xFFA366617D595C7F, 0xFFA366617D525C7F, 0xFFA373617D595C7F, 0xFFA373617D525C7F,
    0xFFA379617D535C7F, 0xFFA380617D535C7F, 0x0E0C6B617D555D7F, 0xFFA366617D526E7F]"

definition btree21wd_nodes_18 :: "nat list" where
  "btree21wd_nodes_18 =
   [0xFF0266617D655C7F, 0xFFA373617D526E7F, 0xFF0273617D655C7F, 0xFF0279617D655C7F,
    0xFF0280617D655C7F, 0x0E136B617D556E7F, 0xFFA366617D596E7F, 0xFFA373617D596E7F,
    0xFFA379617D536E7F, 0xFF0266617D656E7F, 0xFFA380617D536E7F, 0xFF0273617D656E7F,
    0x0E1A6B617D5B457F, 0xFFA366617D59457F, 0xFFA373617D59457F, 0xFF0266617D65457F,
    0xFF0273617D65457F, 0xFF0279617D65457F, 0xFF0280617D65457F, 0x0E216B617D556F7F,
    0xFF0266617D52787F, 0xFF0273617D52787F, 0xFF0279617D656E7F, 0xFF0279617D53787F,
    0xFF0280617D656E7F, 0xFF0280617D53787F, 0x0E286B617D5B787F, 0xFF0266617D59787F,
    0xFF0273617D59787F, 0xFF0266617D65787F, 0xFF0273617D65787F, 0xFF0279617D65787F,
    0xFF0280617D65787F, 0x0E2F0B617D551C1C, 0x0E300B617D551C38, 0x0E310B617D554556,
    0xFF012E617D534556, 0xFF032E617D654556, 0xFF0106617D594556, 0xFF0327617D654556,
    0xFF031D617D654556, 0xFF0306617D654556, 0x0E380B617D551156, 0xFF0327617D534556,
    0xFF011D617D534556, 0xFF1006617D524556, 0xFF032E617D650D56, 0xFF0327617D650D56,
    0xFF031D617D650D56, 0x0E3F0B617D550D56, 0xFF842E617D530D56, 0xFF0327617D530D56,
    0xFF841D617D530D56, 0xFF8406617D590D56, 0xFF1006617D520D56, 0xFF0306617D650D56,
    0x0E460B617D556E37, 0xFF052E617D536E37, 0xFF2227617D536E37, 0xFF051D617D536E37,
    0xFF0506617D596E37, 0xFF1006617D526E37, 0xFF2206617D656E37, 0x0E4D0B617D556F37,
    0xFF222E617D656E37, 0xFF2227617D656E37, 0xFF2227617D537837, 0xFF221D617D656E37,
    0xFFA01D617D537837, 0xFF1006617D527837, 0x0E540B617D557837, 0xFFA02E617D537837,
    0xFF222E617D657837, 0xFFA006617D597837, 0xFF2227617D657837, 0xFF221D617D657837,
    0xFF2206617D657837, 0x0E5B0B617D551C57, 0x0E5C0B617D555C56, 0xFF042E617D535C56,
    0xFF032E617D655C56, 0xFF0406617D595C56, 0xFF0327617D655C56, 0xFF031D617D655C56,
    0xFF0306617D655C56, 0x0E630B617D556E56, 0xFF1B2E617D536E56, 0xFF2227617D536E56,
    0xFF1B1D617D536E56, 0xFF1B06617D596E56, 0xFF1006617D526E56, 0xFF2206617D656E56,
    0x0E6A0B617D551457, 0xFF0327617D535C56, 0xFF041D617D535C56, 0xFF1006617D525C56,
    0xFF232E617D650D70, 0xFF2327617D650D70, 0xFF231D617D650D70, 0x0E710B617D556F56,
    0xFF222E617D656E56, 0xFF2227617D656E56, 0xFF2227617D537856, 0xFF221D617D656E56,
    0xFF1D1D617D537856, 0xFF1006617D527856, 0x0E780B617D557856, 0xFF1D2E617D537856,
    0xFF222E617D657856, 0xFF1D06617D597856, 0xFF2227617D657856, 0xFF221D617D657856,
    0xFF2206617D657856, 0x0E7F0B617D550D70, 0xFF232E617D530D70, 0xFF2327617D530D70,
    0xFF231D617D530D70, 0xFF2306617D590D70, 0xFF1006617D520D70, 0xFF2306617D650D70,
    0x0E860B617D554870, 0x0E870B617D555C70, 0xFF042E617D535C70, 0xFF042E617D655C70,
    0xFF0406617D595C70, 0xFF0427617D655C70, 0xFF041D617D655C70, 0xFF0406617D655C70,
    0x0E8E0B617D554670, 0xFF0427617D535C70, 0xFF041D617D535C70, 0xFF1006617D525C70,
    0xFF232E617D654570, 0xFF2327617D654570, 0xFF231D617D654570, 0x0E950B617D556E70,
    0xFF152E617D536E70, 0xFF1527617D536E70, 0xFF151D617D536E70, 0xFF1506617D596E70,
    0xFF1006617D526E70, 0xFF1506617D656E70, 0x0E9C0B617D554570, 0xFF232E617D534570,
    0xFF2327617D534570, 0xFF231D617D534570, 0xFF2306617D594570, 0xFF1006617D524570,
    0xFF2306617D654570, 0x0EA30B617D556F70, 0xFF152E617D656E70, 0xFF1527617D656E70,
    0xFF1527617D537870, 0xFF151D617D656E70, 0xFF151D617D537870, 0xFF1006617D527870,
    0x0EAA0B617D557870, 0xFF152E617D537870, 0xFF152E617D657870, 0xFF1506617D597870,
    0xFF1527617D657870, 0xFF151D617D657870, 0xFF1506617D657870, 0x0EB10B617D551C10,
    0x0EB20B617D555C37, 0xFF042E617D535C37, 0xFF0327617D535C37, 0xFF041D617D535C37,
    0xFF0406617D595C37, 0xFF1006617D525C37, 0xFF0306617D655C37, 0x0EB90B617D554537,
    0xFF012E617D534537, 0xFF832E617D654537, 0xFF0106617D594537, 0xFF8327617D654537,
    0xFF831D617D654537, 0xFF8306617D654537, 0x0EC00B617D555E10, 0xFF032E617D655C37,
    0xFF0327617D655C37, 0xFF031D617D655C37, 0xFF2227617D53780A, 0xFF051D617D53780A,
    0xFF1A06617D52780A, 0x0EC70B617D551137, 0xFF8327617D534537, 0xFF011D617D534537,
    0xFF1006617D524537, 0xFF832E617D650D37, 0xFF8327617D650D37, 0xFF831D617D650D37,
    0x0ECE0B617D55780A, 0xFF052E617D53780A, 0xFF222E617D65780A, 0xFF0506617D59780A,
    0xFF2227617D65780A, 0xFF221D617D65780A, 0xFF2206617D65780A, 0x0ED50B617D550D37]"

definition btree21wd_nodes_19 :: "nat list" where
  "btree21wd_nodes_19 =
   [0xFF012E617D530D37, 0xFF8327617D530D37, 0xFF011D617D530D37, 0xFF0106617D590D37,
    0xFF1006617D520D37, 0xFF8306617D650D37, 0x0EDC0B617D55170A, 0x0EDD0B617D555C0A,
    0xFF0C2E617D535C0A, 0xFF0327617D535C0A, 0xFF0C1D617D535C0A, 0xFF0C06617D595C0A,
    0xFF1A06617D525C0A, 0xFF0306617D655C0A, 0x0EE40B617D555D0A, 0xFF2227617D536E0A,
    0xFF032E617D655C0A, 0xFF1E1D617D536E0A, 0xFF0327617D655C0A, 0xFF1A06617D526E0A,
    0xFF031D617D655C0A, 0x0EEB0B617D556E0A, 0xFF1E2E617D536E0A, 0xFF222E617D656E0A,
    0xFF1E06617D596E0A, 0xFF2227617D656E0A, 0xFF221D617D656E0A, 0xFF2206617D656E0A,
    0x0EF20B617D55450A, 0xFF0C2E617D53450A, 0xFF832E617D65450A, 0xFF0C06617D59450A,
    0xFF8327617D65450A, 0xFF831D617D65450A, 0xFF8306617D65450A, 0x0EF90B617D55110A,
    0xFF8327617D53450A, 0xFF0C1D617D53450A, 0xFF1A06617D52450A, 0xFF832E617D650D0A,
    0xFF8327617D650D0A, 0xFF831D617D650D0A, 0x0F000B617D550D0A, 0xFF0C2E617D530D0A,
    0xFF8327617D530D0A, 0xFF0C1D617D530D0A, 0xFF0C06617D590D0A, 0xFF1A06617D520D0A,
    0xFF8306617D650D0A, 0x0F070B617D551C7F, 0x0F0809617D555D7F, 0xFF0206617D595C7F,
    0xFF021D617D536E7F, 0xFF0227617D655C7F, 0xFF0206617D526E7F, 0xFF021D617D655C7F,
    0xFF0206617D655C7F, 0x0F0F09617D55467F, 0xFF0227617D535C7F, 0xFF021D617D535C7F,
    0xFF0206617D525C7F, 0xFF0227617D65457F, 0xFF021D617D65457F, 0xFF0206617D65457F,
    0x0F1609617D55117F, 0xFF0227617D53457F, 0xFF021D617D53457F, 0xFF0206617D59457F,
    0xFF0206617D52457F, 0xFF0227617D650D7F, 0xFF021D617D650D7F, 0x0F1D09617D556F7F,
    0xFF0227617D536E7F, 0xFF0206617D596E7F, 0xFF0227617D656E7F, 0xFF021D617D656E7F,
    0xFF0206617D656E7F, 0xFF0206617D52787F, 0x0F2409617D55787F, 0xFF0227617D53787F,
    0xFF021D617D53787F, 0xFF0206617D59787F, 0xFF0227617D65787F, 0xFF021D617D65787F,
    0xFF0206617D65787F, 0x0F2B0B617D550D7F, 0xFF022E617D530D7F, 0xFF0227617D530D7F,
    0xFF021D617D530D7F, 0xFF0206617D590D7F, 0xFF0206617D520D7F, 0xFF0206617D650D7F,
    0x0F321C627D551C1C, 0x0F3324627D551C1C, 0x0F3484617D554856, 0xFFA384617D535C56,
    0xFFA384617D536E56, 0xFF0384617D655C56, 0xFF2284617D656E56, 0xFF1D84617D537856,
    0xFF0384617D654556, 0x0F3B84617D551C57, 0xFFA384617D535C70, 0xFFA384617D534570,
    0xFF2384617D654570, 0xFFA384617D530D70, 0xFF2284617D657856, 0xFF2384617D650D70,
    0x0F4284617D551C72, 0xFFA384617D536E70, 0xFF0184617D655C70, 0xFF1784617D656E70,
    0xFFA884617D537870, 0xFFA384617D530D7F, 0xFFA884617D657870, 0x0F4984617D55177F,
    0xFFA384617D535C7F, 0xFFA384617D536E7F, 0xFFA384617D53457F, 0xFF0284617D655C7F,
    0xFF0284617D65457F, 0xFF0284617D650D7F, 0x0F5085617D551C1C, 0xFF0284617D656E7F,
    0xFF0284617D53787F, 0xFF8C87617D590D0A, 0xFF8C87617D520D0A, 0xFF0284617D65787F,
    0xFF8387617D650D0A, 0x0F571D887D554870, 0xFF041D887D535C70, 0xFF151D887D536E70,
    0xFF041D887D655C70, 0xFF151D887D656E70, 0xFF151D887D537870, 0xFF231D887D654570,
    0x0F5E08887D551C1C, 0x0F5F1D887D555E56, 0xFF041D887D535C56, 0xFF1B1D887D536E56,
    0xFF031D887D655C56, 0xFF221D887D656E56, 0xFF1D1D887D537856, 0xFF221D887D657856,
    0x0F661D887D551C38, 0xFF011D887D534556, 0xFF031D887D654556, 0xFF841D887D530D56,
    0xFFA01D887D537837, 0xFF031D887D650D56, 0xFF221D887D657837, 0x0F6D1D887D554737,
    0xFF041D887D535C37, 0xFF051D887D536E37, 0xFF011D887D534537, 0xFF031D887D655C37,
    0xFF221D887D656E37, 0xFF831D887D654537, 0x0F741D887D551C10, 0xFF1E1D887D536E0A,
    0xFF011D887D530D37, 0xFF221D887D656E0A, 0xFF051D887D53780A, 0xFF831D887D650D37,
    0xFF221D887D65780A, 0x0F7B08887D551C72, 0xFF231D887D534570, 0xFF231D887D530D70,
    0xFF231D887D650D70, 0xFF0206887D59787F, 0xFF0206887D52787F, 0xFF0206887D65787F,
    0x0F821D887D55140A, 0xFF0C1D887D535C0A, 0xFF0C1D887D53450A, 0xFF031D887D655C0A,
    0xFF831D887D65450A, 0xFF0C1D887D530D0A, 0xFF831D887D650D0A, 0x0F8987617D551C15,
    0x0F8A87617D5B5C15, 0xFFA387617D595C56, 0xFF0487617D595C37, 0xFF0387617D655C56,
    0xFF1E87617D595C0A, 0xFF0387617D655C37, 0xFF0387617D655C0A, 0x0F9187617D554615,
    0xFFA387617D525C56, 0xFF0487617D525C37, 0xFF0387617D654556, 0xFF1E87617D525C0A,
    0xFF8387617D654537, 0xFF8387617D65450A, 0x0F9887617D556E10, 0xFF0587617D596E37,
    0xFF0587617D526E37, 0xFF1E87617D596E0A, 0xFF2287617D656E37, 0xFF1E87617D526E0A]"

definition btree21wd_nodes_20 :: "nat list" where
  "btree21wd_nodes_20 =
   [0xFF2287617D656E0A, 0x0F9F87617D534515, 0xFFA387617D594556, 0xFFA387617D524556,
    0xFF0187617D594537, 0xFF0187617D524537, 0xFF0C87617D59450A, 0xFF0C87617D52450A,
    0x0FA687617D557810, 0xFF2087617D597837, 0xFF2087617D527837, 0xFF0587617D59780A,
    0xFF2287617D657837, 0xFF0587617D52780A, 0xFF2287617D65780A, 0x0FAD87617D550D38,
    0xFFA387617D590D56, 0xFFA387617D520D56, 0xFF0187617D590D37, 0xFF0187617D520D37,
    0xFF0387617D650D56, 0xFF8387617D650D37, 0x0FB406887D551C15, 0x0FB506887D555C10,
    0xFF0406887D595C37, 0xFF1006887D525C37, 0xFF0C06887D595C0A, 0xFF0306887D655C37,
    0xFF1A06887D525C0A, 0xFF0306887D655C0A, 0x0FBC06887D556E10, 0xFF0506887D596E37,
    0xFF1006887D526E37, 0xFF1E06887D596E0A, 0xFF2206887D656E37, 0xFF1A06887D526E0A,
    0xFF2206887D656E0A, 0x0FC306887D5B4515, 0xFF0106887D594556, 0xFF0106887D594537,
    0xFF0306887D654556, 0xFF0C06887D59450A, 0xFF8306887D654537, 0xFF8306887D65450A,
    0x0FCA06887D551115, 0xFF1006887D524556, 0xFF1006887D524537, 0xFF1A06887D52450A,
    0xFF0306887D650D56, 0xFF8306887D650D37, 0xFF8306887D650D0A, 0x0FD106887D557810,
    0xFFA006887D597837, 0xFF1006887D527837, 0xFF0506887D59780A, 0xFF2206887D657837,
    0xFF1A06887D52780A, 0xFF2206887D65780A, 0x0FD806887D530D15, 0xFF8406887D590D56,
    0xFF1006887D520D56, 0xFF0106887D590D37, 0xFF1006887D520D37, 0xFF0C06887D590D0A,
    0xFF1A06887D520D0A, 0x0FDF87617D551C58, 0x0FE087617D555C72, 0xFFA387617D595C70,
    0xFFA387617D525C70, 0xFFA387617D595C7F, 0xFF0187617D655C70, 0xFFA387617D525C7F,
    0xFF0287617D655C7F, 0x0FE787617D536E58, 0xFFA387617D596E56, 0xFFA387617D526E56,
    0xFFA387617D596E70, 0xFFA387617D526E70, 0xFFA387617D596E7F, 0xFFA387617D526E7F,
    0x0FEE87617D554572, 0xFFA387617D594570, 0xFFA387617D524570, 0xFFA387617D59457F,
    0xFF2387617D654570, 0xFFA387617D52457F, 0xFF0287617D65457F, 0x0FF587617D556F58,
    0xFF2287617D656E56, 0xFF1D87617D527856, 0xFF1787617D656E70, 0xFFA887617D527870,
    0xFF0287617D656E7F, 0xFF0287617D52787F, 0x0FFC87617D5B7858, 0xFF1D87617D597856,
    0xFFA887617D597870, 0xFF2287617D657856, 0xFF0287617D59787F, 0xFFA887617D657870,
    0xFF0287617D65787F, 0x100387617D550D72, 0xFFA387617D590D70, 0xFFA387617D520D70,
    0xFFA387617D590D7F, 0xFF2387617D650D70, 0xFFA387617D520D7F, 0xFF0287617D650D7F,
    0x100A06887D551C58, 0x100B06887D535C58, 0xFF0406887D595C56, 0xFF1006887D525C56,
    0xFF0406887D595C70, 0xFF1006887D525C70, 0xFF0206887D595C7F, 0xFF0206887D525C7F,
    0x101206887D555D58, 0xFF1006887D526E56, 0xFF0306887D655C56, 0xFF1006887D526E70,
    0xFF0406887D655C70, 0xFF0206887D526E7F, 0xFF0206887D655C7F, 0x101906887D5B6E58,
    0xFF1B06887D596E56, 0xFF1506887D596E70, 0xFF2206887D656E56, 0xFF0206887D596E7F,
    0xFF1506887D656E70, 0xFF0206887D656E7F, 0x102006887D554572, 0xFF2306887D594570,
    0xFF1006887D524570, 0xFF0206887D59457F, 0xFF2306887D654570, 0xFF0206887D52457F,
    0xFF0206887D65457F, 0x102706887D557857, 0xFF1D06887D597856, 0xFF1006887D527856,
    0xFF1506887D597870, 0xFF1006887D527870, 0xFF2206887D657856, 0xFF1506887D657870,
    0x102E06887D550D72, 0xFF2306887D590D70, 0xFF1006887D520D70, 0xFF0206887D590D7F,
    0xFF2306887D650D70, 0xFF0206887D520D7F, 0xFF0206887D650D7F, 0x1035418869551C1C,
    0x10364F8869551C38, 0x10374F8869555D37, 0xFF044988685B5C37, 0xFF046688685B5C37,
    0xFF0549887D596E37, 0xFF1049887D526E37, 0xFF0449887D655C37, 0xFF04878868555C37,
    0x103E4F8868556E37, 0xFF054988685B6E37, 0xFF05738868556E37, 0xFF05798868556E37,
    0xFF05808868556E37, 0xFF05848868556E37, 0xFF05878868556E37, 0x10454E8868551438,
    0xFF04738868555C37, 0xFF04798868555C37, 0xFF844988685B0D56, 0xFF816688685B0D56,
    0xFF04808868555C37, 0xFF04848868555C37, 0x104C4D8869556F37, 0xFF056688685B6E37,
    0xFFA049887D597837, 0xFF0549887D656E37, 0xFF1049887D527837, 0xFF20738868557837,
    0xFF20798868557837, 0x10534F8869557837, 0xFFA04988685B7837, 0xFF206688685B7837,
    0xFFA049887D657837, 0xFF20808868557837, 0xFF20848868557837, 0xFF20878868557837,
    0x105A4F8869550D56, 0xFF1049887D520D56, 0xFF81738868550D56, 0xFF81798868550D56,
    0xFF81808868550D56, 0xFF81848868550D56, 0xFF81878868550D56, 0x10614F8868551C57,
    0x10624F8868555D56, 0xFF044988685B5C56, 0xFF046688685B5C56, 0xFF9B738868556E56]"

definition btree21wd_nodes_21 :: "nat list" where
  "btree21wd_nodes_21 =
   [0xFF9B798868556E56, 0xFF04848868555C56, 0xFF04878868555C56, 0x10694F8868554656,
    0xFF04738868555C56, 0xFF014988685B4556, 0xFF016688685B4556, 0xFF04798868555C56,
    0xFF04808868555C56, 0xFF01878868554556, 0x10704F8868556F56, 0xFF1B4988685B6E56,
    0xFF9B6688685B6E56, 0xFF9B808868556E56, 0xFF1D738868557856, 0xFF9B848868556E56,
    0xFF9B878868556E56, 0x10776C8868551157, 0xFF01738868554556, 0xFF01798868554556,
    0xFF01808868554556, 0xFF23738868554570, 0xFF01848868554556, 0xFF236688685B0D70,
    0x107E4F8868557856, 0xFF1D4988685B7856, 0xFF1D6688685B7856, 0xFF1D798868557856,
    0xFF1D808868557856, 0xFF1D848868557856, 0xFF1D878868557856, 0x10854F8868550D70,
    0xFF234988685B0D70, 0xFF23738868550D70, 0xFF23798868550D70, 0xFF23808868550D70,
    0xFF23848868550D70, 0xFF23878868550D70, 0x108C4F8869551C10, 0x108D4F8869554710,
    0xFF0449887D595C37, 0xFF1049887D525C37, 0xFF016688685B4537, 0xFF0149887D654537,
    0xFF1E4988685B6E0A, 0xFF1E878868556E0A, 0x10944F8868554537, 0xFF014988685B4537,
    0xFF01738868554537, 0xFF01798868554537, 0xFF01808868554537, 0xFF01848868554537,
    0xFF01878868554537, 0x109B4D8869556F0A, 0xFF1E6688685B6E0A, 0xFF0549887D59780A,
    0xFF1E49887D656E0A, 0xFF1A49887D52780A, 0xFF0573886855780A, 0xFF0579886855780A,
    0x10A24F8869551137, 0xFF0149887D594537, 0xFF1049887D524537, 0xFF014988685B0D37,
    0xFF016688685B0D37, 0xFF0149887D650D37, 0xFF01878868550D37, 0x10A94F886955780A,
    0xFF054988685B780A, 0xFF056688685B780A, 0xFF0549887D65780A, 0xFF0580886855780A,
    0xFF0584886855780A, 0xFF0587886855780A, 0x10B04E8869550D37, 0xFF0149887D590D37,
    0xFF1049887D520D37, 0xFF01738868550D37, 0xFF01798868550D37, 0xFF01808868550D37,
    0xFF01848868550D37, 0x10B74F8868551C72, 0x10B84F8868555D70, 0xFF044988685B5C70,
    0xFF016688685B5C70, 0xFF17738868556E70, 0xFF17798868556E70, 0xFF01848868555C70,
    0xFF01878868555C70, 0x10BF4F8868554670, 0xFF01738868555C70, 0xFF234988685B4570,
    0xFF236688685B4570, 0xFF01798868555C70, 0xFF01808868555C70, 0xFF23878868554570,
    0x10C64F8868556F70, 0xFF154988685B6E70, 0xFF176688685B6E70, 0xFF17808868556E70,
    0xFFA8738868557870, 0xFF17848868556E70, 0xFF17878868556E70, 0x10CD6C8868551172,
    0xFF23798868554570, 0xFF23808868554570, 0xFF0273886855457F, 0xFF23848868554570,
    0xFF0279886855457F, 0xFF026688685B0D7F, 0x10D44F8868557870, 0xFF154988685B7870,
    0xFFA86688685B7870, 0xFFA8798868557870, 0xFFA8808868557870, 0xFFA8848868557870,
    0xFFA8878868557870, 0x10DB4F8868550D7F, 0xFF024988685B0D7F, 0xFF02738868550D7F,
    0xFF02798868550D7F, 0xFF02808868550D7F, 0xFF02848868550D7F, 0xFF02878868550D7F,
    0x10E24F886955170A, 0x10E34C886955170A, 0xFF1E6688685B5C0A, 0xFF1E49887D596E0A,
    0xFF1A49887D526E0A, 0xFF0C6688685B450A, 0xFF8C6688685B0D0A, 0xFF8C738868550D0A,
    0x10EA49886955460A, 0xFF0C49887D595C0A, 0xFF1A49887D525C0A, 0xFF0C4988685B5C0A,
    0xFF0C4988685B450A, 0xFF0C49887D655C0A, 0xFF0C49887D65450A, 0x10F149886955110A,
    0xFF0C49887D59450A, 0xFF1A49887D52450A, 0xFF0C49887D590D0A, 0xFF1A49887D520D0A,
    0xFF0C4988685B0D0A, 0xFF0C49887D650D0A, 0x10F874886855170A, 0xFF1E738868555C0A,
    0xFF1E798868555C0A, 0xFF1E738868556E0A, 0xFF0C73886855450A, 0xFF0C79886855450A,
    0xFF8C798868550D0A, 0x10FF7B886855170A, 0xFF1E808868555C0A, 0xFF1E798868556E0A,
    0xFF1E808868556E0A, 0xFF0C80886855450A, 0xFF8C808868550D0A, 0xFF8C848868550D0A,
    0x110685886855170A, 0xFF1E848868555C0A, 0xFF1E878868555C0A, 0xFF1E848868556E0A,
    0xFF0C84886855450A, 0xFF0C87886855450A, 0xFF8C878868550D0A, 0x110D41886955487F,
    0x110E3B8869536F7F, 0xFF023B8868526E7F, 0xFF023B887D596E7F, 0xFF023B887D526E7F,
    0xFF023B886852787F, 0xFF023B887D59787F, 0xFF023B887D52787F, 0x1115748868555E7F,
    0xFF02738868555C7F, 0xFF02798868555C7F, 0xFF02738868556E7F, 0xFF02798868556E7F,
    0xFF0273886855787F, 0xFF0279886855787F, 0x111C81886855487F, 0xFF02808868555C7F,
    0xFF02848868555C7F, 0xFF02808868556E7F, 0xFF0280886855457F, 0xFF0284886855457F,
    0xFF0280886855787F, 0x112385886855487F, 0xFF02878868555C7F, 0xFF02848868556E7F,
    0xFF02878868556E7F, 0xFF0287886855457F, 0xFF0284886855787F, 0xFF0287886855787F,
    0x112A3C88685B487F, 0xFF024988685B5C7F, 0xFF024988685B6E7F, 0xFF024988685B457F]"

definition btree21wd_nodes_22 :: "nat list" where
  "btree21wd_nodes_22 =
   [0xFF023B88685B6E7F, 0xFF024988685B787F, 0xFF023B88685B787F, 0x11313D88695B487F,
    0xFF026688685B5C7F, 0xFF026688685B6E7F, 0xFF026688685B457F, 0xFF026688685B787F,
    0xFF023B887D656E7F, 0xFF023B887D65787F, 0x1138208869551C1C, 0x1139298869551C38,
    0x113A298869555C56, 0xFF103B8868525C56, 0xFF043B887D595C56, 0xFF103B887D525C56,
    0xFF043B88685B5C56, 0xFF042E887D535C56, 0xFF0327887D535C56, 0x1141298869554556,
    0xFF013B887D594556, 0xFF013B88685B4556, 0xFF012E887D534556, 0xFF033B887D654556,
    0xFF032E887D654556, 0xFF0327887D654556, 0x1148298869555E38, 0xFF103B8868526E56,
    0xFF033B887D655C56, 0xFF032E887D655C56, 0xFF0327887D655C56, 0xFF103B887D527837,
    0xFF2227887D537837, 0x114F298869551156, 0xFF103B8868524556, 0xFF103B887D524556,
    0xFF0327887D534556, 0xFF033B887D650D56, 0xFF032E887D650D56, 0xFF0327887D650D56,
    0x1156298869557837, 0xFFA03B887D597837, 0xFFA03B88685B7837, 0xFFA02E887D537837,
    0xFF223B887D657837, 0xFF222E887D657837, 0xFF2227887D657837, 0x115D298869550D56,
    0xFF103B8868520D56, 0xFF843B887D590D56, 0xFF103B887D520D56, 0xFF843B88685B0D56,
    0xFF842E887D530D56, 0xFF0327887D530D56, 0x1164298869551C57, 0x1165298869555D57,
    0xFF1B3B887D596E56, 0xFF103B8868525C70, 0xFF103B887D526E56, 0xFF1B3B88685B6E56,
    0xFF1B2E887D536E56, 0xFF2227887D536E56, 0x116C298869554570, 0xFF233B887D594570,
    0xFF233B88685B4570, 0xFF232E887D534570, 0xFF233B887D654570, 0xFF232E887D654570,
    0xFF2327887D654570, 0x1173298869556F56, 0xFF103B8868527856, 0xFF223B887D656E56,
    0xFF103B887D527856, 0xFF222E887D656E56, 0xFF2227887D656E56, 0xFF2227887D537856,
    0x117A298869551170, 0xFF103B8868524570, 0xFF103B887D524570, 0xFF2327887D534570,
    0xFF233B887D650D70, 0xFF232E887D650D70, 0xFF2327887D650D70, 0x1181298869557856,
    0xFF1D3B887D597856, 0xFF1D3B88685B7856, 0xFF1D2E887D537856, 0xFF223B887D657856,
    0xFF222E887D657856, 0xFF2227887D657856, 0x1188298869550D70, 0xFF103B8868520D70,
    0xFF233B887D590D70, 0xFF103B887D520D70, 0xFF233B88685B0D70, 0xFF232E887D530D70,
    0xFF2327887D530D70, 0x118F298869551C37, 0x11902F887D531737, 0xFF042E887D535C37,
    0xFF013B887D594537, 0xFF052E887D536E37, 0xFF012E887D534537, 0xFF013B887D590D37,
    0xFF012E887D530D37, 0x119729887D531737, 0xFF103B887D525C37, 0xFF103B887D526E37,
    0xFF0327887D535C37, 0xFF2227887D536E37, 0xFF8327887D534537, 0xFF8327887D530D37,
    0x119E3B8869521C37, 0xFF103B8868525C37, 0xFF103B8868526E37, 0xFF103B8868524537,
    0xFF103B887D524537, 0xFF103B8868527837, 0xFF103B887D520D37, 0x11A53B88695B1737,
    0xFF043B887D595C37, 0xFF043B88685B5C37, 0xFF053B887D596E37, 0xFF053B88685B6E37,
    0xFF013B88685B4537, 0xFF013B88685B0D37, 0x11AC2F887D651737, 0xFF033B887D655C37,
    0xFF032E887D655C37, 0xFF223B887D656E37, 0xFF833B887D654537, 0xFF222E887D656E37,
    0xFF833B887D650D37, 0x11B328887D651737, 0xFF0327887D655C37, 0xFF832E887D654537,
    0xFF2227887D656E37, 0xFF8327887D654537, 0xFF832E887D650D37, 0xFF8327887D650D37,
    0x11BA298869551C10, 0x11BB29887D555D0A, 0xFF0C3B887D595C0A, 0xFF1A3B887D526E0A,
    0xFF033B887D655C0A, 0xFF2227887D536E0A, 0xFF032E887D655C0A, 0xFF0327887D655C0A,
    0x11C229887D55460A, 0xFF1A3B887D525C0A, 0xFF0C2E887D535C0A, 0xFF0327887D535C0A,
    0xFF833B887D65450A, 0xFF832E887D65450A, 0xFF8327887D65450A, 0x11C929887D55110A,
    0xFF0C3B887D59450A, 0xFF1A3B887D52450A, 0xFF0C2E887D53450A, 0xFF8327887D53450A,
    0xFF833B887D650D0A, 0xFF832E887D650D0A, 0x11D029887D556F0A, 0xFF1E3B887D596E0A,
    0xFF1E2E887D536E0A, 0xFF223B887D656E0A, 0xFF1A3B887D52780A, 0xFF222E887D656E0A,
    0xFF2227887D656E0A, 0x11D729887D55780A, 0xFF053B887D59780A, 0xFF052E887D53780A,
    0xFF2227887D53780A, 0xFF223B887D65780A, 0xFF222E887D65780A, 0xFF2227887D65780A,
    0x11DE298869550D10, 0xFF103B8868520D37, 0xFF0C3B887D590D0A, 0xFF1A3B887D520D0A,
    0xFF0C2E887D530D0A, 0xFF8327887D530D0A, 0xFF8327887D650D0A, 0x11E5208869551C72,
    0x11E6298869555D70, 0xFF043B887D595C70, 0xFF103B8868526E70, 0xFF043B88685B5C70,
    0xFF043B887D655C70, 0xFF042E887D655C70, 0xFF0427887D655C70, 0x11ED298869556E70,
    0xFF153B887D596E70, 0xFF103B887D526E70, 0xFF153B88685B6E70, 0xFF152E887D536E70,
    0xFF1527887D536E70, 0xFF1527887D656E70, 0x11F4208869551472, 0xFF103B887D525C70]"

definition btree21wd_nodes_23 :: "nat list" where
  "btree21wd_nodes_23 =
   [0xFF042E887D535C70, 0xFF0427887D535C70, 0xFF023B88685B0D7F, 0xFF0227887D650D7F,
    0xFF021D887D650D7F, 0x11FB298869556F70, 0xFF103B8868527870, 0xFF153B887D656E70,
    0xFF103B887D527870, 0xFF152E887D656E70, 0xFF152E887D537870, 0xFF1527887D537870,
    0x12022088695B7870, 0xFF153B887D597870, 0xFF153B88685B7870, 0xFF153B887D657870,
    0xFF152E887D657870, 0xFF1527887D657870, 0xFF151D887D657870, 0x1209208869530D7F,
    0xFF023B8868520D7F, 0xFF023B887D590D7F, 0xFF023B887D520D7F, 0xFF022E887D530D7F,
    0xFF0227887D530D7F, 0xFF021D887D530D7F, 0x1210208869551C7F, 0x12112088695B5C7F,
    0xFF023B887D595C7F, 0xFF023B88685B5C7F, 0xFF023B887D655C7F, 0xFF022E887D655C7F,
    0xFF0227887D655C7F, 0xFF021D887D655C7F, 0x121820886955467F, 0xFF023B8868525C7F,
    0xFF023B887D525C7F, 0xFF022E887D535C7F, 0xFF0227887D535C7F, 0xFF021D887D535C7F,
    0xFF023B887D65457F, 0x121F1F887D556E7F, 0xFF022E887D536E7F, 0xFF0227887D536E7F,
    0xFF021D887D536E7F, 0xFF022E887D656E7F, 0xFF0227887D656E7F, 0xFF021D887D656E7F,
    0x122620886955457F, 0xFF023B887D59457F, 0xFF023B88685B457F, 0xFF022E887D53457F,
    0xFF022E887D65457F, 0xFF0227887D65457F, 0xFF021D887D65457F, 0x122D20886955117F,
    0xFF023B886852457F, 0xFF023B887D52457F, 0xFF0227887D53457F, 0xFF021D887D53457F,
    0xFF023B887D650D7F, 0xFF022E887D650D7F, 0x12341F887D55787F, 0xFF022E887D53787F,
    0xFF0227887D53787F, 0xFF021D887D53787F, 0xFF022E887D65787F, 0xFF0227887D65787F,
    0xFF021D887D65787F, 0x123B1C6226551C1C, 0x123C3361265B1C1C, 0x123D3E61265B1C56,
    0x123E3B61265B5D56, 0xFF043B6142595C56, 0xFF043B6142645C56, 0xFF1B3B6142596E56,
    0xFF043B61255A5C56, 0xFFB13B6142785C56, 0xFFB13B6125785C56, 0x12457361265B5D56,
    0xFF04736142595C56, 0xFF04736142645C56, 0xFF9B736142596E56, 0xFF047361255A5C56,
    0xFF04736142785C56, 0xFF04736125785C56, 0x124C3B61265B1156, 0xFF013B6142594556,
    0xFF013B6142644556, 0xFF013B61255A4556, 0xFFB13B6142784556, 0xFFB13B6125784556,
    0xFFB13B6142780D56, 0x12533B61265B6F56, 0xFF1B3B6142646E56, 0xFF1B3B61255A6E56,
    0xFF1D3B6142597856, 0xFFB13B6142786E56, 0xFF1D3B61255A7856, 0xFFB13B6125786E56,
    0x125A7361265B1156, 0xFF01736142594556, 0xFF01736142644556, 0xFF017361255A4556,
    0xFFB9736142784556, 0xFFB9736125784556, 0xFFB9736142780D56, 0x12617361265B6F56,
    0xFF9B736142646E56, 0xFF9B7361255A6E56, 0xFF1D736142597856, 0xFF1B736142786E56,
    0xFF1D7361255A7856, 0xFF1B736125786E56, 0x12683E61265B1C38, 0x12693B61265B1C38,
    0xFF843B6142590D56, 0xFF843B6142640D56, 0xFF843B61255A0D56, 0xFFA03B6142787837,
    0xFFB13B6125780D56, 0xFFA03B6125787837, 0x12707361265B1C38, 0xFF81736142590D56,
    0xFF81736142640D56, 0xFF817361255A0D56, 0xFF20736142787837, 0xFFB9736125780D56,
    0xFF20736125787837, 0x12773B61265B5D37, 0xFF043B6142645C37, 0xFF053B6142596E37,
    0xFF043B61255A5C37, 0xFF053B61255A6E37, 0xFF043B6142785C37, 0xFF043B6125785C37,
    0x127E7361265B5D37, 0xFF04736142645C37, 0xFF05736142596E37, 0xFF047361255A5C37,
    0xFF057361255A6E37, 0xFFB1736142785C37, 0xFFB1736125785C37, 0x12853B61265B6F37,
    0xFF053B6142646E37, 0xFFA03B6142597837, 0xFFA03B6142647837, 0xFF053B6142786E37,
    0xFFA03B61255A7837, 0xFF053B6125786E37, 0x128C7361265B6F37, 0xFF05736142646E37,
    0xFF20736142597837, 0xFF20736142647837, 0xFFB1736142786E37, 0xFF207361255A7837,
    0xFFB1736125786E37, 0x12933E61265B1C57, 0x12943E6126657856, 0xFF1D3B6142647856,
    0xFF1D736142647856, 0xFF1D3B6142787856, 0xFFBA736142787856, 0xFF1D3B6125787856,
    0xFFBA736125787856, 0x129B3B61265B5D70, 0xFF043B6142645C70, 0xFF153B6142596E70,
    0xFF043B61255A5C70, 0xFF153B61255A6E70, 0xFF043B6142785C70, 0xFF043B6125785C70,
    0x12A23E61265B4670, 0xFF043B6142595C70, 0xFF233B6142644570, 0xFF233B61255A4570,
    0xFF237361255A4570, 0xFF243B6142784570, 0xFF243B6125784570, 0x12A93E61265B1170,
    0xFF233B6142594570, 0xFF23736142594570, 0xFF243B6142780D70, 0xFF24736142780D70,
    0xFF243B6125780D70, 0xFF24736125780D70, 0x12B03B61265B6F70, 0xFF153B6142646E70,
    0xFF153B6142597870, 0xFF153B6142647870, 0xFF043B6142786E70, 0xFF153B61255A7870,
    0xFF043B6125786E70, 0x12B73E61265A0D70, 0xFF233B6142590D70, 0xFF23736142590D70,
    0xFF233B6142640D70, 0xFF23736142640D70, 0xFF233B61255A0D70, 0xFF237361255A0D70]"

definition btree21wd_nodes_24 :: "nat list" where
  "btree21wd_nodes_24 =
   [0x12BE3E61265B1C10, 0x12BF3E61265B4710, 0xFF043B6142595C37, 0xFF04736142595C37,
    0xFFB13B6142784537, 0xFFB1736142784537, 0xFFB23B6125786E0A, 0xFFB2736125786E0A,
    0x12C63E61265B4537, 0xFF013B6142644537, 0xFF01736142644537, 0xFF013B61255A4537,
    0xFF017361255A4537, 0xFFB13B6125784537, 0xFFB1736125784537, 0x12CD3E61265B1137,
    0xFF013B6142594537, 0xFF01736142594537, 0xFFB13B6142780D37, 0xFFB9736142780D37,
    0xFFB13B6125780D37, 0xFFB9736125780D37, 0x12D43E61265B6F0A, 0xFF053B614259780A,
    0xFF0573614259780A, 0xFF1E3B6142786E0A, 0xFF1E736142786E0A, 0xFFB23B61255A780A,
    0xFFB27361255A780A, 0x12DB3E612665780A, 0xFF053B614264780A, 0xFF0573614264780A,
    0xFF1E3B614278780A, 0xFF1E73614278780A, 0xFFB23B612578780A, 0xFFB273612578780A,
    0x12E23E61265A0D37, 0xFF013B6142590D37, 0xFF01736142590D37, 0xFF013B6142640D37,
    0xFF01736142640D37, 0xFF013B61255A0D37, 0xFF017361255A0D37, 0x12E92F61265B1C72,
    0x12EA2F61265B5C7F, 0xFF253B6142645C7F, 0xFF253B61255A5C7F, 0xFF253B6142785C7F,
    0xFF252E6142655C7F, 0xFF253B6125785C7F, 0xFF252E6125655C7F, 0x12F12F61265B467F,
    0xFF023B6142595C7F, 0xFF253B614264457F, 0xFF252E6125595C7F, 0xFF253B61255A457F,
    0xFF253B614278457F, 0xFF253B612578457F, 0x12F82F61265B6E7F, 0xFF023B6142596E7F,
    0xFF263B6142646E7F, 0xFF263B61255A6E7F, 0xFF262E6125596E7F, 0xFF262E6142656E7F,
    0xFF262E6125656E7F, 0x12FF3B61265B117F, 0xFF023B614259457F, 0xFF023B6142590D7F,
    0xFF253B6142640D7F, 0xFF253B61255A0D7F, 0xFF253B6142780D7F, 0xFF253B6125780D7F,
    0x13062F61265B6F7F, 0xFF023B614259787F, 0xFF263B614264787F, 0xFF263B6142786E7F,
    0xFF263B61255A787F, 0xFF262E612559787F, 0xFF263B6125786E7F, 0x130D2F6126657872,
    0xFF153B6142787870, 0xFF153B6125787870, 0xFF263B614278787F, 0xFF262E614265787F,
    0xFF263B612578787F, 0xFF262E612565787F, 0x13143E61265B170A, 0x13153B61265B5D0A,
    0xFF0C3B6142645C0A, 0xFF1E3B6142596E0A, 0xFF1E3B6142646E0A, 0xFFB23B61255A6E0A,
    0xFF0C3B6142785C0A, 0xFFB23B6125785C0A, 0x131C7361265B5D0A, 0xFF1E736142645C0A,
    0xFF1E736142596E0A, 0xFF1E736142646E0A, 0xFFB27361255A6E0A, 0xFF0C736142785C0A,
    0xFFB2736125785C0A, 0x13233B61265B460A, 0xFF0C3B6142595C0A, 0xFFB23B61255A5C0A,
    0xFF0C3B614264450A, 0xFFB33B61255A450A, 0xFF0C3B614278450A, 0xFFB33B612578450A,
    0x132A7361265B460A, 0xFF1E736142595C0A, 0xFFB27361255A5C0A, 0xFF0C73614264450A,
    0xFFB37361255A450A, 0xFF0C73614278450A, 0xFFB373612578450A, 0x13313B61265B110A,
    0xFF0C3B614259450A, 0xFF0C3B6142590D0A, 0xFF0C3B6142640D0A, 0xFFB33B61255A0D0A,
    0xFF0C3B6142780D0A, 0xFFB33B6125780D0A, 0x13387361265B110A, 0xFF0C73614259450A,
    0xFF8C736142590D0A, 0xFF8C736142640D0A, 0xFFB37361255A0D0A, 0xFF8C736142780D0A,
    0xFFB3736125780D0A, 0x133F766126551C1C, 0x13407A6126551C38, 0x13417A6126555C56,
    0xFF04796125595C56, 0xFF04796142655C56, 0xFF04806125535C56, 0xFF04806142655C56,
    0xFFB2796125655C56, 0xFFB5806125655C56, 0x13487A6125556E38, 0xFF9B796125596E56,
    0xFF9B806125536E56, 0xFF05796125596E37, 0xFFB2796125656E56, 0xFFB2796125656E37,
    0xFFB5806125656E37, 0x134F7A6126554556, 0xFF01796125594556, 0xFFB9796142654556,
    0xFF01806125534556, 0xFFB9806142654556, 0xFFB3796125654556, 0xFFB5806125654556,
    0x13567A6126556F38, 0xFF1B796142656E56, 0xFF1B806142656E56, 0xFFB1796142656E37,
    0xFFB1806142656E37, 0xFFB5806125656E56, 0xFF20806125537837, 0x135D7A6126557838,
    0xFF1D806125537856, 0xFF20796125597837, 0xFF20796142657837, 0xFF20806142657837,
    0xFFB2796125657837, 0xFFB5806125657837, 0x13647A6126550D56, 0xFF81796125590D56,
    0xFFB9796142650D56, 0xFF81806125530D56, 0xFFB9806142650D56, 0xFFB3796125650D56,
    0xFFB5806125650D56, 0x136B756126551C57, 0x136C7561265B5C70, 0xFF01736142645C70,
    0xFF017361255A5C70, 0xFF04796142655C70, 0xFF04806142655C70, 0xFF04796125655C70,
    0xFFB6806125655C70, 0x1373756126555D70, 0xFF17736142596E70, 0xFF177361255A6E70,
    0xFF04736142785C70, 0xFF17796125596E70, 0xFF17806125536E70, 0xFF04736125785C70,
    0x137A756126554670, 0xFF01736142595C70, 0xFF01796125595C70, 0xFF01806125535C70,
    0xFF24736142784570, 0xFF24806142654570, 0xFF24736125784570, 0x1381756126554570,
    0xFF23736142644570, 0xFF23796125594570, 0xFF24796142654570, 0xFF23806125534570]"

definition btree21wd_nodes_25 :: "nat list" where
  "btree21wd_nodes_25 =
   [0xFF24796125654570, 0xFFB6806125654570, 0x13887561265B6F57, 0xFF17736142646E70,
    0xFF1D796125597856, 0xFFBA796142657856, 0xFFBA806142657856, 0xFFB2796125657856,
    0xFFB5806125657856, 0x138F7A6126550D70, 0xFF23796125590D70, 0xFF24796142650D70,
    0xFF23806125530D70, 0xFF24806142650D70, 0xFF24796125650D70, 0xFFB6806125650D70,
    0x13967B6126551C10, 0x13977B6125555C37, 0xFF04796125595C37, 0xFF04806125535C37,
    0xFF04846125595C37, 0xFFB2796125655C37, 0xFFB5806125655C37, 0xFFB2846125655C37,
    0x139E7B6126654537, 0xFFB1796142654537, 0xFFB1806142654537, 0xFFB3796125654537,
    0xFFB1846142654537, 0xFFB5806125654537, 0xFFB3846125654537, 0x13A57B6126555E10,
    0xFFB1796142655C37, 0xFFB1806142655C37, 0xFF05806125536E37, 0xFFB279612559780A,
    0xFFB280612553780A, 0xFFB284612559780A, 0x13AC7B6126551137, 0xFF01796125594537,
    0xFF01806125534537, 0xFF01846125594537, 0xFFB9796142650D37, 0xFFB9806142650D37,
    0xFFB9846142650D37, 0x13B37B612665780A, 0xFF1E79614265780A, 0xFF1E80614265780A,
    0xFFB279612565780A, 0xFF1E84614265780A, 0xFFB580612565780A, 0xFFB284612565780A,
    0x13BA7B6125550D37, 0xFF01796125590D37, 0xFF01806125530D37, 0xFF01846125590D37,
    0xFFB3796125650D37, 0xFFB5806125650D37, 0xFFB3846125650D37, 0x13C1756126551C72,
    0x13C2756126654772, 0xFF04796142656E70, 0xFF04806142656E70, 0xFF04736125786E70,
    0xFF04796125656E70, 0xFFA579614265457F, 0xFFB6806125656E70, 0x13C97561265B457F,
    0xFF0273614259457F, 0xFFA573614264457F, 0xFFA57361255A457F, 0xFFA579612559457F,
    0xFFA579612565457F, 0xFFA580612565457F, 0x13D0756126556F70, 0xFFA8736142597870,
    0xFFA8736142647870, 0xFF04736142786E70, 0xFFA87361255A7870, 0xFFA8796125597870,
    0xFFA8806125537870, 0x13D775612655117F, 0xFFA580612553457F, 0xFFA5736142780D7F,
    0xFFA5796142650D7F, 0xFFA5806142650D7F, 0xFFA5736125780D7F, 0xFFA5806125650D7F,
    0x13DE756126657870, 0xFF15736142787870, 0xFF15796142657870, 0xFF15806142657870,
    0xFF15736125787870, 0xFF15796125657870, 0xFFB6806125657870, 0x13E5756126550D7F,
    0xFF02736142590D7F, 0xFFA5736142640D7F, 0xFFA57361255A0D7F, 0xFFA5796125590D7F,
    0xFFA5806125530D7F, 0xFFA5796125650D7F, 0x13EC7B612655170A, 0x13ED7961265B5D0A,
    0xFFB2796125595C0A, 0xFF0C796142655C0A, 0xFFB2796125596E0A, 0xFF1E796142656E0A,
    0xFFB2796125655C0A, 0xFFB2796125656E0A, 0x13F47961265B110A, 0xFFB379612559450A,
    0xFF0C79614265450A, 0xFFB3796125590D0A, 0xFFB379612565450A, 0xFF8C796142650D0A,
    0xFFB3796125650D0A, 0x13FB806126555D0A, 0xFFB2806125535C0A, 0xFF0C806142655C0A,
    0xFFB2806125536E0A, 0xFF1E806142656E0A, 0xFFB5806125655C0A, 0xFFB5806125656E0A,
    0x140280612655110A, 0xFFB380612553450A, 0xFF0C80614265450A, 0xFFB580612565450A,
    0xFFB3806125530D0A, 0xFF8C806142650D0A, 0xFFB5806125650D0A, 0x14098461265B5D0A,
    0xFFB2846125595C0A, 0xFF0C846142655C0A, 0xFFB2846125596E0A, 0xFF1E846142656E0A,
    0xFFB2846125655C0A, 0xFFB2846125656E0A, 0x14108461265B110A, 0xFFB384612559450A,
    0xFF0C84614265450A, 0xFFB3846125590D0A, 0xFFB384612565450A, 0xFF8C846142650D0A,
    0xFFB3846125650D0A, 0x141775612655487F, 0x14187561265B5C7F, 0xFF25736142645C7F,
    0xFF257361255A5C7F, 0xFF25796142655C7F, 0xFF25806142655C7F, 0xFF25796125655C7F,
    0xFF25806125655C7F, 0x141F756126555D7F, 0xFF02736142596E7F, 0xFF267361255A6E7F,
    0xFF25736142785C7F, 0xFF26796125596E7F, 0xFF26806125536E7F, 0xFF25736125785C7F,
    0x142675612655467F, 0xFF02736142595C7F, 0xFF25796125595C7F, 0xFF25806125535C7F,
    0xFFA573614278457F, 0xFFA580614265457F, 0xFFA573612578457F, 0x142D756126656E7F,
    0xFF26736142646E7F, 0xFF26796142656E7F, 0xFF26806142656E7F, 0xFF26736125786E7F,
    0xFF26796125656E7F, 0xFF26806125656E7F, 0x1434756126556F7F, 0xFF0273614259787F,
    0xFF2673614264787F, 0xFF26736142786E7F, 0xFF267361255A787F, 0xFF2679612559787F,
    0xFF2680612553787F, 0x143B75612665787F, 0xFF2673614278787F, 0xFF2679614265787F,
    0xFF2680614265787F, 0xFF2673612578787F, 0xFF2679612565787F, 0xFF2680612565787F,
    0x14420B6126551C1C, 0x14430B6126551C38, 0x14440B6126655C56, 0xFFB12E6142655C56,
    0xFF04066142645C56, 0xFFB1276142655C56, 0xFFB22E6125655C56, 0xFFB11D6142655C56,
    0xFFB4276125655C56, 0x144B0B61265B4656, 0xFF042E6125595C56, 0xFF04066142595C56]"

definition btree21wd_nodes_26 :: "nat list" where
  "btree21wd_nodes_26 =
   [0xFFB12E6142654556, 0xFFB1276142654556, 0xFFB11D6142654556, 0xFFB1066142784556,
    0x14520B6126555E38, 0xFF1B2E6125596E56, 0xFF1B066142596E56, 0xFF1B276125536E56,
    0xFFB1066142785C56, 0xFFA02E6125597837, 0xFFA0066142597837, 0x14590B61265B1156,
    0xFF012E6125594556, 0xFF01066142594556, 0xFF01066142644556, 0xFFB32E6125654556,
    0xFFB12E6142650D56, 0xFFB1066142780D56, 0x14600B6126657837, 0xFFA02E6142657837,
    0xFFA0066142647837, 0xFFA0276142657837, 0xFFB22E6125657837, 0xFFA01D6142657837,
    0xFFA0066142787837, 0x14670B61265B0D56, 0xFF842E6125590D56, 0xFF84066142590D56,
    0xFF84066142640D56, 0xFFB1276142650D56, 0xFFB32E6125650D56, 0xFFB11D6142650D56,
    0x146E0B6126551C57, 0x146F0B6126654757, 0xFF1B066142646E56, 0xFFB1276142656E56,
    0xFFB22E6125656E56, 0xFFB11D6142656E56, 0xFF242E6142654570, 0xFFB4276125656E56,
    0x14760B61265B4570, 0xFF23066142594570, 0xFF23066142644570, 0xFF24276142654570,
    0xFF242E6125654570, 0xFF241D6142654570, 0xFFB6276125654570, 0x147D0B6126556F56,
    0xFFB12E6142656E56, 0xFF1D2E6125597856, 0xFF1D066142597856, 0xFF1D276125537856,
    0xFF1D066142647856, 0xFFB1066142786E56, 0x14840B6126551170, 0xFF232E6125594570,
    0xFF23276125534570, 0xFF242E6142650D70, 0xFF24276142650D70, 0xFF241D6142650D70,
    0xFF24066142780D70, 0x148B0B6126657856, 0xFF1D2E6142657856, 0xFF1D276142657856,
    0xFFB22E6125657856, 0xFF1D1D6142657856, 0xFFB4276125657856, 0xFF1D066142787856,
    0x14920B6126550D70, 0xFF232E6125590D70, 0xFF23066142590D70, 0xFF23276125530D70,
    0xFF23066142640D70, 0xFF242E6125650D70, 0xFFB6276125650D70, 0x14990B61265B1C10,
    0x149A0B6126655C37, 0xFF042E6142655C37, 0xFF04066142645C37, 0xFF04276142655C37,
    0xFFB22E6125655C37, 0xFF041D6142655C37, 0xFF04066142785C37, 0x14A10B61265B4637,
    0xFF042E6125595C37, 0xFF04066142595C37, 0xFFB12E6142654537, 0xFFB1276142654537,
    0xFFB11D6142654537, 0xFFB1066142784537, 0x14A80B61265B6E37, 0xFF052E6125596E37,
    0xFF05066142596E37, 0xFF05066142646E37, 0xFF05276142656E37, 0xFFB22E6125656E37,
    0xFF051D6142656E37, 0x14AF0B61265B1137, 0xFF012E6125594537, 0xFF01066142594537,
    0xFF01066142644537, 0xFFB32E6125654537, 0xFFB12E6142650D37, 0xFFB1066142780D37,
    0x14B60B6142656F10, 0xFF052E6142656E37, 0xFF05066142786E37, 0xFF1E2E614265780A,
    0xFF1E27614265780A, 0xFF1E1D614265780A, 0xFF1E06614278780A, 0x14BD0B61265B0D37,
    0xFF012E6125590D37, 0xFF01066142590D37, 0xFF01066142640D37, 0xFFB1276142650D37,
    0xFFB32E6125650D37, 0xFFB11D6142650D37, 0x14C40B6126551C72, 0x14C50B6126555C70,
    0xFF042E6125595C70, 0xFF04066142595C70, 0xFF04276125535C70, 0xFF04066142645C70,
    0xFF042E6125655C70, 0xFFB6276125655C70, 0x14CC0B6126555D70, 0xFF042E6142655C70,
    0xFF152E6125596E70, 0xFF04276142655C70, 0xFF15276125536E70, 0xFF041D6142655C70,
    0xFF04066142785C70, 0x14D30B61265B6E70, 0xFF15066142596E70, 0xFF15066142646E70,
    0xFF04276142656E70, 0xFF042E6125656E70, 0xFF041D6142656E70, 0xFFB6276125656E70,
    0x14DA0B6126556F70, 0xFF042E6142656E70, 0xFF152E6125597870, 0xFF15066142597870,
    0xFF15276125537870, 0xFF15066142647870, 0xFF04066142786E70, 0x14E10B6126551172,
    0xFF24066142784570, 0xFF252E6125590D7F, 0xFF02066142590D7F, 0xFF25276125530D7F,
    0xFF25066142640D7F, 0xFF25276125650D7F, 0x14E80B6126657870, 0xFF152E6142657870,
    0xFF15276142657870, 0xFF152E6125657870, 0xFF151D6142657870, 0xFFB6276125657870,
    0xFF15066142787870, 0x14EF0B61265B1C0A, 0x14F02E61265B140A, 0xFFB22E6125595C0A,
    0xFFB32E612559450A, 0xFF0C2E614265450A, 0xFFB22E6125655C0A, 0xFFB32E612565450A,
    0xFF0C2E6142650D0A, 0x14F72E61265B5E0A, 0xFF0C2E6142655C0A, 0xFFB22E6125596E0A,
    0xFF1E2E6142656E0A, 0xFFB22E612559780A, 0xFFB22E6125656E0A, 0xFFB22E612565780A,
    0x14FE2861265B170A, 0xFF0C276142655C0A, 0xFF1E276142656E0A, 0xFF0C27614265450A,
    0xFFB32E6125590D0A, 0xFF0C276142650D0A, 0xFFB32E6125650D0A, 0x15050861425B1C0A,
    0xFF0C1D6142655C0A, 0xFF1E1D6142656E0A, 0xFF0C1D614265450A, 0xFF0506614259780A,
    0xFF0506614264780A, 0xFF0C1D6142650D0A, 0x150C0661425B5D0A, 0xFF0C066142595C0A,
    0xFF0C066142645C0A, 0xFF1E066142596E0A, 0xFF1E066142646E0A, 0xFF0C066142785C0A,
    0xFF1E066142786E0A, 0x15130661425B110A, 0xFF0C06614259450A, 0xFF0C06614264450A]"

definition btree21wd_nodes_27 :: "nat list" where
  "btree21wd_nodes_27 =
   [0xFF0C066142590D0A, 0xFF0C066142640D0A, 0xFF0C06614278450A, 0xFF0C066142780D0A,
    0x151A0B6126551C7F, 0x151B096126555D7F, 0xFF25276142655C7F, 0xFF02066142596E7F,
    0xFF26276125536E7F, 0xFF251D6142655C7F, 0xFF25276125655C7F, 0xFF25066142785C7F,
    0x15220B612655467F, 0xFF02066142595C7F, 0xFF25276125535C7F, 0xFF25066142645C7F,
    0xFF252E614265457F, 0xFF2527614265457F, 0xFF2506614278457F, 0x15290B61265B457F,
    0xFF252E612559457F, 0xFF0206614259457F, 0xFF2506614264457F, 0xFF252E612565457F,
    0xFF251D614265457F, 0xFF2527612565457F, 0x15300B612655117F, 0xFF2527612553457F,
    0xFF252E6142650D7F, 0xFF25276142650D7F, 0xFF252E6125650D7F, 0xFF251D6142650D7F,
    0xFF25066142780D7F, 0x1537096126556F7F, 0xFF26066142646E7F, 0xFF26276142656E7F,
    0xFF261D6142656E7F, 0xFF26276125656E7F, 0xFF2627612553787F, 0xFF26066142786E7F,
    0x153E0961265B787F, 0xFF0206614259787F, 0xFF2606614264787F, 0xFF2627614265787F,
    0xFF261D614265787F, 0xFF2627612565787F, 0xFF2606614278787F, 0x15451C62265B1C1C,
    0x15461B62265B1C1C, 0x15471B62265B5D39, 0xFFB1846142655C37, 0xFF05846125596E37,
    0xFFB1846142656E37, 0xFFB2846125656E37, 0xFF150688255A6E70, 0xFF04068825786E70,
    0x154E1D88255B4737, 0xFF041D8825595C37, 0xFF051D8825596E37, 0xFF011D8825594537,
    0xFFB21D8825655C37, 0xFFB21D8825656E37, 0xFFB31D8825654537, 0x15551D88255B1C10,
    0xFFB21D8825596E0A, 0xFF011D8825590D37, 0xFFB21D882559780A, 0xFFB21D8825656E0A,
    0xFFB31D8825650D37, 0xFFB21D882565780A, 0x155C1D88255B140A, 0xFFB21D8825595C0A,
    0xFFB31D882559450A, 0xFFB21D8825655C0A, 0xFFB31D8825590D0A, 0xFFB31D882565450A,
    0xFFB31D8825650D0A, 0x15630688255B1C72, 0xFF250688255A457F, 0xFF150688255A7870,
    0xFF250688255A0D7F, 0xFF2506882578457F, 0xFF15068825787870, 0xFF25068825780D7F,
    0x156A0688255B5E7F, 0xFF250688255A5C7F, 0xFF260688255A6E7F, 0xFF25068825785C7F,
    0xFF260688255A787F, 0xFF26068825786E7F, 0xFF2606882578787F, 0x15718461265B1C3A,
    0x15728461265B5D57, 0xFF04846142655C56, 0xFF9B846125596E56, 0xFF04846142655C70,
    0xFF17846125596E70, 0xFFB2846125656E56, 0xFF04846125655C70, 0x15798461265B4657,
    0xFF04846125595C56, 0xFF01846125595C70, 0xFFB9846142654556, 0xFFB2846125655C56,
    0xFF24846142654570, 0xFF24846125654570, 0x15808461265B6F39, 0xFF1B846142656E56,
    0xFF1D846125597856, 0xFF04846142656E70, 0xFF20846125597837, 0xFFA8846125597870,
    0xFF04846125656E70, 0x15878461265B1158, 0xFF01846125594556, 0xFF23846125594570,
    0xFFB3846125654556, 0xFFB9846142650D56, 0xFF24846142650D70, 0xFFA5846142650D7F,
    0x158E846126657839, 0xFFBA846142657856, 0xFF20846142657837, 0xFFB2846125657856,
    0xFF15846142657870, 0xFFB2846125657837, 0xFF15846125657870, 0x15958461255B0D58,
    0xFF81846125590D56, 0xFF23846125590D70, 0xFFB3846125650D56, 0xFFA5846125590D7F,
    0xFF24846125650D70, 0xFFA5846125650D7F, 0x159C8561265B1C1C, 0x159D8761265B5D0A,
    0xFF1E876142645C0A, 0xFF1E876142596E0A, 0xFF1E876142646E0A, 0xFFB28761255A6E0A,
    0xFF0C876142785C0A, 0xFFB2876125785C0A, 0x15A48761265B460A, 0xFF1E876142595C0A,
    0xFFB28761255A5C0A, 0xFF0C87614264450A, 0xFFB38761255A450A, 0xFF0C87614278450A,
    0xFFB387612578450A, 0x15AB8761265B110A, 0xFF0C87614259450A, 0xFF8C876142590D0A,
    0xFF8C876142640D0A, 0xFFB38761255A0D0A, 0xFF8C876142780D0A, 0xFFB3876125780D0A,
    0x15B28761265B6F0A, 0xFF0587614259780A, 0xFF0587614264780A, 0xFF1E876142786E0A,
    0xFFB28761255A780A, 0xFFB2876125786E0A, 0xFFB287612578780A, 0x15B98461265B467F,
    0xFF25846125595C7F, 0xFF25846142655C7F, 0xFFA584612559457F, 0xFFA584614265457F,
    0xFF25846125655C7F, 0xFFA584612565457F, 0x15C08461265B6F7F, 0xFF26846125596E7F,
    0xFF26846142656E7F, 0xFF2684612559787F, 0xFF26846125656E7F, 0xFF2684614265787F,
    0xFF2684612565787F, 0x15C70688255B1C19, 0x15C80688255B5E56, 0xFF040688255A5C56,
    0xFF1B0688255A6E56, 0xFFB1068825785C56, 0xFF1D0688255A7856, 0xFFB1068825786E56,
    0xFF1D068825787856, 0x15CF0688255B1C38, 0xFF010688255A4556, 0xFF840688255A0D56,
    0xFFB1068825784556, 0xFFA00688255A7837, 0xFFB1068825780D56, 0xFFA0068825787837,
    0x15D60688255B4737, 0xFF040688255A5C37, 0xFF050688255A6E37, 0xFF010688255A4537,
    0xFF04068825785C37, 0xFF05068825786E37, 0xFFB1068825784537, 0x15DD0688255B1470]"

definition btree21wd_nodes_28 :: "nat list" where
  "btree21wd_nodes_28 =
   [0xFF040688255A5C70, 0xFF230688255A4570, 0xFF04068825785C70, 0xFF230688255A0D70,
    0xFF24068825784570, 0xFF24068825780D70, 0x15E40688255B1C10, 0xFFB20688255A6E0A,
    0xFF010688255A0D37, 0xFFB20688255A780A, 0xFFB2068825786E0A, 0xFFB1068825780D37,
    0xFFB206882578780A, 0x15EB0688255B140A, 0xFFB20688255A5C0A, 0xFFB30688255A450A,
    0xFFB2068825785C0A, 0xFFB30688255A0D0A, 0xFFB306882578450A, 0xFFB3068825780D0A,
    0x15F28761265B1C15, 0x15F38761265B5D37, 0xFF05876142596E37, 0xFF05876142646E37,
    0xFF058761255A6E37, 0xFFB1876142785C37, 0xFFB1876142786E37, 0xFFB1876125786E37,
    0x15FA8761265B4638, 0xFF04876142595C37, 0xFF04876142645C37, 0xFF048761255A5C37,
    0xFFB9876142784556, 0xFFB1876142784537, 0xFFB1876125785C37, 0x16018761265B4538,
    0xFF01876142644556, 0xFF018761255A4556, 0xFF01876142644537, 0xFF018761255A4537,
    0xFFB9876125784556, 0xFFB1876125784537, 0x16088761265B1138, 0xFF01876142594556,
    0xFF01876142594537, 0xFFB9876142780D56, 0xFFB9876142780D37, 0xFFB9876125780D56,
    0xFFB9876125780D37, 0x160F8761265B7810, 0xFF20876142597837, 0xFF20876142647837,
    0xFF208761255A7837, 0xFF20876142787837, 0xFF20876125787837, 0xFF1E87614278780A,
    0x16168761265A0D38, 0xFF81876142590D56, 0xFF81876142640D56, 0xFF01876142590D37,
    0xFF818761255A0D56, 0xFF01876142640D37, 0xFF018761255A0D37, 0x161D8761265B1C58,
    0x161E8761265B5D56, 0xFF04876142595C56, 0xFF04876142645C56, 0xFF9B876142596E56,
    0xFF048761255A5C56, 0xFF04876142785C56, 0xFF04876125785C56, 0x16258761265B6F56,
    0xFF9B876142646E56, 0xFF9B8761255A6E56, 0xFF1D876142597856, 0xFF1B876142786E56,
    0xFF1D8761255A7856, 0xFF1B876125786E56, 0x162C8761265B1C57, 0xFF1D876142647856,
    0xFF23876142590D70, 0xFFBA876142787856, 0xFF238761255A0D70, 0xFFBA876125787856,
    0xFF24876125780D70, 0x16338761255B4770, 0xFF018761255A5C70, 0xFF178761255A6E70,
    0xFF238761255A4570, 0xFF04876125785C70, 0xFF04876125786E70, 0xFF24876125784570,
    0x163A8761255B1C72, 0xFFA58761255A457F, 0xFFA88761255A7870, 0xFFA58761255A0D7F,
    0xFFA587612578457F, 0xFF15876125787870, 0xFFA5876125780D7F, 0x16418761255B5E7F,
    0xFF258761255A5C7F, 0xFF268761255A6E7F, 0xFF25876125785C7F, 0xFF268761255A787F,
    0xFF26876125786E7F, 0xFF2687612578787F, 0x1648228825551C1C, 0x1649228825551C38,
    0x164A228825554656, 0xFF043B88255A5C56, 0xFF042E8825595C56, 0xFF04278825535C56,
    0xFF041D8825595C56, 0xFFB13B8825784556, 0xFFB9738825784556, 0x16512288255B4556,
    0xFF013B88255A4556, 0xFF017388255A4556, 0xFF012E8825594556, 0xFFB32E8825654556,
    0xFFB4278825654556, 0xFFB31D8825654556, 0x1658228825555E38, 0xFF047388255A5C56,
    0xFFA03B88255A7837, 0xFFB21D8825655C56, 0xFFA02E8825597837, 0xFFA0278825537837,
    0xFFA01D8825597837, 0x165F228825551156, 0xFF01278825534556, 0xFF011D8825594556,
    0xFFB13B8825780D56, 0xFFB9738825780D56, 0xFFB32E8825650D56, 0xFFB4278825650D56,
    0x16662288255B7837, 0xFF207388255A7837, 0xFFA03B8825787837, 0xFF20738825787837,
    0xFFB22E8825657837, 0xFFB4278825657837, 0xFFB21D8825657837, 0x166D228825550D56,
    0xFF843B88255A0D56, 0xFF817388255A0D56, 0xFF842E8825590D56, 0xFF84278825530D56,
    0xFF841D8825590D56, 0xFFB31D8825650D56, 0x1674228825551C57, 0x1675228825555D56,
    0xFF1B278825536E56, 0xFFB13B8825785C56, 0xFF04738825785C56, 0xFFB22E8825655C56,
    0xFF1B1D8825596E56, 0xFFB4278825655C56, 0x167C2288255B6E56, 0xFF1B3B88255A6E56,
    0xFF9B7388255A6E56, 0xFF1B2E8825596E56, 0xFFB22E8825656E56, 0xFFB4278825656E56,
    0xFFB21D8825656E56, 0x1683228825556F56, 0xFF1D3B88255A7856, 0xFF1D2E8825597856,
    0xFFB13B8825786E56, 0xFF1B738825786E56, 0xFF1D278825537856, 0xFF1D1D8825597856,
    0x168A2288255B7856, 0xFF1D7388255A7856, 0xFF1D3B8825787856, 0xFFBA738825787856,
    0xFFB22E8825657856, 0xFFB4278825657856, 0xFFB21D8825657856, 0x1691228825551170,
    0xFF23278825534570, 0xFF231D8825594570, 0xFF243B8825780D70, 0xFF24738825780D70,
    0xFF242E8825650D70, 0xFFB6278825650D70, 0x1698228825550D70, 0xFF233B88255A0D70,
    0xFF237388255A0D70, 0xFF232E8825590D70, 0xFF23278825530D70, 0xFF231D8825590D70,
    0xFF241D8825650D70, 0x169F2C8825551C10, 0x16A02C88255B5C37, 0xFF043B88255A5C37,
    0xFF047388255A5C37, 0xFF043B8825785C37, 0xFFB1738825785C37, 0xFFB22E8825655C37]"

definition btree21wd_nodes_29 :: "nat list" where
  "btree21wd_nodes_29 =
   [0xFFB4278825655C37, 0x16A72C8825554637, 0xFF042E8825595C37, 0xFF04278825535C37,
    0xFFB13B8825784537, 0xFFB1738825784537, 0xFFB32E8825654537, 0xFFB4278825654537,
    0x16AE2C8825556E37, 0xFF053B88255A6E37, 0xFF057388255A6E37, 0xFF052E8825596E37,
    0xFF05278825536E37, 0xFFB22E8825656E37, 0xFFB4278825656E37, 0x16B52C8825551137,
    0xFF013B88255A4537, 0xFF017388255A4537, 0xFF012E8825594537, 0xFF01278825534537,
    0xFFB13B8825780D37, 0xFFB9738825780D37, 0x16BC2C8825656F10, 0xFF053B8825786E37,
    0xFFB1738825786E37, 0xFFB23B882578780A, 0xFFB273882578780A, 0xFFB22E882565780A,
    0xFFB427882565780A, 0x16C32C8825550D37, 0xFF013B88255A0D37, 0xFF017388255A0D37,
    0xFF012E8825590D37, 0xFF01278825530D37, 0xFFB32E8825650D37, 0xFFB4278825650D37,
    0x16CA228825551C72, 0x16CB208825555C70, 0xFF043B88255A5C70, 0xFF042E8825595C70,
    0xFF04278825535C70, 0xFF041D8825595C70, 0xFFB6278825655C70, 0xFF041D8825655C70,
    0x16D2208825555D70, 0xFF153B88255A6E70, 0xFF152E8825596E70, 0xFF15278825536E70,
    0xFF043B8825785C70, 0xFF042E8825655C70, 0xFF151D8825596E70, 0x16D92288255B4570,
    0xFF237388255A4570, 0xFF243B8825784570, 0xFF24738825784570, 0xFF242E8825654570,
    0xFFB6278825654570, 0xFF241D8825654570, 0x16E0208825541172, 0xFF233B88255A4570,
    0xFF232E8825594570, 0xFF253B88255A0D7F, 0xFF252E8825590D7F, 0xFF25278825530D7F,
    0xFF251D8825590D7F, 0x16E7208825556F70, 0xFF043B8825786E70, 0xFF042E8825656E70,
    0xFFB6278825656E70, 0xFF15278825537870, 0xFF151D8825597870, 0xFF041D8825656E70,
    0x16EE2088255B7870, 0xFF153B88255A7870, 0xFF152E8825597870, 0xFF153B8825787870,
    0xFF152E8825657870, 0xFFB6278825657870, 0xFF151D8825657870, 0x16F52C8825551C0A,
    0x16F62C88255B5C0A, 0xFFB23B88255A5C0A, 0xFFB27388255A5C0A, 0xFFB23B8825785C0A,
    0xFFB2738825785C0A, 0xFFB22E8825655C0A, 0xFFB4278825655C0A, 0x16FD2C882555460A,
    0xFFB22E8825595C0A, 0xFFB2278825535C0A, 0xFFB33B882578450A, 0xFFB373882578450A,
    0xFFB32E882565450A, 0xFFB427882565450A, 0x17042C8825556E0A, 0xFFB23B88255A6E0A,
    0xFFB27388255A6E0A, 0xFFB22E8825596E0A, 0xFFB2278825536E0A, 0xFFB22E8825656E0A,
    0xFFB4278825656E0A, 0x170B2C882555110A, 0xFFB33B88255A450A, 0xFFB37388255A450A,
    0xFFB32E882559450A, 0xFFB327882553450A, 0xFFB33B8825780D0A, 0xFFB3738825780D0A,
    0x17122C8825556F0A, 0xFFB23B88255A780A, 0xFFB27388255A780A, 0xFFB22E882559780A,
    0xFFB23B8825786E0A, 0xFFB2738825786E0A, 0xFFB227882553780A, 0x17192C8825550D0A,
    0xFFB33B88255A0D0A, 0xFFB37388255A0D0A, 0xFFB32E8825590D0A, 0xFFB3278825530D0A,
    0xFFB32E8825650D0A, 0xFFB4278825650D0A, 0x1720208825551C7F, 0x1721208825555C7F,
    0xFF253B88255A5C7F, 0xFF252E8825595C7F, 0xFF25278825535C7F, 0xFF251D8825595C7F,
    0xFF25278825655C7F, 0xFF251D8825655C7F, 0x1728208825555D7F, 0xFF263B88255A6E7F,
    0xFF262E8825596E7F, 0xFF26278825536E7F, 0xFF253B8825785C7F, 0xFF252E8825655C7F,
    0xFF261D8825596E7F, 0x172F2088255B457F, 0xFF253B88255A457F, 0xFF252E882559457F,
    0xFF253B882578457F, 0xFF252E882565457F, 0xFF2527882565457F, 0xFF251D882565457F,
    0x173620882555117F, 0xFF2527882553457F, 0xFF251D882559457F, 0xFF253B8825780D7F,
    0xFF252E8825650D7F, 0xFF25278825650D7F, 0xFF251D8825650D7F, 0x173D208825556F7F,
    0xFF263B8825786E7F, 0xFF262E8825656E7F, 0xFF26278825656E7F, 0xFF2627882553787F,
    0xFF261D882559787F, 0xFF261D8825656E7F, 0x17442088255B787F, 0xFF263B88255A787F,
    0xFF262E882559787F, 0xFF263B882578787F, 0xFF262E882565787F, 0xFF2627882565787F,
    0xFF261D882565787F, 0x174B778825551C1C, 0x174C7C8825551C38, 0x174D7C88255B5C56,
    0xFF04848825595C56, 0xFFB2798825655C56, 0xFF048788255A5C56, 0xFFB5808825655C56,
    0xFFB2848825655C56, 0xFF04878825785C56, 0x17547C8825554656, 0xFF04798825595C56,
    0xFF04808825535C56, 0xFFB3798825654556, 0xFFB5808825654556, 0xFFB3848825654556,
    0xFFB9878825784556, 0x175B7C8825546F38, 0xFF9B798825596E56, 0xFF9B808825536E56,
    0xFF9B848825596E56, 0xFF9B8788255A6E56, 0xFF20798825597837, 0xFF20808825537837,
    0x17627C8825551156, 0xFF01798825594556, 0xFF01808825534556, 0xFF01848825594556,
    0xFF018788255A4556, 0xFFB3848825650D56, 0xFFB9878825780D56, 0x17697C88255B7837,
    0xFF20848825597837, 0xFFB2798825657837, 0xFF208788255A7837, 0xFFB5808825657837]"

definition btree21wd_nodes_30 :: "nat list" where
  "btree21wd_nodes_30 =
   [0xFFB2848825657837, 0xFF20878825787837, 0x17707C8825550D56, 0xFF81798825590D56,
    0xFF81808825530D56, 0xFF81848825590D56, 0xFFB3798825650D56, 0xFF818788255A0D56,
    0xFFB5808825650D56, 0x1777778825551C57, 0x17787C8825556F56, 0xFF1D798825597856,
    0xFFB2798825656E56, 0xFFB5808825656E56, 0xFF1D808825537856, 0xFFB2848825656E56,
    0xFF1B878825786E56, 0x177F7C88255B7856, 0xFF1D848825597856, 0xFFB2798825657856,
    0xFF1D8788255A7856, 0xFFB5808825657856, 0xFFB2848825657856, 0xFFBA878825787856,
    0x17867788255B5C70, 0xFF017388255A5C70, 0xFF01848825595C70, 0xFF04798825655C70,
    0xFF018788255A5C70, 0xFFB6808825655C70, 0xFF04848825655C70, 0x178D7C8825554670,
    0xFF01798825595C70, 0xFF01808825535C70, 0xFF24798825654570, 0xFFB6808825654570,
    0xFF24848825654570, 0xFF24878825784570, 0x17947C8825551170, 0xFF23798825594570,
    0xFF23808825534570, 0xFF23848825594570, 0xFF238788255A4570, 0xFF24848825650D70,
    0xFF24878825780D70, 0x179B7C8825550D70, 0xFF23798825590D70, 0xFF23808825530D70,
    0xFF23848825590D70, 0xFF24798825650D70, 0xFF238788255A0D70, 0xFFB6808825650D70,
    0x17A27C8825551C10, 0x17A37C88255B5C37, 0xFF04848825595C37, 0xFFB2798825655C37,
    0xFF048788255A5C37, 0xFFB5808825655C37, 0xFFB2848825655C37, 0xFFB1878825785C37,
    0x17AA7C8825554637, 0xFF04798825595C37, 0xFF04808825535C37, 0xFFB3798825654537,
    0xFFB5808825654537, 0xFFB3848825654537, 0xFFB1878825784537, 0x17B17C8825556E37,
    0xFF05798825596E37, 0xFF05808825536E37, 0xFF05848825596E37, 0xFFB2798825656E37,
    0xFF058788255A6E37, 0xFFB5808825656E37, 0x17B87C8825551137, 0xFF01798825594537,
    0xFF01808825534537, 0xFF01848825594537, 0xFF018788255A4537, 0xFFB3848825650D37,
    0xFFB9878825780D37, 0x17BF7C8825656F10, 0xFFB2848825656E37, 0xFFB1878825786E37,
    0xFFB279882565780A, 0xFFB580882565780A, 0xFFB284882565780A, 0xFFB287882578780A,
    0x17C67C8825550D37, 0xFF01798825590D37, 0xFF01808825530D37, 0xFF01848825590D37,
    0xFFB3798825650D37, 0xFF018788255A0D37, 0xFFB5808825650D37, 0x17CD778825551C72,
    0x17CE778825554772, 0xFF17798825596E70, 0xFF17808825536E70, 0xFF04738825785C70,
    0xFFA57388255A457F, 0xFFA584882559457F, 0xFF04878825785C70, 0x17D57788255B6E70,
    0xFF177388255A6E70, 0xFF17848825596E70, 0xFF04798825656E70, 0xFF178788255A6E70,
    0xFFB6808825656E70, 0xFF04848825656E70, 0x17DC778825556F70, 0xFFA87388255A7870,
    0xFFA8798825597870, 0xFF04738825786E70, 0xFFA8808825537870, 0xFFA8848825597870,
    0xFF04878825786E70, 0x17E377882555117F, 0xFFA579882559457F, 0xFFA580882553457F,
    0xFFA5738825780D7F, 0xFFA5808825650D7F, 0xFFA5848825650D7F, 0xFFA5878825780D7F,
    0x17EA7788255B7870, 0xFF15738825787870, 0xFF15798825657870, 0xFFA88788255A7870,
    0xFFB6808825657870, 0xFF15848825657870, 0xFF15878825787870, 0x17F1778825550D7F,
    0xFFA57388255A0D7F, 0xFFA5798825590D7F, 0xFFA5808825530D7F, 0xFFA5848825590D7F,
    0xFFA5798825650D7F, 0xFFA58788255A0D7F, 0x17F87C8825551C0A, 0x17F97C88255B5C0A,
    0xFFB2848825595C0A, 0xFFB2798825655C0A, 0xFFB28788255A5C0A, 0xFFB5808825655C0A,
    0xFFB2848825655C0A, 0xFFB2878825785C0A, 0x18007C882555460A, 0xFFB2798825595C0A,
    0xFFB2808825535C0A, 0xFFB379882565450A, 0xFFB580882565450A, 0xFFB384882565450A,
    0xFFB387882578450A, 0x18077C8825556E0A, 0xFFB2798825596E0A, 0xFFB2808825536E0A,
    0xFFB2848825596E0A, 0xFFB2798825656E0A, 0xFFB28788255A6E0A, 0xFFB5808825656E0A,
    0x180E7C882555110A, 0xFFB379882559450A, 0xFFB380882553450A, 0xFFB384882559450A,
    0xFFB38788255A450A, 0xFFB3848825650D0A, 0xFFB3878825780D0A, 0x18157C8825556F0A,
    0xFFB279882559780A, 0xFFB280882553780A, 0xFFB284882559780A, 0xFFB2848825656E0A,
    0xFFB28788255A780A, 0xFFB2878825786E0A, 0x181C7C8825550D0A, 0xFFB3798825590D0A,
    0xFFB3808825530D0A, 0xFFB3848825590D0A, 0xFFB3798825650D0A, 0xFFB38788255A0D0A,
    0xFFB5808825650D0A, 0x182377882555487F, 0x1824778825555C7F, 0xFF257388255A5C7F,
    0xFF25798825595C7F, 0xFF25808825535C7F, 0xFF25848825595C7F, 0xFF25798825655C7F,
    0xFF258788255A5C7F, 0x182B778825555D7F, 0xFF26798825596E7F, 0xFF26808825536E7F,
    0xFF25738825785C7F, 0xFF25808825655C7F, 0xFF25848825655C7F, 0xFF25878825785C7F,
    0x18327788255B6E7F, 0xFF267388255A6E7F, 0xFF26848825596E7F, 0xFF26798825656E7F]"

definition btree21wd_nodes_31 :: "nat list" where
  "btree21wd_nodes_31 =
   [0xFF268788255A6E7F, 0xFF26808825656E7F, 0xFF26848825656E7F, 0x18397788255B457F,
    0xFFA573882578457F, 0xFFA579882565457F, 0xFFA58788255A457F, 0xFFA580882565457F,
    0xFFA584882565457F, 0xFFA587882578457F, 0x1840778825556F7F, 0xFF267388255A787F,
    0xFF2679882559787F, 0xFF26738825786E7F, 0xFF2680882553787F, 0xFF2684882559787F,
    0xFF26878825786E7F, 0x18477788255B787F, 0xFF2673882578787F, 0xFF2679882565787F,
    0xFF268788255A787F, 0xFF2680882565787F, 0xFF2684882565787F, 0xFF2687882578787F,
    0x184E1C630F1C1C1C, 0x184F2B610F551C1C, 0x18502B610F551C1C, 0x185131610F551C1C,
    0xFF1949610F521C1C, 0xFF193B610F521C1C, 0xFF015F610C654556, 0xFF0549610C656E37,
    0xFFB23B61075B6E37, 0xFFB42E6107656E37, 0x18582A610C554556, 0xFF0149610C594556,
    0xFF0149610C654556, 0xFFB32E6107594556, 0xFFB33B61075B4556, 0xFFB42E6107654556,
    0xFFB4276107554556, 0x185F2B610C551156, 0xFF012E610C524556, 0xFF01276125534556,
    0xFF815F610C650D56, 0xFF8449610C650D56, 0xFFB4276125650D56, 0xFFB42E6107650D56,
    0x18662B610C556F37, 0xFF055F610C656E37, 0xFFA049610C597837, 0xFFB4276125656E37,
    0xFFA02E610C527837, 0xFFA0276125537837, 0xFFB22E6107597837, 0x186D2B610C557837,
    0xFF205F610C657837, 0xFFA049610C657837, 0xFFB23B61075B7837, 0xFFB4276125657837,
    0xFFB42E6107657837, 0xFFB4276107557837, 0x18742A610C550D56, 0xFF8449610C590D56,
    0xFF842E610C520D56, 0xFF84276125530D56, 0xFFB32E6107590D56, 0xFFB33B61075B0D56,
    0xFFB4276107550D56, 0x187B2B610C551C3A, 0x187C31610C555D56, 0xFF045F610C655C56,
    0xFF0449610C655C56, 0xFF1B2E610C526E56, 0xFFB22E6107596E56, 0xFFB23B61075B5C56,
    0xFFB42E6107655C56, 0x18832A610C554656, 0xFF0449610C595C56, 0xFF042E610C525C56,
    0xFF04276125535C56, 0xFFB22E6107595C56, 0xFFB4276107555C56, 0xFFB4276125654556,
    0x188A2B610C556E56, 0xFF1B49610C596E56, 0xFF9B5F610C656E56, 0xFF1B49610C656E56,
    0xFFB23B61075B6E56, 0xFFB42E6107656E56, 0xFFB4276107556E56, 0x18912A610C557856,
    0xFF1D49610C597856, 0xFF1D2E610C527856, 0xFFB22E6107597856, 0xFFB23B61075B7856,
    0xFFB42E6107657856, 0xFFB4276107557856, 0x189831610C551C3A, 0xFF075F610C591C3A,
    0xFF075F610C521C3A, 0xFF1D5F610C657856, 0xFF1D49610C657856, 0xFF232E610C520D70,
    0xFF242E6107590D70, 0x189F2B610C550D70, 0xFF2349610C590D70, 0xFF235F610C650D70,
    0xFF2349610C650D70, 0xFF243B61075B0D70, 0xFFB62E6107650D70, 0xFFB6276107550D70,
    0x18A62B610C551C10, 0x18A72B610C555C37, 0xFF045F610C655C37, 0xFF0449610C655C37,
    0xFFB23B61075B5C37, 0xFFB4276125655C37, 0xFFB42E6107655C37, 0xFFB4276107555C37,
    0x18AE2B610C554637, 0xFF0449610C595C37, 0xFF042E610C525C37, 0xFF04276125535C37,
    0xFFB22E6107595C37, 0xFF015F610C654537, 0xFFB4276125654537, 0x18B52A610C554537,
    0xFF0149610C594537, 0xFF0149610C654537, 0xFFB32E6107594537, 0xFFB33B61075B4537,
    0xFFB42E6107654537, 0xFFB4276107554537, 0x18BC2B610C551137, 0xFF012E610C524537,
    0xFF01276125534537, 0xFF015F610C650D37, 0xFF0149610C650D37, 0xFFB4276125650D37,
    0xFFB42E6107650D37, 0x18C32B610C556F10, 0xFF0549610C596E37, 0xFF052E610C526E37,
    0xFF05276125536E37, 0xFFB22E6107596E37, 0xFFB4276107556E37, 0xFF055F610C65780A,
    0x18CA2A610C550D37, 0xFF0149610C590D37, 0xFF012E610C520D37, 0xFF01276125530D37,
    0xFFB32E6107590D37, 0xFFB33B61075B0D37, 0xFFB4276107550D37, 0x18D12B610C551C72,
    0x18D22A610C555C70, 0xFF0449610C595C70, 0xFF042E610C525C70, 0xFF042E6107595C70,
    0xFF043B61075B5C70, 0xFFB62E6107655C70, 0xFFB6276107555C70, 0x18D92B610C555D70,
    0xFF1549610C596E70, 0xFF015F610C655C70, 0xFF0449610C655C70, 0xFF152E610C526E70,
    0xFF042E6107596E70, 0xFFB6276107556E70, 0x18E02B610C554570, 0xFF2349610C594570,
    0xFF235F610C654570, 0xFF2349610C654570, 0xFF243B61075B4570, 0xFFB62E6107654570,
    0xFFB6276107554570, 0x18E731610C556F70, 0xFF175F610C656E70, 0xFF1549610C656E70,
    0xFF043B61075B6E70, 0xFF152E610C527870, 0xFF152E6107597870, 0xFFB62E6107656E70,
    0x18EE2A610C551172, 0xFF232E610C524570, 0xFF242E6107594570, 0xFF2549610C590D7F,
    0xFF022E610C520D7F, 0xFF252E6107590D7F, 0xFF25276107550D7F, 0x18F52B610C557870,
    0xFF1549610C597870, 0xFFA85F610C657870, 0xFF1549610C657870, 0xFF153B61075B7870,
    0xFFB62E6107657870, 0xFFB6276107557870, 0x18FC31610C551C0A, 0x18FD5F610C551C0A]"

definition btree21wd_nodes_32 :: "nat list" where
  "btree21wd_nodes_32 =
   [0xFF0B5F610C591C0A, 0xFF0B5F610C521C0A, 0xFF1E5F610C655C0A, 0xFF1E5F610C656E0A,
    0xFF0C5F610C65450A, 0xFF8C5F610C650D0A, 0x190449610C5B5E0A, 0xFF0C49610C595C0A,
    0xFF1E49610C596E0A, 0xFFB249610C655C0A, 0xFF0549610C59780A, 0xFFB249610C656E0A,
    0xFFB249610C65780A, 0x190B3C610C5B1C0A, 0xFF0C49610C59450A, 0xFF0C49610C590D0A,
    0xFFB349610C65450A, 0xFFB23B61075B6E0A, 0xFFB349610C650D0A, 0xFFB23B61075B780A,
    0x19122F610C551C0A, 0xFFB23B61075B5C0A, 0xFFB33B61075B450A, 0xFF052E610C52780A,
    0xFFB22E610759780A, 0xFFB33B61075B0D0A, 0xFFB42E610765780A, 0x19192E610C555D0A,
    0xFF0C2E610C525C0A, 0xFFB22E6107595C0A, 0xFF1E2E610C526E0A, 0xFFB22E6107596E0A,
    0xFFB42E6107655C0A, 0xFFB42E6107656E0A, 0x19202E610C55110A, 0xFF0C2E610C52450A,
    0xFFB32E610759450A, 0xFF0C2E610C520D0A, 0xFFB32E6107590D0A, 0xFFB42E610765450A,
    0xFFB42E6107650D0A, 0x19272B610C551C7F, 0x19282A610C555C7F, 0xFF2549610C595C7F,
    0xFF022E610C525C7F, 0xFF252E6107595C7F, 0xFF253B61075B5C7F, 0xFF252E6107655C7F,
    0xFF25276107555C7F, 0x192F2B610C555D7F, 0xFF2649610C596E7F, 0xFF255F610C655C7F,
    0xFF2549610C655C7F, 0xFF022E610C526E7F, 0xFF262E6107596E7F, 0xFF26276107556E7F,
    0x19362B610C55457F, 0xFF2549610C59457F, 0xFFA55F610C65457F, 0xFF2549610C65457F,
    0xFF253B61075B457F, 0xFF252E610765457F, 0xFF2527610755457F, 0x193D31610C55117F,
    0xFF022E610C52457F, 0xFF252E610759457F, 0xFFA55F610C650D7F, 0xFF2549610C650D7F,
    0xFF253B61075B0D7F, 0xFF252E6107650D7F, 0x194431610C556F7F, 0xFF265F610C656E7F,
    0xFF2649610C656E7F, 0xFF263B61075B6E7F, 0xFF022E610C52787F, 0xFF262E610759787F,
    0xFF262E6107656E7F, 0x194B2B610C55787F, 0xFF2649610C59787F, 0xFF265F610C65787F,
    0xFF2649610C65787F, 0xFF263B61075B787F, 0xFF262E610765787F, 0xFF2627610755787F,
    0x19526C610F551C1C, 0x19536C610F551C1C, 0x19546C610F551C1C, 0xFF1966610F521C1C,
    0xFF1973610F521C1C, 0xFF2066610C657837, 0xFFB27361075B7837, 0xFFB5796107657837,
    0xFFB5846107657837, 0x195B6C610C550D56, 0xFF8166610C590D56, 0xFF8179610C520D56,
    0xFFB3796107590D56, 0xFF8184610C520D56, 0xFFB3846107590D56, 0xFFB5806107550D56,
    0x19626C610C555C37, 0xFF0466610C595C37, 0xFFB2796107595C37, 0xFFB27361075B5C37,
    0xFFB2846107595C37, 0xFFB5796107655C37, 0xFFB5806107555C37, 0x19696C610C555D37,
    0xFF0466610C655C37, 0xFF0579610C526E37, 0xFFB2796107596E37, 0xFF0584610C526E37,
    0xFFB2846107596E37, 0xFFB5846107655C37, 0x19706C610C556E37, 0xFF0566610C596E37,
    0xFF0566610C656E37, 0xFFB27361075B6E37, 0xFFB5796107656E37, 0xFFB5806107556E37,
    0xFFB5846107656E37, 0x19776C610C557837, 0xFF2066610C597837, 0xFF2079610C527837,
    0xFFB2796107597837, 0xFF2084610C527837, 0xFFB2846107597837, 0xFFB5806107557837,
    0x197E6C610C551C56, 0x197F6C610C555C56, 0xFF0466610C595C56, 0xFF0466610C655C56,
    0xFFB27361075B5C56, 0xFFB5796107655C56, 0xFFB5806107555C56, 0xFFB5846107655C56,
    0x19866C610C554656, 0xFF0479610C525C56, 0xFFB2796107595C56, 0xFF0166610C654556,
    0xFF0484610C525C56, 0xFFB2846107595C56, 0xFFB5846107654556, 0x198D6B610C556E56,
    0xFF9B66610C596E56, 0xFF9B79610C526E56, 0xFFB2796107596E56, 0xFFB27361075B6E56,
    0xFFB5796107656E56, 0xFFB5806107556E56, 0x19946C610C554556, 0xFF0166610C594556,
    0xFFB3796107594556, 0xFFB37361075B4556, 0xFFB3846107594556, 0xFFB5796107654556,
    0xFFB5806107554556, 0x199B6B610C556F56, 0xFF1D66610C597856, 0xFF9B66610C656E56,
    0xFF1D79610C527856, 0xFFB2796107597856, 0xFFB27361075B7856, 0xFFB5806107557856,
    0x19A26C610C551156, 0xFF0179610C524556, 0xFF0184610C524556, 0xFF8166610C650D56,
    0xFFB37361075B0D56, 0xFFB5796107650D56, 0xFFB5846107650D56, 0x19A96B610C551C57,
    0x19AA6A610C555D70, 0xFF1766610C596E70, 0xFF0166610C655C70, 0xFF1779610C526E70,
    0xFF04796107596E70, 0xFF047361075B5C70, 0xFFB6796107655C70, 0x19B16B610C554670,
    0xFF0166610C595C70, 0xFF0179610C525C70, 0xFF04796107595C70, 0xFF2366610C654570,
    0xFFB6806107555C70, 0xFFB6796107654570, 0x19B86B610C551170, 0xFF2366610C594570,
    0xFF2379610C524570, 0xFF24796107594570, 0xFF247361075B4570, 0xFF2366610C650D70,
    0xFFB6806107554570, 0x19BF6B610C556F70, 0xFF1766610C656E70, 0xFF047361075B6E70,
    0xFFA879610C527870, 0xFF15796107597870, 0xFFB6796107656E70, 0xFFB6806107556E70]"

definition btree21wd_nodes_33 :: "nat list" where
  "btree21wd_nodes_33 =
   [0x19C66B610C557857, 0xFFA866610C597870, 0xFF1D66610C657856, 0xFFB5796107657856,
    0xFF157361075B7870, 0xFFB6796107657870, 0xFFB6806107557870, 0x19CD6B610C550D70,
    0xFF2366610C590D70, 0xFF2379610C520D70, 0xFF24796107590D70, 0xFF247361075B0D70,
    0xFFB6796107650D70, 0xFFB6806107550D70, 0x19D46C610C551C10, 0x19D56C610C554710,
    0xFF0479610C525C37, 0xFF0166610C654537, 0xFF0484610C525C37, 0xFFB27361075B6E0A,
    0xFFB5846107654537, 0xFFB5796107656E0A, 0x19DC6C610C554537, 0xFF0166610C594537,
    0xFFB3796107594537, 0xFFB37361075B4537, 0xFFB3846107594537, 0xFFB5796107654537,
    0xFFB5806107554537, 0x19E36C610C551137, 0xFF0179610C524537, 0xFF0184610C524537,
    0xFF0166610C650D37, 0xFFB37361075B0D37, 0xFFB5796107650D37, 0xFFB5846107650D37,
    0x19EA6C610C556F0A, 0xFFB266610C656E0A, 0xFF0579610C52780A, 0xFFB279610759780A,
    0xFF0584610C52780A, 0xFFB284610759780A, 0xFFB5846107656E0A, 0x19F16C610C55780A,
    0xFF0566610C59780A, 0xFFB266610C65780A, 0xFFB27361075B780A, 0xFFB579610765780A,
    0xFFB580610755780A, 0xFFB584610765780A, 0x19F86C610C550D37, 0xFF0166610C590D37,
    0xFF0179610C520D37, 0xFFB3796107590D37, 0xFF0184610C520D37, 0xFFB3846107590D37,
    0xFFB5806107550D37, 0x19FF6B610C551C72, 0x1A006A610C555D7F, 0xFF2666610C596E7F,
    0xFF2566610C655C7F, 0xFF0279610C526E7F, 0xFF26796107596E7F, 0xFF257361075B5C7F,
    0xFF25796107655C7F, 0x1A076B610C55467F, 0xFF2566610C595C7F, 0xFF0279610C525C7F,
    0xFF25796107595C7F, 0xFFA566610C65457F, 0xFF25806107555C7F, 0xFFA579610765457F,
    0x1A0E6B610C55117F, 0xFFA566610C59457F, 0xFF0279610C52457F, 0xFFA579610759457F,
    0xFFA57361075B457F, 0xFFA566610C650D7F, 0xFFA580610755457F, 0x1A156B610C556F7F,
    0xFF2666610C656E7F, 0xFF267361075B6E7F, 0xFF0279610C52787F, 0xFF2679610759787F,
    0xFF26796107656E7F, 0xFF26806107556E7F, 0x1A1C6B610C557872, 0xFF2666610C59787F,
    0xFFA866610C657870, 0xFF2666610C65787F, 0xFF267361075B787F, 0xFF2679610765787F,
    0xFF2680610755787F, 0x1A236B610C550D7F, 0xFFA566610C590D7F, 0xFF0279610C520D7F,
    0xFFA5796107590D7F, 0xFFA57361075B0D7F, 0xFFA5796107650D7F, 0xFFA5806107550D7F,
    0x1A2A6C610C55170A, 0x1A2B6C610C59170A, 0xFF0C66610C59450A, 0xFF8C66610C590D0A,
    0xFFB2846107595C0A, 0xFFB2846107596E0A, 0xFFB384610759450A, 0xFFB3846107590D0A,
    0x1A327B610C53170A, 0xFFB2796107595C0A, 0xFFB2796107596E0A, 0xFFB379610759450A,
    0xFF1E84610C525C0A, 0xFF1E84610C526E0A, 0xFFB3796107590D0A, 0x1A397B610C52170A,
    0xFF1E79610C525C0A, 0xFF1E79610C526E0A, 0xFF0C79610C52450A, 0xFF0C84610C52450A,
    0xFF8C79610C520D0A, 0xFF8C84610C520D0A, 0x1A406B610C55170A, 0xFF1E66610C595C0A,
    0xFF1E66610C596E0A, 0xFFB5806107555C0A, 0xFFB5806107556E0A, 0xFFB580610755450A,
    0xFFB5806107550D0A, 0x1A477461075B140A, 0xFFB27361075B5C0A, 0xFFB5796107655C0A,
    0xFFB37361075B450A, 0xFFB579610765450A, 0xFFB37361075B0D0A, 0xFFB5796107650D0A,
    0x1A4E6C610C65140A, 0xFFB266610C655C0A, 0xFFB366610C65450A, 0xFFB366610C650D0A,
    0xFFB5846107655C0A, 0xFFB584610765450A, 0xFFB5846107650D0A, 0x1A5509610F551C1C,
    0x1A5608610F551C1C, 0x1A5708610F551C1C, 0xFF1906610F521C1C, 0xFFA00661255A7837,
    0xFFB21D6125657837, 0xFFA0066125787837, 0xFFB41D6107657837, 0xFFB20661075B7837,
    0x1A5E08610C551156, 0xFF011D6125594556, 0xFF010661255A4556, 0xFF011D610C524556,
    0xFFB31D6107594556, 0xFFB31D6125650D56, 0xFFB1066125780D56, 0x1A6508610C550D56,
    0xFF841D6125590D56, 0xFF840661255A0D56, 0xFF841D610C520D56, 0xFFB31D6107590D56,
    0xFFB41D6107650D56, 0xFFB30661075B0D56, 0x1A6C08610C5B5C37, 0xFF041D6125595C37,
    0xFF040661255A5C37, 0xFFB21D6107595C37, 0xFFB21D6125655C37, 0xFFB41D6107655C37,
    0xFFB20661075B5C37, 0x1A7308610C555D37, 0xFF051D6125596E37, 0xFF050661255A6E37,
    0xFF051D610C526E37, 0xFFB21D6107596E37, 0xFF04066125785C37, 0xFFB20661075B6E37,
    0x1A7A08610C556F37, 0xFFA01D6125597837, 0xFFB21D6125656E37, 0xFFA01D610C527837,
    0xFF05066125786E37, 0xFFB21D6107597837, 0xFFB41D6107656E37, 0x1A8108610C551C57,
    0x1A8208610C555C56, 0xFF041D6125595C56, 0xFF040661255A5C56, 0xFF041D610C525C56,
    0xFFB21D6107595C56, 0xFFB41D6107655C56, 0xFFB20661075B5C56, 0x1A8908610C555D56,
    0xFF1B1D6125596E56, 0xFF1B0661255A6E56, 0xFF1B1D610C526E56, 0xFFB21D6125655C56]"

definition btree21wd_nodes_34 :: "nat list" where
  "btree21wd_nodes_34 =
   [0xFFB21D6107596E56, 0xFFB1066125785C56, 0x1A9008610C556F56, 0xFFB21D6125656E56,
    0xFF1D1D610C527856, 0xFFB1066125786E56, 0xFFB21D6107597856, 0xFFB41D6107656E56,
    0xFFB20661075B6E56, 0x1A9708610C5B1157, 0xFFB31D6125654556, 0xFFB1066125784556,
    0xFFB41D6107654556, 0xFFB30661075B4556, 0xFF241D6125650D70, 0xFF24066125780D70,
    0x1A9E08610C5B7856, 0xFF1D1D6125597856, 0xFF1D0661255A7856, 0xFFB21D6125657856,
    0xFF1D066125787856, 0xFFB41D6107657856, 0xFFB20661075B7856, 0x1AA508610C550D70,
    0xFF231D6125590D70, 0xFF230661255A0D70, 0xFF231D610C520D70, 0xFF241D6107590D70,
    0xFFB61D6107650D70, 0xFF240661075B0D70, 0x1AAC09610C551C10, 0x1AAD08610C554710,
    0xFF041D610C525C37, 0xFFB21D6125596E0A, 0xFFB31D6125654537, 0xFFB1066125784537,
    0xFFB41D6107654537, 0xFFB30661075B4537, 0x1AB409610C556E0A, 0xFFB20661255A6E0A,
    0xFFB4276125656E0A, 0xFFB21D6125656E0A, 0xFFB4276107556E0A, 0xFFB41D6107656E0A,
    0xFFB20661075B6E0A, 0x1ABB09610C556F0A, 0xFFB227612553780A, 0xFFB21D612559780A,
    0xFFB20661255A780A, 0xFF051D610C52780A, 0xFFB2066125786E0A, 0xFFB21D610759780A,
    0x1AC208610C551137, 0xFF011D6125594537, 0xFF010661255A4537, 0xFF011D610C524537,
    0xFFB31D6107594537, 0xFFB31D6125650D37, 0xFFB1066125780D37, 0x1AC909610C55780A,
    0xFFB427612565780A, 0xFFB21D612565780A, 0xFFB427610755780A, 0xFFB206612578780A,
    0xFFB41D610765780A, 0xFFB20661075B780A, 0x1AD008610C550D37, 0xFF011D6125590D37,
    0xFF010661255A0D37, 0xFF011D610C520D37, 0xFFB31D6107590D37, 0xFFB41D6107650D37,
    0xFFB30661075B0D37, 0x1AD708610C551C72, 0x1AD808610C555C70, 0xFF041D6125595C70,
    0xFF040661255A5C70, 0xFF041D610C525C70, 0xFF041D6107595C70, 0xFFB61D6107655C70,
    0xFF040661075B5C70, 0x1ADF08610C555D70, 0xFF151D6125596E70, 0xFF150661255A6E70,
    0xFF151D610C526E70, 0xFF041D6125655C70, 0xFF041D6107596E70, 0xFF04066125785C70,
    0x1AE608610C5B4570, 0xFF231D6125594570, 0xFF230661255A4570, 0xFF241D6125654570,
    0xFF24066125784570, 0xFFB61D6107654570, 0xFF240661075B4570, 0x1AED08610C541172,
    0xFF231D610C524570, 0xFF241D6107594570, 0xFF251D6125590D7F, 0xFF250661255A0D7F,
    0xFF021D610C520D7F, 0xFF251D6107590D7F, 0x1AF408610C556F70, 0xFF041D6125656E70,
    0xFF151D610C527870, 0xFF04066125786E70, 0xFF151D6107597870, 0xFFB61D6107656E70,
    0xFF040661075B6E70, 0x1AFB08610C5B7870, 0xFF151D6125597870, 0xFF150661255A7870,
    0xFF151D6125657870, 0xFF15066125787870, 0xFFB61D6107657870, 0xFF150661075B7870,
    0x1B0209610C55170A, 0x1B031E610C53170A, 0xFFB327612553450A, 0xFF0C1D610C525C0A,
    0xFF1E1D610C526E0A, 0xFF0C1D610C52450A, 0xFFB3276125530D0A, 0xFF0C1D610C520D0A,
    0x1B0A1E610C53170A, 0xFFB2276125535C0A, 0xFFB2276125536E0A, 0xFFB21D6107595C0A,
    0xFFB21D6107596E0A, 0xFFB31D610759450A, 0xFFB31D6107590D0A, 0x1B110861255A140A,
    0xFFB21D6125595C0A, 0xFFB20661255A5C0A, 0xFFB31D612559450A, 0xFFB30661255A450A,
    0xFFB31D6125590D0A, 0xFFB30661255A0D0A, 0x1B1809610755140A, 0xFFB4276107555C0A,
    0xFFB427610755450A, 0xFFB20661075B5C0A, 0xFFB30661075B450A, 0xFFB4276107550D0A,
    0xFFB30661075B0D0A, 0x1B1F09612565140A, 0xFFB4276125655C0A, 0xFFB427612565450A,
    0xFFB2066125785C0A, 0xFFB306612578450A, 0xFFB4276125650D0A, 0xFFB3066125780D0A,
    0x1B261D610C65140A, 0xFFB21D6125655C0A, 0xFFB31D612565450A, 0xFFB41D6107655C0A,
    0xFFB41D610765450A, 0xFFB31D6125650D0A, 0xFFB41D6107650D0A, 0x1B2D08610C551C7F,
    0x1B2E08610C555C7F, 0xFF251D6125595C7F, 0xFF250661255A5C7F, 0xFF021D610C525C7F,
    0xFF251D6107595C7F, 0xFF251D6107655C7F, 0xFF250661075B5C7F, 0x1B3508610C555D7F,
    0xFF261D6125596E7F, 0xFF260661255A6E7F, 0xFF021D610C526E7F, 0xFF251D6125655C7F,
    0xFF261D6107596E7F, 0xFF25066125785C7F, 0x1B3C08610C5B457F, 0xFF251D612559457F,
    0xFF250661255A457F, 0xFF251D612565457F, 0xFF2506612578457F, 0xFF251D610765457F,
    0xFF250661075B457F, 0x1B4308610C55117F, 0xFF021D610C52457F, 0xFF251D610759457F,
    0xFF251D6125650D7F, 0xFF25066125780D7F, 0xFF251D6107650D7F, 0xFF250661075B0D7F,
    0x1B4A08610C556F7F, 0xFF261D6125656E7F, 0xFF021D610C52787F, 0xFF26066125786E7F,
    0xFF261D610759787F, 0xFF261D6107656E7F, 0xFF260661075B6E7F, 0x1B5108610C5B787F,
    0xFF261D612559787F, 0xFF260661255A787F, 0xFF261D612565787F, 0xFF2606612578787F]"

definition btree21wd_nodes_35 :: "nat list" where
  "btree21wd_nodes_35 =
   [0xFF261D610765787F, 0xFF260661075B787F, 0x1B581C620F551C1C, 0x1B5984610C551C58,
    0x1B5A84610C555C72, 0xFF0184610C525C70, 0xFF04846107595C70, 0xFF0284610C525C7F,
    0xFF25846107595C7F, 0xFFB6846107655C70, 0xFF25846107655C7F, 0x1B6184610C536E58,
    0xFF9B84610C526E56, 0xFFB2846107596E56, 0xFF1784610C526E70, 0xFF04846107596E70,
    0xFF0284610C526E7F, 0xFF26846107596E7F, 0x1B6884610C554572, 0xFF2384610C524570,
    0xFF24846107594570, 0xFF0284610C52457F, 0xFFA584610759457F, 0xFFB6846107654570,
    0xFFA584610765457F, 0x1B6F84610C556F58, 0xFF1D84610C527856, 0xFFB5846107656E56,
    0xFFA884610C527870, 0xFFB6846107656E70, 0xFF0284610C52787F, 0xFF26846107656E7F,
    0x1B768461075B7858, 0xFFB2846107597856, 0xFF15846107597870, 0xFFB5846107657856,
    0xFF2684610759787F, 0xFFB6846107657870, 0xFF2684610765787F, 0x1B7D84610C550D72,
    0xFF2384610C520D70, 0xFF24846107590D70, 0xFF0284610C520D7F, 0xFFA5846107590D7F,
    0xFFB6846107650D70, 0xFFA5846107650D7F, 0x1B841C620F551C1C, 0x1B851C62075B1C10,
    0xFFB38761075B450A, 0xFFB20688075B5C37, 0xFFB38761075B0D0A, 0xFFB20688075B6E37,
    0xFFB30688075B4537, 0xFFB20688075B7837, 0x1B8C87610F551C1C, 0xFF1987610F521C1C,
    0xFFB28761075B5C56, 0xFFB38761075B4556, 0xFFB28761075B6E37, 0xFFB38761075B0D56,
    0xFFB28761075B7837, 0x1B938761075B1C57, 0xFFB28761075B6E56, 0xFF048761075B5C70,
    0xFF048761075B6E70, 0xFF248761075B4570, 0xFFB28761075B7856, 0xFF248761075B0D70,
    0x1B9A8761075B1C10, 0xFFB28761075B5C37, 0xFFB38761075B4537, 0xFFB28761075B5C0A,
    0xFFB28761075B6E0A, 0xFFB38761075B0D37, 0xFFB28761075B780A, 0x1BA10688075B1C10,
    0xFFB20688075B5C0A, 0xFFB20688075B6E0A, 0xFFB30688075B450A, 0xFFB30688075B0D37,
    0xFFB20688075B780A, 0xFFB30688075B0D0A, 0x1BA88761075B1C72, 0xFF258761075B5C7F,
    0xFF268761075B6E7F, 0xFFA58761075B457F, 0xFF158761075B7870, 0xFF268761075B787F,
    0xFFA58761075B0D7F, 0x1BAF28880C551C1C, 0x1BB028880C555E39, 0xFF052E880C526E37,
    0xFFB22E8807596E37, 0xFFA02E880C527837, 0xFFB6278807555C70, 0xFFB42E8807656E37,
    0xFFB6278807556E70, 0x1BB72E880C554637, 0xFF042E880C525C37, 0xFFB22E8807595C37,
    0xFF012E880C524537, 0xFFB32E8807594537, 0xFFB42E8807655C37, 0xFFB42E8807654537,
    0x1BBE2E880C551C10, 0xFF012E880C520D37, 0xFFB32E8807590D37, 0xFF052E880C52780A,
    0xFFB22E880759780A, 0xFFB42E8807650D37, 0xFFB42E880765780A, 0x1BC5278807551C72,
    0xFF25278807555C7F, 0xFF26278807556E7F, 0xFF2527880755457F, 0xFFB6278807557870,
    0xFF2627880755787F, 0xFF25278807550D7F, 0x1BCC2E880C555D0A, 0xFF0C2E880C525C0A,
    0xFFB22E8807595C0A, 0xFF1E2E880C526E0A, 0xFFB22E8807596E0A, 0xFFB42E8807655C0A,
    0xFFB42E8807656E0A, 0x1BD32E880C55110A, 0xFF0C2E880C52450A, 0xFFB32E880759450A,
    0xFF0C2E880C520D0A, 0xFFB32E8807590D0A, 0xFFB42E880765450A, 0xFFB42E8807650D0A,
    0x1BDA1E880C551C1C, 0x1BDB278807551C38, 0xFFB4278807554556, 0xFFB4278807555C37,
    0xFFB4278807556E37, 0xFFB4278807554537, 0xFFB4278807550D56, 0xFFB4278807557837,
    0x1BE21E8807551C57, 0xFFB4278807555C56, 0xFFB4278807556E56, 0xFFB6278807554570,
    0xFFB4278807557856, 0xFFB61D8807656E70, 0xFFB6278807550D70, 0x1BE9278807551C10,
    0xFFB4278807555C0A, 0xFFB4278807556E0A, 0xFFB427880755450A, 0xFFB4278807550D37,
    0xFFB427880755780A, 0xFFB4278807550D0A, 0x1BF01D880C551C72, 0xFF151D880C527870,
    0xFF151D8807597870, 0xFF021D880C520D7F, 0xFF251D8807590D7F, 0xFFB61D8807657870,
    0xFF251D8807650D7F, 0x1BF71D880C55467F, 0xFF021D880C525C7F, 0xFF251D8807595C7F,
    0xFF021D880C52457F, 0xFF251D880759457F, 0xFF251D8807655C7F, 0xFF251D880765457F,
    0x1BFE1D880C556F7F, 0xFF021D880C526E7F, 0xFF261D8807596E7F, 0xFF021D880C52787F,
    0xFF261D880759787F, 0xFF261D8807656E7F, 0xFF261D880765787F, 0x1C051D880C551C39,
    0x1C061D880C555D39, 0xFF1B1D880C526E56, 0xFF041D8807595C70, 0xFF051D880C526E37,
    0xFFB41D8807655C56, 0xFFB41D8807655C37, 0xFFB61D8807655C70, 0x1C0D1D880C554639,
    0xFF041D880C525C56, 0xFFB21D8807595C56, 0xFF041D880C525C37, 0xFF041D880C525C70,
    0xFFB21D8807595C37, 0xFFB61D8807654570, 0x1C141D880C556E39, 0xFFB21D8807596E56,
    0xFF151D880C526E70, 0xFFB21D8807596E37, 0xFF041D8807596E70, 0xFFB41D8807656E56,
    0xFFB41D8807656E37, 0x1C1B1D880C554539, 0xFF011D880C524556, 0xFFB31D8807594556]"

definition btree21wd_nodes_36 :: "nat list" where
  "btree21wd_nodes_36 =
   [0xFF231D880C524570, 0xFF241D8807594570, 0xFFB41D8807654556, 0xFFB41D8807654537,
    0x1C221D880C557838, 0xFF1D1D880C527856, 0xFFB21D8807597856, 0xFFA01D880C527837,
    0xFFB21D8807597837, 0xFFB41D8807657856, 0xFFB41D8807657837, 0x1C291D880C550D57,
    0xFF841D880C520D56, 0xFFB31D8807590D56, 0xFF231D880C520D70, 0xFF241D8807590D70,
    0xFFB41D8807650D56, 0xFFB61D8807650D70, 0x1C3008880F551C1C, 0x1C3108880F551C1C,
    0xFF1906880F521C1C, 0xFF011D880C524537, 0xFFB31D8807594537, 0xFFB20688075B5C56,
    0xFFB30688075B4556, 0xFFB30688075B0D56, 0x1C380688075B1C57, 0xFFB20688075B6E56,
    0xFF040688075B5C70, 0xFF040688075B6E70, 0xFF240688075B4570, 0xFFB20688075B7856,
    0xFF240688075B0D70, 0x1C3F1D880C551C10, 0xFF011D880C520D37, 0xFFB31D8807590D37,
    0xFF051D880C52780A, 0xFFB21D880759780A, 0xFFB41D8807650D37, 0xFFB41D880765780A,
    0x1C460688075B1C72, 0xFF250688075B5C7F, 0xFF260688075B6E7F, 0xFF250688075B457F,
    0xFF150688075B7870, 0xFF260688075B787F, 0xFF250688075B0D7F, 0x1C4D1D880C555D0A,
    0xFF0C1D880C525C0A, 0xFFB21D8807595C0A, 0xFF1E1D880C526E0A, 0xFFB21D8807596E0A,
    0xFFB41D8807655C0A, 0xFFB41D8807656E0A, 0x1C541D880C55110A, 0xFF0C1D880C52450A,
    0xFFB31D880759450A, 0xFF0C1D880C520D0A, 0xFFB31D8807590D0A, 0xFFB41D880765450A,
    0xFFB41D8807650D0A, 0x1C5B33880F551C1C, 0x1C5C33880F551C1C, 0x1C5D3E880F551C1C,
    0xFF1949880F521C1C, 0xFF1966880F521C1C, 0xFF193B880F521C1C, 0xFF1973880F521C1C,
    0xFF205F880C657837, 0xFF2066880C657837, 0x1C6432880C555D56, 0xFF045F880C655C56,
    0xFF0449880C655C56, 0xFF0466880C655C56, 0xFF1B2E880C526E56, 0xFFB22E8807596E56,
    0xFFB42E8807655C56, 0x1C6B32880C554656, 0xFF0449880C595C56, 0xFF0466880C595C56,
    0xFF042E880C525C56, 0xFFB22E8807595C56, 0xFF0166880C654556, 0xFFB23B88075B5C56,
    0x1C7232880C5B4556, 0xFF0149880C594556, 0xFF0166880C594556, 0xFF015F880C654556,
    0xFF0149880C654556, 0xFFB33B88075B4556, 0xFFB42E8807654556, 0x1C7932880C551156,
    0xFF012E880C524556, 0xFFB32E8807594556, 0xFF815F880C650D56, 0xFF8449880C650D56,
    0xFF8166880C650D56, 0xFFB42E8807650D56, 0x1C8033880C550D56, 0xFF8449880C590D56,
    0xFF8166880C590D56, 0xFF842E880C520D56, 0xFFB32E8807590D56, 0xFFB33B88075B0D56,
    0xFFB37388075B0D56, 0x1C8732880C551C3A, 0x1C8832880C5B6E56, 0xFF1B49880C596E56,
    0xFF9B66880C596E56, 0xFF9B5F880C656E56, 0xFF1B49880C656E56, 0xFFB23B88075B6E56,
    0xFFB42E8807656E56, 0x1C8F32880C556F56, 0xFF1D49880C597856, 0xFF1D66880C597856,
    0xFF9B66880C656E56, 0xFF1D2E880C527856, 0xFFB22E8807597856, 0xFFB23B88075B7856,
    0x1C9632880C551C3A, 0xFF075F880C591C3A, 0xFF075F880C521C3A, 0xFF1D5F880C657856,
    0xFF1D49880C657856, 0xFF1D66880C657856, 0xFFB42E8807657856, 0x1C9D32880C5B4570,
    0xFF2366880C594570, 0xFF235F880C654570, 0xFF2349880C654570, 0xFF2366880C654570,
    0xFF243B88075B4570, 0xFFB62E8807654570, 0x1CA432880C551170, 0xFF2349880C594570,
    0xFF232E880C524570, 0xFF242E8807594570, 0xFF235F880C650D70, 0xFF2349880C650D70,
    0xFF2366880C650D70, 0x1CAB32880C550D70, 0xFF2349880C590D70, 0xFF2366880C590D70,
    0xFF232E880C520D70, 0xFF242E8807590D70, 0xFF243B88075B0D70, 0xFFB62E8807650D70,
    0x1CB233880C5B1C10, 0x1CB33D880C5B5D37, 0xFF0549880C596E37, 0xFF0566880C596E37,
    0xFF045F880C655C37, 0xFF0449880C655C37, 0xFF0466880C655C37, 0xFFB23B88075B6E37,
    0x1CBA3E880C5B4637, 0xFF0449880C595C37, 0xFF0466880C595C37, 0xFF015F880C654537,
    0xFF0166880C654537, 0xFFB23B88075B5C37, 0xFFB27388075B5C37, 0x1CC13E880C5B1137,
    0xFF0149880C594537, 0xFF0166880C594537, 0xFF0149880C654537, 0xFFB33B88075B4537,
    0xFFB37388075B4537, 0xFF0166880C650D37, 0x1CC833880C5B6F37, 0xFF055F880C656E37,
    0xFFA049880C597837, 0xFF0549880C656E37, 0xFF0566880C656E37, 0xFFB27388075B6E37,
    0xFFB22E8807597837, 0x1CCF33880C5B7810, 0xFF2066880C597837, 0xFFA049880C657837,
    0xFFB23B88075B7837, 0xFFB27388075B7837, 0xFFB266880C65780A, 0xFFB42E8807657837,
    0x1CD63E880C5B0D37, 0xFF0149880C590D37, 0xFF0166880C590D37, 0xFF015F880C650D37,
    0xFF0149880C650D37, 0xFFB33B88075B0D37, 0xFFB37388075B0D37, 0x1CDD32880C551C72,
    0x1CDE32880C5B5C70, 0xFF0166880C595C70, 0xFF015F880C655C70, 0xFF0449880C655C70,
    0xFF0166880C655C70, 0xFF043B88075B5C70, 0xFFB62E8807655C70, 0x1CE532880C556E70]"

definition btree21wd_nodes_37 :: "nat list" where
  "btree21wd_nodes_37 =
   [0xFF1549880C596E70, 0xFF1766880C596E70, 0xFF152E880C526E70, 0xFF042E8807596E70,
    0xFF043B88075B6E70, 0xFFB62E8807656E70, 0x1CEC32880C551472, 0xFF0449880C595C70,
    0xFF042E880C525C70, 0xFF042E8807595C70, 0xFFA55F880C650D7F, 0xFF2549880C650D7F,
    0xFFA566880C650D7F, 0x1CF332880C556F70, 0xFF175F880C656E70, 0xFF1549880C597870,
    0xFF1549880C656E70, 0xFF1766880C656E70, 0xFF152E880C527870, 0xFF152E8807597870,
    0x1CFA32880C5B7870, 0xFFA866880C597870, 0xFFA85F880C657870, 0xFF1549880C657870,
    0xFFA866880C657870, 0xFF153B88075B7870, 0xFFB62E8807657870, 0x1D0132880C550D7F,
    0xFF2549880C590D7F, 0xFFA566880C590D7F, 0xFF022E880C520D7F, 0xFF252E8807590D7F,
    0xFF253B88075B0D7F, 0xFF252E8807650D7F, 0x1D083E880C551C0A, 0x1D094B880C551C0A,
    0xFF0B5F880C591C0A, 0xFF0B5F880C521C0A, 0xFF0C49880C595C0A, 0xFF1E66880C595C0A,
    0xFF0C5F880C65450A, 0xFFB366880C65450A, 0x1D103E880C5B5D0A, 0xFF1E49880C596E0A,
    0xFF1E5F880C655C0A, 0xFFB249880C655C0A, 0xFFB266880C655C0A, 0xFFB23B88075B5C0A,
    0xFFB27388075B5C0A, 0x1D173E880C5B6E0A, 0xFF1E66880C596E0A, 0xFF1E5F880C656E0A,
    0xFFB249880C656E0A, 0xFFB266880C656E0A, 0xFFB23B88075B6E0A, 0xFFB27388075B6E0A,
    0x1D1E3E880C5B110A, 0xFF0C49880C59450A, 0xFF0C66880C59450A, 0xFFB349880C65450A,
    0xFFB33B88075B450A, 0xFFB37388075B450A, 0xFFB366880C650D0A, 0x1D253E880C5B780A,
    0xFF0549880C59780A, 0xFF0566880C59780A, 0xFF055F880C65780A, 0xFFB249880C65780A,
    0xFFB23B88075B780A, 0xFFB27388075B780A, 0x1D2C3E880C5B0D0A, 0xFF0C49880C590D0A,
    0xFF8C66880C590D0A, 0xFF8C5F880C650D0A, 0xFFB349880C650D0A, 0xFFB33B88075B0D0A,
    0xFFB37388075B0D0A, 0x1D3332880C55487F, 0x1D3430880C59487F, 0xFF2549880C595C7F,
    0xFF2649880C596E7F, 0xFF2549880C59457F, 0xFF2649880C59787F, 0xFF262E8807596E7F,
    0xFF262E880759787F, 0x1D3B2E880C53487F, 0xFF022E880C525C7F, 0xFF252E8807595C7F,
    0xFF022E880C526E7F, 0xFF022E880C52457F, 0xFF252E880759457F, 0xFF022E880C52787F,
    0x1D423D880C5B487F, 0xFF2566880C595C7F, 0xFF2666880C596E7F, 0xFFA566880C59457F,
    0xFF2666880C59787F, 0xFF253B88075B5C7F, 0xFF253B88075B457F, 0x1D492F88075B487F,
    0xFF263B88075B6E7F, 0xFF252E8807655C7F, 0xFF262E8807656E7F, 0xFF252E880765457F,
    0xFF263B88075B787F, 0xFF262E880765787F, 0x1D504A880C65487F, 0xFF255F880C655C7F,
    0xFF2549880C655C7F, 0xFFA55F880C65457F, 0xFF2649880C656E7F, 0xFF2549880C65457F,
    0xFF2649880C65787F, 0x1D5760880C65487F, 0xFF2566880C655C7F, 0xFF265F880C656E7F,
    0xFF2666880C656E7F, 0xFFA566880C65457F, 0xFF265F880C65787F, 0xFF2666880C65787F,
    0x1D5E1C890F1C1C1C, 0x1D5F1C890F1C1C1C, 0x1D601C890F1C1C1C, 0xFFB71C8A0C1C1C1C,
    0xFF1987880F521C1C, 0xFF8179880C520D56, 0xFF8184880C520D56, 0xFFB5798807657837,
    0xFFB5848807657837, 0x1D67778807555C56, 0xFFB27388075B5C56, 0xFFB2848807595C56,
    0xFFB5798807655C56, 0xFFB5808807555C56, 0xFFB5848807655C56, 0xFFB28788075B5C56,
    0x1D6E7C880C554656, 0xFF0479880C525C56, 0xFFB2798807595C56, 0xFF0484880C525C56,
    0xFFB5798807654556, 0xFFB5848807654556, 0xFFB38788075B4556, 0x1D7576880C554556,
    0xFF0179880C524556, 0xFFB3798807594556, 0xFFB37388075B4556, 0xFF0184880C524556,
    0xFFB3848807594556, 0xFFB5808807554556, 0x1D7C7C8807550D56, 0xFFB3798807590D56,
    0xFFB3848807590D56, 0xFFB5798807650D56, 0xFFB5808807550D56, 0xFFB5848807650D56,
    0xFFB38788075B0D56, 0x1D837C880C557837, 0xFF2079880C527837, 0xFFB2798807597837,
    0xFF2084880C527837, 0xFFB2848807597837, 0xFFB5808807557837, 0xFFB28788075B7837,
    0x1D8A77880C551C57, 0x1D8B76880C556E56, 0xFF9B79880C526E56, 0xFFB2798807596E56,
    0xFFB27388075B6E56, 0xFF9B84880C526E56, 0xFFB2848807596E56, 0xFFB5808807556E56,
    0x1D927C880C556F56, 0xFF1D79880C527856, 0xFFB2798807597856, 0xFFB5798807656E56,
    0xFF1D84880C527856, 0xFFB5848807656E56, 0xFFB28788075B6E56, 0x1D99778807557856,
    0xFFB27388075B7856, 0xFFB2848807597856, 0xFFB5798807657856, 0xFFB5808807557856,
    0xFFB5848807657856, 0xFFB28788075B7856, 0x1DA0778807554570, 0xFF247388075B4570,
    0xFF24848807594570, 0xFFB6798807654570, 0xFFB6808807554570, 0xFFB6848807654570,
    0xFF248788075B4570, 0x1DA77C880C551170, 0xFF2379880C524570, 0xFF24798807594570,
    0xFF2384880C524570, 0xFFB6798807650D70, 0xFFB6848807650D70, 0xFF248788075B0D70]"

definition btree21wd_nodes_38 :: "nat list" where
  "btree21wd_nodes_38 =
   [0x1DAE76880C550D70, 0xFF2379880C520D70, 0xFF24798807590D70, 0xFF247388075B0D70,
    0xFF2384880C520D70, 0xFF24848807590D70, 0xFFB6808807550D70, 0x1DB57C880C551C10,
    0x1DB67C8807555C37, 0xFFB2798807595C37, 0xFFB2848807595C37, 0xFFB5798807655C37,
    0xFFB5808807555C37, 0xFFB5848807655C37, 0xFFB28788075B5C37, 0x1DBD7C880C554637,
    0xFF0479880C525C37, 0xFF0484880C525C37, 0xFFB5798807654537, 0xFFB5808807554537,
    0xFFB5848807654537, 0xFFB38788075B4537, 0x1DC47C880C556E37, 0xFF0579880C526E37,
    0xFFB2798807596E37, 0xFF0584880C526E37, 0xFFB2848807596E37, 0xFFB5808807556E37,
    0xFFB28788075B6E37, 0x1DCB7B880C551137, 0xFF0179880C524537, 0xFFB3798807594537,
    0xFF0184880C524537, 0xFFB3848807594537, 0xFFB5798807650D37, 0xFFB5848807650D37,
    0x1DD27C8807556F10, 0xFFB5798807656E37, 0xFFB5848807656E37, 0xFFB579880765780A,
    0xFFB580880755780A, 0xFFB584880765780A, 0xFFB28788075B780A, 0x1DD97C880C550D37,
    0xFF0179880C520D37, 0xFFB3798807590D37, 0xFF0184880C520D37, 0xFFB3848807590D37,
    0xFFB5808807550D37, 0xFFB38788075B0D37, 0x1DE077880C551C72, 0x1DE1778807555C70,
    0xFF047388075B5C70, 0xFF04848807595C70, 0xFFB6798807655C70, 0xFFB6808807555C70,
    0xFFB6848807655C70, 0xFF048788075B5C70, 0x1DE876880C556E70, 0xFF1779880C526E70,
    0xFF04798807596E70, 0xFF047388075B6E70, 0xFF1784880C526E70, 0xFF04848807596E70,
    0xFFB6808807556E70, 0x1DEF7C880C551472, 0xFF0179880C525C70, 0xFF04798807595C70,
    0xFF0184880C525C70, 0xFFA5798807650D7F, 0xFFA5848807650D7F, 0xFFA58788075B0D7F,
    0x1DF67C880C556F70, 0xFFA879880C527870, 0xFF15798807597870, 0xFFB6798807656E70,
    0xFFA884880C527870, 0xFFB6848807656E70, 0xFF048788075B6E70, 0x1DFD778807557870,
    0xFF157388075B7870, 0xFF15848807597870, 0xFFB6798807657870, 0xFFB6808807557870,
    0xFFB6848807657870, 0xFF158788075B7870, 0x1E0476880C550D7F, 0xFF0279880C520D7F,
    0xFFA5798807590D7F, 0xFFA57388075B0D7F, 0xFF0284880C520D7F, 0xFFA5848807590D7F,
    0xFFA5808807550D7F, 0x1E0B7C880C551C0A, 0x1E0C7C8807555C0A, 0xFFB2798807595C0A,
    0xFFB2848807595C0A, 0xFFB5798807655C0A, 0xFFB5808807555C0A, 0xFFB5848807655C0A,
    0xFFB28788075B5C0A, 0x1E137C880C55460A, 0xFF1E79880C525C0A, 0xFF1E84880C525C0A,
    0xFFB579880765450A, 0xFFB580880755450A, 0xFFB584880765450A, 0xFFB38788075B450A,
    0x1E1A7C880C556E0A, 0xFF1E79880C526E0A, 0xFFB2798807596E0A, 0xFF1E84880C526E0A,
    0xFFB2848807596E0A, 0xFFB5808807556E0A, 0xFFB28788075B6E0A, 0x1E217B880C55110A,
    0xFF0C79880C52450A, 0xFFB379880759450A, 0xFF0C84880C52450A, 0xFFB384880759450A,
    0xFFB5798807650D0A, 0xFFB5848807650D0A, 0x1E287B880C556F0A, 0xFF0579880C52780A,
    0xFFB279880759780A, 0xFFB5798807656E0A, 0xFF0584880C52780A, 0xFFB284880759780A,
    0xFFB5848807656E0A, 0x1E2F7C880C550D0A, 0xFF8C79880C520D0A, 0xFFB3798807590D0A,
    0xFF8C84880C520D0A, 0xFFB3848807590D0A, 0xFFB5808807550D0A, 0xFFB38788075B0D0A,
    0x1E3677880C55487F, 0x1E37778807555C7F, 0xFF257388075B5C7F, 0xFF25848807595C7F,
    0xFF25798807655C7F, 0xFF25808807555C7F, 0xFF25848807655C7F, 0xFF258788075B5C7F,
    0x1E3E7C880C55467F, 0xFF0279880C525C7F, 0xFF25798807595C7F, 0xFF0284880C525C7F,
    0xFFA579880765457F, 0xFFA584880765457F, 0xFFA58788075B457F, 0x1E4576880C556E7F,
    0xFF0279880C526E7F, 0xFF26798807596E7F, 0xFF267388075B6E7F, 0xFF0284880C526E7F,
    0xFF26848807596E7F, 0xFF26808807556E7F, 0x1E4C76880C55457F, 0xFF0279880C52457F,
    0xFFA579880759457F, 0xFFA57388075B457F, 0xFF0284880C52457F, 0xFFA584880759457F,
    0xFFA580880755457F, 0x1E537C880C556F7F, 0xFF0279880C52787F, 0xFF2679880759787F,
    0xFF26798807656E7F, 0xFF0284880C52787F, 0xFF26848807656E7F, 0xFF268788075B6E7F,
    0x1E5A77880755787F, 0xFF267388075B787F, 0xFF2684880759787F, 0xFF2679880765787F,
    0xFF2680880755787F, 0xFF2684880765787F, 0xFF268788075B787F, 0x1E611C627E551C1C,
    0x1E6218617F551C1C, 0x1E6316617F551C38, 0x1E644B617F521C38, 0xFF1066617F525C37,
    0xFF1049617F526E37, 0xFF1066617F526E37, 0xFF1066617F524537, 0xFF1049617F520D56,
    0xFF1049617F527837, 0x1E6B3C617F521C38, 0xFF1049617F525C37, 0xFF103B617F525C37,
    0xFF1049617F524537, 0xFF103B617F526E37, 0xFF103B617F520D56, 0xFF103B617F527837,
    0x1E720E617F521C38, 0xFF103B617F524537, 0xFF1006617F525C37, 0xFF1006617F526E37]"

definition btree21wd_nodes_39 :: "nat list" where
  "btree21wd_nodes_39 =
   [0xFF1006617F524537, 0xFF1006617F520D56, 0xFF1006617F527837, 0x1E7921617F554837,
    0xFF1066617F527837, 0xFF041D617F555C37, 0xFF0127617F554537, 0xFF051D617F556E37,
    0xFF011D617F554537, 0xFFA01D617F557837, 0x1E8016617F551C38, 0xFF065F617F5B1C38,
    0xFF0649617F5B1C38, 0xFF0666617F5B1C38, 0xFF063B617F5B1C38, 0xFF0606617F5B1C38,
    0xFFA02E617F557837, 0x1E8728617F554837, 0xFF042E617F555C37, 0xFF0427617F555C37,
    0xFF052E617F556E37, 0xFF012E617F554537, 0xFF0527617F556E37, 0xFFA027617F557837,
    0x1E8E16617F551C3A, 0x1E8F60617F521C3A, 0xFF1066617F525C56, 0xFF075F617F521C3A,
    0xFF1066617F526E56, 0xFF1066617F524556, 0xFF1066617F527856, 0xFF1066617F520D56,
    0x1E963C617F521C57, 0xFF1049617F525C56, 0xFF1049617F526E56, 0xFF1049617F524556,
    0xFF1049617F527856, 0xFF1049617F520D70, 0xFF103B617F520D70, 0x1E9D2F617F554856,
    0xFF103B617F525C56, 0xFF103B617F526E56, 0xFF103B617F524556, 0xFF1B2E617F556E56,
    0xFF103B617F527856, 0xFF1D2E617F557856, 0x1EA428617F551C56, 0xFF042E617F555C56,
    0xFF0427617F555C56, 0xFF012E617F554556, 0xFF1B27617F556E56, 0xFF842E617F550D56,
    0xFF1D27617F557856, 0x1EAB1E617F551C56, 0xFF041D617F555C56, 0xFF0127617F554556,
    0xFF1B1D617F556E56, 0xFF011D617F554556, 0xFF8427617F550D56, 0xFF1D1D617F557856,
    0x1EB208617F551C57, 0xFF1006617F525C56, 0xFF1006617F526E56, 0xFF1006617F524556,
    0xFF1006617F527856, 0xFF841D617F550D56, 0xFF1006617F520D70, 0x1EB918617F551C10,
    0x1EBA33617F551C10, 0xFF0B5F617F5B1C0A, 0xFF0C49617F5B5C0A, 0xFF1E66617F5B5C0A,
    0xFF0C3B617F5B5C0A, 0xFF1E73617F5B5C0A, 0xFF012E617F550D37, 0x1EC118617F556E0A,
    0xFF1A49617F526E0A, 0xFF1A66617F526E0A, 0xFF1A3B617F526E0A, 0xFF1E73617F526E0A,
    0xFF1A06617F526E0A, 0xFF1E1D617F556E0A, 0x1EC816617F556E0A, 0xFF1E49617F5B6E0A,
    0xFF1E66617F5B6E0A, 0xFF1E3B617F5B6E0A, 0xFF1E2E617F556E0A, 0xFF1E27617F556E0A,
    0xFF1E06617F5B6E0A, 0x1ECF18617F556F0A, 0xFF1A49617F52780A, 0xFF1A66617F52780A,
    0xFF1E73617F5B6E0A, 0xFF1A3B617F52780A, 0xFF1A06617F52780A, 0xFF051D617F55780A,
    0x1ED616617F55780A, 0xFF0549617F5B780A, 0xFF0566617F5B780A, 0xFF053B617F5B780A,
    0xFF052E617F55780A, 0xFF0527617F55780A, 0xFF0506617F5B780A, 0x1EDD16617F550D37,
    0xFF1049617F520D37, 0xFF1066617F520D37, 0xFF103B617F520D37, 0xFF0127617F550D37,
    0xFF1006617F520D37, 0xFF011D617F550D37, 0x1EE416617F551C72, 0x1EE521617F555C70,
    0xFF1049617F525C70, 0xFF1066617F525C70, 0xFF103B617F525C70, 0xFF042E617F555C70,
    0xFF0427617F555C70, 0xFF041D617F555C70, 0x1EEC16617F554670, 0xFF1049617F524570,
    0xFF1066617F524570, 0xFF232E617F554570, 0xFF1006617F525C70, 0xFF2327617F554570,
    0xFF231D617F554570, 0x1EF316617F556E70, 0xFF1049617F526E70, 0xFF1066617F526E70,
    0xFF103B617F526E70, 0xFF1527617F556E70, 0xFF1006617F526E70, 0xFF151D617F556E70,
    0x1EFA16617F551170, 0xFF103B617F524570, 0xFF1066617F520D70, 0xFF1006617F524570,
    0xFF232E617F550D70, 0xFF2327617F550D70, 0xFF231D617F550D70, 0x1F0116617F556F70,
    0xFF1049617F527870, 0xFF1066617F527870, 0xFF152E617F556E70, 0xFF103B617F527870,
    0xFF1006617F527870, 0xFF151D617F557870, 0x1F0813617F551C72, 0xFFB85F617F5B1C72,
    0xFFB849617F5B1C72, 0xFFB83B617F5B1C72, 0xFF152E617F557870, 0xFFB806617F5B1C72,
    0xFF1527617F557870, 0x1F0F16617F551C72, 0x1F1016617F551C72, 0xFFB866617F5B1C72,
    0xFF0249617F520D7F, 0xFF0266617F520D7F, 0xFF023B617F520D7F, 0xFF0206617F520D7F,
    0xFF021D617F550D7F, 0x1F1716617F555D7F, 0xFF0266617F525C7F, 0xFF023B617F526E7F,
    0xFF022E617F555C7F, 0xFF0227617F555C7F, 0xFF021D617F555C7F, 0xFF0206617F526E7F,
    0x1F1E12617F55467F, 0xFF0249617F525C7F, 0xFF023B617F525C7F, 0xFF022E617F55457F,
    0xFF0206617F525C7F, 0xFF0227617F55457F, 0xFF021D617F55457F, 0x1F2516617F55117F,
    0xFF0249617F52457F, 0xFF0266617F52457F, 0xFF023B617F52457F, 0xFF0206617F52457F,
    0xFF022E617F550D7F, 0xFF0227617F550D7F, 0x1F2C16617F556F7F, 0xFF0249617F526E7F,
    0xFF0266617F526E7F, 0xFF022E617F556E7F, 0xFF0227617F556E7F, 0xFF021D617F556E7F,
    0xFF0206617F52787F, 0x1F3321617F55787F, 0xFF0249617F52787F, 0xFF0266617F52787F,
    0xFF023B617F52787F, 0xFF022E617F55787F, 0xFF0227617F55787F, 0xFF021D617F55787F,
    0x1F3A18617F551C0A, 0x1F3B4B617F551C0A, 0xFF0B5F617F521C0A, 0xFF1A49617F525C0A]"

definition btree21wd_nodes_40 :: "nat list" where
  "btree21wd_nodes_40 =
   [0xFF1A66617F52450A, 0xFF0C66617F5B450A, 0xFF1A66617F520D0A, 0xFF8C66617F5B0D0A,
    0x1F423C617F55140A, 0xFF1A3B617F525C0A, 0xFF1A49617F52450A, 0xFF0C49617F5B450A,
    0xFF1A49617F520D0A, 0xFF0C3B617F5B450A, 0xFF0C49617F5B0D0A, 0x1F4967617F55140A,
    0xFF1A66617F525C0A, 0xFF1E73617F525C0A, 0xFF0C73617F52450A, 0xFF0C73617F5B450A,
    0xFF8C73617F520D0A, 0xFF8C73617F5B0D0A, 0x1F502F617F55140A, 0xFF1A3B617F52450A,
    0xFF0C2E617F555C0A, 0xFF0C2E617F55450A, 0xFF1A3B617F520D0A, 0xFF0C3B617F5B0D0A,
    0xFF0C2E617F550D0A, 0x1F571E617F55140A, 0xFF0C27617F555C0A, 0xFF0C1D617F555C0A,
    0xFF0C27617F55450A, 0xFF0C1D617F55450A, 0xFF0C27617F550D0A, 0xFF0C1D617F550D0A,
    0x1F5E06617F55140A, 0xFF1A06617F525C0A, 0xFF1A06617F52450A, 0xFF0C06617F5B5C0A,
    0xFF0C06617F5B450A, 0xFF1A06617F520D0A, 0xFF0C06617F5B0D0A, 0x1F651C627F551C1C,
    0x1F662C627F551C1C, 0x1F6773617F521C57, 0xFF0473617F525C56, 0xFF9B73617F526E56,
    0xFF0173617F524556, 0xFF1D73617F527856, 0xFF8173617F520D56, 0xFF2373617F520D70,
    0x1F6E73617F521C10, 0xFF0473617F525C37, 0xFF0573617F526E37, 0xFF0173617F524537,
    0xFF2073617F527837, 0xFF0173617F520D37, 0xFF0573617F52780A, 0x1F7573617F521C72,
    0xFF0173617F525C70, 0xFF1773617F526E70, 0xFF2373617F524570, 0xFF0273617F52457F,
    0xFFA873617F527870, 0xFF0273617F520D7F, 0x1F7C33627F551C1C, 0xFF0673617F5B1C38,
    0xFFB873617F5B1C72, 0xFF0573617F5B780A, 0xFF0C2E887F555C0A, 0xFF0C2E887F55450A,
    0xFF0C2E887F550D0A, 0x1F832C627F551772, 0xFF0273617F525C7F, 0xFF0273617F526E7F,
    0xFF0427887F555C70, 0xFF1527887F556E70, 0xFF2327887F554570, 0xFF2327887F550D70,
    0x1F8A27887F551C72, 0xFF0227887F555C7F, 0xFF0227887F556E7F, 0xFF0227887F55457F,
    0xFF1527887F557870, 0xFF0227887F55787F, 0xFF0227887F550D7F, 0x1F9175617F551C1C,
    0x1F927A617F551C38, 0xFF0479617F555C56, 0xFF9B79617F556E56, 0xFF0179617F554556,
    0xFF8179617F550D56, 0xFF2079617F557837, 0xFF2080617F557837, 0x1F9979617F551C57,
    0xFF0179617F555C70, 0xFF1779617F556E70, 0xFF2379617F554570, 0xFF1D79617F557856,
    0xFFA879617F557870, 0xFF2379617F550D70, 0x1FA07A617F554737, 0xFF0479617F555C37,
    0xFF0480617F555C37, 0xFF0579617F556E37, 0xFF0179617F554537, 0xFF0580617F556E37,
    0xFF0180617F554537, 0x1FA77A617F551C10, 0xFF1E79617F556E0A, 0xFF0179617F550D37,
    0xFF1E80617F556E0A, 0xFF0180617F550D37, 0xFF0579617F55780A, 0xFF0580617F55780A,
    0x1FAE7A617F55140A, 0xFF1E79617F555C0A, 0xFF1E80617F555C0A, 0xFF0C79617F55450A,
    0xFF0C80617F55450A, 0xFF8C79617F550D0A, 0xFF8C80617F550D0A, 0x1FB574617F551C7F,
    0xFF0279617F555C7F, 0xFF0279617F556E7F, 0xFF0279617F55457F, 0xFF0273617F52787F,
    0xFF0279617F55787F, 0xFF0279617F550D7F, 0x1FBC81617F551C1C, 0x1FBD81617F554756,
    0xFF0480617F555C56, 0xFF0484617F555C56, 0xFF9B80617F556E56, 0xFF0180617F554556,
    0xFF9B84617F556E56, 0xFF0184617F554556, 0x1FC481617F551C38, 0xFF0484617F555C37,
    0xFF0584617F556E37, 0xFF8180617F550D56, 0xFF0184617F554537, 0xFF8184617F550D56,
    0xFF2084617F557837, 0x1FCB81617F551C57, 0xFF2380617F554570, 0xFF1D80617F557856,
    0xFF2384617F554570, 0xFF1D84617F557856, 0xFF2380617F550D70, 0xFF2384617F550D70,
    0x1FD281617F555E70, 0xFF0180617F555C70, 0xFF0184617F555C70, 0xFF1780617F556E70,
    0xFF1784617F556E70, 0xFFA880617F557870, 0xFFA884617F557870, 0x1FD984617F551C10,
    0xFF1E84617F555C0A, 0xFF1E84617F556E0A, 0xFF0C84617F55450A, 0xFF0184617F550D37,
    0xFF0584617F55780A, 0xFF8C84617F550D0A, 0x1FE081617F551C7F, 0xFF0280617F555C7F,
    0xFF0280617F556E7F, 0xFF0280617F55457F, 0xFF0280617F55787F, 0xFF0280617F550D7F,
    0xFF0284617F550D7F, 0x1FE71E887F551C1C, 0x1FE81E887F554756, 0xFF0427887F555C56,
    0xFF041D887F555C56, 0xFF1B27887F556E56, 0xFF0127887F554556, 0xFF1B1D887F556E56,
    0xFF011D887F554556, 0x1FEF1E887F551C38, 0xFF0527887F556E37, 0xFF051D887F556E37,
    0xFF8427887F550D56, 0xFF841D887F550D56, 0xFFA027887F557837, 0xFFA01D887F557837,
    0x1FF61E887F551C57, 0xFF041D887F555C70, 0xFF1D27887F557856, 0xFF151D887F556E70,
    0xFF231D887F554570, 0xFF1D1D887F557856, 0xFF231D887F550D70, 0x1FFD1E887F551437,
    0xFF0427887F555C37, 0xFF041D887F555C37, 0xFF0127887F554537, 0xFF011D887F554537,
    0xFF0127887F550D37, 0xFF011D887F550D37, 0x20041D887F551C72, 0xFF021D887F555C7F]"

definition btree21wd_nodes_41 :: "nat list" where
  "btree21wd_nodes_41 =
   [0xFF021D887F556E7F, 0xFF021D887F55457F, 0xFF151D887F557870, 0xFF021D887F55787F,
    0xFF021D887F550D7F, 0x200B1E887F551C0A, 0xFF0C27887F555C0A, 0xFF1E27887F556E0A,
    0xFF0C27887F55450A, 0xFF0527887F55780A, 0xFF0C27887F550D0A, 0xFF051D887F55780A,
    0x201285617F551C1C, 0x201387617F551C38, 0xFF0187617F524556, 0xFF0487617F525C37,
    0xFF0687617F5B1C38, 0xFF0587617F526E37, 0xFF8187617F520D56, 0xFF2087617F527837,
    0x201A87617F521C57, 0xFF0487617F525C56, 0xFF9B87617F526E56, 0xFF0187617F525C70,
    0xFF2387617F524570, 0xFF1D87617F527856, 0xFF2387617F520D70, 0x202187617F551C10,
    0xFF0187617F524537, 0xFF1E87617F526E0A, 0xFF0187617F520D37, 0xFF1E87617F5B6E0A,
    0xFF0587617F52780A, 0xFF0587617F5B780A, 0x202885617F551C72, 0xFF1787617F526E70,
    0xFFB887617F5B1C72, 0xFF0287617F52457F, 0xFFA887617F527870, 0xFF0284617F55457F,
    0xFF0287617F520D7F, 0x202F87617F55140A, 0xFF1E87617F525C0A, 0xFF0C87617F52450A,
    0xFF1E87617F5B5C0A, 0xFF0C87617F5B450A, 0xFF8C87617F520D0A, 0xFF8C87617F5B0D0A,
    0x203685617F555E7F, 0xFF0287617F525C7F, 0xFF0284617F555C7F, 0xFF0287617F526E7F,
    0xFF0284617F556E7F, 0xFF0287617F52787F, 0xFF0284617F55787F, 0x203D08887F551C1C,
    0x203E06887F551C38, 0xFF1006887F525C56, 0xFF1006887F526E56, 0xFF1006887F524556,
    0xFF0606887F5B1C38, 0xFF1006887F520D56, 0xFF1006887F527837, 0x204506887F521C57,
    0xFF1006887F525C70, 0xFF1006887F526E70, 0xFF1006887F524570, 0xFF1006887F527856,
    0xFF1006887F527870, 0xFF1006887F520D70, 0x204C06887F551C10, 0xFF1006887F525C37,
    0xFF1006887F526E37, 0xFF1006887F524537, 0xFF1006887F520D37, 0xFF1A06887F52780A,
    0xFF0506887F5B780A, 0x205306887F551C72, 0xFF0206887F525C7F, 0xFFB806887F5B1C72,
    0xFF0206887F526E7F, 0xFF0206887F52457F, 0xFF0206887F52787F, 0xFF0206887F520D7F,
    0x205A08887F555D0A, 0xFF1A06887F525C0A, 0xFF0C1D887F555C0A, 0xFF1A06887F526E0A,
    0xFF0C06887F5B5C0A, 0xFF1E1D887F556E0A, 0xFF1E06887F5B6E0A, 0x206108887F55110A,
    0xFF1A06887F52450A, 0xFF0C1D887F55450A, 0xFF0C06887F5B450A, 0xFF1A06887F520D0A,
    0xFF0C1D887F550D0A, 0xFF0C06887F5B0D0A, 0x206832887E551C1C, 0x206932887E551C38,
    0x206A3D887E551C38, 0xFF1049887D525C56, 0xFF065F887F5B1C38, 0xFF0166887D654556,
    0xFF0649887F5B1C38, 0xFF0666887F5B1C38, 0xFF063B887F5B1C38, 0x207132887E554556,
    0xFF0149887D594556, 0xFFA366887D594556, 0xFF1049887F524556, 0xFF1066887F524556,
    0xFF0149887D654556, 0xFF012E887F554556, 0x207832887E551156, 0xFF1049887D524556,
    0xFFA366887D524556, 0xFF103B887F524556, 0xFF8449887D650D56, 0xFF8166887D650D56,
    0xFF842E887F550D56, 0x207F32887E556F37, 0xFF0566887D596E37, 0xFF1049887F526E37,
    0xFF1066887F526E37, 0xFF0566887D656E37, 0xFF2066887D527837, 0xFF052E887F556E37,
    0x208632887E557837, 0xFF2066887D597837, 0xFF1049887F527837, 0xFF1066887F527837,
    0xFF2066887D657837, 0xFF103B887F527837, 0xFFA02E887F557837, 0x208D3D887E530D56,
    0xFF8449887D590D56, 0xFFA366887D590D56, 0xFFA366887D520D56, 0xFF1049887F520D56,
    0xFF1066887F520D56, 0xFF103B887F520D56, 0x209432887E551C3A, 0x20953D887E535C56,
    0xFF0449887D595C56, 0xFFA366887D595C56, 0xFFA366887D525C56, 0xFF1049887F525C56,
    0xFF1066887F525C56, 0xFF103B887F525C56, 0x209C32887E555D56, 0xFF1049887D526E56,
    0xFFA366887D526E56, 0xFF0449887D655C56, 0xFF0466887D655C56, 0xFF103B887F526E56,
    0xFF042E887F555C56, 0x20A332887E556E56, 0xFF1B49887D596E56, 0xFFA366887D596E56,
    0xFF1049887F526E56, 0xFF1066887F526E56, 0xFF1B49887D656E56, 0xFF1B2E887F556E56,
    0x20AA3D887E556F56, 0xFF9B66887D656E56, 0xFF1049887D527856, 0xFF1D66887D527856,
    0xFF1049887F527856, 0xFF1066887F527856, 0xFF103B887F527856, 0x20B132887E551C3A,
    0xFF075F887F521C3A, 0xFF1D49887D597856, 0xFF1D66887D597856, 0xFF1D49887D657856,
    0xFF1D66887D657856, 0xFF1D2E887F557856, 0x20B83D887E530D70, 0xFF2349887D590D70,
    0xFF1049887D520D70, 0xFFA366887D520D70, 0xFF1049887F520D70, 0xFF1066887F520D70,
    0xFF103B887F520D70, 0x20BF32887E551C70, 0x20C04B887D591770, 0xFF0449887D595C70,
    0xFFA366887D595C70, 0xFF1549887D596E70, 0xFF2349887D594570, 0xFFA366887D594570,
    0xFFA366887D590D70, 0x20C74B887D524870, 0xFF1049887D525C70, 0xFFA366887D525C70,
    0xFF1049887D526E70, 0xFF1049887D524570, 0xFFA366887D524570, 0xFF1049887D527870]"

definition btree21wd_nodes_42 :: "nat list" where
  "btree21wd_nodes_42 =
   [0x20CE3D887E524870, 0xFFA366887D526E70, 0xFF103B887F525C70, 0xFF1049887F524570,
    0xFF103B887F526E70, 0xFF103B887F524570, 0xFF103B887F527870, 0x20D54B887F524870,
    0xFF1049887F525C70, 0xFF1066887F525C70, 0xFF1049887F526E70, 0xFF1066887F526E70,
    0xFF1066887F524570, 0xFF1049887F527870, 0x20DC32887E551770, 0xFFA366887D596E70,
    0xFF042E887F555C70, 0xFF2349887D650D70, 0xFF152E887F556E70, 0xFF232E887F554570,
    0xFF232E887F550D70, 0x20E34B887D651770, 0xFF0449887D655C70, 0xFF0166887D655C70,
    0xFF1549887D656E70, 0xFF2349887D654570, 0xFF2366887D654570, 0xFF2366887D650D70,
    0x20EA32887E551C10, 0x20EB32887E555D10, 0xFF0466887D595C37, 0xFF0566887D526E37,
    0xFF0466887D655C37, 0xFF103B887F526E37, 0xFF042E887F555C37, 0xFF1E49887F5B6E0A,
    0x20F232887E554637, 0xFF0466887D525C37, 0xFF1049887F525C37, 0xFF1066887F525C37,
    0xFF103B887F525C37, 0xFF0166887D654537, 0xFF012E887F554537, 0x20F93D887E551137,
    0xFF0166887D594537, 0xFF0166887D524537, 0xFF1049887F524537, 0xFF1066887F524537,
    0xFF103B887F524537, 0xFF0166887D650D37, 0x21003D887E556F0A, 0xFF1E66887D656E0A,
    0xFF0566887D52780A, 0xFF1E66887F5B6E0A, 0xFF1A49887F52780A, 0xFF1A66887F52780A,
    0xFF1A3B887F52780A, 0x210732887E55780A, 0xFF0566887D59780A, 0xFF0566887D65780A,
    0xFF0549887F5B780A, 0xFF0566887F5B780A, 0xFF053B887F5B780A, 0xFF052E887F55780A,
    0x210E32887E550D37, 0xFF0166887D590D37, 0xFF0166887D520D37, 0xFF1049887F520D37,
    0xFF1066887F520D37, 0xFF103B887F520D37, 0xFF012E887F550D37, 0x211531887E551C72,
    0x211631887E551C72, 0xFF1549887D597870, 0xFFB85F887F5B1C72, 0xFFB849887F5B1C72,
    0xFFB83B887F5B1C72, 0xFF1549887D657870, 0xFF152E887F557870, 0x211D30887E555C7F,
    0xFF0249887D595C7F, 0xFF0249887D525C7F, 0xFF0249887F525C7F, 0xFF0249887D655C7F,
    0xFF023B887F525C7F, 0xFF022E887F555C7F, 0x212430887E556E7F, 0xFF0249887D596E7F,
    0xFF0249887D526E7F, 0xFF0249887F526E7F, 0xFF0249887D656E7F, 0xFF023B887F526E7F,
    0xFF022E887F556E7F, 0x212B30887E55457F, 0xFF0249887D59457F, 0xFF0249887D52457F,
    0xFF0249887F52457F, 0xFF0249887D65457F, 0xFF023B887F52457F, 0xFF022E887F55457F,
    0x213230887E55787F, 0xFF0249887D59787F, 0xFF0249887D52787F, 0xFF0249887F52787F,
    0xFF0249887D65787F, 0xFF023B887F52787F, 0xFF022E887F55787F, 0x213930887E550D7F,
    0xFF0249887D590D7F, 0xFF0249887D520D7F, 0xFF0249887F520D7F, 0xFF0249887D650D7F,
    0xFF023B887F520D7F, 0xFF022E887F550D7F, 0x214032887E551C0A, 0x21414A887F551C0A,
    0xFF0B5F887F521C0A, 0xFF1A49887F525C0A, 0xFF0B5F887F5B1C0A, 0xFF1A49887F526E0A,
    0xFF0C49887F5B5C0A, 0xFF0C49887F5B450A, 0x214866887E555D0A, 0xFF1E66887D595C0A,
    0xFF1E66887D596E0A, 0xFF1E66887D526E0A, 0xFF1E66887D655C0A, 0xFF1A66887F526E0A,
    0xFF1E66887F5B5C0A, 0x214F66887E55460A, 0xFF1E66887D525C0A, 0xFF0C66887D59450A,
    0xFF1A66887F525C0A, 0xFF1A66887F52450A, 0xFF0C66887D65450A, 0xFF0C66887F5B450A,
    0x215666887E55110A, 0xFF0C66887D52450A, 0xFF8C66887D590D0A, 0xFF8C66887D520D0A,
    0xFF1A66887F520D0A, 0xFF8C66887D650D0A, 0xFF8C66887F5B0D0A, 0x215D3C887F55170A,
    0xFF1A49887F52450A, 0xFF1A3B887F526E0A, 0xFF0C3B887F5B5C0A, 0xFF1E3B887F5B6E0A,
    0xFF1A49887F520D0A, 0xFF0C49887F5B0D0A, 0x21642F887F55170A, 0xFF1A3B887F525C0A,
    0xFF1A3B887F52450A, 0xFF0C3B887F5B450A, 0xFF1E2E887F556E0A, 0xFF1A3B887F520D0A,
    0xFF0C3B887F5B0D0A, 0x216B6B887E551C1C, 0x216C74887E551C38, 0x216D74887E555D56,
    0xFFA373887D526E56, 0xFFA379887D536E56, 0xFF0373887D655C56, 0xFF9B73887F526E56,
    0xFF0379887D655C56, 0xFF0479887F555C56, 0x217474887E554656, 0xFFA373887D595C56,
    0xFFA373887D525C56, 0xFFA379887D535C56, 0xFF0473887F525C56, 0xFF0373887D654556,
    0xFF0379887D654556, 0x217B74887E551156, 0xFFA373887D594556, 0xFFA373887D524556,
    0xFFA379887D534556, 0xFF0173887F524556, 0xFF0179887F554556, 0xFF0379887D650D56,
    0x218274887E550D56, 0xFFA373887D590D56, 0xFFA373887D520D56, 0xFFA379887D530D56,
    0xFF8173887F520D56, 0xFF0373887D650D56, 0xFF8179887F550D56, 0x218974887E551C38,
    0xFF0673887F5B1C38, 0xFF2073887D597837, 0xFF2079887D537837, 0xFF2273887D657837,
    0xFF2279887D657837, 0xFF2079887F557837, 0x219074887E556F37, 0xFF0573887D596E37,
    0xFF2273887D656E37, 0xFF2073887D527837, 0xFF2279887D656E37, 0xFF0579887F556E37]"

definition btree21wd_nodes_43 :: "nat list" where
  "btree21wd_nodes_43 =
   [0xFF2073887F527837, 0x219774887E551C57, 0x219874887E555D70, 0xFFA373887D526E70,
    0xFFA379887D536E70, 0xFF0173887D655C70, 0xFF1773887F526E70, 0xFF0179887D655C70,
    0xFF0179887F555C70, 0x219F74887E554670, 0xFFA373887D595C70, 0xFFA373887D525C70,
    0xFFA379887D535C70, 0xFF0173887F525C70, 0xFF2373887D654570, 0xFF2379887D654570,
    0x21A674887E556F57, 0xFFA373887D596E56, 0xFFA373887D596E70, 0xFF2273887D656E56,
    0xFF1D73887D527856, 0xFF2279887D656E56, 0xFF9B79887F556E56, 0x21AD74887E551170,
    0xFFA373887D594570, 0xFFA373887D524570, 0xFFA379887D534570, 0xFF2373887F524570,
    0xFF2379887F554570, 0xFF2379887D650D70, 0x21B474887E557856, 0xFF1D73887D597856,
    0xFF1D79887D537856, 0xFF1D73887F527856, 0xFF2273887D657856, 0xFF2279887D657856,
    0xFF1D79887F557856, 0x21BB74887E550D70, 0xFFA373887D590D70, 0xFFA373887D520D70,
    0xFFA379887D530D70, 0xFF2373887F520D70, 0xFF2373887D650D70, 0xFF2379887F550D70,
    0x21C274887E551C10, 0x21C374887E555D37, 0xFF0573887D526E37, 0xFF0579887D536E37,
    0xFF0373887D655C37, 0xFF0573887F526E37, 0xFF0379887D655C37, 0xFF0479887F555C37,
    0x21CA74887E554637, 0xFF0473887D595C37, 0xFF0473887D525C37, 0xFF0479887D535C37,
    0xFF0473887F525C37, 0xFF8373887D654537, 0xFF8379887D654537, 0x21D174887E551137,
    0xFF0173887D594537, 0xFF0173887D524537, 0xFF0179887D534537, 0xFF0173887F524537,
    0xFF0179887F554537, 0xFF8379887D650D37, 0x21D874887E550D37, 0xFF0173887D590D37,
    0xFF0173887D520D37, 0xFF0179887D530D37, 0xFF0173887F520D37, 0xFF8373887D650D37,
    0xFF0179887F550D37, 0x21DF74887E556F0A, 0xFF2273887D656E0A, 0xFF0573887D52780A,
    0xFF2279887D656E0A, 0xFF1E73887F5B6E0A, 0xFF1E79887F556E0A, 0xFF0573887F52780A,
    0x21E674887E55780A, 0xFF0573887D59780A, 0xFF0579887D53780A, 0xFF2273887D65780A,
    0xFF2279887D65780A, 0xFF0573887F5B780A, 0xFF0579887F55780A, 0x21ED6A887E551C72,
    0x21EE6A887E551C72, 0xFF1766887D656E70, 0xFF1773887D656E70, 0xFFB866887F5B1C72,
    0xFFB873887F5B1C72, 0xFF1779887F556E70, 0xFF0279887F55457F, 0x21F56A887E53457F,
    0xFFA366887D59457F, 0xFFA373887D59457F, 0xFFA373887D52457F, 0xFFA379887D53457F,
    0xFF0266887F52457F, 0xFF0273887F52457F, 0x21FC6A887E556F70, 0xFFA866887D527870,
    0xFFA873887D527870, 0xFF1779887D656E70, 0xFFA879887D537870, 0xFF1066887F527870,
    0xFFA873887F527870, 0x22036A887E55117F, 0xFFA366887D52457F, 0xFFA373887D590D7F,
    0xFF0266887D650D7F, 0xFF0273887D650D7F, 0xFF0279887D650D7F, 0xFF0279887F550D7F,
    0x220A6A887E557870, 0xFFA866887D597870, 0xFFA873887D597870, 0xFFA866887D657870,
    0xFFA873887D657870, 0xFFA879887D657870, 0xFFA879887F557870, 0x22116A887E530D7F,
    0xFFA366887D590D7F, 0xFFA366887D520D7F, 0xFFA373887D520D7F, 0xFFA379887D530D7F,
    0xFF0266887F520D7F, 0xFF0273887F520D7F, 0x221875887E55170A, 0x221975887D53140A,
    0xFF1E73887D595C0A, 0xFF0C73887D59450A, 0xFF0380887D535C0A, 0xFF8380887D53450A,
    0xFF8C73887D590D0A, 0xFF8380887D530D0A, 0x222074887E53170A, 0xFF1E79887D535C0A,
    0xFF1E73887F525C0A, 0xFF1E79887D536E0A, 0xFF0C79887D53450A, 0xFF1E73887F526E0A,
    0xFF8C79887D530D0A, 0x222773887E52170A, 0xFF1E73887D525C0A, 0xFF1E73887D526E0A,
    0xFF0C73887D52450A, 0xFF0C73887F52450A, 0xFF8C73887D520D0A, 0xFF8C73887F520D0A,
    0x222E75887E55170A, 0xFF1E73887D596E0A, 0xFF1E79887F555C0A, 0xFF0C79887F55450A,
    0xFF0C80887F55450A, 0xFF8C79887F550D0A, 0xFF8C80887F550D0A, 0x223575887E55140A,
    0xFF1E73887F5B5C0A, 0xFF8373887D65450A, 0xFF0C73887F5B450A, 0xFF1E80887F555C0A,
    0xFF8373887D650D0A, 0xFF8C73887F5B0D0A, 0x223C75887D65140A, 0xFF0373887D655C0A,
    0xFF0379887D655C0A, 0xFF8379887D65450A, 0xFF8380887D65450A, 0xFF8379887D650D0A,
    0xFF8380887D650D0A, 0x22436A887E55487F, 0x22446A887D535E7F, 0xFFA366887D595C7F,
    0xFFA366887D596E7F, 0xFFA379887D535C7F, 0xFFA379887D536E7F, 0xFF0266887D59787F,
    0xFF0279887D53787F, 0x224B67887D525E7F, 0xFFA366887D525C7F, 0xFFA373887D525C7F,
    0xFFA366887D526E7F, 0xFFA373887D526E7F, 0xFF0266887D52787F, 0xFF0273887D52787F,
    0x225267887F525E7F, 0xFF0266887F525C7F, 0xFF0273887F525C7F, 0xFF0266887F526E7F,
    0xFF0273887F526E7F, 0xFF0266887F52787F, 0xFF0273887F52787F, 0x225974887E555E7F,
    0xFFA373887D595C7F, 0xFFA373887D596E7F, 0xFF0273887D59787F, 0xFF0279887F555C7F]"

definition btree21wd_nodes_44 :: "nat list" where
  "btree21wd_nodes_44 =
   [0xFF0279887F556E7F, 0xFF0279887F55787F, 0x226067887D65487F, 0xFF0266887D655C7F,
    0xFF0273887D655C7F, 0xFF0266887D656E7F, 0xFF0266887D65457F, 0xFF0273887D65457F,
    0xFF0266887D65787F, 0x226774887D65487F, 0xFF0279887D655C7F, 0xFF0273887D656E7F,
    0xFF0279887D656E7F, 0xFF0279887D65457F, 0xFF0273887D65787F, 0xFF0279887D65787F,
    0x226E82887E551C1C, 0x226F82887E554856, 0x227085887D534856, 0xFFA384887D535C56,
    0xFFA387887D595C56, 0xFFA384887D536E56, 0xFFA384887D534556, 0xFFA387887D594556,
    0xFF1D84887D537856, 0x227782887E534856, 0xFFA380887D535C56, 0xFFA380887D536E56,
    0xFFA380887D534556, 0xFF2280887D537856, 0xFF9B87887F526E56, 0xFF1D87887F527856,
    0x227E87887E524856, 0xFFA387887D525C56, 0xFFA387887D526E56, 0xFFA387887D524556,
    0xFF0487887F525C56, 0xFF0187887F524556, 0xFF1D87887D527856, 0x228581887E554756,
    0xFF0380887D655C56, 0xFF2280887D656E56, 0xFF0380887D654556, 0xFF0484887F555C56,
    0xFF9B84887F556E56, 0xFF0184887F554556, 0x228C82887E554856, 0xFFA387887D596E56,
    0xFF0480887F555C56, 0xFF9B80887F556E56, 0xFF0180887F554556, 0xFF1D87887D597856,
    0xFF1D80887F557856, 0x229385887D654756, 0xFF0384887D655C56, 0xFF0387887D655C56,
    0xFF2284887D656E56, 0xFF0384887D654556, 0xFF2287887D656E56, 0xFF0387887D654556,
    0x229A82887E551C38, 0x229B82887E550D56, 0xFFA387887D590D56, 0xFF0380887D650D56,
    0xFF8180887F550D56, 0xFF0384887D650D56, 0xFF0387887D650D56, 0xFF8184887F550D56,
    0x22A282887E551C38, 0xFFA380887D530D56, 0xFFA384887D530D56, 0xFF0687887F5B1C38,
    0xFFA387887D520D56, 0xFF8187887F520D56, 0xFF2287887D657837, 0x22A982887E555D37,
    0xFF0380887D655C37, 0xFF0587887D526E37, 0xFF0480887F555C37, 0xFF0384887D655C37,
    0xFF0387887D655C37, 0xFF0484887F555C37, 0x22B082887E556E37, 0xFF2280887D536E37,
    0xFF0584887D536E37, 0xFF0587887D596E37, 0xFF0580887F556E37, 0xFF0587887F526E37,
    0xFF0584887F556E37, 0x22B782887E556F37, 0xFF2280887D656E37, 0xFF2280887D537837,
    0xFF2284887D656E37, 0xFF2287887D656E37, 0xFF2087887D527837, 0xFF2087887F527837,
    0x22BE82887E557837, 0xFF2084887D537837, 0xFF2087887D597837, 0xFF2280887D657837,
    0xFF2080887F557837, 0xFF2284887D657837, 0xFF2084887F557837, 0x22C582887E551C57,
    0x22C681887E555D70, 0xFFA380887D536E70, 0xFFA384887D536E70, 0xFF0180887D655C70,
    0xFF0184887D655C70, 0xFF1780887F556E70, 0xFF1784887F556E70, 0x22CD82887E554670,
    0xFFA380887D535C70, 0xFFA384887D535C70, 0xFF0180887F555C70, 0xFF0184887F555C70,
    0xFF2384887D654570, 0xFF2387887D654570, 0x22D482887E554570, 0xFFA380887D534570,
    0xFFA384887D534570, 0xFFA387887D594570, 0xFF2380887D654570, 0xFF2380887F554570,
    0xFF2384887F554570, 0x22DB82887E556F57, 0xFF1780887D656E70, 0xFF2280887D657856,
    0xFF1784887D656E70, 0xFF2284887D657856, 0xFF2287887D657856, 0xFF1D84887F557856,
    0x22E282887E551170, 0xFFA387887D524570, 0xFF2387887F524570, 0xFF2380887D650D70,
    0xFF2384887D650D70, 0xFF2387887D650D70, 0xFF2384887F550D70, 0x22E982887E550D70,
    0xFFA380887D530D70, 0xFFA384887D530D70, 0xFFA387887D590D70, 0xFFA387887D520D70,
    0xFF2380887F550D70, 0xFF2387887F520D70, 0x22F082887E551C10, 0x22F182887E554637,
    0xFF0380887D535C37, 0xFF0484887D535C37, 0xFF0487887D525C37, 0xFF0487887F525C37,
    0xFF8384887D654537, 0xFF8387887D654537, 0x22F882887E554537, 0xFF8380887D534537,
    0xFF0184887D534537, 0xFF0187887D594537, 0xFF8380887D654537, 0xFF0180887F554537,
    0xFF0184887F554537, 0x22FF82887E535E10, 0xFF0487887D595C37, 0xFF2280887D53780A,
    0xFF0584887D53780A, 0xFF0587887D59780A, 0xFF0587887D52780A, 0xFF0587887F52780A,
    0x230682887E551137, 0xFF0187887D524537, 0xFF0187887F524537, 0xFF8380887D650D37,
    0xFF8384887D650D37, 0xFF8387887D650D37, 0xFF0184887F550D37, 0x230D82887E55780A,
    0xFF2280887D65780A, 0xFF0580887F55780A, 0xFF2284887D65780A, 0xFF2287887D65780A,
    0xFF0584887F55780A, 0xFF0587887F5B780A, 0x231482887E550D37, 0xFF8380887D530D37,
    0xFF0184887D530D37, 0xFF0187887D590D37, 0xFF0187887D520D37, 0xFF0180887F550D37,
    0xFF0187887F520D37, 0x231B81887E551C72, 0x231C81887E557870, 0xFFA880887D537870,
    0xFFA884887D537870, 0xFFA880887D657870, 0xFFA880887F557870, 0xFFA884887D657870,
    0xFFA884887F557870, 0x232381887E555C7F, 0xFFA380887D535C7F, 0xFFA384887D535C7F]"

definition btree21wd_nodes_45 :: "nat list" where
  "btree21wd_nodes_45 =
   [0xFF0280887D655C7F, 0xFF0280887F555C7F, 0xFF0284887D655C7F, 0xFF0284887F555C7F,
    0x232A81887E556E7F, 0xFFA380887D536E7F, 0xFFA384887D536E7F, 0xFF0280887D656E7F,
    0xFF0280887F556E7F, 0xFF0284887D656E7F, 0xFF0284887F556E7F, 0x233181887E55457F,
    0xFFA380887D53457F, 0xFFA384887D53457F, 0xFF0280887D65457F, 0xFF0280887F55457F,
    0xFF0284887D65457F, 0xFF0284887F55457F, 0x233881887E55787F, 0xFF0280887D53787F,
    0xFF0284887D53787F, 0xFF0280887D65787F, 0xFF0280887F55787F, 0xFF0284887D65787F,
    0xFF0284887F55787F, 0x233F81887E550D7F, 0xFFA380887D530D7F, 0xFFA384887D530D7F,
    0xFF0280887D650D7F, 0xFF0280887F550D7F, 0xFF0284887D650D7F, 0xFF0284887F550D7F,
    0x234682887E55170A, 0x234782887E555C0A, 0xFF1E84887D535C0A, 0xFF1E87887D595C0A,
    0xFF0380887D655C0A, 0xFF0384887D655C0A, 0xFF1E84887F555C0A, 0xFF1E87887F5B5C0A,
    0x234E82887E555D0A, 0xFF2280887D536E0A, 0xFF1E84887D536E0A, 0xFF1E87887D596E0A,
    0xFF1E87887D526E0A, 0xFF0387887D655C0A, 0xFF1E87887F526E0A, 0x235585887E55460A,
    0xFF1E87887D525C0A, 0xFF1E87887F525C0A, 0xFF8384887D65450A, 0xFF8387887D65450A,
    0xFF0C84887F55450A, 0xFF0C87887F5B450A, 0x235C82887E556E0A, 0xFF2280887D656E0A,
    0xFF1E80887F556E0A, 0xFF2284887D656E0A, 0xFF2287887D656E0A, 0xFF1E84887F556E0A,
    0xFF1E87887F5B6E0A, 0x236385887E55110A, 0xFF0C84887D53450A, 0xFF0C87887D59450A,
    0xFF0C87887D52450A, 0xFF0C87887F52450A, 0xFF8384887D650D0A, 0xFF8387887D650D0A,
    0x236A85887E550D0A, 0xFF8C84887D530D0A, 0xFF8C87887D590D0A, 0xFF8C87887D520D0A,
    0xFF8C87887F520D0A, 0xFF8C84887F550D0A, 0xFF8C87887F5B0D0A, 0x237187887E551C72,
    0x237287887D555D70, 0xFFA387887D595C70, 0xFFA387887D525C70, 0xFFA387887D596E70,
    0xFFA387887D526E70, 0xFF0187887D655C70, 0xFF1787887D656E70, 0x237987887D551C72,
    0xFFA887887D597870, 0xFFA887887D527870, 0xFFA387887D590D7F, 0xFFA887887D657870,
    0xFFA387887D520D7F, 0xFF0287887D650D7F, 0x238087887D55467F, 0xFFA387887D595C7F,
    0xFFA387887D525C7F, 0xFFA387887D59457F, 0xFFA387887D52457F, 0xFF0287887D655C7F,
    0xFF0287887D65457F, 0x238787887D556F7F, 0xFFA387887D596E7F, 0xFFA387887D526E7F,
    0xFF0287887D59787F, 0xFF0287887D656E7F, 0xFF0287887D52787F, 0xFF0287887D65787F,
    0x238E87887F551C72, 0xFF0187887F525C70, 0xFF1787887F526E70, 0xFFB887887F5B1C72,
    0xFF0287887F52457F, 0xFFA887887F527870, 0xFF0287887F520D7F, 0x239587887F525E7F,
    0xFF0287887F525C7F, 0xFF0287887F526E7F, 0xFF0287887F52787F]"

definition btree21wd_nodes :: "nat list" where
  "btree21wd_nodes =
     btree21wd_nodes_00 @ btree21wd_nodes_01 @ btree21wd_nodes_02 @ btree21wd_nodes_03 @
     btree21wd_nodes_04 @ btree21wd_nodes_05 @ btree21wd_nodes_06 @ btree21wd_nodes_07 @
     btree21wd_nodes_08 @ btree21wd_nodes_09 @ btree21wd_nodes_10 @ btree21wd_nodes_11 @
     btree21wd_nodes_12 @ btree21wd_nodes_13 @ btree21wd_nodes_14 @ btree21wd_nodes_15 @
     btree21wd_nodes_16 @ btree21wd_nodes_17 @ btree21wd_nodes_18 @ btree21wd_nodes_19 @
     btree21wd_nodes_20 @ btree21wd_nodes_21 @ btree21wd_nodes_22 @ btree21wd_nodes_23 @
     btree21wd_nodes_24 @ btree21wd_nodes_25 @ btree21wd_nodes_26 @ btree21wd_nodes_27 @
     btree21wd_nodes_28 @ btree21wd_nodes_29 @ btree21wd_nodes_30 @ btree21wd_nodes_31 @
     btree21wd_nodes_32 @ btree21wd_nodes_33 @ btree21wd_nodes_34 @ btree21wd_nodes_35 @
     btree21wd_nodes_36 @ btree21wd_nodes_37 @ btree21wd_nodes_38 @ btree21wd_nodes_39 @
     btree21wd_nodes_40 @ btree21wd_nodes_41 @ btree21wd_nodes_42 @ btree21wd_nodes_43 @
     btree21wd_nodes_44 @ btree21wd_nodes_45"

definition btree21wd :: BiomeTree where
  "btree21wd = \<lparr>steps = btree21wd_steps, param = btree21wd_param, nodes = btree21wd_nodes, order = btree21wd_order\<rparr>"

subsection \<open>Reading a node\<close>

text \<open>The hexadecimal digits of a node, from the lowest.\<close>

definition nib :: "nat \<Rightarrow> nat" where
  "nib n = take_bit 4 n"

definition sh :: "nat \<Rightarrow> nat" where
  "sh n = drop_bit 4 n"

text \<open>The interval with a given two-digit number.\<close>

definition interval :: "nat \<Rightarrow> nat \<Rightarrow> (int \<times> int) option" where
  "interval h l = (if 16 * h + l < length btree21wd_param then Some (btree21wd_param ! (16 * h + l)) else None)"

lemma nib_numeral:
  "nib (numeral (num.Bit0 (num.Bit0 (num.Bit0 (num.Bit0 x))))) = 0"
  "nib (numeral (num.Bit1 (num.Bit0 (num.Bit0 (num.Bit0 x))))) = 1"
  "nib (numeral (num.Bit0 (num.Bit1 (num.Bit0 (num.Bit0 x))))) = 2"
  "nib (numeral (num.Bit1 (num.Bit1 (num.Bit0 (num.Bit0 x))))) = 3"
  "nib (numeral (num.Bit0 (num.Bit0 (num.Bit1 (num.Bit0 x))))) = 4"
  "nib (numeral (num.Bit1 (num.Bit0 (num.Bit1 (num.Bit0 x))))) = 5"
  "nib (numeral (num.Bit0 (num.Bit1 (num.Bit1 (num.Bit0 x))))) = 6"
  "nib (numeral (num.Bit1 (num.Bit1 (num.Bit1 (num.Bit0 x))))) = 7"
  "nib (numeral (num.Bit0 (num.Bit0 (num.Bit0 (num.Bit1 x))))) = 8"
  "nib (numeral (num.Bit1 (num.Bit0 (num.Bit0 (num.Bit1 x))))) = 9"
  "nib (numeral (num.Bit0 (num.Bit1 (num.Bit0 (num.Bit1 x))))) = 10"
  "nib (numeral (num.Bit1 (num.Bit1 (num.Bit0 (num.Bit1 x))))) = 11"
  "nib (numeral (num.Bit0 (num.Bit0 (num.Bit1 (num.Bit1 x))))) = 12"
  "nib (numeral (num.Bit1 (num.Bit0 (num.Bit1 (num.Bit1 x))))) = 13"
  "nib (numeral (num.Bit0 (num.Bit1 (num.Bit1 (num.Bit1 x))))) = 14"
  "nib (numeral (num.Bit1 (num.Bit1 (num.Bit1 (num.Bit1 x))))) = 15"
  by (simp_all add: nib_def)

lemma sh_numeral:
  "sh (numeral (num.Bit0 (num.Bit0 (num.Bit0 (num.Bit0 x))))) = numeral x"
  "sh (numeral (num.Bit1 (num.Bit0 (num.Bit0 (num.Bit0 x))))) = numeral x"
  "sh (numeral (num.Bit0 (num.Bit1 (num.Bit0 (num.Bit0 x))))) = numeral x"
  "sh (numeral (num.Bit1 (num.Bit1 (num.Bit0 (num.Bit0 x))))) = numeral x"
  "sh (numeral (num.Bit0 (num.Bit0 (num.Bit1 (num.Bit0 x))))) = numeral x"
  "sh (numeral (num.Bit1 (num.Bit0 (num.Bit1 (num.Bit0 x))))) = numeral x"
  "sh (numeral (num.Bit0 (num.Bit1 (num.Bit1 (num.Bit0 x))))) = numeral x"
  "sh (numeral (num.Bit1 (num.Bit1 (num.Bit1 (num.Bit0 x))))) = numeral x"
  "sh (numeral (num.Bit0 (num.Bit0 (num.Bit0 (num.Bit1 x))))) = numeral x"
  "sh (numeral (num.Bit1 (num.Bit0 (num.Bit0 (num.Bit1 x))))) = numeral x"
  "sh (numeral (num.Bit0 (num.Bit1 (num.Bit0 (num.Bit1 x))))) = numeral x"
  "sh (numeral (num.Bit1 (num.Bit1 (num.Bit0 (num.Bit1 x))))) = numeral x"
  "sh (numeral (num.Bit0 (num.Bit0 (num.Bit1 (num.Bit1 x))))) = numeral x"
  "sh (numeral (num.Bit1 (num.Bit0 (num.Bit1 (num.Bit1 x))))) = numeral x"
  "sh (numeral (num.Bit0 (num.Bit1 (num.Bit1 (num.Bit1 x))))) = numeral x"
  "sh (numeral (num.Bit1 (num.Bit1 (num.Bit1 (num.Bit1 x))))) = numeral x"
  by (simp_all add: sh_def)

lemma interval_eq:
  "interval 0 0 = Some (- 12000, - 10500)"
  "interval 0 1 = Some (- 12000, - 4550)"
  "interval 0 2 = Some (- 12000, 10000)"
  "interval 0 3 = Some (- 10500, - 4550)"
  "interval 0 4 = Some (- 10500, - 1900)"
  "interval 0 5 = Some (- 10500, 10000)"
  "interval 0 6 = Some (- 10000, - 9333)"
  "interval 0 7 = Some (- 10000, - 7799)"
  "interval 0 8 = Some (- 10000, - 7666)"
  "interval 0 9 = Some (- 10000, - 5666)"
  "interval 0 10 = Some (- 10000, - 4500)"
  "interval 0 11 = Some (- 10000, - 4000)"
  "interval 0 12 = Some (- 10000, - 3750)"
  "interval 0 13 = Some (- 10000, - 3500)"
  "interval 0 14 = Some (- 10000, - 2666)"
  "interval 0 15 = Some (- 10000, - 2225)"
  "interval 1 0 = Some (- 10000, - 1500)"
  "interval 1 1 = Some (- 10000, - 1000)"
  "interval 1 2 = Some (- 10000, - 500)"
  "interval 1 3 = Some (- 10000, 500)"
  "interval 1 4 = Some (- 10000, 1000)"
  "interval 1 5 = Some (- 10000, 2000)"
  "interval 1 6 = Some (- 10000, 2666)"
  "interval 1 7 = Some (- 10000, 3000)"
  "interval 1 8 = Some (- 10000, 4000)"
  "interval 1 9 = Some (- 10000, 5500)"
  "interval 1 10 = Some (- 10000, 5666)"
  "interval 1 11 = Some (- 10000, 9333)"
  "interval 1 12 = Some (- 10000, 10000)"
  "interval 1 13 = Some (- 9333, - 7666)"
  "interval 1 14 = Some (- 9333, - 5666)"
  "interval 1 15 = Some (- 9333, - 4000)"
  "interval 2 0 = Some (- 9333, - 2666)"
  "interval 2 1 = Some (- 9333, 2666)"
  "interval 2 2 = Some (- 9333, 4000)"
  "interval 2 3 = Some (- 9333, 5666)"
  "interval 2 4 = Some (- 9333, 10000)"
  "interval 2 5 = Some (- 7799, - 3750)"
  "interval 2 6 = Some (- 7799, - 2225)"
  "interval 2 7 = Some (- 7666, - 5666)"
  "interval 2 8 = Some (- 7666, - 4000)"
  "interval 2 9 = Some (- 7666, - 2666)"
  "interval 2 10 = Some (- 7666, - 500)"
  "interval 2 11 = Some (- 7666, 500)"
  "interval 2 12 = Some (- 7666, 4000)"
  "interval 2 13 = Some (- 7666, 5666)"
  "interval 2 14 = Some (- 5666, - 4000)"
  "interval 2 15 = Some (- 5666, - 2666)"
  "interval 3 0 = Some (- 5666, - 500)"
  "interval 3 1 = Some (- 5666, 500)"
  "interval 3 2 = Some (- 5666, 2666)"
  "interval 3 3 = Some (- 5666, 4000)"
  "interval 3 4 = Some (- 5666, 5666)"
  "interval 3 5 = Some (- 5666, 7666)"
  "interval 3 6 = Some (- 4550, - 1900)"
  "interval 3 7 = Some (- 4500, - 1500)"
  "interval 3 8 = Some (- 4500, 2000)"
  "interval 3 9 = Some (- 4500, 5500)"
  "interval 3 10 = Some (- 4500, 10000)"
  "interval 3 11 = Some (- 4000, - 2666)"
  "interval 3 12 = Some (- 4000, - 500)"
  "interval 3 13 = Some (- 4000, 2666)"
  "interval 3 14 = Some (- 4000, 4000)"
  "interval 3 15 = Some (- 4000, 5666)"
  "interval 4 0 = Some (- 4000, 9333)"
  "interval 4 1 = Some (- 4000, 10000)"
  "interval 4 2 = Some (- 3750, - 2225)"
  "interval 4 3 = Some (- 3750, 500)"
  "interval 4 4 = Some (- 3750, 5500)"
  "interval 4 5 = Some (- 3500, - 1000)"
  "interval 4 6 = Some (- 3500, 1000)"
  "interval 4 7 = Some (- 3500, 3000)"
  "interval 4 8 = Some (- 3500, 10000)"
  "interval 4 9 = Some (- 2666, - 500)"
  "interval 4 10 = Some (- 2666, 500)"
  "interval 4 11 = Some (- 2666, 2666)"
  "interval 4 12 = Some (- 2666, 4000)"
  "interval 4 13 = Some (- 2666, 5666)"
  "interval 4 14 = Some (- 2666, 9333)"
  "interval 4 15 = Some (- 2666, 10000)"
  "interval 5 0 = Some (- 2225, 500)"
  "interval 5 1 = Some (- 2225, 4500)"
  "interval 5 2 = Some (- 1900, - 1100)"
  "interval 5 3 = Some (- 1900, 300)"
  "interval 5 4 = Some (- 1900, 3000)"
  "interval 5 5 = Some (- 1900, 10000)"
  "interval 5 6 = Some (- 1500, 2000)"
  "interval 5 7 = Some (- 1500, 5500)"
  "interval 5 8 = Some (- 1500, 10000)"
  "interval 5 9 = Some (- 1100, 300)"
  "interval 5 10 = Some (- 1100, 3000)"
  "interval 5 11 = Some (- 1100, 10000)"
  "interval 5 12 = Some (- 1000, 1000)"
  "interval 5 13 = Some (- 1000, 3000)"
  "interval 5 14 = Some (- 1000, 10000)"
  "interval 5 15 = Some (- 500, 500)"
  "interval 6 0 = Some (- 500, 2666)"
  "interval 6 1 = Some (0, 0)"
  "interval 6 2 = Some (0, 10000)"
  "interval 6 3 = Some (0, 11000)"
  "interval 6 4 = Some (300, 3000)"
  "interval 6 5 = Some (300, 10000)"
  "interval 6 6 = Some (500, 2666)"
  "interval 6 7 = Some (500, 4000)"
  "interval 6 8 = Some (500, 4500)"
  "interval 6 9 = Some (500, 5500)"
  "interval 6 10 = Some (500, 5666)"
  "interval 6 11 = Some (500, 7666)"
  "interval 6 12 = Some (500, 9333)"
  "interval 6 13 = Some (500, 10000)"
  "interval 6 14 = Some (1000, 3000)"
  "interval 6 15 = Some (1000, 10000)"
  "interval 7 0 = Some (2000, 5500)"
  "interval 7 1 = Some (2000, 9000)"
  "interval 7 2 = Some (2000, 10000)"
  "interval 7 3 = Some (2666, 4000)"
  "interval 7 4 = Some (2666, 5666)"
  "interval 7 5 = Some (2666, 7666)"
  "interval 7 6 = Some (2666, 9333)"
  "interval 7 7 = Some (2666, 10000)"
  "interval 7 8 = Some (3000, 10000)"
  "interval 7 9 = Some (4000, 5666)"
  "interval 7 10 = Some (4000, 7666)"
  "interval 7 11 = Some (4000, 9333)"
  "interval 7 12 = Some (4000, 10000)"
  "interval 7 13 = Some (4500, 5500)"
  "interval 7 14 = Some (4500, 10000)"
  "interval 7 15 = Some (5500, 10000)"
  "interval 8 0 = Some (5666, 7666)"
  "interval 8 1 = Some (5666, 9333)"
  "interval 8 2 = Some (5666, 10000)"
  "interval 8 3 = Some (7000, 10000)"
  "interval 8 4 = Some (7666, 9333)"
  "interval 8 5 = Some (7666, 10000)"
  "interval 8 6 = Some (8000, 10000)"
  "interval 8 7 = Some (9333, 10000)"
  "interval 8 8 = Some (10000, 10000)"
  "interval 8 9 = Some (10000, 11000)"
  "interval 8 10 = Some (11000, 11000)"
  by (simp_all add: interval_def btree21wd_param_def)

lemma sh_sh: "sh (sh n) = n div 256"
  by (simp add: sh_def drop_bit_eq_div div_mult2_eq [symmetric])

lemma sh_div: "sh n div k = sh (n div k)"
  by (simp add: sh_def drop_bit_eq_div div_mult2_eq [symmetric] mult.commute)

lemma digits: "16 * nib (sh n) + nib n = n mod 256"
  using mod_mult2_eq [of n 16 16] by (simp add: nib_def sh_def take_bit_eq_mod drop_bit_eq_div)

lemma node_box_digits: "node_box btree21wd n i = (let m = n div 256 ^ i in interval (nib (sh m)) (nib m))"
  by (simp add: node_box_def interval_def Let_def digits btree21wd_def power_mult)

lemma boxes_digits: "boxes btree21wd n =
    (let n1 = sh n; n2 = sh n1; n3 = sh n2; n4 = sh n3; n5 = sh n4; n6 = sh n5; n7 = sh n6; n8 = sh n7;
         n9 = sh n8; n10 = sh n9; n11 = sh n10
     in [interval (nib n1) (nib n), interval (nib n3) (nib n2), interval (nib n5) (nib n4),
         interval (nib n7) (nib n6), interval (nib n9) (nib n8), interval (nib n11) (nib n10)])"
proof -
  have "[0..<6] = [0, 1, 2, 3, 4, 5::nat]" by (simp add: upt_rec)
  then show ?thesis by (simp add: boxes_def node_box_digits Let_def sh_sh sh_div div_mult2_eq [symmetric])
qed

lemma inner_digits: "n div 2 ^ 48 = sh (sh (sh (sh (sh (sh (sh (sh (sh (sh (sh (sh n)))))))))))"
  by (simp add: sh_sh div_mult2_eq [symmetric])

subsection \<open>Evaluating the check\<close>

lemma length_Cons_add: "length (x # xs) = length xs + 1"
  by simp

lemma length_parts:
  "length btree21wd_nodes_00 = 197"
  "length btree21wd_nodes_01 = 200"
  "length btree21wd_nodes_02 = 200"
  "length btree21wd_nodes_03 = 200"
  "length btree21wd_nodes_04 = 200"
  "length btree21wd_nodes_05 = 200"
  "length btree21wd_nodes_06 = 200"
  "length btree21wd_nodes_07 = 200"
  "length btree21wd_nodes_08 = 200"
  "length btree21wd_nodes_09 = 200"
  "length btree21wd_nodes_10 = 200"
  "length btree21wd_nodes_11 = 200"
  "length btree21wd_nodes_12 = 200"
  "length btree21wd_nodes_13 = 200"
  "length btree21wd_nodes_14 = 200"
  "length btree21wd_nodes_15 = 200"
  "length btree21wd_nodes_16 = 200"
  "length btree21wd_nodes_17 = 200"
  "length btree21wd_nodes_18 = 200"
  "length btree21wd_nodes_19 = 200"
  "length btree21wd_nodes_20 = 200"
  "length btree21wd_nodes_21 = 200"
  "length btree21wd_nodes_22 = 200"
  "length btree21wd_nodes_23 = 200"
  "length btree21wd_nodes_24 = 200"
  "length btree21wd_nodes_25 = 200"
  "length btree21wd_nodes_26 = 200"
  "length btree21wd_nodes_27 = 200"
  "length btree21wd_nodes_28 = 200"
  "length btree21wd_nodes_29 = 200"
  "length btree21wd_nodes_30 = 200"
  "length btree21wd_nodes_31 = 200"
  "length btree21wd_nodes_32 = 200"
  "length btree21wd_nodes_33 = 200"
  "length btree21wd_nodes_34 = 200"
  "length btree21wd_nodes_35 = 200"
  "length btree21wd_nodes_36 = 200"
  "length btree21wd_nodes_37 = 200"
  "length btree21wd_nodes_38 = 200"
  "length btree21wd_nodes_39 = 200"
  "length btree21wd_nodes_40 = 200"
  "length btree21wd_nodes_41 = 200"
  "length btree21wd_nodes_42 = 200"
  "length btree21wd_nodes_43 = 200"
  "length btree21wd_nodes_44 = 200"
  "length btree21wd_nodes_45 = 115"
  subgoal unfolding btree21wd_nodes_00_def by (simp only: length_Cons_add list.size arith_simps one_add_one numeral_plus_one)
  subgoal unfolding btree21wd_nodes_01_def by (simp only: length_Cons_add list.size arith_simps one_add_one numeral_plus_one)
  subgoal unfolding btree21wd_nodes_02_def by (simp only: length_Cons_add list.size arith_simps one_add_one numeral_plus_one)
  subgoal unfolding btree21wd_nodes_03_def by (simp only: length_Cons_add list.size arith_simps one_add_one numeral_plus_one)
  subgoal unfolding btree21wd_nodes_04_def by (simp only: length_Cons_add list.size arith_simps one_add_one numeral_plus_one)
  subgoal unfolding btree21wd_nodes_05_def by (simp only: length_Cons_add list.size arith_simps one_add_one numeral_plus_one)
  subgoal unfolding btree21wd_nodes_06_def by (simp only: length_Cons_add list.size arith_simps one_add_one numeral_plus_one)
  subgoal unfolding btree21wd_nodes_07_def by (simp only: length_Cons_add list.size arith_simps one_add_one numeral_plus_one)
  subgoal unfolding btree21wd_nodes_08_def by (simp only: length_Cons_add list.size arith_simps one_add_one numeral_plus_one)
  subgoal unfolding btree21wd_nodes_09_def by (simp only: length_Cons_add list.size arith_simps one_add_one numeral_plus_one)
  subgoal unfolding btree21wd_nodes_10_def by (simp only: length_Cons_add list.size arith_simps one_add_one numeral_plus_one)
  subgoal unfolding btree21wd_nodes_11_def by (simp only: length_Cons_add list.size arith_simps one_add_one numeral_plus_one)
  subgoal unfolding btree21wd_nodes_12_def by (simp only: length_Cons_add list.size arith_simps one_add_one numeral_plus_one)
  subgoal unfolding btree21wd_nodes_13_def by (simp only: length_Cons_add list.size arith_simps one_add_one numeral_plus_one)
  subgoal unfolding btree21wd_nodes_14_def by (simp only: length_Cons_add list.size arith_simps one_add_one numeral_plus_one)
  subgoal unfolding btree21wd_nodes_15_def by (simp only: length_Cons_add list.size arith_simps one_add_one numeral_plus_one)
  subgoal unfolding btree21wd_nodes_16_def by (simp only: length_Cons_add list.size arith_simps one_add_one numeral_plus_one)
  subgoal unfolding btree21wd_nodes_17_def by (simp only: length_Cons_add list.size arith_simps one_add_one numeral_plus_one)
  subgoal unfolding btree21wd_nodes_18_def by (simp only: length_Cons_add list.size arith_simps one_add_one numeral_plus_one)
  subgoal unfolding btree21wd_nodes_19_def by (simp only: length_Cons_add list.size arith_simps one_add_one numeral_plus_one)
  subgoal unfolding btree21wd_nodes_20_def by (simp only: length_Cons_add list.size arith_simps one_add_one numeral_plus_one)
  subgoal unfolding btree21wd_nodes_21_def by (simp only: length_Cons_add list.size arith_simps one_add_one numeral_plus_one)
  subgoal unfolding btree21wd_nodes_22_def by (simp only: length_Cons_add list.size arith_simps one_add_one numeral_plus_one)
  subgoal unfolding btree21wd_nodes_23_def by (simp only: length_Cons_add list.size arith_simps one_add_one numeral_plus_one)
  subgoal unfolding btree21wd_nodes_24_def by (simp only: length_Cons_add list.size arith_simps one_add_one numeral_plus_one)
  subgoal unfolding btree21wd_nodes_25_def by (simp only: length_Cons_add list.size arith_simps one_add_one numeral_plus_one)
  subgoal unfolding btree21wd_nodes_26_def by (simp only: length_Cons_add list.size arith_simps one_add_one numeral_plus_one)
  subgoal unfolding btree21wd_nodes_27_def by (simp only: length_Cons_add list.size arith_simps one_add_one numeral_plus_one)
  subgoal unfolding btree21wd_nodes_28_def by (simp only: length_Cons_add list.size arith_simps one_add_one numeral_plus_one)
  subgoal unfolding btree21wd_nodes_29_def by (simp only: length_Cons_add list.size arith_simps one_add_one numeral_plus_one)
  subgoal unfolding btree21wd_nodes_30_def by (simp only: length_Cons_add list.size arith_simps one_add_one numeral_plus_one)
  subgoal unfolding btree21wd_nodes_31_def by (simp only: length_Cons_add list.size arith_simps one_add_one numeral_plus_one)
  subgoal unfolding btree21wd_nodes_32_def by (simp only: length_Cons_add list.size arith_simps one_add_one numeral_plus_one)
  subgoal unfolding btree21wd_nodes_33_def by (simp only: length_Cons_add list.size arith_simps one_add_one numeral_plus_one)
  subgoal unfolding btree21wd_nodes_34_def by (simp only: length_Cons_add list.size arith_simps one_add_one numeral_plus_one)
  subgoal unfolding btree21wd_nodes_35_def by (simp only: length_Cons_add list.size arith_simps one_add_one numeral_plus_one)
  subgoal unfolding btree21wd_nodes_36_def by (simp only: length_Cons_add list.size arith_simps one_add_one numeral_plus_one)
  subgoal unfolding btree21wd_nodes_37_def by (simp only: length_Cons_add list.size arith_simps one_add_one numeral_plus_one)
  subgoal unfolding btree21wd_nodes_38_def by (simp only: length_Cons_add list.size arith_simps one_add_one numeral_plus_one)
  subgoal unfolding btree21wd_nodes_39_def by (simp only: length_Cons_add list.size arith_simps one_add_one numeral_plus_one)
  subgoal unfolding btree21wd_nodes_40_def by (simp only: length_Cons_add list.size arith_simps one_add_one numeral_plus_one)
  subgoal unfolding btree21wd_nodes_41_def by (simp only: length_Cons_add list.size arith_simps one_add_one numeral_plus_one)
  subgoal unfolding btree21wd_nodes_42_def by (simp only: length_Cons_add list.size arith_simps one_add_one numeral_plus_one)
  subgoal unfolding btree21wd_nodes_43_def by (simp only: length_Cons_add list.size arith_simps one_add_one numeral_plus_one)
  subgoal unfolding btree21wd_nodes_44_def by (simp only: length_Cons_add list.size arith_simps one_add_one numeral_plus_one)
  subgoal unfolding btree21wd_nodes_45_def by (simp only: length_Cons_add list.size arith_simps one_add_one numeral_plus_one)
  done

lemma len_21wd: "bt_len btree21wd = 9112"
  by (simp add: btree21wd_def btree21wd_nodes_def length_parts)

lemma steps_21wd:
  "steps btree21wd ! 0 = 1555" "steps btree21wd ! 1 = 259" "steps btree21wd ! 2 = 43" "steps btree21wd ! 3 = 7"
  "steps btree21wd ! 4 = 1" "steps btree21wd ! 5 = 0" "length (steps btree21wd) = 6" "order btree21wd = 6"
  by (simp_all add: btree21wd_def btree21wd_steps_def btree21wd_order_def)

lemma get_step_21wd:
  "get_step btree21wd i 0 = (if 9112 \<le> i + 1555 then get_step btree21wd i 1 else Some (1555, 1))"
  "get_step btree21wd i 1 = (if 9112 \<le> i + 259 then get_step btree21wd i 2 else Some (259, 2))"
  "get_step btree21wd i 2 = (if 9112 \<le> i + 43 then get_step btree21wd i 3 else Some (43, 3))"
  "get_step btree21wd i 3 = (if 9112 \<le> i + 7 then get_step btree21wd i 4 else Some (7, 4))"
  "get_step btree21wd i 4 = (if 9112 \<le> i + 1 then get_step btree21wd i 5 else Some (1, 5))"
  by (subst get_step.simps, simp only: steps_21wd len_21wd Let_def Suc_1 Suc_numeral One_nat_def [symmetric] arith_simps rel_simps if_True)+

lemma fits_same: "fits (Some lim # ps) (Some lim # cs) = fits ps cs"
  by (cases lim) simp

lemmas eval_21wd =
  check_nodes.simps fits.simps drop_done.simps fits_same boxes_digits inner_digits Let_def
  interval_eq nib_numeral sh_numeral steps_21wd get_step_21wd len_21wd
  option.case prod.case if_True if_False simp_thms list.pred_inject option.distinct list.sel
  arith_simps rel_simps one_add_one numeral_plus_one one_plus_numeral

lemma check_nodes_append:
  "check_nodes bt fs i (xs @ ys) =
     (case check_nodes bt fs i xs of None \<Rightarrow> None | Some (fs', i') \<Rightarrow> check_nodes bt fs' i' ys)"
  by (induction bt fs i xs rule: check_nodes.induct) (auto split: option.split prod.split)

lemma check_00:
  "check_nodes btree21wd
     [([], 1, 0, 1555, 1)] 1 (tl btree21wd_nodes_00) =
   Some ([([Some (- 4500, 10000), Some (- 10000, 10000), Some (- 1900, 10000), Some (- 2225, 4500), Some (10000, 10000), Some (500, 10000)], 197, 3, 7, 4),
      ([Some (- 10000, 10000), Some (- 10000, 10000), Some (- 12000, 10000), Some (- 10000, 10000), Some (0, 10000), Some (- 10000, 10000)], 218, 5, 43, 3),
      ([Some (- 10000, 10000), Some (- 10000, 10000), Some (- 12000, 10000), Some (- 10000, 10000), Some (0, 10000), Some (- 10000, 10000)], 261, 1, 259, 2),
      ([], 1556, 1, 1555, 1)], 197)"
  unfolding btree21wd_nodes_00_def by (simp only: eval_21wd cong: if_weak_cong)

lemma check_01:
  "check_nodes btree21wd
     [([Some (- 4500, 10000), Some (- 10000, 10000), Some (- 1900, 10000), Some (- 2225, 4500), Some (10000, 10000), Some (500, 10000)], 197, 3, 7, 4),
      ([Some (- 10000, 10000), Some (- 10000, 10000), Some (- 12000, 10000), Some (- 10000, 10000), Some (0, 10000), Some (- 10000, 10000)], 218, 5, 43, 3),
      ([Some (- 10000, 10000), Some (- 10000, 10000), Some (- 12000, 10000), Some (- 10000, 10000), Some (0, 10000), Some (- 10000, 10000)], 261, 1, 259, 2),
      ([], 1556, 1, 1555, 1)] 197 btree21wd_nodes_01 =
   Some ([([Some (- 4500, 2000), Some (- 10000, 10000), Some (300, 10000), Some (- 2225, 500), Some (0, 0), Some (7666, 9333)], 397, 4, 1, 5),
      ([Some (- 10000, 10000), Some (- 10000, 10000), Some (300, 10000), Some (- 2225, 500), Some (0, 0), Some (5666, 9333)], 399, 1, 7, 4),
      ([Some (- 10000, 10000), Some (- 10000, 10000), Some (- 1900, 10000), Some (- 2225, 500), Some (0, 10000), Some (- 10000, 10000)], 434, 4, 43, 3),
      ([Some (- 10000, 10000), Some (- 10000, 10000), Some (- 12000, 10000), Some (- 10000, 10000), Some (0, 10000), Some (- 10000, 10000)], 520, 2, 259, 2),
      ([], 1556, 1, 1555, 1)], 397)"
  unfolding btree21wd_nodes_01_def by (simp only: eval_21wd cong: if_weak_cong)

lemma check_02:
  "check_nodes btree21wd
     [([Some (- 4500, 2000), Some (- 10000, 10000), Some (300, 10000), Some (- 2225, 500), Some (0, 0), Some (7666, 9333)], 397, 4, 1, 5),
      ([Some (- 10000, 10000), Some (- 10000, 10000), Some (300, 10000), Some (- 2225, 500), Some (0, 0), Some (5666, 9333)], 399, 1, 7, 4),
      ([Some (- 10000, 10000), Some (- 10000, 10000), Some (- 1900, 10000), Some (- 2225, 500), Some (0, 10000), Some (- 10000, 10000)], 434, 4, 43, 3),
      ([Some (- 10000, 10000), Some (- 10000, 10000), Some (- 12000, 10000), Some (- 10000, 10000), Some (0, 10000), Some (- 10000, 10000)], 520, 2, 259, 2),
      ([], 1556, 1, 1555, 1)] 397 btree21wd_nodes_02 =
   Some ([([Some (- 1500, 2000), Some (3000, 10000), Some (300, 10000), Some (- 2225, 500), Some (10000, 10000), Some (2666, 9333)], 597, 3, 1, 5),
      ([Some (- 1500, 5500), Some (- 10000, 10000), Some (- 1900, 10000), Some (- 2225, 500), Some (10000, 10000), Some (2666, 9333)], 600, 5, 7, 4),
      ([Some (- 10000, 10000), Some (- 10000, 10000), Some (- 1900, 10000), Some (- 2225, 500), Some (10000, 10000), Some (- 4000, 10000)], 607, 2, 43, 3),
      ([Some (- 10000, 10000), Some (- 10000, 10000), Some (- 12000, 10000), Some (- 10000, 10000), Some (0, 10000), Some (- 10000, 10000)], 779, 3, 259, 2),
      ([], 1556, 1, 1555, 1)], 597)"
  unfolding btree21wd_nodes_02_def by (simp only: eval_21wd cong: if_weak_cong)

lemma check_03:
  "check_nodes btree21wd
     [([Some (- 1500, 2000), Some (3000, 10000), Some (300, 10000), Some (- 2225, 500), Some (10000, 10000), Some (2666, 9333)], 597, 3, 1, 5),
      ([Some (- 1500, 5500), Some (- 10000, 10000), Some (- 1900, 10000), Some (- 2225, 500), Some (10000, 10000), Some (2666, 9333)], 600, 5, 7, 4),
      ([Some (- 10000, 10000), Some (- 10000, 10000), Some (- 1900, 10000), Some (- 2225, 500), Some (10000, 10000), Some (- 4000, 10000)], 607, 2, 43, 3),
      ([Some (- 10000, 10000), Some (- 10000, 10000), Some (- 12000, 10000), Some (- 10000, 10000), Some (0, 10000), Some (- 10000, 10000)], 779, 3, 259, 2),
      ([], 1556, 1, 1555, 1)] 597 btree21wd_nodes_03 =
   Some ([([Some (- 4500, 2000), Some (1000, 10000), Some (- 1900, 3000), Some (- 2225, 500), Some (10000, 10000), Some (- 9333, - 2666)], 797, 1, 1, 5),
      ([Some (- 4500, 2000), Some (- 10000, 10000), Some (- 1900, 10000), Some (- 2225, 500), Some (10000, 10000), Some (- 9333, - 2666)], 802, 3, 7, 4),
      ([Some (- 10000, 10000), Some (- 10000, 10000), Some (- 1900, 10000), Some (- 2225, 500), Some (10000, 10000), Some (- 10000, - 2666)], 823, 1, 43, 3),
      ([Some (- 10000, 10000), Some (- 10000, 10000), Some (- 12000, 10000), Some (- 10000, 10000), Some (0, 10000), Some (- 10000, 10000)], 1038, 4, 259, 2),
      ([], 1556, 1, 1555, 1)], 797)"
  unfolding btree21wd_nodes_03_def by (simp only: eval_21wd cong: if_weak_cong)

lemma check_04:
  "check_nodes btree21wd
     [([Some (- 4500, 2000), Some (1000, 10000), Some (- 1900, 3000), Some (- 2225, 500), Some (10000, 10000), Some (- 9333, - 2666)], 797, 1, 1, 5),
      ([Some (- 4500, 2000), Some (- 10000, 10000), Some (- 1900, 10000), Some (- 2225, 500), Some (10000, 10000), Some (- 9333, - 2666)], 802, 3, 7, 4),
      ([Some (- 10000, 10000), Some (- 10000, 10000), Some (- 1900, 10000), Some (- 2225, 500), Some (10000, 10000), Some (- 10000, - 2666)], 823, 1, 43, 3),
      ([Some (- 10000, 10000), Some (- 10000, 10000), Some (- 12000, 10000), Some (- 10000, 10000), Some (0, 10000), Some (- 10000, 10000)], 1038, 4, 259, 2),
      ([], 1556, 1, 1555, 1)] 797 btree21wd_nodes_04 =
   Some ([([Some (5500, 10000), Some (- 1000, 3000), Some (- 1900, 10000), Some (- 2225, 500), Some (10000, 10000), Some (- 10000, - 2666)], 997, 0, 1, 5),
      ([Some (5500, 10000), Some (- 3500, 10000), Some (- 1900, 10000), Some (- 2225, 500), Some (10000, 10000), Some (- 10000, - 2666)], 1003, 1, 7, 4),
      ([Some (- 10000, 10000), Some (- 10000, 10000), Some (- 1900, 10000), Some (- 2225, 500), Some (10000, 10000), Some (- 10000, - 2666)], 1038, 6, 43, 3),
      ([Some (- 10000, 10000), Some (- 10000, 10000), Some (- 12000, 10000), Some (- 10000, 10000), Some (0, 10000), Some (- 10000, 10000)], 1038, 4, 259, 2),
      ([], 1556, 1, 1555, 1)], 997)"
  unfolding btree21wd_nodes_04_def by (simp only: eval_21wd cong: if_weak_cong)

lemma check_05:
  "check_nodes btree21wd
     [([Some (5500, 10000), Some (- 1000, 3000), Some (- 1900, 10000), Some (- 2225, 500), Some (10000, 10000), Some (- 10000, - 2666)], 997, 0, 1, 5),
      ([Some (5500, 10000), Some (- 3500, 10000), Some (- 1900, 10000), Some (- 2225, 500), Some (10000, 10000), Some (- 10000, - 2666)], 1003, 1, 7, 4),
      ([Some (- 10000, 10000), Some (- 10000, 10000), Some (- 1900, 10000), Some (- 2225, 500), Some (10000, 10000), Some (- 10000, - 2666)], 1038, 6, 43, 3),
      ([Some (- 10000, 10000), Some (- 10000, 10000), Some (- 12000, 10000), Some (- 10000, 10000), Some (0, 10000), Some (- 10000, 10000)], 1038, 4, 259, 2),
      ([], 1556, 1, 1555, 1)] 997 btree21wd_nodes_05 =
   Some ([([Some (2000, 10000), Some (- 10000, 10000), Some (- 1900, 10000), Some (500, 4500), Some (0, 0), Some (- 9333, 5666)], 1197, 4, 7, 4),
      ([Some (- 10000, 10000), Some (- 10000, 10000), Some (- 1900, 10000), Some (500, 4500), Some (0, 0), Some (- 9333, 5666)], 1211, 4, 43, 3),
      ([Some (- 10000, 10000), Some (- 10000, 10000), Some (- 12000, 10000), Some (- 10000, 10000), Some (0, 10000), Some (- 10000, 10000)], 1297, 5, 259, 2),
      ([], 1556, 1, 1555, 1)], 1197)"
  unfolding btree21wd_nodes_05_def by (simp only: eval_21wd cong: if_weak_cong)

lemma check_06:
  "check_nodes btree21wd
     [([Some (2000, 10000), Some (- 10000, 10000), Some (- 1900, 10000), Some (500, 4500), Some (0, 0), Some (- 9333, 5666)], 1197, 4, 7, 4),
      ([Some (- 10000, 10000), Some (- 10000, 10000), Some (- 1900, 10000), Some (500, 4500), Some (0, 0), Some (- 9333, 5666)], 1211, 4, 43, 3),
      ([Some (- 10000, 10000), Some (- 10000, 10000), Some (- 12000, 10000), Some (- 10000, 10000), Some (0, 10000), Some (- 10000, 10000)], 1297, 5, 259, 2),
      ([], 1556, 1, 1555, 1)] 1197 btree21wd_nodes_06 =
   Some ([([Some (- 4500, 10000), Some (- 3500, 1000), Some (- 1900, 10000), Some (500, 4500), Some (0, 0), Some (5666, 9333)], 1397, 4, 1, 5),
      ([Some (- 10000, 10000), Some (- 10000, 10000), Some (- 1900, 10000), Some (500, 4500), Some (0, 0), Some (5666, 9333)], 1399, 2, 7, 4),
      ([Some (- 10000, 10000), Some (- 10000, 10000), Some (- 1900, 10000), Some (500, 4500), Some (0, 10000), Some (- 10000, 10000)], 1427, 3, 43, 3),
      ([Some (- 10000, 10000), Some (- 10000, 10000), Some (- 12000, 10000), Some (- 10000, 10000), Some (0, 10000), Some (- 10000, 10000)], 1556, 6, 259, 2),
      ([], 1556, 1, 1555, 1)], 1397)"
  unfolding btree21wd_nodes_06_def by (simp only: eval_21wd cong: if_weak_cong)

lemma check_07:
  "check_nodes btree21wd
     [([Some (- 4500, 10000), Some (- 3500, 1000), Some (- 1900, 10000), Some (500, 4500), Some (0, 0), Some (5666, 9333)], 1397, 4, 1, 5),
      ([Some (- 10000, 10000), Some (- 10000, 10000), Some (- 1900, 10000), Some (500, 4500), Some (0, 0), Some (5666, 9333)], 1399, 2, 7, 4),
      ([Some (- 10000, 10000), Some (- 10000, 10000), Some (- 1900, 10000), Some (500, 4500), Some (0, 10000), Some (- 10000, 10000)], 1427, 3, 43, 3),
      ([Some (- 10000, 10000), Some (- 10000, 10000), Some (- 12000, 10000), Some (- 10000, 10000), Some (0, 10000), Some (- 10000, 10000)], 1556, 6, 259, 2),
      ([], 1556, 1, 1555, 1)] 1397 btree21wd_nodes_07 =
   Some ([([Some (- 1500, 2000), Some (- 10000, - 3500), Some (- 1900, 10000), Some (- 3750, 500), Some (0, 0), Some (- 5666, 2666)], 1597, 2, 1, 5),
      ([Some (- 4500, 2000), Some (- 10000, 10000), Some (- 1900, 10000), Some (- 3750, 500), Some (0, 0), Some (- 5666, 2666)], 1601, 6, 7, 4),
      ([Some (- 10000, 10000), Some (- 10000, 10000), Some (- 1900, 10000), Some (- 3750, 500), Some (0, 0), Some (- 5666, 4000)], 1601, 1, 43, 3),
      ([Some (- 10000, 10000), Some (- 10000, 10000), Some (- 1900, 10000), Some (- 3750, 500), Some (0, 10000), Some (- 10000, 10000)], 1816, 1, 259, 2),
      ([], 3111, 2, 1555, 1)], 1597)"
  unfolding btree21wd_nodes_07_def by (simp only: eval_21wd cong: if_weak_cong)

lemma check_08:
  "check_nodes btree21wd
     [([Some (- 1500, 2000), Some (- 10000, - 3500), Some (- 1900, 10000), Some (- 3750, 500), Some (0, 0), Some (- 5666, 2666)], 1597, 2, 1, 5),
      ([Some (- 4500, 2000), Some (- 10000, 10000), Some (- 1900, 10000), Some (- 3750, 500), Some (0, 0), Some (- 5666, 2666)], 1601, 6, 7, 4),
      ([Some (- 10000, 10000), Some (- 10000, 10000), Some (- 1900, 10000), Some (- 3750, 500), Some (0, 0), Some (- 5666, 4000)], 1601, 1, 43, 3),
      ([Some (- 10000, 10000), Some (- 10000, 10000), Some (- 1900, 10000), Some (- 3750, 500), Some (0, 10000), Some (- 10000, 10000)], 1816, 1, 259, 2),
      ([], 3111, 2, 1555, 1)] 1597 btree21wd_nodes_08 =
   Some ([([Some (5500, 10000), Some (- 3500, 3000), Some (- 1900, 10000), Some (- 2225, 500), Some (0, 0), Some (- 4000, - 2666)], 1797, 1, 1, 5),
      ([Some (5500, 10000), Some (- 3500, 10000), Some (- 1900, 10000), Some (- 3750, 500), Some (0, 0), Some (- 5666, 2666)], 1802, 4, 7, 4),
      ([Some (- 10000, 10000), Some (- 10000, 10000), Some (- 1900, 10000), Some (- 3750, 500), Some (0, 0), Some (- 5666, 4000)], 1816, 6, 43, 3),
      ([Some (- 10000, 10000), Some (- 10000, 10000), Some (- 1900, 10000), Some (- 3750, 500), Some (0, 10000), Some (- 10000, 10000)], 1816, 1, 259, 2),
      ([], 3111, 2, 1555, 1)], 1797)"
  unfolding btree21wd_nodes_08_def by (simp only: eval_21wd cong: if_weak_cong)

lemma check_09:
  "check_nodes btree21wd
     [([Some (5500, 10000), Some (- 3500, 3000), Some (- 1900, 10000), Some (- 2225, 500), Some (0, 0), Some (- 4000, - 2666)], 1797, 1, 1, 5),
      ([Some (5500, 10000), Some (- 3500, 10000), Some (- 1900, 10000), Some (- 3750, 500), Some (0, 0), Some (- 5666, 2666)], 1802, 4, 7, 4),
      ([Some (- 10000, 10000), Some (- 10000, 10000), Some (- 1900, 10000), Some (- 3750, 500), Some (0, 0), Some (- 5666, 4000)], 1816, 6, 43, 3),
      ([Some (- 10000, 10000), Some (- 10000, 10000), Some (- 1900, 10000), Some (- 3750, 500), Some (0, 10000), Some (- 10000, 10000)], 1816, 1, 259, 2),
      ([], 3111, 2, 1555, 1)] 1797 btree21wd_nodes_09 =
   Some ([([Some (- 10000, - 4500), Some (- 10000, 3000), Some (- 1900, 10000), Some (- 3750, 500), Some (0, 0), Some (- 10000, - 4000)], 1997, 1, 7, 4),
      ([Some (- 10000, 10000), Some (- 10000, 10000), Some (- 1900, 10000), Some (- 3750, 500), Some (0, 0), Some (- 10000, - 4000)], 2032, 5, 43, 3),
      ([Some (- 10000, 10000), Some (- 10000, 10000), Some (- 1900, 10000), Some (- 3750, 500), Some (0, 10000), Some (- 10000, 10000)], 2075, 2, 259, 2),
      ([], 3111, 2, 1555, 1)], 1997)"
  unfolding btree21wd_nodes_09_def by (simp only: eval_21wd cong: if_weak_cong)

lemma check_10:
  "check_nodes btree21wd
     [([Some (- 10000, - 4500), Some (- 10000, 3000), Some (- 1900, 10000), Some (- 3750, 500), Some (0, 0), Some (- 10000, - 4000)], 1997, 1, 7, 4),
      ([Some (- 10000, 10000), Some (- 10000, 10000), Some (- 1900, 10000), Some (- 3750, 500), Some (0, 0), Some (- 10000, - 4000)], 2032, 5, 43, 3),
      ([Some (- 10000, 10000), Some (- 10000, 10000), Some (- 1900, 10000), Some (- 3750, 500), Some (0, 10000), Some (- 10000, 10000)], 2075, 2, 259, 2),
      ([], 3111, 2, 1555, 1)] 1997 btree21wd_nodes_10 =
   Some ([([Some (2000, 10000), Some (- 10000, 10000), Some (- 1900, 300), Some (- 3750, 500), Some (0, 0), Some (4000, 5666)], 2197, 5, 1, 5),
      ([Some (- 10000, 10000), Some (- 10000, 10000), Some (- 1900, 10000), Some (- 3750, 500), Some (0, 0), Some (4000, 7666)], 2198, 5, 7, 4),
      ([Some (- 10000, 10000), Some (- 10000, 10000), Some (- 1900, 10000), Some (- 3750, 500), Some (0, 10000), Some (- 10000, 10000)], 2205, 3, 43, 3),
      ([Some (- 10000, 10000), Some (- 10000, 10000), Some (- 1900, 10000), Some (- 3750, 500), Some (0, 10000), Some (- 10000, 10000)], 2334, 3, 259, 2),
      ([], 3111, 2, 1555, 1)], 2197)"
  unfolding btree21wd_nodes_10_def by (simp only: eval_21wd cong: if_weak_cong)

lemma check_11:
  "check_nodes btree21wd
     [([Some (2000, 10000), Some (- 10000, 10000), Some (- 1900, 300), Some (- 3750, 500), Some (0, 0), Some (4000, 5666)], 2197, 5, 1, 5),
      ([Some (- 10000, 10000), Some (- 10000, 10000), Some (- 1900, 10000), Some (- 3750, 500), Some (0, 0), Some (4000, 7666)], 2198, 5, 7, 4),
      ([Some (- 10000, 10000), Some (- 10000, 10000), Some (- 1900, 10000), Some (- 3750, 500), Some (0, 10000), Some (- 10000, 10000)], 2205, 3, 43, 3),
      ([Some (- 10000, 10000), Some (- 10000, 10000), Some (- 1900, 10000), Some (- 3750, 500), Some (0, 10000), Some (- 10000, 10000)], 2334, 3, 259, 2),
      ([], 3111, 2, 1555, 1)] 2197 btree21wd_nodes_11 =
   Some ([([Some (- 1500, 5500), Some (- 1000, 10000), Some (- 1100, 10000), Some (- 3750, 500), Some (10000, 10000), Some (- 4000, 4000)], 2397, 3, 1, 5),
      ([Some (- 1500, 5500), Some (- 10000, 10000), Some (- 1100, 10000), Some (- 3750, 500), Some (10000, 10000), Some (- 4000, 4000)], 2400, 3, 7, 4),
      ([Some (- 10000, 10000), Some (- 10000, 10000), Some (- 1900, 10000), Some (- 3750, 500), Some (10000, 10000), Some (- 4000, 5666)], 2421, 2, 43, 3),
      ([Some (- 10000, 10000), Some (- 10000, 10000), Some (- 1900, 10000), Some (- 3750, 500), Some (0, 10000), Some (- 10000, 10000)], 2593, 4, 259, 2),
      ([], 3111, 2, 1555, 1)], 2397)"
  unfolding btree21wd_nodes_11_def by (simp only: eval_21wd cong: if_weak_cong)

lemma check_12:
  "check_nodes btree21wd
     [([Some (- 1500, 5500), Some (- 1000, 10000), Some (- 1100, 10000), Some (- 3750, 500), Some (10000, 10000), Some (- 4000, 4000)], 2397, 3, 1, 5),
      ([Some (- 1500, 5500), Some (- 10000, 10000), Some (- 1100, 10000), Some (- 3750, 500), Some (10000, 10000), Some (- 4000, 4000)], 2400, 3, 7, 4),
      ([Some (- 10000, 10000), Some (- 10000, 10000), Some (- 1900, 10000), Some (- 3750, 500), Some (10000, 10000), Some (- 4000, 5666)], 2421, 2, 43, 3),
      ([Some (- 10000, 10000), Some (- 10000, 10000), Some (- 1900, 10000), Some (- 3750, 500), Some (0, 10000), Some (- 10000, 10000)], 2593, 4, 259, 2),
      ([], 3111, 2, 1555, 1)] 2397 btree21wd_nodes_12 =
   Some ([([Some (- 1500, 2000), Some (- 3500, - 1000), Some (- 1100, 10000), Some (- 3750, - 2225), Some (10000, 10000), Some (- 9333, - 2666)], 2597, 1, 1, 5),
      ([Some (- 4500, 2000), Some (- 10000, 10000), Some (- 1900, 10000), Some (- 3750, 500), Some (10000, 10000), Some (- 9333, - 2666)], 2602, 1, 7, 4),
      ([Some (- 10000, 10000), Some (- 10000, 10000), Some (- 1900, 10000), Some (- 3750, 500), Some (10000, 10000), Some (- 10000, - 2666)], 2637, 1, 43, 3),
      ([Some (- 10000, 10000), Some (- 10000, 10000), Some (- 1900, 10000), Some (- 3750, 500), Some (0, 10000), Some (- 10000, 10000)], 2852, 5, 259, 2),
      ([], 3111, 2, 1555, 1)], 2597)"
  unfolding btree21wd_nodes_12_def by (simp only: eval_21wd cong: if_weak_cong)

lemma check_13:
  "check_nodes btree21wd
     [([Some (- 1500, 2000), Some (- 3500, - 1000), Some (- 1100, 10000), Some (- 3750, - 2225), Some (10000, 10000), Some (- 9333, - 2666)], 2597, 1, 1, 5),
      ([Some (- 4500, 2000), Some (- 10000, 10000), Some (- 1900, 10000), Some (- 3750, 500), Some (10000, 10000), Some (- 9333, - 2666)], 2602, 1, 7, 4),
      ([Some (- 10000, 10000), Some (- 10000, 10000), Some (- 1900, 10000), Some (- 3750, 500), Some (10000, 10000), Some (- 10000, - 2666)], 2637, 1, 43, 3),
      ([Some (- 10000, 10000), Some (- 10000, 10000), Some (- 1900, 10000), Some (- 3750, 500), Some (0, 10000), Some (- 10000, 10000)], 2852, 5, 259, 2),
      ([], 3111, 2, 1555, 1)] 2597 btree21wd_nodes_13 =
   Some ([([Some (- 10000, - 4500), Some (- 10000, 3000), Some (300, 10000), Some (- 3750, - 2225), Some (10000, 10000), Some (- 7666, - 4000)], 2797, 1, 1, 5),
      ([Some (- 10000, - 4500), Some (- 10000, 3000), Some (- 1900, 10000), Some (- 3750, 500), Some (10000, 10000), Some (- 9333, - 2666)], 2802, 5, 7, 4),
      ([Some (- 10000, 10000), Some (- 10000, 10000), Some (- 1900, 10000), Some (- 3750, 500), Some (10000, 10000), Some (- 10000, - 2666)], 2809, 5, 43, 3),
      ([Some (- 10000, 10000), Some (- 10000, 10000), Some (- 1900, 10000), Some (- 3750, 500), Some (0, 10000), Some (- 10000, 10000)], 2852, 5, 259, 2),
      ([], 3111, 2, 1555, 1)], 2797)"
  unfolding btree21wd_nodes_13_def by (simp only: eval_21wd cong: if_weak_cong)

lemma check_14:
  "check_nodes btree21wd
     [([Some (- 10000, - 4500), Some (- 10000, 3000), Some (300, 10000), Some (- 3750, - 2225), Some (10000, 10000), Some (- 7666, - 4000)], 2797, 1, 1, 5),
      ([Some (- 10000, - 4500), Some (- 10000, 3000), Some (- 1900, 10000), Some (- 3750, 500), Some (10000, 10000), Some (- 9333, - 2666)], 2802, 5, 7, 4),
      ([Some (- 10000, 10000), Some (- 10000, 10000), Some (- 1900, 10000), Some (- 3750, 500), Some (10000, 10000), Some (- 10000, - 2666)], 2809, 5, 43, 3),
      ([Some (- 10000, 10000), Some (- 10000, 10000), Some (- 1900, 10000), Some (- 3750, 500), Some (0, 10000), Some (- 10000, 10000)], 2852, 5, 259, 2),
      ([], 3111, 2, 1555, 1)] 2797 btree21wd_nodes_14 =
   Some ([([Some (2000, 10000), Some (- 10000, 10000), Some (- 1900, 10000), Some (- 3750, 500), Some (10000, 10000), Some (4000, 10000)], 2997, 2, 7, 4),
      ([Some (- 10000, 10000), Some (- 10000, 10000), Some (- 1900, 10000), Some (- 3750, 500), Some (10000, 10000), Some (4000, 10000)], 3025, 4, 43, 3),
      ([Some (- 10000, 10000), Some (- 10000, 10000), Some (- 1900, 10000), Some (- 3750, 500), Some (0, 10000), Some (- 10000, 10000)], 3111, 6, 259, 2),
      ([], 3111, 2, 1555, 1)], 2997)"
  unfolding btree21wd_nodes_14_def by (simp only: eval_21wd cong: if_weak_cong)

lemma check_15:
  "check_nodes btree21wd
     [([Some (2000, 10000), Some (- 10000, 10000), Some (- 1900, 10000), Some (- 3750, 500), Some (10000, 10000), Some (4000, 10000)], 2997, 2, 7, 4),
      ([Some (- 10000, 10000), Some (- 10000, 10000), Some (- 1900, 10000), Some (- 3750, 500), Some (10000, 10000), Some (4000, 10000)], 3025, 4, 43, 3),
      ([Some (- 10000, 10000), Some (- 10000, 10000), Some (- 1900, 10000), Some (- 3750, 500), Some (0, 10000), Some (- 10000, 10000)], 3111, 6, 259, 2),
      ([], 3111, 2, 1555, 1)] 2997 btree21wd_nodes_15 =
   Some ([([Some (2000, 5500), Some (- 10000, - 3500), Some (- 1900, 300), Some (4500, 5500), Some (0, 0), Some (- 4000, 2666)], 3197, 4, 1, 5),
      ([Some (- 1500, 5500), Some (- 10000, 10000), Some (- 1900, 10000), Some (4500, 5500), Some (0, 0), Some (- 4000, 2666)], 3199, 6, 7, 4),
      ([Some (- 10000, 10000), Some (- 10000, 10000), Some (- 1900, 10000), Some (4500, 5500), Some (0, 0), Some (- 5666, 2666)], 3199, 2, 43, 3),
      ([Some (- 10000, 10000), Some (- 10000, 10000), Some (- 1900, 10000), Some (500, 5500), Some (0, 10000), Some (- 10000, 10000)], 3371, 1, 259, 2),
      ([], 4666, 3, 1555, 1)], 3197)"
  unfolding btree21wd_nodes_15_def by (simp only: eval_21wd cong: if_weak_cong)

lemma check_16:
  "check_nodes btree21wd
     [([Some (2000, 5500), Some (- 10000, - 3500), Some (- 1900, 300), Some (4500, 5500), Some (0, 0), Some (- 4000, 2666)], 3197, 4, 1, 5),
      ([Some (- 1500, 5500), Some (- 10000, 10000), Some (- 1900, 10000), Some (4500, 5500), Some (0, 0), Some (- 4000, 2666)], 3199, 6, 7, 4),
      ([Some (- 10000, 10000), Some (- 10000, 10000), Some (- 1900, 10000), Some (4500, 5500), Some (0, 0), Some (- 5666, 2666)], 3199, 2, 43, 3),
      ([Some (- 10000, 10000), Some (- 10000, 10000), Some (- 1900, 10000), Some (500, 5500), Some (0, 10000), Some (- 10000, 10000)], 3371, 1, 259, 2),
      ([], 4666, 3, 1555, 1)] 3197 btree21wd_nodes_16 =
   Some ([([Some (- 4500, - 1500), Some (1000, 3000), Some (- 1900, 10000), Some (4500, 5500), Some (0, 0), Some (2666, 9333)], 3397, 2, 1, 5),
      ([Some (- 4500, 2000), Some (- 10000, 10000), Some (- 1900, 10000), Some (4500, 5500), Some (0, 0), Some (2666, 9333)], 3401, 4, 7, 4),
      ([Some (- 10000, 10000), Some (- 10000, 10000), Some (- 1900, 10000), Some (4500, 5500), Some (0, 0), Some (500, 9333)], 3415, 1, 43, 3),
      ([Some (- 10000, 10000), Some (- 10000, 10000), Some (- 1900, 10000), Some (500, 5500), Some (0, 10000), Some (- 10000, 10000)], 3630, 2, 259, 2),
      ([], 4666, 3, 1555, 1)], 3397)"
  unfolding btree21wd_nodes_16_def by (simp only: eval_21wd cong: if_weak_cong)

lemma check_17:
  "check_nodes btree21wd
     [([Some (- 4500, - 1500), Some (1000, 3000), Some (- 1900, 10000), Some (4500, 5500), Some (0, 0), Some (2666, 9333)], 3397, 2, 1, 5),
      ([Some (- 4500, 2000), Some (- 10000, 10000), Some (- 1900, 10000), Some (4500, 5500), Some (0, 0), Some (2666, 9333)], 3401, 4, 7, 4),
      ([Some (- 10000, 10000), Some (- 10000, 10000), Some (- 1900, 10000), Some (4500, 5500), Some (0, 0), Some (500, 9333)], 3415, 1, 43, 3),
      ([Some (- 10000, 10000), Some (- 10000, 10000), Some (- 1900, 10000), Some (500, 5500), Some (0, 10000), Some (- 10000, 10000)], 3630, 2, 259, 2),
      ([], 4666, 3, 1555, 1)] 3397 btree21wd_nodes_17 =
   Some ([([Some (5500, 10000), Some (- 1000, 3000), Some (- 1900, 10000), Some (4500, 5500), Some (0, 0), Some (500, 7666)], 3597, 1, 1, 5),
      ([Some (5500, 10000), Some (- 3500, 10000), Some (- 1900, 10000), Some (4500, 5500), Some (0, 0), Some (500, 7666)], 3602, 2, 7, 4),
      ([Some (- 10000, 10000), Some (- 10000, 10000), Some (- 1900, 10000), Some (4500, 5500), Some (0, 0), Some (500, 9333)], 3630, 6, 43, 3),
      ([Some (- 10000, 10000), Some (- 10000, 10000), Some (- 1900, 10000), Some (500, 5500), Some (0, 10000), Some (- 10000, 10000)], 3630, 2, 259, 2),
      ([], 4666, 3, 1555, 1)], 3597)"
  unfolding btree21wd_nodes_17_def by (simp only: eval_21wd cong: if_weak_cong)

lemma check_18:
  "check_nodes btree21wd
     [([Some (5500, 10000), Some (- 1000, 3000), Some (- 1900, 10000), Some (4500, 5500), Some (0, 0), Some (500, 7666)], 3597, 1, 1, 5),
      ([Some (5500, 10000), Some (- 3500, 10000), Some (- 1900, 10000), Some (4500, 5500), Some (0, 0), Some (500, 7666)], 3602, 2, 7, 4),
      ([Some (- 10000, 10000), Some (- 10000, 10000), Some (- 1900, 10000), Some (4500, 5500), Some (0, 0), Some (500, 9333)], 3630, 6, 43, 3),
      ([Some (- 10000, 10000), Some (- 10000, 10000), Some (- 1900, 10000), Some (500, 5500), Some (0, 10000), Some (- 10000, 10000)], 3630, 2, 259, 2),
      ([], 4666, 3, 1555, 1)] 3597 btree21wd_nodes_18 =
   Some ([([Some (- 4500, - 1500), Some (- 10000, - 3500), Some (- 1900, 10000), Some (4500, 5500), Some (0, 0), Some (- 10000, - 4000)], 3797, 0, 1, 5),
      ([Some (- 10000, - 1500), Some (- 10000, 10000), Some (- 1900, 10000), Some (4500, 5500), Some (0, 0), Some (- 10000, - 4000)], 3803, 6, 7, 4),
      ([Some (- 10000, 10000), Some (- 10000, 10000), Some (- 1900, 10000), Some (4500, 5500), Some (0, 0), Some (- 10000, - 4000)], 3803, 4, 43, 3),
      ([Some (- 10000, 10000), Some (- 10000, 10000), Some (- 1900, 10000), Some (500, 5500), Some (0, 10000), Some (- 10000, 10000)], 3889, 3, 259, 2),
      ([], 4666, 3, 1555, 1)], 3797)"
  unfolding btree21wd_nodes_18_def by (simp only: eval_21wd cong: if_weak_cong)

lemma check_19:
  "check_nodes btree21wd
     [([Some (- 4500, - 1500), Some (- 10000, - 3500), Some (- 1900, 10000), Some (4500, 5500), Some (0, 0), Some (- 10000, - 4000)], 3797, 0, 1, 5),
      ([Some (- 10000, - 1500), Some (- 10000, 10000), Some (- 1900, 10000), Some (4500, 5500), Some (0, 0), Some (- 10000, - 4000)], 3803, 6, 7, 4),
      ([Some (- 10000, 10000), Some (- 10000, 10000), Some (- 1900, 10000), Some (4500, 5500), Some (0, 0), Some (- 10000, - 4000)], 3803, 4, 43, 3),
      ([Some (- 10000, 10000), Some (- 10000, 10000), Some (- 1900, 10000), Some (500, 5500), Some (0, 10000), Some (- 10000, 10000)], 3889, 3, 259, 2),
      ([], 4666, 3, 1555, 1)] 3797 btree21wd_nodes_19 =
   Some ([([Some (- 10000, - 1500), Some (1000, 3000), Some (- 1900, 10000), Some (4500, 5500), Some (0, 0), Some (9333, 10000)], 3997, 5, 1, 5),
      ([Some (- 10000, 2000), Some (- 10000, 10000), Some (- 1900, 10000), Some (4500, 5500), Some (0, 0), Some (9333, 10000)], 3998, 3, 7, 4),
      ([Some (- 10000, 10000), Some (- 10000, 10000), Some (- 1900, 10000), Some (4500, 5500), Some (0, 10000), Some (- 10000, 10000)], 4019, 3, 43, 3),
      ([Some (- 10000, 10000), Some (- 10000, 10000), Some (- 1900, 10000), Some (500, 5500), Some (0, 10000), Some (- 10000, 10000)], 4148, 4, 259, 2),
      ([], 4666, 3, 1555, 1)], 3997)"
  unfolding btree21wd_nodes_19_def by (simp only: eval_21wd cong: if_weak_cong)

lemma check_20:
  "check_nodes btree21wd
     [([Some (- 10000, - 1500), Some (1000, 3000), Some (- 1900, 10000), Some (4500, 5500), Some (0, 0), Some (9333, 10000)], 3997, 5, 1, 5),
      ([Some (- 10000, 2000), Some (- 10000, 10000), Some (- 1900, 10000), Some (4500, 5500), Some (0, 0), Some (9333, 10000)], 3998, 3, 7, 4),
      ([Some (- 10000, 10000), Some (- 10000, 10000), Some (- 1900, 10000), Some (4500, 5500), Some (0, 10000), Some (- 10000, 10000)], 4019, 3, 43, 3),
      ([Some (- 10000, 10000), Some (- 10000, 10000), Some (- 1900, 10000), Some (500, 5500), Some (0, 10000), Some (- 10000, 10000)], 4148, 4, 259, 2),
      ([], 4666, 3, 1555, 1)] 3997 btree21wd_nodes_20 =
   Some ([([Some (- 1500, 2000), Some (- 1000, 3000), Some (- 1900, 10000), Some (500, 4500), Some (10000, 10000), Some (- 2666, 10000)], 4197, 3, 1, 5),
      ([Some (- 1500, 5500), Some (- 10000, 10000), Some (- 1900, 10000), Some (500, 4500), Some (10000, 10000), Some (- 2666, 10000)], 4200, 1, 7, 4),
      ([Some (- 10000, 10000), Some (- 10000, 10000), Some (- 1900, 10000), Some (500, 5500), Some (10000, 10000), Some (- 4000, 10000)], 4235, 2, 43, 3),
      ([Some (- 10000, 10000), Some (- 10000, 10000), Some (- 1900, 10000), Some (500, 5500), Some (0, 10000), Some (- 10000, 10000)], 4407, 5, 259, 2),
      ([], 4666, 3, 1555, 1)], 4197)"
  unfolding btree21wd_nodes_20_def by (simp only: eval_21wd cong: if_weak_cong)

lemma check_21:
  "check_nodes btree21wd
     [([Some (- 1500, 2000), Some (- 1000, 3000), Some (- 1900, 10000), Some (500, 4500), Some (10000, 10000), Some (- 2666, 10000)], 4197, 3, 1, 5),
      ([Some (- 1500, 5500), Some (- 10000, 10000), Some (- 1900, 10000), Some (500, 4500), Some (10000, 10000), Some (- 2666, 10000)], 4200, 1, 7, 4),
      ([Some (- 10000, 10000), Some (- 10000, 10000), Some (- 1900, 10000), Some (500, 5500), Some (10000, 10000), Some (- 4000, 10000)], 4235, 2, 43, 3),
      ([Some (- 10000, 10000), Some (- 10000, 10000), Some (- 1900, 10000), Some (500, 5500), Some (0, 10000), Some (- 10000, 10000)], 4407, 5, 259, 2),
      ([], 4666, 3, 1555, 1)] 4197 btree21wd_nodes_21 =
   Some ([([Some (5500, 10000), Some (- 3500, 10000), Some (- 1100, 10000), Some (500, 4500), Some (10000, 10000), Some (- 4000, - 500)], 4397, 3, 1, 5),
      ([Some (5500, 10000), Some (- 3500, 10000), Some (- 1900, 10000), Some (500, 5500), Some (10000, 10000), Some (- 4000, 10000)], 4400, 5, 7, 4),
      ([Some (- 10000, 10000), Some (- 10000, 10000), Some (- 1900, 10000), Some (500, 5500), Some (10000, 10000), Some (- 4000, 10000)], 4407, 6, 43, 3),
      ([Some (- 10000, 10000), Some (- 10000, 10000), Some (- 1900, 10000), Some (500, 5500), Some (0, 10000), Some (- 10000, 10000)], 4407, 5, 259, 2),
      ([], 4666, 3, 1555, 1)], 4397)"
  unfolding btree21wd_nodes_21_def by (simp only: eval_21wd cong: if_weak_cong)

lemma check_22:
  "check_nodes btree21wd
     [([Some (5500, 10000), Some (- 3500, 10000), Some (- 1100, 10000), Some (500, 4500), Some (10000, 10000), Some (- 4000, - 500)], 4397, 3, 1, 5),
      ([Some (5500, 10000), Some (- 3500, 10000), Some (- 1900, 10000), Some (500, 5500), Some (10000, 10000), Some (- 4000, 10000)], 4400, 5, 7, 4),
      ([Some (- 10000, 10000), Some (- 10000, 10000), Some (- 1900, 10000), Some (500, 5500), Some (10000, 10000), Some (- 4000, 10000)], 4407, 6, 43, 3),
      ([Some (- 10000, 10000), Some (- 10000, 10000), Some (- 1900, 10000), Some (500, 5500), Some (0, 10000), Some (- 10000, 10000)], 4407, 5, 259, 2),
      ([], 4666, 3, 1555, 1)] 4397 btree21wd_nodes_22 =
   Some ([([Some (2000, 10000), Some (- 10000, 1000), Some (- 1900, 10000), Some (500, 5500), Some (10000, 10000), Some (- 9333, - 2666)], 4597, 1, 1, 5),
      ([Some (2000, 10000), Some (- 10000, 10000), Some (- 1900, 10000), Some (500, 5500), Some (10000, 10000), Some (- 9333, - 2666)], 4602, 3, 7, 4),
      ([Some (- 10000, 10000), Some (- 10000, 10000), Some (- 1900, 10000), Some (500, 5500), Some (10000, 10000), Some (- 9333, - 2666)], 4623, 5, 43, 3),
      ([Some (- 10000, 10000), Some (- 10000, 10000), Some (- 1900, 10000), Some (500, 5500), Some (0, 10000), Some (- 10000, 10000)], 4666, 6, 259, 2),
      ([], 4666, 3, 1555, 1)], 4597)"
  unfolding btree21wd_nodes_22_def by (simp only: eval_21wd cong: if_weak_cong)

lemma check_23:
  "check_nodes btree21wd
     [([Some (2000, 10000), Some (- 10000, 1000), Some (- 1900, 10000), Some (500, 5500), Some (10000, 10000), Some (- 9333, - 2666)], 4597, 1, 1, 5),
      ([Some (2000, 10000), Some (- 10000, 10000), Some (- 1900, 10000), Some (500, 5500), Some (10000, 10000), Some (- 9333, - 2666)], 4602, 3, 7, 4),
      ([Some (- 10000, 10000), Some (- 10000, 10000), Some (- 1900, 10000), Some (500, 5500), Some (10000, 10000), Some (- 9333, - 2666)], 4623, 5, 43, 3),
      ([Some (- 10000, 10000), Some (- 10000, 10000), Some (- 1900, 10000), Some (500, 5500), Some (0, 10000), Some (- 10000, 10000)], 4666, 6, 259, 2),
      ([], 4666, 3, 1555, 1)] 4597 btree21wd_nodes_23 =
   Some ([([Some (- 10000, 10000), Some (- 10000, 10000), Some (- 1100, 10000), Some (- 7799, - 2225), Some (0, 0), Some (- 5666, 4000)], 4797, 3, 43, 3),
      ([Some (- 10000, 10000), Some (- 10000, 10000), Some (- 1900, 10000), Some (- 7799, - 2225), Some (0, 10000), Some (- 10000, 10000)], 4926, 1, 259, 2),
      ([], 6221, 4, 1555, 1)], 4797)"
  unfolding btree21wd_nodes_23_def by (simp only: eval_21wd cong: if_weak_cong)

lemma check_24:
  "check_nodes btree21wd
     [([Some (- 10000, 10000), Some (- 10000, 10000), Some (- 1100, 10000), Some (- 7799, - 2225), Some (0, 0), Some (- 5666, 4000)], 4797, 3, 43, 3),
      ([Some (- 10000, 10000), Some (- 10000, 10000), Some (- 1900, 10000), Some (- 7799, - 2225), Some (0, 10000), Some (- 10000, 10000)], 4926, 1, 259, 2),
      ([], 6221, 4, 1555, 1)] 4797 btree21wd_nodes_24 =
   Some ([([Some (2000, 5500), Some (- 3500, - 1000), Some (- 1900, 10000), Some (- 7799, - 2225), Some (0, 0), Some (2666, 7666)], 4997, 4, 1, 5),
      ([Some (- 1500, 5500), Some (- 10000, 10000), Some (- 1900, 10000), Some (- 7799, - 2225), Some (0, 0), Some (2666, 7666)], 4999, 4, 7, 4),
      ([Some (- 10000, 10000), Some (- 10000, 10000), Some (- 1900, 10000), Some (- 7799, - 2225), Some (0, 0), Some (2666, 9333)], 5013, 2, 43, 3),
      ([Some (- 10000, 10000), Some (- 10000, 10000), Some (- 1900, 10000), Some (- 7799, - 2225), Some (0, 10000), Some (- 10000, 10000)], 5185, 2, 259, 2),
      ([], 6221, 4, 1555, 1)], 4997)"
  unfolding btree21wd_nodes_24_def by (simp only: eval_21wd cong: if_weak_cong)

lemma check_25:
  "check_nodes btree21wd
     [([Some (2000, 5500), Some (- 3500, - 1000), Some (- 1900, 10000), Some (- 7799, - 2225), Some (0, 0), Some (2666, 7666)], 4997, 4, 1, 5),
      ([Some (- 1500, 5500), Some (- 10000, 10000), Some (- 1900, 10000), Some (- 7799, - 2225), Some (0, 0), Some (2666, 7666)], 4999, 4, 7, 4),
      ([Some (- 10000, 10000), Some (- 10000, 10000), Some (- 1900, 10000), Some (- 7799, - 2225), Some (0, 0), Some (2666, 9333)], 5013, 2, 43, 3),
      ([Some (- 10000, 10000), Some (- 10000, 10000), Some (- 1900, 10000), Some (- 7799, - 2225), Some (0, 10000), Some (- 10000, 10000)], 5185, 2, 259, 2),
      ([], 6221, 4, 1555, 1)] 4997 btree21wd_nodes_25 =
   Some ([([Some (- 1500, 2000), Some (- 3500, 1000), Some (- 1100, 10000), Some (- 7799, - 2225), Some (0, 0), Some (- 10000, - 4000)], 5197, 2, 1, 5),
      ([Some (- 4500, 2000), Some (- 10000, 10000), Some (- 1900, 10000), Some (- 7799, - 2225), Some (0, 0), Some (- 10000, - 4000)], 5201, 2, 7, 4),
      ([Some (- 10000, 10000), Some (- 10000, 10000), Some (- 1900, 10000), Some (- 7799, - 2225), Some (0, 0), Some (- 10000, - 4000)], 5229, 1, 43, 3),
      ([Some (- 10000, 10000), Some (- 10000, 10000), Some (- 1900, 10000), Some (- 7799, - 2225), Some (0, 10000), Some (- 10000, 10000)], 5444, 3, 259, 2),
      ([], 6221, 4, 1555, 1)], 5197)"
  unfolding btree21wd_nodes_25_def by (simp only: eval_21wd cong: if_weak_cong)

lemma check_26:
  "check_nodes btree21wd
     [([Some (- 1500, 2000), Some (- 3500, 1000), Some (- 1100, 10000), Some (- 7799, - 2225), Some (0, 0), Some (- 10000, - 4000)], 5197, 2, 1, 5),
      ([Some (- 4500, 2000), Some (- 10000, 10000), Some (- 1900, 10000), Some (- 7799, - 2225), Some (0, 0), Some (- 10000, - 4000)], 5201, 2, 7, 4),
      ([Some (- 10000, 10000), Some (- 10000, 10000), Some (- 1900, 10000), Some (- 7799, - 2225), Some (0, 0), Some (- 10000, - 4000)], 5229, 1, 43, 3),
      ([Some (- 10000, 10000), Some (- 10000, 10000), Some (- 1900, 10000), Some (- 7799, - 2225), Some (0, 10000), Some (- 10000, 10000)], 5444, 3, 259, 2),
      ([], 6221, 4, 1555, 1)] 5197 btree21wd_nodes_26 =
   Some ([([Some (- 10000, - 4500), Some (- 10000, - 1000), Some (- 1100, 10000), Some (- 3750, - 2225), Some (0, 0), Some (- 10000, - 9333)], 5397, 2, 1, 5),
      ([Some (- 10000, - 4500), Some (- 10000, 10000), Some (- 1100, 10000), Some (- 7799, - 2225), Some (0, 0), Some (- 10000, - 4000)], 5401, 6, 7, 4),
      ([Some (- 10000, 10000), Some (- 10000, 10000), Some (- 1900, 10000), Some (- 7799, - 2225), Some (0, 0), Some (- 10000, - 4000)], 5401, 5, 43, 3),
      ([Some (- 10000, 10000), Some (- 10000, 10000), Some (- 1900, 10000), Some (- 7799, - 2225), Some (0, 10000), Some (- 10000, 10000)], 5444, 3, 259, 2),
      ([], 6221, 4, 1555, 1)], 5397)"
  unfolding btree21wd_nodes_26_def by (simp only: eval_21wd cong: if_weak_cong)

lemma check_27:
  "check_nodes btree21wd
     [([Some (- 10000, - 4500), Some (- 10000, - 1000), Some (- 1100, 10000), Some (- 3750, - 2225), Some (0, 0), Some (- 10000, - 9333)], 5397, 2, 1, 5),
      ([Some (- 10000, - 4500), Some (- 10000, 10000), Some (- 1100, 10000), Some (- 7799, - 2225), Some (0, 0), Some (- 10000, - 4000)], 5401, 6, 7, 4),
      ([Some (- 10000, 10000), Some (- 10000, 10000), Some (- 1900, 10000), Some (- 7799, - 2225), Some (0, 0), Some (- 10000, - 4000)], 5401, 5, 43, 3),
      ([Some (- 10000, 10000), Some (- 10000, 10000), Some (- 1900, 10000), Some (- 7799, - 2225), Some (0, 10000), Some (- 10000, 10000)], 5444, 3, 259, 2),
      ([], 6221, 4, 1555, 1)] 5397 btree21wd_nodes_27 =
   Some ([([Some (2000, 5500), Some (- 10000, 1000), Some (- 1100, 10000), Some (- 7799, - 3750), Some (10000, 10000), Some (- 10000, - 9333)], 5597, 0, 1, 5),
      ([Some (- 10000, 5500), Some (- 10000, 10000), Some (- 1100, 10000), Some (- 7799, - 3750), Some (10000, 10000), Some (- 10000, - 9333)], 5603, 4, 7, 4),
      ([Some (- 10000, 10000), Some (- 10000, 10000), Some (- 1100, 10000), Some (- 7799, - 2225), Some (0, 10000), Some (- 10000, 10000)], 5617, 4, 43, 3),
      ([Some (- 10000, 10000), Some (- 10000, 10000), Some (- 1900, 10000), Some (- 7799, - 2225), Some (0, 10000), Some (- 10000, 10000)], 5703, 4, 259, 2),
      ([], 6221, 4, 1555, 1)], 5597)"
  unfolding btree21wd_nodes_27_def by (simp only: eval_21wd cong: if_weak_cong)

lemma check_28:
  "check_nodes btree21wd
     [([Some (2000, 5500), Some (- 10000, 1000), Some (- 1100, 10000), Some (- 7799, - 3750), Some (10000, 10000), Some (- 10000, - 9333)], 5597, 0, 1, 5),
      ([Some (- 10000, 5500), Some (- 10000, 10000), Some (- 1100, 10000), Some (- 7799, - 3750), Some (10000, 10000), Some (- 10000, - 9333)], 5603, 4, 7, 4),
      ([Some (- 10000, 10000), Some (- 10000, 10000), Some (- 1100, 10000), Some (- 7799, - 2225), Some (0, 10000), Some (- 10000, 10000)], 5617, 4, 43, 3),
      ([Some (- 10000, 10000), Some (- 10000, 10000), Some (- 1900, 10000), Some (- 7799, - 2225), Some (0, 10000), Some (- 10000, 10000)], 5703, 4, 259, 2),
      ([], 6221, 4, 1555, 1)] 5597 btree21wd_nodes_28 =
   Some ([([Some (- 4500, - 1500), Some (- 1000, 1000), Some (- 1100, 10000), Some (- 7799, - 3750), Some (10000, 10000), Some (- 7666, 4000)], 5797, 5, 1, 5),
      ([Some (- 10000, - 1500), Some (- 10000, 10000), Some (- 1900, 10000), Some (- 7799, - 3750), Some (10000, 10000), Some (- 7666, 4000)], 5798, 1, 7, 4),
      ([Some (- 10000, 10000), Some (- 10000, 10000), Some (- 1900, 10000), Some (- 7799, - 3750), Some (10000, 10000), Some (- 9333, 4000)], 5833, 3, 43, 3),
      ([Some (- 10000, 10000), Some (- 10000, 10000), Some (- 1900, 10000), Some (- 7799, - 2225), Some (0, 10000), Some (- 10000, 10000)], 5962, 5, 259, 2),
      ([], 6221, 4, 1555, 1)], 5797)"
  unfolding btree21wd_nodes_28_def by (simp only: eval_21wd cong: if_weak_cong)

lemma check_29:
  "check_nodes btree21wd
     [([Some (- 4500, - 1500), Some (- 1000, 1000), Some (- 1100, 10000), Some (- 7799, - 3750), Some (10000, 10000), Some (- 7666, 4000)], 5797, 5, 1, 5),
      ([Some (- 10000, - 1500), Some (- 10000, 10000), Some (- 1900, 10000), Some (- 7799, - 3750), Some (10000, 10000), Some (- 7666, 4000)], 5798, 1, 7, 4),
      ([Some (- 10000, 10000), Some (- 10000, 10000), Some (- 1900, 10000), Some (- 7799, - 3750), Some (10000, 10000), Some (- 9333, 4000)], 5833, 3, 43, 3),
      ([Some (- 10000, 10000), Some (- 10000, 10000), Some (- 1900, 10000), Some (- 7799, - 2225), Some (0, 10000), Some (- 10000, 10000)], 5962, 5, 259, 2),
      ([], 6221, 4, 1555, 1)] 5797 btree21wd_nodes_29 =
   Some ([([Some (- 4500, - 1500), Some (3000, 10000), Some (- 1100, 10000), Some (- 7799, - 3750), Some (10000, 10000), Some (4000, 10000)], 5997, 4, 1, 5),
      ([Some (- 4500, 2000), Some (- 10000, 10000), Some (- 1900, 10000), Some (- 7799, - 3750), Some (10000, 10000), Some (4000, 10000)], 5999, 5, 7, 4),
      ([Some (- 10000, 10000), Some (- 10000, 10000), Some (- 1900, 10000), Some (- 7799, - 3750), Some (10000, 10000), Some (2666, 10000)], 6006, 1, 43, 3),
      ([Some (- 10000, 10000), Some (- 10000, 10000), Some (- 1900, 10000), Some (- 7799, - 2225), Some (0, 10000), Some (- 10000, 10000)], 6221, 6, 259, 2),
      ([], 6221, 4, 1555, 1)], 5997)"
  unfolding btree21wd_nodes_29_def by (simp only: eval_21wd cong: if_weak_cong)

lemma check_30:
  "check_nodes btree21wd
     [([Some (- 4500, - 1500), Some (3000, 10000), Some (- 1100, 10000), Some (- 7799, - 3750), Some (10000, 10000), Some (4000, 10000)], 5997, 4, 1, 5),
      ([Some (- 4500, 2000), Some (- 10000, 10000), Some (- 1900, 10000), Some (- 7799, - 3750), Some (10000, 10000), Some (4000, 10000)], 5999, 5, 7, 4),
      ([Some (- 10000, 10000), Some (- 10000, 10000), Some (- 1900, 10000), Some (- 7799, - 3750), Some (10000, 10000), Some (2666, 10000)], 6006, 1, 43, 3),
      ([Some (- 10000, 10000), Some (- 10000, 10000), Some (- 1900, 10000), Some (- 7799, - 2225), Some (0, 10000), Some (- 10000, 10000)], 6221, 6, 259, 2),
      ([], 6221, 4, 1555, 1)] 5997 btree21wd_nodes_30 =
   Some ([([Some (5500, 10000), Some (1000, 3000), Some (- 1100, 10000), Some (- 7799, - 3750), Some (10000, 10000), Some (2666, 10000)], 6197, 3, 1, 5),
      ([Some (5500, 10000), Some (- 3500, 10000), Some (- 1900, 10000), Some (- 7799, - 3750), Some (10000, 10000), Some (2666, 10000)], 6200, 3, 7, 4),
      ([Some (- 10000, 10000), Some (- 10000, 10000), Some (- 1900, 10000), Some (- 7799, - 3750), Some (10000, 10000), Some (2666, 10000)], 6221, 6, 43, 3),
      ([Some (- 10000, 10000), Some (- 10000, 10000), Some (- 1900, 10000), Some (- 7799, - 2225), Some (0, 10000), Some (- 10000, 10000)], 6221, 6, 259, 2),
      ([], 6221, 4, 1555, 1)], 6197)"
  unfolding btree21wd_nodes_30_def by (simp only: eval_21wd cong: if_weak_cong)

lemma check_31:
  "check_nodes btree21wd
     [([Some (5500, 10000), Some (1000, 3000), Some (- 1100, 10000), Some (- 7799, - 3750), Some (10000, 10000), Some (2666, 10000)], 6197, 3, 1, 5),
      ([Some (5500, 10000), Some (- 3500, 10000), Some (- 1900, 10000), Some (- 7799, - 3750), Some (10000, 10000), Some (2666, 10000)], 6200, 3, 7, 4),
      ([Some (- 10000, 10000), Some (- 10000, 10000), Some (- 1900, 10000), Some (- 7799, - 3750), Some (10000, 10000), Some (2666, 10000)], 6221, 6, 43, 3),
      ([Some (- 10000, 10000), Some (- 10000, 10000), Some (- 1900, 10000), Some (- 7799, - 2225), Some (0, 10000), Some (- 10000, 10000)], 6221, 6, 259, 2),
      ([], 6221, 4, 1555, 1)] 6197 btree21wd_nodes_31 =
   Some ([([Some (- 10000, - 4500), Some (- 10000, 10000), Some (- 1900, 10000), Some (- 10000, - 3750), Some (0, 0), Some (- 500, 500)], 6397, 0, 1, 5),
      ([Some (- 10000, - 4500), Some (- 10000, 10000), Some (- 1900, 10000), Some (- 10000, - 3750), Some (0, 0), Some (- 5666, 500)], 6403, 1, 7, 4),
      ([Some (- 10000, 10000), Some (- 10000, 10000), Some (- 1900, 10000), Some (- 10000, - 2225), Some (0, 0), Some (- 7666, 500)], 6438, 5, 43, 3),
      ([Some (- 10000, 10000), Some (- 10000, 10000), Some (- 10000, 10000), Some (- 10000, - 2225), Some (0, 11000), Some (- 10000, 10000)], 6481, 1, 259, 2),
      ([], 7776, 5, 1555, 1)], 6397)"
  unfolding btree21wd_nodes_31_def by (simp only: eval_21wd cong: if_weak_cong)

lemma check_32:
  "check_nodes btree21wd
     [([Some (- 10000, - 4500), Some (- 10000, 10000), Some (- 1900, 10000), Some (- 10000, - 3750), Some (0, 0), Some (- 500, 500)], 6397, 0, 1, 5),
      ([Some (- 10000, - 4500), Some (- 10000, 10000), Some (- 1900, 10000), Some (- 10000, - 3750), Some (0, 0), Some (- 5666, 500)], 6403, 1, 7, 4),
      ([Some (- 10000, 10000), Some (- 10000, 10000), Some (- 1900, 10000), Some (- 10000, - 2225), Some (0, 0), Some (- 7666, 500)], 6438, 5, 43, 3),
      ([Some (- 10000, 10000), Some (- 10000, 10000), Some (- 10000, 10000), Some (- 10000, - 2225), Some (0, 11000), Some (- 10000, 10000)], 6481, 1, 259, 2),
      ([], 7776, 5, 1555, 1)] 6397 btree21wd_nodes_32 =
   Some ([([Some (- 1500, 5500), Some (- 10000, 10000), Some (- 1900, 10000), Some (- 10000, - 3750), Some (0, 0), Some (500, 7666)], 6597, 4, 7, 4),
      ([Some (- 10000, 10000), Some (- 10000, 10000), Some (- 1900, 10000), Some (- 10000, - 2225), Some (0, 0), Some (500, 9333)], 6611, 3, 43, 3),
      ([Some (- 10000, 10000), Some (- 10000, 10000), Some (- 10000, 10000), Some (- 10000, - 2225), Some (0, 11000), Some (- 10000, 10000)], 6740, 2, 259, 2),
      ([], 7776, 5, 1555, 1)], 6597)"
  unfolding btree21wd_nodes_32_def by (simp only: eval_21wd cong: if_weak_cong)

lemma check_33:
  "check_nodes btree21wd
     [([Some (- 1500, 5500), Some (- 10000, 10000), Some (- 1900, 10000), Some (- 10000, - 3750), Some (0, 0), Some (500, 7666)], 6597, 4, 7, 4),
      ([Some (- 10000, 10000), Some (- 10000, 10000), Some (- 1900, 10000), Some (- 10000, - 2225), Some (0, 0), Some (500, 9333)], 6611, 3, 43, 3),
      ([Some (- 10000, 10000), Some (- 10000, 10000), Some (- 10000, 10000), Some (- 10000, - 2225), Some (0, 11000), Some (- 10000, 10000)], 6740, 2, 259, 2),
      ([], 7776, 5, 1555, 1)] 6597 btree21wd_nodes_33 =
   Some ([([Some (- 1500, 2000), Some (- 1000, 3000), Some (- 1900, 10000), Some (- 10000, - 3750), Some (0, 0), Some (- 10000, - 7666)], 6797, 4, 1, 5),
      ([Some (- 1500, 5500), Some (- 10000, 10000), Some (- 1900, 10000), Some (- 10000, - 3750), Some (0, 0), Some (- 10000, - 7666)], 6799, 2, 7, 4),
      ([Some (- 10000, 10000), Some (- 10000, 10000), Some (- 1900, 10000), Some (- 10000, - 2225), Some (0, 0), Some (- 10000, - 5666)], 6827, 2, 43, 3),
      ([Some (- 10000, 10000), Some (- 10000, 10000), Some (- 10000, 10000), Some (- 10000, - 2225), Some (0, 11000), Some (- 10000, 10000)], 6999, 3, 259, 2),
      ([], 7776, 5, 1555, 1)], 6797)"
  unfolding btree21wd_nodes_33_def by (simp only: eval_21wd cong: if_weak_cong)

lemma check_34:
  "check_nodes btree21wd
     [([Some (- 1500, 2000), Some (- 1000, 3000), Some (- 1900, 10000), Some (- 10000, - 3750), Some (0, 0), Some (- 10000, - 7666)], 6797, 4, 1, 5),
      ([Some (- 1500, 5500), Some (- 10000, 10000), Some (- 1900, 10000), Some (- 10000, - 3750), Some (0, 0), Some (- 10000, - 7666)], 6799, 2, 7, 4),
      ([Some (- 10000, 10000), Some (- 10000, 10000), Some (- 1900, 10000), Some (- 10000, - 2225), Some (0, 0), Some (- 10000, - 5666)], 6827, 2, 43, 3),
      ([Some (- 10000, 10000), Some (- 10000, 10000), Some (- 10000, 10000), Some (- 10000, - 2225), Some (0, 11000), Some (- 10000, 10000)], 6999, 3, 259, 2),
      ([], 7776, 5, 1555, 1)] 6797 btree21wd_nodes_34 =
   Some ([([Some (5500, 10000), Some (3000, 10000), Some (- 1100, 10000), Some (- 10000, - 3750), Some (0, 0), Some (- 10000, - 7666)], 6997, 4, 1, 5),
      ([Some (5500, 10000), Some (- 10000, 10000), Some (- 1900, 10000), Some (- 10000, - 3750), Some (0, 0), Some (- 10000, - 7666)], 6999, 6, 7, 4),
      ([Some (- 10000, 10000), Some (- 10000, 10000), Some (- 1900, 10000), Some (- 10000, - 2225), Some (0, 0), Some (- 10000, - 5666)], 6999, 6, 43, 3),
      ([Some (- 10000, 10000), Some (- 10000, 10000), Some (- 10000, 10000), Some (- 10000, - 2225), Some (0, 11000), Some (- 10000, 10000)], 6999, 3, 259, 2),
      ([], 7776, 5, 1555, 1)], 6997)"
  unfolding btree21wd_nodes_34_def by (simp only: eval_21wd cong: if_weak_cong)

lemma check_35:
  "check_nodes btree21wd
     [([Some (5500, 10000), Some (3000, 10000), Some (- 1100, 10000), Some (- 10000, - 3750), Some (0, 0), Some (- 10000, - 7666)], 6997, 4, 1, 5),
      ([Some (5500, 10000), Some (- 10000, 10000), Some (- 1900, 10000), Some (- 10000, - 3750), Some (0, 0), Some (- 10000, - 7666)], 6999, 6, 7, 4),
      ([Some (- 10000, 10000), Some (- 10000, 10000), Some (- 1900, 10000), Some (- 10000, - 2225), Some (0, 0), Some (- 10000, - 5666)], 6999, 6, 43, 3),
      ([Some (- 10000, 10000), Some (- 10000, 10000), Some (- 10000, 10000), Some (- 10000, - 2225), Some (0, 11000), Some (- 10000, 10000)], 6999, 3, 259, 2),
      ([], 7776, 5, 1555, 1)] 6997 btree21wd_nodes_35 =
   Some ([([Some (- 4500, 5500), Some (- 3500, - 1000), Some (- 1900, 10000), Some (- 10000, - 3750), Some (10000, 10000), Some (- 9333, - 7666)], 7197, 2, 1, 5),
      ([Some (- 4500, 5500), Some (- 10000, 10000), Some (- 1900, 10000), Some (- 10000, - 3750), Some (10000, 10000), Some (- 9333, - 7666)], 7201, 4, 7, 4),
      ([Some (- 10000, 10000), Some (- 10000, 10000), Some (- 1900, 10000), Some (- 10000, - 2225), Some (0, 10000), Some (- 10000, 10000)], 7215, 5, 43, 3),
      ([Some (- 10000, 10000), Some (- 10000, 10000), Some (- 10000, 10000), Some (- 10000, - 2225), Some (0, 11000), Some (- 10000, 10000)], 7258, 4, 259, 2),
      ([], 7776, 5, 1555, 1)], 7197)"
  unfolding btree21wd_nodes_35_def by (simp only: eval_21wd cong: if_weak_cong)

lemma check_36:
  "check_nodes btree21wd
     [([Some (- 4500, 5500), Some (- 3500, - 1000), Some (- 1900, 10000), Some (- 10000, - 3750), Some (10000, 10000), Some (- 9333, - 7666)], 7197, 2, 1, 5),
      ([Some (- 4500, 5500), Some (- 10000, 10000), Some (- 1900, 10000), Some (- 10000, - 3750), Some (10000, 10000), Some (- 9333, - 7666)], 7201, 4, 7, 4),
      ([Some (- 10000, 10000), Some (- 10000, 10000), Some (- 1900, 10000), Some (- 10000, - 2225), Some (0, 10000), Some (- 10000, 10000)], 7215, 5, 43, 3),
      ([Some (- 10000, 10000), Some (- 10000, 10000), Some (- 10000, 10000), Some (- 10000, - 2225), Some (0, 11000), Some (- 10000, 10000)], 7258, 4, 259, 2),
      ([], 7776, 5, 1555, 1)] 7197 btree21wd_nodes_36 =
   Some ([([Some (2000, 5500), Some (1000, 3000), Some (- 1900, 10000), Some (- 10000, - 3750), Some (10000, 10000), Some (- 5666, 2666)], 7397, 0, 1, 5),
      ([Some (2000, 10000), Some (- 10000, 10000), Some (- 1900, 10000), Some (- 10000, - 3750), Some (10000, 10000), Some (- 5666, 2666)], 7403, 2, 7, 4),
      ([Some (- 10000, 10000), Some (- 10000, 10000), Some (- 1900, 10000), Some (- 10000, - 2225), Some (10000, 10000), Some (- 5666, 4000)], 7431, 4, 43, 3),
      ([Some (- 10000, 10000), Some (- 10000, 10000), Some (- 10000, 10000), Some (- 10000, - 2225), Some (0, 11000), Some (- 10000, 10000)], 7517, 5, 259, 2),
      ([], 7776, 5, 1555, 1)], 7397)"
  unfolding btree21wd_nodes_36_def by (simp only: eval_21wd cong: if_weak_cong)

lemma check_37:
  "check_nodes btree21wd
     [([Some (2000, 5500), Some (1000, 3000), Some (- 1900, 10000), Some (- 10000, - 3750), Some (10000, 10000), Some (- 5666, 2666)], 7397, 0, 1, 5),
      ([Some (2000, 10000), Some (- 10000, 10000), Some (- 1900, 10000), Some (- 10000, - 3750), Some (10000, 10000), Some (- 5666, 2666)], 7403, 2, 7, 4),
      ([Some (- 10000, 10000), Some (- 10000, 10000), Some (- 1900, 10000), Some (- 10000, - 2225), Some (10000, 10000), Some (- 5666, 4000)], 7431, 4, 43, 3),
      ([Some (- 10000, 10000), Some (- 10000, 10000), Some (- 10000, 10000), Some (- 10000, - 2225), Some (0, 11000), Some (- 10000, 10000)], 7517, 5, 259, 2),
      ([], 7776, 5, 1555, 1)] 7397 btree21wd_nodes_37 =
   Some ([([Some (- 1500, 5500), Some (- 10000, 10000), Some (- 1900, 10000), Some (- 10000, - 3750), Some (10000, 10000), Some (2666, 10000)], 7597, 5, 7, 4),
      ([Some (- 10000, 10000), Some (- 10000, 10000), Some (- 10000, 10000), Some (- 10000, - 2225), Some (10000, 11000), Some (- 10000, 10000)], 7604, 2, 43, 3),
      ([Some (- 10000, 10000), Some (- 10000, 10000), Some (- 10000, 10000), Some (- 10000, - 2225), Some (0, 11000), Some (- 10000, 10000)], 7776, 6, 259, 2),
      ([], 7776, 5, 1555, 1)], 7597)"
  unfolding btree21wd_nodes_37_def by (simp only: eval_21wd cong: if_weak_cong)

lemma check_38:
  "check_nodes btree21wd
     [([Some (- 1500, 5500), Some (- 10000, 10000), Some (- 1900, 10000), Some (- 10000, - 3750), Some (10000, 10000), Some (2666, 10000)], 7597, 5, 7, 4),
      ([Some (- 10000, 10000), Some (- 10000, 10000), Some (- 10000, 10000), Some (- 10000, - 2225), Some (10000, 11000), Some (- 10000, 10000)], 7604, 2, 43, 3),
      ([Some (- 10000, 10000), Some (- 10000, 10000), Some (- 10000, 10000), Some (- 10000, - 2225), Some (0, 11000), Some (- 10000, 10000)], 7776, 6, 259, 2),
      ([], 7776, 5, 1555, 1)] 7597 btree21wd_nodes_38 =
   Some ([([Some (- 4500, 2000), Some (- 10000, 10000), Some (- 1900, - 1100), Some (5500, 10000), Some (0, 0), Some (- 10000, - 2666)], 7797, 3, 1, 5),
      ([Some (- 4500, 2000), Some (- 10000, 10000), Some (- 1900, 10000), Some (5500, 10000), Some (0, 0), Some (- 10000, 2666)], 7800, 3, 7, 4),
      ([Some (- 10000, 10000), Some (- 10000, 10000), Some (- 1900, 10000), Some (5500, 10000), Some (0, 0), Some (- 10000, 4000)], 7821, 1, 43, 3),
      ([Some (- 10000, 10000), Some (- 10000, 10000), Some (- 1900, 10000), Some (4500, 10000), Some (0, 10000), Some (- 10000, 10000)], 8036, 1, 259, 2),
      ([], 9331, 6, 1555, 1)], 7797)"
  unfolding btree21wd_nodes_38_def by (simp only: eval_21wd cong: if_weak_cong)

lemma check_39:
  "check_nodes btree21wd
     [([Some (- 4500, 2000), Some (- 10000, 10000), Some (- 1900, - 1100), Some (5500, 10000), Some (0, 0), Some (- 10000, - 2666)], 7797, 3, 1, 5),
      ([Some (- 4500, 2000), Some (- 10000, 10000), Some (- 1900, 10000), Some (5500, 10000), Some (0, 0), Some (- 10000, 2666)], 7800, 3, 7, 4),
      ([Some (- 10000, 10000), Some (- 10000, 10000), Some (- 1900, 10000), Some (5500, 10000), Some (0, 0), Some (- 10000, 4000)], 7821, 1, 43, 3),
      ([Some (- 10000, 10000), Some (- 10000, 10000), Some (- 1900, 10000), Some (4500, 10000), Some (0, 10000), Some (- 10000, 10000)], 8036, 1, 259, 2),
      ([], 9331, 6, 1555, 1)] 7797 btree21wd_nodes_39 =
   Some ([([Some (- 10000, - 4500), Some (- 10000, 10000), Some (- 1900, 10000), Some (5500, 10000), Some (0, 0), Some (- 2666, 2666)], 7997, 2, 1, 5),
      ([Some (- 10000, - 4500), Some (- 10000, 10000), Some (- 1900, 10000), Some (5500, 10000), Some (0, 0), Some (- 10000, 4000)], 8001, 1, 7, 4),
      ([Some (- 10000, 10000), Some (- 10000, 10000), Some (- 1900, 10000), Some (5500, 10000), Some (0, 0), Some (- 10000, 4000)], 8036, 6, 43, 3),
      ([Some (- 10000, 10000), Some (- 10000, 10000), Some (- 1900, 10000), Some (4500, 10000), Some (0, 10000), Some (- 10000, 10000)], 8036, 1, 259, 2),
      ([], 9331, 6, 1555, 1)], 7997)"
  unfolding btree21wd_nodes_39_def by (simp only: eval_21wd cong: if_weak_cong)

lemma check_40:
  "check_nodes btree21wd
     [([Some (- 10000, - 4500), Some (- 10000, 10000), Some (- 1900, 10000), Some (5500, 10000), Some (0, 0), Some (- 2666, 2666)], 7997, 2, 1, 5),
      ([Some (- 10000, - 4500), Some (- 10000, 10000), Some (- 1900, 10000), Some (5500, 10000), Some (0, 0), Some (- 10000, 4000)], 8001, 1, 7, 4),
      ([Some (- 10000, 10000), Some (- 10000, 10000), Some (- 1900, 10000), Some (5500, 10000), Some (0, 0), Some (- 10000, 4000)], 8036, 6, 43, 3),
      ([Some (- 10000, 10000), Some (- 10000, 10000), Some (- 1900, 10000), Some (4500, 10000), Some (0, 10000), Some (- 10000, 10000)], 8036, 1, 259, 2),
      ([], 9331, 6, 1555, 1)] 7997 btree21wd_nodes_40 =
   Some ([([Some (2000, 10000), Some (- 10000, 10000), Some (- 1900, 10000), Some (5500, 10000), Some (10000, 10000), Some (- 9333, - 7666)], 8197, 1, 1, 5),
      ([Some (- 10000, 10000), Some (- 10000, 10000), Some (- 1900, 10000), Some (5500, 10000), Some (10000, 10000), Some (- 9333, - 5666)], 8202, 5, 7, 4),
      ([Some (- 10000, 10000), Some (- 10000, 10000), Some (- 1900, 10000), Some (5500, 10000), Some (0, 10000), Some (- 10000, 10000)], 8209, 4, 43, 3),
      ([Some (- 10000, 10000), Some (- 10000, 10000), Some (- 1900, 10000), Some (4500, 10000), Some (0, 10000), Some (- 10000, 10000)], 8295, 2, 259, 2),
      ([], 9331, 6, 1555, 1)], 8197)"
  unfolding btree21wd_nodes_40_def by (simp only: eval_21wd cong: if_weak_cong)

lemma check_41:
  "check_nodes btree21wd
     [([Some (2000, 10000), Some (- 10000, 10000), Some (- 1900, 10000), Some (5500, 10000), Some (10000, 10000), Some (- 9333, - 7666)], 8197, 1, 1, 5),
      ([Some (- 10000, 10000), Some (- 10000, 10000), Some (- 1900, 10000), Some (5500, 10000), Some (10000, 10000), Some (- 9333, - 5666)], 8202, 5, 7, 4),
      ([Some (- 10000, 10000), Some (- 10000, 10000), Some (- 1900, 10000), Some (5500, 10000), Some (0, 10000), Some (- 10000, 10000)], 8209, 4, 43, 3),
      ([Some (- 10000, 10000), Some (- 10000, 10000), Some (- 1900, 10000), Some (4500, 10000), Some (0, 10000), Some (- 10000, 10000)], 8295, 2, 259, 2),
      ([], 9331, 6, 1555, 1)] 8197 btree21wd_nodes_41 =
   Some ([([Some (2000, 5500), Some (- 10000, 10000), Some (- 1900, 10000), Some (4500, 10000), Some (10000, 10000), Some (- 5666, 2666)], 8397, 2, 7, 4),
      ([Some (- 10000, 10000), Some (- 10000, 10000), Some (- 1900, 10000), Some (4500, 10000), Some (10000, 10000), Some (- 5666, 2666)], 8425, 3, 43, 3),
      ([Some (- 10000, 10000), Some (- 10000, 10000), Some (- 1900, 10000), Some (4500, 10000), Some (0, 10000), Some (- 10000, 10000)], 8554, 3, 259, 2),
      ([], 9331, 6, 1555, 1)], 8397)"
  unfolding btree21wd_nodes_41_def by (simp only: eval_21wd cong: if_weak_cong)

lemma check_42:
  "check_nodes btree21wd
     [([Some (2000, 5500), Some (- 10000, 10000), Some (- 1900, 10000), Some (4500, 10000), Some (10000, 10000), Some (- 5666, 2666)], 8397, 2, 7, 4),
      ([Some (- 10000, 10000), Some (- 10000, 10000), Some (- 1900, 10000), Some (4500, 10000), Some (10000, 10000), Some (- 5666, 2666)], 8425, 3, 43, 3),
      ([Some (- 10000, 10000), Some (- 10000, 10000), Some (- 1900, 10000), Some (4500, 10000), Some (0, 10000), Some (- 10000, 10000)], 8554, 3, 259, 2),
      ([], 9331, 6, 1555, 1)] 8397 btree21wd_nodes_42 =
   Some ([([Some (- 4500, - 1500), Some (1000, 10000), Some (- 1900, 10000), Some (4500, 10000), Some (10000, 10000), Some (2666, 5666)], 8597, 5, 1, 5),
      ([Some (- 4500, 2000), Some (- 10000, 10000), Some (- 1900, 10000), Some (4500, 10000), Some (10000, 10000), Some (2666, 5666)], 8598, 6, 7, 4),
      ([Some (- 10000, 10000), Some (- 10000, 10000), Some (- 1900, 10000), Some (4500, 10000), Some (10000, 10000), Some (500, 7666)], 8598, 1, 43, 3),
      ([Some (- 10000, 10000), Some (- 10000, 10000), Some (- 1900, 10000), Some (4500, 10000), Some (0, 10000), Some (- 10000, 10000)], 8813, 4, 259, 2),
      ([], 9331, 6, 1555, 1)], 8597)"
  unfolding btree21wd_nodes_42_def by (simp only: eval_21wd cong: if_weak_cong)

lemma check_43:
  "check_nodes btree21wd
     [([Some (- 4500, - 1500), Some (1000, 10000), Some (- 1900, 10000), Some (4500, 10000), Some (10000, 10000), Some (2666, 5666)], 8597, 5, 1, 5),
      ([Some (- 4500, 2000), Some (- 10000, 10000), Some (- 1900, 10000), Some (4500, 10000), Some (10000, 10000), Some (2666, 5666)], 8598, 6, 7, 4),
      ([Some (- 10000, 10000), Some (- 10000, 10000), Some (- 1900, 10000), Some (4500, 10000), Some (10000, 10000), Some (500, 7666)], 8598, 1, 43, 3),
      ([Some (- 10000, 10000), Some (- 10000, 10000), Some (- 1900, 10000), Some (4500, 10000), Some (0, 10000), Some (- 10000, 10000)], 8813, 4, 259, 2),
      ([], 9331, 6, 1555, 1)] 8597 btree21wd_nodes_43 =
   Some ([([Some (5500, 10000), Some (- 1000, 10000), Some (- 1900, 10000), Some (4500, 10000), Some (10000, 10000), Some (2666, 5666)], 8797, 4, 1, 5),
      ([Some (5500, 10000), Some (- 3500, 10000), Some (- 1900, 10000), Some (4500, 10000), Some (10000, 10000), Some (500, 5666)], 8799, 4, 7, 4),
      ([Some (- 10000, 10000), Some (- 10000, 10000), Some (- 1900, 10000), Some (4500, 10000), Some (10000, 10000), Some (500, 7666)], 8813, 6, 43, 3),
      ([Some (- 10000, 10000), Some (- 10000, 10000), Some (- 1900, 10000), Some (4500, 10000), Some (0, 10000), Some (- 10000, 10000)], 8813, 4, 259, 2),
      ([], 9331, 6, 1555, 1)], 8797)"
  unfolding btree21wd_nodes_43_def by (simp only: eval_21wd cong: if_weak_cong)

lemma check_44:
  "check_nodes btree21wd
     [([Some (5500, 10000), Some (- 1000, 10000), Some (- 1900, 10000), Some (4500, 10000), Some (10000, 10000), Some (2666, 5666)], 8797, 4, 1, 5),
      ([Some (5500, 10000), Some (- 3500, 10000), Some (- 1900, 10000), Some (4500, 10000), Some (10000, 10000), Some (500, 5666)], 8799, 4, 7, 4),
      ([Some (- 10000, 10000), Some (- 10000, 10000), Some (- 1900, 10000), Some (4500, 10000), Some (10000, 10000), Some (500, 7666)], 8813, 6, 43, 3),
      ([Some (- 10000, 10000), Some (- 10000, 10000), Some (- 1900, 10000), Some (4500, 10000), Some (0, 10000), Some (- 10000, 10000)], 8813, 4, 259, 2),
      ([], 9331, 6, 1555, 1)] 8797 btree21wd_nodes_44 =
   Some ([([Some (5500, 10000), Some (- 1000, 1000), Some (- 1900, 10000), Some (4500, 10000), Some (10000, 10000), Some (5666, 9333)], 8997, 2, 1, 5),
      ([Some (2000, 10000), Some (- 10000, 10000), Some (- 1900, 10000), Some (4500, 10000), Some (10000, 10000), Some (5666, 9333)], 9001, 2, 7, 4),
      ([Some (- 10000, 10000), Some (- 10000, 10000), Some (- 1900, 10000), Some (4500, 10000), Some (10000, 10000), Some (5666, 10000)], 9029, 5, 43, 3),
      ([Some (- 10000, 10000), Some (- 10000, 10000), Some (- 1900, 10000), Some (4500, 10000), Some (0, 10000), Some (- 10000, 10000)], 9072, 5, 259, 2),
      ([], 9331, 6, 1555, 1)], 8997)"
  unfolding btree21wd_nodes_44_def by (simp only: eval_21wd cong: if_weak_cong)

lemma check_45:
  "check_nodes btree21wd
     [([Some (5500, 10000), Some (- 1000, 1000), Some (- 1900, 10000), Some (4500, 10000), Some (10000, 10000), Some (5666, 9333)], 8997, 2, 1, 5),
      ([Some (2000, 10000), Some (- 10000, 10000), Some (- 1900, 10000), Some (4500, 10000), Some (10000, 10000), Some (5666, 9333)], 9001, 2, 7, 4),
      ([Some (- 10000, 10000), Some (- 10000, 10000), Some (- 1900, 10000), Some (4500, 10000), Some (10000, 10000), Some (5666, 10000)], 9029, 5, 43, 3),
      ([Some (- 10000, 10000), Some (- 10000, 10000), Some (- 1900, 10000), Some (4500, 10000), Some (0, 10000), Some (- 10000, 10000)], 9072, 5, 259, 2),
      ([], 9331, 6, 1555, 1)] 8997 btree21wd_nodes_45 =
   Some ([], 9112)"
  unfolding btree21wd_nodes_45_def by (simp only: eval_21wd cong: if_weak_cong)


lemmas check_parts =
  check_00 check_01 check_02 check_03 check_04 check_05 check_06 check_07 check_08 check_09
  check_10 check_11 check_12 check_13 check_14 check_15 check_16 check_17 check_18 check_19
  check_20 check_21 check_22 check_23 check_24 check_25 check_26 check_27 check_28 check_29
  check_30 check_31 check_32 check_33 check_34 check_35 check_36 check_37 check_38 check_39
  check_40 check_41 check_42 check_43 check_44 check_45

lemma nodes_21wd_ne: "btree21wd_nodes_00 \<noteq> []" "hd btree21wd_nodes_00 = 0x0001616161616161"
  by (simp_all add: btree21wd_nodes_00_def)

lemma check_21wd: "check_nodes btree21wd [([], 1, 0, 1555, 1)] 1 (tl (nodes btree21wd)) = Some ([], 9112)"
proof -
  have "tl (nodes btree21wd) = tl btree21wd_nodes_00 @ btree21wd_nodes_01 @ btree21wd_nodes_02 @ btree21wd_nodes_03 @
      btree21wd_nodes_04 @ btree21wd_nodes_05 @ btree21wd_nodes_06 @ btree21wd_nodes_07 @
      btree21wd_nodes_08 @ btree21wd_nodes_09 @ btree21wd_nodes_10 @ btree21wd_nodes_11 @
      btree21wd_nodes_12 @ btree21wd_nodes_13 @ btree21wd_nodes_14 @ btree21wd_nodes_15 @
      btree21wd_nodes_16 @ btree21wd_nodes_17 @ btree21wd_nodes_18 @ btree21wd_nodes_19 @
      btree21wd_nodes_20 @ btree21wd_nodes_21 @ btree21wd_nodes_22 @ btree21wd_nodes_23 @
      btree21wd_nodes_24 @ btree21wd_nodes_25 @ btree21wd_nodes_26 @ btree21wd_nodes_27 @
      btree21wd_nodes_28 @ btree21wd_nodes_29 @ btree21wd_nodes_30 @ btree21wd_nodes_31 @
      btree21wd_nodes_32 @ btree21wd_nodes_33 @ btree21wd_nodes_34 @ btree21wd_nodes_35 @
      btree21wd_nodes_36 @ btree21wd_nodes_37 @ btree21wd_nodes_38 @ btree21wd_nodes_39 @
      btree21wd_nodes_40 @ btree21wd_nodes_41 @ btree21wd_nodes_42 @ btree21wd_nodes_43 @
      btree21wd_nodes_44 @ btree21wd_nodes_45"
    by (simp add: btree21wd_def btree21wd_nodes_def nodes_21wd_ne)
  then show ?thesis
    by (simp only: check_nodes_append check_parts option.case prod.case)
qed

lemma tree_check_21wd: "tree_check btree21wd"
proof -
  have hd: "hd (nodes btree21wd) = 0x0001616161616161" "nodes btree21wd \<noteq> []"
    by (simp_all add: btree21wd_def btree21wd_nodes_def nodes_21wd_ne)
  have "list_all (\<lambda>c. c \<noteq> None) (boxes btree21wd (hd (nodes btree21wd)))"
    unfolding hd by (simp only: eval_21wd)
  moreover have "hd (nodes btree21wd) div 2 ^ 48 mod 2 ^ 16 = 1" unfolding hd by simp
  moreover have "param_ok btree21wd" by (simp add: param_ok_def btree21wd_def btree21wd_param_def)
  moreover have "get_step btree21wd 0 0 = Some (1555, 1)" by (simp add: get_step_21wd)
  moreover have "steps btree21wd \<noteq> []" "\<forall>s \<in> set (steps btree21wd). s \<le> 1555"
    by (simp_all add: btree21wd_def btree21wd_steps_def)
  ultimately show ?thesis using hd(2) check_21wd steps_21wd len_21wd
    by (auto simp: tree_check_def)
qed

interpretation tree21wd: biome_tree btree21wd
  by (rule tree_check_sound [OF tree_check_21wd])

end
