(* ===== verification/Mc_Version.thy ===== *)
theory Mc_Version
  imports Main
begin

text \<open>
  The versions of the game (\<open>enum MCVersion\<close> of \<open>biomes.h\<close>) that the modelled code distinguishes, by
  their position in the enumeration, the climate parameters, and the biome that the program looks for.
\<close>

definition MC_1_17 :: nat where "MC_1_17 = 21"
definition MC_1_18 :: nat where "MC_1_18 = 22"
definition MC_1_19_2 :: nat where "MC_1_19_2 = 23"
definition MC_1_19_4 :: nat where "MC_1_19_4 = 24"
definition MC_1_19 :: nat where "MC_1_19 = MC_1_19_4"
definition MC_1_20_6 :: nat where "MC_1_20_6 = 25"
definition MC_1_21_3 :: nat where "MC_1_21_3 = 27"
definition MC_1_21_WD :: nat where "MC_1_21_WD = 28"
definition MC_NEWEST :: nat where "MC_NEWEST = MC_1_21_WD"

text \<open>The indices of the climate parameters (\<open>biomenoise.h\<close>).\<close>

definition NP_TEMPERATURE :: nat where "NP_TEMPERATURE = 0"
definition NP_HUMIDITY :: nat where "NP_HUMIDITY = 1"
definition NP_CONTINENTALNESS :: nat where "NP_CONTINENTALNESS = 2"
definition NP_EROSION :: nat where "NP_EROSION = 3"
definition NP_SHIFT :: nat where "NP_SHIFT = 4"
definition NP_WEIRDNESS :: nat where "NP_WEIRDNESS = 5"
definition NP_MAX :: nat where "NP_MAX = 6"

lemmas np_defs = NP_TEMPERATURE_def NP_HUMIDITY_def NP_CONTINENTALNESS_def NP_EROSION_def NP_SHIFT_def NP_WEIRDNESS_def NP_MAX_def

definition mushroom_fields :: int where "mushroom_fields = 14"

lemmas version_defs = MC_1_17_def MC_1_18_def MC_1_19_2_def MC_1_19_4_def MC_1_19_def MC_1_20_6_def MC_1_21_3_def
  MC_1_21_WD_def MC_NEWEST_def

end
