(* ===== verification/Climate_Biome.thy ===== *)
theory Climate_Biome
  imports Btree21wd Mc_Version
begin

text \<open>
  \<open>climateToBiome\<close> of \<open>biomenoise.c\<close>: the choice of the tree by the version of the game, the
  search, with or without a hint from the previous call, and the biome of the leaf it returns.
\<close>

subsection \<open>The model\<close>

text \<open>The trees of the older versions are the arguments \<open>bt20\<close>, \<open>bt19\<close>, \<open>bt192\<close> and \<open>bt18\<close>.\<close>

definition choose_tree :: "BiomeTree \<Rightarrow> BiomeTree \<Rightarrow> BiomeTree \<Rightarrow> BiomeTree \<Rightarrow> nat \<Rightarrow> BiomeTree" where
  "choose_tree bt20 bt19 bt192 bt18 mc =
     (if MC_1_21_WD \<le> mc then btree21wd
      else if MC_1_20_6 \<le> mc then bt20
      else if MC_1_19_4 \<le> mc then bt19
      else if MC_1_19_2 \<le> mc then bt192
      else bt18)"

text \<open>The hint is the index of a leaf; the new hint is the index of the leaf that was found.\<close>

definition climateToBiome ::
    "BiomeTree \<Rightarrow> BiomeTree \<Rightarrow> BiomeTree \<Rightarrow> BiomeTree \<Rightarrow> nat \<Rightarrow> u64 list \<Rightarrow> u64 option \<Rightarrow> (nat \<times> u64 option) option" where
  "climateToBiome bt20 bt19 bt192 bt18 mc np dat =
     (let bt = choose_tree bt20 bt19 bt192 bt18 mc;
          found = (case dat of
              Some hint \<Rightarrow>
                (let alt = unat hint mod 2 ^ 32
                 in case get_np_dist np bt alt of
                      None \<Rightarrow> None
                    | Some ds \<Rightarrow> get_resulting_node np bt 0 alt ds 0)
            | None \<Rightarrow> get_resulting_node np bt 0 0 (- 1) 0)
      in case found of
           None \<Rightarrow> None
         | Some idx \<Rightarrow>
             if idx < bt_len bt
             then Some (nodes bt ! idx div 2 ^ 48 mod 256, map_option (\<lambda>_. of_nat idx) dat)
             else None)"

subsection \<open>Correctness\<close>

context biome_tree
begin

lemma leaves_visited:
  assumes "m \<in> leaves bt"
  obtains d where "visits bt m d" "steps bt ! d = 0"
  using leaf_under_visited [OF _ visits.root] assms unfolding leaves_def by blast

lemma root_inner: "steps bt ! 0 \<noteq> 0 \<Longrightarrow> m \<in> leaves bt \<Longrightarrow> m < bt_len bt"
  using leaves_visited visit_range by metis

lemma search_plain:
  assumes "np_ok np" "steps bt ! 0 \<noteq> 0"
  shows "\<exists>m \<in> leaves bt. get_resulting_node np bt 0 0 (- 1) 0 = Some m \<and> (\<forall>m' \<in> leaves bt. ndist np bt m \<le> ndist np bt m')"
proof -
  from search_ok [OF assms(1) visits.root, of 0 "- 1"] assms(2) obtain r where
    r: "get_resulting_node np bt 0 0 (- 1) 0 = Some r" "nearest_or np (leaves bt) 0 (- 1) r"
    unfolding leaves_def good_bound_def by blast
  obtain m where m: "m \<in> leaves bt" using leaf_exists [OF visits.root] unfolding leaves_def by blast
  then obtain d where "visits bt m d" using leaves_visited by blast
  then have "\<not> uint (- 1 :: u64) \<le> ndist np bt m" using ndist_less_max [OF assms(1)] by (simp add: not_le)
  then show ?thesis using r m unfolding nearest_or_def by blast
qed

lemma search_hint:
  assumes "np_ok np" "steps bt ! 0 \<noteq> 0" "visits bt a d"
  shows "\<exists>m ds. (m \<in> leaves bt \<or> m = a) \<and> get_np_dist np bt a = Some ds \<and> get_resulting_node np bt 0 a ds 0 = Some m \<and>
    (\<forall>m' \<in> leaves bt. ndist np bt m \<le> ndist np bt m')"
proof -
  obtain ds where ds: "get_np_dist np bt a = Some ds" "uint ds = ndist np bt a" using dist_eq [OF assms(1,3)] by blast
  have "good_bound np a ds" unfolding good_bound_def using assms(3) ds by blast
  from search_ok [OF assms(1) visits.root this] assms(2) obtain r where
    "get_resulting_node np bt 0 a ds 0 = Some r" "nearest_or np (leaves bt) a ds r"
    unfolding leaves_def by blast
  then show ?thesis using ds unfolding nearest_or_def by metis
qed

end

lemma steps_21wd_root: "steps btree21wd ! 0 \<noteq> 0"
  by (simp add: steps_21wd)

lemma leaf_21wd: "m \<in> leaves btree21wd \<Longrightarrow> m < 9112"
  using tree21wd.root_inner [OF steps_21wd_root] len_21wd by metis

lemma climateToBiome_found:
  assumes "MC_1_21_WD \<le> mc" "m < 9112"
    and "case dat of None \<Rightarrow> get_resulting_node np btree21wd 0 0 (- 1) 0 = Some m
      | Some hint \<Rightarrow> (\<exists>ds. get_np_dist np btree21wd (unat hint mod 2 ^ 32) = Some ds \<and>
          get_resulting_node np btree21wd 0 (unat hint mod 2 ^ 32) ds 0 = Some m)"
  shows "climateToBiome bt20 bt19 bt192 bt18 mc np dat =
    Some (nodes btree21wd ! m div 2 ^ 48 mod 256, map_option (\<lambda>_. of_nat m) dat)"
proof -
  have "choose_tree bt20 bt19 bt192 bt18 mc = btree21wd" using assms(1) by (simp add: choose_tree_def)
  moreover have "m < bt_len btree21wd" using assms(2) len_21wd by simp
  ultimately show ?thesis using assms(3) unfolding climateToBiome_def Let_def
    by (auto split: option.split)
qed

text \<open>
  The hints that the callers pass: none, the initial 0, which is the index of the root, and the
  results of earlier calls.
\<close>

definition hint_ok :: "u64 option \<Rightarrow> bool" where
  "hint_ok dat \<longleftrightarrow> dat = None \<or> dat = Some 0 \<or> (\<exists>a \<in> leaves btree21wd. dat = Some (of_nat a))"

lemma climateToBiome_cases:
  assumes "MC_1_21_WD \<le> mc" "np_ok np" "hint_ok dat"
  shows "\<exists>m. (m \<in> leaves btree21wd \<or> m = 0 \<and> dat = Some 0) \<and>
    climateToBiome bt20 bt19 bt192 bt18 mc np dat =
      Some (nodes btree21wd ! m div 2 ^ 48 mod 256, map_option (\<lambda>_. of_nat m) dat) \<and>
    (\<forall>m' \<in> leaves btree21wd. ndist np btree21wd m \<le> ndist np btree21wd m')"
proof (cases dat)
  case None
  obtain m where m: "m \<in> leaves btree21wd" "get_resulting_node np btree21wd 0 0 (- 1) 0 = Some m"
      "\<forall>m' \<in> leaves btree21wd. ndist np btree21wd m \<le> ndist np btree21wd m'"
    using tree21wd.search_plain [OF assms(2) steps_21wd_root] by blast
  have "climateToBiome bt20 bt19 bt192 bt18 mc np dat =
      Some (nodes btree21wd ! m div 2 ^ 48 mod 256, map_option (\<lambda>_. of_nat m) dat)"
    by (rule climateToBiome_found [OF assms(1) leaf_21wd [OF m(1)]]) (simp add: None m(2))
  then show ?thesis using m(1,3) by blast
next
  case (Some hint)
  have "hint = of_nat 0 \<or> (\<exists>a \<in> leaves btree21wd. hint = of_nat a)" using assms(3) Some by (simp add: hint_ok_def)
  then obtain a where a: "hint = of_nat a" "a = 0 \<or> a \<in> leaves btree21wd" by blast
  obtain d where d: "visits btree21wd a d" using a(2) visits.root [of btree21wd] tree21wd.leaves_visited by blast
  have a32: "a < 9112" using a(2) leaf_21wd by auto
  then have u: "unat hint mod 2 ^ 32 = a" using a(1) by (simp add: unat_of_nat)
  from tree21wd.search_hint [OF assms(2) steps_21wd_root d] obtain m ds where
    m: "m \<in> leaves btree21wd \<or> m = a" "get_np_dist np btree21wd a = Some ds" "get_resulting_node np btree21wd 0 a ds 0 = Some m"
      "\<forall>m' \<in> leaves btree21wd. ndist np btree21wd m \<le> ndist np btree21wd m'" by blast
  then have "m < 9112" using leaf_21wd a32 by auto
  then have "climateToBiome bt20 bt19 bt192 bt18 mc np dat =
      Some (nodes btree21wd ! m div 2 ^ 48 mod 256, map_option (\<lambda>_. of_nat m) dat)"
    by (rule climateToBiome_found [OF assms(1)]) (use Some u m(2,3) in simp)
  moreover have "m \<in> leaves btree21wd \<or> m = 0 \<and> dat = Some 0" using m(1) a Some by auto
  ultimately show ?thesis using m(4) by blast
qed

subsection \<open>Properties\<close>

text \<open>
  C1. \<open>climateToBiome\<close> for the current version returns, for every climate whose components are at
  most \<open>2^29\<close> in absolute value, the biome of a leaf of the tree whose box is nearest to the
  climate: the pruning loses nothing, no array is read outside its bounds, and with a hint that is
  the index of a leaf the answer is a nearest leaf too and becomes the next hint. Only with the
  initial hint 0, the root, the answer can be the root itself, if no leaf is nearer than its box.
\<close>

theorem climateToBiome_nearest:
  assumes "MC_1_21_WD \<le> mc" and "np_ok np" and "hint_ok dat"
  shows "\<exists>m. (m \<in> leaves btree21wd \<or> m = 0 \<and> dat = Some 0) \<and>
    climateToBiome bt20 bt19 bt192 bt18 mc np dat =
      Some (nodes btree21wd ! m div 2 ^ 48 mod 256, map_option (\<lambda>_. of_nat m) dat) \<and>
    (\<forall>m' \<in> leaves btree21wd. ndist np btree21wd m \<le> ndist np btree21wd m')"
  using assms by (rule climateToBiome_cases)

theorem climateToBiome_nearest_witness:
  "\<exists>m \<in> leaves btree21wd. climateToBiome btree21wd btree21wd btree21wd btree21wd MC_NEWEST (replicate 6 1000) None =
     Some (nodes btree21wd ! m div 2 ^ 48 mod 256, None)"
  using climateToBiome_nearest [of MC_NEWEST "replicate 6 1000" None btree21wd btree21wd btree21wd btree21wd]
  by (auto simp: MC_NEWEST_def np_ok_def hint_ok_def)

end
