(* ===== verification/Common.thy ===== *)
theory Common
  imports Prelude
begin

text \<open>
  The types that the threads share (\<open>common.h\<close>), and the bytes of a \<open>GpuOutput\<close>: the client sends
  the memory of the struct, 16 bytes without padding, and the server copies it back. Both run on
  little-endian machines.
\<close>

subsection \<open>Shared types\<close>

record GpuOutput =
  out_seed :: u64
  out_x :: i32
  out_z :: i32

record CpuOutput =
  cpu_seed :: u64
  cpu_x :: i32
  cpu_z :: i32
  cpu_score :: i32

record HostService =
  host :: string
  service :: string

text \<open>The handshake names the build: \<open>L\<close> for large biomes, \<open>S\<close> otherwise.\<close>

definition net_handshake :: "bool \<Rightarrow> string" where
  "net_handshake large_biomes = ''OMISSION-GPU '' @ [if large_biomes then CHR ''L'' else CHR ''S''] @ ''B'' @ [CHR 0x0A]"

text \<open>The constant as the bytes of its array.\<close>

definition handshake_bytes :: "bool \<Rightarrow> u8 list" where
  "handshake_bytes large_biomes = map of_char (net_handshake large_biomes)"

subsection \<open>Bytes\<close>

definition bytes_le :: "nat \<Rightarrow> 'a::len word \<Rightarrow> u8 list" where
  "bytes_le n w = map (\<lambda>i. ucast (drop_bit (8 * i) w)) [0..<n]"

primrec of_bytes_le :: "u8 list \<Rightarrow> 'a::len word" where
  "of_bytes_le [] = 0"
| "of_bytes_le (b # bs) = ucast b OR push_bit 8 (of_bytes_le bs)"

definition encode :: "GpuOutput \<Rightarrow> u8 list" where
  "encode g = bytes_le 8 (out_seed g) @ bytes_le 4 (out_x g) @ bytes_le 4 (out_z g)"

definition decode :: "u8 list \<Rightarrow> GpuOutput" where
  "decode bs = \<lparr>out_seed = of_bytes_le (take 8 bs),
                out_x = of_bytes_le (take 4 (drop 8 bs)),
                out_z = of_bytes_le (take 4 (drop 12 bs))\<rparr>"

lemma length_bytes_le [simp]: "length (bytes_le n w) = n"
  by (simp add: bytes_le_def)

lemma length_encode [simp]: "length (encode g) = 16"
  by (simp add: encode_def)

lemma length_net_handshake [simp]: "length (net_handshake lb) = 16"
  by (simp add: net_handshake_def)

lemma length_handshake_bytes [simp]: "length (handshake_bytes lb) = 16"
  by (simp add: handshake_bytes_def)

lemma handshake_bytes_inject: "handshake_bytes lb = handshake_bytes lb' \<longleftrightarrow> lb = lb'"
  by (simp add: handshake_bytes_def net_handshake_def)

lemma bit_of_bytes_le:
  "bit (of_bytes_le bs :: 'a::len word) k \<longleftrightarrow> k < LENGTH('a) \<and> k < 8 * length bs \<and> bit (bs ! (k div 8)) (k mod 8)"
proof (induction bs arbitrary: k)
  case (Cons b bs)
  show ?case
  proof (cases "k < 8")
    case True
    then show ?thesis by (auto simp: bit_or_iff bit_push_bit_iff bit_ucast_iff)
  next
    case False
    then obtain j where k: "k = j + 8" using le_Suc_ex [of 8 k] by (auto simp: add.commute not_less)
    have "bit b (j + 8) = False" using bit_imp_le_length [of b "j + 8"] by auto
    then show ?thesis unfolding k using Cons.IH [of j]
      by (auto simp: bit_or_iff bit_push_bit_iff bit_ucast_iff div_add_self2 dest: bit_imp_le_length)
  qed
qed simp

lemma of_bytes_bytes_le: "LENGTH('a) \<le> 8 * n \<Longrightarrow> of_bytes_le (bytes_le n w) = (w :: 'a::len word)"
proof (rule bit_word_eqI)
  fix k assume "LENGTH('a) \<le> 8 * n" and k: "k < LENGTH('a)"
  then have "k div 8 < n" by (simp add: less_mult_imp_div_less mult.commute)
  then show "bit (of_bytes_le (bytes_le n w) :: 'a word) k = bit w k"
    using k \<open>LENGTH('a) \<le> 8 * n\<close>
    by (simp add: bit_of_bytes_le bytes_le_def bit_ucast_iff bit_drop_bit_eq)
qed

lemma decode_encode [simp]: "decode (encode g) = g"
  by (simp add: decode_def encode_def of_bytes_bytes_le)

end
