(* ===== verification/Net.thy ===== *)
theory Net
  imports Common
begin

text \<open>
  The connection between a machine that runs kernels (\<open>client.cpp\<close>) and the one that tests their
  results (\<open>server.cpp\<close>). The operating system may cut the byte stream anywhere: the sizes of the
  reads are an argument, restricted only by what \<open>async_read_some\<close> documents, at least one byte
  and at most the space that is offered.
\<close>

subsection \<open>The client\<close>

record ClientState =
  inputs_queue :: "GpuOutput list"
  sent :: "u8 list"

text \<open>The handshake after connecting.\<close>

definition client_start :: "bool \<Rightarrow> ClientState \<Rightarrow> ClientState" where
  "client_start lb s = s\<lparr>sent := sent s @ handshake_bytes lb\<rparr>"

text \<open>One iteration of the loop: drain the queue into \<open>pending_data\<close>, write it if it is not empty.\<close>

fun drain :: "GpuOutput list \<Rightarrow> GpuOutput list \<Rightarrow> GpuOutput list" where
  "drain pending_data [] = pending_data"
| "drain pending_data (g # queue) = drain (pending_data @ [g]) queue"

definition client_iteration :: "ClientState \<Rightarrow> ClientState" where
  "client_iteration s =
     (let pending_data = drain [] (inputs_queue s)
      in if pending_data = [] then s\<lparr>inputs_queue := []\<rparr>
         else s\<lparr>inputs_queue := [], sent := sent s @ concat (map encode pending_data)\<rparr>)"

text \<open>
  The run: before each iteration the kernels push a batch; the loop is left when \<open>should_stop\<close>
  is seen, after as many iterations as there are batches.
\<close>

fun client_loop :: "GpuOutput list list \<Rightarrow> ClientState \<Rightarrow> ClientState" where
  "client_loop [] s = s"
| "client_loop (batch # batches) s =
     client_loop batches (client_iteration (s\<lparr>inputs_queue := inputs_queue s @ batch\<rparr>))"

definition client_run :: "bool \<Rightarrow> GpuOutput list list \<Rightarrow> ClientState \<Rightarrow> ClientState" where
  "client_run lb batches s = client_loop batches (client_start lb s)"

subsection \<open>The server\<close>

record tcp_connection =
  handshake :: "u8 list"
  pending_data :: "u8 list"
  pending_data_len :: nat
  reading :: bool

text \<open>A new connection; \<open>handshake_\<close> and \<open>pending_data_\<close> are not initialised.\<close>

definition tcp_connection_make :: "u8 list \<Rightarrow> u8 list \<Rightarrow> tcp_connection" where
  "tcp_connection_make junk16 junk1024 =
     \<lparr>handshake = junk16, pending_data = junk1024, pending_data_len = 0, reading = False\<rparr>"

text \<open>
  \<open>handle_handshake\<close> is called when 16 bytes have arrived or the connection has failed after
  fewer; it compares the array in both cases.
\<close>

definition handle_handshake :: "bool \<Rightarrow> u8 list \<Rightarrow> tcp_connection \<Rightarrow> tcp_connection" where
  "handle_handshake lb bytes c =
     (let c = c\<lparr>handshake := bytes @ drop (length bytes) (handshake c)\<rparr>
      in if handshake c \<noteq> handshake_bytes lb then c\<lparr>reading := False\<rparr> else c\<lparr>reading := True\<rparr>)"

text \<open>The space that \<open>start_read\<close> offers.\<close>

definition read_space :: "tcp_connection \<Rightarrow> nat" where
  "read_space c = 1024 - pending_data_len c"

text \<open>The bytes that a read puts behind the pending ones.\<close>

definition read_some :: "u8 list \<Rightarrow> tcp_connection \<Rightarrow> tcp_connection" where
  "read_some bytes c = c\<lparr>pending_data := take (pending_data_len c) (pending_data c) @ bytes @
     drop (pending_data_len c + length bytes) (pending_data c)\<rparr>"

text \<open>\<open>memmove\<close> to the front of the array.\<close>

definition memmove_front :: "nat \<Rightarrow> nat \<Rightarrow> u8 list \<Rightarrow> u8 list" where
  "memmove_front from n bs = take n (drop from bs) @ drop n bs"

text \<open>The new connection, and the values that are pushed to the queue.\<close>

definition handle_read :: "bool \<Rightarrow> nat \<Rightarrow> tcp_connection \<Rightarrow> tcp_connection \<times> GpuOutput list" where
  "handle_read error bytes_transferred c =
     (if \<not> error
      then let len = pending_data_len c + bytes_transferred
           in if 16 \<le> len
              then let count = len div 16;
                       new = map (\<lambda>i. decode (take 16 (drop (i * 16) (pending_data c)))) [0..<count];
                       len' = len - count * 16
                   in (c\<lparr>pending_data_len := len', pending_data := memmove_front (count * 16) len' (pending_data c)\<rparr>, new)
              else (c\<lparr>pending_data_len := len\<rparr>, [])
      else (c\<lparr>reading := False\<rparr>, []))"

text \<open>
  The reads of one connection: the sizes \<open>ks\<close> are up to the operating system, the bytes come from
  the wire, and a read on an empty wire does not complete.
\<close>

fun serve :: "nat list \<Rightarrow> u8 list \<Rightarrow> tcp_connection \<Rightarrow> tcp_connection \<times> GpuOutput list \<times> u8 list" where
  "serve [] wire c = (c, [], wire)"
| "serve (k # ks) wire c =
     (if wire = [] \<or> \<not> reading c then (c, [], wire)
      else let n = min (Suc k) (min (read_space c) (length wire));
               (c', new) = handle_read False n (read_some (take n wire) c);
               (c'', rest, wire') = serve ks (drop n wire) c'
           in (c'', new @ rest, wire'))"

text \<open>A connection from its start: \<open>async_read\<close> takes exactly the 16 bytes of the handshake.\<close>

definition serve_connection ::
    "bool \<Rightarrow> u8 list \<Rightarrow> u8 list \<Rightarrow> nat list \<Rightarrow> u8 list \<Rightarrow> tcp_connection \<times> GpuOutput list \<times> u8 list" where
  "serve_connection lb junk16 junk1024 ks wire =
     serve ks (drop 16 wire) (handle_handshake lb (take 16 wire) (tcp_connection_make junk16 junk1024))"

subsection \<open>The bytes that have arrived\<close>

definition pending :: "tcp_connection \<Rightarrow> u8 list" where
  "pending c = take (pending_data_len c) (pending_data c)"

definition conn_ok :: "tcp_connection \<Rightarrow> bool" where
  "conn_ok c \<longleftrightarrow> length (pending_data c) = 1024 \<and> pending_data_len c < 16"

text \<open>The specification: cut a byte string into structs and a rest.\<close>

function parse_all :: "u8 list \<Rightarrow> GpuOutput list" where
  "parse_all bs = (if length bs < 16 then [] else decode (take 16 bs) # parse_all (drop 16 bs))"
  by pat_completeness auto
termination by (relation "measure length") auto

function rest_of :: "u8 list \<Rightarrow> u8 list" where
  "rest_of bs = (if length bs < 16 then bs else rest_of (drop 16 bs))"
  by pat_completeness auto
termination by (relation "measure length") auto

declare parse_all.simps [simp del] rest_of.simps [simp del]

lemma drain_eq [simp]: "drain p q = p @ q"
  by (induction p q rule: drain.induct) simp_all

lemma parse_append:
  "parse_all (xs @ ys) = parse_all xs @ parse_all (rest_of xs @ ys)"
  "rest_of (xs @ ys) = rest_of (rest_of xs @ ys)"
proof (induction xs rule: rest_of.induct)
  case (1 xs)
  show "parse_all (xs @ ys) = parse_all xs @ parse_all (rest_of xs @ ys)"
    using 1 by (cases "length xs < 16") (simp_all add: parse_all.simps [of "xs @ ys"] parse_all.simps [of xs] rest_of.simps [of xs])
  show "rest_of (xs @ ys) = rest_of (rest_of xs @ ys)"
    using 1 by (cases "length xs < 16") (simp_all add: rest_of.simps [of "xs @ ys"] rest_of.simps [of xs])
qed

lemma length_rest_of: "length (rest_of bs) < 16"
  by (induction bs rule: rest_of.induct) (simp add: rest_of.simps)

lemma parse_encode: "parse_all (concat (map encode gs)) = gs" "rest_of (concat (map encode gs)) = []"
  by (induction gs) (simp_all add: parse_all.simps rest_of.simps [of "encode _ @ _"] rest_of.simps [of "[]"])

lemma parse_by_index:
  "map (\<lambda>i. decode (take 16 (drop (i * 16) bs))) [0..<length bs div 16] = parse_all bs"
proof (induction bs rule: parse_all.induct)
  case (1 bs)
  show ?case
  proof (cases "length bs < 16")
    case False
    then have d: "length bs div 16 = Suc (length (drop 16 bs) div 16)"
      by (simp add: le_div_geq not_less)
    show ?thesis unfolding d upt_conv_Cons [OF zero_less_Suc] list.map map_Suc_upt [symmetric] map_map
      using 1 [OF False] False by (subst parse_all.simps) (simp add: comp_def add.commute)
  qed (simp add: parse_all.simps)
qed

lemma drop_whole: "drop (length bs div 16 * 16) bs = rest_of bs"
proof (induction bs rule: rest_of.induct)
  case (1 bs)
  show ?case
  proof (cases "length bs < 16")
    case False
    then have d: "length bs div 16 * 16 = length (drop 16 bs) div 16 * 16 + 16"
      by (simp add: le_div_geq not_less)
    show ?thesis unfolding d using 1 [OF False] False by (subst rest_of.simps) simp
  qed (simp add: rest_of.simps)
qed

subsection \<open>One read\<close>

lemma length_memmove_front: "from + n \<le> length bs \<Longrightarrow> length (memmove_front from n bs) = length bs"
  by (simp add: memmove_front_def)

lemma read_some_pending:
  assumes "conn_ok c" "length bytes \<le> read_space c"
  shows "length (pending_data (read_some bytes c)) = 1024" "pending_data_len (read_some bytes c) = pending_data_len c"
    "take (pending_data_len c + length bytes) (pending_data (read_some bytes c)) = pending c @ bytes"
    "reading (read_some bytes c) = reading c"
  using assms by (auto simp: conn_ok_def read_some_def pending_def read_space_def)

lemma handle_read_parse:
  assumes c: "conn_ok c" and "length bytes \<le> read_space c"
    and h: "handle_read False (length bytes) (read_some bytes c) = (c', new)"
  shows "new = parse_all (pending c @ bytes) \<and> pending c' = rest_of (pending c @ bytes) \<and> conn_ok c' \<and> reading c' = reading c"
proof -
  note r = read_some_pending [OF c assms(2)]
  let ?d = "pending_data (read_some bytes c)" and ?b = "pending c @ bytes"
  let ?n = "pending_data_len c + length bytes"
  have len: "length ?b = ?n" using c by (auto simp: conn_ok_def pending_def)
  have n: "?n \<le> 1024" using c assms(2) by (auto simp: conn_ok_def read_space_def)
  show ?thesis
  proof (cases "16 \<le> ?n")
    case True
    let ?c = "?n div 16 * 16"
    have cn: "?c \<le> ?n" by simp
    have "take 16 (drop (i * 16) ?d) = take 16 (drop (i * 16) ?b)" if "i < ?n div 16" for i
    proof -
      have "i * 16 + 16 \<le> ?n" using that by (metis Suc_leI add.commute div_times_less_eq_dividend dual_order.trans mult_Suc mult_le_mono1)
      then show ?thesis unfolding r(3) [symmetric] by (simp add: drop_take min_def)
    qed
    then have new: "new = parse_all ?b"
      using h True by (auto simp: handle_read_def Let_def r(2) parse_by_index [of ?b, unfolded len, symmetric])
    have "pending c' = take (?n - ?c) (memmove_front ?c (?n - ?c) ?d)"
      using h True by (auto simp: handle_read_def Let_def r(2) pending_def)
    also have "\<dots> = take (?n - ?c) (drop ?c ?d)" using r(1) n by (simp add: memmove_front_def)
    also have "\<dots> = drop ?c ?b" unfolding r(3) [symmetric] by (simp add: drop_take)
    also have "\<dots> = rest_of ?b" using drop_whole [of ?b] len by simp
    finally have "pending c' = rest_of ?b" .
    moreover have "conn_ok c'" "reading c' = reading c"
      using h True r(1,4) n
      by (auto simp: handle_read_def Let_def r(2) conn_ok_def length_memmove_front minus_div_mult_eq_mod)
    ultimately show ?thesis using new by simp
  next
    case False
    then have "c' = (read_some bytes c)\<lparr>pending_data_len := ?n\<rparr>" "new = []"
      using h by (auto simp: handle_read_def Let_def r(2))
    then show ?thesis using False r len by (simp add: pending_def conn_ok_def parse_all.simps rest_of.simps)
  qed
qed

subsection \<open>All reads of a connection\<close>

lemma serve_parse:
  assumes "conn_ok c" "reading c" "serve ks wire c = (c', out, wire')"
  shows "\<exists>used. wire = used @ wire' \<and> out = parse_all (pending c @ used) \<and> pending c' = rest_of (pending c @ used) \<and>
    conn_ok c' \<and> reading c' \<and> (length wire \<le> length ks \<longrightarrow> wire' = [])"
  using assms
proof (induction ks arbitrary: wire c c' out wire')
  case Nil
  have "length (pending c) < 16" using Nil(1) by (auto simp: conn_ok_def pending_def)
  then show ?case using Nil by (auto simp: parse_all.simps rest_of.simps)
next
  case (Cons k ks)
  show ?case
  proof (cases "wire = []")
    case True
    have "length (pending c) < 16" using Cons(2) by (auto simp: conn_ok_def pending_def)
    then show ?thesis using Cons(2-4) True by (auto simp: parse_all.simps rest_of.simps)
  next
    case False
    define n where "n = min (Suc k) (min (read_space c) (length wire))"
    have sp: "0 < read_space c" using Cons(2) by (simp add: conn_ok_def read_space_def)
    have n: "length (take n wire) = n" "n \<le> read_space c" "0 < n" using sp False by (auto simp: n_def)
    obtain c1 new where h: "handle_read False n (read_some (take n wire) c) = (c1, new)" by fastforce
    obtain c2 rest w2 where s: "serve ks (drop n wire) c1 = (c2, rest, w2)" using prod_cases3 by blast
    have "serve (k # ks) wire c = (c2, new @ rest, w2)"
      using Cons.prems(2) False h s by (simp only: serve.simps n_def [symmetric] Let_def) simp
    then have e: "c' = c2" "out = new @ rest" "wire' = w2" using Cons.prems(3) by simp_all
    have p: "new = parse_all (pending c @ take n wire)" "pending c1 = rest_of (pending c @ take n wire)" "conn_ok c1" "reading c1"
      using handle_read_parse [OF Cons(2), of "take n wire" c1 new] h n Cons.prems(2) by auto
    from Cons.IH [OF p(3,4) s] obtain used where u: "drop n wire = used @ w2" "rest = parse_all (pending c1 @ used)"
      "pending c2 = rest_of (pending c1 @ used)" "conn_ok c2" "reading c2"
      "length (drop n wire) \<le> length ks \<longrightarrow> w2 = []" by blast
    have "wire = (take n wire @ used) @ w2" using u(1) by (metis append.assoc append_take_drop_id)
    moreover have "out = parse_all (pending c @ take n wire @ used)"
      using parse_append(1) [of "pending c @ take n wire" used] e(2) p(1,2) u(2) by simp
    moreover have "pending c2 = rest_of (pending c @ take n wire @ used)"
      using parse_append(2) [of "pending c @ take n wire" used] p(2) u(3) by simp
    moreover have "length wire \<le> Suc (length ks) \<longrightarrow> w2 = []" using u(6) n(3) by auto
    ultimately show ?thesis using e u(4,5) by (intro exI [of _ "take n wire @ used"]) simp
  qed
qed

subsection \<open>Many connections\<close>

text \<open>
  The server accepts any number of connections; each handler runs to its end before the next one,
  and all push to one queue. A connection keeps the bytes it has received.
\<close>

datatype server_event =
  Accept "u8 list" "u8 list"
| Handshake nat "u8 list"
| Read nat "u8 list"
| Fail nat

record ServerState =
  conns :: "tcp_connection list"
  gpu_outputs :: "GpuOutput list"

text \<open>An event that the sockets can deliver in a state.\<close>

definition deliverable :: "ServerState \<Rightarrow> server_event \<Rightarrow> bool" where
  "deliverable s ev = (case ev of
      Accept junk16 junk1024 \<Rightarrow> length junk16 = 16 \<and> length junk1024 = 1024
    | Handshake i bytes \<Rightarrow> i < length (conns s) \<and> \<not> reading (conns s ! i) \<and> length bytes = 16
    | Read i bytes \<Rightarrow> i < length (conns s) \<and> reading (conns s ! i) \<and> length bytes \<le> read_space (conns s ! i)
    | Fail i \<Rightarrow> i < length (conns s))"

fun server_step :: "bool \<Rightarrow> ServerState \<Rightarrow> server_event \<Rightarrow> ServerState" where
  "server_step lb s (Accept junk16 junk1024) = s\<lparr>conns := conns s @ [tcp_connection_make junk16 junk1024]\<rparr>"
| "server_step lb s (Handshake i bytes) = s\<lparr>conns := (conns s)[i := handle_handshake lb bytes (conns s ! i)]\<rparr>"
| "server_step lb s (Read i bytes) =
     (let (c, new) = handle_read False (length bytes) (read_some bytes (conns s ! i))
      in s\<lparr>conns := (conns s)[i := c], gpu_outputs := gpu_outputs s @ new\<rparr>)"
| "server_step lb s (Fail i) = s\<lparr>conns := (conns s)[i := fst (handle_read True 0 (conns s ! i))]\<rparr>"

fun server_run :: "bool \<Rightarrow> ServerState \<Rightarrow> server_event list \<Rightarrow> ServerState option" where
  "server_run lb s [] = Some s"
| "server_run lb s (ev # evs) = (if deliverable s ev then server_run lb (server_step lb s ev) evs else None)"

text \<open>The bytes that connection \<open>i\<close> read after its handshake.\<close>

fun received :: "nat \<Rightarrow> server_event list \<Rightarrow> u8 list" where
  "received i [] = []"
| "received i (Read j bytes # evs) = (if j = i then bytes else []) @ received i evs"
| "received i (_ # evs) = received i evs"

definition server_inv :: "ServerState \<Rightarrow> (nat \<Rightarrow> u8 list) \<Rightarrow> bool" where
  "server_inv s r \<longleftrightarrow> (\<forall>i < length (conns s). conn_ok (conns s ! i) \<and> pending (conns s ! i) = rest_of (r i)) \<and>
     (\<forall>i \<ge> length (conns s). r i = []) \<and>
     mset (gpu_outputs s) = (\<Sum>i\<in>{..<length (conns s)}. mset (parse_all (r i)))"

lemma parse_Nil [simp]: "parse_all [] = []" "rest_of [] = []"
  by (simp_all add: parse_all.simps rest_of.simps)

lemma server_step_inv:
  assumes inv: "server_inv s r" and d: "deliverable s ev"
  shows "server_inv (server_step lb s ev) (\<lambda>i. r i @ received i [ev])"
proof (cases ev)
  case (Accept junk16 junk1024)
  then show ?thesis using inv d
    by (auto simp: server_inv_def deliverable_def nth_append tcp_connection_make_def conn_ok_def pending_def less_Suc_eq)
next
  case (Handshake j bytes)
  have "conn_ok (handle_handshake lb bytes c) = conn_ok c" "pending (handle_handshake lb bytes c) = pending c" for c
    by (auto simp: handle_handshake_def conn_ok_def pending_def Let_def)
  then show ?thesis using inv d Handshake by (auto simp: server_inv_def deliverable_def nth_list_update)
next
  case (Fail j)
  then show ?thesis using inv d
    by (auto simp: server_inv_def deliverable_def nth_list_update handle_read_def conn_ok_def pending_def)
next
  case (Read j bytes)
  let ?c = "conns s ! j"
  have j: "j < length (conns s)" "length bytes \<le> read_space ?c" using d Read by (auto simp: deliverable_def)
  have c: "conn_ok ?c" "pending ?c = rest_of (r j)" using inv j by (auto simp: server_inv_def)
  obtain c' new where h: "handle_read False (length bytes) (read_some bytes ?c) = (c', new)" by fastforce
  note p = handle_read_parse [OF c(1) j(2) h]
  have new: "mset (parse_all (r j @ bytes)) = mset (parse_all (r j)) + mset new"
    using p c(2) parse_append(1) [of "r j" bytes] by simp
  have "(\<Sum>i\<in>{..<length (conns s)}. mset (parse_all (r i @ received i [Read j bytes])))
      = mset (parse_all (r j @ bytes)) + (\<Sum>i\<in>{..<length (conns s)} - {j}. mset (parse_all (r i)))"
    using j(1) by (subst sum.remove [of _ j]) (auto intro!: sum.cong)
  also have "\<dots> = (\<Sum>i\<in>{..<length (conns s)}. mset (parse_all (r i))) + mset new"
    using j(1) new by (subst (2) sum.remove [of _ j]) auto
  finally have m: "(\<Sum>i\<in>{..<length (conns s)}. mset (parse_all (r i @ received i [Read j bytes])))
      = (\<Sum>i\<in>{..<length (conns s)}. mset (parse_all (r i))) + mset new" .
  have "rest_of (r j @ bytes) = pending c'" using p c(2) parse_append(2) [of "r j" bytes] by simp
  then show ?thesis using inv j p h Read m unfolding server_inv_def
    by (auto simp: nth_list_update)
qed

lemma received_append: "received i (evs @ evs') = received i evs @ received i evs'"
  by (induction i evs rule: received.induct) simp_all

lemma server_run_inv:
  assumes "server_run lb s evs = Some s'" "server_inv s r"
  shows "server_inv s' (\<lambda>i. r i @ received i evs)"
  using assms
proof (induction evs arbitrary: s r)
  case (Cons ev evs)
  then have d: "deliverable s ev" "server_run lb (server_step lb s ev) evs = Some s'" by (auto split: if_splits)
  have "received i [ev] @ received i evs = received i (ev # evs)" for i using received_append [of i "[ev]" evs] by simp
  with Cons.IH [OF d(2) server_step_inv [OF Cons.prems(2) d(1)]] show ?case by simp
qed simp

subsection \<open>The client\<close>

lemma client_loop_sent:
  assumes "inputs_queue s = []"
  shows "sent (client_loop batches s) = sent s @ concat (map encode (concat batches)) \<and> inputs_queue (client_loop batches s) = []"
  using assms
  by (induction batches s rule: client_loop.induct) (auto simp: client_iteration_def Let_def)

subsection \<open>Properties\<close>

text \<open>
  C24. Whatever the sizes of the reads, what the server has pushed to its queue is an initial part of
  what the client sent, in order and unchanged, and once all bytes are read it is everything. The
  number of pending bytes stays below 16, so there is always space to read.
\<close>

theorem net_transfer:
  assumes "length junk16 = 16" "length junk1024 = 1024"
    and "wire = sent (client_run lb batches \<lparr>inputs_queue = [], sent = []\<rparr>)"
    and "serve_connection lb junk16 junk1024 ks wire = (c, out, wire')"
  shows "(\<exists>rest. concat batches = out @ rest) \<and> conn_ok c \<and>
    (16 * length (concat batches) \<le> length ks \<longrightarrow> out = concat batches \<and> wire' = [])"
proof -
  let ?e = "concat (map encode (concat batches))"
  let ?c = "handle_handshake lb (handshake_bytes lb) (tcp_connection_make junk16 junk1024)"
  have w: "wire = handshake_bytes lb @ ?e"
    using client_loop_sent [of "client_start lb \<lparr>inputs_queue = [], sent = []\<rparr>" batches]
    unfolding assms(3) client_run_def by (simp add: client_start_def)
  have c: "conn_ok ?c" "reading ?c" "pending ?c = []" using assms(1,2)
    by (auto simp: handle_handshake_def tcp_connection_make_def conn_ok_def pending_def Let_def)
  have "serve ks ?e ?c = (c, out, wire')" using assms(4) by (simp add: serve_connection_def w)
  from serve_parse [OF c(1,2) this] c(3) obtain used where u: "?e = used @ wire'" "out = parse_all used" "conn_ok c"
    "length ?e \<le> length ks \<longrightarrow> wire' = []" by auto
  have p: "concat batches = out @ parse_all (rest_of used @ wire')"
    using parse_encode(1) [of "concat batches"] parse_append(1) [of used wire'] u(1,2) by simp
  have l: "length ?e = 16 * length (concat batches)" by (simp add: length_concat comp_def sum_list_triv)
  have "wire' = [] \<Longrightarrow> out = concat batches" using parse_encode(1) [of "concat batches"] u(1,2) by simp
  then show ?thesis using p u(3,4) l by auto
qed

theorem net_transfer_witness:
  "fst (snd (serve_connection True (replicate 16 0) (replicate 1024 0) (replicate 32 4)
     (sent (client_run True [[\<lparr>out_seed = 77, out_x = - 5, out_z = 9\<rparr>], [], [\<lparr>out_seed = 1, out_x = 2, out_z = 3\<rparr>]]
       \<lparr>inputs_queue = [], sent = []\<rparr>))))
   = [\<lparr>out_seed = 77, out_x = - 5, out_z = 9\<rparr>, \<lparr>out_seed = 1, out_x = 2, out_z = 3\<rparr>]"
proof -
  let ?b = "[[\<lparr>out_seed = 77, out_x = - 5, out_z = 9\<rparr>], [], [\<lparr>out_seed = 1, out_x = 2, out_z = 3\<rparr>]] :: GpuOutput list list"
  let ?w = "sent (client_run True ?b \<lparr>inputs_queue = [], sent = []\<rparr>)"
  obtain c out w' where s: "serve_connection True (replicate 16 0) (replicate 1024 0) (replicate 32 4) ?w = (c, out, w')"
    using prod_cases3 by blast
  from net_transfer [OF _ _ refl s] show ?thesis unfolding s by simp
qed

text \<open>
  A client of the other build (large biomes against small) is turned away: nothing is read
  from it and nothing reaches the queue.
\<close>

lemma net_other_build:
  assumes "lb' \<noteq> lb" "wire = sent (client_run lb' batches \<lparr>inputs_queue = [], sent = []\<rparr>)" "length junk16 = 16"
  shows "\<exists>c. serve_connection lb junk16 junk1024 ks wire = (c, [], drop 16 wire) \<and> \<not> reading c"
proof -
  let ?c = "handle_handshake lb (handshake_bytes lb') (tcp_connection_make junk16 junk1024)"
  have "take 16 wire = handshake_bytes lb'"
    using client_loop_sent [of "client_start lb' \<lparr>inputs_queue = [], sent = []\<rparr>" batches]
    unfolding assms(2) client_run_def by (simp add: client_start_def)
  moreover have "\<not> reading ?c" using assms(1,3)
    by (simp add: handle_handshake_def tcp_connection_make_def Let_def handshake_bytes_inject)
  moreover have "serve ks w ?c = (?c, [], w)" for w using calculation(2) by (cases ks) simp_all
  ultimately show ?thesis by (simp add: serve_connection_def)
qed

lemma net_other_build_witness:
  "\<exists>c. serve_connection False (replicate 16 0) (replicate 1024 0) [5, 5]
     (sent (client_run True [[\<lparr>out_seed = 77, out_x = - 5, out_z = 9\<rparr>]] \<lparr>inputs_queue = [], sent = []\<rparr>))
   = (c, [], drop 16 (sent (client_run True [[\<lparr>out_seed = 77, out_x = - 5, out_z = 9\<rparr>]] \<lparr>inputs_queue = [], sent = []\<rparr>)))
   \<and> \<not> reading c"
  by (rule net_other_build) simp_all

text \<open>
  C28. With any number of connections and any order of their events, the queue of the server holds
  exactly the structs that the bytes of the connections spell, each connection read on its own.
\<close>

theorem server_queue_contents:
  assumes "server_run lb \<lparr>conns = [], gpu_outputs = []\<rparr> evs = Some s"
  shows "mset (gpu_outputs s) = (\<Sum>i\<in>{..<length (conns s)}. mset (parse_all (received i evs))) \<and>
    (\<forall>c \<in> set (conns s). pending_data_len c < 16)"
proof -
  have "server_inv \<lparr>conns = [], gpu_outputs = []\<rparr> (\<lambda>_. [])" by (simp add: server_inv_def)
  from server_run_inv [OF assms this] show ?thesis
    by (auto simp: server_inv_def conn_ok_def in_set_conv_nth)
qed

theorem server_queue_contents_witness:
  "\<exists>s. server_run False \<lparr>conns = [], gpu_outputs = []\<rparr>
     [Accept (replicate 16 0) (replicate 1024 0), Handshake 0 (handshake_bytes False), Read 0 (replicate 16 0)] = Some s \<and>
   mset (gpu_outputs s) = (\<Sum>i\<in>{..<length (conns s)}. mset (parse_all (received i
     [Accept (replicate 16 0) (replicate 1024 0), Handshake 0 (handshake_bytes False), Read 0 (replicate 16 0)])))"
proof -
  let ?evs = "[Accept (replicate 16 0) (replicate 1024 0), Handshake 0 (handshake_bytes False), Read 0 (replicate 16 0)]"
  have "\<exists>s. server_run False \<lparr>conns = [], gpu_outputs = []\<rparr> ?evs = Some s"
    by (simp add: deliverable_def tcp_connection_make_def handle_handshake_def read_space_def Let_def)
  then show ?thesis using server_queue_contents by blast
qed

end
