(* ===== verification/Args.thy ===== *)
theory Args
  imports Common
begin

text \<open>
  The command line (\<open>main.cpp\<close>): the options, their checks and the configuration that the program
  starts with. Every message that ends the parse is a constructor of \<open>arg_error\<close>.
\<close>

subsection \<open>Numbers\<close>

definition is_digit :: "char \<Rightarrow> bool" where
  "is_digit c \<longleftrightarrow> 48 \<le> (of_char c :: nat) \<and> (of_char c :: nat) \<le> 57"

definition digit_val :: "char \<Rightarrow> nat" where
  "digit_val c = of_char c - 48"

definition digits_val :: "string \<Rightarrow> nat" where
  "digits_val = foldl (\<lambda>n c. 10 * n + digit_val c) 0"

text \<open>
  \<open>std::from_chars\<close> in base 10 for a signed type of the given width: a minus sign is allowed, no
  plus and no white space; the value and the characters that follow it, or an error code.
\<close>

definition from_chars :: "nat \<Rightarrow> string \<Rightarrow> (int \<times> string) option" where
  "from_chars width s =
     (let neg = (s \<noteq> [] \<and> hd s = CHR ''-'');
          t = (if neg then tl s else s);
          ds = takeWhile is_digit t;
          v = (if neg then - int (digits_val ds) else int (digits_val ds))
      in if ds = [] then None
         else if - (2 ^ (width - 1)) \<le> v \<and> v < 2 ^ (width - 1) then Some (v, dropWhile is_digit t)
         else None)"

text \<open>Decimal printing, as \<open>printf\<close> does it for \<open>%d\<close> and its wider forms.\<close>

definition digit_char :: "nat \<Rightarrow> char" where
  "digit_char n = char_of (48 + n)"

fun show_nat :: "nat \<Rightarrow> string" where
  "show_nat n = (if n < 10 then [digit_char n] else show_nat (n div 10) @ [digit_char (n mod 10)])"

declare show_nat.simps [simp del]

definition show_int :: "int \<Rightarrow> string" where
  "show_int i = (if i < 0 then CHR ''-'' # show_nat (nat (- i)) else show_nat (nat i))"

subsection \<open>The options\<close>

text \<open>\<open>split_address\<close>: the last colon separates the host from the service.\<close>

definition split_address :: "string \<Rightarrow> HostService option" where
  "split_address address =
     (if CHR '':'' \<notin> set address then None
      else Some \<lparr>host = rev (tl (dropWhile (\<lambda>c. c \<noteq> CHR '':'') (rev address))),
                 service = rev (takeWhile (\<lambda>c. c \<noteq> CHR '':'') (rev address))\<rparr>)"

record Args =
  devices :: "int list"
  threads :: "int option"
  client :: "HostService option"
  server :: "HostService option"
  output_file :: "string option"
  start_seed :: "int option"
  min_size :: "int option"

datatype arg_error =
  Duplicate string
| Missing string
| Invalid string string
| Unknown string
| Exclusive string string
| Useless string

text \<open>\<open>parse_argument_int\<close>: the value, or the error it reports; \<open>rest\<close> are the arguments that follow.\<close>

definition parse_argument_int ::
    "nat \<Rightarrow> (int \<Rightarrow> bool) \<Rightarrow> int option \<Rightarrow> string \<Rightarrow> string list \<Rightarrow> arg_error + int" where
  "parse_argument_int width test out option rest =
     (if out \<noteq> None then Inl (Duplicate option)
      else case rest of
             [] \<Rightarrow> Inl (Missing option)
           | arg_val # _ \<Rightarrow>
               (case from_chars width arg_val of
                  None \<Rightarrow> Inl (Invalid option arg_val)
                | Some (val, remaining) \<Rightarrow>
                    if remaining \<noteq> [] \<or> \<not> test val then Inl (Invalid option arg_val) else Inr val))"

text \<open>The loop over the list of devices.\<close>

function parse_devices :: "string \<Rightarrow> int list \<Rightarrow> int list option" where
  "parse_devices first devs =
     (if first = [] then Some devs
      else case from_chars 32 first of
             None \<Rightarrow> None
           | Some (device, remaining) \<Rightarrow>
               if device < 0 \<or> device \<in> set devs \<or> remaining \<noteq> [] \<and> hd remaining \<noteq> CHR '','' then None
               else parse_devices (tl remaining) (devs @ [device]))"
  by pat_completeness auto
termination
proof (relation "measure (\<lambda>(first, devs). length first)", goal_cases)
  case (2 first devs x device remaining)
  then have "length remaining \<le> length first" "first \<noteq> []"
    by (auto simp: from_chars_def Let_def split: if_splits intro: order_trans [OF length_dropWhile_le])
  then show ?case by (cases remaining) auto
qed simp

declare parse_devices.simps [simp del]

text \<open>The options \<open>--client\<close> and \<open>--server\<close>.\<close>

definition parse_address :: "HostService option \<Rightarrow> string \<Rightarrow> string list \<Rightarrow> arg_error + HostService" where
  "parse_address out arg rest =
     (if out \<noteq> None then Inl (Duplicate arg)
      else case rest of
             [] \<Rightarrow> Inl (Missing arg)
           | s # _ \<Rightarrow> (case split_address s of None \<Rightarrow> Inl (Invalid arg s) | Some address \<Rightarrow> Inr address))"

text \<open>The loop over the arguments.\<close>

fun parse_loop :: "string list \<Rightarrow> Args \<Rightarrow> arg_error + Args" where
  "parse_loop [] args = Inr args"
| "parse_loop (arg # rest) args =
     (if arg = ''--device''
      then (case rest of
              [] \<Rightarrow> Inl (Missing arg)
            | s # rest' \<Rightarrow>
                (case parse_devices s (devices args) of
                   None \<Rightarrow> Inl (Invalid arg s)
                 | Some ds \<Rightarrow> parse_loop rest' (args\<lparr>devices := ds\<rparr>)))
      else if arg = ''--threads''
      then (case parse_argument_int 32 (\<lambda>n. 1 \<le> n \<and> n \<le> 1024) (threads args) arg rest of
              Inl e \<Rightarrow> Inl e
            | Inr n \<Rightarrow> parse_loop (tl rest) (args\<lparr>threads := Some n\<rparr>))
      else if arg = ''--client''
      then (case parse_address (client args) arg rest of
              Inl e \<Rightarrow> Inl e
            | Inr address \<Rightarrow> parse_loop (tl rest) (args\<lparr>client := Some address\<rparr>))
      else if arg = ''--server''
      then (case parse_address (server args) arg rest of
              Inl e \<Rightarrow> Inl e
            | Inr address \<Rightarrow> parse_loop (tl rest) (args\<lparr>server := Some address\<rparr>))
      else if arg = ''--output''
      then (if output_file args \<noteq> None then Inl (Duplicate arg)
            else case rest of
                   [] \<Rightarrow> Inl (Missing arg)
                 | s # rest' \<Rightarrow> parse_loop rest' (args\<lparr>output_file := Some s\<rparr>))
      else if arg = ''--start''
      then (case parse_argument_int 64 (\<lambda>n. True) (start_seed args) arg rest of
              Inl e \<Rightarrow> Inl e
            | Inr n \<Rightarrow> parse_loop (tl rest) (args\<lparr>start_seed := Some n\<rparr>))
      else if arg = ''--size''
      then (case parse_argument_int 32 (\<lambda>n. 0 \<le> n) (min_size args) arg rest of
              Inl e \<Rightarrow> Inl e
            | Inr n \<Rightarrow> parse_loop (tl rest) (args\<lparr>min_size := Some n\<rparr>))
      else Inl (Unknown arg))"

text \<open>The checks after the loop.\<close>

definition parse_checks :: "Args \<Rightarrow> arg_error + Args" where
  "parse_checks args =
     (if threads args \<noteq> None \<and> client args \<noteq> None then Inl (Exclusive ''--threads'' ''--client'')
      else if output_file args \<noteq> None \<and> client args \<noteq> None then Inl (Exclusive ''--output'' ''--client'')
      else let args = (if devices args = [] \<and> server args = None then args\<lparr>devices := devices args @ [0]\<rparr> else args)
           in if start_seed args \<noteq> None \<and> devices args = [] then Inl (Useless ''--start'')
              else if min_size args \<noteq> None \<and> threads args = None \<and> client args \<noteq> None then Inl (Useless ''--size'')
              else Inr args)"

definition no_args :: Args where
  "no_args = \<lparr>devices = [], threads = None, client = None, server = None, output_file = None,
     start_seed = None, min_size = None\<rparr>"

text \<open>\<open>Args::parse\<close>, on the arguments after the program's name.\<close>

definition parse :: "string list \<Rightarrow> arg_error + Args" where
  "parse argv = (case parse_loop argv no_args of Inl e \<Rightarrow> Inl e | Inr args \<Rightarrow> parse_checks args)"

subsection \<open>The configuration\<close>

record Build =
  no_gpu :: bool
  no_cpu :: bool
  no_net :: bool
  large_biomes :: bool

record Config =
  cfg_devices :: "int list"
  cfg_threads :: int
  cfg_min_size :: int
  cfg_client :: "HostService option"
  cfg_server :: "HostService option"
  cfg_output :: "string option"
  cfg_start :: "int option"

datatype startup_error = BadArgs arg_error | NoGpu | NoCpu | NoNet | NoOutputFile string

text \<open>
  The start of \<open>main_inner\<close> up to the creation of the threads; \<open>can_open\<close> says which files can be
  opened for appending. The output file is opened exactly when there are cpu threads.
\<close>

definition main_start :: "Build \<Rightarrow> (string \<Rightarrow> bool) \<Rightarrow> string list \<Rightarrow> startup_error + Config" where
  "main_start build can_open argv =
     (case parse argv of
        Inl e \<Rightarrow> Inl (BadArgs e)
      | Inr args \<Rightarrow>
          let n = (case threads args of Some n \<Rightarrow> n | None \<Rightarrow> if client args \<noteq> None then 0 else 1);
              size = (case min_size args of Some n \<Rightarrow> n | None \<Rightarrow> 10000000 * (if large_biomes build then 16 else 1));
              path = (case output_file args of Some p \<Rightarrow> p | None \<Rightarrow> ''output.txt'')
          in if no_gpu build \<and> devices args \<noteq> [] then Inl NoGpu
             else if no_cpu build \<and> n \<noteq> 0 then Inl NoCpu
             else if no_net build \<and> (client args \<noteq> None \<or> server args \<noteq> None) then Inl NoNet
             else if n \<noteq> 0 \<and> \<not> can_open path then Inl (NoOutputFile path)
             else Inr \<lparr>cfg_devices = devices args, cfg_threads = n, cfg_min_size = size, cfg_client = client args,
                    cfg_server = server args, cfg_output = (if n \<noteq> 0 then Some path else None), cfg_start = start_seed args\<rparr>)"

subsection \<open>Printing and reading numbers\<close>

lemma of_char_digit: "n < 10 \<Longrightarrow> (of_char (digit_char n) :: nat) = 48 + n"
  by (simp add: digit_char_def)

lemma digit_char [simp]: "n < 10 \<Longrightarrow> is_digit (digit_char n)" "n < 10 \<Longrightarrow> digit_val (digit_char n) = n"
  by (simp_all add: is_digit_def digit_val_def of_char_digit)

lemma digits_val_snoc: "digits_val (ds @ [c]) = 10 * digits_val ds + digit_val c"
  by (simp add: digits_val_def)

lemma show_nat_digits: "\<forall>c \<in> set (show_nat n). is_digit c" "show_nat n \<noteq> []"
proof (induction n rule: show_nat.induct)
  case (1 n)
  show "\<forall>c \<in> set (show_nat n). is_digit c" using 1(1) by (subst show_nat.simps) auto
  show "show_nat n \<noteq> []" by (subst show_nat.simps) simp
qed

lemma digits_val_show: "digits_val (show_nat n) = n"
proof (induction n rule: show_nat.induct)
  case (1 n)
  show ?case
  proof (cases "n < 10")
    case True
    then show ?thesis by (subst show_nat.simps) (simp add: digits_val_def)
  next
    case False
    then show ?thesis using 1 by (subst show_nat.simps) (simp add: digits_val_snoc)
  qed
qed

lemma takeWhile_show:
  assumes "rest = [] \<or> \<not> is_digit (hd rest)"
  shows "takeWhile is_digit (show_nat n @ rest) = show_nat n" "dropWhile is_digit (show_nat n @ rest) = rest"
proof -
  have "takeWhile is_digit rest = []" "dropWhile is_digit rest = rest" using assms by (cases rest; simp)+
  then show "takeWhile is_digit (show_nat n @ rest) = show_nat n" "dropWhile is_digit (show_nat n @ rest) = rest"
    using show_nat_digits(1) [of n] by (simp_all add: takeWhile_append2 dropWhile_append2)
qed

lemma is_digit_minus: "\<not> is_digit (CHR ''-'')"
  by (simp add: is_digit_def)

lemma hd_show_nat: "hd (show_nat n @ rest) \<noteq> CHR ''-''"
  using show_nat_digits [of n] is_digit_minus by (cases "show_nat n") auto

lemma from_chars_show:
  assumes "- (2 ^ (width - 1)) \<le> v" "v < 2 ^ (width - 1)" "rest = [] \<or> \<not> is_digit (hd rest)"
  shows "from_chars width (show_int v @ rest) = Some (v, rest)"
proof (cases "v < 0")
  case True
  then show ?thesis using assms takeWhile_show [OF assms(3), of "nat (- v)"] show_nat_digits(2) [of "nat (- v)"]
    by (simp add: from_chars_def show_int_def Let_def digits_val_show)
next
  case False
  then show ?thesis using assms takeWhile_show [OF assms(3), of "nat v"] show_nat_digits(2) [of "nat v"] hd_show_nat [of "nat v" rest]
    by (simp add: from_chars_def show_int_def Let_def digits_val_show)
qed

lemma from_chars_range: "from_chars width s = Some (v, rest) \<Longrightarrow> - (2 ^ (width - 1)) \<le> v \<and> v < 2 ^ (width - 1)"
  by (auto simp: from_chars_def Let_def split: if_splits)

subsection \<open>What a successful parse guarantees\<close>

definition address_ok :: "HostService \<Rightarrow> bool" where
  "address_ok a \<longleftrightarrow> CHR '':'' \<notin> set (service a)"

definition fields_ok :: "Args \<Rightarrow> bool" where
  "fields_ok a \<longleftrightarrow> distinct (devices a) \<and> (\<forall>d \<in> set (devices a). 0 \<le> d \<and> d < 2 ^ 31) \<and>
     (\<forall>n. threads a = Some n \<longrightarrow> 1 \<le> n \<and> n \<le> 1024) \<and>
     (\<forall>n. start_seed a = Some n \<longrightarrow> - (2 ^ 63) \<le> n \<and> n < 2 ^ 63) \<and>
     (\<forall>n. min_size a = Some n \<longrightarrow> 0 \<le> n \<and> n < 2 ^ 31) \<and>
     (\<forall>h. client a = Some h \<longrightarrow> address_ok h) \<and> (\<forall>h. server a = Some h \<longrightarrow> address_ok h)"

definition args_ok :: "Args \<Rightarrow> bool" where
  "args_ok a \<longleftrightarrow> fields_ok a \<and>
     (client a \<noteq> None \<longrightarrow> threads a = None \<and> output_file a = None \<and> min_size a = None) \<and>
     (devices a = [] \<longrightarrow> server a \<noteq> None \<and> start_seed a = None)"

lemma parse_devices_ok:
  assumes "parse_devices s ds = Some ds'" "distinct ds" "\<forall>d \<in> set ds. 0 \<le> d \<and> d < 2 ^ 31"
  shows "distinct ds' \<and> (\<forall>d \<in> set ds'. 0 \<le> d \<and> d < 2 ^ 31)"
  using assms
proof (induction s ds rule: parse_devices.induct)
  case (1 s ds)
  show ?case
  proof (cases "s = []")
    case True
    then show ?thesis using 1(2-4) by (simp add: parse_devices.simps)
  next
    case False
    then obtain d rest where f: "from_chars 32 s = Some (d, rest)"
      and c: "\<not> (d < 0 \<or> d \<in> set ds \<or> rest \<noteq> [] \<and> hd rest \<noteq> CHR '','')"
      and r: "parse_devices (tl rest) (ds @ [d]) = Some ds'"
      using 1(2) by (subst (asm) parse_devices.simps) (auto split: option.splits if_splits prod.splits)
    have "distinct (ds @ [d])" using 1(3) c by simp
    moreover have "\<forall>d \<in> set (ds @ [d]). 0 \<le> d \<and> d < 2 ^ 31" using 1(4) c from_chars_range [OF f] by simp
    ultimately show ?thesis by (rule 1(1) [OF False f refl c r])
  qed
qed

lemma split_address_ok: "split_address s = Some h \<Longrightarrow> address_ok h"
  by (auto simp: split_address_def address_ok_def split: if_splits dest: set_takeWhileD)

lemma parse_address_ok: "parse_address out arg rest = Inr h \<Longrightarrow> address_ok h"
  by (auto simp: parse_address_def split: if_splits list.splits option.splits dest: split_address_ok)

lemma parse_argument_int_ok:
  "parse_argument_int width test out arg rest = Inr n \<Longrightarrow> - (2 ^ (width - 1)) \<le> n \<and> n < 2 ^ (width - 1) \<and> test n"
  by (auto simp: parse_argument_int_def split: if_splits list.splits option.splits dest: from_chars_range)

text \<open>One option of the loop, by its kind.\<close>

lemma parse_loop_int:
  assumes "(case parse_argument_int width test out arg rest of Inl e \<Rightarrow> Inl e | Inr n \<Rightarrow> parse_loop (tl rest) (f n)) = Inr a'"
  obtains n where "parse_argument_int width test out arg rest = Inr n" "parse_loop (tl rest) (f n) = Inr a'"
  using assms by (auto split: sum.splits)

lemma parse_loop_address:
  assumes "(case parse_address out arg rest of Inl e \<Rightarrow> Inl e | Inr h \<Rightarrow> parse_loop (tl rest) (f h)) = Inr a'"
  obtains h where "parse_address out arg rest = Inr h" "parse_loop (tl rest) (f h) = Inr a'"
  using assms by (auto split: sum.splits)

lemma parse_loop_ok: "parse_loop argv a = Inr a' \<Longrightarrow> fields_ok a \<Longrightarrow> fields_ok a'"
proof (induction argv a rule: parse_loop.induct)
  case (2 arg rest args)
  note ok = 2(9) and p = 2(8)
  consider "arg = ''--device''" | "arg = ''--threads''" | "arg = ''--client''" | "arg = ''--server''"
    | "arg = ''--output''" | "arg = ''--start''" | "arg = ''--size''"
    using p by (auto split: if_splits)
  then show ?case
  proof cases
    case 1
    then obtain s rest' ds where r: "rest = s # rest'" "parse_devices s (devices args) = Some ds"
      "parse_loop rest' (args\<lparr>devices := ds\<rparr>) = Inr a'"
      using p by (auto split: list.splits option.splits)
    have "fields_ok (args\<lparr>devices := ds\<rparr>)"
      using ok parse_devices_ok [OF r(2)] by (simp add: fields_ok_def)
    then show ?thesis using 2(1) [OF 1 r(1) r(2) r(3)] by simp
  next
    case 2
    then obtain n where n: "parse_argument_int 32 (\<lambda>n. 1 \<le> n \<and> n \<le> 1024) (threads args) arg rest = Inr n"
      "parse_loop (tl rest) (args\<lparr>threads := Some n\<rparr>) = Inr a'" using p by (auto elim: parse_loop_int)
    have "fields_ok (args\<lparr>threads := Some n\<rparr>)" using ok parse_argument_int_ok [OF n(1)] by (simp add: fields_ok_def)
    then show ?thesis using "2.IH"(2) 2 n by simp
  next
    case 3
    then obtain h where n: "parse_address (client args) arg rest = Inr h"
      "parse_loop (tl rest) (args\<lparr>client := Some h\<rparr>) = Inr a'" using p by (auto elim: parse_loop_address)
    have "fields_ok (args\<lparr>client := Some h\<rparr>)" using ok parse_address_ok [OF n(1)] by (simp add: fields_ok_def)
    then show ?thesis using "2.IH"(3) 3 n by simp
  next
    case 4
    then obtain h where n: "parse_address (server args) arg rest = Inr h"
      "parse_loop (tl rest) (args\<lparr>server := Some h\<rparr>) = Inr a'" using p by (auto elim: parse_loop_address)
    have "fields_ok (args\<lparr>server := Some h\<rparr>)" using ok parse_address_ok [OF n(1)] by (simp add: fields_ok_def)
    then show ?thesis using "2.IH"(4) 4 n by simp
  next
    case 5
    then obtain s rest' where n: "rest = s # rest'" "output_file args = None"
      "parse_loop rest' (args\<lparr>output_file := Some s\<rparr>) = Inr a'" using p by (auto split: list.splits if_splits)
    have "fields_ok (args\<lparr>output_file := Some s\<rparr>)" using ok by (simp add: fields_ok_def)
    then show ?thesis using "2.IH"(5) 5 n by simp
  next
    case 6
    then obtain n where n: "parse_argument_int 64 (\<lambda>n. True) (start_seed args) arg rest = Inr n"
      "parse_loop (tl rest) (args\<lparr>start_seed := Some n\<rparr>) = Inr a'" using p by (auto elim: parse_loop_int)
    have "fields_ok (args\<lparr>start_seed := Some n\<rparr>)" using ok parse_argument_int_ok [OF n(1)] by (simp add: fields_ok_def)
    then show ?thesis using "2.IH"(6) 6 n by simp
  next
    case 7
    then obtain n where n: "parse_argument_int 32 (\<lambda>n. 0 \<le> n) (min_size args) arg rest = Inr n"
      "parse_loop (tl rest) (args\<lparr>min_size := Some n\<rparr>) = Inr a'" using p by (auto elim: parse_loop_int)
    have "fields_ok (args\<lparr>min_size := Some n\<rparr>)" using ok parse_argument_int_ok [OF n(1)] by (simp add: fields_ok_def)
    then show ?thesis using "2.IH"(7) 7 n by simp
  qed
qed simp

lemma parse_ok: "parse argv = Inr a \<Longrightarrow> args_ok a"
proof -
  assume p: "parse argv = Inr a"
  then obtain a0 where l: "parse_loop argv no_args = Inr a0" "parse_checks a0 = Inr a"
    by (auto simp: parse_def split: sum.splits)
  have "fields_ok no_args" by (simp add: fields_ok_def no_args_def)
  then have "fields_ok a0" using parse_loop_ok [OF l(1)] by blast
  then show "args_ok a" using l(2)
    by (auto simp: parse_checks_def args_ok_def fields_ok_def Let_def split: if_splits)
qed

subsection \<open>Every admissible configuration can be written\<close>

fun show_devices :: "int list \<Rightarrow> string" where
  "show_devices [] = []"
| "show_devices [d] = show_int d"
| "show_devices (d # ds) = show_int d @ CHR '','' # show_devices ds"

definition show_address :: "HostService \<Rightarrow> string" where
  "show_address h = host h @ CHR '':'' # service h"

definition option_args :: "string \<Rightarrow> ('a \<Rightarrow> string) \<Rightarrow> 'a option \<Rightarrow> string list" where
  "option_args flag f v = (case v of None \<Rightarrow> [] | Some x \<Rightarrow> [flag, f x])"

definition render :: "Args \<Rightarrow> string list" where
  "render a = (if devices a = [] then [] else [''--device'', show_devices (devices a)]) @
     option_args ''--threads'' show_int (threads a) @
     option_args ''--client'' show_address (client a) @
     option_args ''--server'' show_address (server a) @
     option_args ''--output'' id (output_file a) @
     option_args ''--start'' show_int (start_seed a) @
     option_args ''--size'' show_int (min_size a)"

lemma show_int_not_Nil [simp]: "show_int v \<noteq> []"
  using show_nat_digits(2) by (simp add: show_int_def)

lemma from_chars_comma:
  "0 \<le> d \<Longrightarrow> d < 2 ^ 31 \<Longrightarrow> from_chars 32 (show_int d @ CHR '','' # s) = Some (d, CHR '','' # s)"
  by (rule from_chars_show) (simp_all add: is_digit_def)

lemma from_chars_end:
  "- (2 ^ (width - 1)) \<le> v \<Longrightarrow> v < 2 ^ (width - 1) \<Longrightarrow> from_chars width (show_int v) = Some (v, [])"
  using from_chars_show [of width v "[]"] by simp

lemma parse_show_devices:
  assumes "ds \<noteq> []" "distinct (acc @ ds)" "\<forall>d \<in> set ds. 0 \<le> d \<and> d < 2 ^ 31"
  shows "parse_devices (show_devices ds) acc = Some (acc @ ds)"
  using assms
proof (induction ds arbitrary: acc rule: show_devices.induct)
  case (2 d)
  then have "from_chars 32 (show_int d) = Some (d, [])" using from_chars_end [of 32 d] by simp
  then show ?case using 2 by (subst parse_devices.simps) (simp add: parse_devices.simps [of "[]"])
next
  case (3 d e es)
  have "from_chars 32 (show_int d @ CHR '','' # show_devices (e # es)) = Some (d, CHR '','' # show_devices (e # es))"
    using 3(4) by (intro from_chars_comma) simp_all
  moreover have "parse_devices (show_devices (e # es)) (acc @ [d]) = Some ((acc @ [d]) @ e # es)"
    using 3(3,4) by (intro 3(1)) auto
  ultimately show ?case using 3(3,4) by (subst parse_devices.simps) simp
qed simp

lemma split_show_address: "address_ok h \<Longrightarrow> split_address (show_address h) = Some h"
  by (simp add: split_address_def show_address_def address_ok_def takeWhile_append2 dropWhile_append2
      takeWhile_append dropWhile_append)

lemma parse_int_show:
  assumes "- (2 ^ (width - 1)) \<le> v" "v < 2 ^ (width - 1)" "test v"
  shows "parse_argument_int width test None arg (show_int v # rest) = Inr v"
  using from_chars_end [OF assms(1,2)] assms(3) by (simp add: parse_argument_int_def)

lemma parse_address_show: "address_ok h \<Longrightarrow> parse_address None arg (show_address h # rest) = Inr h"
  by (simp add: parse_address_def split_show_address)

lemma parse_loop_render:
  assumes "fields_ok a"
  shows "parse_loop (render a) no_args = Inr a"
proof -
  note ok = assms [unfolded fields_ok_def]
  let ?a1 = "no_args\<lparr>devices := devices a\<rparr>"
  let ?a2 = "?a1\<lparr>threads := threads a\<rparr>"
  let ?a3 = "?a2\<lparr>client := client a\<rparr>"
  let ?a4 = "?a3\<lparr>server := server a\<rparr>"
  let ?a5 = "?a4\<lparr>output_file := output_file a\<rparr>"
  let ?a6 = "?a5\<lparr>start_seed := start_seed a\<rparr>"
  have 1: "parse_loop ((if devices a = [] then [] else [''--device'', show_devices (devices a)]) @ rest) no_args = parse_loop rest ?a1" for rest
    using ok parse_show_devices [of "devices a" "[]"] by (auto simp: no_args_def)
  have 2: "parse_loop (option_args ''--threads'' show_int (threads a) @ rest) ?a1 = parse_loop rest ?a2" for rest
    using ok by (cases "threads a") (auto simp: option_args_def no_args_def parse_int_show)
  have 3: "parse_loop (option_args ''--client'' show_address (client a) @ rest) ?a2 = parse_loop rest ?a3" for rest
    using ok by (cases "client a") (auto simp: option_args_def no_args_def parse_address_show)
  have 4: "parse_loop (option_args ''--server'' show_address (server a) @ rest) ?a3 = parse_loop rest ?a4" for rest
    using ok by (cases "server a") (auto simp: option_args_def no_args_def parse_address_show)
  have 5: "parse_loop (option_args ''--output'' id (output_file a) @ rest) ?a4 = parse_loop rest ?a5" for rest
    by (cases "output_file a") (auto simp: option_args_def no_args_def)
  have 6: "parse_loop (option_args ''--start'' show_int (start_seed a) @ rest) ?a5 = parse_loop rest ?a6" for rest
    using ok by (cases "start_seed a") (auto simp: option_args_def no_args_def parse_int_show)
  have 7: "parse_loop (option_args ''--size'' show_int (min_size a)) ?a6 = Inr (?a6\<lparr>min_size := min_size a\<rparr>)"
    using ok by (cases "min_size a") (auto simp: option_args_def no_args_def parse_int_show)
  show ?thesis unfolding render_def 1 2 3 4 5 6 7 by (simp add: no_args_def)
qed

lemma parse_render: "args_ok a \<Longrightarrow> parse (render a) = Inr a"
  using parse_loop_render [of a] by (auto simp: parse_def parse_checks_def args_ok_def Let_def)

subsection \<open>Properties\<close>

text \<open>
  C26. The command line is parsed exactly: a configuration comes out of some command line if and only
  if its fields are in range, its devices are distinct and it breaks no rule between the options,
  and then writing its options out and parsing them gives it back.
\<close>

theorem parse_accepts_exactly:
  "((\<exists>argv. parse argv = Inr a) \<longleftrightarrow> args_ok a) \<and> (args_ok a \<longrightarrow> parse (render a) = Inr a)"
  using parse_ok parse_render by blast

theorem parse_accepts_exactly_witness:
  "parse (render \<lparr>devices = [0, 2], threads = Some 8, client = None, server = None, output_file = Some ''o.txt'',
       start_seed = Some (- 12), min_size = None\<rparr>) =
     Inr \<lparr>devices = [0, 2], threads = Some 8, client = None, server = None, output_file = Some ''o.txt'',
       start_seed = Some (- 12), min_size = None\<rparr>"
  using parse_accepts_exactly [of "\<lparr>devices = [0, 2], threads = Some 8, client = None, server = None,
       output_file = Some ''o.txt'', start_seed = Some (- 12), min_size = None\<rparr>"]
  by (simp add: args_ok_def fields_ok_def)

text \<open>
  C31. A program that starts has work and a use for it: it has a source of candidates (a device or
  connected clients) and something that takes them (cpu threads or a server), never both takers;
  the output file is open exactly when cpu threads write to it.
\<close>

theorem start_has_work:
  assumes "main_start build can_open argv = Inr cfg"
  shows "(cfg_devices cfg \<noteq> [] \<or> cfg_server cfg \<noteq> None) \<and> (cfg_threads cfg = 0 \<longleftrightarrow> cfg_client cfg \<noteq> None) \<and>
    0 \<le> cfg_threads cfg \<and> cfg_threads cfg \<le> 1024 \<and> 0 \<le> cfg_min_size cfg \<and> cfg_min_size cfg < 2 ^ 31 \<and>
    (cfg_output cfg \<noteq> None \<longleftrightarrow> cfg_threads cfg \<noteq> 0) \<and>
    (no_gpu build \<longrightarrow> cfg_devices cfg = []) \<and> (no_cpu build \<longrightarrow> cfg_threads cfg = 0) \<and>
    (no_net build \<longrightarrow> cfg_client cfg = None \<and> cfg_server cfg = None)"
proof -
  obtain a where p: "parse argv = Inr a" using assms by (auto simp: main_start_def split: sum.splits)
  note ok = parse_ok [OF p, unfolded args_ok_def fields_ok_def]
  show ?thesis
    using assms ok unfolding main_start_def p sum.case Let_def
    by (cases "threads a"; cases "min_size a"; cases "client a") (auto split: if_splits)
qed

theorem start_has_work_witness:
  "\<exists>cfg. main_start \<lparr>no_gpu = False, no_cpu = False, no_net = False, large_biomes = True\<rparr> (\<lambda>_. True) [] = Inr cfg \<and>
     cfg_threads cfg \<le> 1024 \<and> (cfg_devices cfg \<noteq> [] \<or> cfg_server cfg \<noteq> None)"
proof -
  have "\<exists>cfg. main_start \<lparr>no_gpu = False, no_cpu = False, no_net = False, large_biomes = True\<rparr> (\<lambda>_. True) [] = Inr cfg"
    by (simp add: main_start_def parse_def no_args_def parse_checks_def Let_def)
  then show ?thesis using start_has_work by blast
qed

end
