(* ===== verification/Host.thy ===== *)
theory Host
  imports Common
begin

text \<open>
  The threads of the program and the queues between them (\<open>main.cpp\<close>, \<open>cpu.cpp\<close>, \<open>gpu.h\<close>,
  \<open>common.h\<close> and the thread functions): every critical section and every access to an atomic is
  one step, and the steps of the threads interleave freely.

  What a kernel batch finds (\<open>batch\<close>) and what the test of a candidate answers (\<open>process\<close>) are
  arguments; the theories on the kernels and on \<open>cubiomes.c\<close> model them.
\<close>

subsection \<open>The state\<close>

text \<open>\<open>SeedIterator::next\<close>: an atomic fetch-and-add.\<close>

record SeedIterator =
  pos :: u64

definition seed_next :: "u64 \<Rightarrow> SeedIterator \<Rightarrow> u64 \<times> SeedIterator" where
  "seed_next n it = (pos it, it\<lparr>pos := pos it + n\<rparr>)"

definition batch_size :: u64 where
  "batch_size = 2 ^ 28"

text \<open>
  Where a thread is in its loop. A thread that has seen its stop flag unset goes on even if the
  flag is set before its next access: a device starts one more batch (\<open>GpuReady\<close>), the client
  empties the queue once more after its sleep, and \<open>main_inner\<close> finishes the body of its loop. The
  server never looks at its stop flag: it runs handlers until its \<open>io_context\<close> has been stopped, which
  others can do only after it has stored the pointer \<open>io_ctx\<close> (\<open>ServerInit\<close> is before the store).
\<close>

datatype gpu_pc = GpuIdle | GpuReady | GpuBatch u64 | GpuDone
datatype cpu_pc = CpuLoop | CpuWork GpuOutput | CpuDone
datatype client_pc = ClientOff | ClientLoop | ClientSleep | ClientDone
datatype server_pc = ServerOff | ServerInit | ServerWait | ServerRead "GpuOutput list" | ServerDone
datatype main_pc =
  MainLoop | MainBody | StopGpu nat | StopCpu nat | StopNet | JoinGpu nat | JoinCpu nat | FinalDrain | JoinNet | MainExit

text \<open>
  \<open>io_ctx\<close> says that the pointer is not null, \<open>ctx_stopped\<close> that \<open>stop\<close> has been called on the
  \<open>io_context\<close>. The last three fields record the history: the starts handed to batches, the candidates pushed
  to the queue, and those whose test has finished.
\<close>

record Host =
  seed_range :: SeedIterator
  gpus :: "gpu_pc list"
  gpu_stop :: "bool list"
  cpus :: "cpu_pc list"
  cpu_stop :: "bool list"
  client :: client_pc
  client_stop :: bool
  server :: server_pc
  server_stop :: bool
  io_ctx :: bool
  ctx_stopped :: bool
  queue :: "GpuOutput list"
  cpu_queue :: "CpuOutput list"
  written :: "CpuOutput list"
  sent :: "GpuOutput list"
  running :: bool
  signal_count :: nat
  killed :: bool
  main :: main_pc
  given :: "u64 list"
  pushed :: "GpuOutput list"
  finished :: "GpuOutput list"

text \<open>The threads that \<open>main_inner\<close> creates for a number of devices and of cpu threads.\<close>

definition host_init :: "u64 \<Rightarrow> nat \<Rightarrow> nat \<Rightarrow> bool \<Rightarrow> bool \<Rightarrow> Host" where
  "host_init start devices threads with_client with_server =
     \<lparr>seed_range = \<lparr>pos = start\<rparr>, gpus = replicate devices GpuIdle, gpu_stop = replicate devices False,
      cpus = replicate threads CpuLoop, cpu_stop = replicate threads False,
      client = (if with_client then ClientLoop else ClientOff), client_stop = False,
      server = (if with_server then ServerInit else ServerOff), server_stop = False, io_ctx = False, ctx_stopped = False,
      queue = [], cpu_queue = [], written = [], sent = [], running = True, signal_count = 0, killed = False,
      main = MainLoop, given = [], pushed = [], finished = []\<rparr>"

subsection \<open>The steps\<close>

text \<open>\<open>GpuThread::run\<close>: fetch a range; later push the results of the batch.\<close>

definition gpu_fetch :: "nat \<Rightarrow> Host \<Rightarrow> Host" where
  "gpu_fetch i s = (let (start, it) = seed_next batch_size (seed_range s)
     in s\<lparr>seed_range := it, gpus := (gpus s)[i := GpuBatch start], given := given s @ [start]\<rparr>)"

definition gpu_push :: "(u64 \<Rightarrow> GpuOutput list) \<Rightarrow> nat \<Rightarrow> u64 \<Rightarrow> Host \<Rightarrow> Host" where
  "gpu_push batch i start s =
     s\<lparr>gpus := (gpus s)[i := GpuIdle], queue := queue s @ batch start, pushed := pushed s @ batch start\<rparr>"

text \<open>\<open>CpuThread::run\<close>: take the front of the queue; later push the answer, if there is one.\<close>

definition cpu_take :: "nat \<Rightarrow> Host \<Rightarrow> Host" where
  "cpu_take j s = s\<lparr>cpus := (cpus s)[j := CpuWork (hd (queue s))], queue := tl (queue s)\<rparr>"

definition cpu_finish :: "(GpuOutput \<Rightarrow> CpuOutput option) \<Rightarrow> nat \<Rightarrow> GpuOutput \<Rightarrow> Host \<Rightarrow> Host" where
  "cpu_finish process j g s =
     s\<lparr>cpus := (cpus s)[j := CpuLoop],
       cpu_queue := cpu_queue s @ (case process g of None \<Rightarrow> [] | Some out \<Rightarrow> [out]), finished := finished s @ [g]\<rparr>"

text \<open>The loop of \<open>main_inner\<close> that prints and writes the results, also used after the joins.\<close>

definition write_outputs :: "Host \<Rightarrow> Host" where
  "write_outputs s = s\<lparr>written := written s @ cpu_queue s, cpu_queue := []\<rparr>"

text \<open>\<open>signal_handler\<close>: the second signal ends the process.\<close>

definition signal_handler :: "Host \<Rightarrow> Host" where
  "signal_handler s = (let n = signal_count s + 1
     in s\<lparr>signal_count := n, running := False, killed := killed s \<or> 2 \<le> n\<rparr>)"

text \<open>\<open>ServerThread::shutdown\<close>: the \<open>io_context\<close> is stopped only if the server has stored the pointer.\<close>

definition server_shutdown :: "Host \<Rightarrow> Host" where
  "server_shutdown s = (let s = s\<lparr>server_stop := True\<rparr> in if io_ctx s then s\<lparr>ctx_stopped := True\<rparr> else s)"

inductive host_step :: "(u64 \<Rightarrow> GpuOutput list) \<Rightarrow> (GpuOutput \<Rightarrow> CpuOutput option) \<Rightarrow> Host \<Rightarrow> Host \<Rightarrow> bool"
  for batch process where
  gpu_check: "i < length (gpus s) \<Longrightarrow> gpus s ! i = GpuIdle \<Longrightarrow> \<not> gpu_stop s ! i \<Longrightarrow>
    host_step batch process s (s\<lparr>gpus := (gpus s)[i := GpuReady]\<rparr>)"
| gpu_fetch: "i < length (gpus s) \<Longrightarrow> gpus s ! i = GpuReady \<Longrightarrow> host_step batch process s (gpu_fetch i s)"
| gpu_exit: "i < length (gpus s) \<Longrightarrow> gpus s ! i = GpuIdle \<Longrightarrow> gpu_stop s ! i \<Longrightarrow>
    host_step batch process s (s\<lparr>gpus := (gpus s)[i := GpuDone]\<rparr>)"
| gpu_push: "i < length (gpus s) \<Longrightarrow> gpus s ! i = GpuBatch start \<Longrightarrow> host_step batch process s (gpu_push batch i start s)"
| cpu_take: "j < length (cpus s) \<Longrightarrow> cpus s ! j = CpuLoop \<Longrightarrow> queue s \<noteq> [] \<Longrightarrow> host_step batch process s (cpu_take j s)"
| cpu_exit: "j < length (cpus s) \<Longrightarrow> cpus s ! j = CpuLoop \<Longrightarrow> queue s = [] \<Longrightarrow> cpu_stop s ! j \<Longrightarrow>
    host_step batch process s (s\<lparr>cpus := (cpus s)[j := CpuDone]\<rparr>)"
| cpu_finish: "j < length (cpus s) \<Longrightarrow> cpus s ! j = CpuWork g \<Longrightarrow> host_step batch process s (cpu_finish process j g s)"
| client_check: "client s = ClientLoop \<Longrightarrow> \<not> client_stop s \<Longrightarrow> host_step batch process s (s\<lparr>client := ClientSleep\<rparr>)"
| client_send: "client s = ClientSleep \<Longrightarrow>
    host_step batch process s (s\<lparr>sent := sent s @ queue s, queue := [], client := ClientLoop\<rparr>)"
| client_exit: "client s = ClientLoop \<Longrightarrow> client_stop s \<Longrightarrow> host_step batch process s (s\<lparr>client := ClientDone\<rparr>)"
| server_store: "server s = ServerInit \<Longrightarrow> host_step batch process s (s\<lparr>io_ctx := True, server := ServerWait\<rparr>)"
| server_read: "server s = ServerWait \<Longrightarrow> \<not> ctx_stopped s \<Longrightarrow> host_step batch process s (s\<lparr>server := ServerRead gs\<rparr>)"
| server_push: "server s = ServerRead gs \<Longrightarrow>
    host_step batch process s (s\<lparr>queue := queue s @ gs, pushed := pushed s @ gs, server := ServerWait\<rparr>)"
| server_exit: "server s = ServerWait \<Longrightarrow> ctx_stopped s \<Longrightarrow> host_step batch process s (s\<lparr>io_ctx := False, server := ServerDone\<rparr>)"
| signal: "\<not> killed s \<Longrightarrow> host_step batch process s (signal_handler s)"
| main_check: "main s = MainLoop \<Longrightarrow> running s \<Longrightarrow> host_step batch process s (s\<lparr>main := MainBody\<rparr>)"
| main_write: "main s = MainBody \<Longrightarrow> host_step batch process s ((write_outputs s)\<lparr>main := MainLoop\<rparr>)"
| main_leave: "main s = MainLoop \<Longrightarrow> \<not> running s \<Longrightarrow> host_step batch process s (s\<lparr>main := StopGpu 0\<rparr>)"
| stop_gpu: "main s = StopGpu i \<Longrightarrow> i < length (gpus s) \<Longrightarrow>
    host_step batch process s (s\<lparr>gpu_stop := (gpu_stop s)[i := True], main := StopGpu (Suc i)\<rparr>)"
| stop_gpu_end: "main s = StopGpu (length (gpus s)) \<Longrightarrow> host_step batch process s (s\<lparr>main := StopCpu 0\<rparr>)"
| stop_cpu: "main s = StopCpu j \<Longrightarrow> j < length (cpus s) \<Longrightarrow>
    host_step batch process s (s\<lparr>cpu_stop := (cpu_stop s)[j := True], main := StopCpu (Suc j)\<rparr>)"
| stop_cpu_end: "main s = StopCpu (length (cpus s)) \<Longrightarrow> host_step batch process s (s\<lparr>main := StopNet\<rparr>)"
| stop_net: "main s = StopNet \<Longrightarrow> 
    host_step batch process s ((if server s = ServerOff then s else server_shutdown s)\<lparr>client_stop := True, main := JoinGpu 0\<rparr>)"
| join_gpu: "main s = JoinGpu i \<Longrightarrow> i < length (gpus s) \<Longrightarrow> gpus s ! i = GpuDone \<Longrightarrow>
    host_step batch process s (s\<lparr>main := JoinGpu (Suc i)\<rparr>)"
| join_gpu_end: "main s = JoinGpu (length (gpus s)) \<Longrightarrow> host_step batch process s (s\<lparr>main := JoinCpu 0\<rparr>)"
| join_cpu: "main s = JoinCpu j \<Longrightarrow> j < length (cpus s) \<Longrightarrow> cpus s ! j = CpuDone \<Longrightarrow>
    host_step batch process s (s\<lparr>main := JoinCpu (Suc j)\<rparr>)"
| join_cpu_end: "main s = JoinCpu (length (cpus s)) \<Longrightarrow> host_step batch process s (s\<lparr>main := FinalDrain\<rparr>)"
| final_drain: "main s = FinalDrain \<Longrightarrow> host_step batch process s ((write_outputs s)\<lparr>main := JoinNet\<rparr>)"
| join_net: "main s = JoinNet \<Longrightarrow> client s \<in> {ClientOff, ClientDone} \<Longrightarrow> server s \<in> {ServerOff, ServerDone} \<Longrightarrow>
    host_step batch process s (s\<lparr>main := MainExit\<rparr>)"

lemmas [step_intros] = host_step.intros

abbreviation host_run :: "(u64 \<Rightarrow> GpuOutput list) \<Rightarrow> (GpuOutput \<Rightarrow> CpuOutput option) \<Rightarrow> Host \<Rightarrow> Host \<Rightarrow> bool" where
  "host_run batch process \<equiv> (\<lambda>s s'. host_step batch process s s' \<and> \<not> killed s)\<^sup>*\<^sup>*"

subsection \<open>Ranges of seeds\<close>

definition range_inv :: "u64 \<Rightarrow> Host \<Rightarrow> bool" where
  "range_inv start s \<longleftrightarrow> given s = map (\<lambda>k. start + of_nat k * batch_size) [0..<length (given s)] \<and>
     pos (seed_range s) = start + of_nat (length (given s)) * batch_size \<and>
     (\<forall>i < length (gpus s). \<forall>a. gpus s ! i = GpuBatch a \<longrightarrow> a \<in> set (given s))"

lemmas op_defs = gpu_fetch_def gpu_push_def cpu_take_def cpu_finish_def write_outputs_def signal_handler_def server_shutdown_def
  seed_next_def Let_def

lemma range_inv_step: "host_step batch process s s' \<Longrightarrow> range_inv start s \<Longrightarrow> range_inv start s'"
proof (induction rule: host_step.induct)
  case (gpu_fetch i s)
  then show ?case by (auto simp: range_inv_def op_defs nth_list_update algebra_simps)
qed (auto simp: range_inv_def op_defs nth_list_update)

text \<open>As long as fewer than \<open>2^36\<close> batches have started, no seed is in two of them.\<close>

lemma ranges_disjoint:
  assumes "i < 2 ^ 36" "j < 2 ^ 36" "a < 2 ^ 28" "b < 2 ^ 28"
    and "start + of_nat i * batch_size + of_nat a = start + of_nat j * batch_size + of_nat b"
  shows "i = j \<and> a = b"
proof -
  have "(of_nat (i * 2 ^ 28 + a) :: u64) = of_nat (j * 2 ^ 28 + b)"
    using assms(5) by (simp add: batch_size_def)
  moreover have "i * 2 ^ 28 + a < 2 ^ LENGTH(64)" "j * 2 ^ 28 + b < 2 ^ LENGTH(64)" using assms(1-4) by auto
  ultimately have "i * 2 ^ 28 + a = j * 2 ^ 28 + b" by (metis of_nat_inverse)
  then have "(i * 2 ^ 28 + a) div 2 ^ 28 = (j * 2 ^ 28 + b) div 2 ^ 28" "(i * 2 ^ 28 + a) mod 2 ^ 28 = (j * 2 ^ 28 + b) mod 2 ^ 28" by simp_all
  then show ?thesis using assms(3,4) by simp
qed

subsection \<open>Nothing is lost between the queues\<close>

fun hand :: "cpu_pc \<Rightarrow> GpuOutput multiset" where
  "hand (CpuWork g) = {#g#}"
| "hand _ = {#}"

definition in_hand :: "cpu_pc list \<Rightarrow> GpuOutput multiset" where
  "in_hand ps = sum_list (map hand ps)"

lemma in_hand_update: "j < length ps \<Longrightarrow> in_hand (ps[j := p]) + hand (ps ! j) = in_hand ps + hand p"
proof (induction ps arbitrary: j)
  case (Cons q ps)
  then show ?case by (cases j) (auto simp: in_hand_def ac_simps)
qed simp

lemma in_hand_done: "\<forall>j < length ps. ps ! j = CpuDone \<Longrightarrow> in_hand ps = {#}"
  by (induction ps) (auto simp: in_hand_def nth_Cons split: nat.splits)

definition flow_inv :: "(GpuOutput \<Rightarrow> CpuOutput option) \<Rightarrow> Host \<Rightarrow> bool" where
  "flow_inv process s \<longleftrightarrow> mset (pushed s) = mset (queue s) + in_hand (cpus s) + mset (finished s) + mset (sent s) \<and>
     written s @ cpu_queue s = List.map_filter process (finished s)"

lemma map_filter_snoc: "List.map_filter f (xs @ [x]) = List.map_filter f xs @ (case f x of None \<Rightarrow> [] | Some y \<Rightarrow> [y])"
  by (simp add: List.map_filter_def split: option.split)

lemma in_hand_idle: "in_hand (replicate n CpuLoop) = {#}"
  by (induction n) (simp_all add: in_hand_def)

lemma flow_inv_step: "host_step batch process s s' \<Longrightarrow> flow_inv process s \<Longrightarrow> flow_inv process s'"
proof (induction rule: host_step.induct)
  case (cpu_take j s)
  then show ?case using in_hand_update [of j "cpus s" "CpuWork (hd (queue s))"]
    by (cases "queue s") (auto simp: flow_inv_def op_defs)
next
  case (cpu_finish j s g)
  then show ?case using in_hand_update [of j "cpus s" CpuLoop]
    by (auto simp: flow_inv_def op_defs map_filter_snoc split: option.splits)
next
  case (cpu_exit j s)
  then show ?case using in_hand_update [of j "cpus s" CpuDone] by (auto simp: flow_inv_def)
qed (auto simp: flow_inv_def op_defs)

subsection \<open>The order of the shutdown\<close>

text \<open>What \<open>main_inner\<close> has done when it is at a certain point.\<close>

definition all_upto :: "('a \<Rightarrow> bool) \<Rightarrow> nat \<Rightarrow> 'a list \<Rightarrow> bool" where
  "all_upto P n xs \<longleftrightarrow> (\<forall>i < n. i < length xs \<longrightarrow> P (xs ! i))"

fun gpu_joined :: "main_pc \<Rightarrow> nat \<Rightarrow> nat" where
  "gpu_joined (JoinGpu i) n = i"
| "gpu_joined (JoinCpu _) n = n"
| "gpu_joined FinalDrain n = n"
| "gpu_joined JoinNet n = n"
| "gpu_joined MainExit n = n"
| "gpu_joined _ n = 0"

fun cpu_joined :: "main_pc \<Rightarrow> nat \<Rightarrow> nat" where
  "cpu_joined (JoinCpu j) n = j"
| "cpu_joined FinalDrain n = n"
| "cpu_joined JoinNet n = n"
| "cpu_joined MainExit n = n"
| "cpu_joined _ n = 0"

definition join_inv :: "Host \<Rightarrow> bool" where
  "join_inv s \<longleftrightarrow> all_upto (\<lambda>g. g = GpuDone) (gpu_joined (main s) (length (gpus s))) (gpus s) \<and>
     all_upto (\<lambda>c. c = CpuDone) (cpu_joined (main s) (length (cpus s))) (cpus s) \<and>
     (main s \<in> {JoinNet, MainExit} \<longrightarrow> cpu_queue s = []) \<and> (main s = MainExit \<longrightarrow> client s \<in> {ClientOff, ClientDone} \<and> server s \<in> {ServerOff, ServerDone})"

lemma all_upto_update: "all_upto P n xs \<Longrightarrow> \<not> P (xs ! i) \<Longrightarrow> i < length xs \<Longrightarrow> all_upto P n (xs[i := x])"
  unfolding all_upto_def by (auto simp: nth_list_update)

lemma all_upto_Suc: "all_upto P n xs \<Longrightarrow> P (xs ! n) \<Longrightarrow> all_upto P (Suc n) xs"
  unfolding all_upto_def by (auto simp: less_Suc_eq)

lemma all_upto_0 [simp]: "all_upto P 0 xs"
  by (simp add: all_upto_def)

lemma cpu_busy:
  assumes "join_inv s" "j < length (cpus s)" "cpus s ! j \<noteq> CpuDone"
  shows "main s \<notin> {FinalDrain, JoinNet, MainExit}"
  using assms by (auto simp: join_inv_def all_upto_def)

lemma join_inv_step: "host_step batch process s s' \<Longrightarrow> join_inv s \<Longrightarrow> join_inv s'"
proof (induction rule: host_step.induct)
  case (cpu_finish j s g)
  then show ?case using cpu_busy [of s j] by (auto simp: join_inv_def op_defs all_upto_update)
next
  case (cpu_take j s)
  then show ?case using cpu_busy [of s j] by (auto simp: join_inv_def op_defs all_upto_update)
qed (auto simp: join_inv_def op_defs all_upto_update all_upto_Suc)

lemma init_invs: "range_inv start (host_init start d t c sv)" "flow_inv process (host_init start d t c sv)"
  "join_inv (host_init start d t c sv)"
  by (auto simp: range_inv_def flow_inv_def join_inv_def host_init_def in_hand_idle map_filter_simps)

subsection \<open>The shutdown ends\<close>

fun gpu_stopped :: "main_pc \<Rightarrow> nat \<Rightarrow> nat" where
  "gpu_stopped MainLoop n = 0"
| "gpu_stopped MainBody n = 0"
| "gpu_stopped (StopGpu i) n = i"
| "gpu_stopped _ n = n"

fun cpu_stopped :: "main_pc \<Rightarrow> nat \<Rightarrow> nat" where
  "cpu_stopped MainLoop n = 0"
| "cpu_stopped MainBody n = 0"
| "cpu_stopped (StopGpu _) n = 0"
| "cpu_stopped (StopCpu j) n = j"
| "cpu_stopped _ n = n"

fun index_ok :: "main_pc \<Rightarrow> nat \<Rightarrow> nat \<Rightarrow> bool" where
  "index_ok (StopGpu i) ng nc = (i \<le> ng)"
| "index_ok (JoinGpu i) ng nc = (i \<le> ng)"
| "index_ok (StopCpu j) ng nc = (j \<le> nc)"
| "index_ok (JoinCpu j) ng nc = (j \<le> nc)"
| "index_ok _ ng nc = True"

text \<open>All threads have been told to stop.\<close>

fun stopping :: "main_pc \<Rightarrow> bool" where
  "stopping MainLoop = False"
| "stopping MainBody = False"
| "stopping (StopGpu _) = False"
| "stopping (StopCpu _) = False"
| "stopping StopNet = False"
| "stopping _ = True"

definition stop_inv :: "Host \<Rightarrow> bool" where
  "stop_inv s \<longleftrightarrow> length (gpu_stop s) = length (gpus s) \<and> length (cpu_stop s) = length (cpus s) \<and>
     index_ok (main s) (length (gpus s)) (length (cpus s)) \<and>
     all_upto (\<lambda>b. b) (gpu_stopped (main s) (length (gpus s))) (gpu_stop s) \<and>
     all_upto (\<lambda>b. b) (cpu_stopped (main s) (length (cpus s))) (cpu_stop s) \<and>
     (stopping (main s) \<longrightarrow> client_stop s) \<and> (server s = ServerDone \<longrightarrow> ctx_stopped s)"


lemma all_upto_flag: "all_upto (\<lambda>b. b) n xs \<Longrightarrow> all_upto (\<lambda>b. b) (Suc n) (xs[n := True])"
  unfolding all_upto_def by (auto simp: less_Suc_eq nth_list_update)

lemma stop_inv_step: "host_step batch process s s' \<Longrightarrow> stop_inv s \<Longrightarrow> stop_inv s'"
  by (induction rule: host_step.induct) (auto simp: stop_inv_def op_defs all_upto_flag)

lemma stop_inv_init: "stop_inv (host_init start d t c sv)"
  by (simp add: stop_inv_def host_init_def)

















lemma reachable_invs:
  assumes "host_run batch process (host_init start d t c sv) s"
  shows "range_inv start s \<and> flow_inv process s \<and> join_inv s \<and> stop_inv s"
  using assms
proof (induction rule: rtranclp_induct)
  case base
  then show ?case by (simp add: init_invs stop_inv_init)
next
  case (step s s')
  then show ?case using range_inv_step flow_inv_step join_inv_step stop_inv_step by blast
qed

subsection \<open>What the threads need of the test\<close>

text \<open>
  The interface between the threads and the test of a candidate: a relation that every answer of
  the test satisfies holds for every line that is written.
\<close>

locale answer_spec =
  fixes test :: "GpuOutput \<Rightarrow> CpuOutput option"
    and answers :: "GpuOutput \<Rightarrow> CpuOutput \<Rightarrow> bool"
  assumes test_answers: "test g = Some out \<Longrightarrow> answers g out"
begin

lemma written_answers:
  assumes "host_run batch test (host_init start d t c sv) s" "out \<in> set (written s)"
  shows "\<exists>g \<in> set (pushed s). answers g out"
proof -
  have f: "flow_inv test s" using reachable_invs [OF assms(1)] by simp
  have "out \<in> set (List.map_filter test (finished s))"
    using assms(2) f unfolding flow_inv_def by (metis UnI1 set_append)
  then obtain g where g: "g \<in> set (finished s)" "test g = Some out" by (auto simp: List.map_filter_def)
  have "g \<in># mset (pushed s)" using f g(1) by (simp add: flow_inv_def)
  then show ?thesis using test_answers [OF g(2)] by auto
qed

end

subsection \<open>A run that leaves a candidate behind\<close>

lemma run_step:
  assumes "host_step batch process s s1" "\<not> killed s" "host_run batch process s1 s2"
  shows "host_run batch process s s2"
  using converse_rtranclp_into_rtranclp [of "\<lambda>s s'. host_step batch process s s' \<and> \<not> killed s" s s1 s2] assms by simp

lemma drops_last_batch:
  assumes "batch start = [g]"
  shows "\<exists>s. host_run batch process (host_init start 1 1 False False) s \<and> main s = MainExit \<and> signal_count s = 1 \<and>
    queue s = [g] \<and> written s = []"
  apply (rule exI, rule conjI)
   apply (rule run_step [OF host_step.gpu_check [of 0]], (simp add: host_init_def)+)
   apply (rule run_step [OF host_step.gpu_fetch [of 0]], (simp add: op_defs)+)
   apply (rule run_step [OF host_step.signal], (simp add: op_defs)+)
   apply (rule run_step [OF host_step.main_leave], (simp add: op_defs)+)
   apply (rule run_step [OF host_step.stop_gpu], (simp add: op_defs)+)
   apply (rule run_step [OF host_step.stop_gpu_end], (simp add: op_defs)+)
   apply (rule run_step [OF host_step.stop_cpu], (simp add: op_defs)+)
   apply (rule run_step [OF host_step.stop_cpu_end], (simp add: op_defs)+)
   apply (rule run_step [OF host_step.stop_net], (simp add: op_defs)+)
   apply (rule run_step [OF host_step.cpu_exit [of 0]], (simp add: op_defs)+)
   apply (rule run_step [OF host_step.gpu_push [of 0]], (simp add: op_defs)+)
   apply (rule run_step [OF host_step.gpu_exit [of 0]], (simp add: op_defs)+)
   apply (rule run_step [OF host_step.join_gpu], (simp add: op_defs)+)
   apply (rule run_step [OF host_step.join_gpu_end], (simp add: op_defs)+)
   apply (rule run_step [OF host_step.join_cpu], (simp add: op_defs)+)
   apply (rule run_step [OF host_step.join_cpu_end], (simp add: op_defs)+)
   apply (rule run_step [OF host_step.final_drain], (simp add: op_defs)+)
   apply (rule run_step [OF host_step.join_net], (simp add: op_defs)+)
   apply (rule rtranclp.rtrancl_refl)
  apply (simp add: op_defs assms)
  done


subsection \<open>Properties\<close>

text \<open>
  C0. The batches of all devices, however they interleave, are the consecutive ranges from the
  start, and until the 64-bit counter has gone round no seed is in two of them; the number of
  seeds that is printed at the end counts the batches.
\<close>

theorem seed_ranges_disjoint:
  assumes "host_run batch process (host_init start d t c sv) s" and "length (given s) \<le> 2 ^ 36"
    and "i < length (given s)" "j < length (given s)" "i \<noteq> j" "a < 2 ^ 28" "b < 2 ^ 28"
  shows "given s ! i = start + of_nat i * batch_size \<and> given s ! i + of_nat a \<noteq> given s ! j + of_nat b \<and>
    pos (seed_range s) - start = of_nat (length (given s)) * batch_size"
proof -
  have inv: "range_inv start s" using reachable_invs [OF assms(1)] by simp
  have g: "given s ! k = start + of_nat k * batch_size" if "k < length (given s)" for k
  proof -
    have "given s ! k = map (\<lambda>k. start + of_nat k * batch_size) [0..<length (given s)] ! k"
      by (rule arg_cong [of _ _ "\<lambda>xs. xs ! k"]) (use inv in \<open>simp add: range_inv_def\<close>)
    also have "\<dots> = start + of_nat k * batch_size" using that by (subst nth_map) simp_all
    finally show ?thesis .
  qed
  have "i < 2 ^ 36" "j < 2 ^ 36" using assms(2-4) by simp_all
  then have "given s ! i + of_nat a \<noteq> given s ! j + of_nat b"
    unfolding g [OF assms(3)] g [OF assms(4)] using ranges_disjoint [of i j a b start] assms(5-7) by blast
  moreover have "pos (seed_range s) - start = of_nat (length (given s)) * batch_size"
    using inv unfolding range_inv_def by (metis add_diff_cancel_left')
  ultimately show ?thesis using g [OF assms(3)] by blast
qed

theorem seed_ranges_disjoint_witness:
  "\<exists>s. host_run (\<lambda>_. []) (\<lambda>_. None) (host_init 5 2 1 False False) s \<and> given s ! 0 + of_nat 7 \<noteq> given s ! 1 + of_nat 7"
proof -
  let ?s = "host_init 5 2 1 False False"
  let ?s1 = "?s\<lparr>gpus := (gpus ?s)[0 := GpuReady]\<rparr>"
  let ?s2 = "?s1\<lparr>gpus := (gpus ?s1)[1 := GpuReady]\<rparr>"
  let ?s3 = "gpu_fetch 0 ?s2"
  let ?s' = "gpu_fetch 1 ?s3"
  have "host_step (\<lambda>_. []) (\<lambda>_. None) ?s ?s1" "host_step (\<lambda>_. []) (\<lambda>_. None) ?s1 ?s2"
    by (rule host_step.gpu_check; simp add: host_init_def numeral_2_eq_2)+
  moreover have "host_step (\<lambda>_. []) (\<lambda>_. None) ?s2 ?s3" "host_step (\<lambda>_. []) (\<lambda>_. None) ?s3 ?s'"
    by (rule host_step.gpu_fetch; simp add: host_init_def numeral_2_eq_2 op_defs)+
  moreover have "\<not> killed ?s" "\<not> killed ?s1" "\<not> killed ?s2" "\<not> killed ?s3" by (simp_all add: host_init_def op_defs)
  ultimately have r: "host_run (\<lambda>_. []) (\<lambda>_. None) ?s ?s'" by (blast intro: run_step)
  have "length (given ?s') = 2" by (simp add: host_init_def op_defs)
  then show ?thesis using seed_ranges_disjoint [OF r, of 0 1 7 7] r by auto
qed

text \<open>
  C0. No candidate is lost or duplicated between the threads: in every reachable state each pushed
  candidate is in the queue, in the hands of a cpu thread, finished or sent, and the lines of the
  output are, in order, the answers for the finished ones. When the program exits by itself no cpu
  thread holds a candidate and every answer has been written.
\<close>

theorem results_conserved:
  assumes "host_run batch process (host_init start d t c sv) s"
  shows "mset (pushed s) = mset (queue s) + in_hand (cpus s) + mset (finished s) + mset (sent s) \<and>
    written s @ cpu_queue s = List.map_filter process (finished s) \<and>
    (main s = MainExit \<longrightarrow> in_hand (cpus s) = {#} \<and> written s = List.map_filter process (finished s))"
proof -
  have f: "flow_inv process s" using reachable_invs [OF assms] by simp
  have j: "join_inv s" using reachable_invs [OF assms] by simp
  show ?thesis using f j in_hand_done [of "cpus s"] by (auto simp: flow_inv_def join_inv_def all_upto_def)
qed

theorem results_conserved_witness:
  "\<exists>s. host_run (\<lambda>_. []) (\<lambda>_. None) (host_init 0 0 1 False True) s \<and> queue s = [\<lparr>out_seed = 3, out_x = 0, out_z = 0\<rparr>] \<and>
     mset (pushed s) = mset (queue s) + in_hand (cpus s) + mset (finished s) + mset (sent s)"
proof -
  let ?s = "host_init 0 0 1 False True"
  let ?g = "[\<lparr>out_seed = 3, out_x = 0, out_z = 0\<rparr>] :: GpuOutput list"
  let ?t = "?s\<lparr>io_ctx := True, server := ServerWait\<rparr>"
  let ?s1 = "?s\<lparr>io_ctx := True, server := ServerRead ?g\<rparr>"
  let ?s' = "?s1\<lparr>queue := queue ?s1 @ ?g, pushed := pushed ?s1 @ ?g, server := ServerWait\<rparr>"
  have "host_step (\<lambda>_. []) (\<lambda>_. None) ?s ?t" by (rule host_step.server_store; simp add: host_init_def)
  moreover have "host_step (\<lambda>_. []) (\<lambda>_. None) ?t ?s1"
    using host_step.server_read [of ?t "\<lambda>_. []" "\<lambda>_. None" ?g] by (simp add: host_init_def)
  moreover have "host_step (\<lambda>_. []) (\<lambda>_. None) ?s1 ?s'" by (rule host_step.server_push) simp
  moreover have "\<not> killed ?s" "\<not> killed ?t" "\<not> killed ?s1" by (simp_all add: host_init_def)
  ultimately have r: "host_run (\<lambda>_. []) (\<lambda>_. None) ?s ?s'" by (blast intro: run_step)
  have "queue ?s' = ?g" by (simp add: host_init_def)
  then show ?thesis using results_conserved [OF r] r by blast
qed



text \<open>
  C0. But the shutdown can leave a candidate of the last batch untested: the stop flags of the cpu
  threads are set before the devices are joined, so a cpu thread that finds the queue empty ends
  while a device is still in its last batch, and what that batch finds stays in the queue.
\<close>

theorem shutdown_drops_last_batch:
  assumes "batch start = [g]"
  shows "\<exists>s. host_run batch process (host_init start 1 1 False False) s \<and> main s = MainExit \<and> signal_count s = 1 \<and>
    queue s = [g] \<and> written s = []"
  by (rule drops_last_batch [of batch start g process, OF assms])

theorem shutdown_drops_last_batch_witness:
  "\<exists>s. host_run (\<lambda>_. [\<lparr>out_seed = 3, out_x = 0, out_z = 0\<rparr>]) (\<lambda>g. Some \<lparr>cpu_seed = 3, cpu_x = 0, cpu_z = 0, cpu_score = 9\<rparr>)
       (host_init 0 1 1 False False) s \<and> main s = MainExit \<and> queue s = [\<lparr>out_seed = 3, out_x = 0, out_z = 0\<rparr>] \<and> written s = []"
  using shutdown_drops_last_batch [of "\<lambda>_. [\<lparr>out_seed = 3, out_x = 0, out_z = 0\<rparr>]" 0 "\<lparr>out_seed = 3, out_x = 0, out_z = 0\<rparr>"
      "\<lambda>g. Some \<lparr>cpu_seed = 3, cpu_x = 0, cpu_z = 0, cpu_score = 9\<rparr>"] by blast

end
