(* ===== verification/Float_Bounds.thy ===== *)
theory Float_Bounds
  imports Floats
begin

text \<open>
  How far a rounded operation can be from zero: rounding is monotone and keeps the numbers of its
  format, so it keeps every interval between two of them.
\<close>

lemma fl64_eq:
  assumes "2 powi k \<le> x" "x < 2 powi (k + 1)" "- 1022 \<le> k" "\<bar>x / 2 powi (k - 52) - of_int m\<bar> < 1 / 2"
  shows "fl64 x = of_int m * 2 powi (k - 52)"
proof -
  have pos: "0 < x" using assms(1) powi2_pos [of k] by linarith
  have "ilog2 x = k" using assms(1,2) by (rule ilog2_unique)
  then have "ulp_exp 53 (- 1074) x = k - 52" using pos assms(3) by (simp add: ulp_exp_def)
  then show ?thesis using pos rne_unique [OF assms(4)] by (simp add: fl64_def round_to_def)
qed


lemma fl64_1_110223E_16: "fl64 (11102230246251565 / 10 ^ 32) = 2 powi (- 53)"
proof -
  have "fl64 (11102230246251565 / 10 ^ 32) = of_int 9007199254740992 * 2 powi (- 54 - 52)"
    by (rule fl64_eq) (simp_all add: power_int_minus field_simps)
  then show ?thesis by (simp add: power_int_minus)
qed

lemma fl64_dyadic: "\<bar>m\<bar> < 2 ^ 53 \<Longrightarrow> n \<le> 1074 \<Longrightarrow> fl64 (of_int m / 2 ^ n) = of_int m / 2 ^ n"
  using fl64_exact [of m "- int n"] by (simp add: power_int_minus divide_inverse)

lemma fl64_range: "a \<le> x \<Longrightarrow> x \<le> b \<Longrightarrow> fl64 a = a \<Longrightarrow> fl64 b = b \<Longrightarrow> a \<le> fl64 x \<and> fl64 x \<le> b"
  using fl64_mono [of a x] fl64_mono [of x b] by simp

lemma fl64_abs: "\<bar>x\<bar> \<le> b \<Longrightarrow> fl64 b = b \<Longrightarrow> \<bar>fl64 x\<bar> \<le> b"
proof -
  assume a: "\<bar>x\<bar> \<le> b" "fl64 b = b"
  have "fl64 (- b) = - b" using a(2) round_to_neg [of 53 "- 1074" b] by (simp add: fl64_def)
  from fl64_range [OF _ _ this a(2), of x] a(1) show ?thesis by (simp add: abs_le_iff)
qed

lemma fl64_abs_le: "\<bar>x\<bar> \<le> of_int n \<Longrightarrow> n < 2 ^ 53 \<Longrightarrow> \<bar>fl64 x\<bar> \<le> of_int n"
proof -
  assume a: "\<bar>x\<bar> \<le> of_int n" "n < 2 ^ 53"
  then have "0 \<le> rat_of_int n" by linarith
  then show ?thesis using a by (intro fl64_abs fl64_of_int) simp_all
qed

lemma mult_range:
  fixes x y :: rat
  assumes "0 \<le> x" "x \<le> b" "c \<le> y" "y \<le> d" "c \<le> 0 \<or> y \<le> 0"
  shows "b * min c 0 \<le> x * y \<and> x * y \<le> b * max d 0"
proof -
  have "b * min c 0 \<le> x * min c 0" using assms by (intro mult_right_mono_neg) auto
  also have "\<dots> \<le> x * y" using assms by (intro mult_left_mono) auto
  finally have 1: "b * min c 0 \<le> x * y" .
  have "x * y \<le> x * max d 0" using assms by (intro mult_left_mono) auto
  also have "\<dots> \<le> b * max d 0" using assms by (intro mult_right_mono) auto
  finally show ?thesis using 1 by simp
qed

lemma mul64_range:
  assumes "0 \<le> x" "x \<le> b" "c \<le> y" "y \<le> d" "c \<le> 0" "0 \<le> d" "fl64 (b * c) = b * c" "fl64 (b * d) = b * d"
  shows "b * c \<le> mul64 x y \<and> mul64 x y \<le> b * d"
  unfolding mul64_def using mult_range [of x b c y d] assms by (intro fl64_range) (auto simp: min_def max_def)

lemma add64_range:
  assumes "a \<le> x + y" "x + y \<le> b" "fl64 a = a" "fl64 b = b"
  shows "a \<le> add64 x y \<and> add64 x y \<le> b"
  unfolding add64_def using assms by (rule fl64_range)

lemma sub64_range:
  assumes "a \<le> x - y" "x - y \<le> b" "fl64 a = a" "fl64 b = b"
  shows "a \<le> sub64 x y \<and> sub64 x y \<le> b"
  unfolding sub64_def using assms by (rule fl64_range)

text \<open>The error of a rounding, relative to a power of two that bounds the argument.\<close>

lemma round_to_err:
  assumes "\<bar>x\<bar> < 2 ^ n" "emin \<le> int n - p"
  shows "\<bar>round_to p emin x - x\<bar> \<le> 2 powi (int n - p)"
proof (cases "x = 0")
  case False
  define u where "u = ulp_exp p emin x"
  have "2 powi ilog2 \<bar>x\<bar> \<le> \<bar>x\<bar>" using ilog2_bounds [of "\<bar>x\<bar>"] False by simp
  also have "\<dots> < 2 powi int n" using assms(1) by simp
  finally have "ilog2 \<bar>x\<bar> < int n" by (simp only: powi2_less_iff)
  then have "u \<le> int n - p" using assms(2) by (simp add: u_def ulp_exp_def)
  then have u: "(2::rat) powi u \<le> 2 powi (int n - p)" by (simp only: powi2_le_iff)
  have "round_to p emin x - x = (of_int (rne (x / 2 powi u)) - x / 2 powi u) * 2 powi u"
    using False by (simp add: round_to_def Let_def u_def algebra_simps)
  then have "\<bar>round_to p emin x - x\<bar> = \<bar>of_int (rne (x / 2 powi u)) - x / 2 powi u\<bar> * 2 powi u" by (simp add: abs_mult)
  also have "\<dots> \<le> 1 * 2 powi u" using rne_error [of "x / 2 powi u"] by (intro mult_right_mono) auto
  finally show ?thesis using u by simp
qed (simp add: round_to_def)

lemma fl64_err: "\<bar>x\<bar> < 2 ^ n \<Longrightarrow> \<bar>fl64 x - x\<bar> \<le> 2 ^ n / 2 ^ 53"
  using round_to_err [of x n "- 1074" 53] by (simp add: fl64_def power_int_diff)

lemma fl32_err: "\<bar>x\<bar> < 2 ^ n \<Longrightarrow> \<bar>fl32 x - x\<bar> \<le> 2 ^ n / 2 ^ 24"
  using round_to_err [of x n "- 149" 24] by (simp add: fl32_def power_int_diff)

lemma fl32_near: "\<bar>x\<bar> < 2 \<Longrightarrow> x - 1 / 2 ^ 20 \<le> fl32 x \<and> fl32 x \<le> x + 1 / 2 ^ 20"
proof -
  assume "\<bar>x\<bar> < 2"
  then have "\<bar>fl32 x - x\<bar> \<le> 1 / 2 ^ 23" using fl32_err [of x 1] by simp
  also have "\<dots> \<le> (1::rat) / 2 ^ 20" by simp
  finally show ?thesis by linarith
qed

text \<open>The same for single precision.\<close>

lemma fl32_dyadic: "\<bar>m\<bar> < 2 ^ 24 \<Longrightarrow> n \<le> 149 \<Longrightarrow> fl32 (of_int m / 2 ^ n) = of_int m / 2 ^ n"
  using fl32_exact [of m "- int n"] by (simp add: power_int_minus divide_inverse)

lemma fl32_range: "a \<le> x \<Longrightarrow> x \<le> b \<Longrightarrow> fl32 a = a \<Longrightarrow> fl32 b = b \<Longrightarrow> a \<le> fl32 x \<and> fl32 x \<le> b"
  using fl32_mono [of a x] fl32_mono [of x b] by simp

lemma fl32_abs: "\<bar>x\<bar> \<le> b \<Longrightarrow> fl32 b = b \<Longrightarrow> \<bar>fl32 x\<bar> \<le> b"
proof -
  assume a: "\<bar>x\<bar> \<le> b" "fl32 b = b"
  have "fl32 (- b) = - b" using a(2) round_to_neg [of 24 "- 149" b] by (simp add: fl32_def)
  from fl32_range [OF _ _ this a(2), of x] a(1) show ?thesis by (simp add: abs_le_iff)
qed

lemma fl32_abs_le: "\<bar>x\<bar> \<le> of_int n \<Longrightarrow> n < 2 ^ 24 \<Longrightarrow> \<bar>fl32 x\<bar> \<le> of_int n"
proof -
  assume a: "\<bar>x\<bar> \<le> of_int n" "n < 2 ^ 24"
  then have "0 \<le> rat_of_int n" by linarith
  then show ?thesis using a by (intro fl32_abs fl32_of_int) simp_all
qed

text \<open>Bounds in steps of 1/1024, which both formats have.\<close>

lemma fl32_steps:
  assumes "of_int a / 1024 \<le> x" "x \<le> of_int b / 1024" "\<bar>a\<bar> < 2 ^ 24" "\<bar>b\<bar> < 2 ^ 24"
  shows "of_int a / 1024 \<le> fl32 x \<and> fl32 x \<le> of_int b / 1024"
  using fl32_range [OF assms(1,2)] fl32_dyadic [of a 10] fl32_dyadic [of b 10] assms(3,4) by simp

lemma fl32_le_step: "x \<le> of_int b / 1024 \<Longrightarrow> \<bar>b\<bar> < 2 ^ 24 \<Longrightarrow> fl32 x \<le> of_int b / 1024"
  using fl32_mono [of x "of_int b / 1024"] fl32_dyadic [of b 10] by simp

lemma fl64_steps:
  assumes "of_int a / 1024 \<le> x" "x \<le> of_int b / 1024" "\<bar>a\<bar> < 2 ^ 53" "\<bar>b\<bar> < 2 ^ 53"
  shows "of_int a / 1024 \<le> fl64 x \<and> fl64 x \<le> of_int b / 1024"
  using fl64_range [OF assms(1,2)] fl64_dyadic [of a 10] fl64_dyadic [of b 10] assms(3,4) by simp

end
