(* ===== verification/Perlin.thy ===== *)
theory Perlin
  imports Rng_Helpers Gpu_Noise Float_Bounds
begin

text \<open>
  The noise of \<open>noise.c\<close> as the 1.18+ generator uses it: Perlin noise in double precision with a
  permutation table drawn from a Xoroshiro generator, sums of octaves, and the double Perlin noise of
  two such sums. The value \<open>None\<close> stands for a draw that never returns and for a table index outside
  of its table. The theorems relate an octave to the one that the device builds from the same
  generator, and justify the row that \<open>samplePerlin\<close> caches for \<open>y = 0\<close>.
\<close>

subsection \<open>Perlin noise\<close>

record PerlinNoise =
  pn_d :: "u8 list"
  pn_h2 :: u8
  pn_a :: f64
  pn_b :: f64
  pn_c :: f64
  pn_amplitude :: f64
  pn_lacunarity :: f64
  pn_d2 :: f64
  pn_t2 :: f64

definition indexedLerp :: "u8 \<Rightarrow> f64 \<Rightarrow> f64 \<Rightarrow> f64 \<Rightarrow> f64" where
  "indexedLerp idx a b c =
     [add64 a b, add64 (- a) b, sub64 a b, sub64 (- a) b,
      add64 a c, add64 (- a) c, sub64 a c, sub64 (- a) c,
      add64 b c, add64 (- b) c, sub64 b c, sub64 (- b) c,
      add64 a b, add64 (- b) c, add64 (- a) b, sub64 (- b) c] ! unat (idx AND 0xf)"

definition maintainPrecision :: "f64 \<Rightarrow> f64" where
  "maintainPrecision x = x"

text \<open>The weight \<open>d*d*d * (d * (d*6.0-15.0) + 10.0)\<close>, evaluated from left to right.\<close>

definition perlin_weight :: "f64 \<Rightarrow> f64" where
  "perlin_weight d = mul64 (mul64 (mul64 d d) d) (add64 (mul64 d (sub64 (mul64 d 6) 15)) 10)"

text \<open>The lattice cell of a coordinate, as the byte that indexes the table, and the offset in it.\<close>

definition perlin_cell :: "f64 \<Rightarrow> u8 \<times> f64 \<times> f64" where
  "perlin_cell d = (let i = rat_of_int \<lfloor>d\<rfloor>; d = sub64 d i in (of_int (trunc_i32 i), d, perlin_weight d))"

fun xshuffle_loop :: "nat \<Rightarrow> nat \<Rightarrow> u8 list \<Rightarrow> XrsrRandom \<Rightarrow> (u8 list \<times> XrsrRandom) option" where
  "xshuffle_loop 0 i idx xr = Some (idx, xr)"
| "xshuffle_loop (Suc left) i idx xr =
     (case xNextInt (256 - of_nat i) xr of
        None \<Rightarrow> None
      | Some (r, xr') \<Rightarrow> xshuffle_loop left (Suc i) (exchange idx i (nat (sint r + int i))) xr')"

definition xPerlinInit :: "XrsrRandom \<Rightarrow> (PerlinNoise \<times> XrsrRandom) option" where
  "xPerlinInit xr =
     (let (ra, xr) = xNextDouble xr;
          (rb, xr) = xNextDouble xr;
          (rc, xr) = xNextDouble xr;
          b = mul64 rb 256;
          (h2, d2, t2) = perlin_cell b
      in case xshuffle_loop 256 0 (map of_nat [0..<256]) xr of
           None \<Rightarrow> None
         | Some (idx, xr) \<Rightarrow>
             Some (\<lparr>pn_d = idx @ [idx ! 0], pn_h2 = h2, pn_a = mul64 ra 256, pn_b = b, pn_c = mul64 rc 256,
                    pn_amplitude = 1, pn_lacunarity = 1, pn_d2 = d2, pn_t2 = t2\<rparr>, xr))"

text \<open>The interpolation between the eight corners, from the cell, the offsets and the weights.\<close>

definition perlin_corners ::
    "u8 list \<Rightarrow> u8 \<times> f64 \<times> f64 \<Rightarrow> u8 \<times> f64 \<times> f64 \<Rightarrow> u8 \<times> f64 \<times> f64 \<Rightarrow> f64" where
  "perlin_corners idx = (\<lambda>(h1, d1, t1) (h2, d2, t2) (h3, d3, t3).
     let v1a = idx ! unat h1 + h2; v1b = idx ! (unat h1 + 1) + h2;
         v2a = idx ! unat v1a + h3; v2b = idx ! (unat v1a + 1) + h3;
         v3a = idx ! unat v1b + h3; v3b = idx ! (unat v1b + 1) + h3;
         l1 = indexedLerp (idx ! unat v2a) d1 d2 d3;
         l5 = indexedLerp (idx ! (unat v2a + 1)) d1 d2 (sub64 d3 1);
         l2 = indexedLerp (idx ! unat v3a) (sub64 d1 1) d2 d3;
         l6 = indexedLerp (idx ! (unat v3a + 1)) (sub64 d1 1) d2 (sub64 d3 1);
         l3 = indexedLerp (idx ! unat v2b) d1 (sub64 d2 1) d3;
         l7 = indexedLerp (idx ! (unat v2b + 1)) d1 (sub64 d2 1) (sub64 d3 1);
         l4 = indexedLerp (idx ! unat v3b) (sub64 d1 1) (sub64 d2 1) d3;
         l8 = indexedLerp (idx ! (unat v3b + 1)) (sub64 d1 1) (sub64 d2 1) (sub64 d3 1);
         l1 = lerp t1 l1 l2; l3 = lerp t1 l3 l4; l5 = lerp t1 l5 l6; l7 = lerp t1 l7 l8;
         l1 = lerp t2 l1 l3; l5 = lerp t2 l5 l7
     in lerp t3 l1 l5)"

definition samplePerlin :: "PerlinNoise \<Rightarrow> f64 \<Rightarrow> f64 \<Rightarrow> f64 \<Rightarrow> f64 \<Rightarrow> f64 \<Rightarrow> f64" where
  "samplePerlin noise d1 d2 d3 yamp ymin =
     (let (h2, d2, t2) = (if d2 = 0 then (pn_h2 noise, pn_d2 noise, pn_t2 noise)
                          else perlin_cell (add64 d2 (pn_b noise)));
          d2 = (if yamp \<noteq> 0
                then let yclamp = (if ymin < d2 then ymin else d2)
                     in sub64 d2 (mul64 (of_int \<lfloor>div64 yclamp yamp\<rfloor>) yamp)
                else d2)
      in perlin_corners (pn_d noise) (perlin_cell (add64 d1 (pn_a noise))) (h2, d2, t2)
           (perlin_cell (add64 d3 (pn_c noise))))"

subsection \<open>Octaves\<close>

definition md5_octave_n :: "(u64 \<times> u64) list" where
  "md5_octave_n =
     [(0xb198de63a8012672, 0x7b84cad43ef7b5a8),
      (0x0fd787bfbc403ec3, 0x74a4a31ca21b48b8),
      (0x36d326eed40efeb2, 0x5be9ce18223c636a),
      (0x082fe255f8be6631, 0x4e96119e22dedc81),
      (0x0ef68ec68504005e, 0x48b6bf93a2789640),
      (0xf11268128982754f, 0x257a1d670430b0aa),
      (0xe51c98ce7d1de664, 0x5f9478a733040c45),
      (0x6d7b49e7e429850a, 0x2e3063c622a24777),
      (0xbd90d5377ba1b762, 0xc07317d419a7548d),
      (0x53d39c6752dac858, 0xbcd1c5a80ab65b3e),
      (0xb4a24d7a84e7677b, 0x023ff9668e89b5c4),
      (0xdffa22b534c5f608, 0xb9b67517d3665ca9),
      (0xd50708086cef4d7c, 0x6e1651ecc7f43309)]"

definition lacuna_ini :: "f64 list" where
  "lacuna_ini = [1, 1/2, 1/4, 1/8, 1/16, 1/32, 1/64, 1/128, 1/256, 1/512, 1/1024, 1/2048, 1/4096]"

definition persist_ini :: "f64 list" where
  "persist_ini = map fl64 [0, 1, 2/3, 4/7, 8/15, 16/31, 32/63, 64/127, 128/255, 256/511]"

text \<open>
  The loop from octave \<open>i\<close> on, with \<open>n\<close> octaves used so far; a negative \<open>nmax\<close> never stops it.
\<close>

fun xOctave_loop :: "u64 \<Rightarrow> u64 \<Rightarrow> int \<Rightarrow> int \<Rightarrow> nat \<Rightarrow> int \<Rightarrow> f64 list \<Rightarrow> f64 \<Rightarrow> f64 \<Rightarrow> PerlinNoise list option" where
  "xOctave_loop xlo xhi omin nmax i n [] lacuna persist = Some []"
| "xOctave_loop xlo xhi omin nmax i n (amp # amps) lacuna persist =
     (if n = nmax then Some []
      else if amp = 0 then xOctave_loop xlo xhi omin nmax (Suc i) n amps (mul64 lacuna 2) (mul64 persist (1/2))
      else if 12 + omin + int i \<notin> {0..<13} then None
      else let md5 = md5_octave_n ! nat (12 + omin + int i)
           in case xPerlinInit \<lparr>lo = xlo XOR fst md5, hi = xhi XOR snd md5\<rparr> of
                None \<Rightarrow> None
              | Some (p, _) \<Rightarrow>
                  map_option ((#) (p\<lparr>pn_amplitude := mul64 amp persist, pn_lacunarity := lacuna\<rparr>))
                    (xOctave_loop xlo xhi omin nmax (Suc i) (n + 1) amps (mul64 lacuna 2) (mul64 persist (1/2))))"

definition xOctaveInit :: "XrsrRandom \<Rightarrow> f64 list \<Rightarrow> int \<Rightarrow> int \<Rightarrow> (PerlinNoise list \<times> XrsrRandom) option" where
  "xOctaveInit xr amps omin nmax =
     (if - omin \<notin> {0..<13} \<or> 10 \<le> length amps then None
      else let (xlo, xr) = xNextLong xr;
               (xhi, xr) = xNextLong xr
           in map_option (\<lambda>octs. (octs, xr))
                (xOctave_loop xlo xhi omin nmax 0 0 amps (lacuna_ini ! nat (- omin)) (persist_ini ! length amps)))"

definition octave_term :: "f64 \<Rightarrow> f64 \<Rightarrow> f64 \<Rightarrow> f64 \<Rightarrow> PerlinNoise \<Rightarrow> f64" where
  "octave_term x y z v p =
     (let lf = pn_lacunarity p;
          ax = maintainPrecision (mul64 x lf);
          ay = maintainPrecision (mul64 y lf);
          az = maintainPrecision (mul64 z lf);
          pv = samplePerlin p ax ay az 0 0
      in add64 v (mul64 (pn_amplitude p) pv))"

definition sampleOctave :: "PerlinNoise list \<Rightarrow> f64 \<Rightarrow> f64 \<Rightarrow> f64 \<Rightarrow> f64" where
  "sampleOctave noise x y z = foldl (octave_term x y z) 0 noise"

subsection \<open>Double Perlin noise\<close>

record DoublePerlinNoise =
  dp_amplitude :: f64
  octA :: "PerlinNoise list"
  octB :: "PerlinNoise list"

definition amp_ini :: "f64 list" where
  "amp_ini = map fl64 [0, 5/6, 10/9, 15/12, 20/15, 25/18, 30/21, 35/24, 40/27, 45/30]"

text \<open>The number of amplitudes without the zeros at both ends.\<close>

definition trimmed_len :: "f64 list \<Rightarrow> nat" where
  "trimmed_len amps = length amps - length (takeWhile (\<lambda>a. a = 0) (rev amps)) - length (takeWhile (\<lambda>a. a = 0) amps)"

definition xDoublePerlinInit :: "XrsrRandom \<Rightarrow> f64 list \<Rightarrow> int \<Rightarrow> int \<Rightarrow> (DoublePerlinNoise \<times> nat) option" where
  "xDoublePerlinInit xr amps omin nmax =
     (let (na, nb) = (if 0 < nmax then let na = (nmax + 1) div 2 in (na, nmax - na) else (- 1, - 1))
      in case xOctaveInit xr amps omin na of
           None \<Rightarrow> None
         | Some (oa, xr) \<Rightarrow>
             (case xOctaveInit xr amps omin nb of
                None \<Rightarrow> None
              | Some (ob, xr) \<Rightarrow>
                  Some (\<lparr>dp_amplitude = amp_ini ! trimmed_len amps, octA = oa, octB = ob\<rparr>, length oa + length ob)))"

definition sampleDoublePerlin :: "DoublePerlinNoise \<Rightarrow> f64 \<Rightarrow> f64 \<Rightarrow> f64 \<Rightarrow> f64" where
  "sampleDoublePerlin noise x y z =
     (let f = div64 337 331;
          v = add64 0 (sampleOctave (octA noise) x y z);
          v = add64 v (sampleOctave (octB noise) (mul64 x f) (mul64 y f) (mul64 z f))
      in mul64 v (dp_amplitude noise))"

subsection \<open>The same octave on the device\<close>

lemma xNextDouble_eq:
  "xNextDouble g = (of_nat (unat (fst (nextInternal g)) div 2 ^ 11) / 2 ^ 53, snd (nextInternal g))"
proof -
  have "unat (drop_bit 11 (fst (nextInternal g))) < 2 ^ 53"
    using unat_less [of "fst (nextInternal g)"] unfolding unat_drop_bit by (simp add: less_mult_imp_div_less)
  from scaled_draw64 [OF this] show ?thesis
    by (simp only: xNextDouble_def xNextLong_eq split_beta Let_def uint_nat fl64_1_110223E_16 unat_drop_bit) simp
qed

text \<open>An offset of an octave: the 53 bits of a draw, scaled to \<open>[0, 256)\<close>; it is exact.\<close>

lemma perlin_offset:
  "mul64 (fst (xNextDouble g)) 256 = of_nat (unat (fst (nextInternal g)) div 2 ^ 11) / 2 ^ 45"
proof -
  define n where "n = unat (fst (nextInternal g)) div 2 ^ 11"
  have "n < 2 ^ 53" using unat_less [of "fst (nextInternal g)"] by (simp add: n_def less_mult_imp_div_less)
  then have n: "\<bar>int n\<bar> < 2 ^ 53" by simp
  have p: "(2::rat) powi - 45 = 1 / 2 ^ 45" by (simp add: power_int_minus)
  have "fst (xNextDouble g) * 256 = of_int (int n) * 2 powi - 45" by (simp only: xNextDouble_eq fst_conv p flip: n_def) simp
  then have "mul64 (fst (xNextDouble g)) 256 = of_int (int n) * 2 powi - 45"
    using fl64_exact [OF n, of "- 45"] by (simp only: mul64_def)
  then show ?thesis by (simp only: p flip: n_def) simp
qed

lemma perlin_offset_ok:
  defines "off g \<equiv> mul64 (fst (xNextDouble g)) 256"
  shows "0 \<le> off g \<and> off g < 256 \<and> fl64 (off g) = off g"
proof -
  have "unat (fst (nextInternal g)) div 2 ^ 11 < 2 ^ 53"
    using unat_less [of "fst (nextInternal g)"] by (simp add: less_mult_imp_div_less)
  then have "rat_of_nat (unat (fst (nextInternal g)) div 2 ^ 11) < of_nat (2 ^ 53)" by (simp only: of_nat_less_iff)
  then have "off g < 256" "0 \<le> off g" unfolding off_def perlin_offset by (simp_all add: divide_less_eq)
  then show ?thesis by (simp add: off_def mul64_def)
qed

text \<open>The device keeps the first 24 of the 53 bits.\<close>

lemma offsets_agree:
  "mul32 (fst (xrsr_nextFloat g)) 256 = of_int \<lfloor>mul64 (fst (xNextDouble g)) 256 * 2 ^ 16\<rfloor> / 2 ^ 16"
proof -
  define n where "n = unat (fst (nextInternal g))"
  have "fst (Xrsr_Random.nextBits 24 g) = drop_bit 40 (fst (nextInternal g))"
    by (simp add: Xrsr_Random.nextBits_def split_beta Let_def)
  then have f: "mul32 (fst (xrsr_nextFloat g)) 256 = of_nat (n div 2 ^ 40) / 2 ^ 16"
    by (simp only: offset_value unat_drop_bit n_def)
  have "mul64 (fst (xNextDouble g)) 256 * 2 ^ 16 = of_int (int (n div 2 ^ 11)) / of_int (2 ^ 29)"
    by (simp only: perlin_offset flip: n_def) simp
  then have "\<lfloor>mul64 (fst (xNextDouble g)) 256 * 2 ^ 16\<rfloor> = int (n div 2 ^ 11) div 2 ^ 29"
    by (simp only: floor_divide_of_int_eq)
  also have "\<dots> = int (n div 2 ^ 40)" by (simp add: zdiv_int div_mult2_eq [symmetric])
  finally show ?thesis by (simp only: f of_int_of_nat_eq)
qed

lemma xshuffle_eq: "i + left \<le> 256 \<Longrightarrow> xshuffle_loop left i ps g = shuffle_loop left i ps g"
proof (induction left arbitrary: i ps g)
  case (Suc left)
  have "256 - of_nat i \<noteq> (0::u32)" using unat_bound_256 [of i] Suc(2) by fastforce
  moreover have "nat (int (unat r) + int i) = i + unat r" for r :: u32 by (simp only: of_nat_add [symmetric] nat_int add.commute)
  ultimately have "nat (sint r + int i) = i + unat r" if "nextInt_bound (256 - of_nat i) g = Some (r, g')" for r g'
    using nextInt_bound_less [OF _ that] unat_bound_256 [of i] Suc(2) by (simp add: sint_small del: of_nat_unat)
  then show ?case using Suc by (auto simp: xNextInt_eq split: option.splits)
qed simp

text \<open>An octave as the initialisation leaves it.\<close>

definition perlin_ok :: "PerlinNoise \<Rightarrow> bool" where
  "perlin_ok p \<longleftrightarrow>
     length (pn_d p) = 257 \<and> set (take 256 (pn_d p)) = UNIV \<and> pn_d p ! 256 = pn_d p ! 0 \<and>
     (\<forall>off \<in> {pn_a p, pn_b p, pn_c p}. 0 \<le> off \<and> off < 256 \<and> fl64 off = off) \<and>
     (pn_h2 p, pn_d2 p, pn_t2 p) = perlin_cell (pn_b p)"

text \<open>The octave of the device that has the same table and the offsets cut to 16 fractional bits.\<close>

definition to_device :: "PerlinNoise \<Rightarrow> ImprovedNoise" where
  "to_device p =
     (let cut = (\<lambda>off. of_int \<lfloor>off * 2 ^ 16\<rfloor> / 2 ^ 16)
      in \<lparr>perm = take 256 (pn_d p), xo = cut (pn_a p), yo = cut (pn_b p), zo = cut (pn_c p)\<rparr>)"

lemma xPerlinInit_unfold:
  fixes g
  defines "g1 \<equiv> snd (xNextDouble g)" and "off \<equiv> \<lambda>g. mul64 (fst (xNextDouble g)) 256"
  defines "g2 \<equiv> snd (xNextDouble g1)"
  defines "cl \<equiv> perlin_cell (off g1)"
  shows "xPerlinInit g =
    map_option (\<lambda>(idx, xr). (\<lparr>pn_d = idx @ [idx ! 0], pn_h2 = fst cl, pn_a = off g, pn_b = off g1, pn_c = off g2,
        pn_amplitude = 1, pn_lacunarity = 1, pn_d2 = fst (snd cl), pn_t2 = snd (snd cl)\<rparr>, xr))
      (xshuffle_loop 256 0 (map of_nat [0..<256]) (snd (xNextDouble g2)))"
  by (simp add: xPerlinInit_def split_beta Let_def assms del: xshuffle_loop.simps split: option.split)

lemma xPerlinInit_ok: "xPerlinInit g = Some (p, g') \<Longrightarrow> perlin_ok p"
proof -
  assume "xPerlinInit g = Some (p, g')"
  then obtain idx g1 where s: "xshuffle_loop 256 0 (map of_nat [0..<256]) g1 = Some (idx, g')"
    and d: "pn_d p = idx @ [idx ! 0]"
    and off: "\<forall>off \<in> {pn_a p, pn_b p, pn_c p}. 0 \<le> off \<and> off < 256 \<and> fl64 off = off"
    and c: "(pn_h2 p, pn_d2 p, pn_t2 p) = perlin_cell (pn_b p)"
    unfolding xPerlinInit_unfold map_option_eq_Some by (auto simp: perlin_offset_ok)
  from shuffle_loop_mset [OF s [unfolded xshuffle_eq [of 0 256, simplified]]]
  have m: "mset idx = mset (map of_nat [0..<256])" by simp
  then have "length idx = 256" using mset_eq_length by fastforce
  moreover have "set idx = UNIV" using m mset_eq_setD bytes_UNIV by metis
  ultimately show ?thesis unfolding perlin_ok_def using d c off by (auto simp: nth_append)
qed

lemma xPerlinInit_device: "map_option (to_device \<circ> fst) (xPerlinInit g) = init_noise g"
proof -
  have n: "snd (xNextDouble g) = snd (xrsr_nextFloat g)" for g
    by (simp add: xNextDouble_eq xrsr_nextFloat_def Xrsr_Random.nextBits_def split_beta Let_def)
  have len: "length idx = 256" if "shuffle_loop 256 0 (map of_nat [0..<256]) g1 = Some (idx, g2)" for idx g1 g2
    using shuffle_loop_mset [OF that] mset_eq_length by fastforce
  show ?thesis
    by (auto simp: xPerlinInit_unfold init_noise_def noise_offsets_def to_device_def offsets_agree n xshuffle_eq len
        split_beta Let_def simp del: xshuffle_loop.simps shuffle_loop.simps upt.simps split: option.splits)
qed

subsection \<open>Bounds\<close>

text \<open>The interpolation weight, with every rounding, is close to the polynomial.\<close>

lemma product_error:
  fixes x y x' y' :: rat
  assumes "\<bar>x - x'\<bar> \<le> a" "\<bar>y - y'\<bar> \<le> b" "\<bar>x'\<bar> \<le> c" "\<bar>y\<bar> \<le> d"
  shows "\<bar>x * y - x' * y'\<bar> \<le> a * d + c * b"
proof -
  have "x * y - x' * y' = (x - x') * y + x' * (y - y')" by (simp add: algebra_simps)
  also have "\<bar>\<dots>\<bar> \<le> \<bar>x - x'\<bar> * \<bar>y\<bar> + \<bar>x'\<bar> * \<bar>y - y'\<bar>" by (simp add: abs_mult [symmetric] abs_triangle_ineq)
  also have "\<dots> \<le> a * d + c * b" using assms by (intro add_mono mult_mono) auto
  finally show ?thesis .
qed

lemma perlin_weight_close:
  assumes d: "0 \<le> d" "d \<le> 1"
  shows "\<bar>perlin_weight d - d * d * d * (d * (d * 6 - 15) + 10)\<bar> \<le> 1 / 2 ^ 40"
proof -
  define e :: rat where "e = 1 / 2 ^ 48"
  have r: "\<bar>fl64 x - x\<bar> \<le> e" if "\<bar>x\<bar> < 32" for x using fl64_err [of x 5] that by (simp add: e_def)
  define m1 m2 m3 m4 m5 m6 where m: "m1 = mul64 d d" "m2 = mul64 m1 d" "m3 = mul64 d 6" "m4 = sub64 m3 15"
    "m5 = mul64 d m4" "m6 = add64 m5 10"
  have e: "0 < e" "e < 1/100" by (simp_all add: e_def)
  have p: "0 \<le> d * d" "d * d \<le> 1" "0 \<le> d * d * d" "d * d * d \<le> 1" using d by (simp_all add: mult_le_one)
  have 1: "\<bar>m1 - d * d\<bar> \<le> e" using r [of "d * d"] p by (simp add: m mul64_def)
  have "\<bar>m1 * d - d * d * d\<bar> \<le> e * 1 + 1 * 0" by (rule product_error) (use 1 d p in auto)
  then have 2: "\<bar>m2 - d * d * d\<bar> \<le> 2 * e" using r [of "m1 * d"] p e by (simp add: m(2) mul64_def) linarith
  have 3: "\<bar>m3 - d * 6\<bar> \<le> e" using r [of "d * 6"] d by (simp add: m mul64_def)
  have 4: "\<bar>m4 - (d * 6 - 15)\<bar> \<le> 2 * e" using r [of "m3 - 15"] 3 d e by (simp add: m(4) sub64_def) linarith
  have "\<bar>d * m4 - d * (d * 6 - 15)\<bar> \<le> 0 * 16 + 1 * (2 * e)" by (rule product_error) (use 4 d e in auto)
  moreover have q: "- 15 \<le> d * (d * 6 - 15)" "d * (d * 6 - 15) \<le> 0"
    using mult_range [of d 1 "- 15" "d * 6 - 15" 0] d by simp_all
  ultimately have 5: "\<bar>m5 - d * (d * 6 - 15)\<bar> \<le> 3 * e" using r [of "d * m4"] e by (simp add: m(5) mul64_def) linarith
  have 6: "\<bar>m6 - (d * (d * 6 - 15) + 10)\<bar> \<le> 4 * e" using r [of "m5 + 10"] 5 q e by (simp add: m(6) add64_def) linarith
  have "\<bar>m2 * m6 - d * d * d * (d * (d * 6 - 15) + 10)\<bar> \<le> 2 * e * 16 + 1 * (4 * e)"
    by (rule product_error) (use 2 6 p q e in auto)
  moreover have "\<bar>d * d * d * (d * (d * 6 - 15) + 10)\<bar> \<le> 1 * 10"
    unfolding abs_mult [of "d * d * d"] by (rule mult_mono) (use p q in auto)
  ultimately have "\<bar>mul64 m2 m6 - d * d * d * (d * (d * 6 - 15) + 10)\<bar> \<le> 37 * e"
    using r [of "m2 * m6"] e unfolding mul64_def by linarith
  also have "37 * e \<le> 1 / 2 ^ 40" by (simp add: e_def)
  finally show ?thesis by (simp add: perlin_weight_def m)
qed

lemma perlin_weight_bound:
  assumes d: "0 \<le> d" "d \<le> 1"
  shows "- (1 / 2 ^ 40) \<le> perlin_weight d \<and> perlin_weight d \<le> 1 + 1 / 2 ^ 40"
proof -
  have "d * (d * 6 - 15) + 10 = 6 * ((d - 5/4) * (d - 5/4)) + 5/8" by (simp add: algebra_simps)
  also have "0 \<le> \<dots>" by (intro add_nonneg_nonneg mult_nonneg_nonneg zero_le_square) simp_all
  finally have "0 \<le> d * (d * 6 - 15) + 10" .
  then have "0 \<le> d * d * d * (d * (d * 6 - 15) + 10)" using d by simp
  moreover have "1 - d * d * d * (d * (d * 6 - 15) + 10) = (1 - d) * (1 - d) * (1 - d) * (6 * (d * d) + 3 * d + 1)"
    by (simp add: algebra_simps)
  moreover have "0 \<le> (1 - d) * (1 - d) * (1 - d) * (6 * (d * d) + 3 * d + 1)" using d by simp
  ultimately show ?thesis using perlin_weight_close [OF d] unfolding abs_le_iff by linarith
qed

lemma perlin_cell_bound:
  assumes "perlin_cell x = (h, d, t)"
  shows "0 \<le> d \<and> d \<le> 1 \<and> - (1 / 2 ^ 40) \<le> t \<and> t \<le> 1 + 1 / 2 ^ 40"
proof -
  have "0 \<le> sub64 x (of_int \<lfloor>x\<rfloor>) \<and> sub64 x (of_int \<lfloor>x\<rfloor>) \<le> 1"
    by (rule sub64_range) (use fl64_dyadic [of 1 0] in \<open>simp_all, linarith\<close>)
  then show ?thesis using assms perlin_weight_bound by (auto simp: perlin_cell_def Let_def)
qed

text \<open>An interpolation leaves the interval of its ends only by the rounding.\<close>

lemma lerp_bound:
  assumes t: "- (1 / 2 ^ 40) \<le> t" "t \<le> 1 + 1 / 2 ^ 40" and x: "\<bar>x\<bar> \<le> b" and y: "\<bar>y\<bar> \<le> b" and b: "b \<le> 3"
  shows "\<bar>lerp t x y\<bar> \<le> b + 1 / 2 ^ 32"
proof -
  define e :: rat where "e = 1 / 2 ^ 48"
  have e: "0 < e" "e < 1/100" by (simp_all add: e_def)
  have r: "\<bar>fl64 x - x\<bar> \<le> e" if "\<bar>x\<bar> < 32" for x using fl64_err [of x 5] that by (simp add: e_def)
  define s where "s = sub64 y x"
  have s: "\<bar>s - (y - x)\<bar> \<le> e" using r [of "y - x"] x y b by (simp add: s_def sub64_def)
  have ta: "\<bar>t\<bar> \<le> 2" using t by simp
  have "\<bar>t * s - t * (y - x)\<bar> \<le> 0 * 7 + 2 * e" by (rule product_error) (use s x y b e ta in auto)
  moreover have "\<bar>t * (y - x)\<bar> \<le> 2 * 6" unfolding abs_mult by (rule mult_mono) (use ta x y b in auto)
  ultimately have m: "\<bar>mul64 t s - t * (y - x)\<bar> \<le> 3 * e" using r [of "t * s"] e unfolding mul64_def by linarith
  have "\<bar>t * (y - x)\<bar> \<le> 12" using \<open>\<bar>t * (y - x)\<bar> \<le> 2 * 6\<close> by simp
  then have a: "\<bar>lerp t x y - (x + t * (y - x))\<bar> \<le> 4 * e"
    using r [of "x + mul64 t s"] m x b e unfolding lerp_def add64_def s_def by linarith
  have "\<bar>(1 - t) * x\<bar> \<le> \<bar>1 - t\<bar> * b" "\<bar>t * y\<bar> \<le> \<bar>t\<bar> * b"
    unfolding abs_mult by (intro mult_left_mono x y; simp)+
  moreover have "x + t * (y - x) = (1 - t) * x + t * y" by (simp add: algebra_simps)
  ultimately have "\<bar>x + t * (y - x)\<bar> \<le> (\<bar>1 - t\<bar> + \<bar>t\<bar>) * b" by (simp add: distrib_right)
  also have "\<bar>1 - t\<bar> + \<bar>t\<bar> \<le> 1 + 2 * (1 / 2 ^ 40)" using t by (simp add: abs_if)
  then have "(\<bar>1 - t\<bar> + \<bar>t\<bar>) * b \<le> (1 + 2 / 2 ^ 40) * b" using x by (intro mult_right_mono) auto
  also have "\<dots> \<le> b + 6 / 2 ^ 40" using b by (simp add: distrib_right)
  finally have "\<bar>x + t * (y - x)\<bar> \<le> b + 6 / 2 ^ 40" .
  moreover have "4 * e + 6 / 2 ^ 40 \<le> 1 / 2 ^ 32" by (simp add: e_def)
  ultimately show ?thesis using a by linarith
qed

lemma indexedLerp_bound:
  assumes "\<bar>a\<bar> \<le> 1" "\<bar>b\<bar> \<le> 1" "\<bar>c\<bar> \<le> 1"
  shows "\<bar>indexedLerp i a b c\<bar> \<le> 2"
proof -
  have s: "\<bar>add64 x y\<bar> \<le> 2" "\<bar>sub64 x y\<bar> \<le> 2" if "\<bar>x\<bar> \<le> 1" "\<bar>y\<bar> \<le> 1" for x y
    using fl64_abs_le [of "x + y" 2] fl64_abs_le [of "x - y" 2] that unfolding add64_def sub64_def by auto
  define vs where "vs = [add64 a b, add64 (- a) b, sub64 a b, sub64 (- a) b,
      add64 a c, add64 (- a) c, sub64 a c, sub64 (- a) c,
      add64 b c, add64 (- b) c, sub64 b c, sub64 (- b) c,
      add64 a b, add64 (- b) c, add64 (- a) b, sub64 (- b) c]"
  have "\<forall>v \<in> set vs. \<bar>v\<bar> \<le> 2" using s assms by (simp add: vs_def)
  moreover have "unat (i AND 0xf) < length vs"
  proof -
    have "i AND 0xf \<le> 0xf" by (rule word_and_le1)
    then show ?thesis by (simp add: word_le_nat_alt vs_def)
  qed
  ultimately have "\<bar>vs ! unat (i AND 0xf)\<bar> \<le> 2" using nth_mem by blast
  then show ?thesis by (simp add: indexedLerp_def vs_def)
qed

lemma corners_bound:
  assumes "perlin_cell x = (h1, d1, t1)" "perlin_cell y = (h2, d2, t2)" "perlin_cell z = (h3, d3, t3)"
  shows "\<bar>perlin_corners idx (h1, d1, t1) (h2, d2, t2) (h3, d3, t3)\<bar> \<le> 3"
proof -
  note c = assms [THEN perlin_cell_bound]
  have s: "\<bar>d\<bar> \<le> 1 \<and> \<bar>sub64 d 1\<bar> \<le> 1" if "0 \<le> d" "d \<le> 1" for d
    using fl64_abs_le [of "d - 1" 1] that unfolding sub64_def by auto
  have "\<bar>perlin_corners idx (h1, d1, t1) (h2, d2, t2) (h3, d3, t3)\<bar> \<le> 2 + 1 / 2 ^ 32 + 1 / 2 ^ 32 + 1 / 2 ^ 32"
    unfolding perlin_corners_def Let_def prod.case
    by (intro lerp_bound indexedLerp_bound) (use c s in simp_all)
  then show ?thesis by simp
qed

lemma samplePerlin_row:
  assumes "perlin_ok p"
  shows "samplePerlin p x y z 0 0 =
    perlin_corners (pn_d p) (perlin_cell (add64 x (pn_a p))) (perlin_cell (add64 y (pn_b p))) (perlin_cell (add64 z (pn_c p)))"
proof -
  have "add64 0 (pn_b p) = pn_b p" using assms by (simp add: perlin_ok_def add64_def)
  moreover have "(pn_h2 p, pn_d2 p, pn_t2 p) = perlin_cell (pn_b p)" using assms by (simp add: perlin_ok_def)
  ultimately show ?thesis by (cases "y = 0") (simp_all add: samplePerlin_def split_beta Let_def)
qed

lemma samplePerlin_bound: "perlin_ok p \<Longrightarrow> \<bar>samplePerlin p x y z 0 0\<bar> \<le> 3"
  unfolding samplePerlin_row using corners_bound
  by (metis (no_types, lifting) prod_cases3)

text \<open>A sum of octaves as \<open>xOctaveInit\<close> builds it, and the double noise.\<close>

definition octave_ok :: "PerlinNoise \<Rightarrow> bool" where
  "octave_ok p \<longleftrightarrow> perlin_ok p \<and> \<bar>pn_amplitude p\<bar> \<le> 1"

definition double_ok :: "DoublePerlinNoise \<Rightarrow> bool" where
  "double_ok noise \<longleftrightarrow>
     (\<forall>p \<in> set (octA noise) \<union> set (octB noise). octave_ok p) \<and>
     length (octA noise) \<le> 9 \<and> length (octB noise) \<le> 9 \<and> \<bar>dp_amplitude noise\<bar> \<le> 3/2"

lemma octave_term_bound:
  assumes "octave_ok p" "\<bar>v\<bar> \<le> of_int n" "n < 10 ^ 9"
  shows "\<bar>octave_term x y z v p\<bar> \<le> of_int (n + 3)"
proof -
  let ?v = "samplePerlin p (mul64 x (pn_lacunarity p)) (mul64 y (pn_lacunarity p)) (mul64 z (pn_lacunarity p)) 0 0"
  have "\<bar>?v\<bar> \<le> 3" using samplePerlin_bound assms(1) by (simp add: octave_ok_def)
  then have "\<bar>pn_amplitude p * ?v\<bar> \<le> 1 * 3"
    unfolding abs_mult using assms(1) by (intro mult_mono) (auto simp: octave_ok_def)
  then have "\<bar>mul64 (pn_amplitude p) ?v\<bar> \<le> of_int 3" unfolding mul64_def by (intro fl64_abs_le) simp_all
  then show ?thesis unfolding octave_term_def Let_def maintainPrecision_def add64_def
    by (intro fl64_abs_le) (use assms in auto)
qed

lemma octaves_bound:
  assumes "\<forall>p \<in> set octs. octave_ok p" "\<bar>v\<bar> \<le> of_int n" "n + 3 * int (length octs) < 10 ^ 9"
  shows "\<bar>foldl (octave_term x y z) v octs\<bar> \<le> of_int (n + 3 * int (length octs))"
  using assms
proof (induction octs arbitrary: v n)
  case (Cons p octs)
  then have "\<bar>octave_term x y z v p\<bar> \<le> of_int (n + 3)" by (intro octave_term_bound) auto
  from Cons.IH [OF _ this] Cons.prems show ?case by (simp add: algebra_simps)
qed simp

lemma sampleOctave_bound:
  assumes "\<forall>p \<in> set octs. octave_ok p" "length octs \<le> 9"
  shows "\<bar>sampleOctave octs x y z\<bar> \<le> of_int 27"
proof -
  have "\<bar>sampleOctave octs x y z\<bar> \<le> of_int (3 * int (length octs))"
    using octaves_bound [OF assms(1), of 0 0] assms(2) by (simp add: sampleOctave_def)
  also have "\<dots> \<le> of_int 27" using assms(2) by (intro of_int_le_iff [THEN iffD2]) simp
  finally show ?thesis .
qed

lemma sampleDoublePerlin_bound:
  assumes "double_ok noise"
  shows "\<bar>sampleDoublePerlin noise x y z\<bar> \<le> of_int 81"
proof -
  define f where "f = div64 337 331"
  define v where "v = add64 0 (sampleOctave (octA noise) x y z)"
  define w where "w = add64 v (sampleOctave (octB noise) (mul64 x f) (mul64 y f) (mul64 z f))"
  have o: "\<bar>sampleOctave (octA noise) x y z\<bar> \<le> of_int 27" "\<bar>sampleOctave (octB noise) x y z\<bar> \<le> of_int 27" for x y z
    by (rule sampleOctave_bound; use assms in \<open>simp add: double_ok_def\<close>)+
  have "\<bar>v\<bar> \<le> of_int 27" unfolding v_def add64_def by (rule fl64_abs_le) (use o(1) in simp_all)
  then have "\<bar>v + sampleOctave (octB noise) (mul64 x f) (mul64 y f) (mul64 z f)\<bar> \<le> of_int 54"
    using o(2) [of "mul64 x f" "mul64 y f" "mul64 z f"] by simp
  then have "\<bar>w\<bar> \<le> of_int 54" unfolding w_def add64_def by (rule fl64_abs_le) simp
  then have "\<bar>w * dp_amplitude noise\<bar> \<le> 54 * (3/2)" unfolding abs_mult using assms by (intro mult_mono) (auto simp: double_ok_def)
  then have "\<bar>mul64 w (dp_amplitude noise)\<bar> \<le> of_int 81" unfolding mul64_def by (intro fl64_abs_le) simp_all
  then show ?thesis by (simp add: sampleDoublePerlin_def Let_def f_def v_def w_def)
qed

subsection \<open>The initialisation builds such noises\<close>

lemma persist_half: "\<bar>q\<bar> \<le> 9/16 \<Longrightarrow> \<bar>mul64 q (1/2)\<bar> \<le> 9/32"
  unfolding mul64_def by (rule fl64_abs) (use fl64_dyadic [of 9 5] in simp_all)

lemma amplitude_le_1: "\<bar>a\<bar> * \<bar>q\<bar> \<le> 1 \<Longrightarrow> \<bar>mul64 a q\<bar> \<le> 1"
  using fl64_abs_le [of "a * q" 1] by (simp add: mul64_def abs_mult)

lemma perlin_ok_update [simp]: "perlin_ok (p\<lparr>pn_amplitude := a, pn_lacunarity := l\<rparr>) = perlin_ok p"
  by (simp add: perlin_ok_def)

lemma xOctave_loop_ok:
  assumes "xOctave_loop xlo xhi omin nmax i n amps lacuna q = Some octs" "\<forall>a \<in> set amps. \<bar>a\<bar> \<le> 2" "\<bar>q\<bar> \<le> 9/32"
  shows "(\<forall>p \<in> set octs. octave_ok p) \<and> length octs \<le> length amps"
  using assms
proof (induction amps arbitrary: i n lacuna q octs)
  case (Cons a amps)
  have q: "\<bar>mul64 q (1/2)\<bar> \<le> 9/32" using Cons.prems(3) by (intro persist_half) simp
  have "\<bar>a\<bar> * \<bar>q\<bar> \<le> 2 * (9/32)" using Cons.prems by (intro mult_mono) auto
  then have a: "\<bar>mul64 a q\<bar> \<le> 1" by (intro amplitude_le_1) simp
  show ?case using Cons.prems(1,2) q a Cons.IH [OF _ _ q] xPerlinInit_ok
    by (fastforce simp: Let_def octave_ok_def split: if_splits option.splits)
qed simp

lemma xOctave_loop_first:
  assumes "xOctave_loop xlo xhi omin nmax i n (a # amps) lacuna q = Some octs"
    and "\<forall>a \<in> set amps. \<bar>a\<bar> \<le> 2" "\<bar>q\<bar> \<le> 9/16" "\<bar>a\<bar> \<le> 3/2"
  shows "(\<forall>p \<in> set octs. octave_ok p) \<and> length octs \<le> Suc (length amps)"
proof -
  have "\<bar>a\<bar> * \<bar>q\<bar> \<le> 3/2 * (9/16)" using assms by (intro mult_mono) auto
  then have a: "\<bar>mul64 a q\<bar> \<le> 1" by (intro amplitude_le_1) simp
  show ?thesis using assms(1) a xOctave_loop_ok [OF _ assms(2) persist_half [OF assms(3)]] xPerlinInit_ok
    by (fastforce simp: Let_def octave_ok_def split: if_splits option.splits)
qed

text \<open>The amplitudes of the climates: from 4 to 9 of them, the first at most 3/2 and the others at most 2.\<close>

definition amps_ok :: "f64 list \<Rightarrow> bool" where
  "amps_ok amps \<longleftrightarrow> 4 \<le> length amps \<and> length amps \<le> 9 \<and> \<bar>hd amps\<bar> \<le> 3/2 \<and> (\<forall>a \<in> set amps. \<bar>a\<bar> \<le> 2)"

lemma persist_ini_le:
  assumes "4 \<le> n" "n \<le> 9"
  shows "\<bar>persist_ini ! n\<bar> \<le> 9/16"
proof -
  let ?t = "[0, 1, 2/3, 4/7, 8/15, 16/31, 32/63, 64/127, 128/255, 256/511] :: rat list"
  have "n \<in> {4, 5, 6, 7, 8, 9}" using assms by auto
  then have "\<bar>?t ! n\<bar> \<le> 9/16" by auto
  then have "\<bar>fl64 (?t ! n)\<bar> \<le> 9/16" by (rule fl64_abs) (use fl64_dyadic [of 9 4] in simp)
  moreover have "persist_ini ! n = fl64 (?t ! n)" unfolding persist_ini_def by (rule nth_map) (use assms in simp)
  ultimately show ?thesis by simp
qed

lemma amp_ini_le: "n \<le> 9 \<Longrightarrow> \<bar>amp_ini ! n\<bar> \<le> 3/2"
proof -
  assume n: "n \<le> 9"
  let ?t = "[0, 5/6, 10/9, 15/12, 20/15, 25/18, 30/21, 35/24, 40/27, 45/30] :: rat list"
  have "n < length ?t" using n by simp
  then have "?t ! n \<in> set ?t" by (rule nth_mem)
  then have "\<bar>fl64 (?t ! n)\<bar> \<le> 3/2" by (intro fl64_abs) (use fl64_dyadic [of 3 1] in auto)
  moreover have "amp_ini ! n = fl64 (?t ! n)" unfolding amp_ini_def by (rule nth_map) (use n in simp)
  ultimately show ?thesis by simp
qed

lemma xOctaveInit_ok:
  assumes "xOctaveInit xr amps omin nmax = Some (octs, xr')" "amps_ok amps"
  shows "(\<forall>p \<in> set octs. octave_ok p) \<and> length octs \<le> 9"
proof -
  obtain a as where a: "amps = a # as" using assms(2) by (cases amps) (auto simp: amps_ok_def)
  have q: "\<bar>persist_ini ! length amps\<bar> \<le> 9/16" using assms(2) by (intro persist_ini_le) (auto simp: amps_ok_def)
  from assms(1) obtain xlo xhi where
    "xOctave_loop xlo xhi omin nmax 0 0 amps (lacuna_ini ! nat (- omin)) (persist_ini ! length amps) = Some octs"
    by (auto simp: xOctaveInit_def split_beta Let_def simp del: xOctave_loop.simps split: if_splits)
  from xOctave_loop_first [OF this [unfolded a] _ q [unfolded a]] assms(2) show ?thesis
    by (auto simp: a amps_ok_def)
qed

lemma xDoublePerlinInit_ok:
  assumes "xDoublePerlinInit xr amps omin nmax = Some (noise, n)" "amps_ok amps"
  shows "double_ok noise"
proof -
  have "\<bar>amp_ini ! trimmed_len amps\<bar> \<le> 3/2"
    using assms(2) by (intro amp_ini_le) (auto simp: trimmed_len_def amps_ok_def)
  then show ?thesis using assms(1) xOctaveInit_ok [OF _ assms(2)]
    by (fastforce simp: xDoublePerlinInit_def double_ok_def split_beta Let_def split: option.splits)
qed

lemma xPerlinInit_None: "xPerlinInit g = None \<Longrightarrow> all_rejected g"
  using init_noise_None [of g] xPerlinInit_device [of g] by simp

subsection \<open>Properties\<close>

text \<open>
  C21. An octave of the cpu is the octave of the device: from the same generator \<open>xPerlinInit\<close> and
  \<open>init_noise\<close> build the same table, and the offsets of the device are those of the cpu cut to 16
  fractional bits. The row that is cached for height zero changes nothing: a sample is the
  interpolation of the corners of its cell at every height, and with all roundings it stays within 3.
  \<open>xPerlinInit\<close> fails to return only if from some point on every draw is rejected.
\<close>

theorem perlin_octave_correct:
  "case xPerlinInit g of
     None \<Rightarrow> all_rejected g
   | Some (p, g') \<Rightarrow> init_noise g = Some (to_device p) \<and>
       (\<forall>x y z. samplePerlin p x y z 0 0 =
          perlin_corners (pn_d p) (perlin_cell (add64 x (pn_a p))) (perlin_cell (add64 y (pn_b p))) (perlin_cell (add64 z (pn_c p))) \<and>
        \<bar>samplePerlin p x y z 0 0\<bar> \<le> 3)"
  using xPerlinInit_device [of g] xPerlinInit_None [of g] xPerlinInit_ok [of g] samplePerlin_row samplePerlin_bound
  by (auto split: option.split)

end
