(* ===== verification/Spline.thy ===== *)
theory Spline
  imports Rng_Helpers Float_Bounds "HOL-Library.Monad_Syntax"
begin

text \<open>
  The splines of \<open>biomenoise.c\<close> that turn continentalness, erosion and ridges into the height of the
  terrain: their construction on a stack of fixed size and their evaluation. The value \<open>None\<close> stands
  for a write past one of the arrays and for the \<open>exit(1)\<close> of \<open>getSpline\<close>.
\<close>

subsection \<open>The model\<close>

datatype SplineType = SP_CONTINENTALNESS | SP_EROSION | SP_RIDGES | SP_WEIRDNESS

text \<open>A spline with its points, each with location, value and derivative, or a constant one.\<close>

datatype Spline = FixSpline f32 | Spline SplineType "(f32 \<times> Spline \<times> f32) list"

text \<open>
  A stack holds the splines until the generator is freed and its entries never move, so only its two
  lengths matter: the splines refer to each other directly.
\<close>

record SplineStack =
  stack_len :: nat
  stack_flen :: nat

definition new_spline :: "SplineType \<Rightarrow> SplineStack \<Rightarrow> (Spline \<times> SplineStack) option" where
  "new_spline typ ss =
     (if stack_len ss < 42 then Some (Spline typ [], ss\<lparr>stack_len := stack_len ss + 1\<rparr>) else None)"

definition createFixSpline :: "f32 \<Rightarrow> SplineStack \<Rightarrow> (Spline \<times> SplineStack) option" where
  "createFixSpline v ss =
     (if stack_flen ss < 151 then Some (FixSpline v, ss\<lparr>stack_flen := stack_flen ss + 1\<rparr>) else None)"

fun addSplineVal :: "Spline \<Rightarrow> f32 \<Rightarrow> Spline \<Rightarrow> f32 \<Rightarrow> Spline option" where
  "addSplineVal (Spline typ pts) loc v der = (if length pts < 12 then Some (Spline typ (pts @ [(loc, v, der)])) else None)"
| "addSplineVal (FixSpline w) loc v der = None"

text \<open>Calls of \<open>addSplineVal\<close> in a row, with given values and with new constant ones.\<close>

fun addSplineVals :: "Spline \<Rightarrow> (f32 \<times> Spline \<times> f32) list \<Rightarrow> Spline option" where
  "addSplineVals sp [] = Some sp"
| "addSplineVals sp ((loc, v, der) # pts) = do {
     sp \<leftarrow> addSplineVal sp loc v der;
     addSplineVals sp pts
   }"

fun addFixVals :: "Spline \<Rightarrow> (f32 \<times> f32 \<times> f32) list \<Rightarrow> SplineStack \<Rightarrow> (Spline \<times> SplineStack) option" where
  "addFixVals sp [] ss = Some (sp, ss)"
| "addFixVals sp ((loc, v, der) # pts) ss =
     do {
       (c, ss) \<leftarrow> createFixSpline v ss;
       sp \<leftarrow> addSplineVal sp loc c der;
       addFixVals sp pts ss
     }"

definition getOffsetValue :: "f32 \<Rightarrow> f32 \<Rightarrow> f32" where
  "getOffsetValue weirdness continentalness =
     (let f0 = sub32 1 (mul32 (sub32 1 continentalness) (1/2));
          f1 = mul32 (1/2) (sub32 1 continentalness);
          f2 = mul32 (add32 weirdness (fl32 (117/100))) (fl32 (46082947/10^8));
          off = sub32 (mul32 f2 f0) f1
      in if weirdness < fl32 (- 7/10)
         then (if fl32 (- 2222/10000) < off then off else fl32 (- 2222/10000))
         else (if 0 < off then off else 0))"

definition createSpline_38219 :: "f32 \<Rightarrow> bool \<Rightarrow> SplineStack \<Rightarrow> (Spline \<times> SplineStack) option" where
  "createSpline_38219 f bl ss =
     do {
       (sp, ss) \<leftarrow> new_spline SP_RIDGES ss;
       let i = getOffsetValue (- 1) f;
           k = getOffsetValue 1 f;
           l = sub32 1 (mul32 (sub32 1 f) (1/2));
           u = mul32 (1/2) (sub32 1 f);
           l = sub32 (div32 u (mul32 (fl32 (46082947/10^8)) l)) (fl32 (117/100))
       in if fl32 (- 65/100) < l \<and> l < 1
          then let u = getOffsetValue (fl32 (- 65/100)) f;
                   p = getOffsetValue (- 75/100) f;
                   q = mul32 (sub32 p i) 4;
                   r = getOffsetValue l f;
                   s = div32 (sub32 k r) (sub32 1 l)
               in addFixVals sp [(- 1, i, q), (- 75/100, p, 0), (fl32 (- 65/100), u, 0),
                    (sub32 l (fl32 (1/100)), r, 0), (l, r, s), (1, k, s)] ss
          else let u = mul32 (sub32 k i) (1/2)
               in addFixVals sp
                    ((if bl then [(- 1, fl32 (if fl64 (2/10) < i then i else fl64 (2/10)), 0), (0, fl32 (lerp (1/2) i k), u)]
                      else [(- 1, i, u)]) @ [(1, k, u)]) ss
     }"

definition createFlatOffsetSpline ::
    "f32 \<Rightarrow> f32 \<Rightarrow> f32 \<Rightarrow> f32 \<Rightarrow> f32 \<Rightarrow> f32 \<Rightarrow> SplineStack \<Rightarrow> (Spline \<times> SplineStack) option" where
  "createFlatOffsetSpline f g h i j k ss =
     do {
       (sp, ss) \<leftarrow> new_spline SP_RIDGES ss;
       let l = mul32 (1/2) (sub32 g f);
           l = (if l < k then k else l);
           m = mul32 5 (sub32 h g)
       in addFixVals sp [(- 1, f, l), (fl32 (- 4/10), g, if l < m then l else m), (0, h, m),
            (fl32 (4/10), i, mul32 2 (sub32 i h)), (1, j, mul32 (fl32 (7/10)) (sub32 j i))] ss
     }"

definition createLandSpline ::
    "f32 \<Rightarrow> f32 \<Rightarrow> f32 \<Rightarrow> f32 \<Rightarrow> f32 \<Rightarrow> f32 \<Rightarrow> bool \<Rightarrow> SplineStack \<Rightarrow> (Spline \<times> SplineStack) option" where
  "createLandSpline f g h i j k bl ss =
     do {
       (sp1, ss) \<leftarrow> createSpline_38219 (fl32 (lerp i (fl32 (6/10)) (3/2))) bl ss;
       (sp2, ss) \<leftarrow> createSpline_38219 (fl32 (lerp i (fl32 (6/10)) 1)) bl ss;
       (sp3, ss) \<leftarrow> createSpline_38219 i bl ss;
       let ih = mul32 (1/2) i;
       let i6 = mul32 i (fl32 (6/10));
       (sp4, ss) \<leftarrow> createFlatOffsetSpline (sub32 f (fl32 (15/100))) ih ih ih i6 (1/2) ss;
       (sp5, ss) \<leftarrow> createFlatOffsetSpline f (mul32 j i) (mul32 g i) ih i6 (1/2) ss;
       (sp6, ss) \<leftarrow> createFlatOffsetSpline f j j g h (1/2) ss;
       (sp7, ss) \<leftarrow> createFlatOffsetSpline f j j g h (1/2) ss;
       (sp8, ss) \<leftarrow> new_spline SP_RIDGES ss;
       (sp8, ss) \<leftarrow> addFixVals sp8 [(- 1, f, 0)] ss;
       sp8 \<leftarrow> addSplineVal sp8 (fl32 (- 4/10)) sp6 0;
       (sp8, ss) \<leftarrow> addFixVals sp8 [(0, add32 h (fl32 (7/100)), 0)] ss;
       (sp9, ss) \<leftarrow> createFlatOffsetSpline (fl32 (- 2/100)) k k g h 0 ss;
       (sp, ss) \<leftarrow> new_spline SP_EROSION ss;
       sp \<leftarrow> addSplineVals sp
         ([(fl32 (- 85/100), sp1, 0), (fl32 (- 7/10), sp2, 0), (fl32 (- 4/10), sp3, 0), (fl32 (- 35/100), sp4, 0),
           (fl32 (- 1/10), sp5, 0), (fl32 (2/10), sp6, 0)] @
          (if bl then [(fl32 (4/10), sp7, 0), (fl32 (45/100), sp8, 0), (fl32 (55/100), sp8, 0), (fl32 (58/100), sp7, 0)]
           else []) @
          [(fl32 (7/10), sp9, 0)]);
       Some (sp, ss)
     }"

definition initBiomeNoise_spline :: "(Spline \<times> SplineStack) option" where
  "initBiomeNoise_spline =
     do {
       (sp, ss) \<leftarrow> new_spline SP_CONTINENTALNESS \<lparr>stack_len = 0, stack_flen = 0\<rparr>;
       (sp1, ss) \<leftarrow> createLandSpline (fl32 (- 15/100)) 0 0 (fl32 (1/10)) 0 (fl32 (- 3/100)) False ss;
       (sp2, ss) \<leftarrow> createLandSpline (fl32 (- 1/10)) (fl32 (3/100)) (fl32 (1/10)) (fl32 (1/10)) (fl32 (1/100)) (fl32 (- 3/100)) False ss;
       (sp3, ss) \<leftarrow> createLandSpline (fl32 (- 1/10)) (fl32 (3/100)) (fl32 (1/10)) (fl32 (7/10)) (fl32 (1/100)) (fl32 (- 3/100)) True ss;
       (sp4, ss) \<leftarrow> createLandSpline (fl32 (- 5/100)) (fl32 (3/100)) (fl32 (1/10)) 1 (fl32 (1/100)) (fl32 (1/100)) True ss;
       (sp, ss) \<leftarrow> addFixVals sp [(fl32 (- 110/100), fl32 (44/1000), 0), (fl32 (- 102/100), fl32 (- 2222/10000), 0),
         (fl32 (- 51/100), fl32 (- 2222/10000), 0), (fl32 (- 44/100), fl32 (- 12/100), 0), (fl32 (- 18/100), fl32 (- 12/100), 0)] ss;
       sp \<leftarrow> addSplineVals sp [(fl32 (- 16/100), sp1, 0), (fl32 (- 15/100), sp1, 0), (fl32 (- 1/10), sp2, 0),
         (1/4, sp3, 0), (1, sp4, 0)];
       Some (sp, ss)
     }"

text \<open>
  The evaluation at the four values of \<open>np_param\<close>. A spline of one point that is not a constant one,
  which the C code would misread, is an error too; there is none.
\<close>

primrec spline_index :: "SplineType \<Rightarrow> nat" where
  "spline_index SP_CONTINENTALNESS = 0"
| "spline_index SP_EROSION = 1"
| "spline_index SP_RIDGES = 2"
| "spline_index SP_WEIRDNESS = 3"

definition spline_between :: "f32 \<Rightarrow> f32 \<times> f32 \<times> f32 \<Rightarrow> f32 \<times> f32 \<times> f32 \<Rightarrow> f32" where
  "spline_between f = (\<lambda>(g, n, l) (h, o', m).
     let k = div32 (sub32 f g) (sub32 h g);
         p = sub32 (mul32 l (sub32 h g)) (sub32 o' n);
         q = add32 (mul32 (- m) (sub32 h g)) (sub32 o' n)
     in fl32 (add64 (lerp k n o') (mul64 (mul32 k (sub32 1 k)) (lerp k p q))))"

fun getSpline :: "Spline \<Rightarrow> f32 list \<Rightarrow> f32 option" where
  "getSpline (FixSpline v) vals = Some v"
| "getSpline (Spline typ pts) vals =
     (if length pts \<le> 1 \<or> 12 \<le> length pts then None
      else let f = vals ! spline_index typ;
               i = length (takeWhile (\<lambda>(loc, v, der). \<not> f \<le> loc) pts);
               point = (\<lambda>j. let (loc, v, der) = map (\<lambda>(loc, v, der). (loc, getSpline v vals, der)) pts ! j
                           in map_option (\<lambda>v. (loc, v, der)) v)
           in if i = 0 \<or> i = length pts
              then do {
                (loc, v, der) \<leftarrow> point (i - 1);
                Some (add32 v (mul32 der (sub32 f loc)))
              }
              else do {
                a \<leftarrow> point (i - 1);
                b \<leftarrow> point i;
                Some (spline_between f a b)
              })"

end
