(* ===== verification/Spline_Bounds.thy ===== *)
theory Spline_Bounds
  imports Spline
begin

text \<open>
  The construction of the splines fits their stack, exactly in the case of the constant ones, and
  the evaluation of the result is defined and bounded for all noise values of the generator. Both need
  to know which of the two forms \<open>createSpline_38219\<close> takes for each of its arguments, so the roundings
  are bounded step by step.
\<close>

subsection \<open>The values of the ridge splines\<close>

lemma mul_between:
  fixes x y :: rat
  assumes "a \<le> x" "x \<le> b" "c \<le> y" "y \<le> d" "0 \<le> a" "0 \<le> c"
  shows "a * c \<le> x * y \<and> x * y \<le> b * d"
  using assms by (intro conjI mult_mono) auto

lemma div_between:
  fixes x y :: rat
  assumes "a \<le> x" "x \<le> b" "c \<le> y" "y \<le> d" "0 \<le> a" "0 < c"
  shows "a / d \<le> x / y \<and> x / y \<le> b / c"
  using assms by (intro conjI frac_le) auto

lemma const_0_46082947: "471/1024 \<le> fl32 (46082947 / 10 ^ 8) \<and> fl32 (46082947 / 10 ^ 8) \<le> 472/1024"
  using fl32_steps [of 471 "46082947 / 10 ^ 8" 472] by simp

lemma const_1_17: "1198/1024 \<le> fl32 (117/100) \<and> fl32 (117/100) \<le> 1199/1024"
  using fl32_steps [of 1198 "117/100" 1199] by simp

text \<open>The terms of \<open>getOffsetValue\<close> that depend on the continentalness.\<close>

lemma half_terms:
  assumes "of_int a / 1024 \<le> f" "f \<le> of_int b / 1024" "0 \<le> a" "b \<le> 2048" "even a" "even b"
  defines "u \<equiv> mul32 (1/2) (sub32 1 f)" and "l \<equiv> sub32 1 (mul32 (sub32 1 f) (1/2))"
  shows "of_int (512 - b div 2) / 1024 \<le> u \<and> u \<le> of_int (512 - a div 2) / 1024 \<and>
    of_int (512 + a div 2) / 1024 \<le> l \<and> l \<le> of_int (512 + b div 2) / 1024"
proof -
  have ab: "a \<le> b" using assms(1,2) by (simp add: divide_le_cancel)
  have s: "of_int (1024 - b) / 1024 \<le> sub32 1 f \<and> sub32 1 f \<le> of_int (1024 - a) / 1024"
    unfolding sub32_def by (rule fl32_steps) (use assms(1-4) ab in \<open>auto simp: field_simps\<close>)
  have h: "rat_of_int (n div 2) = of_int n / 2" if "even n" for n using that by auto
  have u: "of_int (512 - b div 2) / 1024 \<le> u \<and> u \<le> of_int (512 - a div 2) / 1024"
    unfolding u_def mul32_def by (rule fl32_steps) (use s assms(3-6) ab in \<open>auto simp: h field_simps\<close>)
  have "mul32 (sub32 1 f) (1/2) = u" by (simp add: u_def mul32_def)
  then have "of_int (512 + a div 2) / 1024 \<le> l \<and> l \<le> of_int (512 + b div 2) / 1024"
    unfolding l_def sub32_def [of 1 "mul32 (sub32 1 f) (1/2)"]
    by (intro fl32_steps) (use u assms(3-6) ab in \<open>auto simp: h field_simps\<close>)
  then show ?thesis using u by simp
qed

lemma getOffsetValue_bound:
  assumes f: "of_int a / 1024 \<le> f" "f \<le> of_int b / 1024" "0 \<le> a" "b \<le> 2048" "even a" "even b"
    and w: "- 1 \<le> w" "w \<le> 1" and P: "1025 * (512 + b div 2) \<le> 1024 * P" "P \<le> 4096"
  shows "- 228/1024 \<le> getOffsetValue w f \<and> getOffsetValue w f \<le> of_int (max 0 (P - 512 + b div 2)) / 1024"
proof -
  define u where "u = mul32 (1/2) (sub32 1 f)"
  define l where "l = sub32 1 (mul32 (sub32 1 f) (1/2))"
  define s where "s = add32 w (fl32 (117/100))"
  define m where "m = mul32 s (fl32 (46082947 / 10 ^ 8))"
  define p where "p = mul32 m l"
  have ab: "a \<le> b" "0 \<le> b" using f(1-3) by (auto simp: divide_le_cancel)
  note h = half_terms [OF f, folded u_def l_def]
  have "0 \<le> rat_of_int (512 + a div 2) / 1024" using f(3) by simp
  then have l0: "0 \<le> l" "l \<le> of_int (512 + b div 2) / 1024" using h by linarith+
  have "174/1024 \<le> s \<and> s \<le> 2223/1024"
    unfolding s_def add32_def using fl32_steps [of 174 "w + fl32 (117/100)" 2223] w const_1_17 by simp
  then have "0 * 0 \<le> s * fl32 (46082947 / 10 ^ 8) \<and> s * fl32 (46082947 / 10 ^ 8) \<le> 2223/1024 * (472/1024)"
    using const_0_46082947 by (intro mul_between) auto
  then have m: "0 \<le> m \<and> m \<le> 1025/1024"
    unfolding m_def mul32_def using fl32_steps [of 0 "s * fl32 (46082947 / 10 ^ 8)" 1025] by simp
  have "0 * 0 \<le> m * l \<and> m * l \<le> 1025/1024 * (of_int (512 + b div 2) / 1024)"
    using m l0 by (intro mul_between) auto
  moreover have "rat_of_int (1025 * (512 + b div 2)) \<le> of_int (1024 * P)" using P(1) by (simp only: of_int_le_iff)
  ultimately have "of_int 0 / 1024 \<le> m * l" "m * l \<le> of_int P / 1024" by (auto simp: field_simps)
  then have "of_int 0 / 1024 \<le> p \<and> p \<le> of_int P / 1024"
    unfolding p_def mul32_def [of m l] by (rule fl32_steps) (use P ab in auto)
  then have "sub32 p u \<le> of_int (P - 512 + b div 2) / 1024"
    unfolding sub32_def by (intro fl32_le_step) (use h P f ab in \<open>auto simp: field_simps\<close>)
  moreover have "- 228/1024 \<le> fl32 (- 2222/10000) \<and> fl32 (- 2222/10000) \<le> 0"
    using fl32_steps [of "- 228" "- 2222/10000" 0] by simp
  moreover have "getOffsetValue w f = (if w < fl32 (- 7/10) then max (fl32 (- 2222/10000)) (sub32 p u) else max 0 (sub32 p u))"
    by (simp add: getOffsetValue_def Let_def p_def m_def s_def u_def l_def max_def)
  ultimately show ?thesis by (auto simp: max_def field_simps)
qed

definition ridge_l :: "f32 \<Rightarrow> f32" where
  "ridge_l f = sub32 (div32 (mul32 (1/2) (sub32 1 f)) (mul32 (fl32 (46082947/10^8)) (sub32 1 (mul32 (sub32 1 f) (1/2))))) (fl32 (117/100))"

lemma ridge_l_high:
  assumes "5/8 \<le> f" "f \<le> 2"
  shows "ridge_l f \<le> fl32 (- 65/100)"
proof -
  define u where "u = mul32 (1/2) (sub32 1 f)"
  define l where "l = sub32 1 (mul32 (sub32 1 f) (1/2))"
  have h: "u \<le> 192/1024" "832/1024 \<le> l" "l \<le> 1536/1024"
    using half_terms [of 640 f 2048, folded u_def l_def] assms by simp_all
  define m where "m = mul32 (fl32 (46082947/10^8)) l"
  have "471/1024 * (832/1024) \<le> fl32 (46082947/10^8) * l \<and> fl32 (46082947/10^8) * l \<le> 472/1024 * (1536/1024)"
    using h const_0_46082947 by (intro mul_between) auto
  then have m: "382/1024 \<le> m" unfolding m_def mul32_def
    using fl32_steps [of 382 "fl32 (46082947/10^8) * l" 708] by simp
  define r where "r = u / m"
  have "r \<le> 192/1024 / (382/1024)"
  proof (cases "0 \<le> u")
    case True
    then show ?thesis unfolding r_def using h m by (intro frac_le) auto
  next
    case False
    then have "r \<le> 0" using m by (simp add: r_def divide_nonpos_pos)
    then show ?thesis by simp
  qed
  then have "r \<le> of_int 515/1024" by simp
  then have "div32 u m \<le> 515/1024" unfolding div32_def r_def using fl32_le_step by fastforce
  then have "div32 u m - fl32 (117/100) \<le> - 65/100" using const_1_17 by simp
  then show ?thesis unfolding ridge_l_def sub32_def [of "div32 _ _"] u_def [symmetric] l_def [symmetric] m_def [symmetric] by (rule fl32_mono)
qed

lemma ridge_l_low:
  assumes "1/16 \<le> f" "f \<le> 1/8"
  shows "1/2 \<le> ridge_l f \<and> ridge_l f \<le> 769/1024"
proof -
  define u where "u = mul32 (1/2) (sub32 1 f)"
  define l where "l = sub32 1 (mul32 (sub32 1 f) (1/2))"
  have h: "448/1024 \<le> u" "u \<le> 480/1024" "544/1024 \<le> l" "l \<le> 576/1024"
    using half_terms [of 64 f 128, folded u_def l_def] assms by simp_all
  define m where "m = mul32 (fl32 (46082947/10^8)) l"
  have "471/1024 * (544/1024) \<le> fl32 (46082947/10^8) * l \<and> fl32 (46082947/10^8) * l \<le> 472/1024 * (576/1024)"
    using h const_0_46082947 by (intro mul_between) auto
  then have m: "250/1024 \<le> m \<and> m \<le> 266/1024" unfolding m_def mul32_def
    using fl32_steps [of 250 "fl32 (46082947/10^8) * l" 266] by simp
  define r where "r = u / m"
  have "448/1024 / (266/1024) \<le> r \<and> r \<le> 480/1024 / (250/1024)"
    unfolding r_def using h m by (intro div_between) auto
  then have "of_int 1724/1024 \<le> r" "r \<le> of_int 1967/1024" by auto
  then have "1724/1024 \<le> div32 u m \<and> div32 u m \<le> 1967/1024" unfolding div32_def r_def [symmetric]
    using fl32_steps [of 1724 r 1967] by simp
  then have "512/1024 \<le> sub32 (div32 u m) (fl32 (117/100)) \<and> sub32 (div32 u m) (fl32 (117/100)) \<le> 769/1024"
    unfolding sub32_def using fl32_steps [of 512 "div32 u m - fl32 (117/100)" 769] const_1_17 by simp
  then show ?thesis by (simp add: ridge_l_def u_def l_def m_def)
qed

subsection \<open>Evaluation is bounded\<close>

lemma convex_abs:
  fixes x y t :: rat
  assumes "0 \<le> t" "t \<le> 1" "\<bar>x\<bar> \<le> b" "\<bar>y\<bar> \<le> b"
  shows "\<bar>x + t * (y - x)\<bar> \<le> b"
proof -
  have "\<bar>(1 - t) * x\<bar> \<le> (1 - t) * b" "\<bar>t * y\<bar> \<le> t * b"
    unfolding abs_mult using assms by (auto intro!: mult_mono)
  moreover have "x + t * (y - x) = (1 - t) * x + t * y" "(1 - t) * b + t * b = b" by (simp_all add: algebra_simps)
  ultimately show ?thesis by linarith
qed

lemma lerp_unit_bound:
  assumes t: "0 \<le> t" "t \<le> 1" and x: "\<bar>x\<bar> \<le> of_int n" and y: "\<bar>y\<bar> \<le> of_int n" and n: "n \<le> 2 ^ 20"
  shows "\<bar>lerp t x y\<bar> \<le> of_int n + 1"
proof -
  define e :: rat where "e = 1 / 4"
  have nr: "rat_of_int n \<le> 1048576" using of_int_le_iff [of n "2 ^ 20"] n by simp
  have r: "\<bar>fl64 x - x\<bar> \<le> e" if "\<bar>x\<bar> < 8388608" for x using fl64_err [of x 23] that by (simp add: e_def)
  define s where "s = sub64 y x"
  have s: "\<bar>s - (y - x)\<bar> \<le> e" using r [of "y - x"] x y nr by (simp add: s_def sub64_def)
  have "\<bar>t * (s - (y - x))\<bar> \<le> 1 * e" unfolding abs_mult using t s by (intro mult_mono) auto
  moreover have c: "\<bar>x + t * (y - x)\<bar> \<le> of_int n" using t x y by (rule convex_abs)
  ultimately have "\<bar>t * s - t * (y - x)\<bar> \<le> e" "\<bar>t * s\<bar> < 8388608"
    using x nr unfolding e_def right_diff_distrib [of t s] by linarith+
  then have m: "\<bar>mul64 t s - t * (y - x)\<bar> \<le> 2 * e" using r [of "t * s"] unfolding mul64_def by linarith
  then have "\<bar>x + mul64 t s\<bar> < 8388608" using c nr unfolding e_def by linarith
  then have "\<bar>lerp t x y - (x + t * (y - x))\<bar> \<le> 3 * e"
    using r [of "x + mul64 t s"] m unfolding lerp_def add64_def s_def [symmetric] by linarith
  then show ?thesis using c unfolding e_def by linarith
qed

definition points_ok :: "(f32 \<times> Spline \<times> f32) list \<Rightarrow> bool" where
  "points_ok pts \<longleftrightarrow> 2 \<le> length pts \<and> length pts \<le> 11 \<and> (\<forall>p \<in> set pts. \<bar>fst p\<bar> \<le> 2) \<and>
     sorted_wrt (\<lambda>p q. fst p + 9/1024 \<le> fst q) pts"

inductive spline_bound :: "int \<Rightarrow> Spline \<Rightarrow> bool" where
  fix_value: "\<bar>v\<bar> \<le> 4 \<Longrightarrow> spline_bound 4 (FixSpline v)"
| ridge: "points_ok pts \<Longrightarrow> (\<And>loc v der. (loc, v, der) \<in> set pts \<Longrightarrow> \<bar>der\<bar> \<le> 8 \<and> (\<exists>w. v = FixSpline w \<and> \<bar>w\<bar> \<le> 4)) \<Longrightarrow>
    spline_bound 2100 (Spline typ pts)"
| level: "points_ok pts \<Longrightarrow> (\<And>loc v der. (loc, v, der) \<in> set pts \<Longrightarrow> der = 0 \<and> spline_bound b v) \<Longrightarrow> b \<le> 10000 \<Longrightarrow>
    spline_bound (2 * b + 2) (Spline typ pts)"
| weaken: "spline_bound b sp \<Longrightarrow> b \<le> c \<Longrightarrow> c \<le> 2 ^ 16 \<Longrightarrow> spline_bound c sp"

lemma between_bound:
  assumes f: "g < f" "f \<le> h" and gh: "g + 9/1024 \<le> h" "\<bar>g\<bar> \<le> 2" "\<bar>h\<bar> \<le> 2"
    and n: "\<bar>n\<bar> \<le> of_int b" "\<bar>o'\<bar> \<le> of_int b" "b \<le> 2 ^ 16"
    and d: "\<bar>l\<bar> \<le> of_int c" "\<bar>m\<bar> \<le> of_int c" "c \<le> 8"
  shows "\<bar>spline_between f (g, n, l) (h, o', m)\<bar> \<le> of_int (2 * b + 2 * c + 2)"
proof -
  have c0: "0 \<le> c" using d(1) by linarith
  have b0: "0 \<le> b" using n(1) by linarith
  have hg: "9/1024 \<le> sub32 h g" "sub32 h g \<le> 4"
    using fl32_steps [of 9 "h - g" 4096] gh by (auto simp: sub32_def abs_le_iff)
  define k where "k = div32 (sub32 f g) (sub32 h g)"
  have "0 \<le> sub32 f g" "sub32 f g \<le> sub32 h g" using f fl32_nonneg [of "f - g"] fl32_mono [of "f - g" "h - g"] by (auto simp: sub32_def)
  then have "0 \<le> sub32 f g / sub32 h g" "sub32 f g / sub32 h g \<le> 1" using hg(1) by (auto simp: divide_le_eq)
  then have k: "0 \<le> k" "k \<le> 1"
    using fl32_nonneg fl32_mono [of "sub32 f g / sub32 h g" 1] fl32_of_int [of 1] by (auto simp: k_def div32_def)
  have on: "\<bar>sub32 o' n\<bar> \<le> of_int (2 * b)" unfolding sub32_def by (rule fl32_abs_le) (use n in auto)
  have dm: "\<bar>mul32 x (sub32 h g)\<bar> \<le> of_int (4 * c)" if "\<bar>x\<bar> \<le> of_int c" for x
  proof -
    have "\<bar>x * sub32 h g\<bar> \<le> of_int c * 4" unfolding abs_mult using that hg by (intro mult_mono) auto
    then show ?thesis unfolding mul32_def by (intro fl32_abs_le) (use d in auto)
  qed
  define p where "p = sub32 (mul32 l (sub32 h g)) (sub32 o' n)"
  define q where "q = add32 (mul32 (- m) (sub32 h g)) (sub32 o' n)"
  have p: "\<bar>p\<bar> \<le> of_int (2 * b + 4 * c)" unfolding p_def sub32_def [of "mul32 l (sub32 h g)"]
    by (rule fl32_abs_le) (use dm [of l] on d n b0 in auto)
  have q: "\<bar>q\<bar> \<le> of_int (2 * b + 4 * c)" unfolding q_def add32_def
    by (rule fl32_abs_le) (use dm [of "- m"] on d n b0 in auto)
  have l1: "\<bar>lerp k n o'\<bar> \<le> of_int b + 1" using lerp_unit_bound [OF k n(1,2)] n(3) by simp
  have l2: "\<bar>lerp k p q\<bar> \<le> of_int (2 * b + 4 * c) + 1" using lerp_unit_bound [OF k p q] n(3) d(3) by simp
  have s: "0 \<le> sub32 1 k" "sub32 1 k \<le> 1" "1/2 \<le> k \<Longrightarrow> sub32 1 k \<le> 1/2"
    using k fl32_nonneg [of "1 - k"] fl32_mono [of "1 - k" 1] fl32_of_int [of 1] fl32_mono [of "1 - k" "1/2"] fl32_dyadic [of 1 1]
    by (auto simp: sub32_def)
  then have "k * sub32 1 k \<le> 1/2" using k mult_mono [of k "1/2" "sub32 1 k" 1] mult_mono [of k 1 "sub32 1 k" "1/2"]
    by (cases "1/2 \<le> k") auto
  then have kk: "\<bar>mul32 k (sub32 1 k)\<bar> \<le> 1/2" unfolding mul32_def
    by (intro fl32_abs) (use k s fl32_dyadic [of 1 1] in auto)
  have "\<bar>mul32 k (sub32 1 k) * lerp k p q\<bar> \<le> 1/2 * (of_int (2 * b + 4 * c) + 1)" unfolding abs_mult
    using kk l2 by (intro mult_mono) auto
  then have "\<bar>mul64 (mul32 k (sub32 1 k)) (lerp k p q)\<bar> \<le> of_int (b + 2 * c + 1)" unfolding mul64_def
    by (intro fl64_abs_le) (use n(3) d(3) in auto)
  then have "\<bar>add64 (lerp k n o') (mul64 (mul32 k (sub32 1 k)) (lerp k p q))\<bar> \<le> of_int (2 * b + 2 * c + 2)"
    unfolding add64_def by (intro fl64_abs_le) (use l1 n(3) d(3) in auto)
  then have "\<bar>fl32 (add64 (lerp k n o') (mul64 (mul32 k (sub32 1 k)) (lerp k p q)))\<bar> \<le> of_int (2 * b + 2 * c + 2)"
    by (rule fl32_abs_le) (use n(3) d(3) in auto)
  then show ?thesis unfolding spline_between_def Let_def prod.case k_def p_def q_def .
qed

lemma points_gap:
  assumes "points_ok pts" "i < j" "j < length pts"
  shows "fst (pts ! i) + 9/1024 \<le> fst (pts ! j)"
  using assms sorted_wrt_nth_less [of _ pts i j] by (auto simp: points_ok_def)

text \<open>The evaluation step, for any bound on the values of the points.\<close>

lemma getSpline_step:
  assumes ok: "points_ok pts" and f: "\<bar>vals ! spline_index typ\<bar> \<le> 248" and b: "b \<le> 2 ^ 16" "c \<le> 8" "0 \<le> c"
    and pts: "\<And>loc v der. (loc, v, der) \<in> set pts \<Longrightarrow> \<bar>der\<bar> \<le> of_int c \<and> (\<exists>r. getSpline v vals = Some r \<and> \<bar>r\<bar> \<le> of_int b)"
  shows "\<exists>r. getSpline (Spline typ pts) vals = Some r \<and> \<bar>r\<bar> \<le> of_int (max (2 * b + 2 * c + 2) (b + 250 * c))"
proof -
  define f where "f = vals ! spline_index typ"
  define i where "i = length (takeWhile (\<lambda>(loc, v, der). \<not> f \<le> loc) pts)"
  define point where "point = (\<lambda>j. let (loc, v, der) = map (\<lambda>(loc, v, der). (loc, getSpline v vals, der)) pts ! j
                           in map_option (\<lambda>v. (loc, v, der)) v)"
  have len: "2 \<le> length pts" "length pts \<le> 11" using ok by (auto simp: points_ok_def)
  have pt: "\<exists>v. point j = Some (fst (pts ! j), v, snd (snd (pts ! j))) \<and> \<bar>v\<bar> \<le> of_int b \<and>
      \<bar>snd (snd (pts ! j))\<bar> \<le> of_int c \<and> \<bar>fst (pts ! j)\<bar> \<le> 2" if "j < length pts" for j
  proof -
    obtain loc v der where p: "pts ! j = (loc, v, der)" by (cases "pts ! j")
    moreover have "(loc, v, der) \<in> set pts" using that p by (metis nth_mem)
    ultimately show ?thesis using pts [of loc v der] ok that by (auto simp: point_def points_ok_def)
  qed
  have eval: "getSpline (Spline typ pts) vals =
      (if i = 0 \<or> i = length pts
       then Option.bind (point (i - 1)) (\<lambda>(loc, v, der). Some (add32 v (mul32 der (sub32 f loc))))
       else Option.bind (point (i - 1)) (\<lambda>a. Option.bind (point i) (\<lambda>b. Some (spline_between f a b))))"
    using len by (simp add: i_def f_def point_def Let_def)
  show ?thesis
  proof (cases "i = 0 \<or> i = length pts")
    case True
    then have "i - 1 < length pts" using len by auto
    from pt [OF this] obtain v where v: "point (i - 1) = Some (fst (pts ! (i - 1)), v, snd (snd (pts ! (i - 1))))"
      "\<bar>v\<bar> \<le> of_int b" "\<bar>snd (snd (pts ! (i - 1)))\<bar> \<le> of_int c" "\<bar>fst (pts ! (i - 1))\<bar> \<le> 2" by blast
    define loc der where d: "loc = fst (pts ! (i - 1))" "der = snd (snd (pts ! (i - 1)))"
    have "\<bar>f - loc\<bar> \<le> of_int 250" using f v(4) unfolding f_def d by simp
    then have s: "\<bar>sub32 f loc\<bar> \<le> of_int 250" unfolding sub32_def by (rule fl32_abs_le) simp
    have "\<bar>der * sub32 f loc\<bar> \<le> of_int c * of_int 250" unfolding abs_mult using v(3) s b(3) unfolding d by (intro mult_mono) auto
    then have "\<bar>mul32 der (sub32 f loc)\<bar> \<le> of_int (250 * c)" unfolding mul32_def by (intro fl32_abs_le) (use b in auto)
    then have "\<bar>add32 v (mul32 der (sub32 f loc))\<bar> \<le> of_int (b + 250 * c)" unfolding add32_def
      by (intro fl32_abs_le) (use v(2) b in auto)
    also have "\<dots> \<le> of_int (max (2 * b + 2 * c + 2) (b + 250 * c))" by (simp only: of_int_le_iff max.cobounded1 max.cobounded2)
    finally show ?thesis using True v(1) by (simp add: eval d del: getSpline.simps)
  next
    case False
    then have i: "0 < i" "i < length pts" using length_takeWhile_le [of _ pts] by (auto simp: i_def order.order_iff_strict)
    have "takeWhile (\<lambda>(loc, v, der). \<not> f \<le> loc) pts ! (i - 1) \<in> set (takeWhile (\<lambda>(loc, v, der). \<not> f \<le> loc) pts)"
      using i(1) by (intro nth_mem) (simp add: i_def)
    moreover have "takeWhile (\<lambda>(loc, v, der). \<not> f \<le> loc) pts ! (i - 1) = pts ! (i - 1)"
      using i(1) by (intro takeWhile_nth) (simp add: i_def)
    ultimately have g: "fst (pts ! (i - 1)) < f" using set_takeWhileD by (fastforce simp: split_beta)
    have h: "f \<le> fst (pts ! i)" using nth_length_takeWhile [of "\<lambda>(loc, v, der). \<not> f \<le> loc" pts] i(2)
      by (auto simp: i_def split_beta)
    from pt [of "i - 1"] i obtain n where n: "point (i - 1) = Some (fst (pts ! (i - 1)), n, snd (snd (pts ! (i - 1))))"
      "\<bar>n\<bar> \<le> of_int b" "\<bar>snd (snd (pts ! (i - 1)))\<bar> \<le> of_int c" "\<bar>fst (pts ! (i - 1))\<bar> \<le> 2" by fastforce
    from pt [of i] i obtain m where m: "point i = Some (fst (pts ! i), m, snd (snd (pts ! i)))"
      "\<bar>m\<bar> \<le> of_int b" "\<bar>snd (snd (pts ! i))\<bar> \<le> of_int c" "\<bar>fst (pts ! i)\<bar> \<le> 2" by fastforce
    have gap: "fst (pts ! (i - 1)) + 9/1024 \<le> fst (pts ! i)" using points_gap [OF ok] i by simp
    have "\<bar>spline_between f (fst (pts ! (i - 1)), n, snd (snd (pts ! (i - 1)))) (fst (pts ! i), m, snd (snd (pts ! i)))\<bar> \<le> of_int (2 * b + 2 * c + 2)"
      by (rule between_bound [OF g h gap n(4) m(4) n(2) m(2) b(1) n(3) m(3) b(2)])
    also have "\<dots> \<le> of_int (max (2 * b + 2 * c + 2) (b + 250 * c))" by (simp only: of_int_le_iff max.cobounded1 max.cobounded2)
    finally show ?thesis using False n(1) m(1) by (simp add: eval del: getSpline.simps)
  qed
qed

lemma getSpline_bound:
  assumes "spline_bound b sp" "length vals = 4" "\<forall>v \<in> set vals. \<bar>v\<bar> \<le> 248"
  shows "b \<le> 2 ^ 16 \<and> (\<exists>r. getSpline sp vals = Some r \<and> \<bar>r\<bar> \<le> of_int b)"
  using assms
proof (induction rule: spline_bound.induct)
  case (ridge pts ty)
  have "\<bar>vals ! spline_index ty\<bar> \<le> 248" using ridge(3,4) by (cases ty) auto
  from getSpline_step [OF ridge(1) this, of 4 8] ridge(2) show ?case by fastforce
next
  case (level pts b ty)
  have "\<bar>vals ! spline_index ty\<bar> \<le> 248" using level(4,5) by (cases ty) auto
  from getSpline_step [OF level(1) this, of b 0] level(2,3,4,5) show ?case by fastforce
qed fastforce+

subsection \<open>The construction fits the stack\<close>

definition fix_points :: "(f32 \<times> f32 \<times> f32) list \<Rightarrow> (f32 \<times> Spline \<times> f32) list" where
  "fix_points = map (\<lambda>(loc, v, der). (loc, FixSpline v, der))"

lemma addFixVals_ok:
  "length pts + length new \<le> 12 \<Longrightarrow> stack_flen ss + length new \<le> 151 \<Longrightarrow>
   addFixVals (Spline ty pts) new ss =
     Some (Spline ty (pts @ fix_points new), ss\<lparr>stack_flen := stack_flen ss + length new\<rparr>)"
  by (induction new arbitrary: pts ss) (auto simp: createFixSpline_def fix_points_def)

lemma addSplineVals_ok: "length pts + length new \<le> 12 \<Longrightarrow> addSplineVals (Spline ty pts) new = Some (Spline ty (pts @ new))"
  by (induction new arbitrary: pts) auto

lemma ridge_points:
  assumes "points_ok (fix_points new)" "list_all (\<lambda>(loc, v, der). \<bar>der\<bar> \<le> 8 \<and> \<bar>v\<bar> \<le> 4) new"
  shows "spline_bound 2100 (Spline ty (fix_points new))"
  using assms by (intro ridge) (auto simp: fix_points_def list_all_iff)

lemma createSpline_38219_unfold:
  fixes f bl
  defines "i \<equiv> getOffsetValue (- 1) f" and "k \<equiv> getOffsetValue 1 f" and "l \<equiv> ridge_l f"
  defines "p \<equiv> getOffsetValue (- 75/100) f" and "r \<equiv> getOffsetValue l f" and "u \<equiv> mul32 (sub32 k i) (1/2)"
  defines "s \<equiv> div32 (sub32 k r) (sub32 1 l)"
  shows "createSpline_38219 f bl ss = Option.bind (new_spline SP_RIDGES ss) (\<lambda>(sp, ss).
    if fl32 (- 65/100) < l \<and> l < 1
    then addFixVals sp [(- 1, i, mul32 (sub32 p i) 4), (- 75/100, p, 0), (fl32 (- 65/100), getOffsetValue (fl32 (- 65/100)) f, 0),
           (sub32 l (fl32 (1/100)), r, 0), (l, r, s), (1, k, s)] ss
    else addFixVals sp ((if bl then [(- 1, fl32 (if fl64 (2/10) < i then i else fl64 (2/10)), 0), (0, fl32 (lerp (1/2) i k), u)]
                         else [(- 1, i, u)]) @ [(1, k, u)]) ss)"
  unfolding assms by (simp only: createSpline_38219_def ridge_l_def Let_def)

lemma createSpline_38219_high:
  assumes f: "5/8 \<le> f" "f \<le> 2" and s: "len < 42" "flen + (if bl then 3 else 2) \<le> 151"
  shows "\<exists>sp. createSpline_38219 f bl \<lparr>stack_len = len, stack_flen = flen\<rparr> =
      Some (sp, \<lparr>stack_len = len + 1, stack_flen = flen + (if bl then 3 else 2)\<rparr>) \<and> spline_bound 2100 sp"
proof -
  define i where "i = getOffsetValue (- 1) f"
  define k where "k = getOffsetValue 1 f"
  define u where "u = mul32 (sub32 k i) (1/2)"
  define new :: "(f32 \<times> f32 \<times> f32) list" where "new = (if bl then [(- 1, fl32 (if fl64 (2/10) < i then i else fl64 (2/10)), 0), (0, fl32 (lerp (1/2) i k), u)]
                      else [(- 1, i, u)]) @ [(1, k, u)]"
  have no: "\<not> (fl32 (- 65/100) < ridge_l f \<and> ridge_l f < 1)" using ridge_l_high [OF f] by simp
  have c: "createSpline_38219 f bl \<lparr>stack_len = len, stack_flen = flen\<rparr> =
      addFixVals (Spline SP_RIDGES []) new \<lparr>stack_len = len + 1, stack_flen = flen\<rparr>"
    unfolding createSpline_38219_unfold if_not_P [OF no] i_def k_def u_def new_def
    using s(1) by (simp add: new_spline_def del: addFixVals.simps)
  have ik: "\<bar>i\<bar> \<le> of_int 3" "\<bar>k\<bar> \<le> of_int 3"
    using getOffsetValue_bound [of 640 f 2048 "- 1" 1538] getOffsetValue_bound [of 640 f 2048 1 1538] f
    by (auto simp: i_def k_def abs_le_iff)
  have "\<bar>sub32 k i\<bar> \<le> of_int 6" unfolding sub32_def by (rule fl32_abs_le) (use ik in auto)
  then have "\<bar>sub32 k i * (1/2)\<bar> \<le> of_int 3" by simp
  then have u: "\<bar>u\<bar> \<le> of_int 3" unfolding u_def mul32_def by (rule fl32_abs_le) simp
  have "\<bar>lerp (1/2) i k\<bar> \<le> of_int 4" using lerp_unit_bound [OF _ _ ik, of "1/2"] by simp
  then have v: "\<bar>fl32 (lerp (1/2) i k)\<bar> \<le> of_int 4" by (rule fl32_abs_le) simp
  have "\<bar>fl64 (2/10)\<bar> \<le> of_int 3" by (rule fl64_abs_le) simp_all
  then have w: "\<bar>fl32 (if fl64 (2/10) < i then i else fl64 (2/10))\<bar> \<le> of_int 3" using ik by (intro fl32_abs_le) auto
  have "spline_bound 2100 (Spline SP_RIDGES (fix_points new))"
  proof (rule ridge_points)
    show "points_ok (fix_points new)" by (simp add: new_def fix_points_def points_ok_def)
    have "\<bar>i\<bar> \<le> 4" "\<bar>k\<bar> \<le> 4" "\<bar>u\<bar> \<le> 8" "\<bar>fl32 (if fl64 (2/10) < i then i else fl64 (2/10))\<bar> \<le> 4" "\<bar>fl32 (lerp (1/2) i k)\<bar> \<le> 4"
      using ik u v w by linarith+
    then show "list_all (\<lambda>(loc, v, der). \<bar>der\<bar> \<le> 8 \<and> \<bar>v\<bar> \<le> 4) new" unfolding new_def by (simp del: if_distrib)
  qed
  moreover have "length new = (if bl then 3 else 2)" by (simp add: new_def)
  ultimately show ?thesis using s(2) by (simp add: c addFixVals_ok)
qed

lemma createSpline_38219_low:
  assumes f: "1/16 \<le> f" "f \<le> 1/8" and s: "len < 42" "flen + 6 \<le> 151"
  shows "\<exists>sp. createSpline_38219 f bl \<lparr>stack_len = len, stack_flen = flen\<rparr> =
      Some (sp, \<lparr>stack_len = len + 1, stack_flen = flen + 6\<rparr>) \<and> spline_bound 2100 sp"
proof -
  define l where "l = ridge_l f"
  have l: "1/2 \<le> l" "l \<le> 769/1024" using ridge_l_low [OF f] by (simp_all add: l_def)
  have c: "fl32 (- 65/100) \<le> - 65/100 + 1 / 2 ^ 20" "- 65/100 - 1 / 2 ^ 20 \<le> fl32 (- 65/100)"
    "fl32 (1/100) \<le> 1/100 + 1 / 2 ^ 20" "1/100 - 1 / 2 ^ 20 \<le> fl32 (1/100)"
    using fl32_near [of "- 65/100"] fl32_near [of "1/100"] by simp_all
  have o: "\<bar>getOffsetValue w f\<bar> \<le> 1/4" if "- 1 \<le> w" "w \<le> 1" for w
    using getOffsetValue_bound [of 64 f 128 w 577] f that by (simp add: abs_le_iff) linarith
  define i where "i = getOffsetValue (- 1) f"
  define k where "k = getOffsetValue 1 f"
  define u where "u = getOffsetValue (fl32 (- 65/100)) f"
  define p where "p = getOffsetValue (- 75/100) f"
  define r where "r = getOffsetValue l f"
  have vals: "\<bar>i\<bar> \<le> 1/4" "\<bar>k\<bar> \<le> 1/4" "\<bar>u\<bar> \<le> 1/4" "\<bar>p\<bar> \<le> 1/4" "\<bar>r\<bar> \<le> 1/4"
    unfolding i_def k_def u_def p_def r_def using o c l by simp_all
  define q where "q = mul32 (sub32 p i) 4"
  define s where "s = div32 (sub32 k r) (sub32 1 l)"
  have d: "\<bar>sub32 x y\<bar> \<le> of_int 1" if "\<bar>x\<bar> \<le> 1/4" "\<bar>y\<bar> \<le> 1/4" for x y
    unfolding sub32_def by (rule fl32_abs_le) (use that in auto)
  have q: "\<bar>q\<bar> \<le> of_int 4" unfolding q_def mul32_def by (rule fl32_abs_le) (use d [of p i] vals in auto)
  have "255/1024 \<le> sub32 1 l" using fl32_steps [of 255 "1 - l" 1024] l by (simp add: sub32_def)
  then have "\<bar>sub32 k r / sub32 1 l\<bar> \<le> 1 / (1/4 - 1/1024)" unfolding abs_divide using d [of k r] vals by (intro frac_le) auto
  also have "\<dots> \<le> of_int 8" by simp
  finally have s8: "\<bar>s\<bar> \<le> of_int 8" unfolding s_def div32_def by (rule fl32_abs_le) simp
  have la: "l - 1/100 - 1 / 2 ^ 19 \<le> sub32 l (fl32 (1/100))" "sub32 l (fl32 (1/100)) \<le> l - 1/100 + 1 / 2 ^ 19"
    using fl32_near [of "l - fl32 (1/100)"] l c by (auto simp: sub32_def)
  define new :: "(f32 \<times> f32 \<times> f32) list" where "new = [(- 1, i, q), (- 75/100, p, 0), (fl32 (- 65/100), u, 0), (sub32 l (fl32 (1/100)), r, 0), (l, r, s), (1, k, s)]"
  have "createSpline_38219 f bl \<lparr>stack_len = len, stack_flen = flen\<rparr> =
      addFixVals (Spline SP_RIDGES []) new \<lparr>stack_len = len + 1, stack_flen = flen\<rparr>"
    unfolding createSpline_38219_unfold l_def [symmetric] i_def k_def u_def p_def r_def q_def s_def new_def
    using assms(3) l c by (simp add: new_spline_def del: addFixVals.simps)
  moreover have "spline_bound 2100 (Spline SP_RIDGES (fix_points new))"
  proof (rule ridge_points)
    have "- 75/100 + 9/1024 \<le> fl32 (- 65/100)" "fl32 (- 65/100) + 9/1024 \<le> sub32 l (fl32 (1/100))"
      "sub32 l (fl32 (1/100)) + 9/1024 \<le> l" "l + 9/1024 \<le> 1" using l c la by simp_all
    moreover from this have "\<bar>fl32 (- 65/100)\<bar> \<le> 2" "\<bar>sub32 l (fl32 (1/100))\<bar> \<le> 2" "\<bar>l\<bar> \<le> 2"
      using l unfolding abs_le_iff by linarith+
    ultimately show "points_ok (fix_points new)" by (simp add: new_def fix_points_def points_ok_def)
    have "\<bar>i\<bar> \<le> 4" "\<bar>k\<bar> \<le> 4" "\<bar>u\<bar> \<le> 4" "\<bar>p\<bar> \<le> 4" "\<bar>r\<bar> \<le> 4" "\<bar>q\<bar> \<le> 8" "\<bar>s\<bar> \<le> 8" using vals q s8 by simp_all
    then show "list_all (\<lambda>(loc, v, der). \<bar>der\<bar> \<le> 8 \<and> \<bar>v\<bar> \<le> 4) new" by (simp add: new_def)
  qed
  moreover have "length new = 6" by (simp add: new_def)
  ultimately show ?thesis using assms(4) by (simp add: addFixVals_ok)
qed

lemma createFlatOffsetSpline_ok:
  assumes v: "\<bar>f\<bar> \<le> 1" "\<bar>g\<bar> \<le> 1" "\<bar>h\<bar> \<le> 1" "\<bar>i\<bar> \<le> 1" "\<bar>j\<bar> \<le> 1" "\<bar>h - g\<bar> \<le> 1" "0 \<le> k" "k \<le> 1/2"
    and s: "len < 42" "flen + 5 \<le> 151"
  shows "\<exists>sp. createFlatOffsetSpline f g h i j k \<lparr>stack_len = len, stack_flen = flen\<rparr> =
      Some (sp, \<lparr>stack_len = len + 1, stack_flen = flen + 5\<rparr>) \<and> spline_bound 2100 sp"
proof -
  have d: "\<bar>sub32 x y\<bar> \<le> of_int 2" if "\<bar>x\<bar> \<le> 1" "\<bar>y\<bar> \<le> 1" for x y
    unfolding sub32_def by (rule fl32_abs_le) (use that in auto)
  have m8: "\<bar>mul32 c x\<bar> \<le> of_int 8" if "\<bar>c * x\<bar> \<le> 8" for c x unfolding mul32_def by (rule fl32_abs_le) (use that in auto)
  define l where "l = (let l = mul32 (1/2) (sub32 g f) in if l < k then k else l)"
  have l: "\<bar>l\<bar> \<le> of_int 8" using m8 [of "1/2" "sub32 g f"] d [of g f] v by (auto simp: l_def Let_def)
  define m where "m = mul32 5 (sub32 h g)"
  have "\<bar>sub32 h g\<bar> \<le> of_int 1" unfolding sub32_def by (rule fl32_abs_le) (use v in auto)
  then have m: "\<bar>m\<bar> \<le> of_int 8" unfolding m_def by (intro m8) (simp add: abs_mult)
  have i2: "\<bar>mul32 2 (sub32 i h)\<bar> \<le> of_int 8" by (rule m8) (use d [of i h] v in \<open>simp add: abs_mult\<close>)
  have c: "4/10 - 1 / 2 ^ 20 \<le> fl32 (4/10)" "fl32 (4/10) \<le> 4/10 + 1 / 2 ^ 20"
    "- 4/10 - 1 / 2 ^ 20 \<le> fl32 (- 4/10)" "fl32 (- 4/10) \<le> - 4/10 + 1 / 2 ^ 20" "\<bar>fl32 (7/10)\<bar> \<le> 1"
    using fl32_near [of "4/10"] fl32_near [of "- 4/10"] fl32_abs_le [of "7/10" 1] by simp_all
  have "\<bar>fl32 (7/10) * sub32 j i\<bar> \<le> 1 * 2" unfolding abs_mult using c(5) d [of j i] v by (intro mult_mono) auto
  then have j7: "\<bar>mul32 (fl32 (7/10)) (sub32 j i)\<bar> \<le> of_int 8" by (intro m8) simp
  define new where "new = [(- 1, f, l), (fl32 (- 4/10), g, if l < m then l else m), (0, h, m),
            (fl32 (4/10), i, mul32 2 (sub32 i h)), (1, j, mul32 (fl32 (7/10)) (sub32 j i))]"
  have "createFlatOffsetSpline f g h i j k \<lparr>stack_len = len, stack_flen = flen\<rparr> =
      addFixVals (Spline SP_RIDGES []) new \<lparr>stack_len = len + 1, stack_flen = flen\<rparr>"
    unfolding createFlatOffsetSpline_def new_def l_def m_def Let_def using s(1) by (simp add: new_spline_def del: addFixVals.simps)
  moreover have "spline_bound 2100 (Spline SP_RIDGES (fix_points new))"
  proof (rule ridge_points)
    show "points_ok (fix_points new)" using c by (simp add: new_def fix_points_def points_ok_def abs_le_iff)
    have "\<bar>f\<bar> \<le> 4" "\<bar>g\<bar> \<le> 4" "\<bar>h\<bar> \<le> 4" "\<bar>i\<bar> \<le> 4" "\<bar>j\<bar> \<le> 4" using v by linarith+
    then show "list_all (\<lambda>(loc, v, der). \<bar>der\<bar> \<le> 8 \<and> \<bar>v\<bar> \<le> 4) new" using l m i2 j7 by (simp add: new_def)
  qed
  moreover have "length new = 5" by (simp add: new_def)
  ultimately show ?thesis using s(2) by (simp add: addFixVals_ok)
qed

lemma spline_level:
  assumes "points_ok pts" "\<And>loc v der. (loc, v, der) \<in> set pts \<Longrightarrow> der = 0 \<and> spline_bound b v" "b \<le> 10000" "c = 2 * b + 2"
  shows "spline_bound c (Spline ty pts)"
  using level [OF assms(1-3)] assms(4) by simp

lemma mul32_unit: "\<bar>x\<bar> \<le> of_int a / 1024 \<Longrightarrow> \<bar>y\<bar> \<le> 1 \<Longrightarrow> \<bar>a\<bar> < 2 ^ 24 \<Longrightarrow> \<bar>mul32 x y\<bar> \<le> of_int a / 1024"
proof -
  assume a: "\<bar>x\<bar> \<le> of_int a / 1024" "\<bar>y\<bar> \<le> 1" "\<bar>a\<bar> < 2 ^ 24"
  have "\<bar>x * y\<bar> \<le> of_int a / 1024 * 1" unfolding abs_mult using a by (intro mult_mono) auto
  then show ?thesis unfolding mul32_def using fl32_dyadic [OF a(3), of 10] by (intro fl32_abs) auto
qed

lemma lerp_high:
  assumes i: "51/512 \<le> i" "i \<le> 1" and t: "to' = 1 \<or> to' = 3/2"
  shows "5/8 \<le> fl32 (lerp i (fl32 (6/10)) to') \<and> fl32 (lerp i (fl32 (6/10)) to') \<le> 2"
proof -
  have c: "6/10 - 1 / 2 ^ 20 \<le> fl32 (6/10)" "fl32 (6/10) \<le> 6/10 + 1 / 2 ^ 20" using fl32_near [of "6/10"] by simp_all
  have s: "408/1024 \<le> sub64 to' (fl32 (6/10)) \<and> sub64 to' (fl32 (6/10)) \<le> 1024/1024"
    using fl64_steps [of 408 "to' - fl32 (6/10)" 1024] c t by (auto simp: sub64_def)
  have "51/512 * (408/1024) \<le> i * sub64 to' (fl32 (6/10)) \<and> i * sub64 to' (fl32 (6/10)) \<le> 1 * 1"
    using i s by (intro mul_between) auto
  then have m: "40/1024 \<le> mul64 i (sub64 to' (fl32 (6/10))) \<and> mul64 i (sub64 to' (fl32 (6/10))) \<le> 1"
    using fl64_steps [of 40 "i * sub64 to' (fl32 (6/10))" 1024] by (auto simp: mul64_def)
  then have "640/1024 \<le> lerp i (fl32 (6/10)) to' \<and> lerp i (fl32 (6/10)) to' \<le> 2048/1024"
    using fl64_steps [of 640 "fl32 (6/10) + mul64 i (sub64 to' (fl32 (6/10)))" 2048] c by (auto simp: lerp_def add64_def)
  then show ?thesis using fl32_steps [of 640 "lerp i (fl32 (6/10)) to'" 2048] by simp
qed

lemma small_consts:
  "\<bar>fl32 (15/100)\<bar> \<le> 1/4" "\<bar>fl32 (7/100)\<bar> \<le> 1/4" "\<bar>fl32 (- 2/100)\<bar> \<le> 1/4"
  "\<bar>fl32 (6/10)\<bar> \<le> 1"
  using fl32_abs [of "15/100" "1/4"] fl32_abs [of "7/100" "1/4"] fl32_abs [of "- 2/100" "1/4"]
    fl32_dyadic [of 1 2] fl32_abs_le [of "6/10" 1] by simp_all

lemma land_locations:
  "fl32 (- 85/100) + 9/1024 \<le> fl32 (- 7/10)" "fl32 (- 7/10) + 9/1024 \<le> fl32 (- 4/10)" "fl32 (- 4/10) + 9/1024 \<le> fl32 (- 35/100)"
  "fl32 (- 35/100) + 9/1024 \<le> fl32 (- 1/10)" "fl32 (- 1/10) + 9/1024 \<le> fl32 (2/10)" "fl32 (2/10) + 9/1024 \<le> fl32 (4/10)"
  "fl32 (4/10) + 9/1024 \<le> fl32 (45/100)" "fl32 (45/100) + 9/1024 \<le> fl32 (55/100)" "fl32 (55/100) + 9/1024 \<le> fl32 (58/100)"
  "fl32 (58/100) + 9/1024 \<le> fl32 (7/10)" "- 1 \<le> fl32 (- 85/100)" "fl32 (7/10) \<le> 1"
  using fl32_near [of "- 85/100"] fl32_near [of "- 7/10"] fl32_near [of "- 4/10"] fl32_near [of "- 35/100"] fl32_near [of "- 1/10"]
    fl32_near [of "2/10"] fl32_near [of "4/10"] fl32_near [of "45/100"] fl32_near [of "55/100"] fl32_near [of "58/100"] fl32_near [of "7/10"]
  by simp_all

lemma points_ok_chain:
  assumes "2 \<le> length pts" "length pts \<le> 11" "- 2 \<le> fst (hd pts)" "fst (last pts) \<le> 2"
    and "successively (\<lambda>p q. fst p + 9/1024 \<le> fst q) pts"
  shows "points_ok pts"
proof -
  have tr: "transp (\<lambda>(p :: f32 \<times> Spline \<times> f32) q. fst p + 9/1024 \<le> fst q)" by (auto simp: transp_def)
  then have s: "sorted_wrt (\<lambda>p q. fst p + 9/1024 \<le> fst q) pts" using assms(5) by (simp add: successively_conv_sorted_wrt)
  have "\<bar>fst p\<bar> \<le> 2" if p: "p \<in> set pts" for p
  proof -
    obtain k where k: "k < length pts" "p = pts ! k" using p by (auto simp: in_set_conv_nth)
    have "fst (pts ! 0) \<le> fst (pts ! k)" using sorted_wrt_nth_less [OF s, of 0 k] k by (cases k) fastforce+
    moreover have "fst (pts ! k) \<le> fst (pts ! (length pts - 1))"
      using sorted_wrt_nth_less [OF s, of k "length pts - 1"] k assms(1) by (cases "k = length pts - 1") fastforce+
    moreover have "pts \<noteq> []" using p by auto
    then have "hd pts = pts ! 0" "last pts = pts ! (length pts - 1)" by (simp_all add: hd_conv_nth last_conv_nth)
    ultimately show ?thesis using k(2) assms(3,4) by (simp add: abs_le_iff)
  qed
  then show ?thesis using s assms(1,2) by (simp add: points_ok_def)
qed

lemma bound_fix: "\<bar>v\<bar> \<le> 4 \<Longrightarrow> 4 \<le> b \<Longrightarrow> b \<le> 2 ^ 16 \<Longrightarrow> spline_bound b (FixSpline v)"
  by (rule weaken [OF fix_value])

lemma createLandSpline_ok:
  assumes v: "\<bar>f\<bar> \<le> 1/4" "\<bar>g\<bar> \<le> 1/4" "\<bar>h\<bar> \<le> 1/4" "\<bar>j\<bar> \<le> 1/4" "\<bar>k\<bar> \<le> 1/4"
    and i: "51/512 \<le> i" "i \<le> 1" "if bl then 5/8 \<le> i else i \<le> 1/8"
    and s: "len + 10 \<le> 42" "flen + (if bl then 36 else 37) \<le> 151"
  shows "\<exists>sp. createLandSpline f g h i j k bl \<lparr>stack_len = len, stack_flen = flen\<rparr> =
      Some (sp, \<lparr>stack_len = len + 10, stack_flen = flen + (if bl then 36 else 37)\<rparr>) \<and> spline_bound 8406 sp"
proof -
  define r where "r = (if bl then 3 else 2 :: nat)"
  define r3 where "r3 = (if bl then 3 else 6 :: nat)"
  define ih where "ih = mul32 (1/2) i"
  define i6 where "i6 = mul32 i (fl32 (6/10))"
  have ai: "\<bar>i\<bar> \<le> 1" using i by (simp add: abs_le_iff)
  have ih: "\<bar>ih\<bar> \<le> 1" unfolding ih_def using mul32_unit [of "1/2" 512 i] ai by simp
  have i6: "\<bar>i6\<bar> \<le> 1" unfolding i6_def using mul32_unit [of i 1024 "fl32 (6/10)"] ai small_consts(4) by simp
  have ji: "\<bar>mul32 j i\<bar> \<le> 1/4" "\<bar>mul32 g i\<bar> \<le> 1/4" using mul32_unit [of j 256 i] mul32_unit [of g 256 i] ai v by simp_all
  then have gj: "\<bar>mul32 g i - mul32 j i\<bar> \<le> 1" by linarith
  have fs: "\<bar>sub32 f (fl32 (15/100))\<bar> \<le> 1" unfolding sub32_def using fl32_abs_le [of "f - fl32 (15/100)" 1] v(1) small_consts(1) by simp
  have hs: "\<bar>add32 h (fl32 (7/100))\<bar> \<le> 1" unfolding add32_def using fl32_abs_le [of "h + fl32 (7/100)" 1] v(3) small_consts(2) by simp
  have r: "r = (if bl then 3 else 2)" "2 * r + r3 + 27 = (if bl then 36 else 37)" by (simp_all add: r_def r3_def)
  have fl: "flen + 2 * r + r3 + 27 \<le> 151" using s(2) r(2) by simp
  have hi: "\<exists>sp. createSpline_38219 (fl32 (lerp i (fl32 (6/10)) t)) bl \<lparr>stack_len = l, stack_flen = n\<rparr> =
      Some (sp, \<lparr>stack_len = l + 1, stack_flen = n + r\<rparr>) \<and> spline_bound 2100 sp"
    if "t = 1 \<or> t = 3/2" "l < 42" "n + r \<le> 151" for t l n
    using createSpline_38219_high [of "fl32 (lerp i (fl32 (6/10)) t)" l n bl] lerp_high [OF i(1,2) that(1)] that(2,3)
    unfolding r(1) by blast
  obtain sp1 where 1: "createSpline_38219 (fl32 (lerp i (fl32 (6/10)) (3/2))) bl \<lparr>stack_len = len, stack_flen = flen\<rparr> =
      Some (sp1, \<lparr>stack_len = len + 1, stack_flen = flen + r\<rparr>)" "spline_bound 2100 sp1"
    using hi [of "3/2" len flen] s(1) fl by auto
  obtain sp2 where 2: "createSpline_38219 (fl32 (lerp i (fl32 (6/10)) 1)) bl \<lparr>stack_len = len + 1, stack_flen = flen + r\<rparr> =
      Some (sp2, \<lparr>stack_len = len + 2, stack_flen = flen + r + r\<rparr>)" "spline_bound 2100 sp2"
    using hi [of 1 "len + 1" "flen + r"] s(1) fl by auto
  obtain sp3 where 3: "createSpline_38219 i bl \<lparr>stack_len = len + 2, stack_flen = flen + r + r\<rparr> =
      Some (sp3, \<lparr>stack_len = len + 3, stack_flen = flen + r + r + r3\<rparr>)" "spline_bound 2100 sp3"
  proof (cases bl)
    case True
    then show ?thesis using createSpline_38219_high [of i "len + 2" "flen + r + r" bl] i s(1) fl that by (fastforce simp: r3_def r_def)
  next
    case False
    then show ?thesis using createSpline_38219_low [of i "len + 2" "flen + r + r" bl] i s(1) fl that by (fastforce simp: r3_def r_def)
  qed
  obtain sp4 where 4: "createFlatOffsetSpline (sub32 f (fl32 (15/100))) ih ih ih i6 (1/2) \<lparr>stack_len = len + 3, stack_flen = flen + r + r + r3\<rparr> =
      Some (sp4, \<lparr>stack_len = len + 4, stack_flen = flen + r + r + r3 + 5\<rparr>)" "spline_bound 2100 sp4"
    using createFlatOffsetSpline_ok [of "sub32 f (fl32 (15/100))" ih ih ih i6 "1/2" "len + 3" "flen + r + r + r3"] fs ih i6 s(1) fl by auto
  obtain sp5 where 5: "createFlatOffsetSpline f (mul32 j i) (mul32 g i) ih i6 (1/2) \<lparr>stack_len = len + 4, stack_flen = flen + r + r + r3 + 5\<rparr> =
      Some (sp5, \<lparr>stack_len = len + 5, stack_flen = flen + r + r + r3 + 10\<rparr>)" "spline_bound 2100 sp5"
    using createFlatOffsetSpline_ok [of f "mul32 j i" "mul32 g i" ih i6 "1/2" "len + 4" "flen + r + r + r3 + 5"] ji gj v ih i6 s(1) fl by auto
  have jj: "\<exists>sp. createFlatOffsetSpline f j j g h (1/2) \<lparr>stack_len = l, stack_flen = n\<rparr> = Some (sp, \<lparr>stack_len = l + 1, stack_flen = n + 5\<rparr>) \<and> spline_bound 2100 sp"
    if "l < 42" "n + 5 \<le> 151" for l n using createFlatOffsetSpline_ok [of f j j g h "1/2" l n] v that by auto
  obtain sp6 where 6: "createFlatOffsetSpline f j j g h (1/2) \<lparr>stack_len = len + 5, stack_flen = flen + r + r + r3 + 10\<rparr> =
      Some (sp6, \<lparr>stack_len = len + 6, stack_flen = flen + r + r + r3 + 15\<rparr>)" "spline_bound 2100 sp6"
    using jj [of "len + 5" "flen + r + r + r3 + 10"] s(1) fl by auto
  obtain sp7 where 7: "createFlatOffsetSpline f j j g h (1/2) \<lparr>stack_len = len + 6, stack_flen = flen + r + r + r3 + 15\<rparr> =
      Some (sp7, \<lparr>stack_len = len + 7, stack_flen = flen + r + r + r3 + 20\<rparr>)" "spline_bound 2100 sp7"
    using jj [of "len + 6" "flen + r + r + r3 + 15"] s(1) fl by auto
  define sp8 where "sp8 = Spline SP_RIDGES [(- 1, FixSpline f, 0), (fl32 (- 4/10), sp6, 0), (0, FixSpline (add32 h (fl32 (7/100))), 0)]"
  obtain sp9 where 9: "createFlatOffsetSpline (fl32 (- 2/100)) k k g h 0 \<lparr>stack_len = len + 8, stack_flen = flen + r + r + r3 + 22\<rparr> =
      Some (sp9, \<lparr>stack_len = len + 9, stack_flen = flen + r + r + r3 + 27\<rparr>)" "spline_bound 2100 sp9"
    using createFlatOffsetSpline_ok [of "fl32 (- 2/100)" k k g h 0 "len + 8" "flen + r + r + r3 + 22"] v small_consts(3) s(1) fl by auto
  define pts :: "(f32 \<times> Spline \<times> f32) list" where "pts = [(fl32 (- 85/100), sp1, 0), (fl32 (- 7/10), sp2, 0), (fl32 (- 4/10), sp3, 0), (fl32 (- 35/100), sp4, 0),
           (fl32 (- 1/10), sp5, 0), (fl32 (2/10), sp6, 0)] @
          (if bl then [(fl32 (4/10), sp7, 0), (fl32 (45/100), sp8, 0), (fl32 (55/100), sp8, 0), (fl32 (58/100), sp7, 0)] else []) @
          [(fl32 (7/10), sp9, 0)]"
  let ?n = "flen + r + r + r3"
  have steps: "new_spline SP_RIDGES \<lparr>stack_len = len + 7, stack_flen = ?n + 20\<rparr> =
      Some (Spline SP_RIDGES [], \<lparr>stack_len = len + 8, stack_flen = ?n + 20\<rparr>)"
    "addFixVals (Spline SP_RIDGES []) [(- 1, f, 0)] \<lparr>stack_len = len + 8, stack_flen = ?n + 20\<rparr> =
      Some (Spline SP_RIDGES [(- 1, FixSpline f, 0)], \<lparr>stack_len = len + 8, stack_flen = ?n + 21\<rparr>)"
    "addSplineVal (Spline SP_RIDGES [(- 1, FixSpline f, 0)]) (fl32 (- 4/10)) sp6 0 =
      Some (Spline SP_RIDGES [(- 1, FixSpline f, 0), (fl32 (- 4/10), sp6, 0)])"
    "addFixVals (Spline SP_RIDGES [(- 1, FixSpline f, 0), (fl32 (- 4/10), sp6, 0)]) [(0, add32 h (fl32 (7/100)), 0)]
      \<lparr>stack_len = len + 8, stack_flen = ?n + 21\<rparr> = Some (sp8, \<lparr>stack_len = len + 8, stack_flen = ?n + 22\<rparr>)"
    "new_spline SP_EROSION \<lparr>stack_len = len + 9, stack_flen = ?n + 27\<rparr> =
      Some (Spline SP_EROSION [], \<lparr>stack_len = len + 10, stack_flen = ?n + 27\<rparr>)"
    "addSplineVals (Spline SP_EROSION []) pts = Some (Spline SP_EROSION pts)"
    using s(1) fl by (simp_all add: new_spline_def createFixSpline_def sp8_def addSplineVals_ok pts_def)
  have run: "createLandSpline f g h i j k bl \<lparr>stack_len = len, stack_flen = flen\<rparr> =
      Some (Spline SP_EROSION pts, \<lparr>stack_len = len + 10, stack_flen = ?n + 27\<rparr>)"
    unfolding createLandSpline_def Let_def ih_def [symmetric] i6_def [symmetric]
    by (simp only: 1(1) 2(1) 3(1) 4(1) 5(1) 6(1) 7(1) 9(1) steps bind.bind_lunit prod.case pts_def [symmetric])
  have b8: "spline_bound 4202 sp8" unfolding sp8_def
  proof (rule spline_level)
    show "points_ok [(- 1, FixSpline f, 0), (fl32 (- 4/10), sp6, 0), (0, FixSpline (add32 h (fl32 (7/100))), 0)]"
      by (rule points_ok_chain) (use fl32_near [of "- 4/10"] in simp_all)
    show "der = 0 \<and> spline_bound 2100 v"
      if "(loc, v, der) \<in> set [(- 1, FixSpline f, 0), (fl32 (- 4/10), sp6, 0), (0, FixSpline (add32 h (fl32 (7/100))), 0)]" for loc v der
      using that 6(2) bound_fix [of f 2100] bound_fix [of "add32 h (fl32 (7/100))" 2100] v(1) hs by auto
  qed simp_all
  have "spline_bound 8406 (Spline SP_EROSION pts)"
  proof (rule spline_level)
    show "points_ok pts" unfolding pts_def by (rule points_ok_chain) (use land_locations in \<open>simp_all split: if_splits\<close>)
    have w: "spline_bound 2100 sp \<Longrightarrow> spline_bound 4202 sp" for sp using weaken [of 2100 sp 4202] by simp
    show "der = 0 \<and> spline_bound 4202 v" if "(loc, v, der) \<in> set pts" for loc v der
      using that b8 w 1(2) 2(2) 3(2) 4(2) 5(2) 6(2) 7(2) 9(2) by (auto simp: pts_def split: if_splits)
  qed simp_all
  then show ?thesis unfolding run by (simp add: r_def r3_def)
qed

lemma root_consts:
  "\<bar>fl32 (- 15/100)\<bar> \<le> 1/4" "\<bar>fl32 (- 3/100)\<bar> \<le> 1/4" "\<bar>fl32 (- 1/10)\<bar> \<le> 1/4" "\<bar>fl32 (3/100)\<bar> \<le> 1/4"
  "\<bar>fl32 (1/10)\<bar> \<le> 1/4" "\<bar>fl32 (1/100)\<bar> \<le> 1/4" "\<bar>fl32 (- 5/100)\<bar> \<le> 1/4"
  using fl32_abs [of "- 15/100" "1/4"] fl32_abs [of "- 3/100" "1/4"] fl32_abs [of "- 1/10" "1/4"] fl32_abs [of "3/100" "1/4"]
    fl32_abs [of "1/10" "1/4"] fl32_abs [of "1/100" "1/4"] fl32_abs [of "- 5/100" "1/4"] fl32_dyadic [of 1 2] by simp_all

lemma root_inputs: "51/512 \<le> fl32 (1/10)" "fl32 (1/10) \<le> 1/8" "5/8 \<le> fl32 (7/10)" "fl32 (7/10) \<le> 1"
  using fl32_near [of "1/10"] fl32_near [of "7/10"] by simp_all

lemma root_locations:
  "- 2 \<le> fl32 (- 110/100)" "fl32 (- 110/100) + 9/1024 \<le> fl32 (- 102/100)" "fl32 (- 102/100) + 9/1024 \<le> fl32 (- 51/100)"
  "fl32 (- 51/100) + 9/1024 \<le> fl32 (- 44/100)" "fl32 (- 44/100) + 9/1024 \<le> fl32 (- 18/100)"
  "fl32 (- 18/100) + 9/1024 \<le> fl32 (- 16/100)" "fl32 (- 16/100) + 9/1024 \<le> fl32 (- 15/100)"
  "fl32 (- 15/100) + 9/1024 \<le> fl32 (- 1/10)" "fl32 (- 1/10) + 9/1024 \<le> 1/4"
  using fl32_near [of "- 110/100"] fl32_near [of "- 102/100"] fl32_near [of "- 51/100"] fl32_near [of "- 44/100"] fl32_near [of "- 18/100"]
    fl32_near [of "- 16/100"] fl32_near [of "- 15/100"] fl32_near [of "- 1/10"] by simp_all

lemma initBiomeNoise_spline_ok:
  "\<exists>sp. initBiomeNoise_spline = Some (sp, \<lparr>stack_len = 41, stack_flen = 151\<rparr>) \<and> spline_bound 16814 sp"
proof -
  note land = createLandSpline_ok
  obtain sp1 where 1: "createLandSpline (fl32 (- 15/100)) 0 0 (fl32 (1/10)) 0 (fl32 (- 3/100)) False \<lparr>stack_len = 1, stack_flen = 0\<rparr> =
      Some (sp1, \<lparr>stack_len = 11, stack_flen = 37\<rparr>)" "spline_bound 8406 sp1"
    using land [of "fl32 (- 15/100)" 0 0 0 "fl32 (- 3/100)" "fl32 (1/10)" False 1 0] root_consts root_inputs by auto
  obtain sp2 where 2: "createLandSpline (fl32 (- 1/10)) (fl32 (3/100)) (fl32 (1/10)) (fl32 (1/10)) (fl32 (1/100)) (fl32 (- 3/100)) False
      \<lparr>stack_len = 11, stack_flen = 37\<rparr> = Some (sp2, \<lparr>stack_len = 21, stack_flen = 74\<rparr>)" "spline_bound 8406 sp2"
    using land [of "fl32 (- 1/10)" "fl32 (3/100)" "fl32 (1/10)" "fl32 (1/100)" "fl32 (- 3/100)" "fl32 (1/10)" False 11 37] root_consts root_inputs by auto
  obtain sp3 where 3: "createLandSpline (fl32 (- 1/10)) (fl32 (3/100)) (fl32 (1/10)) (fl32 (7/10)) (fl32 (1/100)) (fl32 (- 3/100)) True
      \<lparr>stack_len = 21, stack_flen = 74\<rparr> = Some (sp3, \<lparr>stack_len = 31, stack_flen = 110\<rparr>)" "spline_bound 8406 sp3"
    using land [of "fl32 (- 1/10)" "fl32 (3/100)" "fl32 (1/10)" "fl32 (1/100)" "fl32 (- 3/100)" "fl32 (7/10)" True 21 74] root_consts root_inputs by auto
  obtain sp4 where 4: "createLandSpline (fl32 (- 5/100)) (fl32 (3/100)) (fl32 (1/10)) 1 (fl32 (1/100)) (fl32 (1/100)) True
      \<lparr>stack_len = 31, stack_flen = 110\<rparr> = Some (sp4, \<lparr>stack_len = 41, stack_flen = 146\<rparr>)" "spline_bound 8406 sp4"
    using land [of "fl32 (- 5/100)" "fl32 (3/100)" "fl32 (1/10)" "fl32 (1/100)" "fl32 (1/100)" 1 True 31 110] root_consts root_inputs by auto
  define fixed :: "(f32 \<times> f32 \<times> f32) list" where "fixed = [(fl32 (- 110/100), fl32 (44/1000), 0), (fl32 (- 102/100), fl32 (- 2222/10000), 0),
         (fl32 (- 51/100), fl32 (- 2222/10000), 0), (fl32 (- 44/100), fl32 (- 12/100), 0), (fl32 (- 18/100), fl32 (- 12/100), 0)]"
  define rest :: "(f32 \<times> Spline \<times> f32) list" where "rest = [(fl32 (- 16/100), sp1, 0), (fl32 (- 15/100), sp1, 0), (fl32 (- 1/10), sp2, 0),
         (1/4, sp3, 0), (1, sp4, 0)]"
  have len: "length fixed = 5" "length rest = 5" "length (fix_points fixed) = 5" by (simp_all add: fixed_def rest_def fix_points_def)
  have new: "new_spline SP_CONTINENTALNESS \<lparr>stack_len = 0, stack_flen = 0\<rparr> =
      Some (Spline SP_CONTINENTALNESS [], \<lparr>stack_len = 1, stack_flen = 0\<rparr>)" by (simp add: new_spline_def)
  have run: "initBiomeNoise_spline = Some (Spline SP_CONTINENTALNESS (fix_points fixed @ rest), \<lparr>stack_len = 41, stack_flen = 151\<rparr>)"
    unfolding initBiomeNoise_spline_def fixed_def [symmetric]
    by (simp only: new 1(1) 2(1) 3(1) 4(1) bind.bind_lunit prod.case rest_def [symmetric]) (simp add: addFixVals_ok addSplineVals_ok len)
  have v: "\<bar>fl32 (44/1000)\<bar> \<le> 4" "\<bar>fl32 (- 2222/10000)\<bar> \<le> 4" "\<bar>fl32 (- 12/100)\<bar> \<le> 4"
    using fl32_abs_le [of "44/1000" 4] fl32_abs_le [of "- 2222/10000" 4] fl32_abs_le [of "- 12/100" 4] by simp_all
  have "spline_bound 16814 (Spline SP_CONTINENTALNESS (fix_points fixed @ rest))"
  proof (rule spline_level)
    show "points_ok (fix_points fixed @ rest)" unfolding fixed_def rest_def fix_points_def
      by (rule points_ok_chain) (use root_locations in simp_all)
    show "der = 0 \<and> spline_bound 8406 v" if "(loc, v, der) \<in> set (fix_points fixed @ rest)" for loc v der
      using that v [THEN bound_fix, of 8406] 1(2) 2(2) 3(2) 4(2) by (auto simp: fixed_def rest_def fix_points_def)
  qed simp_all
  then show ?thesis using run by blast
qed

subsection \<open>Properties\<close>

text \<open>
  C22. The spline of the depth fits its stacks: building it uses 41 of the 42 splines and all 151 of
  the constant ones, so \<open>initBiomeNoise\<close> never exits, and its value is defined and at most 16814 in
  size for all climate values up to 248.
\<close>

theorem spline_fits_stacks:
  "\<exists>sp. initBiomeNoise_spline = Some (sp, \<lparr>stack_len = 41, stack_flen = 151\<rparr>) \<and>
     (\<forall>vals. length vals = 4 \<longrightarrow> (\<forall>v \<in> set vals. \<bar>v\<bar> \<le> 248) \<longrightarrow> (\<exists>r. getSpline sp vals = Some r \<and> \<bar>r\<bar> \<le> 16814))"
proof -
  obtain sp where "initBiomeNoise_spline = Some (sp, \<lparr>stack_len = 41, stack_flen = 151\<rparr>)" "spline_bound 16814 sp"
    using initBiomeNoise_spline_ok by blast
  then show ?thesis using getSpline_bound by (intro exI [of _ sp]) fastforce
qed

theorem spline_fits_stacks_witness:
  "\<exists>sp r. initBiomeNoise_spline = Some (sp, \<lparr>stack_len = 41, stack_flen = 151\<rparr>) \<and> getSpline sp [0, 1, - 1, 1] = Some r \<and> \<bar>r\<bar> \<le> 16814"
proof -
  obtain sp where "initBiomeNoise_spline = Some (sp, \<lparr>stack_len = 41, stack_flen = 151\<rparr>)"
    "\<forall>vals. length vals = 4 \<longrightarrow> (\<forall>v \<in> set vals. \<bar>v\<bar> \<le> 248) \<longrightarrow> (\<exists>r. getSpline sp vals = Some r \<and> \<bar>r\<bar> \<le> 16814)"
    using spline_fits_stacks by blast
  then show ?thesis by (intro exI [of _ sp]) simp
qed

end
