(* ===== verification/Biome_Noise.thy ===== *)
theory Biome_Noise
  imports Perlin Spline_Bounds Climate_Biome
begin

text \<open>
  The climate of the generator for 1.18 and later (\<open>biomenoise.c\<close>): the six noises from a seed, the
  spline of the depth, and the sampling of the climate of a cell and of its biome. The trees of the
  older versions are the argument \<open>trees\<close>. The value \<open>None\<close> stands for \<open>exit(1)\<close>, an access outside
  of an array or a draw that never returns.
\<close>

subsection \<open>The noises of a seed\<close>

record BiomeNoise =
  bn_climate :: "DoublePerlinNoise list"
  bn_sp :: Spline
  bn_nptype :: int
  bn_mc :: nat

definition init_climate_seed :: "u64 \<Rightarrow> u64 \<Rightarrow> bool \<Rightarrow> nat \<Rightarrow> int \<Rightarrow> (DoublePerlinNoise \<times> nat) option" where
  "init_climate_seed xlo xhi large nptype nmax =
     (if nptype = NP_SHIFT then
        xDoublePerlinInit \<lparr>lo = xlo XOR 0x080518cf6af25384, hi = xhi XOR 0x3f3dfb40a54febd5\<rparr> [1, 1, 1, 0] (- 3) nmax
      else if nptype = NP_TEMPERATURE then
        xDoublePerlinInit
          \<lparr>lo = xlo XOR (if large then 0x944b0073edf549db else 0x5c7e6b29735f0d7f),
           hi = xhi XOR (if large then 0x4ff44347e9d22b96 else 0xf7d86f1bbc734988)\<rparr>
          [3/2, 0, 1, 0, 0, 0] (if large then - 12 else - 10) nmax
      else if nptype = NP_HUMIDITY then
        xDoublePerlinInit
          \<lparr>lo = xlo XOR (if large then 0x71b8ab943dbd5301 else 0x81bb4d22e8dc168e),
           hi = xhi XOR (if large then 0xbb63ddcf39ff7a2b else 0xf1c8b4bea16303cd)\<rparr>
          [1, 1, 0, 0, 0, 0] (if large then - 10 else - 8) nmax
      else if nptype = NP_CONTINENTALNESS then
        xDoublePerlinInit
          \<lparr>lo = xlo XOR (if large then 0x9a3f51a113fce8dc else 0x83886c9d0ae3a662),
           hi = xhi XOR (if large then 0xee2dbd157e5dcdad else 0xafa638a61b42e8ad)\<rparr>
          [1, 1, 2, 2, 2, 1, 1, 1, 1] (if large then - 11 else - 9) nmax
      else if nptype = NP_EROSION then
        xDoublePerlinInit
          \<lparr>lo = xlo XOR (if large then 0x8c984b1f8702a951 else 0xd02491e6058f6fd8),
           hi = xhi XOR (if large then 0xead7b1f92bae535f else 0x4792512c94c17a80)\<rparr>
          [1, 1, 0, 1, 1] (if large then - 11 else - 9) nmax
      else if nptype = NP_WEIRDNESS then
        xDoublePerlinInit \<lparr>lo = xlo XOR 0xefc8ef4d36102b34, hi = xhi XOR 0x1beeeb324a0f24ea\<rparr> [1, 2, 1, 0, 0, 0] (- 7) nmax
      else None)"

text \<open>The loop over the climates from \<open>i\<close> on, with the number of octaves used.\<close>

fun climate_loop :: "u64 \<Rightarrow> u64 \<Rightarrow> bool \<Rightarrow> nat list \<Rightarrow> (DoublePerlinNoise list \<times> nat) option" where
  "climate_loop xlo xhi large [] = Some ([], 0)"
| "climate_loop xlo xhi large (i # is) = do {
     (dpn, n) \<leftarrow> init_climate_seed xlo xhi large i (- 1);
     (dpns, m) \<leftarrow> climate_loop xlo xhi large is;
     Some (dpn # dpns, n + m)
   }"

text \<open>The buffer \<open>oct\<close> has room for 46 octaves.\<close>

definition setBiomeSeed :: "BiomeNoise \<Rightarrow> u64 \<Rightarrow> bool \<Rightarrow> BiomeNoise option" where
  "setBiomeSeed bn sd large =
     (let pxr = xSetSeed sd;
          (xlo, pxr) = xNextLong pxr;
          (xhi, pxr) = xNextLong pxr
      in case climate_loop xlo xhi large [0..<NP_MAX] of
           None \<Rightarrow> None
         | Some (climate, n) \<Rightarrow> if 46 < n then None else Some (bn\<lparr>bn_climate := climate, bn_nptype := - 1\<rparr>))"

definition setClimateParaSeed :: "BiomeNoise \<Rightarrow> u64 \<Rightarrow> bool \<Rightarrow> nat \<Rightarrow> int \<Rightarrow> BiomeNoise option" where
  "setClimateParaSeed bn sd large nptype nmax =
     (let pxr = xSetSeed sd;
          (xlo, pxr) = xNextLong pxr;
          (xhi, pxr) = xNextLong pxr
      in if nptype = NP_SHIFT
         then do {
           (c, n) \<leftarrow> init_climate_seed xlo xhi large NP_CONTINENTALNESS nmax;
           (e, n) \<leftarrow> init_climate_seed xlo xhi large NP_EROSION nmax;
           (w, n) \<leftarrow> init_climate_seed xlo xhi large NP_WEIRDNESS nmax;
           Some (bn\<lparr>bn_climate := (bn_climate bn)[NP_CONTINENTALNESS := c, NP_EROSION := e, NP_WEIRDNESS := w],
                    bn_nptype := int nptype\<rparr>)
         }
         else do {
           (d, n) \<leftarrow> init_climate_seed xlo xhi large nptype nmax;
           Some (bn\<lparr>bn_climate := (bn_climate bn)[nptype := d], bn_nptype := int nptype\<rparr>)
         })"

definition initBiomeNoise :: "BiomeNoise \<Rightarrow> nat \<Rightarrow> BiomeNoise option" where
  "initBiomeNoise bn mc = map_option (\<lambda>(sp, ss). bn\<lparr>bn_sp := sp, bn_mc := mc\<rparr>) initBiomeNoise_spline"

subsection \<open>Sampling\<close>

definition SAMPLE_NO_SHIFT :: u32 where "SAMPLE_NO_SHIFT = 1"
definition SAMPLE_NO_DEPTH :: u32 where "SAMPLE_NO_DEPTH = 2"
definition SAMPLE_NO_BIOME :: u32 where "SAMPLE_NO_BIOME = 4"

text \<open>A cast to \<open>int64_t\<close>, which is undefined outside of the range of the type and saturates here.\<close>

definition trunc_i64 :: "rat \<Rightarrow> int" where
  "trunc_i64 x = max (- (2 ^ 63)) (min (2 ^ 63 - 1) (if 0 \<le> x then \<lfloor>x\<rfloor> else \<lceil>x\<rceil>))"

text \<open>The four values of the spline and the depth at the height \<open>y\<close>, in both samplers.\<close>

definition sample_depth :: "Spline \<Rightarrow> f32 \<Rightarrow> f32 \<Rightarrow> f32 \<Rightarrow> int \<Rightarrow> f32 option" where
  "sample_depth sp c e w y =
     (let np_param = [c, e, mul32 (- 3) (sub32 \<bar>sub32 \<bar>w\<bar> (fl32 (6666667/10^7))\<bar> (fl32 (33333334/10^8))), w]
      in map_option (\<lambda>s. let off = add32 s (fl32 (15/1000))
           in fl32 (add64 (sub64 (sub64 1 (div64 (f64_of_int (wrap32 (y * 4))) 128)) (div64 83 160)) off))
         (getSpline sp np_param))"

text \<open>The parameters \<open>np\<close> that a sampler writes are part of its result.\<close>

definition sampleClimatePara :: "BiomeNoise \<Rightarrow> int list \<Rightarrow> f64 \<Rightarrow> f64 \<Rightarrow> (f64 \<times> int list) option" where
  "sampleClimatePara bn np x z =
     (let sample = (\<lambda>k. sampleDoublePerlin (bn_climate bn ! k) x 0 z)
      in if bn_nptype bn = int NP_SHIFT
         then let c = fl32 (sample NP_CONTINENTALNESS); e = fl32 (sample NP_EROSION); w = fl32 (sample NP_WEIRDNESS)
              in map_option (\<lambda>d. (d, np[2 := trunc_i64 (mul32 10000 c), 3 := trunc_i64 (mul32 10000 e),
                   4 := trunc_i64 (mul32 10000 d), 5 := trunc_i64 (mul32 10000 w)])) (sample_depth (bn_sp bn) c e w 0)
         else let p = sample (nat (bn_nptype bn))
              in Some (p, np[nat (bn_nptype bn) := trunc_i64 (mul64 10000 p)]))"

text \<open>The position of the samples, shifted unless the flag says otherwise.\<close>

definition sample_shift :: "BiomeNoise \<Rightarrow> int \<Rightarrow> int \<Rightarrow> u32 \<Rightarrow> f64 \<times> f64" where
  "sample_shift bn x z sample_flags =
     (let px = f64_of_int x; pz = f64_of_int z; shift = sampleDoublePerlin (bn_climate bn ! NP_SHIFT)
      in if sample_flags AND SAMPLE_NO_SHIFT \<noteq> 0 then (px, pz)
         else (add64 px (mul64 (shift px 0 pz) 4), add64 pz (mul64 (shift pz px 0) 4)))"

definition sampleBiomeNoise ::
    "BiomeTree \<times> BiomeTree \<times> BiomeTree \<times> BiomeTree \<Rightarrow> BiomeNoise \<Rightarrow> int \<Rightarrow> int \<Rightarrow> int \<Rightarrow> u64 option \<Rightarrow> u32 \<Rightarrow>
     (int \<times> int list \<times> u64 option) option" where
  "sampleBiomeNoise trees bn x y z dat sample_flags =
     (if 0 \<le> bn_nptype bn
      then map_option (\<lambda>(v, np). (wrap32 (trunc_i64 (mul64 10000 v)), np, dat))
             (sampleClimatePara bn (replicate NP_MAX 0) (f64_of_int x) (f64_of_int z))
      else
        let (px, pz) = sample_shift bn x z sample_flags;
            sample = (\<lambda>k. sampleDoublePerlin (bn_climate bn ! k) px 0 pz);
            c = fl32 (sample NP_CONTINENTALNESS);
            e = fl32 (sample NP_EROSION);
            w = fl32 (sample NP_WEIRDNESS)
        in do {
          d \<leftarrow> (if sample_flags AND SAMPLE_NO_DEPTH \<noteq> 0 then Some 0 else sample_depth (bn_sp bn) c e w y);
          let t = fl32 (sample NP_TEMPERATURE);
          let h = fl32 (sample NP_HUMIDITY);
          let np = map (\<lambda>v. trunc_i64 (mul32 10000 v)) [t, h, c, e, d, w];
          if sample_flags AND SAMPLE_NO_BIOME \<noteq> 0 then Some (- 1, np, dat)
          else do {
            (i, dat) \<leftarrow> (let (bt20, bt19, bt192, bt18) = trees
                          in climateToBiome bt20 bt19 bt192 bt18 (bn_mc bn) (map of_int np) dat);
            Some (int i, np, dat)
          }
        })"

subsection \<open>The octaves of a seed\<close>

lemma xOctave_loop_length:
  assumes "xOctave_loop xlo xhi omin (- 1) i n amps lacuna q = Some octs" "0 \<le> n"
  shows "length octs = length (filter (\<lambda>a. a \<noteq> 0) amps)"
  using assms
proof (induction amps arbitrary: i n lacuna q octs)
  case (Cons a amps)
  show ?case using Cons.prems Cons.IH [of "Suc i" _ "mul64 lacuna 2" "mul64 q (1/2)"]
    by (fastforce simp: Let_def split: if_splits option.splits)
qed simp

lemma xDoublePerlinInit_length:
  assumes "xDoublePerlinInit xr amps omin (- 1) = Some (noise, n)"
  shows "n = 2 * length (filter (\<lambda>a. a \<noteq> 0) amps)"
proof -
  have len: "length octs = length (filter (\<lambda>a. a \<noteq> 0) amps)" if "xOctaveInit xr amps omin (- 1) = Some (octs, xr')" for xr octs xr'
    using that xOctave_loop_length by (fastforce simp: xOctaveInit_def split_beta Let_def split: if_splits)
  from assms obtain oa xr1 ob xr2 where "xOctaveInit xr amps omin (- 1) = Some (oa, xr1)"
    "xOctaveInit xr1 amps omin (- 1) = Some (ob, xr2)" "n = length oa + length ob"
    by (auto simp: xDoublePerlinInit_def split: option.splits)
  then show ?thesis using len by simp
qed

text \<open>The number of octaves of each climate.\<close>

definition octave_number :: "nat \<Rightarrow> nat" where
  "octave_number nptype = [4, 4, 18, 8, 6, 6] ! nptype"

lemma init_climate_seed_ok:
  assumes "init_climate_seed xlo xhi large i (- 1) = Some (dpn, n)"
  shows "double_ok dpn \<and> n = octave_number i"
proof -
  have a: "amps_ok [1, 1, 1, 0]" "amps_ok [3/2, 0, 1, 0, 0, 0]" "amps_ok [1, 1, 0, 0, 0, 0]"
    "amps_ok [1, 1, 2, 2, 2, 1, 1, 1, 1]" "amps_ok [1, 1, 0, 1, 1]" "amps_ok [1, 2, 1, 0, 0, 0]"
    by (simp_all add: amps_ok_def)
  have "i < 6" using assms by (auto simp: init_climate_seed_def np_defs split: if_splits)
  then have "i \<in> {0, 1, 2, 3, 4, 5}" by auto
  then show ?thesis using assms a xDoublePerlinInit_ok xDoublePerlinInit_length
    by (fastforce simp: init_climate_seed_def np_defs octave_number_def)
qed

lemma climate_loop_ok:
  assumes "climate_loop xlo xhi large is = Some (climate, n)"
  shows "length climate = length is \<and> (\<forall>dpn \<in> set climate. double_ok dpn) \<and> n = (\<Sum>i \<leftarrow> is. octave_number i)"
  using assms
proof (induction "is" arbitrary: climate n)
  case (Cons i "is")
  then show ?case by (force dest: init_climate_seed_ok simp: bind_eq_Some_conv)
qed simp

lemma climate_loop_46: "climate_loop xlo xhi large [0..<NP_MAX] = Some (climate, n) \<Longrightarrow> n = 46"
proof -
  assume a: "climate_loop xlo xhi large [0..<NP_MAX] = Some (climate, n)"
  have "[0..<NP_MAX] = [0, 1, 2, 3, 4, 5]" by (simp add: NP_MAX_def upt_rec)
  then show ?thesis using climate_loop_ok [OF a] by (simp add: octave_number_def)
qed

text \<open>What a generator for the current version satisfies after \<open>initBiomeNoise\<close> and \<open>setBiomeSeed\<close>.\<close>

definition climate_ok :: "DoublePerlinNoise list \<Rightarrow> bool" where
  "climate_ok climate \<longleftrightarrow> length climate = 6 \<and> (\<forall>dpn \<in> set climate. double_ok dpn)"

definition biome_noise_ok :: "BiomeNoise \<Rightarrow> bool" where
  "biome_noise_ok bn \<longleftrightarrow> climate_ok (bn_climate bn) \<and> bn_nptype bn = - 1 \<and> MC_1_21_WD \<le> bn_mc bn \<and> spline_bound 16814 (bn_sp bn)"

lemma setBiomeSeed_eq:
  "setBiomeSeed bn sd large =
     (let g = xSetSeed sd; g' = snd (xNextLong g)
      in map_option (\<lambda>(climate, n). bn\<lparr>bn_climate := climate, bn_nptype := - 1\<rparr>)
           (climate_loop (fst (xNextLong g)) (fst (xNextLong g')) large [0..<NP_MAX]))"
  by (auto simp: setBiomeSeed_def Let_def split_beta dest: climate_loop_46 split: option.split simp del: climate_loop.simps)

lemma setBiomeSeed_ok:
  assumes "setBiomeSeed bn sd large = Some bn'"
  shows "climate_ok (bn_climate bn') \<and> bn_nptype bn' = - 1 \<and> bn_sp bn' = bn_sp bn \<and> bn_mc bn' = bn_mc bn"
  using assms climate_loop_ok by (fastforce simp: setBiomeSeed_eq Let_def climate_ok_def NP_MAX_def)

lemma initBiomeNoise_ok: "\<exists>bn'. initBiomeNoise bn mc = Some bn' \<and> spline_bound 16814 (bn_sp bn') \<and> bn_mc bn' = mc"
proof -
  obtain sp ss where "initBiomeNoise_spline = Some (sp, ss)" "spline_bound 16814 sp" using initBiomeNoise_spline_ok by blast
  moreover from this(1) have "initBiomeNoise bn mc = Some (bn\<lparr>bn_sp := sp, bn_mc := mc\<rparr>)" unfolding initBiomeNoise_def by (elim ssubst) simp
  ultimately show ?thesis by simp
qed

subsection \<open>The climate of a cell\<close>

lemma climate_bound: "climate_ok climate \<Longrightarrow> k < 6 \<Longrightarrow> \<bar>fl32 (sampleDoublePerlin (climate ! k) x y z)\<bar> \<le> of_int 81"
  using sampleDoublePerlin_bound by (intro fl32_abs_le) (auto simp: climate_ok_def)

lemma abs_sub_bound:
  assumes "0 \<le> v" "v \<le> 81" "0 \<le> c" "c \<le> 1"
  shows "\<bar>sub32 v c\<bar> \<le> 81"
proof -
  have "- 1 \<le> sub32 v c \<and> sub32 v c \<le> 81" unfolding sub32_def
    by (rule fl32_range) (use assms fl32_of_int [of "- 1"] fl32_of_int [of 81] in simp_all)
  then show ?thesis by (simp add: abs_le_iff)
qed

lemma ridge_value_bound:
  assumes "\<bar>w\<bar> \<le> 81"
  shows "\<bar>mul32 (- 3) (sub32 \<bar>sub32 \<bar>w\<bar> (fl32 (6666667/10^7))\<bar> (fl32 (33333334/10^8)))\<bar> \<le> 248"
proof -
  have c: "0 \<le> fl32 (6666667/10^7)" "fl32 (6666667/10^7) \<le> 1" "0 \<le> fl32 (33333334/10^8)" "fl32 (33333334/10^8) \<le> 1"
    using fl32_mono [of "6666667/10^7" 1] fl32_mono [of "33333334/10^8" 1] fl32_of_int [of 1]
      fl32_nonneg [of "6666667/10^7"] fl32_nonneg [of "33333334/10^8"] by simp_all
  have "\<bar>sub32 \<bar>w\<bar> (fl32 (6666667/10^7))\<bar> \<le> 81" by (rule abs_sub_bound) (use assms c in auto)
  then have "\<bar>sub32 \<bar>sub32 \<bar>w\<bar> (fl32 (6666667/10^7))\<bar> (fl32 (33333334/10^8))\<bar> \<le> 81" by (intro abs_sub_bound [of "\<bar>sub32 _ _\<bar>"]) (use c in auto)
  then have "\<bar>- 3 * sub32 \<bar>sub32 \<bar>w\<bar> (fl32 (6666667/10^7))\<bar> (fl32 (33333334/10^8))\<bar> \<le> of_int 248" by (simp add: abs_mult)
  then show ?thesis unfolding mul32_def using fl32_abs_le by fastforce
qed

lemma sample_depth_bound:
  assumes "spline_bound 16814 sp" "\<bar>c\<bar> \<le> 81" "\<bar>e\<bar> \<le> 81" "\<bar>w\<bar> \<le> 81" "\<bar>y\<bar> \<le> 2 ^ 19"
  shows "\<exists>d. sample_depth sp c e w y = Some d \<and> \<bar>d\<bar> \<le> of_int 33202"
proof -
  let ?np = "[c, e, mul32 (- 3) (sub32 \<bar>sub32 \<bar>w\<bar> (fl32 (6666667/10^7))\<bar> (fl32 (33333334/10^8))), w]"
  have "\<forall>v \<in> set ?np. \<bar>v\<bar> \<le> 248" using assms(2-4) ridge_value_bound [OF assms(4)] by auto
  from getSpline_bound [OF assms(1) _ this] obtain s where s: "getSpline sp ?np = Some s" "\<bar>s\<bar> \<le> of_int 16814" by auto
  define off where "off = add32 s (fl32 (15/1000))"
  have "\<bar>fl32 (15/1000)\<bar> \<le> of_int 1" by (rule fl32_abs_le) simp_all
  then have off: "\<bar>off\<bar> \<le> of_int 16815" unfolding off_def add32_def by (intro fl32_abs_le) (use s(2) in auto)
  have "wrap32 (y * 4) = y * 4" using assms(5) by (intro wrap32_id) auto
  then have "f64_of_int (wrap32 (y * 4)) = of_int (y * 4)" using assms(5) fl64_of_int [of "y * 4"] by (simp add: f64_of_int_def)
  moreover have "\<bar>rat_of_int (y * 4)\<bar> \<le> of_int 2097152" using assms(5) by (simp only: of_int_abs [symmetric] of_int_le_iff) simp
  ultimately have "\<bar>f64_of_int (wrap32 (y * 4)) / 128\<bar> \<le> of_int 16384" by simp
  then have 1: "\<bar>div64 (f64_of_int (wrap32 (y * 4))) 128\<bar> \<le> of_int 16384" unfolding div64_def by (rule fl64_abs_le) simp
  have 2: "\<bar>sub64 1 (div64 (f64_of_int (wrap32 (y * 4))) 128)\<bar> \<le> of_int 16385" unfolding sub64_def by (rule fl64_abs_le) (use 1 in auto)
  have 3: "\<bar>div64 83 160\<bar> \<le> of_int 1" unfolding div64_def by (rule fl64_abs_le) simp_all
  have 4: "\<bar>sub64 (sub64 1 (div64 (f64_of_int (wrap32 (y * 4))) 128)) (div64 83 160)\<bar> \<le> of_int 16386"
    unfolding sub64_def [of "sub64 _ _"] by (rule fl64_abs_le) (use 2 3 in auto)
  have "\<bar>add64 (sub64 (sub64 1 (div64 (f64_of_int (wrap32 (y * 4))) 128)) (div64 83 160)) off\<bar> \<le> of_int 33202"
    unfolding add64_def by (rule fl64_abs_le) (use 4 off in auto)
  then have "\<bar>fl32 (add64 (sub64 (sub64 1 (div64 (f64_of_int (wrap32 (y * 4))) 128)) (div64 83 160)) off)\<bar> \<le> of_int 33202"
    by (rule fl32_abs_le) simp
  then show ?thesis unfolding sample_depth_def Let_def using s(1) unfolding off_def by simp
qed

lemma np_value_bound:
  assumes "\<bar>v\<bar> \<le> of_int 33202"
  shows "\<bar>trunc_i64 (mul32 10000 v)\<bar> \<le> 2 ^ 29"
proof -
  have "fl32 536870912 = 536870912" using fl32_exact [of 1 29] by simp
  then have "\<bar>mul32 10000 v\<bar> \<le> 536870912" unfolding mul32_def by (intro fl32_abs) (use assms in \<open>simp_all add: abs_mult\<close>)
  then have "- 536870912 \<le> mul32 10000 v" "mul32 10000 v \<le> 536870912" by (simp_all add: abs_le_iff)
  then have "- 536870912 \<le> \<lfloor>mul32 10000 v\<rfloor>" "\<lfloor>mul32 10000 v\<rfloor> \<le> 536870912"
    "- 536870912 \<le> \<lceil>mul32 10000 v\<rceil>" "\<lceil>mul32 10000 v\<rceil> \<le> 536870912"
    using floor_mono [of "- 536870912" "mul32 10000 v"] floor_mono [of "mul32 10000 v" 536870912]
      ceiling_mono [of "- 536870912" "mul32 10000 v"] ceiling_mono [of "mul32 10000 v" 536870912] by simp_all
  moreover define f c where "f = \<lfloor>mul32 10000 v\<rfloor>" and "c = \<lceil>mul32 10000 v\<rceil>"
  ultimately show ?thesis unfolding trunc_i64_def f_def [symmetric] c_def [symmetric] by (simp add: abs_le_iff)
qed

text \<open>The sampling of a cell is defined, its climate is within the bounds of the search tree, and the biome is that of a nearest leaf.\<close>

definition nearest_biome :: "int list \<Rightarrow> u64 option \<Rightarrow> int \<Rightarrow> u64 option \<Rightarrow> bool" where
  "nearest_biome np dat i dat' \<longleftrightarrow>
     (\<exists>m. (m \<in> leaves btree21wd \<or> m = 0 \<and> dat = Some 0) \<and> i = int (nodes btree21wd ! m div 2 ^ 48 mod 256) \<and>
        dat' = map_option (\<lambda>_. of_nat m) dat \<and>
        (\<forall>m' \<in> leaves btree21wd. ndist (map of_int np) btree21wd m \<le> ndist (map of_int np) btree21wd m'))"

lemma nearest_biome_hint: "nearest_biome np dat i dat' \<Longrightarrow> hint_ok dat'"
  unfolding nearest_biome_def hint_ok_def by (cases dat) auto

lemma np_ok_map:
  assumes "length np = 6" "\<forall>v \<in> set np. \<bar>v\<bar> \<le> 2 ^ 29"
  shows "np_ok (map of_int np)"
  using assms by (auto simp: np_ok_def sint_of_int_small)

lemma sampleBiomeNoise_ok:
  assumes bn: "biome_noise_ok bn" and y: "\<bar>y\<bar> \<le> 2 ^ 19" and dat: "hint_ok dat" and flags: "sample_flags AND SAMPLE_NO_BIOME = 0"
  shows "\<exists>i np dat'. sampleBiomeNoise trees bn x y z dat sample_flags = Some (i, np, dat') \<and>
    length np = 6 \<and> (\<forall>v \<in> set np. \<bar>v\<bar> \<le> 2 ^ 29) \<and> nearest_biome np dat i dat'"
proof -
  obtain px pz where pos: "sample_shift bn x z sample_flags = (px, pz)" by (cases "sample_shift bn x z sample_flags")
  define v where "v = (\<lambda>k. fl32 (sampleDoublePerlin (bn_climate bn ! k) px 0 pz))"
  have v: "\<bar>v k\<bar> \<le> 81" if "k < 6" for k
    using climate_bound [OF _ that] bn unfolding v_def biome_noise_ok_def by fastforce
  have "\<exists>d. sample_depth (bn_sp bn) (v NP_CONTINENTALNESS) (v NP_EROSION) (v NP_WEIRDNESS) y = Some d \<and> \<bar>d\<bar> \<le> of_int 33202"
    by (rule sample_depth_bound [OF _ v v v y]) (use bn in \<open>simp_all add: biome_noise_ok_def np_defs\<close>)
  then obtain d where d: "(if sample_flags AND SAMPLE_NO_DEPTH \<noteq> 0 then Some 0
        else sample_depth (bn_sp bn) (v NP_CONTINENTALNESS) (v NP_EROSION) (v NP_WEIRDNESS) y) = Some d" "\<bar>d\<bar> \<le> of_int 33202"
    by (cases "sample_flags AND SAMPLE_NO_DEPTH = 0") auto
  define np where "np = map (\<lambda>v. trunc_i64 (mul32 10000 v)) [v NP_TEMPERATURE, v NP_HUMIDITY, v NP_CONTINENTALNESS, v NP_EROSION, d, v NP_WEIRDNESS]"
  have small: "\<bar>v k\<bar> \<le> of_int 33202" if "k < 6" for k using v [OF that] by linarith
  have np: "length np = 6" "\<forall>v \<in> set np. \<bar>v\<bar> \<le> 2 ^ 29"
    using np_value_bound [OF d(2)] small [THEN np_value_bound] by (simp_all add: np_def np_defs)
  obtain bt20 bt19 bt192 bt18 where trees: "trees = (bt20, bt19, bt192, bt18)" by (cases trees)
  have mc: "MC_1_21_WD \<le> bn_mc bn" "bn_nptype bn = - 1" using bn by (simp_all add: biome_noise_ok_def)
  from climateToBiome_cases [OF mc(1) np_ok_map [OF np] dat, of bt20 bt19 bt192 bt18] obtain m where
    m: "m \<in> leaves btree21wd \<or> m = 0 \<and> dat = Some 0"
      "climateToBiome bt20 bt19 bt192 bt18 (bn_mc bn) (map of_int np) dat =
        Some (nodes btree21wd ! m div 2 ^ 48 mod 256, map_option (\<lambda>_. of_nat m) dat)"
      "\<forall>m' \<in> leaves btree21wd. ndist (map of_int np) btree21wd m \<le> ndist (map of_int np) btree21wd m'" by blast
  have "sampleBiomeNoise trees bn x y z dat sample_flags =
      Option.bind (climateToBiome bt20 bt19 bt192 bt18 (bn_mc bn) (map of_int np) dat) (\<lambda>(i, dat). Some (int i, np, dat))"
    using d(1) [unfolded v_def] flags by (simp only: sampleBiomeNoise_def mc(2) Let_def pos trees v_def np_def prod.case bind.simps) simp
  then show ?thesis using np m unfolding nearest_biome_def by auto
qed
subsection \<open>The initialisation never exits\<close>

text \<open>
  The states of the generators of the octaves of a seed: an octave with a non-zero amplitude starts
  from the fork of its noise combined with its hash. The parameters of the six climates are the
  hash, the amplitudes and the first octave.
\<close>

definition octave_states :: "XrsrRandom \<Rightarrow> f64 list \<Rightarrow> int \<Rightarrow> XrsrRandom set" where
  "octave_states xr amps omin =
     (let f = fst (fork xr)
      in {\<lparr>lo = fork_lo f XOR fst (md5_octave_n ! nat (12 + omin + int i)), hi = fork_hi f XOR snd (md5_octave_n ! nat (12 + omin + int i))\<rparr> | i.
          i < length amps \<and> amps ! i \<noteq> 0})"

definition double_states :: "XrsrRandom \<Rightarrow> f64 list \<Rightarrow> int \<Rightarrow> XrsrRandom set" where
  "double_states xr amps omin = octave_states xr amps omin \<union> octave_states (snd (fork xr)) amps omin"

definition climate_states :: "u64 \<Rightarrow> bool \<Rightarrow> XrsrRandom set" where
  "climate_states sd large =
     (let f = fst (fork (xSetSeed sd));
          states = (\<lambda>l h. double_states \<lparr>lo = fork_lo f XOR l, hi = fork_hi f XOR h\<rparr>)
      in (if large
          then states 0x944b0073edf549db 0x4ff44347e9d22b96 [3/2, 0, 1, 0, 0, 0] (- 12) \<union>
            states 0x71b8ab943dbd5301 0xbb63ddcf39ff7a2b [1, 1, 0, 0, 0, 0] (- 10) \<union>
            states 0x9a3f51a113fce8dc 0xee2dbd157e5dcdad [1, 1, 2, 2, 2, 1, 1, 1, 1] (- 11) \<union>
            states 0x8c984b1f8702a951 0xead7b1f92bae535f [1, 1, 0, 1, 1] (- 11)
          else states 0x5c7e6b29735f0d7f 0xf7d86f1bbc734988 [3/2, 0, 1, 0, 0, 0] (- 10) \<union>
            states 0x81bb4d22e8dc168e 0xf1c8b4bea16303cd [1, 1, 0, 0, 0, 0] (- 8) \<union>
            states 0x83886c9d0ae3a662 0xafa638a61b42e8ad [1, 1, 2, 2, 2, 1, 1, 1, 1] (- 9) \<union>
            states 0xd02491e6058f6fd8 0x4792512c94c17a80 [1, 1, 0, 1, 1] (- 9)) \<union>
         states 0x080518cf6af25384 0x3f3dfb40a54febd5 [1, 1, 1, 0] (- 3) \<union>
         states 0xefc8ef4d36102b34 0x1beeeb324a0f24ea [1, 2, 1, 0, 0, 0] (- 7))"

lemma xOctave_loop_None:
  assumes "xOctave_loop xlo xhi omin nmax i n amps l q = None" "0 \<le> 12 + omin" "12 + omin + int (i + length amps) \<le> 13"
  shows "\<exists>j < length amps. amps ! j \<noteq> 0 \<and>
    all_rejected \<lparr>lo = xlo XOR fst (md5_octave_n ! nat (12 + omin + int (i + j))), hi = xhi XOR snd (md5_octave_n ! nat (12 + omin + int (i + j)))\<rparr>"
  using assms
proof (induction amps arbitrary: i n l q)
  case (Cons a amps)
  let ?g = "\<lparr>lo = xlo XOR fst (md5_octave_n ! nat (12 + omin + int i)), hi = xhi XOR snd (md5_octave_n ! nat (12 + omin + int i))\<rparr>"
  have range: "12 + omin + int i \<in> {0..<13}" using Cons.prems by auto
  show ?case
  proof (cases "a \<noteq> 0 \<and> xPerlinInit ?g = None")
    case True
    then show ?thesis using xPerlinInit_None by (intro exI [of _ 0]) auto
  next
    case False
    then obtain n' l' q' where "xOctave_loop xlo xhi omin nmax (Suc i) n' amps l' q' = None"
      using Cons.prems(1) range by (auto simp: Let_def split: if_splits option.splits)
    from Cons.IH [OF this] Cons.prems obtain j where "j < length amps" "amps ! j \<noteq> 0"
      "all_rejected \<lparr>lo = xlo XOR fst (md5_octave_n ! nat (12 + omin + int (Suc i + j))), hi = xhi XOR snd (md5_octave_n ! nat (12 + omin + int (Suc i + j)))\<rparr>"
      by auto
    then show ?thesis by (intro exI [of _ "Suc j"]) simp
  qed
qed simp

lemma xOctaveInit_None:
  assumes "xOctaveInit xr amps omin nmax = None" "- 12 \<le> omin" "omin \<le> 0" "length amps < 10" "omin + int (length amps) \<le> 1"
  shows "\<exists>g \<in> octave_states xr amps omin. all_rejected g"
proof -
  have f: "fst (xNextLong xr) = fork_lo (fst (fork xr))" "fst (xNextLong (snd (xNextLong xr))) = fork_hi (fst (fork xr))"
    by (simp_all add: fork_def xNextLong_eq nextLong_def split_beta Let_def)
  have "\<exists>l q. xOctave_loop (fork_lo (fst (fork xr))) (fork_hi (fst (fork xr))) omin nmax 0 0 amps l q = None"
    using assms by (auto simp: xOctaveInit_def split_beta Let_def f)
  then show ?thesis using xOctave_loop_None [of _ _ omin nmax 0 0 amps] assms by (fastforce simp: octave_states_def Let_def)
qed

lemma xOctaveInit_fork: "xOctaveInit xr amps omin nmax = Some (octs, xr') \<Longrightarrow> xr' = snd (fork xr)"
  by (auto simp: xOctaveInit_def fork_def xNextLong_eq nextLong_def split_beta Let_def split: if_splits)

lemma xDoublePerlinInit_None:
  assumes "xDoublePerlinInit xr amps omin nmax = None" "- 12 \<le> omin" "omin \<le> 0" "length amps < 10" "omin + int (length amps) \<le> 1"
  shows "\<exists>g \<in> double_states xr amps omin. all_rejected g"
proof -
  from assms(1) obtain na nb oa xr1 where "xOctaveInit xr amps omin na = None \<or>
      xOctaveInit xr amps omin na = Some (oa, xr1) \<and> xOctaveInit xr1 amps omin nb = None"
    by (fastforce simp: xDoublePerlinInit_def split_beta Let_def split: option.splits)
  then show ?thesis using xOctaveInit_None [OF _ assms(2-5)] xOctaveInit_fork unfolding double_states_def by blast
qed

lemma init_climate_seed_None:
  assumes "init_climate_seed (fst (xNextLong (xSetSeed sd))) (fst (xNextLong (snd (xNextLong (xSetSeed sd))))) large i nmax = None" "i < 6"
  shows "\<exists>g \<in> climate_states sd large. all_rejected g"
proof -
  let ?f = "fst (fork (xSetSeed sd))"
  have f: "fst (xNextLong (xSetSeed sd)) = fork_lo ?f" "fst (xNextLong (snd (xNextLong (xSetSeed sd)))) = fork_hi ?f"
    by (simp_all add: fork_def xNextLong_eq nextLong_def split_beta Let_def)
  have d: "\<exists>g \<in> double_states xr amps omin. all_rejected g"
    if "xDoublePerlinInit xr amps omin nmax = None" "- 12 \<le> omin \<and> omin \<le> 0 \<and> length amps < 10 \<and> omin + int (length amps) \<le> 1" for xr amps omin
    using that xDoublePerlinInit_None by blast
  have "i \<in> {0, 1, 2, 3, 4, 5}" using assms(2) by auto
  then show ?thesis using assms(1) unfolding f climate_states_def Let_def
    by (elim insertE emptyE; cases large) (simp_all add: init_climate_seed_def np_defs bex_Un d)
qed

lemma climate_loop_None:
  assumes "climate_loop (fst (xNextLong (xSetSeed sd))) (fst (xNextLong (snd (xNextLong (xSetSeed sd))))) large is = None" "\<forall>i \<in> set is. i < 6"
  shows "\<exists>g \<in> climate_states sd large. all_rejected g"
  using assms
proof (induction "is")
  case (Cons i "is")
  let ?xlo = "fst (xNextLong (xSetSeed sd))" and ?xhi = "fst (xNextLong (snd (xNextLong (xSetSeed sd))))"
  show ?case
  proof (cases "init_climate_seed ?xlo ?xhi large i (- 1)")
    case None
    then show ?thesis using init_climate_seed_None Cons.prems(2) by simp
  next
    case (Some p)
    then have "climate_loop ?xlo ?xhi large is = None" using Cons.prems(1) by (cases p; cases "climate_loop ?xlo ?xhi large is") auto
    then show ?thesis using Cons by simp
  qed
qed simp

lemma setBiomeSeed_None:
  assumes "setBiomeSeed bn sd large = None"
  shows "\<exists>g \<in> climate_states sd large. all_rejected g"
proof (rule climate_loop_None)
  show "climate_loop (fst (xNextLong (xSetSeed sd))) (fst (xNextLong (snd (xNextLong (xSetSeed sd))))) large [0..<NP_MAX] = None"
    using assms by (simp add: setBiomeSeed_eq Let_def del: climate_loop.simps)
qed (simp add: NP_MAX_def)

lemma octaves_used:
  assumes "climate_loop xlo xhi large is = Some (climate, n)"
  shows "n = (\<Sum>dpn \<leftarrow> climate. length (octA dpn) + length (octB dpn))"
  using assms
proof (induction "is" arbitrary: climate n)
  case (Cons i "is")
  have "m = length (octA dpn) + length (octB dpn)" if "init_climate_seed xlo xhi large i (- 1) = Some (dpn, m)" for dpn m
  proof -
    have "m = length (octA dpn) + length (octB dpn)" if "xDoublePerlinInit xr amps omin nmax = Some (dpn, m)" for xr amps omin nmax
      using that by (auto simp: xDoublePerlinInit_def split_beta Let_def split: option.splits)
    then show ?thesis using that by (auto simp: init_climate_seed_def split: if_splits)
  qed
  then show ?case using Cons by (fastforce simp: bind_eq_Some_conv)
qed simp

lemma setBiomeSeed_octaves:
  assumes "setBiomeSeed bn sd large = Some bn'"
  shows "(\<Sum>dpn \<leftarrow> bn_climate bn'. length (octA dpn) + length (octB dpn)) = 46"
  using assms octaves_used climate_loop_46 by (fastforce simp: setBiomeSeed_eq Let_def simp del: climate_loop.simps)

text \<open>The simplest noise: no octaves and a constant spline.\<close>

definition flat_noise :: BiomeNoise where
  "flat_noise = \<lparr>bn_climate = replicate 6 \<lparr>dp_amplitude = 0, octA = [], octB = []\<rparr>, bn_sp = FixSpline 0, bn_nptype = - 1, bn_mc = MC_NEWEST\<rparr>"

lemma flat_noise_ok: "biome_noise_ok flat_noise"
proof -
  have "spline_bound 4 (FixSpline 0)" by (rule fix_value) simp
  then have "spline_bound 16814 (FixSpline 0)" by (rule weaken) simp_all
  then show ?thesis by (simp add: biome_noise_ok_def flat_noise_def climate_ok_def double_ok_def version_defs)
qed

subsection \<open>Properties\<close>

text \<open>
  C23. The noises of a seed are complete: \<open>setBiomeSeed\<close> builds six noises with together exactly the
  46 octaves that its buffer has room for, and every sample of them, with all roundings, is at most
  81 in size. It never exits: it fails to return only if the generator of one of these octaves has
  all its draws rejected from some point on.
\<close>

theorem seed_noises_complete:
  "case setBiomeSeed bn sd large of
     None \<Rightarrow> (\<exists>g \<in> climate_states sd large. all_rejected g)
   | Some bn' \<Rightarrow> length (bn_climate bn') = 6 \<and>
       (\<Sum>dpn \<leftarrow> bn_climate bn'. length (octA dpn) + length (octB dpn)) = 46 \<and>
       list_all (\<lambda>dpn. \<forall>x y z. \<bar>sampleDoublePerlin dpn x y z\<bar> \<le> 81) (bn_climate bn')"
proof (cases "setBiomeSeed bn sd large")
  case None
  then show ?thesis using setBiomeSeed_None by simp
next
  case (Some bn')
  then show ?thesis using setBiomeSeed_ok [OF Some] setBiomeSeed_octaves [OF Some] sampleDoublePerlin_bound
    by (auto simp: climate_ok_def list_all_iff)
qed

text \<open>
  C9. A sample of a cell is always defined: for every position and every height up to \<open>2^19\<close> the six
  climate values are within the bounds of the search tree, and the biome is that of a leaf with the
  least distance to them. The one exception is the hint 0, which is the root: with it the search may
  end at the root itself.
\<close>

theorem climate_sample_nearest:
  assumes "biome_noise_ok bn" "\<bar>y\<bar> \<le> 2 ^ 19" "hint_ok dat" "sample_flags AND SAMPLE_NO_BIOME = 0"
  shows "\<exists>i np dat'. sampleBiomeNoise trees bn x y z dat sample_flags = Some (i, np, dat') \<and>
    length np = 6 \<and> list_all (\<lambda>v. \<bar>v\<bar> \<le> 2 ^ 29) np \<and> nearest_biome np dat i dat'"
  using sampleBiomeNoise_ok [OF assms, of trees x z] unfolding list_all_iff .

theorem climate_sample_nearest_witness:
  "\<exists>i np. sampleBiomeNoise (btree21wd, btree21wd, btree21wd, btree21wd) flat_noise 10 64 (- 3) None 0 = Some (i, np, None) \<and>
    length np = 6 \<and> nearest_biome np None i None"
proof -
  obtain i np dat' where "sampleBiomeNoise (btree21wd, btree21wd, btree21wd, btree21wd) flat_noise 10 64 (- 3) None 0 = Some (i, np, dat')"
    "length np = 6" "nearest_biome np None i dat'"
    using climate_sample_nearest [OF flat_noise_ok, of 64 None 0 "(btree21wd, btree21wd, btree21wd, btree21wd)" 10 "- 3"] by (auto simp: hint_ok_def)
  moreover then have "dat' = None" by (auto simp: nearest_biome_def)
  ultimately show ?thesis by blast
qed

end
