(* ===== verification/Float_Sqrt.thy ===== *)
theory Float_Sqrt
  imports Floats
begin

text \<open>
  The functions of \<open>math.h\<close> that the tests on the cpu use and that are determined by IEEE 754:
  \<open>sqrt\<close>, which is rounded correctly, and \<open>round\<close>, which rounds half away from zero.
\<close>

subsection \<open>Integer square roots\<close>

fun isqrt :: "nat \<Rightarrow> nat" where
  "isqrt n = (if n = 0 then 0 else let r = 2 * isqrt (n div 4) in if (r + 1) ^ 2 \<le> n then r + 1 else r)"

declare isqrt.simps [simp del]

lemma isqrt_bounds: "(isqrt n) ^ 2 \<le> n \<and> n < (isqrt n + 1) ^ 2"
proof (induction n rule: isqrt.induct)
  case (1 n)
  show ?case
  proof (cases "n = 0")
    case False
    define q where "q = isqrt (n div 4)"
    have q: "q ^ 2 \<le> n div 4" "n div 4 < (q + 1) ^ 2" using 1 False by (simp_all add: q_def)
    have lo: "(2 * q) ^ 2 \<le> n" using q(1) by (simp add: power_mult_distrib)
    have "n div 4 + 1 \<le> (q + 1) ^ 2" using q(2) by simp
    then have "4 * (n div 4 + 1) \<le> 4 * (q + 1) ^ 2" by (rule mult_le_mono2)
    moreover have "n < 4 * (n div 4 + 1)" by presburger
    ultimately have hi: "n < (2 * q + 2) ^ 2" by (simp add: power2_eq_square algebra_simps)
    have i: "isqrt n = (if (2 * q + 1) ^ 2 \<le> n then 2 * q + 1 else 2 * q)"
      using False by (subst isqrt.simps) (simp add: q_def Let_def)
    show ?thesis using lo hi unfolding i by (simp add: power2_eq_square algebra_simps)
  qed (simp add: isqrt.simps)
qed

lemma isqrt_unique:
  assumes "r ^ 2 \<le> n" "n < (r + 1) ^ 2"
  shows "isqrt n = r"
proof -
  have "r ^ 2 < (isqrt n + 1) ^ 2" "(isqrt n) ^ 2 < (r + 1) ^ 2" using isqrt_bounds [of n] assms by linarith+
  then have "r < isqrt n + 1" "isqrt n < r + 1" by (meson power_less_imp_less_base zero_le)+
  then show ?thesis by simp
qed

subsection \<open>Square root and rounding\<close>

text \<open>
  The root of \<open>x \<cdot> 4^k\<close> with more than 54 bits, and a half when it is not exact, rounds as the
  exact root does. The argument is not negative.
\<close>

definition sqrt64 :: "f64 \<Rightarrow> f64" where
  "sqrt64 x =
     (if x \<le> 0 then 0
      else let k = nat (60 - ilog2 x div 2);
               y = x * 4 ^ k;
               s = isqrt (nat \<lfloor>y\<rfloor>);
               r = (if (of_nat s) ^ 2 = y then of_nat s else of_nat s + 1 / 2)
           in fl64 (r / 2 ^ k))"

definition round_away :: "f64 \<Rightarrow> int" where
  "round_away x = (if 0 \<le> x then \<lfloor>x + 1 / 2\<rfloor> else - \<lfloor>1 / 2 - x\<rfloor>)"

lemma sqrt64_nonneg [simp]: "0 \<le> sqrt64 x"
  unfolding sqrt64_def fl64_def by (auto simp: Let_def intro!: round_to_nonneg)

end
