(* ===== verification/Para_Limits.thy ===== *)
theory Para_Limits
  imports Mc_Version
begin

text \<open>
  The tables of \<open>finders.c\<close> with the climates in which a biome can generate: per biome a lower and
  an upper limit for the temperature, humidity, continentalness, erosion, depth and weirdness, and
  \<open>getBiomeParaLimits\<close>, which looks a biome up in the tables of its version. The row that ends a
  table has no counterpart in the lists; a biome is its number in \<open>enum BiomeID\<close>.
\<close>

subsection \<open>The tables\<close>

definition INT_MAX :: int where
  "INT_MAX = 2147483647"

definition INT_MIN :: int where
  "INT_MIN = - 2147483648"

definition g_biome_para_range_18 :: "(int \<times> int list) list" where
  "g_biome_para_range_18 =
    [(0, [- 1500, 2000, INT_MIN, INT_MAX, - 4550, - 1900, INT_MIN, INT_MAX, INT_MIN, INT_MAX, INT_MIN, INT_MAX]),
     (1, [- 4500, 5500, INT_MIN, 1000, - 1900, INT_MAX, INT_MIN, INT_MAX, INT_MIN, INT_MAX, INT_MIN, INT_MAX]),
     (2, [5500, INT_MAX, INT_MIN, INT_MAX, - 1900, INT_MAX, INT_MIN, INT_MAX, INT_MIN, INT_MAX, INT_MIN, INT_MAX]),
     (3, [INT_MIN, 2000, INT_MIN, 1000, - 1899, INT_MAX, 4500, 5500, INT_MIN, INT_MAX, INT_MIN, INT_MAX]),
     (4, [- 4500, 5500, - 1000, 3000, - 1900, INT_MAX, INT_MIN, INT_MAX, INT_MIN, INT_MAX, INT_MIN, INT_MAX]),
     (5, [INT_MIN, - 1500, 1000, INT_MAX, - 1900, INT_MAX, INT_MIN, INT_MAX, INT_MIN, INT_MAX, INT_MIN, INT_MAX]),
     (6, [- 4500, INT_MAX, INT_MIN, INT_MAX, - 1100, INT_MAX, 5500, INT_MAX, INT_MIN, INT_MAX, INT_MIN, INT_MAX]),
     (7, [- 4500, INT_MAX, INT_MIN, INT_MAX, - 1900, INT_MAX, INT_MIN, INT_MAX, INT_MIN, INT_MAX, - 500, 500]),
     (10, [INT_MIN, - 4501, INT_MIN, INT_MAX, - 4550, - 1900, INT_MIN, INT_MAX, INT_MIN, INT_MAX, INT_MIN, INT_MAX]),
     (11, [INT_MIN, - 4501, INT_MIN, INT_MAX, - 1900, INT_MAX, INT_MIN, INT_MAX, INT_MIN, INT_MAX, - 500, 500]),
     (12, [INT_MIN, - 4500, INT_MIN, 1000, - 1900, INT_MAX, INT_MIN, INT_MAX, INT_MIN, INT_MAX, INT_MIN, INT_MAX]),
     (14, [INT_MIN, INT_MAX, INT_MIN, INT_MAX, INT_MIN, - 10500, INT_MIN, INT_MAX, INT_MIN, INT_MAX, INT_MIN, INT_MAX]),
     (16, [- 4500, 5500, INT_MIN, INT_MAX, - 1900, - 1100, - 2225, INT_MAX, INT_MIN, INT_MAX, INT_MIN, 2666]),
     (21, [2000, 5500, 1000, INT_MAX, - 1900, INT_MAX, INT_MIN, INT_MAX, INT_MIN, INT_MAX, INT_MIN, INT_MAX]),
     (23, [2000, 5500, 1000, 3000, - 1899, INT_MAX, INT_MIN, INT_MAX, INT_MIN, INT_MAX, - 500, INT_MAX]),
     (24, [- 1500, 2000, INT_MIN, INT_MAX, - 10500, - 4551, INT_MIN, INT_MAX, INT_MIN, INT_MAX, INT_MIN, INT_MAX]),
     (25, [INT_MIN, INT_MAX, INT_MIN, INT_MAX, - 1900, - 1100, INT_MIN, - 2225, INT_MIN, INT_MAX, INT_MIN, INT_MAX]),
     (26, [INT_MIN, - 4500, INT_MIN, INT_MAX, - 1900, - 1100, - 2225, INT_MAX, INT_MIN, INT_MAX, INT_MIN, 2666]),
     (27, [- 1500, 2000, 1000, 3000, - 1900, INT_MAX, INT_MIN, INT_MAX, INT_MIN, INT_MAX, INT_MIN, INT_MAX]),
     (29, [- 1500, 2000, 3000, INT_MAX, - 1900, INT_MAX, INT_MIN, INT_MAX, INT_MIN, INT_MAX, INT_MIN, INT_MAX]),
     (30, [INT_MIN, - 4500, - 1000, INT_MAX, - 1900, INT_MAX, INT_MIN, INT_MAX, INT_MIN, INT_MAX, INT_MIN, INT_MAX]),
     (32, [- 4500, - 1500, 3000, INT_MAX, - 1899, INT_MAX, INT_MIN, INT_MAX, INT_MIN, INT_MAX, - 500, INT_MAX]),
     (34, [INT_MIN, 2000, 1000, INT_MAX, - 1899, INT_MAX, 4500, 5500, INT_MIN, INT_MAX, INT_MIN, INT_MAX]),
     (35, [2000, 5500, INT_MIN, - 1000, - 1900, INT_MAX, INT_MIN, INT_MAX, INT_MIN, INT_MAX, INT_MIN, INT_MAX]),
     (36, [2000, 5500, INT_MIN, - 1000, - 1100, INT_MAX, INT_MIN, 500, INT_MIN, INT_MAX, INT_MIN, INT_MAX]),
     (37, [5500, INT_MAX, INT_MIN, 1000, - 1899, INT_MAX, INT_MIN, 500, INT_MIN, INT_MAX, INT_MIN, INT_MAX]),
     (38, [5500, INT_MAX, 1000, INT_MAX, - 1899, INT_MAX, INT_MIN, 500, INT_MIN, INT_MAX, INT_MIN, INT_MAX]),
     (44, [5500, INT_MAX, INT_MIN, INT_MAX, - 10500, - 1900, INT_MIN, INT_MAX, INT_MIN, INT_MAX, INT_MIN, INT_MAX]),
     (45, [2001, 5500, INT_MIN, INT_MAX, - 4550, - 1900, INT_MIN, INT_MAX, INT_MIN, INT_MAX, INT_MIN, INT_MAX]),
     (46, [- 4500, - 1501, INT_MIN, INT_MAX, - 4550, - 1900, INT_MIN, INT_MAX, INT_MIN, INT_MAX, INT_MIN, INT_MAX]),
     (48, [2001, 5500, INT_MIN, INT_MAX, - 10500, - 4551, INT_MIN, INT_MAX, INT_MIN, INT_MAX, INT_MIN, INT_MAX]),
     (49, [- 4500, - 1501, INT_MIN, INT_MAX, - 10500, - 4551, INT_MIN, INT_MAX, INT_MIN, INT_MAX, INT_MIN, INT_MAX]),
     (50, [INT_MIN, - 4501, INT_MIN, INT_MAX, - 10500, - 4551, INT_MIN, INT_MAX, INT_MIN, INT_MAX, INT_MIN, INT_MAX]),
     (129, [- 1500, 2000, INT_MIN, - 3500, - 1899, INT_MAX, INT_MIN, INT_MAX, INT_MIN, INT_MAX, - 500, INT_MAX]),
     (131, [INT_MIN, - 1500, INT_MIN, - 1000, - 1899, INT_MAX, 4500, 5500, INT_MIN, INT_MAX, INT_MIN, INT_MAX]),
     (132, [- 1500, 2000, INT_MIN, - 3500, - 1900, INT_MAX, INT_MIN, INT_MAX, INT_MIN, INT_MAX, INT_MIN, - 500]),
     (140, [INT_MIN, - 4500, INT_MIN, - 3500, - 1899, INT_MAX, INT_MIN, INT_MAX, INT_MIN, INT_MAX, - 500, INT_MAX]),
     (155, [- 1500, 2000, 1000, 3000, - 1899, INT_MAX, INT_MIN, INT_MAX, INT_MIN, INT_MAX, - 500, INT_MAX]),
     (160, [- 4500, - 1500, 3000, INT_MAX, - 1900, INT_MAX, INT_MIN, INT_MAX, INT_MIN, INT_MAX, INT_MIN, - 500]),
     (163, [- 1500, INT_MAX, INT_MIN, 3000, - 1899, 300, 4500, 5500, INT_MIN, INT_MAX, 501, INT_MAX]),
     (165, [5500, INT_MAX, INT_MIN, - 1000, - 1899, INT_MAX, INT_MIN, 500, INT_MIN, INT_MAX, INT_MIN, INT_MAX]),
     (168, [2000, 5500, 3000, INT_MAX, - 1899, INT_MAX, INT_MIN, INT_MAX, INT_MIN, INT_MAX, - 500, INT_MAX]),
     (174, [INT_MIN, INT_MAX, INT_MIN, 6999, 3001, INT_MAX, INT_MIN, INT_MAX, 1000, 9500, INT_MIN, INT_MAX]),
     (175, [INT_MIN, INT_MAX, 2001, INT_MAX, INT_MIN, INT_MAX, INT_MIN, INT_MAX, 1000, 9500, INT_MIN, INT_MAX]),
     (177, [- 4500, 2000, INT_MIN, 3000, 300, INT_MAX, - 7799, 500, INT_MIN, INT_MAX, INT_MIN, INT_MAX]),
     (178, [INT_MIN, 2000, - 1000, INT_MAX, - 1899, INT_MAX, INT_MIN, - 3750, INT_MIN, INT_MAX, INT_MIN, INT_MAX]),
     (179, [INT_MIN, 2000, INT_MIN, - 1000, - 1899, INT_MAX, INT_MIN, - 3750, INT_MIN, INT_MAX, INT_MIN, INT_MAX]),
     (180, [INT_MIN, 2000, INT_MIN, INT_MAX, - 1899, INT_MAX, INT_MIN, - 3750, INT_MIN, INT_MAX, - 9333, - 4001]),
     (181, [INT_MIN, 2000, INT_MIN, INT_MAX, - 1899, INT_MAX, INT_MIN, - 3750, INT_MIN, INT_MAX, 4000, 9333]),
     (182, [2000, 5500, INT_MIN, INT_MAX, - 1899, INT_MAX, INT_MIN, - 3750, INT_MIN, INT_MAX, - 9333, 9333])]"

definition g_biome_para_range_19_diff :: "(int \<times> int list) list" where
  "g_biome_para_range_19_diff =
    [(165, [5500, INT_MAX, INT_MIN, - 1000, - 1899, INT_MAX, INT_MIN, 500, INT_MIN, INT_MAX, - 500, INT_MAX]),
     (178, [INT_MIN, 2000, - 1000, INT_MAX, - 1899, INT_MAX, INT_MIN, - 3750, INT_MIN, 10499, INT_MIN, INT_MAX]),
     (179, [INT_MIN, 2000, INT_MIN, - 1000, - 1899, INT_MAX, INT_MIN, - 3750, INT_MIN, 10499, INT_MIN, INT_MAX]),
     (180, [INT_MIN, 2000, INT_MIN, INT_MAX, - 1899, INT_MAX, INT_MIN, - 3750, INT_MIN, 10499, - 9333, - 4001]),
     (183, [INT_MIN, INT_MAX, INT_MIN, INT_MAX, INT_MIN, INT_MAX, INT_MIN, 1818, 10500, INT_MAX, INT_MIN, INT_MAX]),
     (184, [2000, INT_MAX, INT_MIN, INT_MAX, - 1100, INT_MAX, 5500, INT_MAX, INT_MIN, INT_MAX, INT_MIN, INT_MAX])]"

definition g_biome_para_range_20_diff :: "(int \<times> int list) list" where
  "g_biome_para_range_20_diff =
    [(6, [- 4500, 2000, INT_MIN, INT_MAX, - 1100, INT_MAX, 5500, INT_MAX, INT_MIN, INT_MAX, INT_MIN, INT_MAX]),
     (178, [INT_MIN, 2000, - 1000, INT_MAX, - 1899, INT_MAX, INT_MIN, - 3750, INT_MIN, 10500, INT_MIN, INT_MAX]),
     (179, [INT_MIN, 2000, INT_MIN, - 1000, - 1899, INT_MAX, INT_MIN, - 3750, INT_MIN, 10500, INT_MIN, INT_MAX]),
     (180, [INT_MIN, 2000, INT_MIN, INT_MAX, - 1899, INT_MAX, INT_MIN, - 3750, INT_MIN, 10500, - 9333, - 4000]),
     (181, [INT_MIN, 2000, INT_MIN, INT_MAX, - 1899, INT_MAX, INT_MIN, - 3750, INT_MIN, 10500, 4000, 9333]),
     (182, [2000, 5500, INT_MIN, INT_MAX, - 1899, INT_MAX, INT_MIN, - 3750, INT_MIN, 10500, - 9333, 9333]),
     (185, [- 4500, 2000, INT_MIN, - 1000, 300, INT_MAX, - 7799, 500, INT_MIN, INT_MAX, 2666, INT_MAX])]"

definition g_biome_para_range_21wd_diff :: "(int \<times> int list) list" where
  "g_biome_para_range_21wd_diff =
    [(186, [- 1500, 2000, 3000, INT_MAX, 300, INT_MAX, - 7799, 500, INT_MIN, INT_MAX, 2666, INT_MAX])]"

text \<open>The loops over the tables, newest first; \<open>None\<close> is the null pointer.\<close>

definition getBiomeParaLimits :: "nat \<Rightarrow> int \<Rightarrow> int list option" where
  "getBiomeParaLimits mc biome =
     (if mc \<le> MC_1_17 then None
      else case (if MC_1_21_3 < mc then map_of g_biome_para_range_21wd_diff biome else None) of
             Some lim \<Rightarrow> Some lim
           | None \<Rightarrow>
               (case (if MC_1_19 < mc then map_of g_biome_para_range_20_diff biome else None) of
                  Some lim \<Rightarrow> Some lim
                | None \<Rightarrow>
                    (case (if MC_1_18 < mc then map_of g_biome_para_range_19_diff biome else None) of
                       Some lim \<Rightarrow> Some lim
                     | None \<Rightarrow> map_of g_biome_para_range_18 biome)))"

subsection \<open>What the tables hold\<close>

lemmas table_defs = g_biome_para_range_18_def g_biome_para_range_19_diff_def g_biome_para_range_20_diff_def
  g_biome_para_range_21wd_diff_def

text \<open>A row of limits is six pairs in increasing order, within the range of an \<open>int\<close>.\<close>

definition limits_ok :: "int list \<Rightarrow> bool" where
  "limits_ok lim \<longleftrightarrow> length lim = 12 \<and> 
     list_all (\<lambda>k. INT_MIN \<le> lim ! (2 * k) \<and> lim ! (2 * k) \<le> lim ! (2 * k + 1) \<and> lim ! (2 * k + 1) \<le> INT_MAX) [0..<6]"

definition rows_ok :: "(int \<times> int list) list \<Rightarrow> bool" where
  "rows_ok t = list_all (\<lambda>(id, lim). limits_ok lim) t"

lemma tables_ok: "rows_ok g_biome_para_range_18" "rows_ok g_biome_para_range_19_diff"
  "rows_ok g_biome_para_range_20_diff" "rows_ok g_biome_para_range_21wd_diff"
  by code_simp+

lemma map_of_rows_ok: "rows_ok t \<Longrightarrow> map_of t biome = Some lim \<Longrightarrow> limits_ok lim"
  by (auto simp: rows_ok_def list_all_iff dest!: map_of_SomeD)

lemma getBiomeParaLimits_ok: "getBiomeParaLimits mc biome = Some lim \<Longrightarrow> limits_ok lim"
  unfolding getBiomeParaLimits_def using tables_ok by (auto split: if_splits option.splits intro: map_of_rows_ok)

text \<open>The biome that the program looks for depends on the continentalness alone.\<close>

lemma mushroom_limits: "MC_1_17 < mc \<Longrightarrow> getBiomeParaLimits mc mushroom_fields =
    Some [INT_MIN, INT_MAX, INT_MIN, INT_MAX, INT_MIN, - 10500, INT_MIN, INT_MAX, INT_MIN, INT_MAX, INT_MIN, INT_MAX]"
  by (simp add: getBiomeParaLimits_def table_defs mushroom_fields_def)

end
