(* ===== verification/Flood_Fill.thy ===== *)
theory Flood_Fill
  imports Float_Sqrt Para_Limits
begin

text \<open>
  \<open>floodFillGen\<close> of \<open>cubiomes.c\<close>: the flood fill that measures a biome, on an explicit stack with
  room for as many entries as the area has cells. A write past the stack is the value \<open>None\<close>.

  The stack never overflows although a cell can be on it several times: every entry but possibly
  the topmost one owns a vertical edge of the grid (or the start), and no two own the same.
\<close>

subsection \<open>The model\<close>

record Range =
  rscale :: int
  rx :: int
  rz :: int
  sx :: int
  sz :: int
  ry :: int
  sy :: int

definition make_range :: "int \<Rightarrow> int \<Rightarrow> int \<Rightarrow> int \<Rightarrow> Range" where
  "make_range x z rng scl =
     \<lparr>rscale = scl, rx = c_div (wrap32 (x - c_div rng 2)) scl, rz = c_div (wrap32 (z - c_div rng 2)) scl,
      sx = c_div rng scl, sz = c_div rng scl, ry = c_div 256 scl, sy = 1\<rparr>"

text \<open>An entry of the stack: the cell and its distance from the last match.\<close>

record entry =
  ei :: int
  ej :: int
  ed :: int

text \<open>
  What the fill reads and writes: \<open>ids\<close>, the stack (topmost entry first), the sums and the number
  of matches. \<open>biome\<close> is \<open>getBiomeAt\<close> at the scale and height of the range.
\<close>

record flood_state =
  ids :: "int list"
  stack :: "entry list"
  sumx :: int
  sumz :: int
  fn :: int

definition cell :: "Range \<Rightarrow> int \<Rightarrow> int \<Rightarrow> nat" where
  "cell r i j = nat (j * sx r + i)"

definition in_range :: "Range \<Rightarrow> int \<Rightarrow> int \<Rightarrow> bool" where
  "in_range r i j \<longleftrightarrow> \<not> (i < 0 \<or> sx r \<le> i \<or> j < 0 \<or> sz r \<le> j)"

text \<open>The loop over the four neighbours: those in the range and not yet visited are pushed.\<close>

fun push_neighbours :: "Range \<Rightarrow> int list \<Rightarrow> entry list \<Rightarrow> entry list \<Rightarrow> entry list option" where
  "push_neighbours r vis [] st = Some st"
| "push_neighbours r vis (e # es) st =
     (if \<not> in_range r (ei e) (ej e) then push_neighbours r vis es st
      else if vis ! cell r (ei e) (ej e) = INT_MAX then push_neighbours r vis es st
      else if int (length st) < sx r * sz r then push_neighbours r vis es (e # st)
      else None)"

definition neighbours :: "int \<Rightarrow> int \<Rightarrow> int \<Rightarrow> entry list" where
  "neighbours i j d = [\<lparr>ei = i, ej = j - 1, ed = d\<rparr>, \<lparr>ei = i, ej = j + 1, ed = d\<rparr>,
                       \<lparr>ei = i - 1, ej = j, ed = d\<rparr>, \<lparr>ei = i + 1, ej = j, ed = d\<rparr>]"

text \<open>One iteration of the loop, on the state without its topmost entry.\<close>

definition flood_visit :: "Range \<Rightarrow> int \<Rightarrow> int \<Rightarrow> (int \<Rightarrow> int \<Rightarrow> int) \<Rightarrow> entry \<Rightarrow> flood_state \<Rightarrow> flood_state option" where
  "flood_visit r match tol biome e s =
     (let k = cell r (ei e) (ej e)
      in if ids s ! k = INT_MAX then Some s
         else let s = s\<lparr>ids := (ids s)[k := INT_MAX]\<rparr>;
                  x = rx r + ei e; z = rz r + ej e;
                  id = biome x z;
                  hit = (id = match);
                  d = (if hit then 0 else ed e + 1);
                  s = (if hit then s\<lparr>sumx := sumx s + x, sumz := sumz s + z, fn := fn s + 1\<rparr> else s)
              in if \<not> hit \<and> tol \<le> d then Some s
                 else (case push_neighbours r (ids s) (neighbours (ei e) (ej e) d) (stack s) of
                         None \<Rightarrow> None
                       | Some st \<Rightarrow> Some (s\<lparr>stack := st\<rparr>)))"

definition unvisited :: "int list \<Rightarrow> nat" where
  "unvisited vis = length (filter (\<lambda>v. v \<noteq> INT_MAX) vis)"

lemma push_neighbours_length: "push_neighbours r vis es st = Some st' \<Longrightarrow> length st' \<le> length st + length es"
  by (induction r vis es st rule: push_neighbours.induct) (simp_all split: if_splits)

lemma unvisited_mark: "k < length vis \<Longrightarrow> vis ! k \<noteq> INT_MAX \<Longrightarrow> Suc (unvisited (vis[k := INT_MAX])) = unvisited vis"
proof (induction vis arbitrary: k)
  case (Cons v vis)
  then show ?case by (cases k) (auto simp: unvisited_def)
qed simp

text \<open>The loop runs while the stack is not empty; it is total because each iteration lowers the measure.\<close>

definition stack_ok :: "Range \<Rightarrow> flood_state \<Rightarrow> bool" where
  "stack_ok r s \<longleftrightarrow> int (length (ids s)) = sx r * sz r \<and> (\<forall>e \<in> set (stack s). in_range r (ei e) (ej e))"

lemma cell_less: "in_range r i j \<Longrightarrow> int (cell r i j) < sx r * sz r"
proof -
  assume a: "in_range r i j"
  then have "j * sx r + i < (j + 1) * sx r" by (simp add: in_range_def algebra_simps)
  also have "\<dots> \<le> sz r * sx r" using a by (intro mult_right_mono) (auto simp: in_range_def)
  finally show ?thesis using a by (simp add: cell_def in_range_def mult.commute)
qed

lemma flood_visit_step:
  assumes "ids s ! cell r (ei e) (ej e) \<noteq> INT_MAX"
  shows "flood_visit r match tol biome e (s\<lparr>stack := st\<rparr>) =
    (let v = (ids s)[cell r (ei e) (ej e) := INT_MAX];
         hit = (biome (rx r + ei e) (rz r + ej e) = match);
         d = (if hit then 0 else ed e + 1);
         s' = s\<lparr>ids := v, stack := st, sumx := sumx s + (if hit then rx r + ei e else 0),
               sumz := sumz s + (if hit then rz r + ej e else 0), fn := fn s + (if hit then 1 else 0)\<rparr>
     in if \<not> hit \<and> tol \<le> d then Some s'
        else map_option (\<lambda>st'. s'\<lparr>stack := st'\<rparr>) (push_neighbours r v (neighbours (ei e) (ej e) d) st))"
  using assms by (cases s) (simp add: flood_visit_def Let_def split: option.split)

lemma flood_visit_measure:
  assumes "flood_visit r match tol biome e (s\<lparr>stack := st\<rparr>) = Some s'" "int (length (ids s)) = sx r * sz r" "in_range r (ei e) (ej e)"
  shows "5 * unvisited (ids s') + length (stack s') < 5 * unvisited (ids s) + Suc (length st)"
proof (cases "ids s ! cell r (ei e) (ej e) = INT_MAX")
  case True
  then show ?thesis using assms(1) by (auto simp: flood_visit_def Let_def)
next
  case False
  have k: "cell r (ei e) (ej e) < length (ids s)" using cell_less [OF assms(3)] assms(2) by linarith
  let ?v = "(ids s)[cell r (ei e) (ej e) := INT_MAX]"
  define d where "d = (if biome (rx r + ei e) (rz r + ej e) = match then 0 else ed e + 1)"
  have "ids s' = ?v \<and> (stack s' = st \<or> push_neighbours r ?v (neighbours (ei e) (ej e) d) st = Some (stack s'))"
    using assms(1) unfolding flood_visit_step [OF False] Let_def d_def [symmetric] by (auto split: if_splits)
  then have i: "ids s' = ?v" and l: "length (stack s') \<le> length st + 4"
    using push_neighbours_length [of r ?v "neighbours (ei e) (ej e) d" st "stack s'"] by (auto simp: neighbours_def)
  show ?thesis unfolding i using unvisited_mark [OF k False] l by linarith
qed

function flood_loop :: "Range \<Rightarrow> int \<Rightarrow> int \<Rightarrow> (int \<Rightarrow> int \<Rightarrow> int) \<Rightarrow> flood_state \<Rightarrow> flood_state option" where
  "flood_loop r match tol biome s =
     (case stack s of
        [] \<Rightarrow> Some s
      | e # st \<Rightarrow>
          if int (length (ids s)) = sx r * sz r \<and> in_range r (ei e) (ej e)
          then (case flood_visit r match tol biome e (s\<lparr>stack := st\<rparr>) of
                  None \<Rightarrow> None
                | Some s' \<Rightarrow> flood_loop r match tol biome s')
          else None)"
  by pat_completeness auto
termination
proof (relation "measure (\<lambda>(r, match, tol, biome, s). 5 * unvisited (ids s) + length (stack s))", goal_cases)
  case (2 r match tol biome s e st s')
  then show ?case using flood_visit_measure [of r match tol biome e st s] by simp
qed simp

declare flood_loop.simps [simp del]

text \<open>The fill from a cell; the caller's \<open>ids\<close> are changed.\<close>

definition flood_start :: "int list \<Rightarrow> int \<Rightarrow> int \<Rightarrow> flood_state" where
  "flood_start vis i j = \<lparr>ids = vis, stack = [\<lparr>ei = i, ej = j, ed = 0\<rparr>], sumx = 0, sumz = 0, fn = 0\<rparr>"

record Pos =
  px :: int
  pz :: int

definition centre :: "Range \<Rightarrow> int \<Rightarrow> int \<Rightarrow> int" where
  "centre r s n = clamp_i32 (round_away (mul64 (add64 (div64 (f64_of_int s) (f64_of_int n)) (1 / 2)) (f64_of_int (rscale r))))"

text \<open>The number of matches, their centre when there is one, and the changed \<open>ids\<close>.\<close>

definition floodFillGen ::
    "Range \<Rightarrow> int \<Rightarrow> int \<Rightarrow> (int \<Rightarrow> int \<Rightarrow> int) \<Rightarrow> int list \<Rightarrow> int \<Rightarrow> int \<Rightarrow> (int \<times> Pos option \<times> int list) option" where
  "floodFillGen r match tol biome vis i j =
     (case flood_loop r match tol biome (flood_start vis i j) of
        None \<Rightarrow> None
      | Some s \<Rightarrow>
          Some (fn s,
                if fn s \<noteq> 0 then Some \<lparr>px = centre r (sumx s) (fn s), pz = centre r (sumz s) (fn s)\<rparr> else None,
                ids s))"

subsection \<open>The stack does not overflow\<close>

definition visited :: "Range \<Rightarrow> int list \<Rightarrow> int \<Rightarrow> int \<Rightarrow> bool" where
  "visited r vis i j \<longleftrightarrow> vis ! cell r i j = INT_MAX"

text \<open>A token is the start or a vertical edge of the grid with a visited end, named by its upper cell.\<close>

definition edges :: "Range \<Rightarrow> (int \<times> int) set" where
  "edges r = {0..<sx r} \<times> {0..<sz r - 1}"

definition token_ok :: "Range \<Rightarrow> int list \<Rightarrow> (int \<times> int) option \<Rightarrow> bool" where
  "token_ok r vis t = (case t of None \<Rightarrow> True
     | Some (i, j) \<Rightarrow> (i, j) \<in> edges r \<and> (visited r vis i j \<or> visited r vis i (j + 1)))"

definition token_inv :: "Range \<Rightarrow> int list \<Rightarrow> entry list \<Rightarrow> bool" where
  "token_inv r vis st \<longleftrightarrow> (\<exists>rp rest ts. st = rp @ rest \<and>
     (rp = [] \<or> (\<exists>e. rp = [e] \<and> 1 < sx r \<and> visited r vis (ei e - 1) (ej e))) \<and>
     length ts = length rest \<and> distinct ts \<and> (\<forall>t \<in> set ts. token_ok r vis t))"

lemma token_invI:
  assumes "rp = [] \<or> (\<exists>e. rp = [e] \<and> 1 < sx r \<and> visited r vis (ei e - 1) (ej e))"
    and "length ts = length rest" "distinct ts" "\<forall>t \<in> set ts. token_ok r vis t"
  shows "token_inv r vis (rp @ rest)"
  using assms unfolding token_inv_def by blast

lemma card_edges: "0 < sx r \<Longrightarrow> 0 < sz r \<Longrightarrow> int (card (edges r)) = sx r * (sz r - 1)"
  by (simp add: edges_def card_cartesian_product)

lemma token_bound:
  assumes "token_inv r vis st" "0 < sx r" "0 < sz r"
  shows "int (length st) \<le> sx r * sz r"
proof -
  obtain rp rest ts where st: "st = rp @ rest" "rp = [] \<or> (\<exists>e. rp = [e] \<and> 1 < sx r)"
    and ts: "length ts = length rest" "distinct ts" "\<forall>t \<in> set ts. token_ok r vis t"
    using assms(1) unfolding token_inv_def by blast
  have "t \<in> insert None (Some ` edges r)" if "t \<in> set ts" for t
    using ts(3) that by (cases t) (auto simp: token_ok_def)
  then have "set ts \<subseteq> insert None (Some ` edges r)" by blast
  then have "card (set ts) \<le> card (insert None (Some ` edges r))"
    by (intro card_mono) (auto simp: edges_def)
  also have "\<dots> \<le> Suc (card (edges r))" by (simp add: card_insert_if card_image edges_def)
  finally have "int (length rest) \<le> 1 + sx r * (sz r - 1)"
    using ts(1,2) card_edges [OF assms(2,3)] by (simp add: distinct_card)
  moreover have "int (length rp) \<le> 1 \<and> (rp \<noteq> [] \<longrightarrow> 2 \<le> sx r)" using st(2) by auto
  ultimately show ?thesis using st(1) assms(2,3) by (cases "rp = []") (auto simp: algebra_simps)
qed

lemma visited_mono: "visited r vis i j \<Longrightarrow> visited r (vis[k := INT_MAX]) i j"
  by (cases "k < length vis") (auto simp: visited_def nth_list_update list_update_beyond)

lemma token_ok_mono: "token_ok r vis t \<Longrightarrow> token_ok r (vis[k := INT_MAX]) t"
  by (auto simp: token_ok_def visited_mono split: option.splits)

definition good :: "Range \<Rightarrow> int list \<Rightarrow> entry \<Rightarrow> bool" where
  "good r vis e \<longleftrightarrow> in_range r (ei e) (ej e) \<and> \<not> visited r vis (ei e) (ej e)"

lemma push_neighbours_eq:
  "int (length st + length (filter (good r vis) es)) \<le> sx r * sz r \<Longrightarrow>
   push_neighbours r vis es st = Some (rev (filter (good r vis) es) @ st)"
  by (induction es arbitrary: st) (auto simp: good_def visited_def)

text \<open>The two ways in which the topmost entry leaves the stack.\<close>

lemma token_pop:
  assumes "token_inv r vis (e # st)"
  obtains (right) ts where "visited r vis (ei e - 1) (ej e)" "length ts = length st" "distinct ts" "\<forall>t \<in> set ts. token_ok r vis t"
  | (owner) t ts where "length ts = length st" "distinct (t # ts)" "\<forall>u \<in> set (t # ts). token_ok r vis u"
proof -
  obtain rp rest ts where st: "e # st = rp @ rest"
    "rp = [] \<or> (\<exists>e. rp = [e] \<and> 1 < sx r \<and> visited r vis (ei e - 1) (ej e))"
    and ts: "length ts = length rest" "distinct ts" "\<forall>t \<in> set ts. token_ok r vis t"
    using assms unfolding token_inv_def by blast
  show ?thesis
  proof (cases rp)
    case Nil
    then obtain t ts' where "ts = t # ts'" using st(1) ts(1) by (cases ts) auto
    then show ?thesis using owner [of ts' t] Nil st(1) ts by auto
  next
    case (Cons f rp')
    then show ?thesis using right [of ts] st ts by auto
  qed
qed

lemma token_inv_pop: "token_inv r vis (e # st) \<Longrightarrow> token_inv r vis st"
  by (erule token_pop) (force simp: token_inv_def)+

lemma token_inv_mono:
  assumes "token_inv r vis st"
  shows "token_inv r (vis[k := INT_MAX]) st"
proof -
  obtain rp rest ts where st: "st = rp @ rest"
    "rp = [] \<or> (\<exists>e. rp = [e] \<and> 1 < sx r \<and> visited r vis (ei e - 1) (ej e))"
    and ts: "length ts = length rest" "distinct ts" "\<forall>t \<in> set ts. token_ok r vis t"
    using assms unfolding token_inv_def by blast
  show ?thesis unfolding st(1)
    by (rule token_invI [OF _ ts(1,2)]) (use st(2) ts(3) visited_mono token_ok_mono in blast)+
qed

lemma token_inv_push:
  assumes inv: "token_inv r vis (e # st)" and e: "in_range r (ei e) (ej e)" "\<not> visited r vis (ei e) (ej e)"
    and len: "int (length vis) = sx r * sz r"
    and v: "v = vis[cell r (ei e) (ej e) := INT_MAX]"
  shows "token_inv r v (rev (filter (good r v) (neighbours (ei e) (ej e) d)) @ st)"
proof -
  define i j where ij: "i = ei e" "j = ej e"
  let ?U = "\<lparr>ei = i, ej = j - 1, ed = d\<rparr>" and ?D = "\<lparr>ei = i, ej = j + 1, ed = d\<rparr>"
    and ?L = "\<lparr>ei = i - 1, ej = j, ed = d\<rparr>" and ?R = "\<lparr>ei = i + 1, ej = j, ed = d\<rparr>"
  have k: "cell r i j < length vis" using cell_less [OF e(1)] len unfolding ij by linarith
  have here: "visited r v i j" using k by (simp add: visited_def v ij)
  have mono: "visited r vis a b \<Longrightarrow> visited r v a b" for a b using visited_mono v by simp
  have tmono: "token_ok r vis t \<Longrightarrow> token_ok r v t" for t using token_ok_mono v by simp
  define new where "new = (if good r v ?D then [Some (i, j)] else []) @ (if good r v ?U then [Some (i, j - 1)] else [])"
  have new_ok: "\<forall>t \<in> set new. token_ok r v t" using here e(1)
    by (auto simp: new_def token_ok_def good_def edges_def in_range_def ij)
  have fresh: "\<not> token_ok r vis t" if "t \<in> set new" for t
    using that e(2) mono by (auto simp: new_def token_ok_def good_def ij split: if_splits)
  have dist: "distinct new" by (simp add: new_def)
  have nb: "rev (filter (good r v) (neighbours i j d)) = (if good r v ?R then [?R] else []) @
      (if good r v ?L then [?L] else []) @ (if good r v ?D then [?D] else []) @ (if good r v ?U then [?U] else [])"
    by (simp add: neighbours_def)
  let ?r = "if good r v ?R then [?R] else []" and ?l = "if good r v ?L then [?L] else []"
    and ?du = "(if good r v ?D then [?D] else []) @ (if good r v ?U then [?U] else [])"
  have rp: "?r = [] \<or> (\<exists>e. ?r = [e] \<and> 1 < sx r \<and> visited r v (ei e - 1) (ej e))"
    using here e(1) by (auto simp: good_def in_range_def ij)
  have "token_inv r v (?r @ ?l @ ?du @ st)"
    using inv
  proof (cases rule: token_pop)
    case (right ts)
    then have l: "?l = []" using mono by (auto simp: good_def ij)
    have "distinct (new @ ts)" "\<forall>t \<in> set (new @ ts). token_ok r v t"
      using right(3,4) dist fresh new_ok tmono by auto
    moreover have "length (new @ ts) = length (?l @ ?du @ st)" unfolding l using right(2) by (simp add: new_def)
    ultimately show ?thesis by (intro token_invI [OF rp])
  next
    case (owner t ts)
    define tl where "tl = (if good r v ?L then [t] else [])"
    have "distinct (tl @ new @ ts)" "\<forall>u \<in> set (tl @ new @ ts). token_ok r v u"
      using owner(2,3) dist fresh new_ok tmono by (auto simp: tl_def)
    moreover have "length (tl @ new @ ts) = length (?l @ ?du @ st)" using owner(1) by (simp add: new_def tl_def)
    ultimately show ?thesis by (intro token_invI [OF rp])
  qed
  then show ?thesis unfolding ij [symmetric] nb by simp
qed

subsection \<open>What the fill counts\<close>

definition cells :: "Range \<Rightarrow> (int \<times> int) set" where
  "cells r = {0..<sx r} \<times> {0..<sz r}"

text \<open>The cells that a fill has visited, and those of them that match.\<close>

definition filled :: "Range \<Rightarrow> int list \<Rightarrow> int list \<Rightarrow> (int \<times> int) set" where
  "filled r vis0 vis = {(i, j) \<in> cells r. visited r vis i j \<and> \<not> visited r vis0 i j}"

definition matching :: "Range \<Rightarrow> (int \<Rightarrow> int \<Rightarrow> int) \<Rightarrow> int \<Rightarrow> (int \<times> int) set \<Rightarrow> (int \<times> int) set" where
  "matching r biome match C = {(i, j) \<in> C. biome (rx r + i) (rz r + j) = match}"

definition next_to :: "int \<times> int \<Rightarrow> int \<times> int \<Rightarrow> bool" where
  "next_to c c' \<longleftrightarrow> \<bar>fst c - fst c'\<bar> + \<bar>snd c - snd c'\<bar> = 1"

definition flood_inv :: "Range \<Rightarrow> int \<Rightarrow> (int \<Rightarrow> int \<Rightarrow> int) \<Rightarrow> int list \<Rightarrow> flood_state \<Rightarrow> bool" where
  "flood_inv r match biome vis0 s \<longleftrightarrow> int (length (ids s)) = sx r * sz r \<and> length vis0 = length (ids s) \<and>
     (\<forall>e \<in> set (stack s). in_range r (ei e) (ej e)) \<and> token_inv r (ids s) (stack s) \<and>
     (\<forall>(i, j) \<in> cells r. visited r vis0 i j \<longrightarrow> visited r (ids s) i j) \<and>
     (\<forall>k < length vis0. ids s ! k = INT_MAX \<or> ids s ! k = vis0 ! k) \<and>
     fn s = int (card (matching r biome match (filled r vis0 (ids s)))) \<and>
     sumx s = (\<Sum>c \<in> matching r biome match (filled r vis0 (ids s)). rx r + fst c) \<and>
     sumz s = (\<Sum>c \<in> matching r biome match (filled r vis0 (ids s)). rz r + snd c) \<and>
     (\<forall>c \<in> matching r biome match (filled r vis0 (ids s)). \<forall>c' \<in> cells r. next_to c c' \<longrightarrow>
        visited r (ids s) (fst c') (snd c') \<or> (\<exists>e \<in> set (stack s). (ei e, ej e) = c'))"

text \<open>A cell that has been visited or waits on the stack.\<close>

definition covered :: "Range \<Rightarrow> flood_state \<Rightarrow> int \<times> int \<Rightarrow> bool" where
  "covered r s c \<longleftrightarrow> visited r (ids s) (fst c) (snd c) \<or> c \<in> (\<lambda>e. (ei e, ej e)) ` set (stack s)"

lemma in_range_cells: "in_range r i j \<longleftrightarrow> (i, j) \<in> cells r"
  by (auto simp: in_range_def cells_def)

lemma finite_cells [simp]: "finite (cells r)"
  by (simp add: cells_def)

lemma cell_inject:
  assumes "(i, j) \<in> cells r" "(i', j') \<in> cells r" "cell r i j = cell r i' j'"
  shows "i = i' \<and> j = j'"
proof -
  have nn: "0 \<le> j * sx r + i" "0 \<le> j' * sx r + i'" using assms(1,2) by (auto simp: cells_def)
  then have e: "j * sx r + i = j' * sx r + i'" using assms(3) by (simp add: cell_def)
  have "(j * sx r + i) div sx r = j" "(j' * sx r + i') div sx r = j'" using assms(1,2) by (auto simp: cells_def)
  then show ?thesis using e by simp
qed

lemma visited_mark:
  assumes "(i, j) \<in> cells r" "(i', j') \<in> cells r" "int (length vis) = sx r * sz r"
  shows "visited r (vis[cell r i j := INT_MAX]) i' j' \<longleftrightarrow> (i', j') = (i, j) \<or> visited r vis i' j'"
proof -
  have "cell r i j < length vis" using cell_less [of r i j] assms(1,3) by (simp add: in_range_cells)
  then show ?thesis using cell_inject [OF assms(1,2)] by (auto simp: visited_def nth_list_update)
qed

lemma filled_mark:
  assumes "(i, j) \<in> cells r" "int (length vis) = sx r * sz r" "\<not> visited r vis i j"
    and "\<forall>(i, j) \<in> cells r. visited r vis0 i j \<longrightarrow> visited r vis i j"
  shows "filled r vis0 (vis[cell r i j := INT_MAX]) = insert (i, j) (filled r vis0 vis)"
  using assms visited_mark [OF assms(1) _ assms(2)] by (auto simp: filled_def)

lemma matching_insert: "matching r biome match (insert (i, j) C) =
    (if biome (rx r + i) (rz r + j) = match then insert (i, j) (matching r biome match C) else matching r biome match C)"
  by (auto simp: matching_def)

lemma next_to_neighbours: "next_to (i, j) c \<Longrightarrow> \<exists>e \<in> set (neighbours i j d). (ei e, ej e) = c"
  by (cases c) (auto simp: next_to_def neighbours_def abs_if split: if_splits)

text \<open>One iteration keeps the invariant and does not fail.\<close>

lemma flood_visit_inv:
  assumes inv: "flood_inv r match biome vis0 s" and st: "stack s = e # st"
  shows "\<exists>s'. flood_visit r match tol biome e (s\<lparr>stack := st\<rparr>) = Some s' \<and> flood_inv r match biome vis0 s' \<and>
    (\<forall>c. covered r s c \<longrightarrow> covered r s' c)"
proof -
  let ?i = "ei e" and ?j = "ej e"
  have e: "in_range r ?i ?j" "(?i, ?j) \<in> cells r" using inv st by (auto simp: flood_inv_def in_range_cells)
  then have pos: "0 < sx r" "0 < sz r" by (auto simp: cells_def)
  note I = inv [unfolded flood_inv_def st]
  show ?thesis
  proof (cases "visited r (ids s) ?i ?j")
    case True
    have "token_inv r (ids s) st" using I by (blast intro: token_inv_pop)
    moreover have "visited r (ids s) (fst c') (snd c') \<or> (\<exists>e \<in> set st. (ei e, ej e) = c')"
      if "c \<in> matching r biome match (filled r vis0 (ids s))" "c' \<in> cells r" "next_to c c'" for c c'
      using I that True by fastforce
    ultimately have "flood_inv r match biome vis0 (s\<lparr>stack := st\<rparr>)" unfolding flood_inv_def using I by simp
    moreover have "covered r s c \<Longrightarrow> covered r (s\<lparr>stack := st\<rparr>) c" for c using True st by (auto simp: covered_def)
    ultimately show ?thesis using True by (simp add: flood_visit_def visited_def Let_def)
  next
    case False
    define v where "v = (ids s)[cell r ?i ?j := INT_MAX]"
    define d where "d = (if biome (rx r + ?i) (rz r + ?j) = match then 0 else ed e + 1)"
    define hit where "hit = (biome (rx r + ?i) (rz r + ?j) = match)"
    have d_hit: "d = (if hit then 0 else ed e + 1)" by (simp add: d_def hit_def)
    define st' where "st' = (if \<not> hit \<and> tol \<le> d then st else rev (filter (good r v) (neighbours ?i ?j d)) @ st)"
    define s' where "s' = \<lparr>ids = v, stack = st', sumx = sumx s + (if hit then rx r + ?i else 0),
      sumz = sumz s + (if hit then rz r + ?j else 0), fn = fn s + (if hit then 1 else 0)\<rparr>"
    have tok: "token_inv r v (rev (filter (good r v) (neighbours ?i ?j d)) @ st)"
      using token_inv_push [OF _ e(1) False _ v_def] I by blast
    have push: "push_neighbours r v (neighbours ?i ?j d) st = Some (rev (filter (good r v) (neighbours ?i ?j d)) @ st)"
      using token_bound [OF tok pos] by (intro push_neighbours_eq) simp
    have run: "flood_visit r match tol biome e (s\<lparr>stack := st\<rparr>) = Some s'"
      unfolding flood_visit_step [OF False [unfolded visited_def], unfolded Let_def] v_def [symmetric] hit_def [symmetric] d_hit [symmetric]
      using push by (cases hit; cases "tol \<le> d"; cases s) (simp_all add: s'_def st'_def)
    have fm: "filled r vis0 v = insert (?i, ?j) (filled r vis0 (ids s))"
      unfolding v_def using filled_mark [OF e(2) _ False] I by blast
    have notin: "(?i, ?j) \<notin> filled r vis0 (ids s)" using False by (simp add: filled_def)
    have fin: "finite (matching r biome match (filled r vis0 (ids s)))"
      by (rule finite_subset [of _ "cells r"]) (auto simp: matching_def filled_def)
    have notin': "(?i, ?j) \<notin> matching r biome match (filled r vis0 (ids s))" using notin by (auto simp: matching_def)
    have st'_old: "set st \<subseteq> set st'" by (auto simp: st'_def)
    have st'_rng: "\<forall>e \<in> set st'. in_range r (ei e) (ej e)" using I by (auto simp: st'_def good_def)
    have "token_inv r v st" unfolding v_def using I by (blast intro: token_inv_pop token_inv_mono)
    then have tok': "token_inv r v st'" using tok by (simp add: st'_def)
    have here: "visited r v ?i ?j" using visited_mark [OF e(2) e(2), of "ids s"] I by (simp add: v_def)
    have vm: "visited r (ids s) a b \<Longrightarrow> visited r v a b" for a b using visited_mono v_def by simp
    have close: "visited r v (fst c') (snd c') \<or> (\<exists>e \<in> set st'. (ei e, ej e) = c')"
      if c: "c \<in> matching r biome match (filled r vis0 v)" "c' \<in> cells r" "next_to c c'" for c c'
    proof (cases "c = (?i, ?j)")
      case True
      then have "hit" using c(1) by (auto simp: matching_def hit_def)
      obtain f where f: "f \<in> set (neighbours ?i ?j d)" "(ei f, ej f) = c'" using next_to_neighbours c(3) True by blast
      then show ?thesis using \<open>hit\<close> c(2) by (auto simp: st'_def good_def in_range_cells)
    next
      case False
      then have "c \<in> matching r biome match (filled r vis0 (ids s))" using c(1) fm by (auto simp: matching_def)
      then have "visited r (ids s) (fst c') (snd c') \<or> (\<exists>f \<in> set (e # st). (ei f, ej f) = c')" using I c(2,3) by blast
      then show ?thesis using vm here st'_old by auto
    qed
    let ?M = "matching r biome match (filled r vis0 (ids s))"
    have M: "matching r biome match (filled r vis0 v) = (if hit then insert (?i, ?j) ?M else ?M)"
      by (simp add: fm matching_insert hit_def)
    have sums: "fn s = int (card ?M)" "sumx s = (\<Sum>c \<in> ?M. rx r + fst c)" "sumz s = (\<Sum>c \<in> ?M. rz r + snd c)"
      using I by blast+
    have new: "fn s' = int (card (matching r biome match (filled r vis0 v)))"
      "sumx s' = (\<Sum>c \<in> matching r biome match (filled r vis0 v). rx r + fst c)"
      "sumz s' = (\<Sum>c \<in> matching r biome match (filled r vis0 v). rz r + snd c)"
      using fin notin' unfolding M s'_def flood_state.simps sums by (cases hit; simp)+
    have keep: "int (length v) = sx r * sz r" "length vis0 = length v"
      "\<forall>(i, j) \<in> cells r. visited r vis0 i j \<longrightarrow> visited r v i j"
      using I vm by (simp_all add: v_def, blast)
    have old: "\<forall>k < length vis0. ids s ! k = INT_MAX \<or> ids s ! k = vis0 ! k" using I by blast
    have same: "\<forall>k < length vis0. v ! k = INT_MAX \<or> v ! k = vis0 ! k"
    proof (intro allI impI)
      fix k
      assume "k < length vis0"
      then show "v ! k = INT_MAX \<or> v ! k = vis0 ! k" using old keep(2) by (cases "k = cell r ?i ?j") (simp_all add: v_def)
    qed
    have "ids s' = v" "stack s' = st'" by (simp_all add: s'_def)
    then have "flood_inv r match biome vis0 s'"
      unfolding flood_inv_def using keep same st'_rng tok' close new by (simp only:) blast
    moreover have "covered r s c \<Longrightarrow> covered r s' c" for c using vm here st'_old st by (auto simp: covered_def s'_def)
    ultimately show ?thesis using run by blast
  qed
qed

lemma flood_loop_ok:
  assumes "flood_inv r match biome vis0 s"
  shows "\<exists>s'. flood_loop r match tol biome s = Some s' \<and> flood_inv r match biome vis0 s' \<and> stack s' = [] \<and>
    (\<forall>c. covered r s c \<longrightarrow> visited r (ids s') (fst c) (snd c))"
  using assms
proof (induction r match tol biome s rule: flood_loop.induct)
  case (1 r match tol biome s)
  show ?case
  proof (cases "stack s")
    case Nil
    then show ?thesis using 1(2) by (simp add: flood_loop.simps covered_def)
  next
    case (Cons e st)
    have ok: "int (length (ids s)) = sx r * sz r \<and> in_range r (ei e) (ej e)"
      using 1(2) Cons by (auto simp: flood_inv_def)
    obtain s' where s': "flood_visit r match tol biome e (s\<lparr>stack := st\<rparr>) = Some s'" "flood_inv r match biome vis0 s'"
      and c: "\<forall>c. covered r s c \<longrightarrow> covered r s' c"
      using flood_visit_inv [OF 1(2) Cons] by blast
    show ?thesis using 1(1) [OF Cons ok s'] c by (subst flood_loop.simps) (auto simp: Cons ok s'(1))
  qed
qed

lemma flood_start_inv:
  assumes "int (length vis) = sx r * sz r" "in_range r i j"
  shows "flood_inv r match biome vis (flood_start vis i j)"
proof -
  have "token_inv r vis [\<lparr>ei = i, ej = j, ed = 0\<rparr>]"
    unfolding token_inv_def by (intro exI [of _ "[]"] exI [of _ "[\<lparr>ei = i, ej = j, ed = 0\<rparr>]"] exI [of _ "[None]"])
      (simp add: token_ok_def)
  moreover have "filled r vis vis = {}" by (simp add: filled_def)
  ultimately show ?thesis using assms by (auto simp: flood_inv_def flood_start_def matching_def)
qed

text \<open>The fill returns; what it has visited and counted.\<close>

lemma floodFillGen_ok:
  assumes "int (length vis) = sx r * sz r" "in_range r i j"
  obtains p vis' where
    "floodFillGen r match tol biome vis i j = Some (int (card (matching r biome match (filled r vis vis'))), p, vis')"
    "length vis' = length vis" "visited r vis' i j"
    "\<forall>(a, b) \<in> cells r. visited r vis a b \<longrightarrow> visited r vis' a b"
    "\<forall>k < length vis. vis' ! k = INT_MAX \<or> vis' ! k = vis ! k"
    "\<forall>c \<in> matching r biome match (filled r vis vis'). \<forall>c' \<in> cells r. next_to c c' \<longrightarrow> visited r vis' (fst c') (snd c')"
    "matching r biome match (filled r vis vis') \<noteq> {} \<longrightarrow>
       p = Some \<lparr>px = centre r (\<Sum>c \<in> matching r biome match (filled r vis vis'). rx r + fst c)
                      (int (card (matching r biome match (filled r vis vis')))),
                 pz = centre r (\<Sum>c \<in> matching r biome match (filled r vis vis'). rz r + snd c)
                      (int (card (matching r biome match (filled r vis vis'))))\<rparr>"
proof -
  obtain s where s: "flood_loop r match tol biome (flood_start vis i j) = Some s" "flood_inv r match biome vis s" "stack s = []"
    and c: "covered r (flood_start vis i j) (i, j) \<longrightarrow> visited r (ids s) i j"
    using flood_loop_ok [OF flood_start_inv [OF assms]] by fastforce
  let ?M = "matching r biome match (filled r vis (ids s))"
  have fin: "finite ?M" by (rule finite_subset [of _ "cells r"]) (auto simp: matching_def filled_def)
  have "?M \<noteq> {} \<longrightarrow> fn s \<noteq> 0" using s(2) fin by (simp add: flood_inv_def)
  moreover have "visited r (ids s) i j" using c by (simp add: covered_def flood_start_def)
  ultimately show thesis using that [of "ids s"] s by (simp add: floodFillGen_def flood_inv_def)
qed

subsection \<open>Properties\<close>

text \<open>
  C8. The flood fill is memory safe and complete: from every cell of the area, with any cells
  visited before, it returns and never writes past its stack of one entry per cell, although it
  pushes a cell once for every neighbour; it returns the number of newly visited cells that match,
  and every neighbour of such a cell has been visited, whatever the tolerance.
\<close>

theorem flood_fill_correct:
  assumes "int (length vis) = sx r * sz r" "in_range r i j"
  shows "\<exists>p vis'. floodFillGen r match tol biome vis i j = Some (int (card (matching r biome match (filled r vis vis'))), p, vis') \<and>
    length vis' = length vis \<and> visited r vis' i j \<and>
    (\<forall>k < length vis. vis' ! k = INT_MAX \<or> vis' ! k = vis ! k) \<and>
    (\<forall>c \<in> matching r biome match (filled r vis vis'). \<forall>c' \<in> cells r. next_to c c' \<longrightarrow> visited r vis' (fst c') (snd c'))"
  by (rule floodFillGen_ok [OF assms, of match tol biome]) blast

theorem flood_fill_correct_witness:
  "\<exists>p vis'. floodFillGen (make_range 0 0 12 4) 14 2 (\<lambda>x z. if x = z then 14 else 0) (replicate 9 (- 1)) 1 1 =
     Some (int (card (matching (make_range 0 0 12 4) (\<lambda>x z. if x = z then 14 else 0) 14 (filled (make_range 0 0 12 4) (replicate 9 (- 1)) vis'))), p, vis')"
proof -
  have a: "int (length (replicate 9 (- 1) :: int list)) = sx (make_range 0 0 12 4) * sz (make_range 0 0 12 4)"
    "in_range (make_range 0 0 12 4) 1 1"
    by (simp_all add: make_range_def in_range_def)
  show ?thesis using flood_fill_correct [OF a] by blast
qed

end
