(* ===== verification/Voronoi.thy ===== *)
theory Voronoi
  imports Rng_Helpers Flood_Fill
begin

text \<open>
  The scale of one block (\<open>layers.c\<close>, \<open>biomenoise.c\<close>): the hash of the seed that the voronoi cells
  depend on, the cell of scale 1:4 that a block takes its biome from, and the range of cells that a
  range of blocks needs. The hash is compared with a definition of SHA-256 for messages of one
  block.
\<close>

subsection \<open>The hash of the seed\<close>

text \<open>The tables of the source, in decimal.\<close>

definition sha_K :: "u32 list" where
  "sha_K =
     [1116352408, 1899447441, 3049323471, 3921009573, 961987163, 1508970993, 2453635748, 2870763221,
      3624381080, 310598401, 607225278, 1426881987, 1925078388, 2162078206, 2614888103, 3248222580,
      3835390401, 4022224774, 264347078, 604807628, 770255983, 1249150122, 1555081692, 1996064986,
      2554220882, 2821834349, 2952996808, 3210313671, 3336571891, 3584528711, 113926993, 338241895,
      666307205, 773529912, 1294757372, 1396182291, 1695183700, 1986661051, 2177026350, 2456956037,
      2730485921, 2820302411, 3259730800, 3345764771, 3516065817, 3600352804, 4094571909, 275423344,
      430227734, 506948616, 659060556, 883997877, 958139571, 1322822218, 1537002063, 1747873779,
      1955562222, 2024104815, 2227730452, 2361852424, 2428436474, 2756734187, 3204031479, 3329325298]"

definition sha_B :: "u32 list" where
  "sha_B = [1779033703, 3144134277, 1013904242, 2773480762, 1359893119, 2600822924, 528734635, 1541459225]"

text \<open>The array \<open>m\<close>: 16 words of the message, and the loop that extends it to 64.\<close>

definition sha_m_step :: "nat \<Rightarrow> u32 list \<Rightarrow> u32 list" where
  "sha_m_step i m =
     (let v = m ! (i - 7) + m ! (i - 16);
          x = m ! (i - 15);
          v = v + (rotr32 x 7 XOR rotr32 x 18 XOR drop_bit 3 x);
          x = m ! (i - 2);
          v = v + (rotr32 x 17 XOR rotr32 x 19 XOR drop_bit 10 x)
      in m @ [v])"

definition sha_m :: "u64 \<Rightarrow> u32 list" where
  "sha_m sd =
     fold sha_m_step [16..<64]
       ([BSWAP32 (ucast sd), BSWAP32 (ucast (drop_bit 32 sd)), 0x80000000] @ replicate 12 0 @ [0x40])"

type_synonym sha_state = "u32 \<times> u32 \<times> u32 \<times> u32 \<times> u32 \<times> u32 \<times> u32 \<times> u32"

definition sha_step :: "u32 list \<Rightarrow> nat \<Rightarrow> sha_state \<Rightarrow> sha_state" where
  "sha_step m i = (\<lambda>(a0, a1, a2, a3, a4, a5, a6, a7).
     let x = a7 + sha_K ! i + m ! i;
         x = x + (rotr32 a4 6 XOR rotr32 a4 11 XOR rotr32 a4 25);
         x = x + ((a4 AND a5) XOR (NOT a4 AND a6));
         y = rotr32 a0 2 XOR rotr32 a0 13 XOR rotr32 a0 22;
         y = y + ((a0 AND a1) XOR (a0 AND a2) XOR (a1 AND a2))
     in (x + y, a0, a1, a2, a3 + x, a4, a5, a6))"

definition getVoronoiSHA :: "u64 \<Rightarrow> u64" where
  "getVoronoiSHA sd =
     (let m = sha_m sd;
          (a0, a1, _) = fold (sha_step m) [0..<64]
             (sha_B ! 0, sha_B ! 1, sha_B ! 2, sha_B ! 3, sha_B ! 4, sha_B ! 5, sha_B ! 6, sha_B ! 7);
          a0 = a0 + sha_B ! 0;
          a1 = a1 + sha_B ! 1
      in ucast (BSWAP32 a0) OR push_bit 32 (ucast (BSWAP32 a1)))"

subsection \<open>The cell of a block\<close>

text \<open>The position of the centre of a cell, in \<open>uint64_t\<close> arithmetic cut to \<open>int\<close>.\<close>

definition voronoi_offset :: "u64 \<Rightarrow> int" where
  "voronoi_offset s = wrap32 (uint (((drop_bit 24 s AND 1023) - 512) * 36))"

definition getVoronoiCell :: "u64 \<Rightarrow> int \<Rightarrow> int \<Rightarrow> int \<Rightarrow> int \<times> int \<times> int" where
  "getVoronoiCell sha a b c =
     (let s = mcStepSeed sha (of_int a);
          s = mcStepSeed s (of_int b);
          s = mcStepSeed s (of_int c);
          s = mcStepSeed s (of_int a);
          s = mcStepSeed s (of_int b);
          s = mcStepSeed s (of_int c);
          x = voronoi_offset s;
          s = mcStepSeed s sha;
          y = voronoi_offset s;
          s = mcStepSeed s sha;
          z = voronoi_offset s
      in (x, y, z))"

text \<open>
  One pass of the loop over the corners: the squared distance of the block, in \<open>uint64_t\<close>, and the
  nearest cell so far. The bits of \<open>i\<close> are the offsets \<open>bx\<close>, \<open>by\<close> and \<open>bz\<close> of the cell.
\<close>

definition corner_bit :: "nat \<Rightarrow> nat \<Rightarrow> int" where
  "corner_bit i k = (if bit i k then 1 else 0)"

definition corner_cell :: "int \<times> int \<times> int \<Rightarrow> nat \<Rightarrow> int \<times> int \<times> int" where
  "corner_cell = (\<lambda>(px, py, pz) i. (px + corner_bit i 2, py + corner_bit i 1, pz + corner_bit i 0))"

definition corner_dist :: "u64 \<Rightarrow> int \<times> int \<times> int \<Rightarrow> int \<times> int \<times> int \<Rightarrow> nat \<Rightarrow> u64" where
  "corner_dist sha p d i =
     (let (dx, dy, dz) = d; (cx, cy, cz) = corner_cell p i;
          (x, y, z) = getVoronoiCell sha cx cy cz;
          x = x + (dx - 40 * 1024 * corner_bit i 2);
          y = y + (dy - 40 * 1024 * corner_bit i 1);
          z = z + (dz - 40 * 1024 * corner_bit i 0)
      in of_int x * of_int x + of_int y * of_int y + of_int z * of_int z)"

definition corner_step :: "u64 \<Rightarrow> int \<times> int \<times> int \<Rightarrow> int \<times> int \<times> int \<Rightarrow> nat \<Rightarrow> u64 \<times> int \<times> int \<times> int \<Rightarrow> u64 \<times> int \<times> int \<times> int" where
  "corner_step sha p d i = (\<lambda>(dmin, a).
     let dist = corner_dist sha p d i in if dist < dmin then (dist, corner_cell p i) else (dmin, a))"

definition voronoiAccess3D :: "u64 \<Rightarrow> int \<Rightarrow> int \<Rightarrow> int \<Rightarrow> int \<times> int \<times> int" where
  "voronoiAccess3D sha x y z =
     (let x = wrap32 (x - 2); y = wrap32 (y - 2); z = wrap32 (z - 2);
          p = (x div 4, y div 4, z div 4);
          d = (x mod 4 * 10240, y mod 4 * 10240, z mod 4 * 10240)
      in snd (fold (corner_step sha p d) [0..<8] (- 1, 0, 0, 0)))"

text \<open>\<open>None\<close> is the exit with an error.\<close>

definition getVoronoiSrcRange :: "Range \<Rightarrow> Range option" where
  "getVoronoiSrcRange r =
     (if rscale r \<noteq> 1 then None
      else
        let x = wrap32 (rx r - 2); z = wrap32 (rz r - 2); ty = wrap32 (ry r - 2);
            len = (\<lambda>a n. wrap32 (a + n) div 4 - a div 4 + 2)
        in Some \<lparr>rscale = 4, rx = x div 4, rz = z div 4, sx = len x (sx r), sz = len z (sz r),
                 ry = (if sy r < 1 then 0 else ty div 4), sy = (if sy r < 1 then 0 else len ty (sy r))\<rparr>)"

subsection \<open>SHA-256\<close>

text \<open>
  The functions, constants and the computation of the standard for a message of one block (at most
  55 bytes). The constants are the first 32 bits of the fractional parts of the square and cube
  roots of the first primes.
\<close>

definition sha_Ch :: "u32 \<Rightarrow> u32 \<Rightarrow> u32 \<Rightarrow> u32" where "sha_Ch e f g = (e AND f) XOR (NOT e AND g)"
definition sha_Maj :: "u32 \<Rightarrow> u32 \<Rightarrow> u32 \<Rightarrow> u32" where "sha_Maj a b c = (a AND b) XOR (a AND c) XOR (b AND c)"
definition big_sigma0 :: "u32 \<Rightarrow> u32" where "big_sigma0 a = word_rotr 2 a XOR word_rotr 13 a XOR word_rotr 22 a"
definition big_sigma1 :: "u32 \<Rightarrow> u32" where "big_sigma1 e = word_rotr 6 e XOR word_rotr 11 e XOR word_rotr 25 e"
definition small_sigma0 :: "u32 \<Rightarrow> u32" where "small_sigma0 w = word_rotr 7 w XOR word_rotr 18 w XOR drop_bit 3 w"
definition small_sigma1 :: "u32 \<Rightarrow> u32" where "small_sigma1 w = word_rotr 17 w XOR word_rotr 19 w XOR drop_bit 10 w"

definition first_primes :: "nat list" where
  "first_primes =
     [2, 3, 5, 7, 11, 13, 17, 19, 23, 29, 31, 37, 41, 43, 47, 53, 59, 61, 67, 71, 73, 79,
      83, 89, 97, 101, 103, 107, 109, 113, 127, 131, 137, 139, 149, 151, 157, 163, 167, 173, 179, 181, 191, 193,
      197, 199, 211, 223, 227, 229, 233, 239, 241, 251, 257, 263, 269, 271, 277, 281, 283, 293, 307, 311]"

definition root_bits :: "nat \<Rightarrow> nat \<Rightarrow> u32" where
  "root_bits e p = of_nat (Max {r. r ^ e \<le> p * 2 ^ (32 * e)})"

text \<open>The bytes of a word, and the padded message as 16 words.\<close>

definition be_bytes :: "u32 \<Rightarrow> u8 list" where
  "be_bytes w = map (\<lambda>i. ucast (drop_bit (24 - 8 * i) w)) [0..<4]"

definition le_bytes :: "u64 \<Rightarrow> u8 list" where
  "le_bytes w = map (\<lambda>i. ucast (drop_bit (8 * i) w)) [0..<8]"

definition be_word :: "u8 list \<Rightarrow> u32" where
  "be_word bs = fold (\<lambda>b w. push_bit 8 w OR ucast b) bs 0"

definition sha_pad :: "u8 list \<Rightarrow> u8 list" where
  "sha_pad msg = msg @ 0x80 # replicate (55 - length msg) 0 @ be_bytes 0 @ be_bytes (of_nat (8 * length msg))"

fun sha_W :: "u8 list \<Rightarrow> nat \<Rightarrow> u32" where
  "sha_W msg t =
     (if t < 16 then be_word (take 4 (drop (4 * t) (sha_pad msg)))
      else small_sigma1 (sha_W msg (t - 2)) + sha_W msg (t - 7) + small_sigma0 (sha_W msg (t - 15)) + sha_W msg (t - 16))"

declare sha_W.simps [simp del]

definition sha_round :: "u8 list \<Rightarrow> nat \<Rightarrow> sha_state \<Rightarrow> sha_state" where
  "sha_round msg t = (\<lambda>(a, b, c, d, e, f, g, h).
     let t1 = h + big_sigma1 e + sha_Ch e f g + root_bits 3 (first_primes ! t) + sha_W msg t;
         t2 = big_sigma0 a + sha_Maj a b c
     in (t1 + t2, a, b, c, d + t1, e, f, g))"

definition sha256 :: "u8 list \<Rightarrow> u8 list" where
  "sha256 msg =
     (let h = map (root_bits 2) (take 8 first_primes);
          (a0, a1, a2, a3, a4, a5, a6, a7) =
            fold (sha_round msg) [0..<64] (h ! 0, h ! 1, h ! 2, h ! 3, h ! 4, h ! 5, h ! 6, h ! 7)
      in concat (map be_bytes (map2 (+) [a0, a1, a2, a3, a4, a5, a6, a7] h)))"

lemma root_bits_eq:
  assumes "r ^ e \<le> p * 2 ^ (32 * e)" "p * 2 ^ (32 * e) < Suc r ^ e"
  shows "root_bits e p = of_nat r"
proof -
  have "Max {s. s ^ e \<le> p * 2 ^ (32 * e)} = r"
  proof (rule Max_eqI)
    show "finite {s. s ^ e \<le> p * 2 ^ (32 * e)}" (is "finite ?S")
    proof -
      have "?S \<subseteq> {..r}"
      proof
        fix s assume "s \<in> ?S"
        then have "s ^ e < Suc r ^ e" using assms(2) by auto
        then have "s < Suc r" by (rule power_less_imp_less_base) simp
        then show "s \<in> {..r}" by simp
      qed
      then show ?thesis by (rule finite_subset) simp
    qed
    show "s \<le> r" if "s \<in> {s. s ^ e \<le> p * 2 ^ (32 * e)}" for s
    proof -
      have "s ^ e < Suc r ^ e" using that assms(2) by auto
      then have "s < Suc r" by (rule power_less_imp_less_base) simp
      then show ?thesis by simp
    qed
  qed (use assms(1) in simp)
  then show ?thesis by (simp add: root_bits_def)
qed

lemma rotr32_word_rotr: "rotr32 w n = word_rotr n w" if "0 < n" "n < 32"
proof (rule bit_word_eqI)
  fix k assume k: "k < LENGTH(32)"
  show "bit (rotr32 w n) k = bit (word_rotr n w) k"
  proof (cases "k + n < 32")
    case True
    then have "k < 32 - n" using that by linarith
    then show ?thesis using that True by (simp add: rotr32_def bit_simps add.commute)
  next
    case False
    then have "\<not> bit w (n + k)" using bit_imp_le_length [of w "n + k"] by auto
    moreover have "(k + n) mod 32 = k + n - 32" "k + n - 32 < 32" "32 - n \<le> k" using False that k by (auto simp: mod_if)
    ultimately show ?thesis using that k by (simp add: rotr32_def bit_simps add.commute)
  qed
qed

text \<open>The integer parts \<open>cs\<close> of the roots, and a check of each entry of a table.\<close>

lemma root_table:
  assumes "list_all2 (\<lambda>p (c, k). (c * 2 ^ 32 + unat k) ^ e \<le> p * 2 ^ (32 * e) \<and> p * 2 ^ (32 * e) < Suc (c * 2 ^ 32 + unat k) ^ e)
    ps (zip cs ks)" "length cs = length ks"
  shows "map (root_bits e) ps = ks"
proof (rule nth_equalityI)
  show "length (map (root_bits e) ps) = length ks" using assms by (auto dest: list_all2_lengthD)
  fix i assume i: "i < length (map (root_bits e) ps)"
  then have "root_bits e (ps ! i) = of_nat (cs ! i * 2 ^ 32 + unat (ks ! i))"
    using list_all2_nthD [OF assms(1), of i] assms by (intro root_bits_eq) (auto dest: list_all2_lengthD)
  also have "\<dots> = of_nat (cs ! i) * 4294967296 + ks ! i" by simp
  also have "(4294967296 :: u32) = 0" by simp
  finally have "root_bits e (ps ! i) = ks ! i" by simp
  then show "map (root_bits e) ps ! i = ks ! i" using i by simp
qed

lemma sha_K_roots: "map (root_bits 3) first_primes = sha_K"
  by (rule root_table [where cs = "[1, 1, 1, 1, 2, 2, 2, 2, 2, 3, 3, 3, 3, 3, 3, 3, 3, 3, 4, 4, 4, 4, 4, 4, 4, 4, 4, 4, 4, 4, 5, 5, 5, 5, 5, 5, 5, 5, 5, 5, 5, 5, 5, 5, 5, 5, 5, 6, 6, 6, 6, 6, 6, 6, 6, 6, 6, 6, 6, 6, 6, 6, 6, 6]"])
    (simp_all add: first_primes_def sha_K_def)

lemma sha_B_roots: "map (root_bits 2) (take 8 first_primes) = sha_B"
  by (rule root_table [where cs = "[1, 1, 2, 2, 3, 3, 4, 4]"]) (simp_all add: first_primes_def sha_B_def)

lemma all_less_32: "(\<forall>k < (32::nat). P k) \<longleftrightarrow> P 0 \<and> P 1 \<and> P 2 \<and> P 3 \<and> P 4 \<and> P 5 \<and> P 6 \<and> P 7 \<and> P 8 \<and> P 9 \<and> P 10 \<and> P 11 \<and> P 12 \<and> P 13 \<and> P 14 \<and> P 15 \<and> P 16 \<and> P 17 \<and> P 18 \<and> P 19 \<and> P 20 \<and> P 21 \<and> P 22 \<and> P 23 \<and> P 24 \<and> P 25 \<and> P 26 \<and> P 27 \<and> P 28 \<and> P 29 \<and> P 30 \<and> P 31"
  by (simp add: numeral_eq_Suc All_less_Suc conj_ac)

lemma BSWAP32_be_word: "BSWAP32 w = be_word [ucast w, ucast (drop_bit 8 w), ucast (drop_bit 16 w), ucast (drop_bit 24 w)]"
proof -
  have "\<forall>k < 32. bit (BSWAP32 w) k = bit (be_word [ucast w, ucast (drop_bit 8 w), ucast (drop_bit 16 w), ucast (drop_bit 24 w)]) k"
    unfolding all_less_32 by (simp add: BSWAP32_def be_word_def bit_simps)
  then show ?thesis by (intro bit_word_eqI) simp
qed

lemma all_less_16: "(\<forall>k < (16::nat). P k) \<longleftrightarrow> P 0 \<and> P 1 \<and> P 2 \<and> P 3 \<and> P 4 \<and> P 5 \<and> P 6 \<and> P 7 \<and> P 8 \<and> P 9 \<and> P 10 \<and> P 11 \<and> P 12 \<and> P 13 \<and> P 14 \<and> P 15"
  by (simp add: numeral_eq_Suc All_less_Suc conj_ac)

lemma all_less_8: "(\<forall>k < (8::nat). P k) \<longleftrightarrow> P 0 \<and> P 1 \<and> P 2 \<and> P 3 \<and> P 4 \<and> P 5 \<and> P 6 \<and> P 7"
  by (simp add: numeral_eq_Suc All_less_Suc conj_ac)

lemma ucast_byte: "(ucast (drop_bit n (ucast w :: u32)) :: u8) = ucast (drop_bit n w)" if "n \<le> 24" for w :: u64
  using that by (intro bit_word_eqI) (simp add: bit_simps)

lemma le_bytes_eq:
  "le_bytes sd = [ucast sd, ucast (drop_bit 8 sd), ucast (drop_bit 16 sd), ucast (drop_bit 24 sd), ucast (drop_bit 32 sd),
     ucast (drop_bit 40 sd), ucast (drop_bit 48 sd), ucast (drop_bit 56 sd)]"
  by (simp add: le_bytes_def upt_rec)

lemma sha_W_start:
  "\<forall>t < 16. sha_W (le_bytes sd) t =
     ([BSWAP32 (ucast sd), BSWAP32 (ucast (drop_bit 32 sd)), 0x80000000] @ replicate 12 0 @ [0x40]) ! t"
proof -
  have b: "BSWAP32 (ucast sd) = be_word [ucast sd, ucast (drop_bit 8 sd), ucast (drop_bit 16 sd), ucast (drop_bit 24 sd)]" for sd :: u64
    using ucast_byte [of 0] by (simp add: BSWAP32_be_word ucast_byte)
  have r: "replicate 12 (0::u32) = [0, 0, 0, 0, 0, 0, 0, 0, 0, 0, 0, 0]" "[0..<4] = [0, 1, 2, 3]"
    "replicate (55 - length (le_bytes sd)) (0::u8) = [0, 0, 0, 0, 0, 0, 0, 0, 0, 0, 0, 0, 0, 0, 0, 0, 0, 0, 0, 0, 0, 0, 0, 0, 0, 0, 0, 0,
       0, 0, 0, 0, 0, 0, 0, 0, 0, 0, 0, 0, 0, 0, 0, 0, 0, 0, 0]"
    by (simp_all add: numeral_eq_Suc le_bytes_def)
  show ?thesis unfolding all_less_16
    by (simp add: sha_W.simps sha_pad_def r b [of sd] b [of "drop_bit 32 sd"] be_bytes_def) (simp add: le_bytes_eq be_word_def)
qed

lemma sha_m_W: "16 \<le> n \<Longrightarrow> fold sha_m_step [16..<n] m = map (sha_W msg) [0..<n]" if "m = map (sha_W msg) [0..<16]"
proof (induction n rule: nat_induct_at_least)
  case base
  then show ?case using that by simp
next
  case (Suc n)
  then show ?case
    by (simp add: sha_m_step_def sha_W.simps [of msg n] rotr32_word_rotr small_sigma0_def small_sigma1_def Let_def ac_simps)
qed

lemma sha_m_eq: "sha_m sd = map (sha_W (le_bytes sd)) [0..<64]"
  unfolding sha_m_def
  by (rule sha_m_W) (use sha_W_start [of sd] in \<open>auto intro: nth_equalityI\<close>)

lemma length_first_primes: "length first_primes = 64"
  by (simp add: first_primes_def)

lemma sha_step_round: "t < 64 \<Longrightarrow> sha_step (sha_m sd) t = sha_round (le_bytes sd) t"
proof -
  assume t: "t < 64"
  then have "sha_K ! t = root_bits 3 (first_primes ! t)"
    unfolding sha_K_roots [symmetric] by (subst nth_map) (simp_all only: length_first_primes)
  then show ?thesis using t
    by (simp add: fun_eq_iff sha_step_def sha_round_def sha_m_eq Let_def rotr32_word_rotr big_sigma0_def big_sigma1_def sha_Ch_def sha_Maj_def ac_simps)
qed

lemma le_bytes_swapped: "le_bytes (ucast (BSWAP32 a) OR push_bit 32 (ucast (BSWAP32 b))) = be_bytes a @ be_bytes b"
proof -
  have u: "[0..<4] = [0, 1, 2, 3::nat]" by (simp add: upt_rec)
  have e: "v = w \<longleftrightarrow> (\<forall>k < 8. bit v k = bit w k)" for v w :: u8 by (auto intro: bit_word_eqI)
  show ?thesis unfolding le_bytes_eq be_bytes_def u
    by (simp only: list.map append.simps list.inject simp_thms, intro conjI; simp only: e all_less_8; simp add: BSWAP32_def bit_simps)
qed

lemma getVoronoiSHA_eq: "le_bytes (getVoronoiSHA sd) = take 8 (sha256 (le_bytes sd))"
proof -
  let ?start = "(sha_B ! 0, sha_B ! 1, sha_B ! 2, sha_B ! 3, sha_B ! 4, sha_B ! 5, sha_B ! 6, sha_B ! 7)"
  have f: "fold (sha_step (sha_m sd)) [0..<64] ?start = fold (sha_round (le_bytes sd)) [0..<64] ?start"
    by (rule fold_cong) (simp_all add: sha_step_round)
  obtain a0 a1 a2 a3 a4 a5 a6 a7 where r: "fold (sha_round (le_bytes sd)) [0..<64] ?start = (a0, a1, a2, a3, a4, a5, a6, a7)"
    by (metis surj_pair)
  have B: "sha_B = [sha_B ! 0, sha_B ! 1, sha_B ! 2, sha_B ! 3, sha_B ! 4, sha_B ! 5, sha_B ! 6, sha_B ! 7]"
    by (simp add: sha_B_def)
  have l: "length (be_bytes w) = 4" for w by (simp add: be_bytes_def)
  have "sha256 (le_bytes sd) = concat (map be_bytes (map2 (+) [a0, a1, a2, a3, a4, a5, a6, a7] sha_B))"
    by (simp only: sha256_def Let_def sha_B_roots r prod.case)
  also have "take 8 \<dots> = be_bytes (a0 + sha_B ! 0) @ be_bytes (a1 + sha_B ! 1)"
    by (subst B) (simp add: l)
  finally show ?thesis
    by (simp only: getVoronoiSHA_def Let_def f r prod.case le_bytes_swapped)
qed

subsection \<open>The nearest cell\<close>

lemma wrap32_mod: "wrap32 (m mod 2 ^ 64) = wrap32 m"
proof -
  have "m mod 2 ^ 64 mod 4294967296 = m mod (4294967296 :: int)" by (rule mod_mod_cancel) simp
  then have "(m mod 2 ^ 64 + 2147483648) mod 4294967296 = (m + 2147483648) mod 4294967296" by (rule mod_add_cong) (rule refl)
  then show ?thesis by (simp only: wrap32_def)
qed

lemma voronoi_offset_eq: "voronoi_offset s = 36 * (uint (drop_bit 24 s AND 1023) - 512)"
proof -
  let ?n = "uint (drop_bit 24 s AND 1023)"
  have n: "0 \<le> ?n" "?n < 1024"
    using and_less_eq [of 1023 "uint (drop_bit 24 s)"] by (simp_all add: uint_and)
  have "((drop_bit 24 s AND 1023) - 512) * 36 = (of_int (36 * (?n - 512)) :: u64)" by simp
  then have "voronoi_offset s = wrap32 (36 * (?n - 512) mod 2 ^ 64)"
    by (simp only: voronoi_offset_def uint_word_of_int) simp
  also have "\<dots> = wrap32 (36 * (?n - 512))" by (rule wrap32_mod)
  also have "\<dots> = 36 * (?n - 512)" using n by (intro wrap32_id) simp_all
  finally show ?thesis .
qed

lemma voronoi_offset_bound: "\<bar>voronoi_offset s\<bar> \<le> 18432"
proof -
  have "0 \<le> uint (drop_bit 24 s AND 1023)" "uint (drop_bit 24 s AND 1023) < 1024"
    using and_less_eq [of 1023 "uint (drop_bit 24 s)"] by (simp_all add: uint_and)
  then have "- 512 \<le> uint (drop_bit 24 s AND 1023) - 512" "uint (drop_bit 24 s AND 1023) - 512 \<le> 511" by linarith+
  then show ?thesis unfolding voronoi_offset_eq by (simp add: abs_le_iff)
qed

text \<open>The squared distance as an integer.\<close>

definition block_dist :: "u64 \<Rightarrow> int \<times> int \<times> int \<Rightarrow> int \<times> int \<times> int \<Rightarrow> nat \<Rightarrow> int" where
  "block_dist sha p d i =
     (let (dx, dy, dz) = d; (cx, cy, cz) = corner_cell p i; (x, y, z) = getVoronoiCell sha cx cy cz
      in (x + dx - 40960 * corner_bit i 2)\<^sup>2 + (y + dy - 40960 * corner_bit i 1)\<^sup>2 + (z + dz - 40960 * corner_bit i 0)\<^sup>2)"

lemma corner_dist_eq:
  assumes "d = (dx, dy, dz)" "\<forall>v \<in> {dx, dy, dz}. 0 \<le> v \<and> v \<le> 30720"
  shows "uint (corner_dist sha p d i) = block_dist sha p d i \<and> block_dist sha p d i < 2 ^ 40"
proof -
  obtain cx cy cz where c: "corner_cell p i = (cx, cy, cz)" by (cases "corner_cell p i")
  obtain x y z where g: "getVoronoiCell sha cx cy cz = (x, y, z)" by (cases "getVoronoiCell sha cx cy cz")
  then have b: "\<bar>x\<bar> \<le> 18432" "\<bar>y\<bar> \<le> 18432" "\<bar>z\<bar> \<le> 18432"
    using voronoi_offset_bound by (auto simp: getVoronoiCell_def Let_def)
  have sq: "(v + e - 40960 * corner_bit i k)\<^sup>2 \<le> 2 ^ 34" if "\<bar>v\<bar> \<le> 18432" "0 \<le> e" "e \<le> 30720" for v e k
  proof -
    have "\<bar>v + e - 40960 * corner_bit i k\<bar> \<le> 2 ^ 17" using that by (auto simp: corner_bit_def)
    then have "(v + e - 40960 * corner_bit i k)\<^sup>2 \<le> (2 ^ 17)\<^sup>2" by (simp only: abs_le_square_iff [symmetric])
    then show ?thesis by simp
  qed
  have "block_dist sha p d i \<le> 3 * 2 ^ 34" "0 \<le> block_dist sha p d i"
    using sq [OF b(1), of dx 2] sq [OF b(2), of dy 1] sq [OF b(3), of dz 0] assms
    by (simp_all add: block_dist_def c g)
  moreover have "corner_dist sha p d i = of_int (block_dist sha p d i)"
    by (simp add: corner_dist_def block_dist_def assms c g power2_eq_square algebra_simps)
  ultimately show ?thesis by (simp add: uint_word_of_int)
qed

lemma fold_first_minimum:
  fixes f :: "nat \<Rightarrow> 'a::linorder"
  assumes "f 0 < m"
  shows "\<exists>i < Suc n. fold (\<lambda>i (m, a). if f i < m then (f i, g i) else (m, a)) [0..<Suc n] (m, a) = (f i, g i) \<and>
    (\<forall>j < Suc n. f i \<le> f j) \<and> (\<forall>j < i. f i < f j)"
proof (induction n)
  case 0
  then show ?case using assms by simp
next
  case (Suc n)
  then obtain i where i: "i < Suc n" "fold (\<lambda>i (m, a). if f i < m then (f i, g i) else (m, a)) [0..<Suc n] (m, a) = (f i, g i)"
    "\<forall>j < Suc n. f i \<le> f j" "\<forall>j < i. f i < f j" by blast
  let ?step = "\<lambda>i (m, a). if f i < m then (f i, g i) else (m, a)"
  have e: "fold ?step [0..<Suc (Suc n)] (m, a) = (if f (Suc n) < f i then (f (Suc n), g (Suc n)) else (f i, g i))"
    unfolding upt_Suc_append [OF le0, of "Suc n"] fold_append comp_apply i(2) by simp
  show ?case
  proof (cases "f (Suc n) < f i")
    case True
    have "f (Suc n) < f j" if "j < Suc n" for j using True i(3) that less_le_trans by blast
    then show ?thesis using e True by (intro exI [of _ "Suc n"]) (auto simp: less_Suc_eq_le le_less)
  next
    case False
    then have "f i \<le> f j" if "j < Suc (Suc n)" for j using i(3) that by (cases "j = Suc n") auto
    then show ?thesis using e False i(1,4) by (intro exI [of _ i]) auto
  qed
qed


text \<open>The cell of a block: the first of the eight with the least distance.\<close>

definition block_corner :: "int \<Rightarrow> int \<Rightarrow> int \<Rightarrow> int \<times> int \<times> int" where
  "block_corner x y z = ((x - 2) div 4, (y - 2) div 4, (z - 2) div 4)"

definition block_position :: "int \<Rightarrow> int \<Rightarrow> int \<Rightarrow> int \<times> int \<times> int" where
  "block_position x y z = (10240 * ((x - 2) mod 4), 10240 * ((y - 2) mod 4), 10240 * ((z - 2) mod 4))"

definition block_coord :: "int \<Rightarrow> bool" where
  "block_coord x \<longleftrightarrow> - (2 ^ 31) + 2 \<le> x \<and> x < 2 ^ 31"

lemma voronoi_nearest:
  assumes "block_coord x" "block_coord y" "block_coord z"
  shows "\<exists>i < 8. voronoiAccess3D sha x y z = corner_cell (block_corner x y z) i \<and>
    (\<forall>j < 8. block_dist sha (block_corner x y z) (block_position x y z) i \<le> block_dist sha (block_corner x y z) (block_position x y z) j) \<and>
    (\<forall>j < i. block_dist sha (block_corner x y z) (block_position x y z) i < block_dist sha (block_corner x y z) (block_position x y z) j)"
proof -
  let ?p = "block_corner x y z" and ?d = "block_position x y z"
  have w: "wrap32 (v - 2) = v - 2" if "block_coord v" for v using that by (intro wrap32_id) (simp_all add: block_coord_def)
  have m: "0 \<le> 10240 * (v mod 4) \<and> 10240 * (v mod 4) \<le> (30720 :: int)" for v
    using pos_mod_bound [of 4 v] pos_mod_sign [of 4 v] by linarith
  have dist: "uint (corner_dist sha ?p ?d j) = block_dist sha ?p ?d j" "block_dist sha ?p ?d j < 2 ^ 40" for j
    using corner_dist_eq [OF block_position_def, of x y z sha ?p j] m by simp_all
  have "corner_dist sha ?p ?d 0 < - 1" using dist [of 0] by (simp add: word_less_def unsigned_minus_1_eq_mask mask_eq_exp_minus_1)
  from fold_first_minimum [of "corner_dist sha ?p ?d", OF this, of 7 "corner_cell ?p" "(0, 0, 0)"]
  obtain i where i: "i < 8" "fold (corner_step sha ?p ?d) [0..<8] (- 1, 0, 0, 0) = (corner_dist sha ?p ?d i, corner_cell ?p i)"
    "\<forall>j < 8. corner_dist sha ?p ?d i \<le> corner_dist sha ?p ?d j" "\<forall>j < i. corner_dist sha ?p ?d i < corner_dist sha ?p ?d j"
    unfolding corner_step_def [abs_def] Let_def by auto
  have "voronoiAccess3D sha x y z = corner_cell ?p i"
    using i(2) assms by (simp add: voronoiAccess3D_def Let_def w block_corner_def block_position_def mult.commute)
  then show ?thesis using i(1,3,4) unfolding word_le_def word_less_def dist(1) by blast
qed

lemma corner_cell_range:
  assumes "corner_cell (cx, cy, cz) i = (x4, y4, z4)"
  shows "cx \<le> x4 \<and> x4 \<le> cx + 1 \<and> cy \<le> y4 \<and> y4 \<le> cy + 1 \<and> cz \<le> z4 \<and> z4 \<le> cz + 1"
  using assms by (auto simp: corner_cell_def corner_bit_def)

text \<open>The cells that a range of blocks needs lie in its source range.\<close>

definition block_range :: "Range \<Rightarrow> bool" where
  "block_range r \<longleftrightarrow> rscale r = 1 \<and> 0 \<le> sx r \<and> 0 < sy r \<and> 0 \<le> sz r \<and>
     (\<forall>(a, n) \<in> {(rx r, sx r), (ry r, sy r), (rz r, sz r)}. - (2 ^ 31) + 2 \<le> a \<and> a + n < 2 ^ 31)"

lemma src_interval:
  assumes "cx = (a + k - 2) div 4" "0 \<le> k" "k < n" "cx \<le> v" "v \<le> cx + (1 :: int)"
  shows "(a - 2) div 4 \<le> v \<and> v < (a - 2) div 4 + ((a - 2 + n) div 4 - (a - 2) div 4 + 2)"
  using assms by linarith

lemma voronoi_src_range:
  assumes r: "block_range r" and s: "getVoronoiSrcRange r = Some s"
    and "0 \<le> i" "i < sx r" "0 \<le> k" "k < sy r" "0 \<le> j" "j < sz r"
    and v: "voronoiAccess3D sha (rx r + i) (ry r + k) (rz r + j) = (x4, y4, z4)"
  shows "x4 \<in> {rx s..<rx s + sx s} \<and> y4 \<in> {ry s..<ry s + sy s} \<and> z4 \<in> {rz s..<rz s + sz s}"
proof -
  have c: "block_coord (rx r + i)" "block_coord (ry r + k)" "block_coord (rz r + j)"
    using assms by (auto simp: block_range_def block_coord_def)
  from voronoi_nearest [OF c, of sha] obtain q where q: "corner_cell (block_corner (rx r + i) (ry r + k) (rz r + j)) q = (x4, y4, z4)"
    using v by metis
  have w: "wrap32 (a - 2) = a - 2" "wrap32 (a - 2 + n) = a - 2 + n" if "(a, n) \<in> {(rx r, sx r), (ry r, sy r), (rz r, sz r)}" for a n
    using r that by (auto simp: block_range_def intro!: wrap32_id)
  have "s = \<lparr>rscale = 4, rx = (rx r - 2) div 4, rz = (rz r - 2) div 4, sx = (rx r - 2 + sx r) div 4 - (rx r - 2) div 4 + 2,
      sz = (rz r - 2 + sz r) div 4 - (rz r - 2) div 4 + 2, ry = (ry r - 2) div 4, sy = (ry r - 2 + sy r) div 4 - (ry r - 2) div 4 + 2\<rparr>"
    using s r w by (simp add: getVoronoiSrcRange_def Let_def block_range_def)
  then show ?thesis
    using corner_cell_range [OF q [unfolded block_corner_def]]
      src_interval [OF refl, of i "sx r" "rx r" x4] src_interval [OF refl, of k "sy r" "ry r" y4] src_interval [OF refl, of j "sz r" "rz r" z4] assms
    by simp
qed

subsection \<open>Properties\<close>

text \<open>
  C11. \<open>getVoronoiSHA\<close> is SHA-256: for every seed the result, read as eight bytes in little-endian
  order, is the start of the SHA-256 hash of the eight bytes of the seed in that order.
\<close>

theorem voronoi_sha256: "le_bytes (getVoronoiSHA sd) = take 8 (sha256 (le_bytes sd))"
  by (rule getVoronoiSHA_eq)

text \<open>
  C12. A block takes its biome from the nearest of the eight cells around it: \<open>voronoiAccess3D\<close> returns
  the cell with the least squared distance, without overflow, and the first one if there are several.
\<close>

theorem voronoi_nearest_cell:
  assumes "block_coord x" "block_coord y" "block_coord z"
  shows "\<exists>i < 8. voronoiAccess3D sha x y z = corner_cell (block_corner x y z) i \<and>
    (\<forall>j < 8. block_dist sha (block_corner x y z) (block_position x y z) i \<le> block_dist sha (block_corner x y z) (block_position x y z) j) \<and>
    (\<forall>j < i. block_dist sha (block_corner x y z) (block_position x y z) i < block_dist sha (block_corner x y z) (block_position x y z) j)"
  using assms by (rule voronoi_nearest)

theorem voronoi_nearest_cell_witness:
  "\<exists>i < 8. voronoiAccess3D 7 10 64 (- 5) = corner_cell (2, 15, - 2) i \<and>
    block_dist 7 (2, 15, - 2) (0, 20480, 10240) i \<le> block_dist 7 (2, 15, - 2) (0, 20480, 10240) 0 \<and>
    block_dist 7 (2, 15, - 2) (0, 20480, 10240) i \<le> block_dist 7 (2, 15, - 2) (0, 20480, 10240) 7"
proof -
  obtain i where "i < 8" "voronoiAccess3D 7 10 64 (- 5) = corner_cell (2, 15, - 2) i"
    "\<forall>j < 8. block_dist 7 (2, 15, - 2) (0, 20480, 10240) i \<le> block_dist 7 (2, 15, - 2) (0, 20480, 10240) j"
    using voronoi_nearest_cell [of 10 64 "- 5" 7] by (auto simp: block_coord_def block_corner_def block_position_def)
  then show ?thesis by (intro exI [of _ i]) simp
qed

end
