(* ===== verification/Biome_Gen.thy ===== *)
theory Biome_Gen
  imports Biome_Noise Voronoi
begin

text \<open>
  The generator of a world (\<open>generator.c\<close>) and the generation of the biomes of a range
  (\<open>biomenoise.c\<close>). The parts for versions before 1.18 and for the other dimensions are functions of
  the argument \<open>og\<close>. \<open>None\<close> stands for an exit with an error, an access outside of the buffer or a
  draw that never returns.
\<close>

subsection \<open>The generator\<close>

definition MC_B1_7 :: nat where "MC_B1_7 = 1"
definition MC_B1_8 :: nat where "MC_B1_8 = 2"
definition MC_1_15 :: nat where "MC_1_15 = 18"

definition DIM_NETHER :: int where "DIM_NETHER = - 1"
definition DIM_OVERWORLD :: int where "DIM_OVERWORLD = 0"
definition DIM_END :: int where "DIM_END = 1"
definition DIM_UNDEF :: int where "DIM_UNDEF = 1000"

definition LARGE_BIOMES :: u32 where "LARGE_BIOMES = 1"
definition NO_BETA_OCEAN :: u32 where "NO_BETA_OCEAN = 2"

record Gen =
  g_mc :: nat
  g_dim :: int
  g_flags :: u32
  g_seed :: u64
  g_sha :: u64
  g_bn :: BiomeNoise

text \<open>
  The parts that are not modelled: the set-up of the layers, the seeds of the older versions and of
  the other dimensions, the salt of the last layer (when it is used as the hash), the size of the
  buffers of the layers, and the generation of the biomes.
\<close>

record OtherGen =
  og_setup :: "Gen \<Rightarrow> Gen"
  og_seed :: "Gen \<Rightarrow> u64 \<Rightarrow> Gen"
  og_salt :: "Gen \<Rightarrow> u64 option"
  og_len :: "Gen \<Rightarrow> int \<Rightarrow> int \<Rightarrow> int \<Rightarrow> int \<Rightarrow> nat"
  og_biomes :: "Gen \<Rightarrow> int list \<Rightarrow> Range \<Rightarrow> (int \<times> int list) option"

definition setupGenerator :: "OtherGen \<Rightarrow> Gen \<Rightarrow> nat \<Rightarrow> u32 \<Rightarrow> Gen option" where
  "setupGenerator og g mc flags =
     (let g = g\<lparr>g_mc := mc, g_dim := DIM_UNDEF, g_flags := flags, g_seed := 0, g_sha := 0\<rparr>
      in if MC_1_18 \<le> mc then map_option (\<lambda>bn. g\<lparr>g_bn := bn\<rparr>) (initBiomeNoise (g_bn g) mc)
         else Some (og_setup og g))"

definition applySeed :: "OtherGen \<Rightarrow> Gen \<Rightarrow> int \<Rightarrow> u64 \<Rightarrow> Gen option" where
  "applySeed og g d sd =
     (let g = g\<lparr>g_dim := d, g_seed := sd, g_sha := 0\<rparr>
      in map_option
           (\<lambda>g. if MC_1_15 \<le> g_mc g
                then g\<lparr>g_sha := (if g_mc g \<le> MC_1_17 \<and> d = DIM_OVERWORLD
                                then case og_salt og g of Some salt \<Rightarrow> salt | None \<Rightarrow> getVoronoiSHA sd
                                else getVoronoiSHA sd)\<rparr>
                else g)
           (if d = DIM_OVERWORLD \<and> MC_1_17 < g_mc g
            then map_option (\<lambda>bn. g\<lparr>g_bn := bn\<rparr>) (setBiomeSeed (g_bn g) sd (g_flags g AND LARGE_BIOMES \<noteq> 0))
            else Some (og_seed og g sd)))"

definition getMinCacheSize :: "OtherGen \<Rightarrow> Gen \<Rightarrow> int \<Rightarrow> int \<Rightarrow> int \<Rightarrow> int \<Rightarrow> nat" where
  "getMinCacheSize og g scale wx wy wz =
     (let wy = (if wy = 0 then 1 else wy);
          len = of_int wx * of_int wz * of_int wy :: u64;
          quarter = (\<lambda>w. wrap32 (w + 3) div 4 + 2)
      in if g_mc g \<le> MC_B1_7 \<and> scale \<le> 4 \<and> g_flags g AND NO_BETA_OCEAN = 0 \<or>
            MC_B1_8 \<le> g_mc g \<and> g_mc g \<le> MC_1_17 \<and> g_dim g = DIM_OVERWORLD
         then og_len og g scale wx wy wz
         else if (MC_1_18 \<le> g_mc g \<or> g_dim g \<noteq> DIM_OVERWORLD) \<and> scale \<le> 1
         then unat (len + of_int (wrap32 (wrap32 (quarter wx * quarter wy) * quarter wz)))
         else unat len)"

subsection \<open>The biomes of a range\<close>

definition loop_points :: "(int \<Rightarrow> int \<Rightarrow> int \<Rightarrow> 'a) \<Rightarrow> Range \<Rightarrow> 'a list" where
  "loop_points f r =
     concat (map (\<lambda>k. concat (map (\<lambda>j. map (\<lambda>i. f (int i) (int k) (int j)) [0..<nat (sx r)]) [0..<nat (sz r)])) [0..<nat (sy r)])"

text \<open>The loop over the cells, with the hint \<open>dat\<close> of the last one.\<close>

type_synonym old_trees = "BiomeTree \<times> BiomeTree \<times> BiomeTree \<times> BiomeTree"

fun sample_points :: "old_trees \<Rightarrow> BiomeNoise \<Rightarrow> u32 \<Rightarrow> (int \<times> int \<times> int) list \<Rightarrow> u64 option \<Rightarrow> int list option" where
  "sample_points trees bn flags [] dat = Some []"
| "sample_points trees bn flags ((x, y, z) # ps) dat = do {
     (v, np, dat) \<leftarrow> sampleBiomeNoise trees bn x y z dat flags;
     vs \<leftarrow> sample_points trees bn flags ps dat;
     Some (v # vs)
   }"

definition genBiomeNoise3D :: "old_trees \<Rightarrow> BiomeNoise \<Rightarrow> Range \<Rightarrow> bool \<Rightarrow> int list option" where
  "genBiomeNoise3D trees bn r opt =
     (let dat = (if opt then Some 0 else None);
          flags = (if opt then SAMPLE_NO_SHIFT else 0);
          scale = (if 4 < rscale r then c_div (rscale r) 4 else 1);
          mid = c_div scale 2;
          coord = (\<lambda>a i. wrap32 (wrap32 (wrap32 (a + i) * scale) + mid))
      in sample_points trees bn flags (loop_points (\<lambda>i k j. (coord (rx r) i, wrap32 (ry r + k), coord (rz r) j)) r) dat)"

text \<open>Writing a block of values into the buffer.\<close>

definition write_at :: "int list \<Rightarrow> nat \<Rightarrow> int list \<Rightarrow> int list option" where
  "write_at out n vs = (if n + length vs \<le> length out then Some (take n out @ vs @ drop (n + length vs) out) else None)"

text \<open>
  The biome of a block: that of its cell in the buffer \<open>src\<close> of the range \<open>s\<close>, or a sample when
  there is no buffer. The buffer is behind the block that is written.
\<close>

definition block_biome ::
    "old_trees \<Rightarrow> BiomeNoise \<Rightarrow> u64 \<Rightarrow> Range \<Rightarrow> int list option \<Rightarrow> int \<Rightarrow> int \<Rightarrow> int \<Rightarrow> int option" where
  "block_biome trees bn sha s src x y z =
     (let (x4, y4, z4) = voronoiAccess3D sha x y z
      in case src of
           Some buf \<Rightarrow>
             (let n = (y4 - ry s) * sx s * sz s + (z4 - rz s) * sx s + (x4 - rx s)
              in if 0 \<le> n \<and> n < int (length buf) then Some (buf ! nat n) else None)
         | None \<Rightarrow> map_option fst (sampleBiomeNoise trees bn x4 y4 z4 None 0))"

definition genBiomeNoiseScaled :: "old_trees \<Rightarrow> BiomeNoise \<Rightarrow> int list \<Rightarrow> Range \<Rightarrow> u64 \<Rightarrow> (int \<times> int list) option" where
  "genBiomeNoiseScaled trees bn out r sha =
     (let r = (if sy r = 0 then r\<lparr>sy := 1\<rparr> else r);
          siz = unat (of_int (sx r) * of_int (sy r) * of_int (sz r) :: u64)
      in if rscale r = 1
         then do {
           s \<leftarrow> getVoronoiSrcRange r;
           out \<leftarrow> (if 1 < siz then Option.bind (genBiomeNoise3D trees bn s False) (write_at out siz) else Some out);
           let src = (if 1 < siz then Some (drop siz out) else None);
           vs \<leftarrow> those (loop_points (\<lambda>i k j.
                   block_biome trees bn sha s src (wrap32 (rx r + i)) (wrap32 (ry r + k)) (wrap32 (rz r + j))) r);
           out \<leftarrow> write_at out 0 vs;
           Some (0, out)
         }
         else do {
           vs \<leftarrow> genBiomeNoise3D trees bn r (4 < rscale r);
           out \<leftarrow> write_at out 0 vs;
           Some (0, out)
         })"

definition genBiomes :: "OtherGen \<Rightarrow> old_trees \<Rightarrow> Gen \<Rightarrow> int list \<Rightarrow> Range \<Rightarrow> (int \<times> int list) option" where
  "genBiomes og trees g out r =
     (if g_dim g = DIM_OVERWORLD \<and> MC_1_18 \<le> g_mc g then genBiomeNoiseScaled trees (g_bn g) out r (g_sha g)
      else if g_dim g \<in> {DIM_OVERWORLD, DIM_NETHER, DIM_END} then og_biomes og g out r
      else Some (1, out))"

definition allocCache :: "OtherGen \<Rightarrow> Gen \<Rightarrow> Range \<Rightarrow> int list" where
  "allocCache og g r = replicate (getMinCacheSize og g (rscale r) (sx r) (sy r) (sz r)) 0"

definition getBiomeAt :: "OtherGen \<Rightarrow> old_trees \<Rightarrow> Gen \<Rightarrow> int \<Rightarrow> int \<Rightarrow> int \<Rightarrow> int \<Rightarrow> int option" where
  "getBiomeAt og trees g scale x y z =
     (let r = \<lparr>rscale = scale, rx = x, rz = z, sx = 1, sz = 1, ry = y, sy = 1\<rparr>
      in case genBiomes og trees g (allocCache og g r) r of
           None \<Rightarrow> None
         | Some (err, out) \<Rightarrow> if err = 0 then (case out of [] \<Rightarrow> None | v # _ \<Rightarrow> Some v) else Some (- 1))"

text \<open>The generator of \<open>cubiomes.c\<close>; \<open>g\<close> is the content of the allocated memory.\<close>

definition cubiomes_create :: "OtherGen \<Rightarrow> Gen \<Rightarrow> bool \<Rightarrow> Gen option" where
  "cubiomes_create og g large_biomes = setupGenerator og g MC_NEWEST (if large_biomes then LARGE_BIOMES else 0)"

definition cubiomes_apply_seed :: "OtherGen \<Rightarrow> Gen \<Rightarrow> u64 \<Rightarrow> Gen option" where
  "cubiomes_apply_seed og g sd = applySeed og g DIM_OVERWORLD sd"

lemmas gen_defs = version_defs MC_B1_7_def MC_B1_8_def MC_1_15_def DIM_NETHER_def DIM_OVERWORLD_def DIM_END_def DIM_UNDEF_def
  LARGE_BIOMES_def NO_BETA_OCEAN_def

subsection \<open>The order of the cells\<close>










lemma those_Some: "\<forall>x \<in> set xs. x \<noteq> None \<Longrightarrow> those xs = Some (map the xs)"
  by (induction xs) auto

subsection \<open>The samples of a range\<close>









text \<open>At the scale of one block the samples of the source range stand in the buffer behind the result.\<close>

definition quarter :: "int \<Rightarrow> int" where "quarter w = (w + 3) div 4 + 2"

















subsection \<open>The generator\<close>

definition gen_ok :: "Gen \<Rightarrow> bool" where
  "gen_ok g \<longleftrightarrow> g_dim g = DIM_OVERWORLD \<and> MC_1_21_WD \<le> g_mc g \<and> biome_noise_ok (g_bn g)"




text \<open>At scales above 1 a single cell is one sample, at the middle of the cell, without a shift above scale 4.\<close>

definition mid_coord :: "int \<Rightarrow> int \<Rightarrow> int" where
  "mid_coord scale a = (let s = (if 4 < scale then c_div scale 4 else 1) in wrap32 (wrap32 (wrap32 a * s) + c_div s 2))"

lemma getBiomeAt_sample:
  assumes g: "gen_ok g" and "1 < scale"
  shows "getBiomeAt og trees g scale x y z =
    map_option fst (sampleBiomeNoise trees (g_bn g) (mid_coord scale x) (wrap32 y) (mid_coord scale z)
      (if 4 < scale then Some 0 else None) (if 4 < scale then SAMPLE_NO_SHIFT else 0))"
proof -
  let ?r = "\<lparr>rscale = scale, rx = x, rz = z, sx = 1, sz = 1, ry = y, sy = 1\<rparr>"
  let ?smp = "sampleBiomeNoise trees (g_bn g) (mid_coord scale x) (wrap32 y) (mid_coord scale z)
      (if 4 < scale then Some 0 else None) (if 4 < scale then SAMPLE_NO_SHIFT else 0)"
  have mc: "MC_1_18 \<le> g_mc g" "g_dim g = DIM_OVERWORLD" using g by (simp_all add: gen_ok_def gen_defs)
  then have len: "allocCache og g ?r = [0]" using assms(2) by (simp add: allocCache_def getMinCacheSize_def gen_defs)
  have "genBiomeNoise3D trees (g_bn g) ?r (4 < scale) = map_option (\<lambda>(v, _). [v]) ?smp"
    by (cases ?smp) (auto simp: genBiomeNoise3D_def Let_def loop_points_def mid_coord_def)
  then have "genBiomes og trees g (allocCache og g ?r) ?r = map_option (\<lambda>(v, _). (0, [v])) ?smp"
    using mc assms(2) by (cases ?smp) (auto simp: genBiomes_def genBiomeNoiseScaled_def len write_at_def)
  then show ?thesis by (cases ?smp) (auto simp: getBiomeAt_def Let_def)
qed

lemma getBiomeAt_nearest:
  assumes g: "gen_ok g" and "1 < scale" "\<bar>y\<bar> \<le> 2 ^ 19"
  shows "\<exists>v np dat'. getBiomeAt og trees g scale x y z = Some v \<and>
    sampleBiomeNoise trees (g_bn g) (mid_coord scale x) y (mid_coord scale z) (if 4 < scale then Some 0 else None)
      (if 4 < scale then SAMPLE_NO_SHIFT else 0) = Some (v, np, dat') \<and>
    nearest_biome np (if 4 < scale then Some 0 else None) v dat'"
proof -
  have "wrap32 y = y" using assms(3) by (intro wrap32_id) auto
  moreover have "\<exists>i np dat'. sampleBiomeNoise trees (g_bn g) (mid_coord scale x) y (mid_coord scale z) (if 4 < scale then Some 0 else None)
      (if 4 < scale then SAMPLE_NO_SHIFT else 0) = Some (i, np, dat') \<and> length np = 6 \<and> (\<forall>v \<in> set np. \<bar>v\<bar> \<le> 2 ^ 29) \<and>
      nearest_biome np (if 4 < scale then Some 0 else None) i dat'"
    by (rule sampleBiomeNoise_ok) (use assms in \<open>simp_all add: gen_ok_def hint_ok_def SAMPLE_NO_SHIFT_def SAMPLE_NO_BIOME_def\<close>)
  ultimately show ?thesis using getBiomeAt_sample [OF g assms(2), of og trees x y z] by auto
qed

subsection \<open>The generator of the test\<close>

lemma cubiomes_create_returns:
  "\<exists>g. cubiomes_create og g0 lb = Some g \<and> g_mc g = MC_NEWEST \<and> (g_flags g AND LARGE_BIOMES \<noteq> 0 \<longleftrightarrow> lb) \<and>
    spline_bound 16814 (bn_sp (g_bn g)) \<and> bn_mc (g_bn g) = MC_NEWEST"
proof -
  let ?g = "g0\<lparr>g_mc := MC_NEWEST, g_dim := DIM_UNDEF, g_flags := if lb then LARGE_BIOMES else 0, g_seed := 0, g_sha := 0\<rparr>"
  obtain bn where "initBiomeNoise (g_bn ?g) MC_NEWEST = Some bn" "spline_bound 16814 (bn_sp bn)" "bn_mc bn = MC_NEWEST"
    using initBiomeNoise_ok by blast
  then show ?thesis by (simp add: cubiomes_create_def setupGenerator_def Let_def gen_defs)
qed

lemma cubiomes_seeded:
  assumes "cubiomes_create og g0 lb = Some g" "cubiomes_apply_seed og g sd = Some g'"
  shows "gen_ok g' \<and> g_seed g' = sd \<and> g_sha g' = getVoronoiSHA sd \<and> setBiomeSeed (g_bn g) sd lb = Some (g_bn g')"
proof -
  have g: "g_mc g = MC_NEWEST" "g_flags g AND LARGE_BIOMES \<noteq> 0 \<longleftrightarrow> lb" "spline_bound 16814 (bn_sp (g_bn g))" "bn_mc (g_bn g) = MC_NEWEST"
    using cubiomes_create_returns [of og g0 lb] assms(1) by auto
  then obtain bn where bn: "setBiomeSeed (g_bn g) sd lb = Some bn"
      "g' = g\<lparr>g_dim := DIM_OVERWORLD, g_seed := sd, g_bn := bn, g_sha := getVoronoiSHA sd\<rparr>"
    using assms(2) by (auto simp: cubiomes_apply_seed_def applySeed_def Let_def gen_defs)
  then show ?thesis using g setBiomeSeed_ok [OF bn(1)] by (simp add: gen_ok_def biome_noise_ok_def version_defs)
qed

subsection \<open>Properties\<close>






end
