(* ===== verification/Biome_Centers.thy ===== *)
theory Biome_Centers
  imports Flood_Fill
begin

text \<open>
  \<open>getBiomeCentersOpt\<close> and \<open>cubiomes_test_biome_centers\<close> of \<open>cubiomes.c\<close>, for the version that
  \<open>cubiomes_create\<close> sets up: a coarse grid of points is tested against the limits of the biome,
  and from each point that is left the area of the biome is filled. The callers pass no stop flag.

  The noise is an argument: \<open>climate k x z\<close> is \<open>sampleDoublePerlin\<close> of the climate \<open>k\<close> at height
  0, and \<open>biome_at scale x y z\<close> is \<open>getBiomeAt\<close>.
\<close>

subsection \<open>The model\<close>

text \<open>The order in which the limits are tested.\<close>

definition para :: "nat list" where
  "para = [0, 1, 3, 2, 5]"

definition sample_para :: "(nat \<Rightarrow> f64 \<Rightarrow> f64 \<Rightarrow> f64) \<Rightarrow> Range \<Rightarrow> nat \<Rightarrow> int \<Rightarrow> int \<Rightarrow> int" where
  "sample_para climate r k i j =
     (let x = div64 (f64_of_int ((rx r + i) * rscale r)) 4;
          z = div64 (f64_of_int ((rz r + j) * rscale r)) 4
      in trunc_i32 (mul64 10000 (climate k x z)))"

fun within_limits :: "(nat \<Rightarrow> f64 \<Rightarrow> f64 \<Rightarrow> f64) \<Rightarrow> int list \<Rightarrow> Range \<Rightarrow> int \<Rightarrow> int \<Rightarrow> nat list \<Rightarrow> bool" where
  "within_limits climate plim r i j [] = True"
| "within_limits climate plim r i j (k # ks) =
     (let lo = plim ! (2 * k); hi = plim ! (2 * k + 1)
      in if lo = INT_MIN \<and> hi = INT_MAX then within_limits climate plim r i j ks
         else let p = sample_para climate r k i j
              in if p < lo \<or> hi < p then False else within_limits climate plim r i j ks)"

text \<open>The points of the two nested loops \<open>j = 0, step, ...\<close> and \<open>i = 0, step, ...\<close>, in their order.\<close>

definition steps_below :: "int \<Rightarrow> int \<Rightarrow> int list" where
  "steps_below step n = map (\<lambda>k. int k * step) [0..<nat ((n + step - 1) div step)]"

definition grid :: "Range \<Rightarrow> int \<Rightarrow> (int \<times> int) list" where
  "grid r step = concat (map (\<lambda>j. map (\<lambda>i. (i, j)) (steps_below step (sx r))) (steps_below step (sz r)))"

text \<open>The first loops: points outside of the limits are marked with -2.\<close>

fun mark_points :: "(nat \<Rightarrow> f64 \<Rightarrow> f64 \<Rightarrow> f64) \<Rightarrow> int list \<Rightarrow> Range \<Rightarrow> (int \<times> int) list \<Rightarrow> int list \<Rightarrow> int list" where
  "mark_points climate plim r [] vis = vis"
| "mark_points climate plim r ((i, j) # ps) vis =
     mark_points climate plim r ps (if within_limits climate plim r i j para then vis else vis[cell r i j := - 2])"

text \<open>The second loops: the areas that are large enough, at most \<open>nmax\<close>.\<close>

fun fill_points :: "Range \<Rightarrow> int \<Rightarrow> int \<Rightarrow> (int \<Rightarrow> int \<Rightarrow> int) \<Rightarrow> int \<Rightarrow> nat \<Rightarrow> (int \<times> int) list \<Rightarrow> int list \<Rightarrow>
    (Pos option \<times> int) list \<Rightarrow> (Pos option \<times> int) list option" where
  "fill_points r match tol biome minsiz nmax [] vis out = Some out"
| "fill_points r match tol biome minsiz nmax ((i, j) # ps) vis out =
     (if vis ! cell r i j \<noteq> - 1 then fill_points r match tol biome minsiz nmax ps vis out
      else case floodFillGen r match tol biome vis i j of
             None \<Rightarrow> None
           | Some (area, center, vis') \<Rightarrow>
               if minsiz \<le> area
               then (if nmax \<le> length out + 1 then Some (out @ [(center, area)])
                     else fill_points r match tol biome minsiz nmax ps vis' (out @ [(center, area)]))
               else fill_points r match tol biome minsiz nmax ps vis' out)"

definition centers_step :: "int \<Rightarrow> int \<Rightarrow> int" where
  "centers_step step minsiz = (if step = 1 then 1 + \<lfloor>mul64 (sqrt64 (f64_of_int minsiz)) (1 / 2)\<rfloor> else step)"

text \<open>The centres with their areas; their number is the value that the function returns.\<close>

definition getBiomeCentersOpt ::
    "(nat \<Rightarrow> f64 \<Rightarrow> f64 \<Rightarrow> f64) \<Rightarrow> (int \<Rightarrow> int \<Rightarrow> int \<Rightarrow> int \<Rightarrow> int) \<Rightarrow> nat \<Rightarrow> Range \<Rightarrow> int \<Rightarrow> int \<Rightarrow> int \<Rightarrow> int \<Rightarrow>
     (Pos option \<times> int) list option" where
  "getBiomeCentersOpt climate biome_at nmax r match minsiz tol step =
     (let minsiz = (if minsiz \<le> 0 then 1 else minsiz);
          vis = replicate (nat (sx r * sz r)) (- 1);
          tol = (if tol \<le> 0 then 1 else tol);
          step = (if step \<le> 0 then 1 else step)
      in case getBiomeParaLimits MC_NEWEST match of
           None \<Rightarrow> None
         | Some plim \<Rightarrow>
             (let step = centers_step step minsiz;
                  vis = mark_points climate plim r (grid r step) vis
              in fill_points r match tol (\<lambda>x z. biome_at (rscale r) x (ry r) z) minsiz nmax (grid r step) vis []))"

record PosArea =
  pa_x :: int
  pa_z :: int
  pa_area :: int

text \<open>
  \<open>cubiomes_test_biome_centers\<close>: the area in blocks, or \<open>Some None\<close> when there is none; \<open>None\<close> is
  an access outside of an array.
\<close>

definition cubiomes_test_biome_centers ::
    "(nat \<Rightarrow> f64 \<Rightarrow> f64 \<Rightarrow> f64) \<Rightarrow> (int \<Rightarrow> int \<Rightarrow> int \<Rightarrow> int \<Rightarrow> int) \<Rightarrow> int \<Rightarrow> int \<Rightarrow> int \<Rightarrow> int \<Rightarrow> int \<Rightarrow> int \<Rightarrow> PosArea option option" where
  "cubiomes_test_biome_centers climate biome_at x z rng min_area scl tol =
     (let r = make_range x z rng scl;
          minsiz = c_div min_area (scl * scl)
      in case getBiomeCentersOpt climate biome_at 1 r mushroom_fields minsiz tol 0 of
           None \<Rightarrow> None
         | Some [(Some p, siz)] \<Rightarrow> Some (Some \<lparr>pa_x = px p, pa_z = pz p, pa_area = wrap32 (siz * (scl * scl))\<rparr>)
         | Some _ \<Rightarrow> Some None)"

subsection \<open>The grid\<close>

lemma steps_below: "0 < step \<Longrightarrow> x \<in> set (steps_below step n) \<Longrightarrow> 0 \<le> x \<and> x < n"
proof -
  assume step: "0 < step" and "x \<in> set (steps_below step n)"
  then obtain k where k: "x = int k * step" "k < nat ((n + step - 1) div step)" by (auto simp: steps_below_def)
  then have "int k + 1 \<le> (n + step - 1) div step" by linarith
  then have "(int k + 1) * step \<le> (n + step - 1) div step * step" using step by (intro mult_right_mono) auto
  also have "\<dots> \<le> n + step - 1" 
    using pos_mod_sign [OF step, of "n + step - 1"] unfolding minus_mod_eq_div_mult [symmetric] by linarith
  finally show "0 \<le> x \<and> x < n" using k(1) step by (simp add: algebra_simps)
qed

lemma grid_cells: "0 < step \<Longrightarrow> set (grid r step) \<subseteq> cells r"
  using steps_below [of step _ "sx r"] steps_below [of step _ "sz r"] by (auto simp: grid_def cells_def)

lemma centers_step_pos: "0 < step \<Longrightarrow> 0 < centers_step step minsiz"
proof -
  have "0 \<le> mul64 (sqrt64 (f64_of_int minsiz)) (1 / 2)"
    unfolding mul64_def fl64_def by (rule round_to_nonneg) simp
  then obtain n where "\<lfloor>mul64 (sqrt64 (f64_of_int minsiz)) (1 / 2)\<rfloor> = int n" by (metis nonneg_int_cases zero_le_floor)
  then show "0 < step \<Longrightarrow> 0 < centers_step step minsiz" by (simp add: centers_step_def)
qed

lemma length_mark_points [simp]: "length (mark_points climate plim r ps vis) = length vis"
  by (induction climate plim r ps vis rule: mark_points.induct) simp_all

lemma mark_points_nth:
  assumes "set ps \<subseteq> cells r" "(i, j) \<in> cells r" "int (length vis) = sx r * sz r"
  shows "mark_points climate plim r ps vis ! cell r i j =
    (if (i, j) \<in> set ps \<and> \<not> within_limits climate plim r i j para then - 2 else vis ! cell r i j)"
  using assms
proof (induction climate plim r ps vis rule: mark_points.induct)
  case (2 climate plim r a b ps vis)
  have k: "cell r a b < length vis" using cell_less [of r a b] 2(2,4) by (simp add: in_range_cells)
  have inj: "cell r i j = cell r a b \<longleftrightarrow> (i, j) = (a, b)" using cell_inject [of i j r a b] 2(2,3) by auto
  let ?v = "if within_limits climate plim r a b para then vis else vis[cell r a b := - 2]"
  have "mark_points climate plim r ((a, b) # ps) vis ! cell r i j =
      (if (i, j) \<in> set ps \<and> \<not> within_limits climate plim r i j para then - 2 else ?v ! cell r i j)"
    using 2 by simp
  also have "?v ! cell r i j = (if (i, j) = (a, b) \<and> \<not> within_limits climate plim r a b para then - 2 else vis ! cell r i j)"
    using k inj by (cases "(i, j) = (a, b)") auto
  finally show ?case by auto
qed simp

subsection \<open>The areas\<close>

definition visited_cells :: "Range \<Rightarrow> int list \<Rightarrow> (int \<times> int) set" where
  "visited_cells r vis = {(i, j) \<in> cells r. visited r vis i j}"

text \<open>The entry that stands for a set of cells: its centre and its size.\<close>

definition area_of :: "Range \<Rightarrow> (int \<times> int) set \<Rightarrow> Pos option \<times> int" where
  "area_of r M = (Some \<lparr>px = centre r (\<Sum>c \<in> M. rx r + fst c) (int (card M)),
                        pz = centre r (\<Sum>c \<in> M. rz r + snd c) (int (card M))\<rparr>, int (card M))"

definition cells_connected :: "(int \<times> int) set \<Rightarrow> bool" where
  "cells_connected S \<longleftrightarrow> (\<forall>a \<in> S. \<forall>b \<in> S. (\<lambda>c c'. next_to c c' \<and> c' \<in> S)\<^sup>*\<^sup>* a b)"

text \<open>The fill from a point, as the loops use it.\<close>

lemma fill_from:
  assumes len: "int (length vis) = sx r * sz r" and c: "(i, j) \<in> cells r"
  obtains p vis' M where "floodFillGen r match tol biome vis i j = Some (int (card M), p, vis')"
    "length vis' = length vis" "(i, j) \<in> visited_cells r vis'" "visited_cells r vis \<subseteq> visited_cells r vis'"
    "\<forall>k < length vis. vis' ! k = INT_MAX \<or> vis' ! k = vis ! k"
    "M = matching r biome match (visited_cells r vis' - visited_cells r vis)"
    "\<forall>c \<in> M. \<forall>c' \<in> cells r. next_to c c' \<longrightarrow> c' \<in> visited_cells r vis'"
    "M \<noteq> {} \<longrightarrow> (p, int (card M)) = area_of r M"
proof -
  have "in_range r i j" using c by (simp add: in_range_cells)
  from len this obtain p vis' where f:
    "floodFillGen r match tol biome vis i j = Some (int (card (matching r biome match (filled r vis vis'))), p, vis')"
    "length vis' = length vis" "visited r vis' i j"
    "\<forall>(a, b) \<in> cells r. visited r vis a b \<longrightarrow> visited r vis' a b"
    "\<forall>k < length vis. vis' ! k = INT_MAX \<or> vis' ! k = vis ! k"
    "\<forall>c \<in> matching r biome match (filled r vis vis'). \<forall>c' \<in> cells r. next_to c c' \<longrightarrow> visited r vis' (fst c') (snd c')"
    "matching r biome match (filled r vis vis') \<noteq> {} \<longrightarrow>
       (p, int (card (matching r biome match (filled r vis vis')))) = area_of r (matching r biome match (filled r vis vis'))"
    by (rule floodFillGen_ok) (auto simp: area_of_def)
  have e: "filled r vis vis' = visited_cells r vis' - visited_cells r vis" by (auto simp: filled_def visited_cells_def)
  have closed: "\<forall>c \<in> matching r biome match (filled r vis vis'). \<forall>c' \<in> cells r. next_to c c' \<longrightarrow> c' \<in> visited_cells r vis'"
  proof (intro ballI impI)
    fix c c'
    assume "c \<in> matching r biome match (filled r vis vis')" "c' \<in> cells r" "next_to c c'"
    moreover from this have "visited r vis' (fst c') (snd c')" using f(6) by blast
    ultimately show "c' \<in> visited_cells r vis'" by (cases c') (simp add: visited_cells_def)
  qed
  show thesis by (rule that [OF f(1,2) _ _ f(5) _ closed f(7)]) (use f(3,4) c e in \<open>auto simp: visited_cells_def\<close>)
qed

text \<open>The loops do not fail, and what they return are disjoint sets of cells of the biome.\<close>

lemma fill_points_sound:
  assumes "int (length vis) = sx r * sz r" "set ps \<subseteq> cells r" "0 < minsiz" "length out < nmax"
  shows "\<exists>Ms. fill_points r match tol biome minsiz nmax ps vis out = Some (out @ map (area_of r) Ms) \<and>
    length out + length Ms \<le> nmax \<and> sorted_wrt (\<lambda>A B. A \<inter> B = {}) Ms \<and>
    (\<forall>M \<in> set Ms. M \<subseteq> matching r biome match (cells r - visited_cells r vis) \<and> minsiz \<le> int (card M))"
  using assms
proof (induction r match tol biome minsiz nmax ps vis out rule: fill_points.induct)
  case (2 r match tol biome minsiz nmax i j ps vis out)
  show ?case
  proof (cases "vis ! cell r i j = - 1")
    case False
    then show ?thesis using 2(1) [OF False] 2(4-7) by simp
  next
    case True
    obtain p vis' M where f: "floodFillGen r match tol biome vis i j = Some (int (card M), p, vis')"
      "length vis' = length vis" "visited_cells r vis \<subseteq> visited_cells r vis'"
      "M = matching r biome match (visited_cells r vis' - visited_cells r vis)" "M \<noteq> {} \<longrightarrow> (p, int (card M)) = area_of r M"
      using fill_from [OF 2(4), of i j match tol biome] 2(5) by (metis list.set_intros(1) subsetD)
    have M: "M \<subseteq> matching r biome match (cells r - visited_cells r vis)"
      unfolding f(4) by (auto simp: matching_def visited_cells_def)
    have later: "M' \<inter> M = {} \<and> M' \<subseteq> matching r biome match (cells r - visited_cells r vis)"
      if "M' \<subseteq> matching r biome match (cells r - visited_cells r vis')" for M'
      using that f(3,4) by (auto simp: matching_def)
    have run: "fill_points r match tol biome minsiz nmax ((i, j) # ps) vis out =
        (if minsiz \<le> int (card M)
         then (if nmax \<le> length out + 1 then Some (out @ [area_of r M])
               else fill_points r match tol biome minsiz nmax ps vis' (out @ [area_of r M]))
         else fill_points r match tol biome minsiz nmax ps vis' out)"
      using True f(1,5) 2(6) by auto
    have prems: "int (length vis') = sx r * sz r" "set ps \<subseteq> cells r" using 2(4,5) f(2) by auto
    show ?thesis
    proof (cases "minsiz \<le> int (card M)")
      case big: True
      then have p: "(p, int (card M)) = area_of r M" using f(5) 2(6) by auto
      show ?thesis
      proof (cases "nmax \<le> length out + 1")
        case True
        then show ?thesis using run big M 2(7) by (intro exI [of _ "[M]"]) simp
      next
        case False
        obtain Ms where Ms: "fill_points r match tol biome minsiz nmax ps vis' (out @ [area_of r M]) = Some ((out @ [area_of r M]) @ map (area_of r) Ms)"
          "length (out @ [area_of r M]) + length Ms \<le> nmax" "sorted_wrt (\<lambda>A B. A \<inter> B = {}) Ms"
          "\<forall>M \<in> set Ms. M \<subseteq> matching r biome match (cells r - visited_cells r vis') \<and> minsiz \<le> int (card M)"
          using 2(2) [OF _ f(1) refl refl big False prems 2(6)] True False p by auto
        have d: "\<forall>M' \<in> set Ms. M \<inter> M' = {}" using later Ms(4) by blast
        show ?thesis using run big False Ms d M later by (intro exI [of _ "M # Ms"]) auto
      qed
    next
      case small: False
      obtain Ms where Ms: "fill_points r match tol biome minsiz nmax ps vis' out = Some (out @ map (area_of r) Ms)"
          "length out + length Ms \<le> nmax" "sorted_wrt (\<lambda>A B. A \<inter> B = {}) Ms"
          "\<forall>M \<in> set Ms. M \<subseteq> matching r biome match (cells r - visited_cells r vis') \<and> minsiz \<le> int (card M)"
        using 2(3) [OF _ f(1) refl refl small prems 2(6,7)] True by auto
      show ?thesis using run small Ms later by (intro exI [of _ Ms]) auto
    qed
  qed
qed simp

text \<open>A fill that reaches a connected set of cells of the biome takes all of it.\<close>

lemma fill_takes_all:
  assumes M: "M = matching r biome match (visited_cells r vis' - visited_cells r vis)"
    and closed: "\<forall>c \<in> M. \<forall>c' \<in> cells r. next_to c c' \<longrightarrow> c' \<in> visited_cells r vis'"
    and S: "S \<subseteq> matching r biome match (cells r - visited_cells r vis)" "cells_connected S"
    and a: "a \<in> S" "a \<in> visited_cells r vis'"
  shows "S \<subseteq> M"
proof
  fix b
  assume "b \<in> S"
  then have "(\<lambda>c c'. next_to c c' \<and> c' \<in> S)\<^sup>*\<^sup>* a b" using S(2) a(1) by (simp add: cells_connected_def)
  then show "b \<in> M"
  proof (induction rule: rtranclp_induct)
    case base
    then show ?case using a S(1) unfolding M by (auto simp: matching_def)
  next
    case (step c c')
    then have "c' \<in> visited_cells r vis'" using closed S(1) by (auto simp: matching_def)
    then show ?case using step(2) S(1) unfolding M by (auto simp: matching_def)
  qed
qed

lemma finite_matching: "finite (matching r biome match (visited_cells r vis' - visited_cells r vis))"
  by (rule finite_subset [of _ "cells r"]) (auto simp: matching_def visited_cells_def)

lemma fill_points_complete:
  assumes "int (length vis) = sx r * sz r" "set ps \<subseteq> cells r" "0 < minsiz" "0 < nmax"
    and S: "S \<subseteq> matching r biome match (cells r - visited_cells r vis)" "cells_connected S" "minsiz \<le> int (card S)"
    and "(a, b) \<in> set ps" "(a, b) \<in> S" "vis ! cell r a b = - 1"
  shows "\<exists>out. fill_points r match tol biome minsiz nmax ps vis [] = Some out \<and> out \<noteq> []"
  using assms
proof (induction ps arbitrary: vis)
  case (Cons q ps)
  obtain i j where q: "q = (i, j)" by (cases q)
  have ps: "set ps \<subseteq> cells r" and ij: "(i, j) \<in> cells r" using Cons.prems(2) q by simp_all
  show ?case
  proof (cases "vis ! cell r i j = - 1")
    case False
    then have "(a, b) \<in> set ps" using Cons.prems(8,10) q by auto
    then show ?thesis using Cons.IH [of vis] Cons.prems ps False q by simp
  next
    case True
    obtain p vis' M where f: "floodFillGen r match tol biome vis i j = Some (int (card M), p, vis')"
      "length vis' = length vis" "(i, j) \<in> visited_cells r vis'" "visited_cells r vis \<subseteq> visited_cells r vis'"
      "\<forall>k < length vis. vis' ! k = INT_MAX \<or> vis' ! k = vis ! k"
      "M = matching r biome match (visited_cells r vis' - visited_cells r vis)"
      "\<forall>c \<in> M. \<forall>c' \<in> cells r. next_to c c' \<longrightarrow> c' \<in> visited_cells r vis'"
      using fill_from [OF Cons.prems(1) ij, of match tol biome thesis] by blast
    show ?thesis
    proof (cases "minsiz \<le> int (card M)")
      case big: True
      show ?thesis
      proof (cases "nmax \<le> 1")
        case True
        then show ?thesis using f(1) \<open>vis ! cell r i j = - 1\<close> big q by simp
      next
        case False
        then show ?thesis using f(1,2) \<open>vis ! cell r i j = - 1\<close> big q Cons.prems(1,3)
            fill_points_sound [of vis' r ps minsiz "[(p, int (card M))]" nmax match tol biome] ps by auto
      qed
    next
      case small: False
      have miss: "S \<inter> visited_cells r vis' = {}"
      proof (rule ccontr)
        assume "S \<inter> visited_cells r vis' \<noteq> {}"
        then have "S \<subseteq> M" using fill_takes_all [OF f(6,7) Cons.prems(5,6)] by blast
        then have "card S \<le> card M" using finite_matching f(6) by (intro card_mono) simp_all
        then show False using small Cons.prems(7) by linarith
      qed
      then have S': "S \<subseteq> matching r biome match (cells r - visited_cells r vis')"
        using Cons.prems(5) by (auto simp: matching_def)
      have ab: "(a, b) \<in> set ps" using miss f(3) Cons.prems(8,9) q by auto
      then have c: "(a, b) \<in> cells r" using ps by blast
      then have "cell r a b < length vis" using cell_less [of r a b] Cons.prems(1) by (simp add: in_range_cells)
      then have "vis' ! cell r a b = - 1"
        using f(5) Cons.prems(9,10) miss c by (auto simp: visited_cells_def visited_def)
      then show ?thesis using Cons.IH [of vis'] Cons.prems f(1,2) ps S' ab small True q by simp
    qed
  qed
qed simp

subsection \<open>The whole search\<close>

text \<open>What the first loops leave behind: nothing is visited, and the points within the limits are still -1.\<close>

definition marked :: "(nat \<Rightarrow> f64 \<Rightarrow> f64 \<Rightarrow> f64) \<Rightarrow> int list \<Rightarrow> Range \<Rightarrow> int \<Rightarrow> int list" where
  "marked climate plim r step = mark_points climate plim r (grid r step) (replicate (nat (sx r * sz r)) (- 1))"

definition search_step :: "int \<Rightarrow> int \<Rightarrow> int" where
  "search_step step minsiz = centers_step (if step \<le> 0 then 1 else step) (max 1 minsiz)"

lemma getBiomeCentersOpt_eq:
  assumes "getBiomeParaLimits MC_NEWEST match = Some plim"
  shows "getBiomeCentersOpt climate biome_at nmax r match minsiz tol step =
    fill_points r match (max 1 tol) (\<lambda>x z. biome_at (rscale r) x (ry r) z) (max 1 minsiz) nmax
      (grid r (search_step step minsiz)) (marked climate plim r (search_step step minsiz)) []"
proof -
  have m: "(if k \<le> 0 then 1 else k) = max 1 k" for k :: int by auto
  show ?thesis unfolding getBiomeCentersOpt_def assms search_step_def marked_def Let_def option.case m by simp
qed

lemma search_step_pos: "0 < search_step step minsiz"
  by (simp add: search_step_def centers_step_pos)

lemma marked:
  assumes "0 \<le> sx r" "0 \<le> sz r" "0 < step"
  shows "int (length (marked climate plim r step)) = sx r * sz r" "visited_cells r (marked climate plim r step) = {}"
    "(i, j) \<in> set (grid r step) \<Longrightarrow> within_limits climate plim r i j para \<Longrightarrow> marked climate plim r step ! cell r i j = - 1"
proof -
  let ?v0 = "replicate (nat (sx r * sz r)) (- 1) :: int list"
  have len: "int (length ?v0) = sx r * sz r" using assms by simp
  then show "int (length (marked climate plim r step)) = sx r * sz r" by (simp add: marked_def)
  have at: "marked climate plim r step ! cell r a b =
      (if (a, b) \<in> set (grid r step) \<and> \<not> within_limits climate plim r a b para then - 2 else - 1)"
    if "(a, b) \<in> cells r" for a b
  proof -
    have "cell r a b < length ?v0" using cell_less [of r a b] that len by (simp add: in_range_cells)
    then show ?thesis unfolding marked_def mark_points_nth [OF grid_cells [OF assms(3)] that len] by simp
  qed
  show "visited_cells r (marked climate plim r step) = {}"
    by (auto simp: visited_cells_def visited_def at INT_MAX_def split: if_splits)
  show "(i, j) \<in> set (grid r step) \<Longrightarrow> within_limits climate plim r i j para \<Longrightarrow> marked climate plim r step ! cell r i j = - 1"
  proof -
    assume g: "(i, j) \<in> set (grid r step)" "within_limits climate plim r i j para"
    then have "(i, j) \<in> cells r" using grid_cells [OF assms(3)] by blast
    from at [OF this] g show ?thesis by simp
  qed
qed

lemma centers_sound:
  assumes "getBiomeParaLimits MC_NEWEST match = Some plim" "0 \<le> sx r" "0 \<le> sz r" "0 < nmax"
  shows "\<exists>Ms. getBiomeCentersOpt climate biome_at nmax r match minsiz tol step = Some (map (area_of r) Ms) \<and>
    length Ms \<le> nmax \<and> sorted_wrt (\<lambda>A B. A \<inter> B = {}) Ms \<and>
    (\<forall>M \<in> set Ms. M \<subseteq> matching r (\<lambda>x z. biome_at (rscale r) x (ry r) z) match (cells r) \<and> max 1 minsiz \<le> int (card M))"
  unfolding getBiomeCentersOpt_eq [OF assms(1)]
  using fill_points_sound [OF marked(1) [OF assms(2,3) search_step_pos] grid_cells [OF search_step_pos], of "max 1 minsiz" "[]" nmax]
    assms(4) by (simp add: marked(2) [OF assms(2,3) search_step_pos])

lemma centers_complete:
  assumes "getBiomeParaLimits MC_NEWEST match = Some plim" "0 \<le> sx r" "0 \<le> sz r" "0 < nmax"
    and "S \<subseteq> matching r (\<lambda>x z. biome_at (rscale r) x (ry r) z) match (cells r)" "cells_connected S" "max 1 minsiz \<le> int (card S)"
    and "(a, b) \<in> S" "(a, b) \<in> set (grid r (search_step step minsiz))" "within_limits climate plim r a b para"
  shows "\<exists>out. getBiomeCentersOpt climate biome_at nmax r match minsiz tol step = Some out \<and> out \<noteq> []"
proof -
  note m = marked [OF assms(2,3) search_step_pos]
  show ?thesis unfolding getBiomeCentersOpt_eq [OF assms(1)]
    by (rule fill_points_complete [OF m(1) grid_cells [OF search_step_pos] _ assms(4) _ assms(6,7,9,8) m(3) [OF assms(9,10)]])
      (use assms(5) m(2) in auto)
qed

text \<open>The limits of the biome that the program looks for: the continentalness is at most -10500.\<close>

lemma mushroom_within:
  assumes "getBiomeParaLimits MC_NEWEST mushroom_fields = Some plim"
  shows "within_limits climate plim r i j para \<longleftrightarrow> sample_para climate r 2 i j \<le> - 10500"
proof -
  have "- 2147483648 \<le> sample_para climate r 2 i j" by (simp add: sample_para_def trunc_i32_def clamp_i32_def Let_def)
  moreover have "plim = [INT_MIN, INT_MAX, INT_MIN, INT_MAX, INT_MIN, - 10500, INT_MIN, INT_MAX, INT_MIN, INT_MAX, INT_MIN, INT_MAX]"
    using mushroom_limits [of MC_NEWEST] assms by (simp add: version_defs)
  ultimately show ?thesis by (auto simp: para_def Let_def INT_MIN_def INT_MAX_def)
qed

subsection \<open>Properties\<close>

text \<open>
  C14. The search returns for every area and every noise, and each of its at most \<open>nmax\<close> answers
  is the centre and the size of a set of cells of the biome with at least \<open>minsiz\<close> cells; the
  sets of different answers are disjoint.
\<close>

theorem biome_centers_are_areas:
  assumes "getBiomeParaLimits MC_NEWEST match = Some plim" "0 \<le> sx r" "0 \<le> sz r" "0 < nmax"
  shows "\<exists>Ms. getBiomeCentersOpt climate biome_at nmax r match minsiz tol step = Some (map (area_of r) Ms) \<and>
    length Ms \<le> nmax \<and> sorted_wrt (\<lambda>A B. A \<inter> B = {}) Ms \<and>
    (\<forall>M \<in> set Ms. M \<subseteq> matching r (\<lambda>x z. biome_at (rscale r) x (ry r) z) match (cells r) \<and> max 1 minsiz \<le> int (card M))"
  using assms by (rule centers_sound)

theorem biome_centers_are_areas_witness:
  "\<exists>Ms. getBiomeCentersOpt (\<lambda>k x z. - 2) (\<lambda>s x y z. 14) 1 (make_range 0 0 64 16) mushroom_fields 4 1 0 =
     Some (map (area_of (make_range 0 0 64 16)) Ms) \<and> length Ms \<le> 1"
proof -
  have l: "getBiomeParaLimits MC_NEWEST mushroom_fields =
      Some [INT_MIN, INT_MAX, INT_MIN, INT_MAX, INT_MIN, - 10500, INT_MIN, INT_MAX, INT_MIN, INT_MAX, INT_MIN, INT_MAX]"
    by (rule mushroom_limits) (simp add: version_defs)
  have r: "0 \<le> sx (make_range 0 0 64 16)" "0 \<le> sz (make_range 0 0 64 16)" by (simp_all add: make_range_def)
  show ?thesis using biome_centers_are_areas [OF l r zero_less_one] by blast
qed

text \<open>
  C13. The search misses no area that its grid touches: if a connected set of at least \<open>minsiz\<close>
  cells of the biome contains a point of the grid whose climate is within the limits, the search
  has an answer. The areas filled before cannot have spoilt it.
\<close>

theorem biome_centers_found:
  assumes "getBiomeParaLimits MC_NEWEST match = Some plim" "0 \<le> sx r" "0 \<le> sz r" "0 < nmax"
    and "S \<subseteq> matching r (\<lambda>x z. biome_at (rscale r) x (ry r) z) match (cells r)" "cells_connected S" "max 1 minsiz \<le> int (card S)"
    and "(a, b) \<in> S" "(a, b) \<in> set (grid r (search_step step minsiz))" "within_limits climate plim r a b para"
  shows "\<exists>out. getBiomeCentersOpt climate biome_at nmax r match minsiz tol step = Some out \<and> out \<noteq> []"
  using assms by (rule centers_complete)

theorem biome_centers_found_witness:
  "\<exists>out. getBiomeCentersOpt (\<lambda>k x z. - 2) (\<lambda>s x y z. 14) 1 (make_range 0 0 64 16) mushroom_fields 1 1 0 = Some out \<and> out \<noteq> []"
proof (rule biome_centers_found)
  show "getBiomeParaLimits MC_NEWEST mushroom_fields =
      Some [INT_MIN, INT_MAX, INT_MIN, INT_MAX, INT_MIN, - 10500, INT_MIN, INT_MAX, INT_MIN, INT_MAX, INT_MIN, INT_MAX]"
    by (rule mushroom_limits) (simp add: version_defs)
  let ?r = "make_range 0 0 64 16"
  have r: "sx ?r = 4" "sz ?r = 4" by (simp_all add: make_range_def)
  show "{(0, 0)} \<subseteq> matching ?r (\<lambda>x z. 14) mushroom_fields (cells ?r)"
    by (simp add: matching_def cells_def r mushroom_fields_def)
  show "cells_connected {(0, 0)}" by (simp add: cells_connected_def)
  have "0 < search_step 0 1" by (rule search_step_pos)
  then have "0 < (3 + search_step 0 1) div search_step 0 1" by (simp add: pos_imp_zdiv_nonneg_iff)
  then have "0 \<in> set (steps_below (search_step 0 1) 4)" by (force simp: steps_below_def)
  then show "(0, 0) \<in> set (grid ?r (search_step 0 1))" by (auto simp: grid_def r)
  have "sample_para (\<lambda>k x z. - 2) ?r 2 0 0 = - 20000"
    using fl64_of_int [of "- 20000"] by (simp add: sample_para_def mul64_def trunc_i32_def clamp_i32_def)
  then show "within_limits (\<lambda>k x z. - 2) [INT_MIN, INT_MAX, INT_MIN, INT_MAX, INT_MIN, - 10500, INT_MIN, INT_MAX, INT_MIN, INT_MAX,
      INT_MIN, INT_MAX] ?r 0 0 para"
    using mushroom_within [OF mushroom_limits, of "\<lambda>k x z. - 2" ?r 0 0] by (simp add: version_defs)
qed (simp_all add: make_range_def)

end
