(* ===== verification/Monte_Carlo.thy ===== *)
theory Monte_Carlo
  imports Flood_Fill Java_Random
begin

text \<open>
  \<open>monteCarloBiomes\<close> of \<open>finders.c\<close>: points of an area are drawn at random and tested until the
  Wilson score interval of their success rate decides whether the coverage is reached. \<open>erf\<close> and
  \<open>exp\<close> of the C library are arguments, and so is the test of a point. A square root of a negative
  number, which is not a number in C, makes the bounds \<open>None\<close>; every comparison with it is false.
\<close>

subsection \<open>The model\<close>

definition FLT_EPSILON :: f64 where
  "FLT_EPSILON = 1 / 2 ^ 23"

definition c_PI :: f64 where
  "c_PI = fl64 (314159265358979323846 / 10 ^ 20)"

definition inverf_dt :: "(f64 \<Rightarrow> f64) \<Rightarrow> (f64 \<Rightarrow> f64) \<Rightarrow> f64 \<Rightarrow> f64 \<Rightarrow> f64" where
  "inverf_dt erf c_exp x t =
     div64 (mul64 (mul64 (1 / 2) (sqrt64 c_PI)) (sub64 (erf t) x)) (c_exp (mul64 (- t) t))"

partial_function (option) inverf_loop :: "(f64 \<Rightarrow> f64) \<Rightarrow> (f64 \<Rightarrow> f64) \<Rightarrow> f64 \<Rightarrow> f64 \<Rightarrow> f64 \<Rightarrow> f64 option" where
  "inverf_loop erf c_exp x t dt =
     (if FLT_EPSILON < \<bar>dt\<bar>
      then (let dt' = inverf_dt erf c_exp x t in inverf_loop erf c_exp x (sub64 t dt') dt')
      else Some t)"

definition inverf :: "(f64 \<Rightarrow> f64) \<Rightarrow> (f64 \<Rightarrow> f64) \<Rightarrow> f64 \<Rightarrow> f64 option" where
  "inverf erf c_exp x = inverf_loop erf c_exp x x 1"

definition wilson :: "f64 \<Rightarrow> f64 \<Rightarrow> f64 \<Rightarrow> (f64 \<times> f64) option" where
  "wilson n p z =
     (let s = div64 (mul64 z z) n;
          t = div64 1 (add64 1 s);
          w = mul64 t (add64 p (mul64 (1 / 2) s));
          v = div64 (add64 (mul64 p (sub64 1 p)) (mul64 (1 / 4) s)) n
      in if v < 0 then None
         else let d = add64 (mul64 (mul64 t z) (sqrt64 v)) FLT_EPSILON
              in Some (sub64 w d, add64 w d))"

text \<open>A point of the area, and the buffer of all points in the order of the loops.\<close>

type_synonym touple = "int \<times> int \<times> int"

definition mc_buf :: "Range \<Rightarrow> touple list" where
  "mc_buf r = concat (map (\<lambda>k. concat (map (\<lambda>j. map (\<lambda>i. (i, k, j)) [0..sx r - 1]) [0..sz r - 1])) [0..sy r - 1])"

text \<open>
  The draw of an iteration with \<open>j = n - i\<close>: from the buffer, whose entry is exchanged with the
  last one that has not been drawn, or of three coordinates.
\<close>

definition mc_draw :: "Range \<Rightarrow> touple list option \<Rightarrow> nat \<Rightarrow> u64 \<Rightarrow> (touple \<times> touple list option \<times> u64) option" where
  "mc_draw r buf j rng =
     (case buf of
        Some b \<Rightarrow>
          (case c_nextInt (int j) rng of
             None \<Rightarrow> None
           | Some (k, rng') \<Rightarrow>
               if nat k < length b \<and> j - 1 < length b
               then (let t = b ! nat k
                     in Some (t, Some (if nat k \<noteq> j - 1 then (b[nat k := b ! (j - 1)])[j - 1 := t] else b), rng'))
               else None)
      | None \<Rightarrow>
          (case c_nextInt (sx r) rng of None \<Rightarrow> None | Some (x, rng1) \<Rightarrow>
          (case c_nextInt (sy r) rng1 of None \<Rightarrow> None | Some (y, rng2) \<Rightarrow>
          (case c_nextInt (sz r) rng2 of None \<Rightarrow> None | Some (z, rng3) \<Rightarrow> Some ((x, y, z), None, rng3)))))"

text \<open>What the interval after a sample decides: \<open>Some\<close> the value to return, or to go on.\<close>

definition mc_decide :: "f64 \<Rightarrow> f64 \<Rightarrow> (f64 \<times> f64) option \<Rightarrow> f64 \<Rightarrow> f64 \<Rightarrow> int option" where
  "mc_decide coverage zscore bounds m x =
     (let per_m = div64 1 m; interval = wilson m (mul64 x per_m) zscore
      in case interval of
           None \<Rightarrow> None
         | Some (lo, hi) \<Rightarrow>
             if coverage < sub64 lo per_m then Some 1
             else if add64 hi per_m < coverage then Some 0
             else (case bounds of
                     None \<Rightarrow> None
                   | Some (wlo, whi) \<Rightarrow>
                       if sub64 hi lo < sub64 whi wlo
                       then Some (if coverage < mul64 x per_m then 1 else 0) else None))"

text \<open>The loop, by the number \<open>j\<close> of iterations that are left.\<close>

fun mc_loop :: "(int \<Rightarrow> int \<Rightarrow> int \<Rightarrow> int) \<Rightarrow> Range \<Rightarrow> f64 \<Rightarrow> f64 \<Rightarrow> (f64 \<times> f64) option \<Rightarrow> nat \<Rightarrow>
    touple list option \<Rightarrow> u64 \<Rightarrow> f64 \<Rightarrow> f64 \<Rightarrow> int option" where
  "mc_loop eval r coverage zscore bounds 0 buf rng m x = Some 1"
| "mc_loop eval r coverage zscore bounds (Suc k) buf rng m x =
     (case mc_draw r buf (Suc k) rng of
        None \<Rightarrow> None
      | Some ((tx, ty, tz), buf', rng') \<Rightarrow>
          (let status = eval (rx r + tx) (ry r + ty) (rz r + tz)
           in if status = - 1 then mc_loop eval r coverage zscore bounds k buf' rng' m x
              else if status \<noteq> 0 \<and> status \<noteq> 1 then Some 0
              else let x' = (if status = 1 then add64 x 1 else x); m' = add64 m 1
                   in case mc_decide coverage zscore bounds m' x' of
                        Some ret \<Rightarrow> Some ret
                      | None \<Rightarrow> mc_loop eval r coverage zscore bounds k buf' rng' m' x'))"

definition monteCarloBiomes ::
    "(f64 \<Rightarrow> f64) \<Rightarrow> (f64 \<Rightarrow> f64) \<Rightarrow> Range \<Rightarrow> u64 \<Rightarrow> f64 \<Rightarrow> f64 \<Rightarrow> (int \<Rightarrow> int \<Rightarrow> int \<Rightarrow> int) \<Rightarrow> int option" where
  "monteCarloBiomes erf c_exp r rng coverage confidence eval =
     (case inverf erf c_exp confidence of
        None \<Rightarrow> None
      | Some q \<Rightarrow>
          (let r = (if sy r = 0 then r\<lparr>sy := 1\<rparr> else r);
               n = nat (sx r * sy r * sz r);
               zscore = mul64 (sqrt64 2) q;
               wn = mul64 zscore (sqrt64 (f64_of_int (int n)));
               bounds = wilson wn coverage zscore;
               buf = (if f64_of_int (int n) < mul64 4 wn \<and> int n < INT_MAX then Some (mc_buf r) else None)
           in mc_loop eval r coverage zscore bounds n buf rng 0 0))"

subsection \<open>Drawing\<close>

text \<open>The seed that the tests start from may have more than 48 bits; they do not matter.\<close>

lemma c_next_low: "c_next b (take_bit 48 s) = c_next b s"
proof -
  have "(take_bit 48 s * MULTIPLIER + ADDEND) AND MASK = (s * MULTIPLIER + ADDEND) AND MASK"
    unfolding word_unat_eq_iff unat_affine unat_take_bit by (metis mod_add_left_eq mod_mult_left_eq)
  then show ?thesis unfolding c_next_def Let_def c_mask MULTIPLIER_def ADDEND_def by simp
qed

lemma c_nextInt_low: "c_nextInt n (take_bit 48 s) = c_nextInt n s"
  unfolding c_nextInt_def by (subst (1 2) c_nextInt_loop.simps) (simp add: c_next_low)

lemma c_nextInt_total:
  assumes "0 < n" "n < 2147483648"
  obtains k s' where "c_nextInt n s = Some (k, s')" "0 \<le> k" "k < n"
proof -
  let ?g = "\<lparr>seed = take_bit 48 s\<rparr>"
  have u: "unat (of_int n :: u32) = nat n" using assms by (intro unat_of_int_u32) simp_all
  have "unat (seed ?g) < 2 ^ 48" by (simp add: unat_simps)
  then have e: "c_nextInt n s = map_option to_c (nextInt_bound 1 (of_int n) ?g)"
    using c_nextInt_eq [of ?g n] assms by (simp add: c_nextInt_low)
  have le: "unat (of_int n :: u32) \<le> 2 ^ 31" unfolding u using assms by simp
  have "(of_int n :: u32) \<noteq> 0" using u assms by (metis unat_0 nat_eq_iff2 less_irrefl zero_less_nat_eq)
  then obtain r g' where r: "nextInt_bound 1 (of_int n) ?g = Some (r, g')" "unat r < unat (of_int n :: u32)"
    using nextInt_bound_total [of "of_int n" 1 ?g] le by blast
  then have v: "sint r = int (unat r)" using u assms by (intro sint_small) linarith
  have "int (unat r) < n" using r(2) u by linarith
  moreover have "c_nextInt n s = Some (int (unat r), seed g')" using e r(1) v by (simp only: to_c_def) simp
  ultimately show thesis using that by simp
qed

text \<open>The draws from a buffer, without the tests.\<close>

fun mc_draws :: "Range \<Rightarrow> nat \<Rightarrow> touple list option \<Rightarrow> u64 \<Rightarrow> touple list option" where
  "mc_draws r 0 buf rng = Some []"
| "mc_draws r (Suc k) buf rng =
     (case mc_draw r buf (Suc k) rng of
        None \<Rightarrow> None
      | Some (t, buf', rng') \<Rightarrow> map_option (Cons t) (mc_draws r k buf' rng'))"

lemma mc_draw_buf:
  assumes "j \<le> length b" "0 < j" "int j < 2147483648"
  obtains t b' rng' where "mc_draw r (Some b) j rng = Some (t, Some b', rng')" "length b' = length b"
    "mset (take (j - 1) b') + {#t#} = mset (take j b)"
proof -
  obtain k rng' where k: "c_nextInt (int j) rng = Some (k, rng')" "0 \<le> k" "k < int j"
    using c_nextInt_total [of "int j" rng] assms by auto
  define i where "i = nat k"
  have i: "i < j" using k by (simp add: i_def)
  have l: "i < length b" "j - 1 < length b" using i assms by linarith+
  define b' where "b' = (b[i := b ! (j - 1)])[j - 1 := b ! i]"
  have e: "(if i \<noteq> j - 1 then b' else b) = b'" by (auto simp: b'_def)
  have draw: "mc_draw r (Some b) j rng = Some (b ! i, Some b', rng')"
    using k(1) l e by (simp add: mc_draw_def Let_def i_def b'_def)
  let ?c = "take j b"
  have c: "take j b' = ?c[i := ?c ! (j - 1), j - 1 := ?c ! i]" using i assms by (simp add: b'_def take_update_swap)
  have "mset (take j b') = mset ?c" unfolding c using i assms by (intro mset_swap) simp_all
  moreover have "take j b' = take (j - 1) b' @ [b' ! (j - 1)]"
    using take_Suc_conv_app_nth [of "j - 1" b'] assms by (simp add: b'_def)
  moreover have "b' ! (j - 1) = b ! i" using i assms by (simp add: b'_def)
  ultimately have "mset (take (j - 1) b') + {#b ! i#} = mset ?c" by simp
  then show thesis using that [OF draw] by (simp add: b'_def)
qed

lemma mc_draws_permutation:
  assumes "j \<le> length b" "int j < 2147483648"
  shows "\<exists>ts. mc_draws r j (Some b) rng = Some ts \<and> mset ts = mset (take j b)"
  using assms
proof (induction j arbitrary: b rng)
  case (Suc k)
  obtain t b' rng' where d: "mc_draw r (Some b) (Suc k) rng = Some (t, Some b', rng')" "length b' = length b"
    "mset (take k b') + {#t#} = mset (take (Suc k) b)"
    by (rule mc_draw_buf [of "Suc k" b r rng]) (use Suc.prems in simp_all)
  obtain ts where "mc_draws r k (Some b') rng' = Some ts" "mset ts = mset (take k b')"
    using Suc.IH [of b' rng'] Suc.prems d(2) by auto
  then show ?case using d(1,3) by simp
qed simp

text \<open>The buffer holds every point of the area once.\<close>

definition area :: "Range \<Rightarrow> touple set" where
  "area r = {(x, y, z). 0 \<le> x \<and> x < sx r \<and> 0 \<le> y \<and> y < sy r \<and> 0 \<le> z \<and> z < sz r}"

lemma set_mc_buf: "set (mc_buf r) = area r"
  by (force simp: mc_buf_def area_def)

lemma length_mc_buf: "0 \<le> sx r \<Longrightarrow> 0 \<le> sy r \<Longrightarrow> 0 \<le> sz r \<Longrightarrow> length (mc_buf r) = nat (sx r * sy r * sz r)"
  by (simp add: mc_buf_def length_concat o_def sum_list_triv nat_mult_distrib)

lemma card_area: "0 \<le> sx r \<Longrightarrow> 0 \<le> sy r \<Longrightarrow> 0 \<le> sz r \<Longrightarrow> card (area r) = nat (sx r * sy r * sz r)"
proof -
  assume a: "0 \<le> sx r" "0 \<le> sy r" "0 \<le> sz r"
  have "area r = {0..<sx r} \<times> {0..<sy r} \<times> {0..<sz r}" by (auto simp: area_def)
  then show ?thesis using a by (simp add: card_cartesian_product nat_mult_distrib)
qed

lemma distinct_mc_buf: "0 \<le> sx r \<Longrightarrow> 0 \<le> sy r \<Longrightarrow> 0 \<le> sz r \<Longrightarrow> distinct (mc_buf r)"
  by (rule card_distinct) (simp add: set_mc_buf length_mc_buf card_area)

subsection \<open>The decision\<close>

lemma fl64_nonneg: "0 \<le> x \<Longrightarrow> 0 \<le> fl64 x"
  by (simp add: fl64_def round_to_nonneg)

lemma ops_nonneg:
  "0 \<le> x \<Longrightarrow> 0 \<le> y \<Longrightarrow> 0 \<le> add64 x y" "0 \<le> x \<Longrightarrow> 0 \<le> y \<Longrightarrow> 0 \<le> mul64 x y" "0 \<le> x \<Longrightarrow> 0 \<le> y \<Longrightarrow> 0 \<le> div64 x y"
  by (simp_all add: add64_def mul64_def div64_def fl64_nonneg)

lemma wilson_hi_nonneg:
  assumes "wilson n p z = Some (lo, hi)" "0 \<le> n" "0 \<le> p" "0 \<le> z"
  shows "0 \<le> hi"
proof -
  let ?s = "div64 (mul64 z z) n"
  let ?t = "div64 1 (add64 1 ?s)"
  have t: "0 \<le> ?t" using assms by (intro ops_nonneg) simp_all
  have w: "0 \<le> mul64 ?t (add64 p (mul64 (1 / 2) ?s))" using assms by (intro ops_nonneg) simp_all
  have "\<exists>v. hi = add64 (mul64 ?t (add64 p (mul64 (1 / 2) ?s))) (add64 (mul64 (mul64 ?t z) (sqrt64 v)) FLT_EPSILON)"
    using assms(1) by (auto simp: wilson_def Let_def split: if_splits)
  then obtain v where hi: "hi = add64 (mul64 ?t (add64 p (mul64 (1 / 2) ?s))) (add64 (mul64 (mul64 ?t z) (sqrt64 v)) FLT_EPSILON)" ..
  have "0 \<le> add64 (mul64 (mul64 ?t z) (sqrt64 v)) FLT_EPSILON"
    using assms by (intro ops_nonneg) (simp_all add: FLT_EPSILON_def)
  then show ?thesis unfolding hi by (rule ops_nonneg(1) [OF w])
qed

lemma mc_decide_range: "mc_decide coverage zscore bounds m x = Some v \<Longrightarrow> v = 0 \<or> v = 1"
  by (auto simp: mc_decide_def Let_def split: option.splits if_splits)

text \<open>With a negative coverage no interval rejects.\<close>

lemma mc_decide_negative:
  assumes "coverage < 0" "0 \<le> zscore" "0 \<le> m" "0 \<le> x" "mc_decide coverage zscore bounds m x = Some v"
  shows "v = 1"
proof -
  have per: "0 \<le> div64 1 m" using assms(3) by (intro ops_nonneg) simp_all
  have p: "0 \<le> mul64 x (div64 1 m)" by (rule ops_nonneg(2) [OF assms(4) per])
  have "0 \<le> add64 hi (div64 1 m)" if "wilson m (mul64 x (div64 1 m)) zscore = Some (lo, hi)" for lo hi
    by (rule ops_nonneg(1) [OF wilson_hi_nonneg [OF that assms(3) p assms(2)] per])
  then show ?thesis using assms(1,5) p by (auto simp: mc_decide_def Let_def split: option.splits if_splits)
qed

subsection \<open>The loop\<close>

text \<open>The draws that the loop makes succeed: the buffer is long enough and the sizes are positive.\<close>

definition draw_ok :: "Range \<Rightarrow> touple list option \<Rightarrow> nat \<Rightarrow> bool" where
  "draw_ok r buf j \<longleftrightarrow> (case buf of
      Some b \<Rightarrow> j \<le> length b \<and> int j < 2147483648
    | None \<Rightarrow> (\<forall>n \<in> {sx r, sy r, sz r}. 0 < n \<and> n < 2147483648))"

lemma mc_draw_ok:
  assumes "draw_ok r buf (Suc k)"
  obtains tx ty tz buf' rng' where "mc_draw r buf (Suc k) rng = Some ((tx, ty, tz), buf', rng')" "draw_ok r buf' k"
proof (cases buf)
  case None
  then have r: "0 < sx r" "sx r < 2147483648" "0 < sy r" "sy r < 2147483648" "0 < sz r" "sz r < 2147483648"
    using assms by (simp_all add: draw_ok_def)
  obtain x s1 where x: "c_nextInt (sx r) rng = Some (x, s1)" by (rule c_nextInt_total [OF r(1,2)])
  obtain y s2 where y: "c_nextInt (sy r) s1 = Some (y, s2)" by (rule c_nextInt_total [OF r(3,4)])
  obtain z s3 where z: "c_nextInt (sz r) s2 = Some (z, s3)" by (rule c_nextInt_total [OF r(5,6)])
  show thesis by (rule that [of x y z None s3]) (use None x y z r in \<open>simp_all add: mc_draw_def draw_ok_def\<close>)
next
  case (Some b)
  then have b: "Suc k \<le> length b" "int (Suc k) < 2147483648" using assms by (simp_all add: draw_ok_def)
  obtain t b' rng' where d: "mc_draw r (Some b) (Suc k) rng = Some (t, Some b', rng')" "length b' = length b"
    by (rule mc_draw_buf [OF b(1) _ b(2), of r rng]) simp_all
  show thesis by (cases t) (rule that [of _ _ _ "Some b'" rng'], use Some d b in \<open>simp_all add: draw_ok_def\<close>)
qed

lemma mc_loop_returns:
  assumes "draw_ok r buf j"
  shows "\<exists>v. mc_loop eval r coverage zscore bounds j buf rng m x = Some v \<and> (v = 0 \<or> v = 1)"
  using assms
proof (induction j arbitrary: buf rng m x)
  case (Suc k)
  obtain tx ty tz buf' rng' where d: "mc_draw r buf (Suc k) rng = Some ((tx, ty, tz), buf', rng')" "draw_ok r buf' k"
    using mc_draw_ok [OF Suc.prems] by blast
  show ?case using Suc.IH [OF d(2)] mc_decide_range
    by (auto simp: d(1) Let_def split: option.splits)
qed simp

lemma mc_loop_negative:
  assumes "draw_ok r buf j" "coverage < 0" "0 \<le> zscore" "0 \<le> m" "0 \<le> x" "\<And>a b c. eval a b c \<in> {- 1, 0, 1}"
  shows "mc_loop eval r coverage zscore bounds j buf rng m x = Some 1"
  using assms(1,4,5)
proof (induction j arbitrary: buf rng m x)
  case (Suc k)
  obtain tx ty tz buf' rng' where d: "mc_draw r buf (Suc k) rng = Some ((tx, ty, tz), buf', rng')" "draw_ok r buf' k"
    using mc_draw_ok [OF Suc.prems(1)] by blast
  let ?st = "eval (rx r + tx) (ry r + ty) (rz r + tz)"
  have st: "?st \<in> {- 1, 0, 1}" by (rule assms(6))
  define x' m' where "x' = (if ?st = 1 then add64 x 1 else x)" and "m' = add64 m 1"
  have nn: "0 \<le> x'" "0 \<le> m'" using Suc.prems(2,3) by (simp_all add: x'_def m'_def ops_nonneg)
  have "mc_loop eval r coverage zscore bounds (Suc k) buf rng m x =
      (if ?st = - 1 then mc_loop eval r coverage zscore bounds k buf' rng' m x
       else case mc_decide coverage zscore bounds m' x' of Some v \<Rightarrow> Some v
            | None \<Rightarrow> mc_loop eval r coverage zscore bounds k buf' rng' m' x')"
    unfolding x'_def m'_def using st by (auto simp: d(1) Let_def)
  then show ?case using Suc.IH [OF d(2)] Suc.prems(2,3) nn mc_decide_negative [OF assms(2,3) nn(2,1)]
    by (auto split: option.split)
qed simp

text \<open>The whole function, on an area with positive sizes.\<close>

definition area_ok :: "Range \<Rightarrow> bool" where
  "area_ok r \<longleftrightarrow> 0 < sx r \<and> sx r < 2147483648 \<and> 0 \<le> sy r \<and> sy r < 2147483648 \<and> 0 < sz r \<and> sz r < 2147483648"

lemma mc_start_ok:
  assumes "area_ok r" "r' = (if sy r = 0 then r\<lparr>sy := 1\<rparr> else r)" "n = nat (sx r' * sy r' * sz r')"
  shows "draw_ok r' (if P \<and> int n < INT_MAX then Some (mc_buf r') else None) n"
proof -
  have r: "0 < sx r'" "sx r' < 2147483648" "0 < sy r'" "sy r' < 2147483648" "0 < sz r'" "sz r' < 2147483648"
    using assms(1,2) by (auto simp: area_ok_def)
  then have "length (mc_buf r') = n" using assms(3) by (simp add: length_mc_buf)
  then show ?thesis using r by (simp add: draw_ok_def INT_MAX_def)
qed

lemma monteCarlo_total:
  assumes "inverf erf c_exp confidence = Some q" "area_ok r"
  shows "\<exists>v. monteCarloBiomes erf c_exp r rng coverage confidence eval = Some v \<and> (v = 0 \<or> v = 1)"
  unfolding monteCarloBiomes_def assms(1) option.case Let_def
  by (rule mc_loop_returns) (rule mc_start_ok [OF assms(2) refl refl])

lemma monteCarlo_negative:
  assumes "inverf erf c_exp confidence = Some q" "area_ok r" "coverage < 0" "0 \<le> q" "\<And>a b c. eval a b c \<in> {- 1, 0, 1}"
  shows "monteCarloBiomes erf c_exp r rng coverage confidence eval = Some 1"
  unfolding monteCarloBiomes_def assms(1) option.case Let_def
  by (rule mc_loop_negative [OF mc_start_ok [OF assms(2) refl refl] assms(3) _ _ _ assms(5)])
    (simp_all add: ops_nonneg assms(4))

text \<open>Newton's method ends at once where the error is 0.\<close>

lemma inverf_const: "inverf (\<lambda>t. x) (\<lambda>t. 1) x = Some (sub64 x 0)"
  unfolding inverf_def by (subst inverf_loop.simps, subst inverf_loop.simps)
    (simp add: FLT_EPSILON_def inverf_dt_def sub64_def mul64_def div64_def)

subsection \<open>Properties\<close>

text \<open>
  C16. When the number of samples comes near the size of the area, the points are drawn from a
  shuffled buffer: for every seed all draws return, and together they visit every point of the
  area exactly once.
\<close>

theorem monte_carlo_visits_once:
  assumes "0 < sx r" "0 < sy r" "0 < sz r" "sx r * sy r * sz r < INT_MAX"
  shows "\<exists>ts. mc_draws r (nat (sx r * sy r * sz r)) (Some (mc_buf r)) rng = Some ts \<and> distinct ts \<and> set ts = area r"
proof -
  let ?n = "nat (sx r * sy r * sz r)"
  have len: "length (mc_buf r) = ?n" using assms by (simp add: length_mc_buf)
  have "int ?n < 2147483648" using assms by (simp add: INT_MAX_def)
  then obtain ts where ts: "mc_draws r ?n (Some (mc_buf r)) rng = Some ts" "mset ts = mset (mc_buf r)"
    using mc_draws_permutation [of ?n "mc_buf r" r rng] len by auto
  moreover have "distinct ts" using ts(2) distinct_mc_buf [of r] assms by (metis distinct_count_atmost_1 less_imp_le set_mset_mset)
  moreover have "set ts = area r" using ts(2) set_mc_buf by (metis set_mset_mset)
  ultimately show ?thesis by blast
qed

theorem monte_carlo_visits_once_witness:
  "\<exists>ts. mc_draws (make_range 0 0 12 4) 9 (Some (mc_buf (make_range 0 0 12 4))) 1234 = Some ts \<and> distinct ts \<and> set ts = area (make_range 0 0 12 4)"
  using monte_carlo_visits_once [of "make_range 0 0 12 4" 1234] by (simp add: make_range_def INT_MAX_def)

text \<open>
  The sampling ends with a decision, 0 or 1, for every area, seed, coverage and test, provided
  that Newton's method for the inverse error function ends.
\<close>

lemma monte_carlo_returns:
  assumes "inverf erf c_exp confidence = Some q" "area_ok r"
  shows "\<exists>v. monteCarloBiomes erf c_exp r rng coverage confidence eval = Some v \<and> (v = 0 \<or> v = 1)"
  using assms by (rule monteCarlo_total)

lemma monte_carlo_returns_witness:
  "\<exists>v. monteCarloBiomes (\<lambda>t. 9 / 10) (\<lambda>t. 1) (make_range 0 0 12 4) 7 (1 / 2) (9 / 10) (\<lambda>a b c. 0) = Some v \<and> (v = 0 \<or> v = 1)"
  by (rule monte_carlo_returns [OF inverf_const]) (simp add: area_ok_def make_range_def)

end
