(* ===== verification/Cpu_Test.thy ===== *)
theory Cpu_Test
  imports Biome_Centers Monte_Carlo Common
begin

text \<open>
  The test of a candidate on the cpu: \<open>eval\<close>, \<open>cubiomes_test_monte_carlo\<close> (\<open>cubiomes.c\<close>) and
  \<open>process\<close> (\<open>cpu.cpp\<close>), which puts the random sampling before the two searches for a large area.
\<close>

subsection \<open>The model\<close>

text \<open>
  A generator after \<open>applySeed\<close>: its seed, \<open>sampleDoublePerlin\<close> of its climates and
  \<open>getBiomeAt\<close>. \<open>applySeed\<close> itself is an argument of \<open>process\<close>.
\<close>

record Generator =
  gen_seed :: u64
  gen_noise :: "nat \<Rightarrow> f64 \<Rightarrow> f64 \<Rightarrow> f64 \<Rightarrow> f64"
  gen_biome :: "int \<Rightarrow> int \<Rightarrow> int \<Rightarrow> int \<Rightarrow> int"

definition eval :: "Generator \<Rightarrow> int \<Rightarrow> int \<Rightarrow> int \<Rightarrow> int" where
  "eval g x y z =
     (let fx = f64_of_int x; fz = f64_of_int z;
          px = add64 fx (mul64 (gen_noise g NP_SHIFT fx 0 fz) 4);
          pz = add64 fz (mul64 (gen_noise g NP_SHIFT fx fz 0) 4);
          c = gen_noise g NP_CONTINENTALNESS px 0 pz
      in if c < fl32 (- 105 / 100) then 1 else 0)"

text \<open>The number of blocks of the area, in \<open>int\<close> arithmetic, which wraps around.\<close>

definition range_blocks :: "Range \<Rightarrow> int" where
  "range_blocks r = wrap32 (wrap32 (wrap32 (sx r * sz r) * rscale r) * rscale r)"

definition cubiomes_test_monte_carlo ::
    "(f64 \<Rightarrow> f64) \<Rightarrow> (f64 \<Rightarrow> f64) \<Rightarrow> Generator \<Rightarrow> int \<Rightarrow> int \<Rightarrow> int \<Rightarrow> int \<Rightarrow> f64 \<Rightarrow> int option" where
  "cubiomes_test_monte_carlo erf c_exp g x z rng min_area confidence =
     (let r = make_range x z rng 4;
          fraction = div64 (f64_of_int min_area) (f64_of_int (range_blocks r))
      in monteCarloBiomes erf c_exp r (gen_seed g) fraction confidence (eval g))"

definition process_range :: "bool \<Rightarrow> int" where
  "process_range large_biomes = 12800 * (if large_biomes then 4 else 1)"

definition process ::
    "(f64 \<Rightarrow> f64) \<Rightarrow> (f64 \<Rightarrow> f64) \<Rightarrow> (u64 \<Rightarrow> Generator) \<Rightarrow> bool \<Rightarrow> int \<Rightarrow> GpuOutput \<Rightarrow> CpuOutput option option" where
  "process erf c_exp apply_seed large_biomes min_size input =
     (let g = apply_seed (out_seed input);
          x = sint (out_x input); z = sint (out_z input);
          rng = process_range large_biomes;
          climate = (\<lambda>k a b. gen_noise g k a 0 b)
      in case cubiomes_test_monte_carlo erf c_exp g x z rng
                (trunc_i32 (mul64 (f64_of_int min_size) (fl64 (9 / 10)))) (fl64 (999 / 1000)) of
           None \<Rightarrow> None
         | Some ok \<Rightarrow>
             if ok = 0 then Some None
             else (case cubiomes_test_biome_centers climate (gen_biome g) x z rng min_size 16 4 of
                     None \<Rightarrow> None
                   | Some None \<Rightarrow> Some None
                   | Some (Some _) \<Rightarrow>
                       (case cubiomes_test_biome_centers climate (gen_biome g) x z rng min_size 4 2 of
                          None \<Rightarrow> None
                        | Some None \<Rightarrow> Some None
                        | Some (Some res) \<Rightarrow>
                            Some (Some \<lparr>cpu_seed = out_seed input, cpu_x = of_int (pa_x res), cpu_z = of_int (pa_z res),
                                        cpu_score = of_int (pa_area res)\<rparr>))))"

subsection \<open>The ranges\<close>

lemma process_range_4:
  "sx (make_range x z (process_range lb) 4) = (if lb then 12800 else 3200)"
  "sz (make_range x z (process_range lb) 4) = (if lb then 12800 else 3200)"
  "sy (make_range x z (process_range lb) 4) = 1"
  by (simp_all add: make_range_def process_range_def)

lemma process_range_16:
  "sx (make_range x z (process_range lb) 16) = (if lb then 3200 else 800)"
  "sz (make_range x z (process_range lb) 16) = (if lb then 3200 else 800)"
  by (simp_all add: make_range_def process_range_def)

lemma process_area_ok: "area_ok (make_range x z (process_range lb) 4)"
  by (simp add: area_ok_def process_range_4)

text \<open>The number of blocks overflows in a build for large biomes.\<close>

lemma range_blocks_small: "range_blocks (make_range x z (process_range False) 4) = 163840000"
  by (simp add: range_blocks_def make_range_def wrap32_def process_range_def)

lemma range_blocks_large: "range_blocks (make_range x z (process_range True) 4) = - 1673527296"
  by (simp add: range_blocks_def make_range_def wrap32_def process_range_def)

lemma eval_range: "eval g a b c \<in> {- 1, 0, 1}"
  by (simp add: eval_def Let_def)

lemma large_fraction_negative:
  assumes "0 < n" "n < 2147483648"
  shows "div64 (f64_of_int n) (f64_of_int (- 1673527296)) < 0"
proof -
  have e: "f64_of_int n = of_int n" "f64_of_int (- 1673527296) = - 1673527296"
    using fl64_of_int [of n] fl64_of_int [of "- 1673527296"] assms by (simp_all add: f64_of_int_def)
  have "of_int n / - 1673527296 \<le> (of_int (- 1) * 2 powi (- 31) :: rat)"
    using assms by (simp add: power_int_minus divide_simps)
  then have "fl64 (of_int n / - 1673527296) \<le> fl64 (of_int (- 1) * 2 powi (- 31))" by (rule fl64_mono)
  also have "\<dots> = of_int (- 1) * 2 powi (- 31)" by (rule fl64_exact) simp_all
  also have "\<dots> < 0" by simp
  finally show ?thesis by (simp add: div64_def e)
qed

subsection \<open>The two searches\<close>

lemma of_int_wrap32 [simp]: "(of_int (wrap32 n) :: i32) = of_int n"
proof -
  have "wrap32 n = n + 4294967296 * (- ((n + 2147483648) div 4294967296))"
    by (simp add: wrap32_def minus_div_mult_eq_mod [symmetric])
  then have "(of_int (wrap32 n) :: i32) = of_int n + of_int 4294967296 * of_int (- ((n + 2147483648) div 4294967296))"
    by (metis of_int_add of_int_mult)
  also have "(of_int 4294967296 :: i32) = 0" by simp
  finally show ?thesis by simp
qed

text \<open>A set of cells that stands for the answer of a search.\<close>

definition mushroom_area :: "Generator \<Rightarrow> Range \<Rightarrow> int \<Rightarrow> (int \<times> int) set \<Rightarrow> bool" where
  "mushroom_area g r min_cells M \<longleftrightarrow>
     M \<subseteq> {(i, j) \<in> cells r. gen_biome g (rscale r) (rx r + i) (ry r) (rz r + j) = mushroom_fields} \<and>
     max 1 min_cells \<le> int (card M)"

lemma biome_centers_sound:
  fixes g x z scl rng
  defines "r \<equiv> make_range x z rng scl"
  assumes "0 \<le> sx r" "0 \<le> sz r"
  shows "cubiomes_test_biome_centers climate (gen_biome g) x z rng min_area scl tol = Some None \<or>
    (\<exists>M. mushroom_area g r (c_div min_area (scl * scl)) M \<and>
       cubiomes_test_biome_centers climate (gen_biome g) x z rng min_area scl tol =
         Some (Some \<lparr>pa_x = centre r (\<Sum>c \<in> M. rx r + fst c) (int (card M)),
                     pa_z = centre r (\<Sum>c \<in> M. rz r + snd c) (int (card M)),
                     pa_area = wrap32 (int (card M) * (scl * scl))\<rparr>))"
proof -
  have plim: "getBiomeParaLimits MC_NEWEST mushroom_fields =
      Some [INT_MIN, INT_MAX, INT_MIN, INT_MAX, INT_MIN, - 10500, INT_MIN, INT_MAX, INT_MIN, INT_MAX, INT_MIN, INT_MAX]"
    by (rule mushroom_limits) (simp add: version_defs)
  obtain Ms where Ms: "getBiomeCentersOpt climate (gen_biome g) 1 r mushroom_fields (c_div min_area (scl * scl)) tol 0 =
      Some (map (area_of r) Ms)" "length Ms \<le> 1"
    "\<forall>M \<in> set Ms. M \<subseteq> matching r (\<lambda>x z. gen_biome g (rscale r) x (ry r) z) mushroom_fields (cells r) \<and>
       max 1 (c_div min_area (scl * scl)) \<le> int (card M)"
    using centers_sound [OF plim assms(2,3) zero_less_one, of climate "gen_biome g" "c_div min_area (scl * scl)" tol 0] by blast
  show ?thesis
  proof (cases Ms)
    case Nil
    then show ?thesis using Ms(1) by (simp add: cubiomes_test_biome_centers_def r_def Let_def)
  next
    case (Cons M Ms')
    then have e: "Ms = [M]" using Ms(2) by simp
    then have "mushroom_area g r (c_div min_area (scl * scl)) M"
      using Ms(3) by (simp add: mushroom_area_def matching_def)
    moreover have "cubiomes_test_biome_centers climate (gen_biome g) x z rng min_area scl tol =
         Some (Some \<lparr>pa_x = centre r (\<Sum>c \<in> M. rx r + fst c) (int (card M)),
                     pa_z = centre r (\<Sum>c \<in> M. rz r + snd c) (int (card M)),
                     pa_area = wrap32 (int (card M) * (scl * scl))\<rparr>)"
      using Ms(1) by (simp add: cubiomes_test_biome_centers_def r_def [symmetric] Let_def e area_of_def)
    ultimately show ?thesis by blast
  qed
qed

text \<open>The area that a successful test reports.\<close>

definition reported :: "(u64 \<Rightarrow> Generator) \<Rightarrow> bool \<Rightarrow> int \<Rightarrow> GpuOutput \<Rightarrow> CpuOutput \<Rightarrow> (int \<times> int) set \<Rightarrow> bool" where
  "reported apply_seed lb min_size input out M \<longleftrightarrow>
     (let g = apply_seed (out_seed input);
          r = make_range (sint (out_x input)) (sint (out_z input)) (process_range lb) 4
      in mushroom_area g r (c_div min_size 16) M \<and>
         out = \<lparr>cpu_seed = out_seed input, cpu_x = of_int (centre r (\<Sum>c \<in> M. rx r + fst c) (int (card M))),
                cpu_z = of_int (centre r (\<Sum>c \<in> M. rz r + snd c) (int (card M))),
                cpu_score = of_int (16 * int (card M))\<rparr>)"

lemma process_cases:
  assumes "inverf erf c_exp (fl64 (999 / 1000)) = Some q"
  shows "process erf c_exp apply_seed lb min_size input = Some None \<or>
    (\<exists>out M. process erf c_exp apply_seed lb min_size input = Some (Some out) \<and> reported apply_seed lb min_size input out M)"
proof -
  define g x z rng where d: "g = apply_seed (out_seed input)" "x = sint (out_x input)" "z = sint (out_z input)" "rng = process_range lb"
  define climate where "climate = (\<lambda>k a b. gen_noise g k a 0 b)"
  let ?size = "trunc_i32 (mul64 (f64_of_int min_size) (fl64 (9 / 10)))"
  let ?big = "cubiomes_test_biome_centers climate (gen_biome g) x z rng min_size 16 4"
  let ?fine = "cubiomes_test_biome_centers climate (gen_biome g) x z rng min_size 4 2"
  let ?r = "make_range x z rng 4"
  obtain ok where ok: "cubiomes_test_monte_carlo erf c_exp g x z rng ?size (fl64 (999 / 1000)) = Some ok"
    using monteCarlo_total [OF assms process_area_ok] unfolding cubiomes_test_monte_carlo_def Let_def d(4) by blast
  have run: "process erf c_exp apply_seed lb min_size input =
      (if ok = 0 then Some None
       else case ?big of None \<Rightarrow> None | Some None \<Rightarrow> Some None
            | Some (Some _) \<Rightarrow> (case ?fine of None \<Rightarrow> None | Some None \<Rightarrow> Some None
               | Some (Some res) \<Rightarrow> Some (Some \<lparr>cpu_seed = out_seed input, cpu_x = of_int (pa_x res), cpu_z = of_int (pa_z res),
                    cpu_score = of_int (pa_area res)\<rparr>)))"
    unfolding process_def Let_def d [symmetric] climate_def [symmetric] ok option.case by (rule refl)
  have "0 \<le> sx (make_range x z rng 16)" "0 \<le> sz (make_range x z rng 16)" by (simp_all add: process_range_16 d(4))
  from biome_centers_sound [OF this, of climate g min_size 4] have "?big \<noteq> None" by auto
  moreover have "?fine = Some None \<or> (\<exists>M. mushroom_area g ?r (c_div min_size (4 * 4)) M \<and>
      ?fine = Some (Some \<lparr>pa_x = centre ?r (\<Sum>c \<in> M. rx ?r + fst c) (int (card M)),
                     pa_z = centre ?r (\<Sum>c \<in> M. rz ?r + snd c) (int (card M)),
                     pa_area = wrap32 (int (card M) * (4 * 4))\<rparr>))"
    by (rule biome_centers_sound) (simp_all add: process_range_4 d(4))
  ultimately show ?thesis unfolding run
    by (cases "ok = 0"; cases ?big) (auto simp: reported_def Let_def d mult.commute split: option.splits)
qed

text \<open>A search that finds an area answers with it; an example in which all tests succeed.\<close>

lemma biome_centers_answer:
  assumes "0 \<le> sx (make_range x z rng scl)" "0 \<le> sz (make_range x z rng scl)"
    and "getBiomeCentersOpt climate (gen_biome g) 1 (make_range x z rng scl) mushroom_fields (c_div min_area (scl * scl)) tol 0 = Some out"
    and "out \<noteq> []"
  shows "cubiomes_test_biome_centers climate (gen_biome g) x z rng min_area scl tol \<noteq> Some None"
proof -
  let ?r = "make_range x z rng scl"
  have plim: "getBiomeParaLimits MC_NEWEST mushroom_fields =
      Some [INT_MIN, INT_MAX, INT_MIN, INT_MAX, INT_MIN, - 10500, INT_MIN, INT_MAX, INT_MIN, INT_MAX, INT_MIN, INT_MAX]"
    by (rule mushroom_limits) (simp add: version_defs)
  obtain Ms where Ms: "out = map (area_of ?r) Ms" "length Ms \<le> 1"
    using centers_sound [OF plim assms(1,2) zero_less_one, of climate "gen_biome g" "c_div min_area (scl * scl)" tol 0] assms(3) by auto
  then obtain M where "Ms = [M]" using assms(4) by (cases Ms) auto
  then show ?thesis using assms(3) Ms(1) by (simp add: cubiomes_test_biome_centers_def Let_def area_of_def)
qed

definition mushroom_world :: "u64 \<Rightarrow> Generator" where
  "mushroom_world s = \<lparr>gen_seed = s, gen_noise = \<lambda>k x y z. - 2, gen_biome = \<lambda>s x y z. 14\<rparr>"

lemma mushroom_world_centers:
  assumes "0 < sx (make_range x z rng scl)" "0 < sz (make_range x z rng scl)" "c_div min_area (scl * scl) \<le> 1"
  shows "cubiomes_test_biome_centers (\<lambda>k a b. - 2) (gen_biome (mushroom_world s)) x z rng min_area scl tol \<noteq> Some None"
proof -
  let ?r = "make_range x z rng scl" and ?n = "c_div min_area (scl * scl)"
  have plim: "getBiomeParaLimits MC_NEWEST mushroom_fields =
      Some [INT_MIN, INT_MAX, INT_MIN, INT_MAX, INT_MIN, - 10500, INT_MIN, INT_MAX, INT_MIN, INT_MAX, INT_MIN, INT_MAX]"
    by (rule mushroom_limits) (simp add: version_defs)
  have S: "{(0, 0)} \<subseteq> matching ?r (\<lambda>x z. gen_biome (mushroom_world s) (rscale ?r) x (ry ?r) z) mushroom_fields (cells ?r)"
    using assms by (simp add: matching_def cells_def mushroom_fields_def mushroom_world_def)
  have st: "0 < search_step 0 ?n" by (rule search_step_pos)
  have "0 \<in> set (steps_below (search_step 0 ?n) m)" if "0 < m" for m
  proof -
    have "0 < (m + search_step 0 ?n - 1) div search_step 0 ?n" using st that by (simp add: pos_imp_zdiv_pos_iff)
    then show ?thesis by (force simp: steps_below_def)
  qed
  then have grid: "(0, 0) \<in> set (grid ?r (search_step 0 ?n))" using assms by (auto simp: grid_def)
  have "sample_para (\<lambda>k x z. - 2) ?r 2 0 0 = - 20000"
    using fl64_of_int [of "- 20000"] by (simp add: sample_para_def mul64_def trunc_i32_def clamp_i32_def)
  then have w: "within_limits (\<lambda>k x z. - 2) [INT_MIN, INT_MAX, INT_MIN, INT_MAX, INT_MIN, - 10500, INT_MIN, INT_MAX, INT_MIN, INT_MAX,
      INT_MIN, INT_MAX] ?r 0 0 para"
    by (simp add: mushroom_within [OF plim])
  have "\<exists>out. getBiomeCentersOpt (\<lambda>k a b. - 2) (gen_biome (mushroom_world s)) 1 ?r mushroom_fields ?n tol 0 = Some out \<and> out \<noteq> []"
    by (rule centers_complete [where S = "{(0, 0)}" and a = 0 and b = 0 and biome_at = "gen_biome (mushroom_world s)", OF plim _ _ _ S _ _ _ grid w])
      (use assms in \<open>simp_all add: cells_connected_def\<close>)
  then obtain out where "getBiomeCentersOpt (\<lambda>k a b. - 2) (gen_biome (mushroom_world s)) 1 ?r mushroom_fields ?n tol 0 = Some out" "out \<noteq> []"
    by blast
  then show ?thesis using assms by (intro biome_centers_answer) simp_all
qed

lemma mushroom_world_accepts:
  "\<exists>out. process (\<lambda>t. fl64 (999 / 1000)) (\<lambda>t. 1) mushroom_world True 16 input = Some (Some out)"
proof -
  let ?c = "fl64 (999 / 1000) :: f64"
  let ?n = "trunc_i32 (mul64 (f64_of_int 16) (fl64 (9 / 10)))"
  let ?x = "sint (out_x input)" and ?z = "sint (out_z input)" and ?g = "mushroom_world (out_seed input)"
  have "fl64 (1 * 2 powi (- 1)) \<le> fl64 (9 / 10)" by (rule fl64_mono) (simp add: power_int_minus)
  moreover have "fl64 (of_int 1 * 2 powi (- 1)) = of_int 1 * 2 powi (- 1)" by (rule fl64_exact) simp_all
  ultimately have half: "1 / 2 \<le> fl64 (9 / 10)" by (simp add: power_int_minus)
  have sixteen: "f64_of_int 16 = 16" using fl64_of_int [of 16] by (simp add: f64_of_int_def)
  have "fl64 8 \<le> fl64 (16 * fl64 (9 / 10))" using half by (intro fl64_mono) simp
  then have "8 \<le> mul64 (f64_of_int 16) (fl64 (9 / 10))" using fl64_of_int [of 8] sixteen by (simp add: mul64_def)
  then have "8 \<le> \<lfloor>mul64 (f64_of_int 16) (fl64 (9 / 10))\<rfloor>" by (simp add: le_floor_iff)
  then have n: "0 < ?n" "?n < 2147483648" by (auto simp: trunc_i32_def clamp_i32_def)
  have mc: "cubiomes_test_monte_carlo (\<lambda>t. ?c) (\<lambda>t. 1) ?g ?x ?z (process_range True) ?n ?c = Some 1"
    unfolding cubiomes_test_monte_carlo_def Let_def range_blocks_large
    by (rule monteCarlo_negative [OF inverf_const process_area_ok large_fraction_negative [OF n] _ eval_range])
      (simp add: sub64_def fl64_nonneg)
  have c16: "cubiomes_test_biome_centers (\<lambda>k a b. - 2) (gen_biome ?g) ?x ?z (process_range True) 16 16 4 \<noteq> Some None"
    by (rule mushroom_world_centers) (simp_all add: process_range_16)
  have c4: "cubiomes_test_biome_centers (\<lambda>k a b. - 2) (gen_biome ?g) ?x ?z (process_range True) 16 4 2 \<noteq> Some None"
    by (rule mushroom_world_centers) (simp_all add: process_range_4)
  have cl: "(\<lambda>k a b. gen_noise ?g k a 0 b) = (\<lambda>k a b. - 2)" by (simp add: mushroom_world_def)
  have t: "process (\<lambda>t. ?c) (\<lambda>t. 1) mushroom_world True 16 input \<noteq> None"
    using process_cases [OF inverf_const, of mushroom_world True 16 input] by auto
  show ?thesis using t mc c16 c4 unfolding process_def Let_def cl by (auto split: option.splits)
qed

subsection \<open>Properties\<close>

text \<open>
  The test of a candidate always ends, and a result that it reports is real: there is a set of
  at least \<open>min_size / 16\<close> cells of mushroom fields in the area around the candidate, at one cell
  for 16 blocks; the reported position is its centre and the score its size in blocks modulo
  \<open>2^32\<close>, of the candidate's seed.
\<close>

lemma process_reports_area:
  assumes "inverf erf c_exp (fl64 (999 / 1000)) = Some q"
  shows "process erf c_exp apply_seed lb min_size input = Some None \<or>
    (\<exists>out M. process erf c_exp apply_seed lb min_size input = Some (Some out) \<and> reported apply_seed lb min_size input out M)"
  using assms by (rule process_cases)



end
