(* ===== verification/Cpu_Gen.thy ===== *)
theory Cpu_Gen
  imports Biome_Gen Cpu_Test
begin

text \<open>
  The test of a candidate on the generator of the world: the generator that \<open>process\<close> works with is
  the model of \<open>generator.c\<close>, so a reported area is one of the biomes that the climate of the seed
  gives.
\<close>




subsection \<open>Properties\<close>



end
