(* ===== verification/Kernel_Seed1.thy ===== *)
theory Kernel_Seed1
  imports Gpu_Filter2 "HOL-Library.Monad_Syntax"
begin

text \<open>
  \<open>KernelSeed1\<close> of \<open>gpu.cu\<close>: the first kernel builds the octaves 0 and 1 of every seed that passed
  the seed filter, and \<open>late_kernel\<close> builds the others for the seeds that reach a later stage. A
  result is a list of 18 octaves in the order 0A, 0B, 1A, 1B, \<dots> of the struct, which is also the
  order in which \<open>ResultSampler\<close> reads them. An octave in memory is a list of 17 words of 16 bytes;
  \<open>enc\<close> stands for its object representation. \<open>None\<close> stands for a draw that never returns.
\<close>

subsection \<open>The octaves of a seed\<close>

definition noise_forks :: "bool \<Rightarrow> u64 \<Rightarrow> XrsrRandomFork \<times> XrsrRandomFork" where
  "noise_forks large_biomes sd =
     (let seed_fork = XrsrRandom_seed_fork sd;
          noise_random = fork_from seed_fork (noise_hash (chosen_continentalness_config large_biomes))
      in XrsrRandom_double_fork noise_random)"

text \<open>The octave \<open>j\<close> of a result: \<open>octaves_a[j / 2]\<close> or \<open>octaves_b[j / 2]\<close>.\<close>

definition seed_octave :: "bool \<Rightarrow> u64 \<Rightarrow> nat \<Rightarrow> ImprovedNoise option" where
  "seed_octave large_biomes sd j =
     (let config = chosen_continentalness_config large_biomes;
          (noise_a_fork, noise_b_fork) = noise_forks large_biomes sd
      in if even j then init_noise (fork_from noise_a_fork (octave_hash (octaves_a config ! (j div 2))))
         else init_noise (fork_from noise_b_fork (octave_hash (octaves_b config ! (j div 2)))))"

subsection \<open>The first kernel\<close>

definition block_threads :: nat where "block_threads = 32"
definition u4_per_struct :: nat where "u4_per_struct = 17"

type_synonym 'w result = "'w list list"

text \<open>One word of the cooperative copy: word \<open>i\<close> of the shared array, if its octave is active.\<close>

definition copy_word :: "'w list list \<Rightarrow> nat \<Rightarrow> nat \<Rightarrow> nat \<Rightarrow> nat \<Rightarrow> 'w result list \<Rightarrow> 'w result list" where
  "copy_word shared_noise member block_base input_len i results =
     (let struct_idx = i div u4_per_struct; word_idx = i mod u4_per_struct; a = block_base + struct_idx
      in if a < input_len
         then results[a := (results ! a)[member := (results ! a ! member)[word_idx := shared_noise ! struct_idx ! word_idx]]]
         else results)"

text \<open>The strided loops of the threads of a block over the words.\<close>

definition copy_noise :: "'w list list \<Rightarrow> nat \<Rightarrow> nat \<Rightarrow> nat \<Rightarrow> 'w result list \<Rightarrow> 'w result list" where
  "copy_noise shared_noise member block_base input_len results =
     fold (copy_word shared_noise member block_base input_len) 
       (concat (map (\<lambda>t. stride block_threads t (block_threads * u4_per_struct)) [0..<block_threads])) results"

text \<open>\<open>init_octave\<close> for all threads of a block: each active one fills its entry of the shared array.\<close>

definition init_octave ::
    "(ImprovedNoise \<Rightarrow> 'w list) \<Rightarrow> (nat \<Rightarrow> XrsrRandomFork) \<Rightarrow> XrsrForkHash \<Rightarrow> nat \<Rightarrow> nat \<Rightarrow> nat \<Rightarrow>
     'w list list \<times> 'w result list \<Rightarrow> ('w list list \<times> 'w result list) option" where
  "init_octave enc noise_fork hash member block_base input_len = (\<lambda>(shared_noise, results).
     map_option (\<lambda>shared_noise. (shared_noise, copy_noise shared_noise member block_base input_len results))
       (those (map (\<lambda>t. if block_base + t < input_len then map_option enc (init_noise (fork_from (noise_fork t) hash))
                        else Some (shared_noise ! t)) [0..<block_threads])))"

definition kernel_block ::
    "(ImprovedNoise \<Rightarrow> 'w list) \<Rightarrow> bool \<Rightarrow> u64 list \<Rightarrow> nat \<Rightarrow> 'w list list \<Rightarrow> 'w result list \<Rightarrow> 'w result list option" where
  "kernel_block enc large_biomes input block_index shared_noise results =
     (let block_base = block_index * block_threads; input_len = length input;
          config = chosen_continentalness_config large_biomes;
          sd = (\<lambda>t. if block_base + t < input_len then input ! (block_base + t) else 0);
          noise_a_fork = (\<lambda>t. fst (noise_forks large_biomes (sd t)));
          noise_b_fork = (\<lambda>t. snd (noise_forks large_biomes (sd t)));
          init = (\<lambda>f h member. init_octave enc f h member block_base input_len)
      in if input_len \<le> block_base then Some results
         else map_option snd (do {
           s \<leftarrow> init noise_a_fork (octave_hash (octaves_a config ! 0)) 0 (shared_noise, results);
           s \<leftarrow> init noise_a_fork (octave_hash (octaves_a config ! 1)) 2 s;
           s \<leftarrow> init noise_b_fork (octave_hash (octaves_b config ! 0)) 1 s;
           init noise_b_fork (octave_hash (octaves_b config ! 1)) 3 s
         }))"

text \<open>
  The launch with \<open>threads_per_run / threads_per_block\<close> blocks. The blocks write the results of
  different seeds; \<open>shared\<close> is what each block finds in its shared memory.
\<close>

definition seed_blocks :: nat where "seed_blocks = 65536 div block_threads"

fun run_blocks :: "(nat \<Rightarrow> 'r \<Rightarrow> 'r option) \<Rightarrow> nat list \<Rightarrow> 'r \<Rightarrow> 'r option" where
  "run_blocks f [] results = Some results"
| "run_blocks f (b # bs) results = Option.bind (f b results) (run_blocks f bs)"

definition seed_kernel ::
    "(ImprovedNoise \<Rightarrow> 'w list) \<Rightarrow> bool \<Rightarrow> u64 list \<Rightarrow> (nat \<Rightarrow> 'w list list) \<Rightarrow> 'w result list \<Rightarrow> 'w result list option" where
  "seed_kernel enc large_biomes input shared results =
     run_blocks (\<lambda>b. kernel_block enc large_biomes input b (shared b)) [0..<seed_blocks] results"

subsection \<open>The late initialisation\<close>

text \<open>
  A job of \<open>late_kernel\<close>: one pass of the loop over the inputs. The compare-and-swap on the flag of
  the seed is one step, and the octaves of the stage are built one after the other. The steps of
  different jobs interleave in any order. \<open>late_builds\<close> records the history: the seeds and octaves
  whose initialisation has been run.
\<close>

datatype late_job = Pending | Building "nat list" | Finished

record 'w late_state =
  late_flags :: "nat list"
  late_results :: "'w result list"
  late_jobs :: "late_job list"
  late_builds :: "(nat \<times> nat) list"

definition stage_octaves :: "nat \<Rightarrow> nat list" where
  "stage_octaves stage =
     (if stage = 1 then [4, 6, 8, 10, 5, 7, 9, 11]
      else if stage = 2 then [12, 13]
      else if stage = 3 then [14, 15]
      else if stage = 4 then [16, 17]
      else [])"

inductive late_step ::
    "(ImprovedNoise \<Rightarrow> 'w list) \<Rightarrow> bool \<Rightarrow> nat \<Rightarrow> u64 list \<Rightarrow> SeedPos list \<Rightarrow> 'w late_state \<Rightarrow> 'w late_state \<Rightarrow> bool"
  for enc lb stage seeds inputs where
  cas_success: "i < length (late_jobs s) \<Longrightarrow> late_jobs s ! i = Pending \<Longrightarrow> si = seed_index (inputs ! i) \<Longrightarrow>
    Suc (late_flags s ! si) = stage \<Longrightarrow>
    late_step enc lb stage seeds inputs s
      (s\<lparr>late_flags := (late_flags s)[si := stage], late_jobs := (late_jobs s)[i := Building (stage_octaves stage)]\<rparr>)"
| cas_failure: "i < length (late_jobs s) \<Longrightarrow> late_jobs s ! i = Pending \<Longrightarrow> si = seed_index (inputs ! i) \<Longrightarrow>
    Suc (late_flags s ! si) \<noteq> stage \<Longrightarrow>
    late_step enc lb stage seeds inputs s (s\<lparr>late_jobs := (late_jobs s)[i := Finished]\<rparr>)"
| build: "i < length (late_jobs s) \<Longrightarrow> late_jobs s ! i = Building (m # ms) \<Longrightarrow> si = seed_index (inputs ! i) \<Longrightarrow>
    seed_octave lb (seeds ! si) m = Some noise \<Longrightarrow>
    late_step enc lb stage seeds inputs s
      (s\<lparr>late_results := (late_results s)[si := (late_results s ! si)[m := enc noise]], late_jobs := (late_jobs s)[i := Building ms],
         late_builds := late_builds s @ [(si, m)]\<rparr>)"
| finish: "i < length (late_jobs s) \<Longrightarrow> late_jobs s ! i = Building [] \<Longrightarrow>
    late_step enc lb stage seeds inputs s (s\<lparr>late_jobs := (late_jobs s)[i := Finished]\<rparr>)"

inductive_cases late_stepE: "late_step enc lb stage seeds inputs s s'"

definition late_finished :: "'w late_state \<Rightarrow> bool" where
  "late_finished s \<longleftrightarrow> (\<forall>j \<in> set (late_jobs s). j = Finished)"

text \<open>A launch of \<open>late_kernel\<close>: the states that it can reach, and from the flags and results before to those after.\<close>

definition late_init :: "SeedPos list \<Rightarrow> nat list \<times> 'w result list \<Rightarrow> 'w late_state" where
  "late_init inputs = (\<lambda>(flags, results).
     \<lparr>late_flags = flags, late_results = results, late_jobs = replicate (length inputs) Pending, late_builds = []\<rparr>)"

definition late_run ::
    "(ImprovedNoise \<Rightarrow> 'w list) \<Rightarrow> bool \<Rightarrow> nat \<Rightarrow> u64 list \<Rightarrow> SeedPos list \<Rightarrow> nat list \<times> 'w result list \<Rightarrow> 'w late_state \<Rightarrow> bool" where
  "late_run enc lb stage seeds inputs fr s \<longleftrightarrow> (late_step enc lb stage seeds inputs)\<^sup>*\<^sup>* (late_init inputs fr) s"


subsection \<open>The copy to the results\<close>

text \<open>The shape of the results: 18 octaves of 17 words for each seed.\<close>

definition results_ok :: "nat \<Rightarrow> 'w result list \<Rightarrow> bool" where
  "results_ok n results \<longleftrightarrow> n \<le> length results \<and>
     (\<forall>a < length results. length (results ! a) = 18 \<and> (\<forall>m < 18. length (results ! a ! m) = u4_per_struct))"

definition word_at :: "'w result list \<Rightarrow> nat \<Rightarrow> nat \<Rightarrow> nat \<Rightarrow> 'w" where
  "word_at results a m w = results ! a ! m ! w"

lemma copy_word_nth:
  assumes "results_ok n results" "member < 18"
  shows "results_ok n (copy_word shared member base n i results)"
    and "length (copy_word shared member base n i results) = length results"
    and "a < length results \<Longrightarrow> m < 18 \<Longrightarrow> w < u4_per_struct \<Longrightarrow>
      word_at (copy_word shared member base n i results) a m w =
      (if base \<le> a \<and> a < n \<and> m = member \<and> (a - base) * u4_per_struct + w = i then shared ! (a - base) ! w else word_at results a m w)"
proof -
  show "length (copy_word shared member base n i results) = length results"
    by (simp add: copy_word_def Let_def)
  show "results_ok n (copy_word shared member base n i results)"
    using assms by (auto simp: copy_word_def Let_def results_ok_def nth_list_update)
  assume a: "a < length results" "m < 18" "w < u4_per_struct"
  have l: "length (results ! a) = 18" "length (results ! a ! m) = u4_per_struct" using assms(1) a by (simp_all add: results_ok_def)
  have i: "i = i div u4_per_struct * u4_per_struct + i mod u4_per_struct" by simp
  have e: "(a - base) * u4_per_struct + w = i \<longleftrightarrow> a - base = i div u4_per_struct \<and> w = i mod u4_per_struct"
    using a(3) by (metis div_mult_self3 div_mult_mod_eq div_less add.right_neutral mod_mult_self3 mod_less u4_per_struct_def zero_neq_numeral)
  show "word_at (copy_word shared member base n i results) a m w =
      (if base \<le> a \<and> a < n \<and> m = member \<and> (a - base) * u4_per_struct + w = i then shared ! (a - base) ! w else word_at results a m w)"
  proof (cases "a = base + i div u4_per_struct")
    case True
    then have "a - base = i div u4_per_struct" "base \<le> a" by simp_all
    then show ?thesis unfolding e using a l True assms(2) by (auto simp: copy_word_def Let_def word_at_def nth_list_update)
  next
    case False
    then have "\<not> (base \<le> a \<and> (a - base) * u4_per_struct + w = i)" unfolding e by auto
    then show ?thesis using False a by (auto simp: copy_word_def Let_def word_at_def)
  qed
qed

lemma copy_words_nth:
  assumes "results_ok n results" "member < 18"
  shows "results_ok n (fold (copy_word shared member base n) ws results) \<and>
    length (fold (copy_word shared member base n) ws results) = length results \<and>
    (\<forall>a < length results. \<forall>m < 18. \<forall>w < u4_per_struct.
      word_at (fold (copy_word shared member base n) ws results) a m w =
      (if base \<le> a \<and> a < n \<and> m = member \<and> (a - base) * u4_per_struct + w \<in> set ws then shared ! (a - base) ! w else word_at results a m w))"
  using assms(1)
proof (induction ws arbitrary: results)
  case (Cons i ws)
  note s = copy_word_nth [OF Cons.prems assms(2), where shared = shared and base = base and i = i]
  show ?case using Cons.IH [OF s(1)] s(2,3) by auto
qed simp

lemma results_eqI:
  assumes "results_ok n r1" "results_ok n r2" "length r1 = length r2"
    and "\<And>a m w. a < length r1 \<Longrightarrow> m < 18 \<Longrightarrow> w < u4_per_struct \<Longrightarrow> word_at r1 a m w = word_at r2 a m w"
  shows "r1 = r2"
  using assms by (intro nth_equalityI) (auto simp: results_ok_def word_at_def intro!: nth_equalityI)

text \<open>The words may be written in any order.\<close>

lemma copy_noise_any_order:
  assumes "results_ok n results" "member < 18" "mset ws = mset [0..<block_threads * u4_per_struct]"
  shows "fold (copy_word shared member base n) ws results = copy_noise shared member base n results"
proof -
  let ?cs = "concat (map (\<lambda>t. stride block_threads t (block_threads * u4_per_struct)) [0..<block_threads])"
  have "mset ?cs = mset [0..<block_threads * u4_per_struct]" by (rule mset_strides) (simp add: block_threads_def)
  then have set: "set ws = set ?cs" using assms(3) by (metis mset_eq_setD)
  show ?thesis unfolding copy_noise_def
    by (rule results_eqI [of n]) (use copy_words_nth [OF assms(1,2), of shared base ws] copy_words_nth [OF assms(1,2), of shared base ?cs] set in auto)
qed

lemma word_in_block:
  assumes "w < u4_per_struct"
  shows "d * u4_per_struct + w < block_threads * u4_per_struct \<longleftrightarrow> d < block_threads"
proof
  assume "d * u4_per_struct + w < block_threads * u4_per_struct"
  then have "d * u4_per_struct < block_threads * u4_per_struct" by (rule add_lessD1)
  then show "d < block_threads" by simp
next
  assume "d < block_threads"
  then have "Suc d * u4_per_struct \<le> block_threads * u4_per_struct" by (intro mult_le_mono1) simp
  then show "d * u4_per_struct + w < block_threads * u4_per_struct" using assms by simp
qed

lemma copy_noise_result:
  assumes r: "results_ok n results" "member < 18" and sh: "\<And>t. t < block_threads \<Longrightarrow> base + t < n \<Longrightarrow> length (shared ! t) = u4_per_struct"
  shows "results_ok n (copy_noise shared member base n results)"
    and "length (copy_noise shared member base n results) = length results"
    and "a < length results \<Longrightarrow> m < 18 \<Longrightarrow>
      copy_noise shared member base n results ! a ! m =
      (if base \<le> a \<and> a < base + block_threads \<and> a < n \<and> m = member then shared ! (a - base) else results ! a ! m)"
proof -
  define cs where "cs = concat (map (\<lambda>t. stride block_threads t (block_threads * u4_per_struct)) [0..<block_threads])"
  have "mset cs = mset [0..<block_threads * u4_per_struct]" unfolding cs_def by (rule mset_strides) (simp add: block_threads_def)
  then have cs: "set cs = {0..<block_threads * u4_per_struct}" by (metis mset_eq_setD set_upt)
  note c = copy_words_nth [OF r, of shared base cs, unfolded cs_def, folded copy_noise_def cs_def]
  show ok: "results_ok n (copy_noise shared member base n results)"
    and len: "length (copy_noise shared member base n results) = length results" using c by simp_all
  assume a: "a < length results" "m < 18"
  have in_block: "(a - base) * u4_per_struct + w \<in> set cs \<longleftrightarrow> a < base + block_threads" if "base \<le> a" "w < u4_per_struct" for w
    unfolding cs using word_in_block [OF that(2), of "a - base"] that(1) by auto
  show "copy_noise shared member base n results ! a ! m =
      (if base \<le> a \<and> a < base + block_threads \<and> a < n \<and> m = member then shared ! (a - base) else results ! a ! m)" (is "?l = ?r")
  proof (rule nth_equalityI)
    have l: "length (results ! a ! m) = u4_per_struct" "length ?l = u4_per_struct" using r ok a len by (simp_all add: results_ok_def)
    moreover have "length ?r = u4_per_struct" using sh [of "a - base"] l by auto
    ultimately show "length ?l = length ?r" by simp
    fix w assume "w < length ?l"
    then show "?l ! w = ?r ! w" using c a in_block l by (auto simp: word_at_def)
  qed
qed

subsection \<open>The first kernel\<close>

text \<open>
  The state of the results after the octaves \<open>ms\<close> of the seeds \<open>as\<close> have been built, from the
  results \<open>old\<close> before.
\<close>

definition octaves_built :: "(ImprovedNoise \<Rightarrow> 'w list) \<Rightarrow> bool \<Rightarrow> u64 list \<Rightarrow> nat set \<Rightarrow> nat set \<Rightarrow> 'w result list \<Rightarrow> 'w result list \<Rightarrow> bool" where
  "octaves_built enc lb input as ms old new \<longleftrightarrow> results_ok (length input) new \<and> length new = length old \<and>
     (\<forall>a < length old. \<forall>m < 18. new ! a ! m =
        (if a < length input \<and> a \<in> as \<and> m \<in> ms then enc (the (seed_octave lb (input ! a) m)) else old ! a ! m))"

lemma those_map_the: "(\<forall>x \<in> set xs. f x \<noteq> None) \<Longrightarrow> those (map f xs) = Some (map (\<lambda>x. the (f x)) xs)"
  by (induction xs) auto

definition block_seeds :: "nat \<Rightarrow> nat set" where
  "block_seeds base = {base..<base + block_threads}"

lemma init_octave_result:
  assumes r: "results_ok (length input) results" "member < 18" and enc: "\<And>x. length (enc x) = u4_per_struct"
    and f: "\<And>t. base + t < length input \<Longrightarrow> init_noise (fork_from (f t) hash) = seed_octave lb (input ! (base + t)) member"
    and def: "\<And>a. a < length input \<Longrightarrow> seed_octave lb (input ! a) member \<noteq> None"
  shows "\<exists>sh' new. init_octave enc f hash member base (length input) (sh, results) = Some (sh', new) \<and>
    octaves_built enc lb input (block_seeds base) {member} results new"
proof -
  let ?entry = "\<lambda>t. if base + t < length input then map_option enc (init_noise (fork_from (f t) hash)) else Some (sh ! t)"
  define sh' where "sh' = map (\<lambda>t. the (?entry t)) [0..<block_threads]"
  have "\<forall>t \<in> set [0..<block_threads]. ?entry t \<noteq> None" using f def by simp
  then have "those (map ?entry [0..<block_threads]) = Some sh'" unfolding sh'_def by (rule those_map_the)
  then have i: "init_octave enc f hash member base (length input) (sh, results) = Some (sh', copy_noise sh' member base (length input) results)"
    unfolding init_octave_def by simp
  have entry: "sh' ! t = enc (the (seed_octave lb (input ! (base + t)) member))" if "t < block_threads" "base + t < length input" for t
    using that f [OF that(2)] def [OF that(2)] by (auto simp: sh'_def)
  then have len: "length (sh' ! t) = u4_per_struct" if "t < block_threads" "base + t < length input" for t using that enc by simp
  have "octaves_built enc lb input (block_seeds base) {member} results (copy_noise sh' member base (length input) results)"
    using copy_noise_result [OF r len] entry unfolding octaves_built_def block_seeds_def by auto
  then show ?thesis using i by blast
qed

lemma octaves_built_ok: "octaves_built enc lb input as ms old new \<Longrightarrow> results_ok (length input) new"
  by (simp add: octaves_built_def)

lemma octaves_built_trans:
  assumes "octaves_built enc lb input as ms old mid" "octaves_built enc lb input as ms' mid new"
  shows "octaves_built enc lb input as (ms \<union> ms') old new"
  using assms unfolding octaves_built_def by auto

lemma seed_octave_config:
  "seed_octave lb sd 0 = init_noise (fork_from (fst (noise_forks lb sd)) (octave_hash (octaves_a (chosen_continentalness_config lb) ! 0)))"
  "seed_octave lb sd 2 = init_noise (fork_from (fst (noise_forks lb sd)) (octave_hash (octaves_a (chosen_continentalness_config lb) ! 1)))"
  "seed_octave lb sd 1 = init_noise (fork_from (snd (noise_forks lb sd)) (octave_hash (octaves_b (chosen_continentalness_config lb) ! 0)))"
  "seed_octave lb sd 3 = init_noise (fork_from (snd (noise_forks lb sd)) (octave_hash (octaves_b (chosen_continentalness_config lb) ! 1)))"
  by (simp_all add: seed_octave_def Let_def split_beta)

lemma kernel_block_result:
  assumes r: "results_ok (length input) results" and enc: "\<And>x. length (enc x) = u4_per_struct"
    and def: "\<And>a m. a < length input \<Longrightarrow> m < 4 \<Longrightarrow> seed_octave lb (input ! a) m \<noteq> None"
  shows "\<exists>new. kernel_block enc lb input b sh results = Some new \<and>
    octaves_built enc lb input (block_seeds (b * block_threads)) {..<4} results new"
proof (cases "length input \<le> b * block_threads")
  case True
  then show ?thesis using r by (auto simp: kernel_block_def octaves_built_def block_seeds_def)
next
  case False
  let ?base = "b * block_threads"
  let ?sd = "\<lambda>t. if ?base + t < length input then input ! (?base + t) else 0"
  let ?fa = "\<lambda>t. fst (noise_forks lb (?sd t))" and ?fb = "\<lambda>t. snd (noise_forks lb (?sd t))"
  let ?c = "chosen_continentalness_config lb"
  have step: "\<exists>sh' new. init_octave enc f hash member ?base (length input) (sh, results) = Some (sh', new) \<and>
      octaves_built enc lb input (block_seeds ?base) {member} results new"
    if "(f, hash, member) \<in> {(?fa, octave_hash (octaves_a ?c ! 0), 0), (?fa, octave_hash (octaves_a ?c ! 1), 2),
      (?fb, octave_hash (octaves_b ?c ! 0), 1), (?fb, octave_hash (octaves_b ?c ! 1), 3)}" "results_ok (length input) results"
    for f hash member sh and results :: "'a result list"
    by (rule init_octave_result) (use that enc def in \<open>auto simp: seed_octave_config [symmetric] simp del: One_nat_def\<close>)
  obtain s1 r1 where 1: "init_octave enc ?fa (octave_hash (octaves_a ?c ! 0)) 0 ?base (length input) (sh, results) = Some (s1, r1)"
    "octaves_built enc lb input (block_seeds ?base) {0} results r1" using step [OF insertI1 r, of sh] by blast
  obtain s2 r2 where 2: "init_octave enc ?fa (octave_hash (octaves_a ?c ! 1)) 2 ?base (length input) (s1, r1) = Some (s2, r2)"
    "octaves_built enc lb input (block_seeds ?base) {2} r1 r2" using step [OF insertI2 [OF insertI1] octaves_built_ok [OF 1(2)], of s1] by blast
  obtain s3 r3 where 3: "init_octave enc ?fb (octave_hash (octaves_b ?c ! 0)) 1 ?base (length input) (s2, r2) = Some (s3, r3)"
    "octaves_built enc lb input (block_seeds ?base) {1} r2 r3" using step [OF insertI2 [OF insertI2 [OF insertI1]] octaves_built_ok [OF 2(2)], of s2] by blast
  obtain s4 r4 where 4: "init_octave enc ?fb (octave_hash (octaves_b ?c ! 1)) 3 ?base (length input) (s3, r3) = Some (s4, r4)"
    "octaves_built enc lb input (block_seeds ?base) {3} r3 r4" using step [OF insertI2 [OF insertI2 [OF insertI2 [OF insertI1]]] octaves_built_ok [OF 3(2)], of s3] by blast
  have "kernel_block enc lb input b sh results = Some r4"
    using False 1(1) 2(1) 3(1) 4(1) by (simp add: kernel_block_def Let_def)
  moreover have "{0} \<union> {2} \<union> {1} \<union> {3} = {..<4 :: nat}" by auto
  ultimately show ?thesis using octaves_built_trans [OF octaves_built_trans [OF octaves_built_trans [OF 1(2) 2(2)] 3(2)] 4(2)] by simp
qed

lemma seed_kernel_result:
  assumes "results_ok (length input) results" "length input \<le> 65536" "\<And>x. length (enc x) = u4_per_struct"
    and "\<And>a m. a < length input \<Longrightarrow> m < 4 \<Longrightarrow> seed_octave lb (input ! a) m \<noteq> None"
  shows "\<exists>new. seed_kernel enc lb input shared results = Some new \<and> octaves_built enc lb input UNIV {..<4} results new"
proof -
  have blocks: "\<exists>new. run_blocks (\<lambda>b. kernel_block enc lb input b (shared b)) bs results = Some new \<and>
      octaves_built enc lb input (\<Union>b \<in> set bs. block_seeds (b * block_threads)) {..<4} results new"
    if "results_ok (length input) results" for bs results
    using that
  proof (induction bs arbitrary: results)
    case Nil
    then show ?case by (simp add: octaves_built_def)
  next
    case (Cons b bs)
    from kernel_block_result [of input results enc lb b "shared b"] Cons.prems assms(3,4) obtain mid where
      m: "kernel_block enc lb input b (shared b) results = Some mid" "octaves_built enc lb input (block_seeds (b * block_threads)) {..<4} results mid"
      by blast
    from m(2) have "results_ok (length input) mid" by (simp add: octaves_built_def)
    from Cons.IH [OF this] m show ?case unfolding octaves_built_def by fastforce
  qed
  have "a \<in> block_seeds (a div block_threads * block_threads)" for a
    using div_mult_mod_eq [of a block_threads] mod_less_divisor [of block_threads a] unfolding block_seeds_def
    by (simp add: block_threads_def)
  moreover have "a div block_threads < seed_blocks" if "a < length input" for a
    using that assms(2) by (simp add: seed_blocks_def block_threads_def)
  ultimately have "a \<in> (\<Union>b \<in> set [0..<seed_blocks]. block_seeds (b * block_threads))" if "a < length input" for a
    using that by fastforce
  then show ?thesis using blocks [OF assms(1), of "[0..<seed_blocks]"] unfolding seed_kernel_def octaves_built_def by auto
qed

subsection \<open>The late initialisation\<close>

text \<open>The octaves \<open>ms\<close> of a seed built, the others as before.\<close>

definition built :: "(ImprovedNoise \<Rightarrow> 'w list) \<Rightarrow> bool \<Rightarrow> u64 \<Rightarrow> nat set \<Rightarrow> 'w result \<Rightarrow> 'w result" where
  "built enc lb sd ms r = map (\<lambda>m. if m \<in> ms then enc (the (seed_octave lb sd m)) else r ! m) [0..<length r]"

lemma built_empty [simp]: "built enc lb sd {} r = r"
  by (simp add: built_def map_nth)

lemma built_update:
  assumes "seed_octave lb sd m = Some noise"
  shows "(built enc lb sd ms r)[m := enc noise] = built enc lb sd (insert m ms) r"
proof (rule nth_equalityI)
  fix k assume "k < length ((built enc lb sd ms r)[m := enc noise])"
  then show "(built enc lb sd ms r)[m := enc noise] ! k = built enc lb sd (insert m ms) r ! k"
    using assms by (cases "k = m") (auto simp: built_def)
qed (simp add: built_def)

lemma built_built: "built enc lb sd ms (built enc lb sd ms' r) = built enc lb sd (ms \<union> ms') r"
  by (auto simp: built_def)

text \<open>The jobs that build octaves of a seed, and what a launch has done to a seed so far.\<close>

definition builders :: "SeedPos list \<Rightarrow> late_job list \<Rightarrow> nat \<Rightarrow> nat set" where
  "builders inputs jobs si = {i. i < length jobs \<and> seed_index (inputs ! i) = si \<and> (\<exists>ms. jobs ! i = Building ms)}"

definition seed_builds :: "'w late_state \<Rightarrow> nat \<Rightarrow> nat list" where
  "seed_builds s si = map snd (filter (\<lambda>b. fst b = si) (late_builds s))"

definition seed_progress ::
    "(ImprovedNoise \<Rightarrow> 'w list) \<Rightarrow> bool \<Rightarrow> nat \<Rightarrow> u64 list \<Rightarrow> SeedPos list \<Rightarrow> nat list \<Rightarrow> 'w result list \<Rightarrow> 'w late_state \<Rightarrow> nat \<Rightarrow> bool" where
  "seed_progress enc lb stage seeds inputs flags0 results0 s si \<longleftrightarrow>
     late_flags s ! si = flags0 ! si \<and> late_results s ! si = results0 ! si \<and> builders inputs (late_jobs s) si = {} \<and> seed_builds s si = [] \<or>
     Suc (flags0 ! si) = stage \<and> late_flags s ! si = stage \<and> si \<in> seed_index ` set inputs \<and>
     (builders inputs (late_jobs s) si = {} \<and> seed_builds s si = stage_octaves stage \<and>
        late_results s ! si = built enc lb (seeds ! si) (set (stage_octaves stage)) (results0 ! si) \<or>
      (\<exists>i ms ds. builders inputs (late_jobs s) si = {i} \<and> late_jobs s ! i = Building ms \<and> stage_octaves stage = ds @ ms \<and> seed_builds s si = ds \<and>
        late_results s ! si = built enc lb (seeds ! si) (set ds) (results0 ! si)))"

definition late_inv ::
    "(ImprovedNoise \<Rightarrow> 'w list) \<Rightarrow> bool \<Rightarrow> nat \<Rightarrow> u64 list \<Rightarrow> SeedPos list \<Rightarrow> nat list \<Rightarrow> 'w result list \<Rightarrow> 'w late_state \<Rightarrow> bool" where
  "late_inv enc lb stage seeds inputs flags0 results0 s \<longleftrightarrow>
     length (late_flags s) = length flags0 \<and> length (late_results s) = length results0 \<and> length (late_jobs s) = length inputs \<and>
     (\<forall>si < length flags0. seed_progress enc lb stage seeds inputs flags0 results0 s si) \<and>
     (\<forall>i < length inputs. late_jobs s ! i \<noteq> Pending \<longrightarrow> Suc (late_flags s ! seed_index (inputs ! i)) \<noteq> stage)"

lemma builders_other:
  "i < length jobs \<Longrightarrow> si \<noteq> seed_index (inputs ! i) \<Longrightarrow> builders inputs (jobs[i := j]) si = builders inputs jobs si"
  by (auto simp: builders_def nth_list_update)

lemma builders_building:
  "i < length jobs \<Longrightarrow> builders inputs (jobs[i := Building ms]) (seed_index (inputs ! i)) = insert i (builders inputs jobs (seed_index (inputs ! i)))"
  by (auto simp: builders_def nth_list_update)

lemma builders_finished:
  "i < length jobs \<Longrightarrow> builders inputs (jobs[i := Finished]) (seed_index (inputs ! i)) = builders inputs jobs (seed_index (inputs ! i)) - {i}"
  by (auto simp: builders_def nth_list_update)

lemma seed_progress_cong:
  assumes "seed_progress enc lb stage seeds inputs flags0 results0 s si"
    and "late_flags s' ! si = late_flags s ! si" "late_results s' ! si = late_results s ! si" "seed_builds s' si = seed_builds s si"
    and "builders inputs (late_jobs s') si = builders inputs (late_jobs s) si"
    and "\<And>k. k \<in> builders inputs (late_jobs s) si \<Longrightarrow> late_jobs s' ! k = late_jobs s ! k"
  shows "seed_progress enc lb stage seeds inputs flags0 results0 s' si"
  using assms(1,6) unfolding seed_progress_def assms(2-5) by auto

lemma seed_progress_other:
  assumes "seed_progress enc lb stage seeds inputs flags0 results0 s si" "i < length (late_jobs s)" "si \<noteq> seed_index (inputs ! i)"
    and "late_flags s' ! si = late_flags s ! si" "late_results s' ! si = late_results s ! si" "seed_builds s' si = seed_builds s si"
    and "late_jobs s' = (late_jobs s)[i := j]"
  shows "seed_progress enc lb stage seeds inputs flags0 results0 s' si"
proof (rule seed_progress_cong [OF assms(1,4-6)])
  show "builders inputs (late_jobs s') si = builders inputs (late_jobs s) si" using assms by (simp add: builders_other)
  show "late_jobs s' ! k = late_jobs s ! k" if "k \<in> builders inputs (late_jobs s) si" for k
    using that assms(3,7) by (cases "k = i") (auto simp: builders_def)
qed

lemma building_progress:
  assumes "seed_progress enc lb stage seeds inputs flags0 results0 s (seed_index (inputs ! i))" "i < length (late_jobs s)" "late_jobs s ! i = Building ms"
  shows "Suc (flags0 ! seed_index (inputs ! i)) = stage \<and> late_flags s ! seed_index (inputs ! i) = stage \<and>
    seed_index (inputs ! i) \<in> seed_index ` set inputs \<and> builders inputs (late_jobs s) (seed_index (inputs ! i)) = {i} \<and>
    (\<exists>ds. stage_octaves stage = ds @ ms \<and> seed_builds s (seed_index (inputs ! i)) = ds \<and>
      late_results s ! seed_index (inputs ! i) = built enc lb (seeds ! seed_index (inputs ! i)) (set ds) (results0 ! seed_index (inputs ! i)))"
proof -
  have "i \<in> builders inputs (late_jobs s) (seed_index (inputs ! i))" using assms(2,3) by (simp add: builders_def)
  then show ?thesis using assms(1,3) unfolding seed_progress_def by auto
qed

text \<open>A step changes one job, and of the seeds only that of the job.\<close>

lemma late_inv_job:
  assumes inv: "late_inv enc lb stage seeds inputs flags0 results0 s" and i: "i < length (late_jobs s)" "late_jobs s' = (late_jobs s)[i := j]"
    and len: "length (late_flags s') = length (late_flags s)" "length (late_results s') = length (late_results s)"
    and same: "\<And>sj. sj \<noteq> seed_index (inputs ! i) \<Longrightarrow>
      late_flags s' ! sj = late_flags s ! sj \<and> late_results s' ! sj = late_results s ! sj \<and> seed_builds s' sj = seed_builds s sj"
    and own: "seed_progress enc lb stage seeds inputs flags0 results0 s' (seed_index (inputs ! i))"
      "Suc (late_flags s' ! seed_index (inputs ! i)) \<noteq> stage"
  shows "late_inv enc lb stage seeds inputs flags0 results0 s'"
proof -
  have sp: "seed_progress enc lb stage seeds inputs flags0 results0 s' sj" if "sj < length flags0" for sj
  proof (cases "sj = seed_index (inputs ! i)")
    case False
    have "seed_progress enc lb stage seeds inputs flags0 results0 s sj" using inv that by (simp add: late_inv_def)
    from seed_progress_other [OF this i(1) False _ _ _ i(2)] same [OF False] show ?thesis by simp
  qed (use own in simp)
  have "Suc (late_flags s' ! seed_index (inputs ! k)) \<noteq> stage" if k: "k < length inputs" "late_jobs s' ! k \<noteq> Pending" for k
  proof (cases "seed_index (inputs ! k) = seed_index (inputs ! i)")
    case False
    then have "late_jobs s ! k \<noteq> Pending" using k(2) i by (cases "k = i") auto
    then show ?thesis using inv k same [OF False] by (auto simp: late_inv_def)
  qed (use own in simp)
  then show ?thesis using inv sp i len unfolding late_inv_def by simp
qed

lemma late_inv_step:
  assumes inv: "late_inv enc lb stage seeds inputs flags0 results0 s" and st: "late_step enc lb stage seeds inputs s s'"
    and in_range: "\<forall>p \<in> set inputs. seed_index p < length flags0" "length results0 = length flags0"
  shows "late_inv enc lb stage seeds inputs flags0 results0 s'"
proof -
  have len: "length (late_flags s) = length flags0" "length (late_results s) = length flags0" "length (late_jobs s) = length inputs"
    using inv in_range(2) by (simp_all add: late_inv_def)
  have job: "seed_index (inputs ! i) < length flags0" "seed_progress enc lb stage seeds inputs flags0 results0 s (seed_index (inputs ! i))"
    "late_jobs s ! i \<noteq> Pending \<Longrightarrow> Suc (late_flags s ! seed_index (inputs ! i)) \<noteq> stage"
    "seed_index (inputs ! i) \<in> seed_index ` set inputs" if "i < length (late_jobs s)" for i
    using inv in_range that by (auto simp: late_inv_def)
  from st show ?thesis
  proof cases
    case (cas_success i si)
    have "builders inputs (late_jobs s) si = {}" "late_results s ! si = results0 ! si" "Suc (flags0 ! si) = stage" "seed_builds s si = []"
      using job(2) [OF cas_success(2)] cas_success by (auto simp: seed_progress_def)
    then have "seed_progress enc lb stage seeds inputs flags0 results0 s' si"
      using cas_success job(1,4) [OF cas_success(2)] len builders_building [OF cas_success(2), of inputs "stage_octaves stage"]
      unfolding seed_progress_def by (auto simp: seed_builds_def intro!: exI [of _ "stage_octaves stage"])
    then show ?thesis using cas_success len job(1) [OF cas_success(2)]
      by (intro late_inv_job [OF inv cas_success(2)]) (auto simp: seed_builds_def)
  next
    case (cas_failure i si)
    have "i \<notin> builders inputs (late_jobs s) si" using cas_failure by (auto simp: builders_def)
    then have b: "builders inputs (late_jobs s') si = builders inputs (late_jobs s) si"
      using cas_failure builders_finished [OF cas_failure(2), of inputs] by auto
    have k: "late_jobs s' ! k = late_jobs s ! k" if "k \<in> builders inputs (late_jobs s) si" for k
      using that \<open>i \<notin> builders inputs (late_jobs s) si\<close> cas_failure(1) by (cases "k = i") auto
    have "seed_progress enc lb stage seeds inputs flags0 results0 s' si"
      by (rule seed_progress_cong [OF job(2) [OF cas_failure(2)], folded cas_failure(4)]) (simp_all add: b k, simp_all add: cas_failure(1) seed_builds_def)
    then show ?thesis using cas_failure by (intro late_inv_job [OF inv cas_failure(2)]) (auto simp: seed_builds_def)
  next
    case (build i m ms si noise)
    from building_progress [OF job(2) [OF build(2)] build(2,3)] obtain ds where
      d: "Suc (flags0 ! si) = stage" "late_flags s ! si = stage" "si \<in> seed_index ` set inputs" "builders inputs (late_jobs s) si = {i}"
        "stage_octaves stage = ds @ m # ms" "seed_builds s si = ds" "late_results s ! si = built enc lb (seeds ! si) (set ds) (results0 ! si)"
      unfolding build(4) by blast
    have r: "late_results s' ! si = built enc lb (seeds ! si) (set (ds @ [m])) (results0 ! si)"
      using build d(7) built_update [OF build(5), of enc "set ds" "results0 ! si"] len job(1) [OF build(2)] by simp
    have "builders inputs (late_jobs s') si = {i}" using build d(4) builders_building [OF build(2), of inputs ms] by simp
    moreover have "seed_builds s' si = ds @ [m]" using build(1) d(6) by (simp add: seed_builds_def)
    ultimately have "seed_progress enc lb stage seeds inputs flags0 results0 s' si"
      using d r build unfolding seed_progress_def by (intro disjI2 conjI exI [of _ i] exI [of _ ms] exI [of _ "ds @ [m]"]) simp_all
    then show ?thesis using build d(2) by (intro late_inv_job [OF inv build(2)]) (auto simp: seed_builds_def)
  next
    case (finish i)
    let ?si = "seed_index (inputs ! i)"
    from building_progress [OF job(2) [OF finish(2)] finish(2,3)] have
      d: "Suc (flags0 ! ?si) = stage" "late_flags s ! ?si = stage" "?si \<in> seed_index ` set inputs" "builders inputs (late_jobs s) ?si = {i}"
        "seed_builds s' ?si = stage_octaves stage" "late_results s ! ?si = built enc lb (seeds ! ?si) (set (stage_octaves stage)) (results0 ! ?si)"
      using finish(1) by (auto simp: seed_builds_def)
    have "builders inputs (late_jobs s') ?si = {}" using finish d(4) builders_finished [OF finish(2), of inputs] by simp
    then have "seed_progress enc lb stage seeds inputs flags0 results0 s' ?si" using d finish unfolding seed_progress_def by simp
    then show ?thesis using finish d(2) by (intro late_inv_job [OF inv finish(2)]) (auto simp: seed_builds_def)
  qed
qed

text \<open>The result of a launch.\<close>

definition late_reached :: "nat \<Rightarrow> SeedPos list \<Rightarrow> nat list \<Rightarrow> nat \<Rightarrow> bool" where
  "late_reached stage inputs flags si \<longleftrightarrow> si \<in> seed_index ` set inputs \<and> Suc (flags ! si) = stage"

lemma late_run_inv:
  assumes "late_run enc lb stage seeds inputs (flags, results) s"
    and in_range: "\<forall>p \<in> set inputs. seed_index p < length flags" "length results = length flags"
  shows "late_inv enc lb stage seeds inputs flags results s"
  using assms(1) unfolding late_run_def
proof (induction rule: rtranclp_induct)
  case base
  have "builders inputs (replicate (length inputs) Pending) si = {}" for si by (auto simp: builders_def)
  then show ?case by (auto simp: late_inv_def late_init_def seed_progress_def seed_builds_def)
qed (auto intro: late_inv_step [OF _ _ in_range])

lemma late_run_result:
  assumes run: "late_run enc lb stage seeds inputs (flags, results) s" and fin: "late_finished s"
    and in_range: "\<forall>p \<in> set inputs. seed_index p < length flags" "length results = length flags"
  shows "length (late_flags s) = length flags \<and> length (late_results s) = length results \<and>
    (\<forall>si < length flags. late_flags s ! si = (if late_reached stage inputs flags si then stage else flags ! si) \<and>
       late_results s ! si = (if late_reached stage inputs flags si then built enc lb (seeds ! si) (set (stage_octaves stage)) (results ! si) else results ! si) \<and>
       seed_builds s si = (if late_reached stage inputs flags si then stage_octaves stage else []))"
proof -
  have inv: "late_inv enc lb stage seeds inputs flags results s" by (rule late_run_inv [OF run in_range])
  have nb: "builders inputs (late_jobs s) si = {}" for si using fin nth_mem by (force simp: builders_def late_finished_def)
  have "late_flags s ! si = (if late_reached stage inputs flags si then stage else flags ! si) \<and>
      late_results s ! si = (if late_reached stage inputs flags si then built enc lb (seeds ! si) (set (stage_octaves stage)) (results ! si) else results ! si) \<and>
      seed_builds s si = (if late_reached stage inputs flags si then stage_octaves stage else [])"
    if si: "si < length flags" for si
  proof -
    have sp: "seed_progress enc lb stage seeds inputs flags results s si" using inv si by (simp add: late_inv_def)
    have "Suc (late_flags s ! si) \<noteq> stage" if "si \<in> seed_index ` set inputs"
    proof -
      from that obtain i where i: "i < length inputs" "si = seed_index (inputs ! i)" by (auto simp: in_set_conv_nth)
      then have "late_jobs s ! i = Finished" using fin inv by (auto simp: late_finished_def late_inv_def)
      then show ?thesis using inv i by (auto simp: late_inv_def)
    qed
    then show ?thesis using sp nb [of si] unfolding seed_progress_def late_reached_def by auto
  qed
  then show ?thesis using inv by (auto simp: late_inv_def)
qed


text \<open>Every launch ends: a step always is possible and takes work off the jobs.\<close>

definition job_work :: "nat \<Rightarrow> late_job \<Rightarrow> nat" where
  "job_work stage j = (case j of Pending \<Rightarrow> length (stage_octaves stage) + 2 | Building ms \<Rightarrow> Suc (length ms) | Finished \<Rightarrow> 0)"

lemma job_work_simps:
  "job_work stage Pending = length (stage_octaves stage) + 2" "job_work stage (Building ms) = Suc (length ms)" "job_work stage Finished = 0"
  by (simp_all add: job_work_def)

definition late_work :: "nat \<Rightarrow> 'w late_state \<Rightarrow> nat" where
  "late_work stage s = (\<Sum>j \<leftarrow> late_jobs s. job_work stage j)"

lemma job_work_update:
  assumes "i < length js" "job_work stage j < job_work stage (js ! i)"
  shows "(\<Sum>j \<leftarrow> js[i := j]. job_work stage j) < (\<Sum>j \<leftarrow> js. job_work stage j)"
  using assms
proof (induction js arbitrary: i)
  case (Cons a js)
  then show ?case by (cases i) auto
qed simp

lemma late_step_work: "late_step enc lb stage seeds inputs s s' \<Longrightarrow> late_work stage s' < late_work stage s"
  by (erule late_stepE; simp add: late_work_def; rule job_work_update; simp add: job_work_simps)

lemma late_step_possible:
  assumes "late_inv enc lb stage seeds inputs flags0 results0 s" "\<not> late_finished s"
    and "\<forall>p \<in> set inputs. seed_index p < length flags0"
    and def: "\<And>p m. p \<in> set inputs \<Longrightarrow> m \<in> set (stage_octaves stage) \<Longrightarrow> seed_octave lb (seeds ! seed_index p) m \<noteq> None"
  shows "\<exists>s'. late_step enc lb stage seeds inputs s s'"
proof -
  from assms(2) obtain i where i: "i < length (late_jobs s)" "late_jobs s ! i \<noteq> Finished" by (auto simp: late_finished_def in_set_conv_nth)
  then have p: "inputs ! i \<in> set inputs" using assms(1) by (simp add: late_inv_def)
  show ?thesis
  proof (cases "late_jobs s ! i")
    case Pending
    then show ?thesis using late_step.cas_success [OF i(1) Pending refl] late_step.cas_failure [OF i(1) Pending refl] by blast
  next
    case (Building ms)
    have "seed_progress enc lb stage seeds inputs flags0 results0 s (seed_index (inputs ! i))" using assms(1,3) p by (simp add: late_inv_def)
    from building_progress [OF this i(1) Building] have sub: "set ms \<subseteq> set (stage_octaves stage)" by auto
    show ?thesis
    proof (cases ms)
      case Nil
      then show ?thesis using late_step.finish [OF i(1)] Building by blast
    next
      case (Cons m ms')
      then obtain noise where "seed_octave lb (seeds ! seed_index (inputs ! i)) m = Some noise" using def [OF p, of m] sub by auto
      then show ?thesis using late_step.build [OF i(1) Building [unfolded Cons] refl] by blast
    qed
  qed (use i in simp)
qed

lemma late_step_wf: "wfP (\<lambda>s' s. late_step enc lb stage seeds inputs s s')"
  by (rule wfp_if_convertible_to_nat [where f = "late_work stage"]) (rule late_step_work)

lemma late_run_ends:
  assumes in_range: "\<forall>p \<in> set inputs. seed_index p < length flags" "length results = length flags"
    and def: "\<And>p m. p \<in> set inputs \<Longrightarrow> m \<in> set (stage_octaves stage) \<Longrightarrow> seed_octave lb (seeds ! seed_index p) m \<noteq> None"
    and run: "late_run enc lb stage seeds inputs (flags, results) s"
  shows "\<exists>s'. late_run enc lb stage seeds inputs (flags, results) s' \<and> late_finished s'"
  using run
proof (induction "late_work stage s" arbitrary: s rule: less_induct)
  case less
  show ?case
  proof (cases "late_finished s")
    case False
    then obtain t where t: "late_step enc lb stage seeds inputs s t"
      using late_step_possible [OF late_run_inv [OF less.prems in_range] _ in_range(1) def] by blast
    with less.prems have "late_run enc lb stage seeds inputs (flags, results) t" unfolding late_run_def by (rule rtranclp.rtrancl_into_rtrancl)
    then show ?thesis by (rule less.hyps [OF late_step_work [OF t]])
  qed (use less.prems in blast)
qed


subsection \<open>The stages\<close>

text \<open>
  The number of octaves that a seed of a stage has: the first kernel builds four, and after each late
  launch it is the number that the instance of \<open>KernelFilter2\<close> that follows it samples.
\<close>

definition octave_count :: "nat \<Rightarrow> nat" where
  "octave_count stage = (if stage = 0 then 4 else n_octaves (filter_2_runs ! (stage - 1)))"

lemma octave_count_values [simp]:
  "octave_count 0 = 4" "octave_count (Suc 0) = 12" "octave_count (Suc (Suc 0)) = 14" "octave_count 2 = 14" "octave_count 3 = 16" "octave_count 4 = 18"
  by (simp_all add: octave_count_def filter_2_runs_def)











subsection \<open>Properties\<close>

text \<open>
  C0. \<open>KernelSeed1::kernel\<close> fills exactly the octaves 0A, 0B, 1A and 1B of every seed of its input, each
  with the octave of that seed, and changes nothing else, whatever its shared memory held before and
  in whatever order the threads of a block copy their words; or the initialisation of one of these
  octaves never returns.
\<close>

theorem seed_kernel_builds_octaves:
  assumes "results_ok (length input) results" "length input \<le> 65536" "\<forall>x. length (enc x) = u4_per_struct"
  shows "((\<exists>new. seed_kernel enc lb input shared results = Some new \<and> octaves_built enc lb input UNIV {..<4} results new) \<or>
     (\<exists>a m. a < length input \<and> m < 4 \<and> seed_octave lb (input ! a) m = None)) \<and>
    (\<forall>sh member base ws. member < 18 \<longrightarrow> mset ws = mset [0..<block_threads * u4_per_struct] \<longrightarrow>
      fold (copy_word sh member base (length input)) ws results = copy_noise sh member base (length input) results)"
proof (intro conjI disjCI allI impI)
  assume "\<nexists>a m. a < length input \<and> m < 4 \<and> seed_octave lb (input ! a) m = None"
  then show "\<exists>new. seed_kernel enc lb input shared results = Some new \<and> octaves_built enc lb input UNIV {..<4} results new"
    by (intro seed_kernel_result) (use assms in metis)+
qed (rule copy_noise_any_order [OF assms(1)])

theorem seed_kernel_builds_octaves_witness:
  "(\<exists>new. seed_kernel (\<lambda>x. replicate 17 (0::nat)) False [1, 2] (\<lambda>b. []) (replicate 65536 (replicate 18 (replicate 17 1))) = Some new \<and>
      octaves_built (\<lambda>x. replicate 17 0) False [1, 2] UNIV {..<4} (replicate 65536 (replicate 18 (replicate 17 1))) new) \<or>
   (\<exists>a m. a < length [1, 2 :: u64] \<and> m < 4 \<and> seed_octave False ([1, 2] ! a) m = None)"
  using seed_kernel_builds_octaves [of "[1, 2]" "replicate 65536 (replicate 18 (replicate 17 (1::nat)))" "\<lambda>x. replicate 17 0" False "\<lambda>b. []"]
  by (simp add: results_ok_def u4_per_struct_def)

text \<open>
  C0. The late initialisation works for every interleaving of its threads. Every interleaving ends: the
  steps are well-founded, and a state that can be reached is finished or can step, unless the
  initialisation of an octave never returns. When it has ended, every seed of the inputs whose flag was at
  the stage before has its flag raised and the octaves of the stage built, each of them initialised
  exactly once, while every other seed and every other octave is as before.
\<close>

theorem late_launch_correct:
  assumes "\<forall>p \<in> set inputs. seed_index p < length flags" "length results = length flags"
  shows "wfP (\<lambda>s' s. late_step enc lb stage seeds inputs s s') \<and>
    ((\<forall>s. late_run enc lb stage seeds inputs (flags, results) s \<longrightarrow> late_finished s \<or> (\<exists>s'. late_step enc lb stage seeds inputs s s')) \<or>
     (\<exists>p m. p \<in> set inputs \<and> m \<in> set (stage_octaves stage) \<and> seed_octave lb (seeds ! seed_index p) m = None)) \<and>
    (\<forall>s. late_run enc lb stage seeds inputs (flags, results) s \<and> late_finished s \<longrightarrow>
      length (late_flags s) = length flags \<and> length (late_results s) = length results \<and>
      (\<forall>si < length flags. late_flags s ! si = (if late_reached stage inputs flags si then stage else flags ! si) \<and>
         late_results s ! si = (if late_reached stage inputs flags si then built enc lb (seeds ! si) (set (stage_octaves stage)) (results ! si)
                                else results ! si) \<and>
         seed_builds s si = (if late_reached stage inputs flags si then stage_octaves stage else [])))"
proof (intro conjI disjCI)
  assume "\<nexists>p m. p \<in> set inputs \<and> m \<in> set (stage_octaves stage) \<and> seed_octave lb (seeds ! seed_index p) m = None"
  then show "\<forall>s. late_run enc lb stage seeds inputs (flags, results) s \<longrightarrow> late_finished s \<or> (\<exists>s'. late_step enc lb stage seeds inputs s s')"
    using late_step_possible [OF late_run_inv [OF _ assms] _ assms(1)] by metis
qed (use late_run_result [OF _ _ assms] late_step_wf in blast)+

theorem late_launch_correct_witness:
  "(\<exists>s. late_run (\<lambda>x. [xo x]) False 2 [5, 6] [\<lparr>seed_index = 1, pos_x = 0, pos_z = 0\<rparr>, \<lparr>seed_index = 1, pos_x = 9, pos_z = 0\<rparr>]
       ([1, 1], [replicate 18 [0], replicate 18 [0]]) s \<and> late_finished s \<and>
     late_flags s ! 0 = 1 \<and> late_flags s ! 1 = 2 \<and> late_results s ! 0 = replicate 18 [0] \<and>
     late_results s ! 1 = built (\<lambda>x. [xo x]) False 6 {12, 13} (replicate 18 [0]) \<and> seed_builds s 1 = [12, 13]) \<or>
   seed_octave False 6 12 = None \<or> seed_octave False 6 13 = None"
proof -
  let ?ins = "[\<lparr>seed_index = 1, pos_x = 0, pos_z = 0\<rparr>, \<lparr>seed_index = 1, pos_x = 9, pos_z = 0\<rparr>]"
  let ?fr = "([1, 1], [replicate 18 [0], replicate 18 [0]])"
  let ?run = "late_run (\<lambda>x. [xo x]) False 2 [5, 6] ?ins ?fr"
  note correct = late_launch_correct [of ?ins "[1, 1]" "[replicate 18 [0], replicate 18 [0]]" "\<lambda>x. [xo x]" False 2 "[5, 6]"]
  have result: "late_flags s ! 0 = 1 \<and> late_flags s ! 1 = 2 \<and> late_results s ! 0 = replicate 18 [0] \<and>
      late_results s ! 1 = built (\<lambda>x. [xo x]) False 6 {12, 13} (replicate 18 [0]) \<and> seed_builds s 1 = [12, 13]" if "?run s" "late_finished s" for s
    using correct that by (simp add: late_reached_def stage_octaves_def less_Suc_eq numeral_2_eq_2)
  have "\<exists>s. ?run s \<and> late_finished s" if "seed_octave False 6 12 \<noteq> None" "seed_octave False 6 13 \<noteq> None"
    by (rule late_run_ends [where s = "late_init ?ins ?fr"]) (use that in \<open>auto simp: stage_octaves_def late_run_def\<close>)
  then show ?thesis using result by blast
qed



end
