(* ===== verification/Cpu_Gpu.thy ===== *)
theory Cpu_Gpu
  imports Kernel_Seed1 Biome_Noise
begin

text \<open>
  The continentalness noise of a seed on both sides: the octaves that the cpu builds with
  \<open>setBiomeSeed\<close> (\<open>biomenoise.c\<close>) and those that the kernels build (\<open>gpu.cu\<close>).
\<close>

text \<open>
  The device replaces a generator whose state is zero, cubiomes does not. A state is zero when a hash
  equals the fork that it is combined with.
\<close>

definition fork_distinct :: "XrsrRandomFork \<Rightarrow> XrsrForkHash \<Rightarrow> bool" where
  "fork_distinct f h \<longleftrightarrow> \<not> (fork_lo f = hash_lo h \<and> fork_hi f = hash_hi h)"

definition no_zero_state :: "bool \<Rightarrow> u64 \<Rightarrow> bool" where
  "no_zero_state lb sd \<longleftrightarrow>
     fork_distinct (XrsrRandom_seed_fork sd) (noise_hash (chosen_continentalness_config lb)) \<and>
     list_all (\<lambda>h. fork_distinct (fst (noise_forks lb sd)) h \<and> fork_distinct (snd (noise_forks lb sd)) h) hash_octave"

lemma fork_from_plain:
  "fork_distinct f h \<Longrightarrow> fork_from f h = \<lparr>lo = fork_lo f XOR hash_lo h, hi = fork_hi f XOR hash_hi h\<rparr>"
  by (auto simp: fork_distinct_def fork_from_def XrsrRandom_make_def fix_zero_def or_eq_0 xor_eq_0)

lemma octave_hash_table: "map (\<lambda>h. (hash_lo h, hash_hi h)) hash_octave = md5_octave_n"
  by (simp add: hash_octave_def md5_octave_n_def)

lemma octave_hash_nth:
  assumes "k < 13"
  shows "md5_octave_n ! k = (hash_lo (hash_octave ! k), hash_hi (hash_octave ! k))"
proof -
  have "k < length hash_octave" using assms by (simp add: hash_octave_def)
  then show ?thesis by (simp add: octave_hash_table [symmetric])
qed

lemma to_device_update [simp]: "to_device (p\<lparr>pn_amplitude := a, pn_lacunarity := l\<rparr>) = to_device p"
  by (simp add: to_device_def)

lemma octave_init_device:
  assumes "fork_distinct f (hash_octave ! k)" "k < 13"
  shows "init_noise (fork_from f (hash_octave ! k)) =
    map_option (to_device \<circ> fst) (xPerlinInit \<lparr>lo = fork_lo f XOR fst (md5_octave_n ! k), hi = fork_hi f XOR snd (md5_octave_n ! k)\<rparr>)"
  by (simp add: xPerlinInit_device fork_from_plain [OF assms(1)] octave_hash_nth [OF assms(2)])

lemma xOctave_loop_device:
  assumes "\<forall>k < 13. fork_distinct f (hash_octave ! k)" "\<forall>a \<in> set amps. a \<noteq> 0" "0 \<le> n" "0 \<le> 12 + omin" "12 + omin + int (i + length amps) \<le> 13"
  shows "map_option (map to_device) (xOctave_loop (fork_lo f) (fork_hi f) omin (- 1) i n amps l q) =
    those (map (\<lambda>k. init_noise (fork_from f (hash_octave ! nat (12 + omin + int k)))) [i..<i + length amps])"
  using assms(2,3,5)
proof (induction amps arbitrary: i n l q)
  case (Cons a amps)
  let ?k = "nat (12 + omin + int i)"
  let ?init = "xPerlinInit \<lparr>lo = fork_lo f XOR fst (md5_octave_n ! ?k), hi = fork_hi f XOR snd (md5_octave_n ! ?k)\<rparr>"
  have k: "?k < 13" "12 + omin + int i \<in> {0..<13}" using Cons.prems(3) assms(4) by auto
  have u: "[i..<i + length (a # amps)] = i # [Suc i..<Suc i + length amps]" by (simp add: upt_conv_Cons del: upt_Suc)
  have dev: "init_noise (fork_from f (hash_octave ! ?k)) = map_option (to_device \<circ> fst) ?init"
    using assms(1) k by (intro octave_init_device) auto
  have ih: "map_option (map to_device) (xOctave_loop (fork_lo f) (fork_hi f) omin (- 1) (Suc i) (n + 1) amps (mul64 l 2) (mul64 q (1/2))) =
      those (map (\<lambda>k. init_noise (fork_from f (hash_octave ! nat (12 + omin + int k)))) [Suc i..<Suc i + length amps])"
    by (rule Cons.IH) (use Cons.prems in auto)
  have n: "n \<noteq> - 1" "a \<noteq> 0" using Cons.prems by auto
  show ?case unfolding u list.map those.simps dev ih [symmetric]
    using k n by (cases ?init) (auto simp: option.map_comp comp_def split: option.split)
qed simp

text \<open>The hashes of the configuration of the device.\<close>

lemma config_hashes:
  fixes lb
  defines "c \<equiv> chosen_continentalness_config lb" and "fo \<equiv> if lb then 1 else (3 :: nat)"
  assumes "k < 9"
  shows "octave_hash (octaves_a c ! k) = hash_octave ! (fo + k)" "octave_hash (octaves_b c ! k) = hash_octave ! (fo + k)"
proof -
  have loop: "octave_hash (fst (noise_config_loop f i amps a b) ! k) = hash_octave ! nat (f + 12 + int (i + k)) \<and>
      octave_hash (snd (noise_config_loop f i amps a b) ! k) = hash_octave ! nat (f + 12 + int (i + k))"
    if "k < length amps" for f i amps a b k
    using that
  proof (induction amps arbitrary: i a b k)
    case (Cons x amps)
    then show ?case by (cases k) (auto simp: Let_def split_beta)
  qed simp
  show "octave_hash (octaves_a c ! k) = hash_octave ! (fo + k)" "octave_hash (octaves_b c ! k) = hash_octave ! (fo + k)"
    using assms(3) loop [of k "amplitudes continentalness_parameters" "first_octave continentalness_parameters" 0]
      loop [of k "amplitudes continentalness_large_parameters" "first_octave continentalness_large_parameters" 0]
    by (simp_all add: c_def fo_def chosen_continentalness_config_def make_normal_noise_config_def Let_def split_beta
        continentalness_parameters_def continentalness_large_parameters_def nat_add_distrib del: noise_config_loop.simps)
qed

lemma xOctaveInit_device:
  assumes "\<forall>k < 13. fork_distinct (fst (fork g)) (hash_octave ! k)" "- 12 \<le> omin" "omin \<le> 0"
    and "\<forall>a \<in> set amps. a \<noteq> 0" "length amps \<le> 9" "omin + int (length amps) \<le> 1"
  shows "map_option (\<lambda>(octs, g'). (map to_device octs, g')) (xOctaveInit g amps omin (- 1)) =
    map_option (\<lambda>octs. (octs, snd (fork g)))
      (those (map (\<lambda>k. init_noise (fork_from (fst (fork g)) (hash_octave ! nat (12 + omin + int k)))) [0..<length amps]))"
proof -
  let ?f = "fst (fork g)"
  have f: "fork_lo ?f = fst (xNextLong g)" "fork_hi ?f = fst (xNextLong (snd (xNextLong g)))" "snd (fork g) = snd (xNextLong (snd (xNextLong g)))"
    by (simp_all add: fork_def xNextLong_eq nextLong_def split_beta Let_def)
  have loop: "those (map (\<lambda>k. init_noise (fork_from ?f (hash_octave ! nat (12 + omin + int k)))) [0..<length amps]) =
      map_option (map to_device) (xOctave_loop (fst (xNextLong g)) (fst (xNextLong (snd (xNextLong g)))) omin (- 1) 0 0 amps l q)" for l q
    using xOctave_loop_device [OF assms(1,4), of 0 omin 0 l q] assms by (simp add: f)
  have o: "- omin \<in> {0..<13}" using assms by auto
  show ?thesis unfolding loop [of "lacuna_ini ! nat (- omin)" "persist_ini ! length amps"] f(3)
    using o assms(5) by (simp add: xOctaveInit_def split_beta Let_def option.map_comp comp_def)
qed

definition continentalness_octaves :: "bool \<Rightarrow> u64 \<Rightarrow> (ImprovedNoise list \<times> ImprovedNoise list) option" where
  "continentalness_octaves lb sd =
     Option.bind (those (map (\<lambda>k. seed_octave lb sd (2 * k)) [0..<9])) (\<lambda>as.
       map_option (\<lambda>bs. (as, bs)) (those (map (\<lambda>k. seed_octave lb sd (2 * k + 1)) [0..<9])))"

lemma double_init_device:
  assumes "\<forall>k < 13. fork_distinct (fst (fork g)) (hash_octave ! k)" "\<forall>k < 13. fork_distinct (fst (fork (snd (fork g)))) (hash_octave ! k)"
    and "- 12 \<le> omin" "omin \<le> 0" "\<forall>a \<in> set amps. a \<noteq> 0" "length amps \<le> 9" "omin + int (length amps) \<le> 1"
  shows "map_option (\<lambda>(d, n). (map to_device (octA d), map to_device (octB d))) (xDoublePerlinInit g amps omin (- 1)) =
    Option.bind (those (map (\<lambda>k. init_noise (fork_from (fst (fork g)) (hash_octave ! nat (12 + omin + int k)))) [0..<length amps])) (\<lambda>as.
      map_option (\<lambda>bs. (as, bs))
        (those (map (\<lambda>k. init_noise (fork_from (fst (fork (snd (fork g)))) (hash_octave ! nat (12 + omin + int k)))) [0..<length amps])))"
proof -
  note A = xOctaveInit_device [OF assms(1,3-7)] and B = xOctaveInit_device [OF assms(2,3-7)]
  show ?thesis
  proof (cases "xOctaveInit g amps omin (- 1)")
    case None
    then show ?thesis using A by (simp add: xDoublePerlinInit_def split_beta)
  next
    case (Some p)
    obtain oa g1 where p: "p = (oa, g1)" by (cases p)
    then have g1: "g1 = snd (fork g)"
      and as: "those (map (\<lambda>k. init_noise (fork_from (fst (fork g)) (hash_octave ! nat (12 + omin + int k)))) [0..<length amps]) = Some (map to_device oa)"
      using A [symmetric] Some by auto
    show ?thesis using B [symmetric] Some unfolding as p g1
      by (cases "xOctaveInit (snd (fork g)) amps omin (- 1)") (auto simp: xDoublePerlinInit_def Some p g1)
  qed
qed

lemma hash_octave_all: "list_all P hash_octave \<longleftrightarrow> (\<forall>k < 13. P (hash_octave ! k))"
proof -
  have "length hash_octave = 13" by (simp add: hash_octave_def)
  then show ?thesis by (simp add: list_all_length)
qed

lemma continentalness_device:
  assumes "no_zero_state lb sd"
  shows "map_option (\<lambda>(d, n). (map to_device (octA d), map to_device (octB d)))
      (init_climate_seed (fst (xNextLong (xSetSeed sd))) (fst (xNextLong (snd (xNextLong (xSetSeed sd))))) lb NP_CONTINENTALNESS (- 1)) =
    continentalness_octaves lb sd"
proof -
  let ?c = "chosen_continentalness_config lb" and ?f = "XrsrRandom_seed_fork sd" and ?omin = "if lb then - 11 else - 9 :: int"
  let ?g = "fork_from ?f (noise_hash ?c)"
  let ?amps = "[1, 1, 2, 2, 2, 1, 1, 1, 1] :: rat list"
  have f: "fst (noise_forks lb sd) = fst (fork ?g)" "snd (noise_forks lb sd) = fst (fork (snd (fork ?g)))"
    by (simp_all add: noise_forks_def double_fork_eq split_beta Let_def)
  have seed: "fork_lo ?f = fst (xNextLong (xSetSeed sd))" "fork_hi ?f = fst (xNextLong (snd (xNextLong (xSetSeed sd))))"
    by (simp_all add: seed_fork_eq fork_def nextLong_def xNextLong_eq xSetSeed_eq split_beta Let_def)
  have g: "?g = \<lparr>lo = fork_lo ?f XOR hash_lo (noise_hash ?c), hi = fork_hi ?f XOR hash_hi (noise_hash ?c)\<rparr>"
    using assms by (intro fork_from_plain) (simp add: no_zero_state_def)
  have init: "init_climate_seed (fork_lo ?f) (fork_hi ?f) lb NP_CONTINENTALNESS (- 1) = xDoublePerlinInit ?g ?amps ?omin (- 1)"
    unfolding g by (simp add: init_climate_seed_def np_defs chosen_continentalness_config_def make_normal_noise_config_def Let_def split_beta
        hash_continentalness_def hash_continentalness_large_def)
  have dis: "\<forall>k < 13. fork_distinct (fst (fork ?g)) (hash_octave ! k)" "\<forall>k < 13. fork_distinct (fst (fork (snd (fork ?g)))) (hash_octave ! k)"
    using assms unfolding no_zero_state_def hash_octave_all f by auto
  have k: "seed_octave lb sd (2 * k) = init_noise (fork_from (fst (fork ?g)) (hash_octave ! nat (12 + ?omin + int k)))"
      "seed_octave lb sd (2 * k + 1) = init_noise (fork_from (fst (fork (snd (fork ?g)))) (hash_octave ! nat (12 + ?omin + int k)))" if "k < 9" for k
    using config_hashes [OF that, of lb] f by (simp_all add: seed_octave_def Let_def split_beta nat_add_distrib)
  have m: "map (\<lambda>k. seed_octave lb sd (2 * k)) [0..<9] = map (\<lambda>k. init_noise (fork_from (fst (fork ?g)) (hash_octave ! nat (12 + ?omin + int k)))) [0..<9]"
    "map (\<lambda>k. seed_octave lb sd (2 * k + 1)) [0..<9] =
       map (\<lambda>k. init_noise (fork_from (fst (fork (snd (fork ?g)))) (hash_octave ! nat (12 + ?omin + int k)))) [0..<9]"
    by (rule map_cong [OF refl]; use k in simp)+
  have l: "length ?amps = 9" by simp
  have om: "- 12 \<le> ?omin" "?omin \<le> 0" "\<forall>a \<in> set ?amps. a \<noteq> 0" "length ?amps \<le> 9" "?omin + int (length ?amps) \<le> 1" by simp_all
  have "map_option (\<lambda>(d, n). (map to_device (octA d), map to_device (octB d))) (xDoublePerlinInit ?g ?amps ?omin (- 1)) =
      continentalness_octaves lb sd"
    using double_init_device [OF dis om] unfolding continentalness_octaves_def m l .
  then show ?thesis unfolding seed [symmetric] init .
qed

text \<open>The forks of the seed 1, step by step.\<close>

lemma seed_1_fork: "XrsrRandom_seed_fork 1 = \<lparr>fork_lo = 17413076366490032638, fork_hi = 6451672561743293322\<rparr>"
proof -
  have s: "1 XOR XRSR_SILVER_RATIO = 7640891576956012808" "7640891576956012808 + XRSR_GOLDEN_RATIO = 594862322569659677"
    by (simp_all add: XRSR_SILVER_RATIO_def XRSR_GOLDEN_RATIO_def)
  have m: "mix64 7640891576956012808 = 5272463233947570727" "mix64 594862322569659677 = 1927618558350093866"
    by (simp_all add: mix64_def XRSR_MIX1_def XRSR_MIX2_def Let_def)
  have r: "(1927618558350093866 :: u64) XOR 5272463233947570727 = 6047150940743072781" "(rol64 5272463233947570727 49 XOR 6047150940743072781 XOR push_bit 21 6047150940743072781 :: u64) = 8053876859613580" "(rol64 6047150940743072781 28 :: u64) = 15916442091454905531"
    "(rol64 (5272463233947570727 + 1927618558350093866) 17 + 5272463233947570727 :: u64) = 17413076366490032638" "(rol64 (8053876859613580 + 15916442091454905531) 17 + 8053876859613580 :: u64) = 6451672561743293322"
    by (simp_all add: rol64_def)
  show ?thesis unfolding XrsrRandom_seed_fork_def s Let_def m r ..
qed

lemma seed_1_noise_forks:
  "noise_forks False 1 = (\<lparr>fork_lo = 9788838065652355161, fork_hi = 206353321881027966\<rparr>, \<lparr>fork_lo = 3491839903623102179, fork_hi = 14013558106341219912\<rparr>)"
proof -
  have h: "noise_hash (chosen_continentalness_config False) = hash_continentalness"
    by (simp add: chosen_continentalness_config_def make_normal_noise_config_def Let_def split_beta)
  have g: "fork_from (XrsrRandom_seed_fork 1) hash_continentalness = \<lparr>lo = 8228006354162352028, hi = 17739338792991785767\<rparr>"
    by (simp add: seed_1_fork fork_from_def hash_continentalness_def XrsrRandom_make_def fix_zero_def)
  have r: "(rol64 (8228006354162352028 + 17739338792991785767) 17 + 8228006354162352028 :: u64) = 9788838065652355161"
    "(17739338792991785767 :: u64) XOR 8228006354162352028 = 9511895476997586107"
    "(rol64 8228006354162352028 49 XOR 9511895476997586107 XOR push_bit 21 9511895476997586107 :: u64) = 3058239272712349626"
    "(rol64 9511895476997586107 28 :: u64) = 11849357423162691752"
    "(rol64 (3058239272712349626 + 11849357423162691752) 17 + 3058239272712349626 :: u64) = 206353321881027966"
    "(11849357423162691752 :: u64) XOR 3058239272712349626 = 10232270308239947538"
    "(rol64 3058239272712349626 49 XOR 10232270308239947538 XOR push_bit 21 10232270308239947538 :: u64) = 13062983348513642308"
    "(rol64 10232270308239947538 28 :: u64) = 2199642766615512378"
    "(rol64 (13062983348513642308 + 2199642766615512378) 17 + 13062983348513642308 :: u64) = 3491839903623102179"
    "(2199642766615512378 :: u64) XOR 13062983348513642308 = 12380317672068321918"
    "(rol64 13062983348513642308 49 XOR 12380317672068321918 XOR push_bit 21 12380317672068321918 :: u64) = 12664562181792446337"
    "(rol64 12380317672068321918 28 :: u64) = 4873450221628881813"
    "(rol64 (12664562181792446337 + 4873450221628881813) 17 + 12664562181792446337 :: u64) = 14013558106341219912"
    by (simp_all add: rol64_def)
  show ?thesis unfolding noise_forks_def Let_def h g XrsrRandom_double_fork_def XrsrRandom.select_convs r ..
qed

lemma seed_1_no_zero: "no_zero_state False 1"
proof -
  have h: "noise_hash (chosen_continentalness_config False) = hash_continentalness"
    by (simp add: chosen_continentalness_config_def make_normal_noise_config_def Let_def split_beta)
  show ?thesis by (simp add: no_zero_state_def h seed_1_fork seed_1_noise_forks fork_distinct_def hash_continentalness_def hash_octave_def)
qed

subsection \<open>Properties\<close>

text \<open>
  C4. The devices and the cpu test the same noise: for every seed the 18 octaves of the continentalness
  that \<open>KernelSeed1\<close> builds are those of \<open>setBiomeSeed\<close>, with the same tables and the offsets cut to 16
  fractional bits, and they are built on one side exactly if they are on the other. This holds unless
  a fork of the seed coincides with a hash, where only the device replaces the zero state.
\<close>

theorem cpu_gpu_continentalness:
  assumes "no_zero_state lb sd"
  shows "map_option (\<lambda>(d, n). (map to_device (octA d), map to_device (octB d)))
      (init_climate_seed (fst (xNextLong (xSetSeed sd))) (fst (xNextLong (snd (xNextLong (xSetSeed sd))))) lb NP_CONTINENTALNESS (- 1)) =
    continentalness_octaves lb sd"
  using assms by (rule continentalness_device)

theorem cpu_gpu_continentalness_witness:
  "map_option (\<lambda>(d, n). (map to_device (octA d), map to_device (octB d)))
      (init_climate_seed (fst (xNextLong (xSetSeed 1))) (fst (xNextLong (snd (xNextLong (xSetSeed 1))))) False NP_CONTINENTALNESS (- 1)) =
    continentalness_octaves False 1"
  by (rule cpu_gpu_continentalness [OF seed_1_no_zero])

end
