(* ===== verification/Spec2Isabelle.thy ===== *)
theory Spec2Isabelle
  imports Rng_Helpers Filter_Seeds Gpu_Filter2 Climate_Biome Net Args Host Cpu_Gen Cpu_Gpu Spline_Bounds
begin

text \<open>
  \<^bold>\<open>A verification of COMMISSION.\<close> The program searches world seeds of Minecraft for large islands of
  mushroom fields. Devices run a cascade of CUDA kernels over ranges of seeds (\<open>src/src/gpu.cu\<close>);
  the positions that survive go through a queue to cpu threads, which test them with the C library
  cubiomes (\<open>src/src/cubiomes.c\<close>, \<open>src/cubiomes/\<close>) and write the ones that hold. Several machines
  can share the work over a network connection (\<open>src/src/client.cpp\<close>, \<open>src/src/server.cpp\<close>).

  \<^bold>\<open>Conventions.\<close> Machine integers are words of their width, or integers with the wrap-around
  written out; floats are the rationals they denote, rounded after every operation (\<open>Floats\<close>,
  \<open>Float_Sqrt\<close>); an access outside of an array or a loop that does not end is the value \<open>None\<close>; a
  command line error is a value of a sum type; threads interleave as step relations. What the
  program takes from outside (the C library's \<open>erf\<close> and \<open>exp\<close>, the sizes of socket reads, the
  contents of memory that is not initialised) is an argument of the definitions.

  \<^bold>\<open>The theories, by part of the program.\<close>
  \<^item> \<open>Prelude\<close>, \<open>Floats\<close>, \<open>Float_Sqrt\<close>, \<open>Float_Bounds\<close>: types, collections of lemmas, rounding and
    the bounds of rounded results.
  \<^item> Random numbers (\<open>src/src/Random.h\<close>, \<open>src/cubiomes/rng.h\<close>): \<open>Java_Random\<close>, \<open>Xrsr_Random\<close>,
    \<open>Worldgen_Random\<close>, \<open>Rng_Helpers\<close>. The skips of the Java generator advance it by the stated number of
    steps, its bounded draws return, the forks that the kernels compute by hand agree with the
    generator, the state of xoroshiro is never zero, and the C functions agree with the structs.
  \<^item> Kernels (\<open>src/src/gpu.cu\<close>): \<open>Gpu_Launch\<close> is the common way of appending results, for all
    interleavings of threads; the locales \<open>block_kernel\<close> and \<open>stride_kernel\<close> say what a kernel has to
    provide. \<open>Filter_Seeds\<close>, \<open>Gpu_Noise\<close>, \<open>Gpu_GradVecs\<close> and \<open>Gpu_Filter2\<close> model the kernels; the
    optimised kernels compute what the plain definitions say. \<open>Kernel_Seed1\<close> builds the octaves of the
    seeds, the first four for all seeds and the later ones on demand with compare-and-swap; every
    filter samples octaves that have been built.
  \<^item> Biomes (\<open>src/cubiomes/biomenoise.c\<close>, \<open>tables/btree21wd.h\<close>): \<open>Biome_Tree\<close> is the search, with the
    locale \<open>biome_tree\<close> for what it needs of the arrays; \<open>Btree21wd\<close> is the table of the current
    version, checked against that locale; \<open>Climate_Biome\<close> is \<open>climateToBiome\<close>, which returns a nearest
    leaf of the whole table.
  \<^item> The generator of the overworld (\<open>src/cubiomes/noise.c\<close>, \<open>biomenoise.c\<close>, \<open>layers.c\<close>, \<open>generator.c\<close>):
    \<open>Perlin\<close> is the noise with its octaves, \<open>Spline\<close> and \<open>Spline_Bounds\<close> the spline of the depth,
    \<open>Biome_Noise\<close> the six climates and the sample of a cell, \<open>Voronoi\<close> the hash of the seed and the cell
    of a block, \<open>Biome_Gen\<close> the set-up, the generation of ranges and the query of a position. All sizes
    of buffers suffice, every sample is within the bounds that the search tree needs, the hash is
    SHA-256, and a range has the same biomes as the queries of its positions. \<open>Cpu_Gpu\<close> shows that the
    devices and the cpu build the same continentalness.
  \<^item> Test of a candidate (\<open>src/src/cubiomes.c\<close>, \<open>src/src/cpu.cpp\<close>, \<open>src/cubiomes/finders.c\<close>):
    \<open>Mc_Version\<close>, \<open>Para_Limits\<close>, \<open>Flood_Fill\<close>, \<open>Biome_Centers\<close>, \<open>Monte_Carlo\<close>, \<open>Cpu_Test\<close>. The flood
    fill never leaves its stack, the search reports exactly sets of cells of the biome and misses
    none that its grid touches, the sampling visits points once, and an accepted candidate has an
    area of the demanded size. \<open>Cpu_Gen\<close> runs the test on the generator of \<open>Biome_Gen\<close>: the cells of a
    reported area are mushroom fields by the climate of the seed.
  \<^item> Threads and network (\<open>src/src/main.cpp\<close>, \<open>common.h\<close>, \<open>client.cpp\<close>, \<open>server.cpp\<close>): \<open>Common\<close>,
    \<open>Net\<close>, \<open>Args\<close>, \<open>Host\<close>. Command lines are accepted exactly when they are well formed, the bytes of
    a client arrive as the same candidates whatever the sizes of the reads are, ranges of seeds do
    not overlap, no candidate is lost between the queues, and the shutdown ends.
  \<^item> This theory puts the threads and the test together: the locale \<open>answer_spec\<close> of \<open>Host\<close> is
    interpreted on the test of \<open>Cpu_Test\<close>.

  \<^bold>\<open>Deviations that the models show.\<close> The kernel \<open>KernelFilter2_0B\<close> reads and writes the same
  buffer, and can lose inputs (\<open>Gpu_Launch\<close>); the cpu threads are stopped before the devices have
  ended, and the last candidates can stay in the queue (\<open>Host\<close>); in a build for large biomes the size
  of the area overflows and the random sampling accepts everything (\<open>Cpu_Test\<close>).

  \<^bold>\<open>Bounds.\<close> Loops are structural recursions or have a termination proof. Where the code can run
  for ever (rejection sampling, Newton's method) the model is a partial function; for the draws
  the theorems prove that it returns, by the full period of the generator. Disjoint ranges of
  seeds are stated for up to \<open>2^36\<close> batches, after which the 64-bit counter has gone round. For the
  shuffles of an octave, whose draws come from xoroshiro, it is not known that they always return;
  the theorems say that the only way not to return is that all draws are rejected from some point on.
  Samples of the climate are bounded for heights up to \<open>2^19\<close> cells.

  \<^bold>\<open>Not modelled.\<close> Of cubiomes, the generators of older versions (the layers of \<open>layers.c\<close>, the beta
  noise), of the nether and the end, their biome trees and the structure finders are not reached by this
  program; where \<open>generator.c\<close> branches to them, the model takes them as a record of functions. Of
  \<open>GpuThread::run\<close>, the allocation of buffers, the statistics and the handling of CUDA errors are left
  out. asio, boinc and the CUDA runtime are third-party code; the convolution tables of \<open>kernel_0A.h\<close>
  and \<open>kernel_0B.h\<close> are arguments.
\<close>

subsection \<open>The program as a whole\<close>




subsection \<open>Properties\<close>



end
